(* ===== verification/NetSim_Prelude.thy ===== *)
theory NetSim_Prelude
  imports Main Complex_Main "HOL-Library.Word"
begin

text \<open>
  Shared vocabulary of the development: the machine integers of the C sources, the
  faults a C function can end in, sequencing of functions that may fault, the byte
  counts the sources keep in doubles, and the linked-list library \<open>List.h\<close> declares.
\<close>

section \<open>Machine types\<close>

text \<open>
  \<open>UINT\<close>, \<open>UINT32\<close> and \<open>NETSIM_ID\<close> are 32 bits wide on the platform the sources are
  built for (Windows x64), \<open>UINT16\<close> and \<open>UINT8\<close> are 16 and 8. A C \<open>double\<close> is a \<open>real\<close>:
  the development does not model rounding.
\<close>

type_synonym u8 = "8 word"
type_synonym u16 = "16 word"
type_synonym u32 = "32 word"
type_synonym u64 = "64 word"
type_synonym netsim_id = "32 word"

text \<open>The cast \<open>(UINT)x\<close> of a double, and the implicit conversion of a \<open>UINT\<close> to double.\<close>

definition UINT_of_double :: "real \<Rightarrow> u32" where
  "UINT_of_double x = word_of_int \<lfloor>x\<rfloor>"

abbreviation double_of_UINT :: "u32 \<Rightarrow> real" where
  "double_of_UINT u \<equiv> real (unat u)"

lemma UINT_of_double_of_nat [simp]: "UINT_of_double (real n) = of_nat n"
  by (simp add: UINT_of_double_def)

lemma unat_UINT_of_double:
  "0 \<le> x \<Longrightarrow> x < 2 ^ 32 \<Longrightarrow> unat (UINT_of_double x) = nat \<lfloor>x\<rfloor>"
proof -
  assume x: "0 \<le> x" "x < 2 ^ 32"
  then have "0 \<le> \<lfloor>x\<rfloor>" "\<lfloor>x\<rfloor> < 2 ^ 32"
    by (simp_all add: floor_less_iff)
  then show ?thesis
    by (simp add: UINT_of_double_def unat_eq_nat_uint uint_word_of_int)
qed

section \<open>Faults\<close>

text \<open>
  What a call can end in besides a result: the dereference of a NULL pointer, a write past
  the end of an allocated array, an access to memory that was freed, a loop that never ends,
  a division of integers by zero, the conversion of an infinite value to an integer.
\<close>

datatype fault = NullDeref | OutOfBounds | UseAfterFree | Diverges | DivByZero | BadConversion

type_synonym 'a result = "fault + 'a"

definition rbind :: "'a result \<Rightarrow> ('a \<Rightarrow> 'b result) \<Rightarrow> 'b result" where
  "rbind m f = (case m of Inl e \<Rightarrow> Inl e | Inr x \<Rightarrow> f x)"

lemma rbind_simps [simp]:
  "rbind (Inl e) f = Inl e"
  "rbind (Inr x) f = f x"
  by (simp_all add: rbind_def)

lemma rbind_Inr_iff: "rbind m f = Inr y \<longleftrightarrow> (\<exists>x. m = Inr x \<and> f x = Inr y)"
  by (cases m) simp_all

lemma rbind_Inl_iff: "rbind m f = Inl e \<longleftrightarrow> m = Inl e \<or> (\<exists>x. m = Inr x \<and> f x = Inl e)"
  by (cases m) simp_all

lemma rbind_InrE:
  assumes "rbind m f = Inr y"
  obtains x where "m = Inr x" and "f x = Inr y"
  using assms by (auto simp: rbind_Inr_iff)

text \<open>A value the code dereferences: NULL is a fault.\<close>

definition deref :: "'a option \<Rightarrow> 'a result" where
  "deref p = (case p of None \<Rightarrow> Inl NullDeref | Some x \<Rightarrow> Inr x)"

lemma deref_simps [simp]:
  "deref None = Inl NullDeref"
  "deref (Some x) = Inr x"
  by (simp_all add: deref_def)

lemma deref_Inr_iff [simp]: "deref p = Inr x \<longleftrightarrow> p = Some x"
  by (cases p) simp_all

section \<open>Loops over a range of machine integers\<close>

text \<open>
  \<open>for (i = a; i <= b; i++) body\<close> with an unsigned \<open>i\<close>. When \<open>b\<close> is the largest value of the
  type the test never fails: the counter wraps and the loop does not end. The number of
  steps is bounded by one more than the test can succeed.
\<close>

fun for_le :: "nat \<Rightarrow> 'w::len word \<Rightarrow> 'w word \<Rightarrow> ('w word \<Rightarrow> 'a \<Rightarrow> 'a result) \<Rightarrow> 'a \<Rightarrow> 'a result" where
  "for_le 0 i b body x = Inl Diverges"
| "for_le (Suc fuel) i b body x =
     (if i \<le> b then rbind (body i x) (\<lambda>x'. for_le fuel (i + 1) b body x') else Inr x)"

definition for_le_fuel :: "'w::len word \<Rightarrow> nat" where
  "for_le_fuel b = Suc (Suc (unat b))"

text \<open>The values the counter takes, when the loop ends.\<close>

definition upto_word :: "'w::len word \<Rightarrow> 'w word \<Rightarrow> 'w word list" where
  "upto_word a b = map of_nat [unat a ..< Suc (unat b)]"

fun fold_result :: "('i \<Rightarrow> 'a \<Rightarrow> 'a result) \<Rightarrow> 'i list \<Rightarrow> 'a \<Rightarrow> 'a result" where
  "fold_result body [] x = Inr x"
| "fold_result body (i # is) x = rbind (body i x) (fold_result body is)"

lemma unat_plus_one: "(a :: 'w::len word) \<noteq> - 1 \<Longrightarrow> unat (a + 1) = Suc (unat a)"
  by (metis add.commute eq_neg_iff_add_eq_0 unatSuc)

lemma unat_of_nat_less: "n < unat (b :: 'w::len word) \<Longrightarrow> unat (of_nat n :: 'w word) = n"
proof -
  assume "n < unat b"
  then have "n < 2 ^ LENGTH('w)" using unsigned_less [of b] by (rule order.strict_trans)
  then show ?thesis by (simp add: unat_of_nat)
qed

lemma upto_word_Cons: "a \<le> b \<Longrightarrow> b \<noteq> - 1 \<Longrightarrow> upto_word a b = a # upto_word (a + 1) b"
proof -
  assume a: "a \<le> b" "b \<noteq> - 1"
  then have "a \<noteq> - 1" using word_order.extremum_unique by auto
  then have "unat (a + 1) = Suc (unat a)" by (rule unat_plus_one)
  with a show ?thesis by (simp add: upto_word_def upt_conv_Cons word_le_nat_alt del: upt_Suc)
qed

lemma upto_word_Nil: "b < a \<Longrightarrow> upto_word a b = []"
  by (simp add: upto_word_def word_less_nat_alt)

lemma set_upto_word: "set (upto_word a b) = {i. a \<le> i \<and> i \<le> b}"
proof
  have "unat (of_nat n :: 'a word) = n" if "n < Suc (unat b)" for n
    using that unat_of_nat_less [of n b] by (cases "n = unat b") auto
  then show "set (upto_word a b) \<subseteq> {i. a \<le> i \<and> i \<le> b}"
    by (auto simp: upto_word_def word_le_nat_alt simp del: upt_Suc)
  show "{i. a \<le> i \<and> i \<le> b} \<subseteq> set (upto_word a b)"
    unfolding upto_word_def set_map set_upt
    by (intro subsetI image_eqI [of _ _ "unat _"]) (auto simp: word_le_nat_alt)
qed

lemma for_le_eq:
  assumes "b \<noteq> - 1" and "0 < fuel" and "Suc (unat b) < fuel + unat a"
  shows "for_le fuel a b body x = fold_result body (upto_word a b) x"
  using assms(2,3)
proof (induction fuel arbitrary: a x)
  case 0
  then show ?case by simp
next
  case (Suc fuel)
  show ?case
  proof (cases "a \<le> b")
    case False
    then show ?thesis using upto_word_Nil [of b a] by simp
  next
    case True
    with assms(1) have "a \<noteq> - 1" using word_order.extremum_unique by auto
    then have "unat (a + 1) = Suc (unat a)" by (rule unat_plus_one)
    then have "for_le fuel (a + 1) b body = fold_result body (upto_word (a + 1) b)"
      using Suc.prems True by (intro ext Suc.IH) (simp_all add: word_le_nat_alt)
    then show ?thesis using True assms(1) by (simp add: upto_word_Cons)
  qed
qed

text \<open>With the largest bound the loop does not end, whatever the number of steps allowed.\<close>

lemma for_le_max:
  "(\<And>i x. \<exists>y. body i x = Inr y) \<Longrightarrow> for_le fuel a (- 1) body x = Inl Diverges"
proof (induction fuel arbitrary: a x)
  case (Suc fuel)
  obtain y where "body a x = Inr y" using Suc.prems by blast
  with Suc.IH [OF Suc.prems] show ?case by simp
qed simp

corollary for_le_upto:
  "b \<noteq> - 1 \<Longrightarrow> for_le (for_le_fuel b) a b body x = fold_result body (upto_word a b) x"
  by (rule for_le_eq) (simp_all add: for_le_fuel_def)

lemma fold_result_append:
  "fold_result body (is @ js) x = rbind (fold_result body is x) (fold_result body js)"
  by (induction "is" arbitrary: x) (auto simp: rbind_def split: sum.splits)

text \<open>\<open>for (i = a; i < b; i++) body\<close>: the counter cannot pass \<open>b\<close>, so this loop always ends.\<close>

definition below_word :: "'w::len word \<Rightarrow> 'w word \<Rightarrow> 'w word list" where
  "below_word a b = map of_nat [unat a ..< unat b]"

fun for_lt :: "nat \<Rightarrow> 'w::len word \<Rightarrow> 'w word \<Rightarrow> ('w word \<Rightarrow> 'a \<Rightarrow> 'a result) \<Rightarrow> 'a \<Rightarrow> 'a result" where
  "for_lt 0 i b body x = Inl Diverges"
| "for_lt (Suc fuel) i b body x =
     (if i < b then rbind (body i x) (\<lambda>x'. for_lt fuel (i + 1) b body x') else Inr x)"

definition for_lt_fuel :: "'w::len word \<Rightarrow> nat" where
  "for_lt_fuel b = Suc (unat b)"

lemma below_word_Cons: "a < b \<Longrightarrow> below_word a b = a # below_word (a + 1) b"
proof -
  assume a: "a < b"
  then have "a \<noteq> - 1" using word_order.extremum_strict by auto
  then have "unat (a + 1) = Suc (unat a)" by (rule unat_plus_one)
  with a show ?thesis by (simp add: below_word_def upt_conv_Cons word_less_nat_alt)
qed

lemma below_word_Nil: "b \<le> a \<Longrightarrow> below_word a b = []"
  by (simp add: below_word_def word_le_nat_alt)

lemma set_below_word: "set (below_word a b) = {i. a \<le> i \<and> i < b}"
proof
  show "set (below_word a b) \<subseteq> {i. a \<le> i \<and> i < b}"
    by (auto simp: below_word_def word_le_nat_alt word_less_nat_alt unat_of_nat_less)
  show "{i. a \<le> i \<and> i < b} \<subseteq> set (below_word a b)"
    unfolding below_word_def set_map set_upt
    by (intro subsetI image_eqI [of _ _ "unat _"])
      (auto simp: word_le_nat_alt word_less_nat_alt)
qed

lemma for_lt_eq:
  assumes "0 < fuel" and "unat b < fuel + unat a"
  shows "for_lt fuel a b body x = fold_result body (below_word a b) x"
  using assms
proof (induction fuel arbitrary: a x)
  case (Suc fuel)
  show ?case
  proof (cases "a < b")
    case False
    then show ?thesis using below_word_Nil [of b a] by simp
  next
    case True
    then have "a \<noteq> - 1" using word_order.extremum_strict by auto
    then have "unat (a + 1) = Suc (unat a)" by (rule unat_plus_one)
    then have "for_lt fuel (a + 1) b body = fold_result body (below_word (a + 1) b)"
      using Suc.prems True by (intro ext Suc.IH) (simp_all add: word_less_nat_alt)
    then show ?thesis using True by (simp add: below_word_Cons)
  qed
qed simp

corollary for_lt_below:
  "for_lt (for_lt_fuel b) a b body x = fold_result body (below_word a b) x"
  by (rule for_lt_eq) (simp_all add: for_lt_fuel_def)

text \<open>Reasoning over the values of a counter: what holds at \<open>i\<close> before a step holds at the next value after it.\<close>

lemma fold_below_induct:
  assumes "fold_result body (below_word a b) x = Inr z" and "a \<le> b" and "P a x"
    and "\<And>i x y. a \<le> i \<Longrightarrow> i < b \<Longrightarrow> P i x \<Longrightarrow> body i x = Inr y \<Longrightarrow> P (i + 1) y"
  shows "P b z"
  using assms
proof (induction "unat b - unat a" arbitrary: a x)
  case 0
  then have "a = b" by (simp add: word_le_nat_alt word_unat_eq_iff)
  with 0 show ?case by (simp add: below_word_Nil)
next
  case (Suc n)
  then have ab: "a < b" by (auto simp: word_less_nat_alt)
  then have "a \<noteq> - 1" using word_order.extremum_strict by auto
  then have u: "unat (a + 1) = Suc (unat a)" by (rule unat_plus_one)
  obtain y where y: "body a x = Inr y" "fold_result body (below_word (a + 1) b) y = Inr z"
    using Suc.prems(1) below_word_Cons [OF ab] by (auto elim: rbind_InrE)
  show ?case
  proof (rule Suc.hyps(1) [OF _ y(2)])
    show "n = unat b - unat (a + 1)" "a + 1 \<le> b"
      using Suc.hyps(2) u ab by (simp_all add: word_le_nat_alt word_less_nat_alt)
    show "P (a + 1) y" using Suc.prems(3,4) y(1) ab by simp
    show "\<And>i x y. a + 1 \<le> i \<Longrightarrow> i < b \<Longrightarrow> P i x \<Longrightarrow> body i x = Inr y \<Longrightarrow> P (i + 1) y"
      using Suc.prems(4) u by (simp add: word_le_nat_alt)
  qed
qed

lemma fold_upto_induct:
  assumes "fold_result body (upto_word a b) x = Inr z" and "b \<noteq> - 1" and "unat a \<le> Suc (unat b)"
    and "P (unat a) x"
    and "\<And>i x y. a \<le> i \<Longrightarrow> i \<le> b \<Longrightarrow> P (unat i) x \<Longrightarrow> body i x = Inr y \<Longrightarrow> P (Suc (unat i)) y"
  shows "P (Suc (unat b)) z"
  using assms(1,3-)
proof (induction "Suc (unat b) - unat a" arbitrary: a x)
  case 0
  then have "unat a = Suc (unat b)" by simp
  with 0 show ?case by (simp add: upto_word_Nil word_less_nat_alt)
next
  case (Suc n)
  then have ab: "a \<le> b" by (simp add: word_le_nat_alt)
  with assms(2) have "a \<noteq> - 1" using word_order.extremum_unique by auto
  then have u: "unat (a + 1) = Suc (unat a)" by (rule unat_plus_one)
  obtain y where y: "body a x = Inr y" "fold_result body (upto_word (a + 1) b) y = Inr z"
    using Suc.prems(1) upto_word_Cons [OF ab assms(2)] by (auto elim: rbind_InrE)
  show ?case
  proof (rule Suc.hyps(1) [OF _ y(2)])
    show "n = Suc (unat b) - unat (a + 1)" "unat (a + 1) \<le> Suc (unat b)"
      using Suc.hyps(2) u ab by (simp_all add: word_le_nat_alt)
    show "P (unat (a + 1)) y" using Suc.prems(3,4) y(1) ab u by simp
    show "\<And>i x y. a + 1 \<le> i \<Longrightarrow> i \<le> b \<Longrightarrow> P (unat i) x \<Longrightarrow> body i x = Inr y \<Longrightarrow> P (Suc (unat i)) y"
      using Suc.prems(4) u by (simp add: word_le_nat_alt)
  qed
qed

section \<open>Lists with an element taken out\<close>

definition remove_at :: "nat \<Rightarrow> 'a list \<Rightarrow> 'a list" where
  "remove_at i xs = take i xs @ drop (Suc i) xs"

lemma remove_at_Nil [simp]: "remove_at i [] = []"
  by (simp add: remove_at_def)

lemma remove_at_0 [simp]: "remove_at 0 (x # xs) = xs"
  by (simp add: remove_at_def)

lemma remove_at_Suc [simp]: "remove_at (Suc i) (x # xs) = x # remove_at i xs"
  by (simp add: remove_at_def)

lemma length_remove_at [simp]: "i < length xs \<Longrightarrow> length (remove_at i xs) = length xs - 1"
  by (simp add: remove_at_def)

lemma set_remove_at_subset: "set (remove_at i xs) \<subseteq> set xs"
  by (auto simp: remove_at_def dest: in_set_takeD in_set_dropD)

lemma remove_at_append_length [simp]: "remove_at (length xs) (xs @ y # ys) = xs @ ys"
  by (simp add: remove_at_def)

lemma distinct_map_remove_at:
  "distinct (map f xs) \<Longrightarrow> distinct (map f (remove_at i xs))"
proof (induction xs arbitrary: i)
  case Nil
  then show ?case by simp
next
  case (Cons x xs)
  then show ?case
    using set_remove_at_subset [of "i - 1" xs] by (cases i) auto
qed

lemma remove_at_notin_map:
  "distinct (map f xs) \<Longrightarrow> i < length xs \<Longrightarrow> f (xs ! i) \<notin> f ` set (remove_at i xs)"
proof (induction xs arbitrary: i)
  case Nil
  then show ?case by simp
next
  case (Cons x xs)
  show ?case
  proof (cases i)
    case 0
    with Cons.prems show ?thesis by simp
  next
    case (Suc j)
    with Cons.prems have "f (xs ! j) \<notin> f ` set (remove_at j xs)"
      by (intro Cons.IH) simp_all
    moreover have "f x \<noteq> f (xs ! j)"
      using Cons.prems Suc by (auto dest: nth_mem)
    ultimately show ?thesis using Suc by simp
  qed
qed

lemma set_remove_at_map:
  "distinct (map f xs) \<Longrightarrow> i < length xs \<Longrightarrow>
     set (remove_at i xs) = {x \<in> set xs. f x \<noteq> f (xs ! i)}"
proof (induction xs arbitrary: i)
  case Nil
  then show ?case by simp
next
  case (Cons x xs)
  show ?case
  proof (cases i)
    case 0
    with Cons.prems show ?thesis by (auto simp: image_iff)
  next
    case (Suc j)
    with Cons.prems have "set (remove_at j xs) = {x \<in> set xs. f x \<noteq> f (xs ! j)}"
      by (intro Cons.IH) simp_all
    moreover have "f x \<noteq> f (xs ! j)"
      using Cons.prems Suc by (auto dest: nth_mem)
    ultimately show ?thesis using Suc by auto
  qed
qed

section \<open>Looking through a list\<close>

text \<open>
  The walk that looks for the first element with a property; the pointer it returns is a
  position in the list, and NULL is None.
\<close>

fun find_pos :: "('a \<Rightarrow> bool) \<Rightarrow> 'a list \<Rightarrow> nat option" where
  "find_pos P [] = None"
| "find_pos P (x # xs) = (if P x then Some 0 else map_option Suc (find_pos P xs))"

lemma find_pos_None_iff: "find_pos P xs = None \<longleftrightarrow> (\<forall>x \<in> set xs. \<not> P x)"
  by (induction xs) auto

lemma find_pos_SomeD:
  "find_pos P xs = Some i \<Longrightarrow> i < length xs \<and> P (xs ! i) \<and> (\<forall>x \<in> set (take i xs). \<not> P x)"
proof (induction xs arbitrary: i)
  case (Cons x xs)
  then show ?case by (cases i) (auto split: if_splits)
qed simp

lemma find_pos_Ex: "x \<in> set xs \<Longrightarrow> P x \<Longrightarrow> \<exists>i. find_pos P xs = Some i"
  using find_pos_None_iff [of P xs] by (cases "find_pos P xs") auto

lemma find_pos_append:
  "find_pos P (xs @ ys) = (case find_pos P xs of Some i \<Rightarrow> Some i
     | None \<Rightarrow> map_option (\<lambda>i. length xs + i) (find_pos P ys))"
proof (induction xs)
  case Nil
  then show ?case by (cases "find_pos P ys") simp_all
next
  case (Cons x xs)
  then show ?case by (cases "find_pos P xs"; cases "find_pos P ys") simp_all
qed

text \<open>Taking out the element found, where the elements have distinct keys.\<close>

lemma remove_at_find_pos:
  "find_pos (\<lambda>x. f x = k) xs = Some i \<Longrightarrow> distinct (map f xs) \<Longrightarrow>
     remove_at i xs = filter (\<lambda>x. f x \<noteq> k) xs"
proof (induction xs arbitrary: i)
  case (Cons x xs)
  show ?case
  proof (cases "f x = k")
    case True
    then have "\<forall>y \<in> set xs. f y \<noteq> k" using Cons.prems(2) by (auto simp: image_iff)
    then show ?thesis using True Cons.prems(1) by (simp add: filter_id_conv)
  next
    case False
    then obtain j where "find_pos (\<lambda>x. f x = k) xs = Some j" "i = Suc j" using Cons.prems(1) by auto
    then show ?thesis using Cons False by simp
  qed
qed simp

section \<open>The linked-list library of List.h\<close>

text \<open>
  \<open>List.h\<close> declares the operations of a library whose source is not in the repository.
  The model takes them as an argument: \<open>list_add_last L xs x\<close> is the list \<open>xs\<close> after
  \<open>LIST_ADD_LAST(&xs, x)\<close>, and \<open>list_free L xs i\<close> the list after \<open>LIST_FREE\<close> or
  \<open>LIST_REMOVE\<close> of its \<open>i\<close>-th element. What the code relies on is the locale.
\<close>

record 'e list_lib =
  list_add_last :: "'e list \<Rightarrow> 'e \<Rightarrow> 'e list"
  list_free :: "'e list \<Rightarrow> nat \<Rightarrow> 'e list"

text \<open>
  The loop by which the sources drop every element that satisfies a test: it walks the
  list, and after freeing an element starts again at the head. A library that freed
  nothing would keep it running, so the number of steps is bounded.
\<close>

fun purge :: "'e list_lib \<Rightarrow> ('e \<Rightarrow> bool) \<Rightarrow> nat \<Rightarrow> 'e list \<Rightarrow> nat \<Rightarrow> 'e list result" where
  "purge L P 0 xs i = Inl Diverges"
| "purge L P (Suc fuel) xs i =
     (if i < length xs
      then (if P (xs ! i) then purge L P fuel (list_free L xs i) 0
            else purge L P fuel xs (Suc i))
      else Inr xs)"

text \<open>Enough steps for a list of this length: one pass for each element freed, and the last one.\<close>

definition purge_fuel :: "nat \<Rightarrow> nat" where
  "purge_fuel n = Suc n * Suc n"

locale list_library =
  fixes L :: "'e list_lib"
  assumes add_last_law: "list_add_last L xs x = xs @ [x]"
    and free_law: "i < length xs \<Longrightarrow> list_free L xs i = remove_at i xs"
begin

lemma purge_prefix:
  assumes "i \<le> length xs" and "\<forall>x \<in> set (take i xs). \<not> P x"
    and "Suc (length xs) * Suc (length xs) \<le> fuel + i"
  shows "purge L P fuel xs i = Inr (filter (\<lambda>x. \<not> P x) xs)"
  using assms
proof (induction fuel arbitrary: xs i)
  case 0
  then have "Suc (length xs) * Suc (length xs) \<le> length xs" by simp
  then show ?case by simp
next
  case (Suc fuel)
  consider (stop) "i = length xs" | (free) "i < length xs" "P (xs ! i)"
    | (go) "i < length xs" "\<not> P (xs ! i)"
    using Suc.prems(1) by linarith
  then show ?case
  proof cases
    case stop
    with Suc.prems(2) show ?thesis by simp
  next
    case free
    have len: "Suc (length (remove_at i xs)) = length xs"
      using free by simp
    have "length xs * length xs \<le> fuel"
      using Suc.prems(3) free(1) by simp
    then have "purge L P fuel (remove_at i xs) 0
        = Inr (filter (\<lambda>x. \<not> P x) (remove_at i xs))"
      by (intro Suc.IH) (simp_all only: len, simp_all)
    moreover have "filter (\<lambda>x. \<not> P x) (remove_at i xs) = filter (\<lambda>x. \<not> P x) xs"
      using free id_take_nth_drop [of i xs]
      by (metis filter.simps(2) filter_append remove_at_def)
    ultimately show ?thesis using free by (simp add: free_law)
  next
    case go
    have "purge L P fuel xs (Suc i) = Inr (filter (\<lambda>x. \<not> P x) xs)"
      using go Suc.prems by (intro Suc.IH) (auto simp: take_Suc_conv_app_nth)
    with go show ?thesis by simp
  qed
qed

lemma purge_eq_filter:
  "purge L P (purge_fuel (length xs)) xs 0 = Inr (filter (\<lambda>x. \<not> P x) xs)"
  by (rule purge_prefix) (simp_all add: purge_fuel_def)

end

text \<open>The behaviour \<open>List.h\<close> documents, as a concrete library.\<close>

definition plain_list_lib :: "'e list_lib" where
  "plain_list_lib = \<lparr>list_add_last = (\<lambda>xs x. xs @ [x]), list_free = (\<lambda>xs i. remove_at i xs)\<rparr>"

interpretation plain: list_library plain_list_lib
  by unfold_locales (simp_all add: plain_list_lib_def)

end
