(* ===== verification/RLC_Types.thy ===== *)
theory RLC_Types
  imports NetSim_Prelude
begin

text \<open>
  The data of the RLC sublayer (\<open>LTE_NR/LTENR_RLCMSG.h\<close>, \<open>LTENR_Msg.h\<close>, the part of
  \<open>Include/Packet.h\<close> that RLC uses): packets, RLC headers and status PDUs, the sizes of the
  headers, and the header functions of \<open>LTENR_RLCMSG.c\<close>. The packet and header functions of
  the simulator kernel, whose source is not in the repository, are the fields of \<open>pkt_api\<close>;
  what RLC relies on is the locale \<open>packet_api\<close>.
\<close>

section \<open>Enumerations\<close>

datatype SI = SI_ALL | SI_FIRST | SI_LAST | SI_MIDDLE

datatype DCBIT = DC_CONTROL | DC_DATA

datatype LTENR_LOGICALCHANNEL =
    LTENR_LOGICALCHANNEL_NONE
  | LTENR_LOGICALCHANNEL_PCCH
  | LTENR_LOGICALCHANNEL_BCCH
  | LTENR_LOGICALCHANNEL_CCCH
  | LTENR_LOGICALCHANNEL_DCCH
  | LTENR_LOGICALCHANNEL_DTCH
  | LTENR_LOGICALCHANNEL_LAST

datatype LTENR_RLCMODE = LTENR_RLCMODE_TM | LTENR_RLCMODE_UM | LTENR_RLCMODE_AM

text \<open>
  \<open>LTENR_MSGTYPE\<close> of \<open>LTENR_Msg.h\<close>. The field \<open>nControlDataType\<close> of a packet is an
  unsigned number that other protocols fill too: \<open>LTE_MSG\<close> stands for the hundred numbers of
  \<open>MAC_PROTOCOL_LTE\<close>, \<open>LTENR_MSG_LAST\<close> for all others.
\<close>

datatype LTENR_MSGTYPE =
    LTENR_MSG_RRC_MIB | LTENR_MSG_RRC_SIB1 | LTENR_MSG_RRC_SI
  | LTENR_MSG_RRC_SETUP_REQUEST | LTENR_MSG_RRC_SETUP | LTENR_MSG_RRC_SETUP_COMPLETE
  | LTENR_MSG_RRC_UE_MEASUREMENT_REPORT | LTENR_MSG_RRC_REESTABLISHMENT_REQUEST
  | LTENR_MSG_RRC_REESTABLISHMENT | LTENR_MSG_RRC_RECONFIGURATION
  | LTENR_MSG_NAS_HANDOVER_REQUEST | LTENR_MSG_NAS_HANDOVER_REQUEST_ACK
  | LTENR_MSG_NAS_HANDOVER_COMMAND | LTENR_MSG_NAS_HANDOVER_PATH_SWITCH
  | LTENR_MSG_NAS_HANDOVER_PATH_SWITCH_ACK | LTENR_MSG_NAS_HANDOVER_UE_CONTEXT_RELEASE
  | LTENR_MSG_NAS_HANDOVER_UE_CONTEXT_RELEASE_ACK | LTENR_MSG_NAS_HANDOVER_COMPLETE
  | LTENR_MSG_RLC_STATUSPDU | LTENR_MSG_RLC_TMDPDU | LTENR_MSG_RLC_UMDPDU | LTENR_MSG_RLC_AMDPDU
  | LTENR_MSG_CORE_INITIAL_UE_MESSAGE | LTENR_MSG_CORE_CREATE_SESSION_REQUEST
  | LTENR_MSG_CORE_CREATE_SESSION_RESPONSE | LTENR_MSG_CORE_INITIAL_CONTEXT_SETUP_REQUEST
  | LTENR_MSG_CORE_INITIAL_CONTEXT_SETUP_RESPONSE | LTENR_MSG_CORE_REGISTRATION_COMPLETE
  | LTENR_MSG_CORE_NSMF_PDUSESSION_UPDATESMCONTEXT_REQUSET
  | LTENR_MSG_CORE_NSMF_PDUSESSION_UPDATESMCONTEXT_RESPONSE
  | LTENR_MSG_CORE_PFCP_SESSION_REQUSET | LTENR_MSG_CORE_PFCP_SESSION_RESPONSE
  | LTENR_MSG_CORE_MODIFY_BEARER_REQUEST | LTENR_MSG_CORE_MODIFY_BEARER_RESPONSE
  | LTENR_MSG_DC_SEC_CELL_ADDITION_REQUEST | LTENR_MSG_DC_SEC_CELL_ADDITION_RESPONSE
  | LTENR_MSG_DC_HO_SEC_CELL_CHANGE_REQUEST | LTENR_MSG_DC_HO_SEC_CELL_ADDITION_REQUEST
  | LTENR_MSG_DC_HO_SEC_CELL_ADDITION_REQUEST_ACK | LTENR_MSG_DC_HO_SEC_CELL_RELEASE_REQUEST
  | LTENR_MSG_DC_HO_SEC_CELL_RELEASE_REQUEST_ACK | LTENR_MSG_DC_HO_SEC_CELL_PATH_SWITCH
  | LTENR_MSG_DC_HO_SEC_CELL_PATH_SWITCH_ACK | LTENR_MSG_DC_HO_SEC_CELL_UE_CONTEXT_RELEASE
  | LTENR_MSG_DC_HO_SEC_CELL_UE_CONTEXT_RELEASE_ACK
  | LTENR_MSG_USERDATA | LTE_MSG | LTENR_MSG_LAST

section \<open>Headers\<close>

record LTENR_RLCMSG_UMDHDR =
  um_si :: SI
  um_SN :: u32
  um_SO :: u16

record LTENR_RLCMSG_AMDHDR =
  am_dcBit :: DCBIT
  am_P :: bool
  am_si :: SI
  am_SN :: u32
  am_SO :: u16

text \<open>One NACK of a status PDU; its \<open>next\<close> pointer is the position in \<open>nackList\<close>.\<close>

record LTENR_RLCMSG_STATUSPDU_NACK =
  NAck_SN :: u32
  nack_E1 :: bool
  nack_E2 :: bool
  nack_E3 :: bool
  soStart :: u16
  soEnd :: u16
  NAckRange :: u8

text \<open>\<open>nackList\<close> is the chain from \<open>nackHead\<close> to \<open>nackTail\<close>.\<close>

record LTENR_RLCMSG_STATUSPDU =
  sp_dcBit :: DCBIT
  sp_CPT :: u32
  Ack_SN :: u32
  sp_E1 :: bool
  NACKCount :: u32
  nackList :: "LTENR_RLCMSG_STATUSPDU_NACK list"

record LTENR_PDCP_HDR =
  pdcp_dcBit :: DCBIT
  pdcp_SN :: u32

text \<open>
  The header ids are numbers \<open>LTENR_HDR_REGISTER\<close> hands out at start-up, one for each
  registration; a header is what the \<open>void*\<close> of \<open>LTENR_HDR\<close> points to.
\<close>

datatype hdr_id =
    rlcMsgTMDHDRID | rlcMsgAMDHDRID | rlcMsgUMDHDRID | rlcMsgSTATUSPDUHDRID | PDCPHDRID

datatype hdr =
    AMD LTENR_RLCMSG_AMDHDR | UMD LTENR_RLCMSG_UMDHDR
  | STATUS LTENR_RLCMSG_STATUSPDU | PDCP LTENR_PDCP_HDR

section \<open>Packets\<close>

text \<open>\<open>LTENR_HDR\<close>: \<open>hdrType\<close>, \<open>size\<close>, \<open>hdr\<close>; \<open>next\<close> is the position in the list.\<close>

record LTENR_HDR =
  hdrType :: hdr_id
  hdr_size :: u32
  hdr_data :: hdr

record LTENR_MSG =
  msgType :: LTENR_MSGTYPE
  hdrSize :: u32
  msg_hdrs :: "LTENR_HDR list"
  logicalChannel :: LTENR_LOGICALCHANNEL
  msg_rlcMode :: LTENR_RLCMODE

datatype PACKET_TYPE =
    PacketType_NULL | PacketType_Voice | PacketType_CBR | PacketType_Custom | PacketType_DataBase
  | PacketType_Video | PacketType_FTP | PacketType_HTTP | PacketType_EMAIL | PacketType_Peer_to_Peer
  | PacketType_Erlang_Call | PacketType_Emulation | PacketType_Sensing | PacketType_BSM
  | PacketType_COAP | PacketType_Interactive_Gaming | PacketType_Control | PacketType_LAST

text \<open>
  \<open>QOS_UGS\<close> is also \<open>QOS_GBR\<close>, and \<open>QOS_BE\<close> is \<open>QOS_NONGBR\<close>; \<open>QOS_UNSET\<close> is the number 0.
\<close>

datatype PACKET_QOS = QOS_UNSET | QOS_GBR | QOS_rtPS | QOS_ertPS | QOS_nrtPS | QOS_NONGBR

text \<open>\<open>msg\<close> is \<open>pstruMacData->Packet_MACProtocol\<close>; the three sizes are those of \<open>pstruMacData\<close>.\<close>

record NetSim_PACKET =
  nPacketId :: int
  nPacketType :: PACKET_TYPE
  nQOS :: PACKET_QOS
  nControlDataType :: LTENR_MSGTYPE
  nSourceId :: netsim_id
  nTransmitterId :: netsim_id
  nReceiverId :: netsim_id
  appInfo :: "(u32 \<times> int) option"
  dPayload :: real
  dOverhead :: real
  dPacketSize :: real
  msg :: "LTENR_MSG option"

definition LTENR_IS_UPLANE_MSG :: "NetSim_PACKET \<Rightarrow> bool" where
  "LTENR_IS_UPLANE_MSG p \<longleftrightarrow> (case msg p of None \<Rightarrow> True | Some m \<Rightarrow> msgType m = LTENR_MSG_USERDATA)"

definition LTENR_PACKET_GET_LOGICALCHANNEL :: "NetSim_PACKET \<Rightarrow> LTENR_LOGICALCHANNEL result" where
  "LTENR_PACKET_GET_LOGICALCHANNEL p = rbind (deref (msg p)) (\<lambda>m. Inr (logicalChannel m))"

definition LTENR_PACKET_GET_RLCMODE :: "NetSim_PACKET \<Rightarrow> LTENR_RLCMODE result" where
  "LTENR_PACKET_GET_RLCMODE p = rbind (deref (msg p)) (\<lambda>m. Inr (msg_rlcMode m))"

definition LTENR_PACKET_SET_LOGICALCHANNEL ::
  "NetSim_PACKET \<Rightarrow> LTENR_LOGICALCHANNEL \<Rightarrow> NetSim_PACKET result" where
  "LTENR_PACKET_SET_LOGICALCHANNEL p ch =
     rbind (deref (msg p)) (\<lambda>m. Inr (p\<lparr>msg := Some (m\<lparr>logicalChannel := ch\<rparr>)\<rparr>))"

definition LTENR_PACKET_SET_RLCMODE ::
  "NetSim_PACKET \<Rightarrow> LTENR_RLCMODE \<Rightarrow> NetSim_PACKET result" where
  "LTENR_PACKET_SET_RLCMODE p mode =
     rbind (deref (msg p)) (\<lambda>m. Inr (p\<lparr>msg := Some (m\<lparr>msg_rlcMode := mode\<rparr>)\<rparr>))"

section \<open>The packet functions of the simulator kernel\<close>

text \<open>
  \<open>hdr_store E p t h\<close> is the packet after a write of \<open>h\<close> through the pointer that
  \<open>LTENR_HDR_GET_FROM_PACKET E p t\<close> returned.
\<close>

record pkt_api =
  fn_NetSim_Packet_CopyPacket :: "NetSim_PACKET \<Rightarrow> NetSim_PACKET"
  LTENR_PACKET_CREATE :: "netsim_id \<Rightarrow> netsim_id \<Rightarrow> real \<Rightarrow> LTENR_MSGTYPE \<Rightarrow> NetSim_PACKET"
  LTENR_HDR_ADD_TO_PACKET :: "NetSim_PACKET \<Rightarrow> hdr \<Rightarrow> hdr_id \<Rightarrow> u32 \<Rightarrow> NetSim_PACKET"
  LTENR_HDR_GET_FROM_PACKET :: "NetSim_PACKET \<Rightarrow> hdr_id \<Rightarrow> hdr option"
  LTENR_HDR_FREE_FROM_PACKET :: "NetSim_PACKET \<Rightarrow> hdr_id \<Rightarrow> NetSim_PACKET"
  hdr_store :: "NetSim_PACKET \<Rightarrow> hdr_id \<Rightarrow> hdr \<Rightarrow> NetSim_PACKET"

text \<open>
  The documented behaviour the sources rely on: a header that was added is found under its
  id, others are not touched; a freed header is gone; a write through the pointer is seen;
  a copy carries the same headers and sizes; the payload is not a header's business, while
  the overhead and the size grow by the size of an added header.
\<close>

locale packet_api =
  fixes E :: "'z pkt_api_scheme"
  assumes get_add [simp]: "LTENR_HDR_GET_FROM_PACKET E p t = None \<Longrightarrow>
      LTENR_HDR_GET_FROM_PACKET E (LTENR_HDR_ADD_TO_PACKET E p h t s) t = Some h"
    and get_add_other [simp]: "t \<noteq> t' \<Longrightarrow>
      LTENR_HDR_GET_FROM_PACKET E (LTENR_HDR_ADD_TO_PACKET E p h t s) t'
        = LTENR_HDR_GET_FROM_PACKET E p t'"
    and get_free [simp]:
      "LTENR_HDR_GET_FROM_PACKET E (LTENR_HDR_FREE_FROM_PACKET E p t) t = None"
    and get_free_other [simp]: "t \<noteq> t' \<Longrightarrow>
      LTENR_HDR_GET_FROM_PACKET E (LTENR_HDR_FREE_FROM_PACKET E p t) t'
        = LTENR_HDR_GET_FROM_PACKET E p t'"
    and get_store [simp]: "LTENR_HDR_GET_FROM_PACKET E p t = Some h' \<Longrightarrow>
      LTENR_HDR_GET_FROM_PACKET E (hdr_store E p t h) t = Some h"
    and get_store_other [simp]: "t \<noteq> t' \<Longrightarrow>
      LTENR_HDR_GET_FROM_PACKET E (hdr_store E p t h) t' = LTENR_HDR_GET_FROM_PACKET E p t'"
    and get_copy [simp]:
      "LTENR_HDR_GET_FROM_PACKET E (fn_NetSim_Packet_CopyPacket E p) t
        = LTENR_HDR_GET_FROM_PACKET E p t"
    and get_dPayload [simp]:
      "LTENR_HDR_GET_FROM_PACKET E (p\<lparr>dPayload := x\<rparr>) t = LTENR_HDR_GET_FROM_PACKET E p t"
    and get_dPacketSize [simp]:
      "LTENR_HDR_GET_FROM_PACKET E (p\<lparr>dPacketSize := y\<rparr>) t = LTENR_HDR_GET_FROM_PACKET E p t"
    and payload_api [simp]:
      "dPayload (LTENR_HDR_ADD_TO_PACKET E p h t s) = dPayload p"
      "dPayload (LTENR_HDR_FREE_FROM_PACKET E p t) = dPayload p"
      "dPayload (hdr_store E p t h) = dPayload p"
      "dPayload (fn_NetSim_Packet_CopyPacket E p) = dPayload p"
    and overhead_api [simp]:
      "dOverhead (LTENR_HDR_ADD_TO_PACKET E p h t s) = dOverhead p + real (unat s)"
      "dOverhead (hdr_store E p t h) = dOverhead p"
      "dOverhead (fn_NetSim_Packet_CopyPacket E p) = dOverhead p"
    and size_api [simp]:
      "dPacketSize (LTENR_HDR_ADD_TO_PACKET E p h t s) = dPacketSize p + real (unat s)"
      "dPacketSize (hdr_store E p t h) = dPacketSize p"
      "dPacketSize (fn_NetSim_Packet_CopyPacket E p) = dPacketSize p"

text \<open>A kernel that keeps the headers of a packet in the list of its message.\<close>

definition plain_msg :: "NetSim_PACKET \<Rightarrow> LTENR_MSG" where
  "plain_msg p = (case msg p of Some m \<Rightarrow> m
     | None \<Rightarrow> \<lparr>msgType = LTENR_MSG_USERDATA, hdrSize = 0, msg_hdrs = [],
         logicalChannel = LTENR_LOGICALCHANNEL_NONE, msg_rlcMode = LTENR_RLCMODE_TM\<rparr>)"

definition plain_get :: "NetSim_PACKET \<Rightarrow> hdr_id \<Rightarrow> hdr option" where
  "plain_get p t = map_option hdr_data (find (\<lambda>x. hdrType x = t) (msg_hdrs (plain_msg p)))"

definition plain_add :: "NetSim_PACKET \<Rightarrow> hdr \<Rightarrow> hdr_id \<Rightarrow> u32 \<Rightarrow> NetSim_PACKET" where
  "plain_add p h t s =
     p\<lparr>msg := Some ((plain_msg p)\<lparr>hdrSize := hdrSize (plain_msg p) + s,
          msg_hdrs := \<lparr>hdrType = t, hdr_size = s, hdr_data = h\<rparr> # msg_hdrs (plain_msg p)\<rparr>),
       dOverhead := dOverhead p + real (unat s), dPacketSize := dPacketSize p + real (unat s)\<rparr>"

definition plain_free :: "NetSim_PACKET \<Rightarrow> hdr_id \<Rightarrow> NetSim_PACKET" where
  "plain_free p t =
     (let gone = sum_list (map (\<lambda>x. real (unat (hdr_size x)))
                   (filter (\<lambda>x. hdrType x = t) (msg_hdrs (plain_msg p))))
      in p\<lparr>msg := Some ((plain_msg p)\<lparr>msg_hdrs := filter (\<lambda>x. hdrType x \<noteq> t) (msg_hdrs (plain_msg p))\<rparr>),
           dOverhead := dOverhead p - gone, dPacketSize := dPacketSize p - gone\<rparr>)"

definition plain_store :: "NetSim_PACKET \<Rightarrow> hdr_id \<Rightarrow> hdr \<Rightarrow> NetSim_PACKET" where
  "plain_store p t h =
     p\<lparr>msg := Some ((plain_msg p)\<lparr>msg_hdrs :=
        map (\<lambda>x. if hdrType x = t then x\<lparr>hdr_data := h\<rparr> else x) (msg_hdrs (plain_msg p))\<rparr>)\<rparr>"

definition plain_create ::
  "netsim_id \<Rightarrow> netsim_id \<Rightarrow> real \<Rightarrow> LTENR_MSGTYPE \<Rightarrow> NetSim_PACKET" where
  "plain_create src dest time type =
     \<lparr>nPacketId = 0, nPacketType = PacketType_Control, nQOS = QOS_UNSET, nControlDataType = type, nSourceId = src, nTransmitterId = src,
      nReceiverId = dest, appInfo = None, dPayload = 0, dOverhead = 0, dPacketSize = 0,
      msg = Some \<lparr>msgType = type, hdrSize = 0, msg_hdrs = [],
         logicalChannel = LTENR_LOGICALCHANNEL_NONE, msg_rlcMode = LTENR_RLCMODE_TM\<rparr>\<rparr>"

definition plain_pkt_api :: pkt_api where
  "plain_pkt_api =
     \<lparr>fn_NetSim_Packet_CopyPacket = (\<lambda>p. p), LTENR_PACKET_CREATE = plain_create,
      LTENR_HDR_ADD_TO_PACKET = plain_add, LTENR_HDR_GET_FROM_PACKET = plain_get,
      LTENR_HDR_FREE_FROM_PACKET = plain_free, hdr_store = plain_store\<rparr>"

lemmas plain_pkt_defs = plain_add_def plain_get_def plain_free_def plain_store_def
  plain_create_def plain_msg_def

lemma find_filter_hdr:
  "find (\<lambda>x. hdrType x = t') (filter (\<lambda>x. hdrType x \<noteq> t) xs)
     = (if t = t' then None else find (\<lambda>x. hdrType x = t') xs)"
  by (induction xs) auto

lemma find_map_store:
  "find (\<lambda>x. hdrType x = t') (map (\<lambda>x. if hdrType x = t then x\<lparr>hdr_data := h\<rparr> else x) xs)
     = map_option (\<lambda>x. if t = t' then x\<lparr>hdr_data := h\<rparr> else x) (find (\<lambda>x. hdrType x = t') xs)"
  by (induction xs) auto

interpretation plain_pkt: packet_api plain_pkt_api
proof unfold_locales
qed (auto simp: plain_pkt_api_def plain_pkt_defs find_filter_hdr
      find_map_store option.map_comp o_def Let_def split: option.splits)

section \<open>LTENR_RLCMSG.c\<close>

definition MIN_RLC_PDU_SIZE :: u32 where
  "MIN_RLC_PDU_SIZE = 10"

fun LTENR_RLCMSG_UMDHDR_SIZE :: "SI \<Rightarrow> u32" where
  "LTENR_RLCMSG_UMDHDR_SIZE SI_ALL = 1"
| "LTENR_RLCMSG_UMDHDR_SIZE SI_FIRST = 1"
| "LTENR_RLCMSG_UMDHDR_SIZE _ = 3"

definition LTENR_RLCMSG_AMDHDR_SIZE_NOSO :: u32 where
  "LTENR_RLCMSG_AMDHDR_SIZE_NOSO = 2"

definition LTENR_RLCMSG_AMDHDR_SIZE_WITHSO :: u32 where
  "LTENR_RLCMSG_AMDHDR_SIZE_WITHSO = 4"

fun LTENR_RLCMSG_AMDHDR_SIZE :: "SI \<Rightarrow> u32" where
  "LTENR_RLCMSG_AMDHDR_SIZE SI_ALL = LTENR_RLCMSG_AMDHDR_SIZE_NOSO"
| "LTENR_RLCMSG_AMDHDR_SIZE _ = LTENR_RLCMSG_AMDHDR_SIZE_WITHSO"

definition LTENR_RLCMSG_TMHDR_ADD :: "NetSim_PACKET \<Rightarrow> NetSim_PACKET" where
  "LTENR_RLCMSG_TMHDR_ADD packet = packet"

definition LTENR_RLCMSG_UMHDR_ADD ::
  "'z pkt_api_scheme \<Rightarrow> NetSim_PACKET \<Rightarrow> SI \<Rightarrow> u32 \<Rightarrow> u16 \<Rightarrow> NetSim_PACKET \<times> u32" where
  "LTENR_RLCMSG_UMHDR_ADD E packet si sn so =
     (let sz = LTENR_RLCMSG_UMDHDR_SIZE si
      in (LTENR_HDR_ADD_TO_PACKET E packet (UMD \<lparr>um_si = si, um_SN = sn, um_SO = so\<rparr>)
            rlcMsgUMDHDRID sz, sz))"

definition LTENR_RLCMSG_UMHDR_GET ::
  "'z pkt_api_scheme \<Rightarrow> NetSim_PACKET \<Rightarrow> LTENR_RLCMSG_UMDHDR option" where
  "LTENR_RLCMSG_UMHDR_GET E packet =
     (case LTENR_HDR_GET_FROM_PACKET E packet rlcMsgUMDHDRID of Some (UMD h) \<Rightarrow> Some h | _ \<Rightarrow> None)"

definition LTENR_RLCMSG_UMDHDR_REMOVE :: "'z pkt_api_scheme \<Rightarrow> NetSim_PACKET \<Rightarrow> NetSim_PACKET" where
  "LTENR_RLCMSG_UMDHDR_REMOVE E packet = LTENR_HDR_FREE_FROM_PACKET E packet rlcMsgUMDHDRID"

text \<open>
  The header comes from \<open>calloc\<close>: the fields the function does not fill keep the zero value,
  \<open>dcBit\<close> that of \<open>DC_CONTROL\<close> and \<open>P\<close> that of \<open>false\<close>.
\<close>

definition LTENR_RLCMSG_AMHDR_ADD ::
  "'z pkt_api_scheme \<Rightarrow> NetSim_PACKET \<Rightarrow> SI \<Rightarrow> u32 \<Rightarrow> u16 \<Rightarrow> NetSim_PACKET \<times> u32" where
  "LTENR_RLCMSG_AMHDR_ADD E packet si sn so =
     (let sz = LTENR_RLCMSG_AMDHDR_SIZE si
      in (LTENR_HDR_ADD_TO_PACKET E packet
            (AMD \<lparr>am_dcBit = DC_CONTROL, am_P = False, am_si = si, am_SN = sn, am_SO = so\<rparr>)
            rlcMsgAMDHDRID sz, sz))"

definition LTENR_RLCMSG_AMHDR_GET ::
  "'z pkt_api_scheme \<Rightarrow> NetSim_PACKET \<Rightarrow> LTENR_RLCMSG_AMDHDR option" where
  "LTENR_RLCMSG_AMHDR_GET E packet =
     (case LTENR_HDR_GET_FROM_PACKET E packet rlcMsgAMDHDRID of Some (AMD h) \<Rightarrow> Some h | _ \<Rightarrow> None)"

definition LTENR_RLCMSG_AMDHDR_REMOVE :: "'z pkt_api_scheme \<Rightarrow> NetSim_PACKET \<Rightarrow> NetSim_PACKET" where
  "LTENR_RLCMSG_AMDHDR_REMOVE E packet = LTENR_HDR_FREE_FROM_PACKET E packet rlcMsgAMDHDRID"

text \<open>A write of the poll bit through the header pointer, as \<open>hdr->P = b\<close> does.\<close>

definition LTENR_RLCMSG_AMDHDR_WRITEPOLL ::
  "'z pkt_api_scheme \<Rightarrow> NetSim_PACKET \<Rightarrow> bool \<Rightarrow> NetSim_PACKET result" where
  "LTENR_RLCMSG_AMDHDR_WRITEPOLL E packet b =
     rbind (deref (LTENR_RLCMSG_AMHDR_GET E packet))
       (\<lambda>h. Inr (hdr_store E packet rlcMsgAMDHDRID (AMD (h\<lparr>am_P := b\<rparr>))))"

definition LTENR_RLCMSG_AMDHDR_SETPOLL ::
  "'z pkt_api_scheme \<Rightarrow> NetSim_PACKET \<Rightarrow> NetSim_PACKET result" where
  "LTENR_RLCMSG_AMDHDR_SETPOLL E packet = LTENR_RLCMSG_AMDHDR_WRITEPOLL E packet True"

definition LTENR_RLCMSG_STATUSPDU_NEW :: LTENR_RLCMSG_STATUSPDU where
  "LTENR_RLCMSG_STATUSPDU_NEW =
     \<lparr>sp_dcBit = DC_CONTROL, sp_CPT = 0, Ack_SN = 0, sp_E1 = False, NACKCount = 0, nackList = []\<rparr>"

text \<open>\<open>NULL\<close> when the chain is empty, else \<open>nackTail\<close>.\<close>

definition nackTail :: "LTENR_RLCMSG_STATUSPDU \<Rightarrow> LTENR_RLCMSG_STATUSPDU_NACK option" where
  "nackTail pdu = (if nackList pdu = [] then None else Some (last (nackList pdu)))"

definition nackTail_write ::
  "LTENR_RLCMSG_STATUSPDU_NACK \<Rightarrow> LTENR_RLCMSG_STATUSPDU \<Rightarrow> LTENR_RLCMSG_STATUSPDU" where
  "nackTail_write n pdu = pdu\<lparr>nackList := butlast (nackList pdu) @ [n]\<rparr>"

definition LTENR_RLCMSG_STATUSPDU_SETE1 :: "LTENR_RLCMSG_STATUSPDU \<Rightarrow> LTENR_RLCMSG_STATUSPDU" where
  "LTENR_RLCMSG_STATUSPDU_SETE1 status =
     (case nackTail status of
        Some n \<Rightarrow> nackTail_write (n\<lparr>nack_E1 := True\<rparr>) status
      | None \<Rightarrow> status\<lparr>sp_E1 := True\<rparr>)"

definition LTENR_RLCMSG_STATUSPDU_AddNack ::
  "LTENR_RLCMSG_STATUSPDU \<Rightarrow> LTENR_RLCMSG_STATUSPDU_NACK \<Rightarrow> LTENR_RLCMSG_STATUSPDU" where
  "LTENR_RLCMSG_STATUSPDU_AddNack status nack =
     status\<lparr>nackList := nackList status @ [nack], NACKCount := NACKCount status + 1\<rparr>"

definition LTENR_RLCMSG_STATUSPDU_GET ::
  "'z pkt_api_scheme \<Rightarrow> NetSim_PACKET \<Rightarrow> LTENR_RLCMSG_STATUSPDU option" where
  "LTENR_RLCMSG_STATUSPDU_GET E packet =
     (case LTENR_HDR_GET_FROM_PACKET E packet rlcMsgSTATUSPDUHDRID of
        Some (STATUS s) \<Rightarrow> Some s | _ \<Rightarrow> None)"

fun nack_chain_has_SN :: "LTENR_RLCMSG_STATUSPDU_NACK list \<Rightarrow> u32 \<Rightarrow> bool" where
  "nack_chain_has_SN [] sn = False"
| "nack_chain_has_SN (nack # ns) sn = (if NAck_SN nack = sn then True else nack_chain_has_SN ns sn)"

definition LTENR_RLCAM_STATUSPDU_FindSN :: "LTENR_RLCMSG_STATUSPDU \<Rightarrow> u32 \<Rightarrow> bool" where
  "LTENR_RLCAM_STATUSPDU_FindSN pdu sn = nack_chain_has_SN (nackList pdu) sn"

text \<open>
  The deep copy a status PDU header gets when its packet is copied: the nodes are rebuilt
  one after the other, appended at the tail.
\<close>

fun statuspdu_copy_nacks ::
  "LTENR_RLCMSG_STATUSPDU_NACK list \<Rightarrow> LTENR_RLCMSG_STATUSPDU_NACK list
     \<Rightarrow> LTENR_RLCMSG_STATUSPDU_NACK list" where
  "statuspdu_copy_nacks ret [] = ret"
| "statuspdu_copy_nacks ret (nack # ns) = statuspdu_copy_nacks (ret @ [nack]) ns"

definition LTENR_RLCMSG_STATUSPDU_COPY :: "LTENR_RLCMSG_STATUSPDU \<Rightarrow> LTENR_RLCMSG_STATUSPDU" where
  "LTENR_RLCMSG_STATUSPDU_COPY h = h\<lparr>nackList := statuspdu_copy_nacks [] (nackList h)\<rparr>"

text \<open>\<open>LTENR_RLCMSG_STATUSPDU_AddToPacket\<close>, with the ids of the entity as arguments.\<close>

definition LTENR_RLCMSG_STATUSPDU_AddToPacket ::
  "'z pkt_api_scheme \<Rightarrow> netsim_id \<Rightarrow> netsim_id \<Rightarrow> real \<Rightarrow> LTENR_RLCMSG_STATUSPDU \<Rightarrow> u32
     \<Rightarrow> NetSim_PACKET result" where
  "LTENR_RLCMSG_STATUSPDU_AddToPacket E d peer time status sz =
     rbind (LTENR_PACKET_SET_RLCMODE
              (LTENR_PACKET_CREATE E d peer time LTENR_MSG_RLC_STATUSPDU) LTENR_RLCMODE_TM) (\<lambda>p1.
     rbind (LTENR_PACKET_SET_LOGICALCHANNEL p1 LTENR_LOGICALCHANNEL_CCCH) (\<lambda>p2.
     Inr (LTENR_HDR_ADD_TO_PACKET E p2 (STATUS status) rlcMsgSTATUSPDUHDRID (sz + 3))))"

subsection \<open>Lemmas on the header functions\<close>

lemma FindSN_iff: "LTENR_RLCAM_STATUSPDU_FindSN pdu sn \<longleftrightarrow> sn \<in> NAck_SN ` set (nackList pdu)"
proof -
  have "nack_chain_has_SN ns sn \<longleftrightarrow> sn \<in> NAck_SN ` set ns" for ns
    by (induction ns) auto
  then show ?thesis by (simp add: LTENR_RLCAM_STATUSPDU_FindSN_def)
qed

lemma statuspdu_copy_nacks_append: "statuspdu_copy_nacks ret ns = ret @ ns"
  by (induction ns arbitrary: ret) simp_all

lemma STATUSPDU_COPY_id: "LTENR_RLCMSG_STATUSPDU_COPY h = h"
  by (simp add: LTENR_RLCMSG_STATUSPDU_COPY_def statuspdu_copy_nacks_append)

context packet_api
begin

lemma AMHDR_GET_ADD:
  assumes "LTENR_HDR_GET_FROM_PACKET E p rlcMsgAMDHDRID = None"
  shows "LTENR_RLCMSG_AMHDR_GET E (fst (LTENR_RLCMSG_AMHDR_ADD E p si sn so))
    = Some \<lparr>am_dcBit = DC_CONTROL, am_P = False, am_si = si, am_SN = sn, am_SO = so\<rparr>"
  using assms by (simp add: LTENR_RLCMSG_AMHDR_GET_def LTENR_RLCMSG_AMHDR_ADD_def Let_def)

lemma UMHDR_GET_ADD:
  assumes "LTENR_HDR_GET_FROM_PACKET E p rlcMsgUMDHDRID = None"
  shows "LTENR_RLCMSG_UMHDR_GET E (fst (LTENR_RLCMSG_UMHDR_ADD E p si sn so))
    = Some \<lparr>um_si = si, um_SN = sn, um_SO = so\<rparr>"
  using assms by (simp add: LTENR_RLCMSG_UMHDR_GET_def LTENR_RLCMSG_UMHDR_ADD_def Let_def)

lemma AMHDR_GET_copy [simp]:
  "LTENR_RLCMSG_AMHDR_GET E (fn_NetSim_Packet_CopyPacket E p) = LTENR_RLCMSG_AMHDR_GET E p"
  by (simp add: LTENR_RLCMSG_AMHDR_GET_def)

lemma payload_AMHDR_ADD [simp]: "dPayload (fst (LTENR_RLCMSG_AMHDR_ADD E p si sn so)) = dPayload p"
  by (simp add: LTENR_RLCMSG_AMHDR_ADD_def Let_def)

lemma size_AMHDR_ADD [simp]:
  "dPacketSize (fst (LTENR_RLCMSG_AMHDR_ADD E p si sn so))
     = dPacketSize p + real (unat (LTENR_RLCMSG_AMDHDR_SIZE si))"
  by (simp add: LTENR_RLCMSG_AMHDR_ADD_def Let_def)

lemma payload_AMDHDR_REMOVE [simp]: "dPayload (LTENR_RLCMSG_AMDHDR_REMOVE E p) = dPayload p"
  by (simp add: LTENR_RLCMSG_AMDHDR_REMOVE_def)

lemma WRITEPOLL_Inr:
  assumes "LTENR_RLCMSG_AMDHDR_WRITEPOLL E p b = Inr p'"
  obtains h where "LTENR_RLCMSG_AMHDR_GET E p = Some h"
    and "LTENR_RLCMSG_AMHDR_GET E p' = Some (h\<lparr>am_P := b\<rparr>)"
    and "dPayload p' = dPayload p" and "dPacketSize p' = dPacketSize p"
  using assms
  by (auto simp: LTENR_RLCMSG_AMDHDR_WRITEPOLL_def rbind_Inr_iff LTENR_RLCMSG_AMHDR_GET_def
      split: option.splits hdr.splits)

end

end
