(* ===== verification/RLC_Buffer.thy ===== *)
theory RLC_Buffer
  imports RLC_Types "HOL-Library.Multiset"
begin

text \<open>
  \<open>LTENR_RLCBuffer.c\<close>: the doubly linked buffers of an RLC entity. The first half models the
  C code on an explicit store of nodes, pointers included; the second half gives the lists
  the other RLC theories work on, and the refinement between the two.
\<close>

section \<open>Nodes and buffers in the store\<close>

record LTENR_RLCBUFFER_DATA =
  data_si :: SI
  data_SN :: u32
  data_SO :: u16
  retxCount :: u32
  channel :: LTENR_LOGICALCHANNEL
  data_packet :: NetSim_PACKET
  isMarkedForRemoval :: bool
  isFragmented :: bool

type_synonym addr = nat

record rlc_node = LTENR_RLCBUFFER_DATA +
  node_next :: "addr option"
  node_prev :: "addr option"

type_synonym store = "addr \<Rightarrow> rlc_node option"

record LTENR_RLCBUFFER =
  buf_head :: "addr option"
  buf_tail :: "addr option"

definition LTENR_RLCBUFFER_ALLOC :: LTENR_RLCBUFFER where
  "LTENR_RLCBUFFER_ALLOC = \<lparr>buf_head = None, buf_tail = None\<rparr>"

text \<open>A write to one field of the node a pointer refers to.\<close>

definition node_upd :: "(rlc_node \<Rightarrow> rlc_node) \<Rightarrow> addr option \<Rightarrow> store \<Rightarrow> store result" where
  "node_upd f p h =
     rbind (deref p) (\<lambda>a. rbind (deref (h a)) (\<lambda>n. Inr (h(a \<mapsto> f n))))"

definition LTENR_RLCBUFFER_ADD_DATA ::
  "store \<Rightarrow> LTENR_RLCBUFFER \<Rightarrow> addr \<Rightarrow> (store \<times> LTENR_RLCBUFFER) result" where
  "LTENR_RLCBUFFER_ADD_DATA h buffer data =
     (if buf_head buffer \<noteq> None
      then
        rbind (node_upd (\<lambda>n. n\<lparr>node_next := Some data\<rparr>) (buf_tail buffer) h) (\<lambda>h1.
        rbind (node_upd (\<lambda>n. n\<lparr>node_prev := buf_tail buffer\<rparr>) (Some data) h1) (\<lambda>h2.
        rbind (node_upd (\<lambda>n. n\<lparr>node_next := None\<rparr>) (Some data) h2) (\<lambda>h3.
        Inr (h3, buffer\<lparr>buf_tail := Some data\<rparr>))))
      else
        rbind (node_upd (\<lambda>n. n\<lparr>node_prev := None\<rparr>) (Some data) h) (\<lambda>h1.
        rbind (node_upd (\<lambda>n. n\<lparr>node_next := None\<rparr>) (Some data) h1) (\<lambda>h2.
        Inr (h2, buffer\<lparr>buf_head := Some data, buf_tail := Some data\<rparr>))))"

definition LTENR_RLCBUFFER_REMOVE_DATA ::
  "store \<Rightarrow> LTENR_RLCBUFFER \<Rightarrow> addr \<Rightarrow> (store \<times> LTENR_RLCBUFFER) result" where
  "LTENR_RLCBUFFER_REMOVE_DATA h buffer data =
     (if buf_head buffer = Some data
      then
        rbind (deref (h data)) (\<lambda>n.
        let head' = node_next n in
        rbind (node_upd (\<lambda>n. n\<lparr>node_next := None, node_prev := None\<rparr>) (Some data) h) (\<lambda>h1.
        if head' \<noteq> None
        then rbind (node_upd (\<lambda>n. n\<lparr>node_prev := None\<rparr>) head' h1) (\<lambda>h2.
             Inr (h2, buffer\<lparr>buf_head := head'\<rparr>))
        else Inr (h1, buffer\<lparr>buf_head := head', buf_tail := None\<rparr>)))
      else
        rbind (deref (h data)) (\<lambda>n.
        rbind (node_upd (\<lambda>m. m\<lparr>node_next := node_next n\<rparr>) (node_prev n) h) (\<lambda>h1.
        rbind (if node_next n \<noteq> None
               then rbind (node_upd (\<lambda>m. m\<lparr>node_prev := node_prev n\<rparr>) (node_next n) h1) (\<lambda>h2.
                    Inr (h2, buffer))
               else Inr (h1, buffer\<lparr>buf_tail := node_prev n\<rparr>)) (\<lambda>(h2, buffer').
        rbind (node_upd (\<lambda>n. n\<lparr>node_next := None, node_prev := None\<rparr>) (Some data) h2) (\<lambda>h3.
        Inr (h3, buffer'))))))"

definition LTENR_RLCBUFFER_GETHEAD ::
  "store \<Rightarrow> LTENR_RLCBUFFER \<Rightarrow> (store \<times> LTENR_RLCBUFFER \<times> addr) result" where
  "LTENR_RLCBUFFER_GETHEAD h buffer =
     rbind (deref (buf_head buffer)) (\<lambda>data.
     rbind (LTENR_RLCBUFFER_REMOVE_DATA h buffer data) (\<lambda>(h', buffer').
     Inr (h', buffer', data)))"

text \<open>The fresh node \<open>b\<close> is the address \<open>calloc\<close> returned.\<close>

definition LTENR_RLCBuffer_AddPacket ::
  "store \<Rightarrow> LTENR_RLCBUFFER \<Rightarrow> addr \<Rightarrow> NetSim_PACKET \<Rightarrow> u32 \<Rightarrow> u16 \<Rightarrow> LTENR_LOGICALCHANNEL
     \<Rightarrow> (store \<times> LTENR_RLCBUFFER) result" where
  "LTENR_RLCBuffer_AddPacket h buffer b packet sn so ch =
     LTENR_RLCBUFFER_ADD_DATA
       (h(b \<mapsto> \<lparr>data_si = SI_ALL, data_SN = sn, data_SO = so, retxCount = 0, channel = ch,
               data_packet = packet, isMarkedForRemoval = False, isFragmented = False,
               node_next = None, node_prev = None\<rparr>)) buffer b"

text \<open>The loops walk the \<open>next\<close> pointers; a cyclic store would keep them running.\<close>

fun updateBuffer_loop ::
  "nat \<Rightarrow> store \<Rightarrow> LTENR_RLCBUFFER \<Rightarrow> addr option \<Rightarrow> (store \<times> LTENR_RLCBUFFER) result" where
  "updateBuffer_loop 0 h buffer b = Inl Diverges"
| "updateBuffer_loop (Suc fuel) h buffer None = Inr (h, buffer)"
| "updateBuffer_loop (Suc fuel) h buffer (Some b) =
     rbind (deref (h b)) (\<lambda>n.
     if isMarkedForRemoval n
     then rbind (LTENR_RLCBUFFER_REMOVE_DATA h buffer b) (\<lambda>(h', buffer').
          updateBuffer_loop fuel h' buffer' (node_next n))
     else Inr (h, buffer))"

definition LTENR_RLCBuffer_UpdateBuffer ::
  "nat \<Rightarrow> store \<Rightarrow> LTENR_RLCBUFFER \<Rightarrow> (store \<times> LTENR_RLCBUFFER) result" where
  "LTENR_RLCBuffer_UpdateBuffer fuel h buffer = updateBuffer_loop fuel h buffer (buf_head buffer)"

fun removeAllBySN_loop ::
  "nat \<Rightarrow> store \<Rightarrow> LTENR_RLCBUFFER \<Rightarrow> LTENR_RLCBUFFER \<Rightarrow> u32 \<Rightarrow> addr option
     \<Rightarrow> (store \<times> LTENR_RLCBUFFER \<times> LTENR_RLCBUFFER) result" where
  "removeAllBySN_loop 0 h buffer ret sn buf = Inl Diverges"
| "removeAllBySN_loop (Suc fuel) h buffer ret sn None = Inr (h, buffer, ret)"
| "removeAllBySN_loop (Suc fuel) h buffer ret sn (Some buf) =
     rbind (deref (h buf)) (\<lambda>n.
     if data_SN n = sn
     then rbind (LTENR_RLCBUFFER_REMOVE_DATA h buffer buf) (\<lambda>(h1, buffer').
          rbind (LTENR_RLCBUFFER_ADD_DATA h1 ret buf) (\<lambda>(h2, ret').
          removeAllBySN_loop fuel h2 buffer' ret' sn (node_next n)))
     else removeAllBySN_loop fuel h buffer ret sn (node_next n))"

definition LTENR_RLCBUFFER_FindAndRemoveAllBySN ::
  "nat \<Rightarrow> store \<Rightarrow> LTENR_RLCBUFFER \<Rightarrow> u32
     \<Rightarrow> (store \<times> LTENR_RLCBUFFER \<times> LTENR_RLCBUFFER) result" where
  "LTENR_RLCBUFFER_FindAndRemoveAllBySN fuel h buffer sn =
     removeAllBySN_loop fuel h buffer LTENR_RLCBUFFER_ALLOC sn (buf_head buffer)"

fun removeBySNSO_loop ::
  "nat \<Rightarrow> store \<Rightarrow> LTENR_RLCBUFFER \<Rightarrow> u32 \<Rightarrow> u16 \<Rightarrow> addr option
     \<Rightarrow> (store \<times> LTENR_RLCBUFFER \<times> addr option) result" where
  "removeBySNSO_loop 0 h buffer sn so buf = Inl Diverges"
| "removeBySNSO_loop (Suc fuel) h buffer sn so None = Inr (h, buffer, None)"
| "removeBySNSO_loop (Suc fuel) h buffer sn so (Some buf) =
     rbind (deref (h buf)) (\<lambda>n.
     if data_SN n = sn \<and> data_SO n = so
     then rbind (LTENR_RLCBUFFER_REMOVE_DATA h buffer buf) (\<lambda>(h', buffer').
          Inr (h', buffer', Some buf))
     else removeBySNSO_loop fuel h buffer sn so (node_next n))"

definition LTENR_RLCBUFFER_FindAndRemoveBySNSO ::
  "nat \<Rightarrow> store \<Rightarrow> LTENR_RLCBUFFER \<Rightarrow> u32 \<Rightarrow> u16
     \<Rightarrow> (store \<times> LTENR_RLCBUFFER \<times> addr option) result" where
  "LTENR_RLCBUFFER_FindAndRemoveBySNSO fuel h buffer sn so =
     removeBySNSO_loop fuel h buffer sn so (buf_head buffer)"

section \<open>The list a buffer represents\<close>

text \<open>
  \<open>dseg h p as q\<close>: the nodes at the addresses \<open>as\<close> are linked in both directions, the first
  one's \<open>prev\<close> is \<open>p\<close> and the last one's \<open>next\<close> is \<open>q\<close>.
\<close>

abbreviation first_or :: "addr list \<Rightarrow> addr option \<Rightarrow> addr option" where
  "first_or as q \<equiv> (if as = [] then q else Some (hd as))"

abbreviation last_or :: "addr option \<Rightarrow> addr list \<Rightarrow> addr option" where
  "last_or p as \<equiv> (if as = [] then p else Some (last as))"

fun dseg :: "store \<Rightarrow> addr option \<Rightarrow> addr list \<Rightarrow> addr option \<Rightarrow> bool" where
  "dseg h p [] q = True"
| "dseg h p (a # as) q =
     ((\<exists>n. h a = Some n \<and> node_prev n = p \<and> node_next n = first_or as q) \<and> dseg h (Some a) as q)"

definition dll :: "store \<Rightarrow> LTENR_RLCBUFFER \<Rightarrow> addr list \<Rightarrow> bool" where
  "dll h buffer as \<longleftrightarrow> distinct as \<and> buf_head buffer = first_or as None
     \<and> buf_tail buffer = last_or None as \<and> dseg h None as None"

text \<open>The data of the nodes, in order: what the rest of RLC sees of a buffer.\<close>

definition node_data :: "rlc_node \<Rightarrow> LTENR_RLCBUFFER_DATA" where
  "node_data n = LTENR_RLCBUFFER_DATA.truncate n"

definition data_of :: "store \<Rightarrow> addr \<Rightarrow> LTENR_RLCBUFFER_DATA" where
  "data_of h a = node_data (the (h a))"

definition same_data :: "store \<Rightarrow> store \<Rightarrow> bool" where
  "same_data h h' \<longleftrightarrow> (\<forall>a. map_option node_data (h' a) = map_option node_data (h a))"

lemma same_data_refl [simp]: "same_data h h"
  by (simp add: same_data_def)

lemma same_data_trans: "same_data h h1 \<Longrightarrow> same_data h1 h2 \<Longrightarrow> same_data h h2"
  by (simp add: same_data_def)

lemma same_data_upd:
  "h a = Some n \<Longrightarrow> node_data n' = node_data n \<Longrightarrow> same_data h (h(a \<mapsto> n'))"
  by (auto simp: same_data_def)

lemma node_data_links [simp]:
  "node_data (n\<lparr>node_next := x\<rparr>) = node_data n"
  "node_data (n\<lparr>node_prev := x\<rparr>) = node_data n"
  by (simp_all add: node_data_def LTENR_RLCBUFFER_DATA.truncate_def)

lemma node_data_sel [simp]:
  "data_SN (node_data n) = data_SN n"
  "data_SO (node_data n) = data_SO n"
  "isMarkedForRemoval (node_data n) = isMarkedForRemoval n"
  by (simp_all add: node_data_def LTENR_RLCBUFFER_DATA.truncate_def)

lemma same_data_data_of: "same_data h h' \<Longrightarrow> h a \<noteq> None \<Longrightarrow> data_of h' a = data_of h a"
  unfolding same_data_def data_of_def by (drule spec [of _ a]) (auto simp: map_option_case split: option.splits)

lemma dseg_append:
  "dseg h p (as @ bs) q \<longleftrightarrow> dseg h p as (first_or bs q) \<and> dseg h (last_or p as) bs q"
  by (induction as arbitrary: p) auto

lemma dseg_frame: "(\<And>a. a \<in> set as \<Longrightarrow> h' a = h a) \<Longrightarrow> dseg h' p as q = dseg h p as q"
  by (induction as arbitrary: p) auto

lemma dseg_mem: "dseg h p as q \<Longrightarrow> a \<in> set as \<Longrightarrow> h a \<noteq> None"
  by (induction as arbitrary: p) auto

lemma dll_ALLOC [simp]: "dll h LTENR_RLCBUFFER_ALLOC []"
  by (simp add: dll_def LTENR_RLCBUFFER_ALLOC_def)

lemma dll_Nil: "dll h buffer [] \<Longrightarrow> buf_head buffer = None"
  by (simp add: dll_def)

lemma dll_head: "dll h buffer (a # as) \<Longrightarrow> buf_head buffer = Some a"
  by (simp add: dll_def)

text \<open>Relinking one node of a segment.\<close>

lemma dseg_upd_other [simp]:
  "a \<notin> set as \<Longrightarrow> dseg (h(a \<mapsto> n)) p as q = dseg h p as q"
  by (rule dseg_frame) auto

lemma dseg_relink_next:
  assumes "dseg h p (as @ [x]) q" and "x \<notin> set as" and "h x = Some n"
  shows "dseg (h(x \<mapsto> n\<lparr>node_next := q'\<rparr>)) p (as @ [x]) q'"
  using assms by (simp add: dseg_append)

lemma dseg_relink_prev:
  assumes "dseg h p (y # ys) q" and "y \<notin> set ys" and "h y = Some n"
  shows "dseg (h(y \<mapsto> n\<lparr>node_prev := p'\<rparr>)) p' (y # ys) q"
  using assms by simp

lemma node_upd_Some [simp]: "h a = Some n \<Longrightarrow> node_upd f (Some a) h = Inr (h(a \<mapsto> f n))"
  by (simp add: node_upd_def)

section \<open>What the operations do to the lists\<close>

lemma ADD_DATA_refines:
  assumes "dll h buffer as" and "a \<notin> set as" and "h a \<noteq> None"
  shows "\<exists>h' buffer'. LTENR_RLCBUFFER_ADD_DATA h buffer a = Inr (h', buffer')
    \<and> dll h' buffer' (as @ [a]) \<and> same_data h h'
    \<and> (\<forall>b. b \<notin> set (as @ [a]) \<longrightarrow> h' b = h b)"
proof (cases as rule: rev_cases)
  case Nil
  with assms show ?thesis
    by (auto simp: LTENR_RLCBUFFER_ADD_DATA_def dll_def same_data_def)
next
  case (snoc xs x)
  from assms snoc obtain m n where n: "h x = Some m" "h a = Some n"
    by (auto simp: dll_def dseg_append)
  have seg: "dseg (h(x \<mapsto> m\<lparr>node_next := Some a\<rparr>)) None (xs @ [x]) (Some a)"
    using assms snoc n by (intro dseg_relink_next) (auto simp: dll_def)
  have ne: "a \<noteq> x" "x \<notin> set xs" "a \<notin> set xs" "distinct xs"
    using assms snoc by (auto simp: dll_def)
  have op: "LTENR_RLCBUFFER_ADD_DATA h buffer a =
      Inr (h(x \<mapsto> m\<lparr>node_next := Some a\<rparr>, a \<mapsto> n\<lparr>node_prev := Some x, node_next := None\<rparr>),
           buffer\<lparr>buf_tail := Some a\<rparr>)"
    using assms(1) snoc n ne by (simp add: LTENR_RLCBUFFER_ADD_DATA_def dll_def)
  have "dll (h(x \<mapsto> m\<lparr>node_next := Some a\<rparr>, a \<mapsto> n\<lparr>node_prev := Some x, node_next := None\<rparr>))
      (buffer\<lparr>buf_tail := Some a\<rparr>) (as @ [a])"
    using seg assms(1) snoc ne
    by (simp add: dll_def dseg_append [of _ _ "xs @ [x]" "[a]", simplified] hd_append)
  then show ?thesis
    using op snoc n ne by (auto simp: same_data_def)
qed

lemma REMOVE_head_refines:
  assumes "dll h buffer (a # ys)"
  shows "\<exists>h' buffer'. LTENR_RLCBUFFER_REMOVE_DATA h buffer a = Inr (h', buffer')
    \<and> dll h' buffer' ys \<and> same_data h h' \<and> (\<forall>b. b \<notin> set (a # ys) \<longrightarrow> h' b = h b)"
proof (cases ys)
  case Nil
  with assms show ?thesis
    by (auto simp: LTENR_RLCBUFFER_REMOVE_DATA_def dll_def same_data_def Let_def)
next
  case (Cons y ys')
  with assms obtain n m where n: "h a = Some n" "h y = Some m" "node_next n = Some y"
    by (auto simp: dll_def)
  have ne: "a \<noteq> y" "a \<notin> set ys'" "y \<notin> set ys'" "distinct ys'"
    using assms Cons by (auto simp: dll_def)
  have op: "LTENR_RLCBUFFER_REMOVE_DATA h buffer a =
     Inr (h(a \<mapsto> n\<lparr>node_next := None, node_prev := None\<rparr>, y \<mapsto> m\<lparr>node_prev := None\<rparr>),
          buffer\<lparr>buf_head := Some y\<rparr>)"
    using assms Cons n ne by (simp add: LTENR_RLCBUFFER_REMOVE_DATA_def dll_def Let_def)
  have "dseg (h(a \<mapsto> n\<lparr>node_next := None, node_prev := None\<rparr>, y \<mapsto> m\<lparr>node_prev := None\<rparr>))
      None (y # ys') None"
    using assms Cons n ne by (auto simp: dll_def)
  then show ?thesis
    using op assms Cons n ne by (auto simp: dll_def same_data_def)
qed

lemma REMOVE_inner_refines:
  assumes "dll h buffer (xs @ x # a # ys)"
  shows "\<exists>h' buffer'. LTENR_RLCBUFFER_REMOVE_DATA h buffer a = Inr (h', buffer')
    \<and> dll h' buffer' (xs @ x # ys) \<and> same_data h h'
    \<and> (\<forall>b. b \<notin> set (xs @ x # a # ys) \<longrightarrow> h' b = h b)"
proof -
  have d: "distinct (xs @ x # a # ys)" and head: "buf_head buffer = first_or (xs @ [x]) None"
    and tail: "buf_tail buffer = last_or (Some a) ys"
    and seg: "dseg h None xs (Some x)" "dseg h (Some a) ys None"
    using assms by (auto simp: dll_def dseg_append hd_append)
  obtain m n where n: "h x = Some m" "node_prev m = last_or None xs" "h a = Some n"
      "node_prev n = Some x" "node_next n = first_or ys None"
    using assms by (auto simp: dll_def dseg_append)
  have hd: "buf_head buffer \<noteq> Some a"
    using d head by (cases xs) auto
  show ?thesis
  proof (cases ys)
    case Nil
    then show ?thesis
      using d hd head tail seg n
      by (cases xs) (auto simp: LTENR_RLCBUFFER_REMOVE_DATA_def dll_def dseg_append same_data_def)
  next
    case (Cons y ys')
    then obtain l where l: "h y = Some l"
      using seg by auto
    let ?h = "h(x \<mapsto> m\<lparr>node_next := Some y\<rparr>, y \<mapsto> l\<lparr>node_prev := Some x\<rparr>,
      a \<mapsto> n\<lparr>node_next := None, node_prev := None\<rparr>)"
    have op: "LTENR_RLCBUFFER_REMOVE_DATA h buffer a = Inr (?h, buffer)"
      using d hd n l Cons by (simp add: LTENR_RLCBUFFER_REMOVE_DATA_def fun_upd_twist)
    have "dseg ?h None (xs @ x # y # ys') None"
      using d seg n l Cons by (simp add: dseg_append)
    then have "dll ?h buffer (xs @ x # ys)"
      using d head tail Cons by (auto simp: dll_def hd_append)
    moreover have "same_data h ?h"
      using d n l Cons by (auto simp: same_data_def)
    moreover have "\<forall>b. b \<notin> set (xs @ x # a # ys) \<longrightarrow> ?h b = h b"
      using Cons by auto
    ultimately show ?thesis using op by blast
  qed
qed

lemma REMOVE_DATA_refines:
  assumes "dll h buffer (xs @ a # ys)"
  shows "\<exists>h' buffer'. LTENR_RLCBUFFER_REMOVE_DATA h buffer a = Inr (h', buffer')
    \<and> dll h' buffer' (xs @ ys) \<and> same_data h h'
    \<and> (\<forall>b. b \<notin> set (xs @ a # ys) \<longrightarrow> h' b = h b)"
proof (cases xs rule: rev_cases)
  case Nil
  then show ?thesis using REMOVE_head_refines assms by simp
next
  case (snoc xs' x)
  then show ?thesis using REMOVE_inner_refines [of h buffer xs' x a ys] assms by simp
qed

text \<open>The loops: with one step more than there are nodes they end, and this is their result.\<close>

lemma dll_frame: "(\<And>a. a \<in> set as \<Longrightarrow> h' a = h a) \<Longrightarrow> dll h' buffer as = dll h buffer as"
  using dseg_frame [of as h' h] by (simp add: dll_def)

lemma dll_alloc: "dll h buffer as \<Longrightarrow> a \<in> set as \<Longrightarrow> \<exists>n. h a = Some n"
  using dseg_mem by (auto simp: dll_def)

lemma dll_first: "dll h buffer as \<Longrightarrow> buf_head buffer = first_or as None"
  by (simp add: dll_def)

lemma dll_next:
  "dll h buffer (xs @ a # ys) \<Longrightarrow> h a = Some n \<Longrightarrow> node_next n = first_or ys None"
  by (auto simp: dll_def dseg_append)

lemma data_of_Some: "h a = Some n \<Longrightarrow> data_of h a = node_data n"
  by (simp add: data_of_def)

lemma removeAllBySN_loop_refines:
  assumes "length todo < fuel" and "dll h buffer (kept @ todo)" and "dll h ret moved"
    and "set moved \<inter> set (kept @ todo) = {}" and "p = first_or todo None"
  shows "\<exists>h' buffer' ret'. removeAllBySN_loop fuel h buffer ret sn p = Inr (h', buffer', ret')
    \<and> dll h' buffer' (kept @ filter (\<lambda>a. data_SN (data_of h a) \<noteq> sn) todo)
    \<and> dll h' ret' (moved @ filter (\<lambda>a. data_SN (data_of h a) = sn) todo)
    \<and> same_data h h' \<and> (\<forall>b. b \<notin> set (moved @ kept @ todo) \<longrightarrow> h' b = h b)"
  using assms
proof (induction todo arbitrary: fuel h buffer ret kept moved p)
  case Nil
  then show ?case by (cases fuel) auto
next
  case (Cons a todo)
  then obtain f where f: "fuel = Suc f" "length todo < f" by (cases fuel) auto
  obtain n where n: "h a = Some n" using dll_alloc [OF Cons.prems(2), of a] by auto
  have nx: "node_next n = first_or todo None" using dll_next [OF Cons.prems(2) n] .
  show ?case
  proof (cases "data_SN n = sn")
    case False
    have "\<exists>h' buffer' ret'.
        removeAllBySN_loop f h buffer ret sn (node_next n) = Inr (h', buffer', ret')
      \<and> dll h' buffer' ((kept @ [a]) @ filter (\<lambda>a. data_SN (data_of h a) \<noteq> sn) todo)
      \<and> dll h' ret' (moved @ filter (\<lambda>a. data_SN (data_of h a) = sn) todo)
      \<and> same_data h h' \<and> (\<forall>b. b \<notin> set (moved @ (kept @ [a]) @ todo) \<longrightarrow> h' b = h b)"
      using Cons.prems f nx by (intro Cons.IH) auto
    with False f n Cons.prems(5) show ?thesis by (auto simp: data_of_Some)
  next
    case True
    obtain h1 b1 where r: "LTENR_RLCBUFFER_REMOVE_DATA h buffer a = Inr (h1, b1)"
        "dll h1 b1 (kept @ todo)" "same_data h h1"
        "\<forall>b. b \<notin> set (kept @ a # todo) \<longrightarrow> h1 b = h b"
      using REMOVE_DATA_refines [OF Cons.prems(2)] by blast
    have ret1: "dll h1 ret moved"
      using Cons.prems(3,4) r(4) by (subst dll_frame [of moved h1 h]) auto
    have a1: "h1 a \<noteq> None"
      using r(3) n unfolding same_data_def by (metis map_option_is_None option.distinct(1))
    have fresh: "a \<notin> set moved" "a \<notin> set (kept @ todo)"
      using Cons.prems(2,4) by (auto simp: dll_def)
    obtain h2 r2 where ad: "LTENR_RLCBUFFER_ADD_DATA h1 ret a = Inr (h2, r2)"
        "dll h2 r2 (moved @ [a])" "same_data h1 h2"
        "\<forall>b. b \<notin> set (moved @ [a]) \<longrightarrow> h2 b = h1 b"
      using ADD_DATA_refines [OF ret1 fresh(1) a1] by blast
    have b2: "dll h2 b1 (kept @ todo)"
      using r(2) ad(4) fresh Cons.prems(4) by (subst dll_frame [of _ h2 h1]) auto
    have sd: "same_data h h2" using r(3) ad(3) same_data_trans by blast
    have eq: "data_of h2 b = data_of h b" if "b \<in> set todo" for b
      using same_data_data_of [OF sd] dll_alloc [OF Cons.prems(2), of b] that by auto
    have "\<exists>h' buffer' ret'.
        removeAllBySN_loop f h2 b1 r2 sn (node_next n) = Inr (h', buffer', ret')
      \<and> dll h' buffer' (kept @ filter (\<lambda>a. data_SN (data_of h2 a) \<noteq> sn) todo)
      \<and> dll h' ret' ((moved @ [a]) @ filter (\<lambda>a. data_SN (data_of h2 a) = sn) todo)
      \<and> same_data h2 h' \<and> (\<forall>b. b \<notin> set ((moved @ [a]) @ kept @ todo) \<longrightarrow> h' b = h2 b)"
      using b2 ad(2) fresh Cons.prems(4) f nx by (intro Cons.IH) auto
    moreover have "filter (\<lambda>a. data_SN (data_of h2 a) \<noteq> sn) todo
          = filter (\<lambda>a. data_SN (data_of h a) \<noteq> sn) todo"
        "filter (\<lambda>a. data_SN (data_of h2 a) = sn) todo
          = filter (\<lambda>a. data_SN (data_of h a) = sn) todo"
      by (simp_all add: eq cong: filter_cong)
    ultimately obtain h' buffer' ret' where
        "removeAllBySN_loop f h2 b1 r2 sn (node_next n) = Inr (h', buffer', ret')"
        "dll h' buffer' (kept @ filter (\<lambda>a. data_SN (data_of h a) \<noteq> sn) todo)"
        "dll h' ret' (moved @ a # filter (\<lambda>a. data_SN (data_of h a) = sn) todo)"
        "same_data h2 h'" "\<forall>b. b \<notin> set ((moved @ [a]) @ kept @ todo) \<longrightarrow> h' b = h2 b"
      by auto
    with True f n r(1,4) ad(1,4) sd Cons.prems(5) show ?thesis
      using same_data_trans by (fastforce simp: data_of_Some)
  qed
qed

lemma removeBySNSO_loop_refines:
  assumes "length todo < fuel" and "dll h buffer (seen @ todo)" and "p = first_or todo None"
  shows "case find (\<lambda>a. data_SN (data_of h a) = sn \<and> data_SO (data_of h a) = so) todo of
      None \<Rightarrow> removeBySNSO_loop fuel h buffer sn so p = Inr (h, buffer, None)
    | Some a \<Rightarrow> \<exists>h' buffer'. removeBySNSO_loop fuel h buffer sn so p = Inr (h', buffer', Some a)
        \<and> dll h' buffer' (remove1 a (seen @ todo)) \<and> same_data h h'"
  using assms
proof (induction todo arbitrary: fuel seen p)
  case Nil
  then show ?case by (cases fuel) auto
next
  case (Cons a todo)
  then obtain f where f: "fuel = Suc f" "length todo < f" by (cases fuel) auto
  obtain n where n: "h a = Some n" using dll_alloc [OF Cons.prems(2), of a] by auto
  have nx: "node_next n = first_or todo None" using dll_next [OF Cons.prems(2) n] .
  show ?case
  proof (cases "data_SN n = sn \<and> data_SO n = so")
    case True
    have "remove1 a (seen @ a # todo) = seen @ todo"
      using Cons.prems(2) by (simp add: dll_def remove1_append)
    with True f n Cons.prems(3) show ?thesis
      using REMOVE_DATA_refines [OF Cons.prems(2)] by (auto simp: data_of_Some)
  next
    case False
    have ih: "case find (\<lambda>a. data_SN (data_of h a) = sn \<and> data_SO (data_of h a) = so) todo of
        None \<Rightarrow> removeBySNSO_loop f h buffer sn so (node_next n) = Inr (h, buffer, None)
      | Some b \<Rightarrow> \<exists>h' buffer'.
          removeBySNSO_loop f h buffer sn so (node_next n) = Inr (h', buffer', Some b)
          \<and> dll h' buffer' (remove1 b (seen @ a # todo)) \<and> same_data h h'"
      using Cons.IH [of f "seen @ [a]" "node_next n", unfolded append_assoc append.simps]
        Cons.prems f nx by simp
    have "removeBySNSO_loop fuel h buffer sn so p
          = removeBySNSO_loop f h buffer sn so (node_next n)"
      using False f n Cons.prems(3) by auto
    moreover have "find (\<lambda>a. data_SN (data_of h a) = sn \<and> data_SO (data_of h a) = so) (a # todo)
          = find (\<lambda>a. data_SN (data_of h a) = sn \<and> data_SO (data_of h a) = so) todo"
      using False n by (auto simp: data_of_Some)
    ultimately show ?thesis using ih by (simp only:)
  qed
qed

lemma updateBuffer_loop_refines:
  assumes "length todo < fuel" and "dll h buffer todo" and "p = first_or todo None"
  shows "\<exists>h' buffer'. updateBuffer_loop fuel h buffer p = Inr (h', buffer')
    \<and> dll h' buffer' (dropWhile (\<lambda>a. isMarkedForRemoval (data_of h a)) todo) \<and> same_data h h'"
  using assms
proof (induction todo arbitrary: fuel h buffer p)
  case Nil
  then show ?case by (cases fuel) auto
next
  case (Cons a todo)
  then obtain f where f: "fuel = Suc f" "length todo < f" by (cases fuel) auto
  obtain n where n: "h a = Some n" using dll_alloc [OF Cons.prems(2), of a] by auto
  have nx: "node_next n = first_or todo None"
    using dll_next [of h buffer "[]" a todo n] Cons.prems(2) n by simp
  show ?case
  proof (cases "isMarkedForRemoval n")
    case False
    with f n Cons.prems show ?thesis by (auto simp: data_of_Some)
  next
    case True
    obtain h1 b1 where r: "LTENR_RLCBUFFER_REMOVE_DATA h buffer a = Inr (h1, b1)"
        "dll h1 b1 todo" "same_data h h1"
      using REMOVE_head_refines [OF Cons.prems(2)] by blast
    have eq: "data_of h1 b = data_of h b" if "b \<in> set todo" for b
      using same_data_data_of [OF r(3)] dll_alloc [OF Cons.prems(2), of b] that by auto
    have "\<exists>h' buffer'. updateBuffer_loop f h1 b1 (node_next n) = Inr (h', buffer')
        \<and> dll h' buffer' (dropWhile (\<lambda>a. isMarkedForRemoval (data_of h1 a)) todo) \<and> same_data h1 h'"
      using r f nx by (intro Cons.IH) auto
    moreover have "dropWhile (\<lambda>a. isMarkedForRemoval (data_of h1 a)) todo
        = dropWhile (\<lambda>a. isMarkedForRemoval (data_of h a)) todo"
      by (rule dropWhile_cong) (simp_all add: eq)
    ultimately show ?thesis
      using True f n r Cons.prems(3) same_data_trans by (fastforce simp: data_of_Some)
  qed
qed

section \<open>The buffer as a sequence\<close>

text \<open>
  \<open>rep h buffer ds\<close>: the buffer holds the data \<open>ds\<close>, head first. The RLC theories work on
  these sequences; the theorems of this section say that the pointer code computes them.
\<close>

definition rep :: "store \<Rightarrow> LTENR_RLCBUFFER \<Rightarrow> LTENR_RLCBUFFER_DATA list \<Rightarrow> bool" where
  "rep h buffer ds \<longleftrightarrow> (\<exists>as. dll h buffer as \<and> map (data_of h) as = ds)"

definition buf_allBySN ::
  "LTENR_RLCBUFFER_DATA list \<Rightarrow> u32 \<Rightarrow> LTENR_RLCBUFFER_DATA list \<times> LTENR_RLCBUFFER_DATA list" where
  "buf_allBySN ds sn = (filter (\<lambda>d. data_SN d = sn) ds, filter (\<lambda>d. data_SN d \<noteq> sn) ds)"

fun buf_bySNSO ::
  "LTENR_RLCBUFFER_DATA list \<Rightarrow> u32 \<Rightarrow> u16
     \<Rightarrow> (LTENR_RLCBUFFER_DATA \<times> LTENR_RLCBUFFER_DATA list) option" where
  "buf_bySNSO [] sn so = None"
| "buf_bySNSO (d # ds) sn so =
     (if data_SN d = sn \<and> data_SO d = so then Some (d, ds)
      else map_option (\<lambda>(e, es). (e, d # es)) (buf_bySNSO ds sn so))"

definition buf_update :: "LTENR_RLCBUFFER_DATA list \<Rightarrow> LTENR_RLCBUFFER_DATA list" where
  "buf_update ds = dropWhile isMarkedForRemoval ds"

definition buf_new ::
  "NetSim_PACKET \<Rightarrow> u32 \<Rightarrow> u16 \<Rightarrow> LTENR_LOGICALCHANNEL \<Rightarrow> LTENR_RLCBUFFER_DATA" where
  "buf_new packet sn so ch =
     \<lparr>data_si = SI_ALL, data_SN = sn, data_SO = so, retxCount = 0, channel = ch,
      data_packet = packet, isMarkedForRemoval = False, isFragmented = False\<rparr>"

lemma map_data_of: "same_data h h' \<Longrightarrow> dll h buffer as \<Longrightarrow> set bs \<subseteq> set as \<Longrightarrow>
    map (data_of h') bs = map (data_of h) bs"
  using same_data_data_of dll_alloc by (metis (no_types, lifting) map_eq_conv option.distinct(1) subsetD)

lemma buf_bySNSO_find:
  "distinct as \<Longrightarrow> buf_bySNSO (map f as) sn so =
     map_option (\<lambda>a. (f a, map f (remove1 a as)))
       (find (\<lambda>a. data_SN (f a) = sn \<and> data_SO (f a) = so) as)"
proof (induction as)
  case Nil
  then show ?case by simp
next
  case (Cons a as)
  have "a \<noteq> b" if "find P as = Some b" for b P
    using that Cons.prems by (auto simp: find_Some_iff)
  with Cons show ?case
    by (cases "find (\<lambda>a. data_SN (f a) = sn \<and> data_SO (f a) = so) as") auto
qed

lemma buf_bySNSO_mset: "buf_bySNSO ds sn so = Some (d, es) \<Longrightarrow> mset ds = add_mset d (mset es)"
  by (induction ds arbitrary: es) (auto split: if_splits)

lemma buf_allBySN_mset:
  "mset (fst (buf_allBySN ds sn)) + mset (snd (buf_allBySN ds sn)) = mset ds"
  by (simp add: buf_allBySN_def)

text \<open>
  C36. A buffer is a first-in first-out queue: adding a packet puts a fresh entry with this
  number, offset and channel behind all others and leaves the others alone, and taking
  the head of a non-empty buffer returns the oldest entry and leaves the rest in order.
\<close>

theorem rlc_buffer_fifo:
  "(\<forall>as b. dll h buffer as \<and> h b = None \<longrightarrow>
      (\<exists>h' buffer'. LTENR_RLCBuffer_AddPacket h buffer b packet sn so ch = Inr (h', buffer')
         \<and> rep h' buffer' (map (data_of h) as @ [buf_new packet sn so ch])))
   \<and> (\<forall>a as. dll h buffer (a # as) \<longrightarrow>
      (\<exists>h' buffer'. LTENR_RLCBUFFER_GETHEAD h buffer = Inr (h', buffer', a)
         \<and> data_of h' a = data_of h a \<and> rep h' buffer' (map (data_of h) as)))"
proof (intro conjI allI impI)
  fix as b
  assume a: "dll h buffer as \<and> h b = None"
  let ?n = "\<lparr>data_si = SI_ALL, data_SN = sn, data_SO = so, retxCount = 0, channel = ch,
    data_packet = packet, isMarkedForRemoval = False, isFragmented = False,
    node_next = None, node_prev = None\<rparr>"
  have b: "b \<notin> set as" using a dll_alloc by fastforce
  have d: "dll (h(b \<mapsto> ?n)) buffer as"
    using a b by (subst dll_frame [of as _ h]) auto
  obtain h' buffer' where r:
      "LTENR_RLCBUFFER_ADD_DATA (h(b \<mapsto> ?n)) buffer b = Inr (h', buffer')"
      "dll h' buffer' (as @ [b])" "same_data (h(b \<mapsto> ?n)) h'"
    using ADD_DATA_refines [OF d b] by auto
  have "data_of h' b = buf_new packet sn so ch"
    using same_data_data_of [OF r(3), of b]
    by (simp add: data_of_def node_data_def buf_new_def LTENR_RLCBUFFER_DATA.truncate_def)
  moreover have "map (data_of h') as = map (data_of (h(b \<mapsto> ?n))) as"
    using map_data_of [OF r(3) d subset_refl] .
  moreover have "map (data_of (h(b \<mapsto> ?n))) as = map (data_of h) as"
    using b by (auto simp: data_of_def)
  ultimately show "\<exists>h' buffer'. LTENR_RLCBuffer_AddPacket h buffer b packet sn so ch = Inr (h', buffer')
         \<and> rep h' buffer' (map (data_of h) as @ [buf_new packet sn so ch])"
    using r unfolding LTENR_RLCBuffer_AddPacket_def rep_def by fastforce
next
  fix a as
  assume a: "dll h buffer (a # as)"
  obtain h' buffer' where r: "LTENR_RLCBUFFER_REMOVE_DATA h buffer a = Inr (h', buffer')"
      "dll h' buffer' as" "same_data h h'"
    using REMOVE_head_refines [OF a] by blast
  have "map (data_of h') (a # as) = map (data_of h) (a # as)"
    using map_data_of [OF r(3) a subset_refl] .
  then show "\<exists>h' buffer'. LTENR_RLCBUFFER_GETHEAD h buffer = Inr (h', buffer', a)
         \<and> data_of h' a = data_of h a \<and> rep h' buffer' (map (data_of h) as)"
    using r dll_head [OF a] by (auto simp: LTENR_RLCBUFFER_GETHEAD_def rep_def)
qed

text \<open>A store with one buffer of three nodes, for the witnesses.\<close>

definition ex_packet :: NetSim_PACKET where
  "ex_packet = plain_create 1 2 0 LTENR_MSG_USERDATA"

definition ex_node :: "u32 \<Rightarrow> addr option \<Rightarrow> addr option \<Rightarrow> rlc_node" where
  "ex_node sn n p = \<lparr>data_si = SI_ALL, data_SN = sn, data_SO = 0, retxCount = 0,
     channel = LTENR_LOGICALCHANNEL_DTCH, data_packet = ex_packet,
     isMarkedForRemoval = (sn = 7), isFragmented = False, node_next = n, node_prev = p\<rparr>"

definition ex_store :: store where
  "ex_store = [1 \<mapsto> ex_node 7 (Some 2) None, 2 \<mapsto> ex_node 8 (Some 3) (Some 1),
     3 \<mapsto> ex_node 7 None (Some 2)]"

definition ex_buffer :: LTENR_RLCBUFFER where
  "ex_buffer = \<lparr>buf_head = Some 1, buf_tail = Some 3\<rparr>"

lemma ex_dll: "dll ex_store ex_buffer [1, 2, 3]"
  by (simp add: dll_def ex_store_def ex_buffer_def ex_node_def)

lemma rlc_buffer_fifo_witness:
  "\<exists>h' buffer'. LTENR_RLCBUFFER_GETHEAD ex_store ex_buffer = Inr (h', buffer', 1)
     \<and> data_of h' 1 = data_of ex_store 1 \<and> rep h' buffer' (map (data_of ex_store) [2, 3])"
  using rlc_buffer_fifo [of ex_store ex_buffer ex_packet 0 0 LTENR_LOGICALCHANNEL_DTCH] ex_dll
  by blast

text \<open>
  Taking all entries of one sequence number out of a buffer ends, and splits it into the
  entries with that number and the others, both in their old order.
\<close>

theorem FindAndRemoveAllBySN_splits:
  assumes "dll h buffer as" and "length as < fuel"
  shows "\<exists>h' buffer' ret'.
    LTENR_RLCBUFFER_FindAndRemoveAllBySN fuel h buffer sn = Inr (h', buffer', ret')
    \<and> rep h' ret' (fst (buf_allBySN (map (data_of h) as) sn))
    \<and> rep h' buffer' (snd (buf_allBySN (map (data_of h) as) sn))"
proof -
  obtain h' buffer' ret' where r:
      "LTENR_RLCBUFFER_FindAndRemoveAllBySN fuel h buffer sn = Inr (h', buffer', ret')"
      "dll h' buffer' (filter (\<lambda>a. data_SN (data_of h a) \<noteq> sn) as)"
      "dll h' ret' (filter (\<lambda>a. data_SN (data_of h a) = sn) as)" "same_data h h'"
    using removeAllBySN_loop_refines [of as fuel h buffer "[]" LTENR_RLCBUFFER_ALLOC "[]"
        "buf_head buffer" sn] assms dll_first [OF assms(1)]
    by (auto simp: LTENR_RLCBUFFER_FindAndRemoveAllBySN_def)
  moreover have "map (data_of h') (filter P as) = map (data_of h) (filter P as)" for P
    by (rule map_data_of [OF r(4) assms(1)]) auto
  ultimately show ?thesis
    unfolding rep_def buf_allBySN_def by (auto simp: filter_map o_def)
qed

lemma FindAndRemoveAllBySN_splits_witness:
  "\<exists>h' buffer' ret'. LTENR_RLCBUFFER_FindAndRemoveAllBySN 4 ex_store ex_buffer 7 = Inr (h', buffer', ret')
    \<and> rep h' ret' (fst (buf_allBySN (map (data_of ex_store) [1, 2, 3]) 7))
    \<and> rep h' buffer' (snd (buf_allBySN (map (data_of ex_store) [1, 2, 3]) 7))"
  by (rule FindAndRemoveAllBySN_splits [OF ex_dll]) simp

text \<open>
  Looking up one segment by number and offset ends and takes out the first match, or
  leaves store and buffer as they were when there is none.
\<close>

theorem FindAndRemoveBySNSO_takes_first:
  assumes "dll h buffer as" and "length as < fuel"
  shows "case buf_bySNSO (map (data_of h) as) sn so of
      None \<Rightarrow> LTENR_RLCBUFFER_FindAndRemoveBySNSO fuel h buffer sn so = Inr (h, buffer, None)
    | Some (d, ds) \<Rightarrow> \<exists>h' buffer' a.
        LTENR_RLCBUFFER_FindAndRemoveBySNSO fuel h buffer sn so = Inr (h', buffer', Some a)
        \<and> data_of h' a = d \<and> rep h' buffer' ds"
proof -
  note r = removeBySNSO_loop_refines [of as fuel h buffer "[]" "buf_head buffer" sn so]
  have p: "buf_head buffer = first_or as None" and dist: "distinct as"
    using assms(1) by (simp_all add: dll_def)
  show ?thesis
  proof (cases "find (\<lambda>a. data_SN (data_of h a) = sn \<and> data_SO (data_of h a) = so) as")
    case None
    then show ?thesis
      using r assms p by (simp add: buf_bySNSO_find [OF dist] LTENR_RLCBUFFER_FindAndRemoveBySNSO_def)
  next
    case (Some a)
    then obtain h' buffer' where
        "removeBySNSO_loop fuel h buffer sn so (buf_head buffer) = Inr (h', buffer', Some a)"
        and d: "dll h' buffer' (remove1 a as)" and sd: "same_data h h'"
      using r assms p by auto
    moreover have "a \<in> set as" using Some by (auto simp: find_Some_iff)
    then have "map (data_of h') (a # remove1 a as) = map (data_of h) (a # remove1 a as)"
      using map_data_of [OF sd assms(1), of "a # remove1 a as"] set_remove1_subset [of a as] by auto
    ultimately show ?thesis
      using Some unfolding buf_bySNSO_find [OF dist] LTENR_RLCBUFFER_FindAndRemoveBySNSO_def rep_def
      by auto
  qed
qed

lemma FindAndRemoveBySNSO_takes_first_witness:
  "\<exists>h' buffer' a.
     LTENR_RLCBUFFER_FindAndRemoveBySNSO 4 ex_store ex_buffer 8 0 = Inr (h', buffer', Some a)
     \<and> data_of h' a = data_of ex_store 2 \<and> rep h' buffer' (map (data_of ex_store) [1, 3])"
  using FindAndRemoveBySNSO_takes_first [OF ex_dll, of 4 8 0]
  by (simp add: data_of_def ex_store_def ex_node_def)

text \<open>
  Cleaning up a buffer after transmission removes the marked entries in front of the
  first unmarked one, and no others: an entry marked behind an unmarked one stays.
\<close>

theorem UpdateBuffer_drops_marked_prefix:
  assumes "dll h buffer as" and "length as < fuel"
  shows "\<exists>h' buffer'. LTENR_RLCBuffer_UpdateBuffer fuel h buffer = Inr (h', buffer')
    \<and> rep h' buffer' (buf_update (map (data_of h) as))"
proof -
  obtain h' buffer' where r: "LTENR_RLCBuffer_UpdateBuffer fuel h buffer = Inr (h', buffer')"
      "dll h' buffer' (dropWhile (\<lambda>a. isMarkedForRemoval (data_of h a)) as)" "same_data h h'"
    using updateBuffer_loop_refines [of as fuel h buffer "buf_head buffer"] assms
      dll_first [OF assms(1)] by (auto simp: LTENR_RLCBuffer_UpdateBuffer_def)
  moreover have "map (data_of h') (dropWhile P as) = map (data_of h) (dropWhile P as)" for P
    using map_data_of [OF r(3) assms(1), of "dropWhile P as"] set_dropWhileD by fastforce
  ultimately show ?thesis
    unfolding rep_def buf_update_def by (auto simp: dropWhile_map o_def)
qed

lemma UpdateBuffer_drops_marked_prefix_witness:
  "\<exists>h' buffer'. LTENR_RLCBuffer_UpdateBuffer 4 ex_store ex_buffer = Inr (h', buffer')
    \<and> rep h' buffer' (map (data_of ex_store) [2, 3])"
  using UpdateBuffer_drops_marked_prefix [OF ex_dll, of 4]
  by (simp add: buf_update_def data_of_def ex_store_def ex_node_def)

end
