(* ===== verification/RLC_Entity.thy ===== *)
theory RLC_Entity
  imports RLC_Buffer
begin

text \<open>
  The RLC entity of \<open>LTE_NR/LTENR_RLC.h\<close>, the calls an RLC operation makes to the rest of the
  simulator, and the timers all modes share. An operation on an entity takes the entity and
  the current event (\<open>pstruEventDetails\<close>) and gives both back; the calls it makes are
  recorded, in order, in the field \<open>trace\<close>.
\<close>

section \<open>Reception buffers and status records\<close>

text \<open>\<open>rb_packets\<close> is the chain from \<open>head\<close> to \<open>tail\<close> over \<open>pstruNextPacket\<close>.\<close>

record LTENR_RLC_RECEPTIONBUFFER =
  reassembleCount :: u32
  rb_SN :: u32
  lastSDUSO :: u32
  isLastSDUReceived :: bool
  rb_packets :: "NetSim_PACKET list"

text \<open>\<open>list_alloc\<close> returns zeroed memory.\<close>

definition LTENR_RLC_RECEPTIONBUFFER_ALLOC :: LTENR_RLC_RECEPTIONBUFFER where
  "LTENR_RLC_RECEPTIONBUFFER_ALLOC =
     \<lparr>reassembleCount = 0, rb_SN = 0, lastSDUSO = 0, isLastSDUReceived = False, rb_packets = []\<rparr>"

record LTENR_RLCAM_STATUS =
  st_si :: SI
  st_SN :: u32
  st_SO :: u16

section \<open>The entity\<close>

definition AM_Window_Size :: u32 where "AM_Window_Size = 0x800"

definition UM_Window_Size :: u32 where "UM_Window_Size = 0x20"

text \<open>
  The buffers are the sequences of \<open>RLC_Buffer\<close>; \<open>noBuffers\<close> says that the three pointers
  \<open>transmissionBuffer\<close>, \<open>transmittedBuffer\<close> and \<open>retransmissionBuffer\<close> are NULL, as they are before
  the entity is set up and when a handover has taken the buffers away; the sequences are empty
  then. Fields of the nested structs \<open>AM\<close> and \<open>UM\<close> carry the struct's name.
\<close>

record LTENR_RLCENTITY =
  ent_d :: netsim_id
  ent_in :: netsim_id
  peerId :: netsim_id
  peerIf :: netsim_id
  rlcMode :: LTENR_RLCMODE
  isTransmittingRLCEntity :: bool
  isReceivingRLCEntity :: bool
  AM_TX_Next_Ack :: u32
  AM_TX_Next :: u32
  AM_POLL_SN :: u32
  AM_TX_HighestSN :: u32
  AM_PDU_WITHOUT_POLL :: u32
  AM_BYTE_WITHOUT_POLL :: u32
  AM_RX_Next :: u32
  AM_RX_Next_Status_Trigger :: u32
  AM_RX_Highest_Status :: u32
  AM_RX_Next_Highest :: u32
  AM_receptionBuffer :: "LTENR_RLC_RECEPTIONBUFFER list"
  AM_isStatusReportDelayed :: bool
  AM_isConstructStatusReortDelayed :: bool
  AM_recvdInfo :: "LTENR_RLCAM_STATUS list"
  UM_TX_Next :: u32
  UM_RX_Timer_Trigger :: u32
  UM_RX_Next_Reassembly :: u32
  UM_RX_Next_Highest :: u32
  UM_receptionBuffer :: "LTENR_RLC_RECEPTIONBUFFER list"
  t_PollRetransmit :: real
  isPollRetransmitTimerStarted :: bool
  pollRetransmitTimerId :: u64
  t_Reassembly :: real
  isReassemblyTimerStarted :: bool
  reassemblyTimerId :: u64
  t_StatusProhibit :: real
  isStatusProhibitTimerStarted :: bool
  statusProhibitTimerId :: u64
  maxRetxThreshold :: u32
  pollPDU :: u32
  pollByte :: u32
  transmissionBuffer :: "LTENR_RLCBUFFER_DATA list"
  transmittedBuffer :: "LTENR_RLCBUFFER_DATA list"
  retransmissionBuffer :: "LTENR_RLCBUFFER_DATA list"
  bufferStatus :: "LTENR_LOGICALCHANNEL \<Rightarrow> u32"
  noBuffers :: bool

text \<open>\<open>list_alloc\<close> returns zeroed memory: every number is 0, every flag false, no buffer holds anything.\<close>

definition LTENR_RLCENTITY_ALLOC :: LTENR_RLCENTITY where
  "LTENR_RLCENTITY_ALLOC =
     \<lparr>ent_d = 0, ent_in = 0, peerId = 0, peerIf = 0, rlcMode = LTENR_RLCMODE_TM,
      isTransmittingRLCEntity = False, isReceivingRLCEntity = False,
      AM_TX_Next_Ack = 0, AM_TX_Next = 0, AM_POLL_SN = 0, AM_TX_HighestSN = 0,
      AM_PDU_WITHOUT_POLL = 0, AM_BYTE_WITHOUT_POLL = 0, AM_RX_Next = 0,
      AM_RX_Next_Status_Trigger = 0, AM_RX_Highest_Status = 0, AM_RX_Next_Highest = 0,
      AM_receptionBuffer = [], AM_isStatusReportDelayed = False,
      AM_isConstructStatusReortDelayed = False, AM_recvdInfo = [],
      UM_TX_Next = 0, UM_RX_Timer_Trigger = 0, UM_RX_Next_Reassembly = 0, UM_RX_Next_Highest = 0,
      UM_receptionBuffer = [],
      t_PollRetransmit = 0, isPollRetransmitTimerStarted = False, pollRetransmitTimerId = 0,
      t_Reassembly = 0, isReassemblyTimerStarted = False, reassemblyTimerId = 0,
      t_StatusProhibit = 0, isStatusProhibitTimerStarted = False, statusProhibitTimerId = 0,
      maxRetxThreshold = 0, pollPDU = 0, pollByte = 0,
      transmissionBuffer = [], transmittedBuffer = [], retransmissionBuffer = [],
      bufferStatus = (\<lambda>ch. 0), noBuffers = True\<rparr>"

section \<open>Events and calls\<close>

datatype LTENR_SUBEVENT =
    LTENR_SUBEVNT_RLC_TREASSEMBLYTIMER
  | LTENR_SUBEVNT_RLC_TPOLLRETRANSMITTIMER
  | LTENR_SUBEVNT_RLC_TSTATUSPROHIBITTIMER

text \<open>The fields of a timer event the sources fill (\<open>szOtherDetails\<close> is the entity itself).\<close>

record timer_event =
  te_time :: real
  te_deviceId :: netsim_id
  te_deviceType :: nat
  te_interfaceId :: netsim_id
  te_subevent :: LTENR_SUBEVENT

text \<open>The event \<open>LTENR_RLC_SENDPDUTOMAC\<close> hands to the MAC sublayer.\<close>

record mac_out_event =
  mo_time :: real
  mo_packetSize :: real
  mo_app :: "(u32 \<times> int) option"
  mo_deviceId :: netsim_id
  mo_deviceType :: nat
  mo_interfaceId :: netsim_id
  mo_packet :: NetSim_PACKET

text \<open>
  \<open>HdrWrite p\<close>: after the packet was handed to the MAC sublayer its header was written
  through the pointer, and it now is \<open>p\<close>. \<open>ToTM p\<close>: the packet goes to
  \<open>LTENR_RLC_TM_HandlePDUFromUpperLayer\<close>, which works on another entity (\<open>RLC_Core\<close>).
\<close>

datatype effect =
    ToMAC mac_out_event | HdrWrite NetSim_PACKET
  | ToPDCP NetSim_PACKET | ToRRC NetSim_PACKET | ToTM NetSim_PACKET
  | AddEvent timer_event u64 | DeleteEvent u64
  | FreePacket NetSim_PACKET | NetSimError

record EVENTDETAILS =
  dEventTime :: real
  nDeviceId :: netsim_id
  nInterfaceId :: netsim_id
  pPacket :: "NetSim_PACKET option"
  trace :: "effect list"

definition emit :: "effect \<Rightarrow> EVENTDETAILS \<Rightarrow> EVENTDETAILS" where
  "emit e s = s\<lparr>trace := trace s @ [e]\<rparr>"

definition emits :: "effect list \<Rightarrow> EVENTDETAILS \<Rightarrow> EVENTDETAILS" where
  "emits es s = s\<lparr>trace := trace s @ es\<rparr>"

text \<open>
  The code outside the repository that RLC calls: the packet functions, the list library at
  its two element types, the event id \<open>fnpAddEvent\<close> returns, and \<open>DEVICE_TYPE\<close>.
\<close>

record rlc_env = pkt_api +
  rb_lib :: "LTENR_RLC_RECEPTIONBUFFER list_lib"
  st_lib :: "LTENR_RLCAM_STATUS list_lib"
  fnpAddEvent :: "timer_event \<Rightarrow> effect list \<Rightarrow> u64"
  DEVICE_TYPE :: "netsim_id \<Rightarrow> nat"

locale rlc_environment = packet_api E + rb: list_library "rb_lib E" + st: list_library "st_lib E"
  for E :: rlc_env

definition plain_rlc_env :: rlc_env where
  "plain_rlc_env = pkt_api.extend plain_pkt_api
     \<lparr>rb_lib = plain_list_lib, st_lib = plain_list_lib,
      fnpAddEvent = (\<lambda>ev tr. of_nat (length tr)), DEVICE_TYPE = (\<lambda>d. 0)\<rparr>"

interpretation plain_rlc: rlc_environment plain_rlc_env
proof -
  have "packet_api plain_rlc_env"
    using plain_pkt.packet_api_axioms
    by (simp add: packet_api_def plain_rlc_env_def plain_pkt_api_def pkt_api.defs)
  moreover have "list_library (rb_lib plain_rlc_env)" "list_library (st_lib plain_rlc_env)"
    using plain.list_library_axioms
    by (simp_all add: plain_rlc_env_def plain_pkt_api_def pkt_api.defs list_library_def
        plain_list_lib_def)
  ultimately show "rlc_environment plain_rlc_env"
    by (simp add: rlc_environment_def)
qed

text \<open>\<open>LTENR_RLC_SENDPDUTOMAC\<close>: the current event is saved, replaced, and restored after the call.\<close>

definition LTENR_RLC_SENDPDUTOMAC ::
  "rlc_env \<Rightarrow> netsim_id \<Rightarrow> netsim_id \<Rightarrow> NetSim_PACKET \<Rightarrow> EVENTDETAILS \<Rightarrow> EVENTDETAILS" where
  "LTENR_RLC_SENDPDUTOMAC E d i packet s =
     emit (ToMAC \<lparr>mo_time = dEventTime s, mo_packetSize = dPacketSize packet,
        mo_app = appInfo packet, mo_deviceId = d, mo_deviceType = DEVICE_TYPE E d,
        mo_interfaceId = i, mo_packet = packet\<rparr>) s"

section \<open>Timers\<close>

definition LTENR_RLC_Start_t_ReassemblyTimer ::
  "rlc_env \<Rightarrow> LTENR_RLCENTITY \<Rightarrow> EVENTDETAILS \<Rightarrow> LTENR_RLCENTITY \<times> EVENTDETAILS" where
  "LTENR_RLC_Start_t_ReassemblyTimer E entity s =
     (let ev = \<lparr>te_time = dEventTime s + t_Reassembly entity, te_deviceId = ent_d entity,
                te_deviceType = DEVICE_TYPE E (ent_d entity), te_interfaceId = ent_in entity,
                te_subevent = LTENR_SUBEVNT_RLC_TREASSEMBLYTIMER\<rparr>;
          id = fnpAddEvent E ev (trace s)
      in (entity\<lparr>reassemblyTimerId := id, isReassemblyTimerStarted := True\<rparr>,
          emit (AddEvent ev id) s))"

definition LTENR_RLC_Stop_t_ReassemblyTimer ::
  "LTENR_RLCENTITY \<Rightarrow> EVENTDETAILS \<Rightarrow> LTENR_RLCENTITY \<times> EVENTDETAILS" where
  "LTENR_RLC_Stop_t_ReassemblyTimer entity s =
     (if \<not> isReassemblyTimerStarted entity then (entity, s)
      else (entity\<lparr>isReassemblyTimerStarted := False\<rparr>,
            emit (DeleteEvent (reassemblyTimerId entity)) s))"

definition LTENR_RLCAM_Start_t_PollRetransmitTimer ::
  "rlc_env \<Rightarrow> LTENR_RLCENTITY \<Rightarrow> EVENTDETAILS \<Rightarrow> LTENR_RLCENTITY \<times> EVENTDETAILS" where
  "LTENR_RLCAM_Start_t_PollRetransmitTimer E entity s =
     (let ev = \<lparr>te_time = dEventTime s + t_PollRetransmit entity, te_deviceId = ent_d entity,
                te_deviceType = DEVICE_TYPE E (ent_d entity), te_interfaceId = ent_in entity,
                te_subevent = LTENR_SUBEVNT_RLC_TPOLLRETRANSMITTIMER\<rparr>;
          id = fnpAddEvent E ev (trace s)
      in (entity\<lparr>pollRetransmitTimerId := id, isPollRetransmitTimerStarted := True\<rparr>,
          emit (AddEvent ev id) s))"

definition LTENR_RLCAM_Stop_t_PollRetransmitTimer ::
  "LTENR_RLCENTITY \<Rightarrow> EVENTDETAILS \<Rightarrow> LTENR_RLCENTITY \<times> EVENTDETAILS" where
  "LTENR_RLCAM_Stop_t_PollRetransmitTimer entity s =
     (if \<not> isPollRetransmitTimerStarted entity then (entity, s)
      else (entity\<lparr>isPollRetransmitTimerStarted := False\<rparr>,
            emit (DeleteEvent (pollRetransmitTimerId entity)) s))"

definition LTENR_RLCAM_Start_t_StatusProhibitTimer ::
  "rlc_env \<Rightarrow> LTENR_RLCENTITY \<Rightarrow> EVENTDETAILS \<Rightarrow> LTENR_RLCENTITY \<times> EVENTDETAILS" where
  "LTENR_RLCAM_Start_t_StatusProhibitTimer E entity s =
     (let ev = \<lparr>te_time = dEventTime s + t_StatusProhibit entity, te_deviceId = ent_d entity,
                te_deviceType = DEVICE_TYPE E (ent_d entity), te_interfaceId = ent_in entity,
                te_subevent = LTENR_SUBEVNT_RLC_TSTATUSPROHIBITTIMER\<rparr>;
          id = fnpAddEvent E ev (trace s)
      in (entity\<lparr>statusProhibitTimerId := id, isStatusProhibitTimerStarted := True\<rparr>,
          emit (AddEvent ev id) s))"

definition LTENR_RLCAM_Stop_t_StatusProhibitTimer ::
  "LTENR_RLCENTITY \<Rightarrow> EVENTDETAILS \<Rightarrow> LTENR_RLCENTITY \<times> EVENTDETAILS" where
  "LTENR_RLCAM_Stop_t_StatusProhibitTimer entity s =
     (if \<not> isStatusProhibitTimerStarted entity then (entity, s)
      else (entity\<lparr>isStatusProhibitTimerStarted := False\<rparr>,
            emit (DeleteEvent (statusProhibitTimerId entity)) s))"

lemmas timer_defs = LTENR_RLC_Start_t_ReassemblyTimer_def LTENR_RLC_Stop_t_ReassemblyTimer_def
  LTENR_RLCAM_Start_t_PollRetransmitTimer_def LTENR_RLCAM_Stop_t_PollRetransmitTimer_def
  LTENR_RLCAM_Start_t_StatusProhibitTimer_def LTENR_RLCAM_Stop_t_StatusProhibitTimer_def

section \<open>Looking through reception buffers\<close>

text \<open>
  The walk that looks for the buffer of a sequence number, in both modes. The pointer it
  returns is a position in the list.
\<close>

fun find_receptionBuffer :: "LTENR_RLC_RECEPTIONBUFFER list \<Rightarrow> u32 \<Rightarrow> nat option" where
  "find_receptionBuffer [] sn = None"
| "find_receptionBuffer (buf # bufs) sn =
     (if rb_SN buf = sn then Some 0 else map_option Suc (find_receptionBuffer bufs sn))"

definition CompareVal :: "u32 \<Rightarrow> u32 \<Rightarrow> string \<Rightarrow> bool" where
  "CompareVal arg0 arg1 op =
     (if op = ''>'' then arg0 > arg1
      else if op = ''>='' then arg0 \<ge> arg1
      else if op = ''<'' then arg0 < arg1
      else if op = ''<='' then arg0 \<le> arg1
      else if op = ''=='' then arg0 = arg1
      else if op = ''!='' then arg0 \<noteq> arg1 else False)"

fun ReceptionBuffer_FindSN :: "LTENR_RLC_RECEPTIONBUFFER list \<Rightarrow> u32 \<Rightarrow> string \<Rightarrow> u32" where
  "ReceptionBuffer_FindSN [] sn op = 0"
| "ReceptionBuffer_FindSN (buffer # bufs) sn op =
     (if CompareVal (rb_SN buffer) sn op then rb_SN buffer else ReceptionBuffer_FindSN bufs sn op)"

text \<open>
  The chain of packets put together: the payloads of the followers are added to the first,
  and the followers are freed.
\<close>

fun reassemble_loop ::
  "NetSim_PACKET \<Rightarrow> NetSim_PACKET list \<Rightarrow> NetSim_PACKET" where
  "reassemble_loop packet [] = packet"
| "reassemble_loop packet (l # ls) =
     reassemble_loop (packet\<lparr>dPayload := dPayload packet + dPayload l,
                             dPacketSize := dPacketSize packet + dPayload l\<rparr>) ls"

definition ReassembleAllBytes ::
  "LTENR_RLC_RECEPTIONBUFFER \<Rightarrow> (NetSim_PACKET \<times> effect list) result" where
  "ReassembleAllBytes buffer =
     (case rb_packets buffer of
        [] \<Rightarrow> Inl NullDeref
      | p # ps \<Rightarrow> Inr (reassemble_loop p ps, map FreePacket ps))"

text \<open>
  The scan that asks whether every segment before the last one is marked: it stops at the
  first gap.
\<close>

definition all_marked :: "bool list \<Rightarrow> nat \<Rightarrow> bool" where
  "all_marked isRecv n = list_all id (take n isRecv)"

definition payload_sum :: "NetSim_PACKET list \<Rightarrow> real" where
  "payload_sum ps = sum_list (map dPayload ps)"

subsection \<open>Lemmas\<close>

lemma find_receptionBuffer_None:
  "find_receptionBuffer bufs sn = None \<longleftrightarrow> sn \<notin> rb_SN ` set bufs"
  by (induction bufs) auto

lemma find_receptionBuffer_Some:
  "find_receptionBuffer bufs sn = Some i \<Longrightarrow>
     i < length bufs \<and> rb_SN (bufs ! i) = sn \<and> (\<forall>j < i. rb_SN (bufs ! j) \<noteq> sn)"
proof (induction bufs arbitrary: i)
  case (Cons b bufs)
  show ?case
  proof (cases i)
    case 0
    with Cons.prems show ?thesis by (auto split: if_splits)
  next
    case (Suc j)
    with Cons show ?thesis by (auto split: if_splits simp: less_Suc_eq_0_disj)
  qed
qed simp

lemma reassemble_loop_payload:
  "dPayload (reassemble_loop p ps) = dPayload p + payload_sum ps"
  by (induction ps arbitrary: p) (simp_all add: payload_sum_def)

lemma reassemble_loop_size:
  "dPacketSize (reassemble_loop p ps) = dPacketSize p + payload_sum ps"
  by (induction ps arbitrary: p) (simp_all add: payload_sum_def)

lemma ReassembleAllBytes_payload:
  "ReassembleAllBytes b = Inr (p, fs) \<Longrightarrow> dPayload p = payload_sum (rb_packets b)"
  by (auto simp: ReassembleAllBytes_def reassemble_loop_payload payload_sum_def split: list.splits)

lemma emit_simps [simp]:
  "dEventTime (emit e s) = dEventTime s" "nDeviceId (emit e s) = nDeviceId s"
  "nInterfaceId (emit e s) = nInterfaceId s" "pPacket (emit e s) = pPacket s"
  "trace (emit e s) = trace s @ [e]"
  by (simp_all add: emit_def)

lemma emits_simps [simp]:
  "dEventTime (emits e s) = dEventTime s" "nDeviceId (emits e s) = nDeviceId s"
  "nInterfaceId (emits e s) = nInterfaceId s" "pPacket (emits e s) = pPacket s"
  "trace (emits e s) = trace s @ e"
  by (simp_all add: emits_def)

end
