(* ===== verification/RLC_AM_Rx.thy ===== *)
theory RLC_AM_Rx
  imports RLC_Entity
begin

text \<open>
  The receiving side of RLC acknowledged mode (\<open>LTE_NR/LTENR_RLC_AM.c\<close>): the reception
  buffers, the placing of a PDU, the reassembly timer, and the construction of status
  reports.
\<close>

section \<open>Reception buffer\<close>

definition LTENR_RLCAM_IsSNFallsInReceivingWindow :: "LTENR_RLCENTITY \<Rightarrow> u32 \<Rightarrow> bool" where
  "LTENR_RLCAM_IsSNFallsInReceivingWindow entity sn \<longleftrightarrow>
     AM_RX_Next entity \<le> sn \<and> sn < AM_RX_Next entity + AM_Window_Size"

definition LTENR_RLCAM_ReceptionBuffer_FindSN :: "LTENR_RLCENTITY \<Rightarrow> u32 \<Rightarrow> string \<Rightarrow> u32" where
  "LTENR_RLCAM_ReceptionBuffer_FindSN entity sn op =
     ReceptionBuffer_FindSN (AM_receptionBuffer entity) sn op"

definition LTENR_RLCAM_FINDRECEPTIONBUFFER :: "LTENR_RLCENTITY \<Rightarrow> u32 \<Rightarrow> nat option" where
  "LTENR_RLCAM_FINDRECEPTIONBUFFER entity sn = find_receptionBuffer (AM_receptionBuffer entity) sn"

fun chain_has_SO :: "'z pkt_api_scheme \<Rightarrow> NetSim_PACKET list \<Rightarrow> u16 \<Rightarrow> bool result" where
  "chain_has_SO E [] so = Inr False"
| "chain_has_SO E (p # ps) so =
     rbind (deref (LTENR_RLCMSG_AMHDR_GET E p)) (\<lambda>hdr.
     if am_SO hdr = so then Inr True else chain_has_SO E ps so)"

definition LTENR_RLCAM_IsPDUPresentInReceptionBuffer ::
  "'z pkt_api_scheme \<Rightarrow> LTENR_RLCENTITY \<Rightarrow> u32 \<Rightarrow> u16 \<Rightarrow> bool result" where
  "LTENR_RLCAM_IsPDUPresentInReceptionBuffer E entity sn so =
     (case LTENR_RLCAM_FINDRECEPTIONBUFFER entity sn of
        None \<Rightarrow> Inr False
      | Some i \<Rightarrow> chain_has_SO E (rb_packets (AM_receptionBuffer entity ! i)) so)"

text \<open>The new buffer and its position: it is the last of the list.\<close>

definition LTENR_RLCAM_CREATERECEPTIONBUFFER ::
  "rlc_env \<Rightarrow> LTENR_RLCENTITY \<Rightarrow> u32 \<Rightarrow> LTENR_RLCENTITY \<times> nat" where
  "LTENR_RLCAM_CREATERECEPTIONBUFFER E entity sn =
     (let buf = LTENR_RLC_RECEPTIONBUFFER_ALLOC\<lparr>rb_SN := sn\<rparr>
      in (entity\<lparr>AM_receptionBuffer := list_add_last (rb_lib E) (AM_receptionBuffer entity) buf\<rparr>,
          length (AM_receptionBuffer entity)))"

definition LTENR_RLCAM_DeleteReceptionBuffer ::
  "rlc_env \<Rightarrow> LTENR_RLCENTITY \<Rightarrow> nat \<Rightarrow> LTENR_RLCENTITY" where
  "LTENR_RLCAM_DeleteReceptionBuffer E entity i =
     entity\<lparr>AM_receptionBuffer := list_free (rb_lib E) (AM_receptionBuffer entity) i\<rparr>"

definition LTENR_RLCAM_AddToReceptionBuffer ::
  "'z pkt_api_scheme \<Rightarrow> LTENR_RLC_RECEPTIONBUFFER \<Rightarrow> NetSim_PACKET
     \<Rightarrow> LTENR_RLC_RECEPTIONBUFFER result" where
  "LTENR_RLCAM_AddToReceptionBuffer E buffer packet =
     (let b1 = buffer\<lparr>rb_packets := rb_packets buffer @ [packet]\<rparr>
      in rbind (deref (LTENR_RLCMSG_AMHDR_GET E packet)) (\<lambda>h.
         Inr (if am_si h = SI_LAST \<or> am_si h = SI_ALL
              then b1\<lparr>isLastSDUReceived := True, lastSDUSO := ucast (am_SO h)\<rparr> else b1)))"

text \<open>\<open>isRecv[h->SO] = true\<close> for each segment of the chain.\<close>

fun mark_received ::
  "'z pkt_api_scheme \<Rightarrow> NetSim_PACKET list \<Rightarrow> bool list \<Rightarrow> bool list result" where
  "mark_received E [] isRecv = Inr isRecv"
| "mark_received E (p # ps) isRecv =
     rbind (deref (LTENR_RLCMSG_AMHDR_GET E p)) (\<lambda>h.
     if unat (am_SO h) < length isRecv
     then mark_received E ps (isRecv[unat (am_SO h) := True])
     else Inl OutOfBounds)"

definition LTENR_RLCAM_isAllByteSegmentReceived ::
  "'z pkt_api_scheme \<Rightarrow> LTENR_RLC_RECEPTIONBUFFER \<Rightarrow> bool result" where
  "LTENR_RLCAM_isAllByteSegmentReceived E buffer =
     (if \<not> isLastSDUReceived buffer then Inr False
      else rbind (mark_received E (rb_packets buffer)
                    (replicate (unat (lastSDUSO buffer) + 1) False)) (\<lambda>isRecv.
           Inr (all_marked isRecv (unat (lastSDUSO buffer)))))"

definition LTENR_RLCAM_isAllBytesReceivedForSN ::
  "'z pkt_api_scheme \<Rightarrow> LTENR_RLCENTITY \<Rightarrow> u32 \<Rightarrow> bool result" where
  "LTENR_RLCAM_isAllBytesReceivedForSN E entity sn =
     (case LTENR_RLCAM_FINDRECEPTIONBUFFER entity sn of
        None \<Rightarrow> Inr True
      | Some i \<Rightarrow> LTENR_RLCAM_isAllByteSegmentReceived E (AM_receptionBuffer entity ! i))"

definition LTENR_RLCAM_ReassembleAllBytes ::
  "LTENR_RLC_RECEPTIONBUFFER \<Rightarrow> (NetSim_PACKET \<times> effect list) result" where
  "LTENR_RLCAM_ReassembleAllBytes buffer = ReassembleAllBytes buffer"

definition LTENR_RLCAM_UpdateRX_Highest_Status :: "LTENR_RLCENTITY \<Rightarrow> u32" where
  "LTENR_RLCAM_UpdateRX_Highest_Status entity =
     (if AM_receptionBuffer entity = [] then AM_RX_Next_Highest entity
      else fold (\<lambda>buffer ret. max ret (rb_SN buffer)) (AM_receptionBuffer entity) 0)"

definition LTENR_RLCAM_UpdateRxNext :: "LTENR_RLCENTITY \<Rightarrow> u32" where
  "LTENR_RLCAM_UpdateRxNext entity =
     (if AM_receptionBuffer entity = [] then AM_RX_Next_Highest entity
      else fold (\<lambda>buffer ret. min ret (rb_SN buffer)) (AM_receptionBuffer entity) (- 1))"

section \<open>Received-segment records\<close>

definition LTENR_RLCAM_STATUS_ADD ::
  "rlc_env \<Rightarrow> LTENR_RLCENTITY \<Rightarrow> SI \<Rightarrow> u32 \<Rightarrow> u16 \<Rightarrow> LTENR_RLCENTITY" where
  "LTENR_RLCAM_STATUS_ADD E entity si sn so =
     entity\<lparr>AM_recvdInfo := list_add_last (st_lib E) (AM_recvdInfo entity)
        \<lparr>st_si = si, st_SN = sn, st_SO = so\<rparr>\<rparr>"

fun findLastStatusInfo ::
  "u32 \<Rightarrow> LTENR_RLCAM_STATUS list \<Rightarrow> LTENR_RLCAM_STATUS option \<Rightarrow> LTENR_RLCAM_STATUS option" where
  "findLastStatusInfo sn [] ret = ret"
| "findLastStatusInfo sn (s # ss) ret =
     (if st_SN s = sn
      then (if st_si s = SI_ALL then Some s
            else if st_si s = SI_LAST then Some s
            else findLastStatusInfo sn ss
                   (case ret of None \<Rightarrow> Some s | Some r \<Rightarrow> if st_SO r < st_SO s then Some s else Some r))
      else findLastStatusInfo sn ss ret)"

definition LTENR_RLCAM_FindLastStatusInfo ::
  "LTENR_RLCENTITY \<Rightarrow> u32 \<Rightarrow> LTENR_RLCAM_STATUS option" where
  "LTENR_RLCAM_FindLastStatusInfo entity sn = findLastStatusInfo sn (AM_recvdInfo entity) None"

definition LTENR_RLCAM_FindStatus ::
  "LTENR_RLCENTITY \<Rightarrow> u32 \<Rightarrow> u16 \<Rightarrow> LTENR_RLCAM_STATUS option" where
  "LTENR_RLCAM_FindStatus entity sn so =
     find (\<lambda>s. st_SN s = sn \<and> st_SO s = so) (AM_recvdInfo entity)"

definition LTENR_RLCAM_DeleteFromStatusInfo :: "rlc_env \<Rightarrow> LTENR_RLCENTITY \<Rightarrow> LTENR_RLCENTITY result" where
  "LTENR_RLCAM_DeleteFromStatusInfo E entity =
     rbind (purge (st_lib E) (\<lambda>s. st_SN s < AM_RX_Next entity)
              (purge_fuel (length (AM_recvdInfo entity))) (AM_recvdInfo entity) 0)
       (\<lambda>info. Inr (entity\<lparr>AM_recvdInfo := info\<rparr>))"

definition LTENR_RLCAM_ClearReceivedInfo ::
  "rlc_env \<Rightarrow> LTENR_RLCENTITY \<Rightarrow> u32 \<Rightarrow> LTENR_RLCENTITY result" where
  "LTENR_RLCAM_ClearReceivedInfo E entity sn =
     rbind (purge (st_lib E) (\<lambda>s. st_SN s = sn)
              (purge_fuel (length (AM_recvdInfo entity))) (AM_recvdInfo entity) 0)
       (\<lambda>info. Inr (entity\<lparr>AM_recvdInfo := info\<rparr>))"

section \<open>Placing a PDU\<close>

text \<open>The two tests of the reassembly timer; \<open>&&\<close> and \<open>||\<close> stop early, so a fault of the
  right operand shows only when the left one does not decide.\<close>

definition reassembly_stop_test :: "rlc_env \<Rightarrow> LTENR_RLCENTITY \<Rightarrow> bool result" where
  "reassembly_stop_test E e =
     (if AM_RX_Next_Status_Trigger e = AM_RX_Next e then Inr True
      else rbind (if AM_RX_Next_Status_Trigger e = AM_RX_Next e + 1
                  then LTENR_RLCAM_isAllBytesReceivedForSN E e (AM_RX_Next e) else Inr False) (\<lambda>r.
           Inr (r \<or> (\<not> LTENR_RLCAM_IsSNFallsInReceivingWindow e (AM_RX_Next_Status_Trigger e)
                     \<and> AM_RX_Next_Status_Trigger e \<noteq> AM_RX_Next e + AM_Window_Size))))"

text \<open>\<open>RX_Next_Highest > x + 1\<close>, or equal to it with segments of \<open>x\<close> missing.\<close>

definition reassembly_start_test :: "rlc_env \<Rightarrow> LTENR_RLCENTITY \<Rightarrow> u32 \<Rightarrow> bool result" where
  "reassembly_start_test E e x =
     (if AM_RX_Next_Highest e > x + 1 then Inr True
      else if AM_RX_Next_Highest e = x + 1
      then rbind (LTENR_RLCAM_isAllBytesReceivedForSN E e x) (\<lambda>r. Inr (\<not> r)) else Inr False)"

definition place_timers ::
  "rlc_env \<Rightarrow> LTENR_RLCENTITY \<Rightarrow> EVENTDETAILS \<Rightarrow> (LTENR_RLCENTITY \<times> EVENTDETAILS) result" where
  "place_timers E entity s =
     rbind (if isReassemblyTimerStarted entity
            then rbind (reassembly_stop_test E entity) (\<lambda>b.
                 Inr (if b then LTENR_RLC_Stop_t_ReassemblyTimer entity s else (entity, s)))
            else Inr (entity, s)) (\<lambda>(e1, s1).
     if isReassemblyTimerStarted e1 then Inr (e1, s1)
     else rbind (reassembly_start_test E e1 (AM_RX_Next e1)) (\<lambda>b.
          if b then let (e2, s2) = LTENR_RLC_Start_t_ReassemblyTimer E e1 s1
                    in Inr (e2\<lparr>AM_RX_Next_Status_Trigger := AM_RX_Next_Highest e2\<rparr>, s2)
          else Inr (e1, s1)))"

text \<open>The SDU is complete: it leaves the buffer, the state variables move, and PDCP gets it.\<close>

definition place_deliver ::
  "rlc_env \<Rightarrow> LTENR_RLCENTITY \<Rightarrow> nat \<Rightarrow> LTENR_RLC_RECEPTIONBUFFER \<Rightarrow> EVENTDETAILS
     \<Rightarrow> (LTENR_RLCENTITY \<times> EVENTDETAILS) result" where
  "place_deliver E entity i buffer s =
     rbind (LTENR_RLCAM_ReassembleAllBytes buffer) (\<lambda>(p, frees).
     let packet = LTENR_RLCMSG_AMDHDR_REMOVE E p;
         e1 = LTENR_RLCAM_DeleteReceptionBuffer E entity i;
         e2 = e1\<lparr>AM_RX_Highest_Status := LTENR_RLCAM_UpdateRX_Highest_Status e1\<rparr>;
         e3 = e2\<lparr>AM_RX_Next := LTENR_RLCAM_UpdateRxNext e2\<rparr>
     in Inr (e3, emit (ToPDCP packet) ((emits frees s)\<lparr>pPacket := Some packet\<rparr>)))"

definition LTENR_RLCAM_PLACE_AMDPDU_IN_RECEPTIONBUFFER ::
  "rlc_env \<Rightarrow> LTENR_RLCENTITY \<Rightarrow> NetSim_PACKET \<Rightarrow> EVENTDETAILS
     \<Rightarrow> (LTENR_RLCENTITY \<times> EVENTDETAILS) result" where
  "LTENR_RLCAM_PLACE_AMDPDU_IN_RECEPTIONBUFFER E entity packet s =
     rbind (deref (LTENR_RLCMSG_AMHDR_GET E packet)) (\<lambda>hdr.
     let x = am_SN hdr;
         (e1, i) = (case LTENR_RLCAM_FINDRECEPTIONBUFFER entity x of
                      None \<Rightarrow> LTENR_RLCAM_CREATERECEPTIONBUFFER E entity x
                    | Some i \<Rightarrow> (entity, i))
     in rbind (LTENR_RLCAM_AddToReceptionBuffer E (AM_receptionBuffer e1 ! i) packet) (\<lambda>buffer.
        let e2 = e1\<lparr>AM_receptionBuffer := (AM_receptionBuffer e1)[i := buffer]\<rparr>;
            e3 = LTENR_RLCAM_STATUS_ADD E e2 (am_si hdr) x (am_SO hdr);
            e4 = (if x \<ge> AM_RX_Next_Highest e3 then e3\<lparr>AM_RX_Next_Highest := x + 1\<rparr> else e3)
        in rbind (LTENR_RLCAM_isAllByteSegmentReceived E buffer) (\<lambda>complete.
           rbind (if complete then place_deliver E e4 i buffer s else Inr (e4, s)) (\<lambda>(e5, s5).
           place_timers E e5 s5))))"

section \<open>Status reports\<close>

definition LTENR_RLCMSG_STATUSPDU_FIX_LEN :: u32 where "LTENR_RLCMSG_STATUSPDU_FIX_LEN = 3"
definition LTENR_RLCMSG_STATUSPDU_NACKLEN_0 :: u32 where "LTENR_RLCMSG_STATUSPDU_NACKLEN_0 = 2"
definition LTENR_RLCMSG_STATUSPDU_NACKLEN_1 :: u32 where "LTENR_RLCMSG_STATUSPDU_NACKLEN_1 = 6"
definition LTENR_RLCMSG_STATUSPDU_NACKLEN_2 :: u32 where "LTENR_RLCMSG_STATUSPDU_NACKLEN_2 = 3"

text \<open>A NACK fresh from \<open>calloc\<close>.\<close>

definition empty_nack :: LTENR_RLCMSG_STATUSPDU_NACK where
  "empty_nack = \<lparr>NAck_SN = 0, nack_E1 = False, nack_E2 = False, nack_E3 = False,
     soStart = 0, soEnd = 0, NAckRange = 0\<rparr>"

definition LTENR_RLCAM_StatusPdu_NewNack ::
  "LTENR_RLCMSG_STATUSPDU \<Rightarrow> SI \<Rightarrow> u32 \<Rightarrow> u16 \<Rightarrow> LTENR_RLCMSG_STATUSPDU \<times> u32" where
  "LTENR_RLCAM_StatusPdu_NewNack pdu si sn so =
     (let pdu1 = LTENR_RLCMSG_STATUSPDU_SETE1 pdu
      in if si = SI_ALL
         then (LTENR_RLCMSG_STATUSPDU_AddNack pdu1 (empty_nack\<lparr>NAck_SN := sn\<rparr>),
               LTENR_RLCMSG_STATUSPDU_NACKLEN_0)
         else (LTENR_RLCMSG_STATUSPDU_AddNack pdu1
                 (empty_nack\<lparr>NAck_SN := sn, soStart := so, soEnd := so, nack_E2 := True\<rparr>),
               LTENR_RLCMSG_STATUSPDU_NACKLEN_1))"

text \<open>
  The result says whether the tail was updated; the size is what \<open>*size\<close> holds afterwards.
  The integer promotions of C apply: \<open>soEnd + 1\<close> is an \<open>int\<close> and does not wrap at 16 bits,
  \<open>NAckRange\<close> is widened to 32 bits in the sum, and \<open>NAckRange++\<close> wraps at 8 bits.
\<close>

definition LTENR_RLCAM_StatusPdu_UpdateNackTail ::
  "LTENR_RLCMSG_STATUSPDU \<Rightarrow> SI \<Rightarrow> u32 \<Rightarrow> u16 \<Rightarrow> u32 \<Rightarrow> bool \<times> LTENR_RLCMSG_STATUSPDU \<times> u32" where
  "LTENR_RLCAM_StatusPdu_UpdateNackTail pdu si sn so sz =
     (case nackTail pdu of
        None \<Rightarrow> (False, pdu, sz)
      | Some nack \<Rightarrow>
         (if si = SI_ALL
          then
            if nack_E3 nack
            then (if NAck_SN nack + ucast (NAckRange nack) = sn
                  then (True, nackTail_write (nack\<lparr>NAckRange := NAckRange nack + 1\<rparr>) pdu, sz)
                  else (False, pdu, sz))
            else if \<not> nack_E2 nack
            then (if NAck_SN nack + 1 = sn
                  then (True, nackTail_write (nack\<lparr>nack_E3 := True, NAckRange := 2\<rparr>) pdu,
                        LTENR_RLCMSG_STATUSPDU_NACKLEN_2 - LTENR_RLCMSG_STATUSPDU_NACKLEN_0)
                  else (False, pdu, sz))
            else (False, pdu, sz)
          else
            if NAck_SN nack = sn \<and> nack_E2 nack
            then (if unat (soEnd nack) + 1 = unat so
                  then (True, nackTail_write (nack\<lparr>soEnd := so\<rparr>) pdu, sz)
                  else (False, pdu, sz))
            else (False, pdu, sz)))"

definition LTENR_RLCAM_STATUSPDU_AddNack ::
  "LTENR_RLCMSG_STATUSPDU \<Rightarrow> SI \<Rightarrow> u32 \<Rightarrow> u16 \<Rightarrow> LTENR_RLCMSG_STATUSPDU \<times> u32" where
  "LTENR_RLCAM_STATUSPDU_AddNack pdu si sn so =
     (if nackTail pdu \<noteq> None
      then case LTENR_RLCAM_StatusPdu_UpdateNackTail pdu si sn so 0 of (isUpdated, pdu', sz) \<Rightarrow>
             if \<not> isUpdated then LTENR_RLCAM_StatusPdu_NewNack pdu' si sn so else (pdu', sz)
      else LTENR_RLCAM_StatusPdu_NewNack pdu si sn so)"

text \<open>One segment offset of a partly received SDU.\<close>

definition update_status_so ::
  "LTENR_RLCENTITY \<Rightarrow> u32 \<Rightarrow> u16 \<Rightarrow> LTENR_RLCMSG_STATUSPDU \<times> u32
     \<Rightarrow> (LTENR_RLCMSG_STATUSPDU \<times> u32) result" where
  "update_status_so entity sn so acc =
     (case acc of (pdu, sz) \<Rightarrow>
       Inr (if LTENR_RLCAM_FindStatus entity sn so = None
            then let (pdu', n) = LTENR_RLCAM_STATUSPDU_AddNack pdu SI_MIDDLE sn so in (pdu', sz + n)
            else (pdu, sz)))"

definition update_status_sn ::
  "LTENR_RLCENTITY \<Rightarrow> u32 \<Rightarrow> LTENR_RLCMSG_STATUSPDU \<times> u32
     \<Rightarrow> (LTENR_RLCMSG_STATUSPDU \<times> u32) result" where
  "update_status_sn entity sn acc =
     (case acc of (pdu, sz) \<Rightarrow>
       (case LTENR_RLCAM_FindLastStatusInfo entity sn of
          None \<Rightarrow> let (pdu', n) = LTENR_RLCAM_STATUSPDU_AddNack pdu SI_ALL sn 0 in Inr (pdu', sz + n)
        | Some s \<Rightarrow>
           if st_si s = SI_ALL then Inr (pdu, sz)
           else for_le (for_le_fuel (st_SO s)) 0 (st_SO s) (update_status_so entity sn) (pdu, sz)))"

definition LTENR_RLCAM_UpdateStatus ::
  "rlc_env \<Rightarrow> LTENR_RLCENTITY \<Rightarrow> LTENR_RLCMSG_STATUSPDU
     \<Rightarrow> (LTENR_RLCENTITY \<times> LTENR_RLCMSG_STATUSPDU \<times> u32) result" where
  "LTENR_RLCAM_UpdateStatus E entity pdu =
     rbind (for_lt (for_lt_fuel (AM_RX_Next_Highest entity)) (AM_RX_Next entity)
              (AM_RX_Next_Highest entity) (update_status_sn entity) (pdu, 0)) (\<lambda>(pdu', sz).
     rbind (LTENR_RLCAM_DeleteFromStatusInfo E entity) (\<lambda>entity'.
     Inr (entity', pdu', sz)))"

text \<open>\<open>pPacket\<close> is saved, replaced for the call of the TM handler, and restored.\<close>

definition LTENR_RLCAM_ConstructStatusPDU ::
  "rlc_env \<Rightarrow> LTENR_RLCENTITY \<Rightarrow> EVENTDETAILS \<Rightarrow> (LTENR_RLCENTITY \<times> EVENTDETAILS) result" where
  "LTENR_RLCAM_ConstructStatusPDU E entity s =
     rbind (LTENR_RLCAM_UpdateStatus E entity LTENR_RLCMSG_STATUSPDU_NEW) (\<lambda>(e1, pdu, sz).
     rbind (LTENR_RLCMSG_STATUSPDU_AddToPacket E (ent_d e1) (peerId e1) (dEventTime s)
              (pdu\<lparr>Ack_SN := AM_RX_Next_Highest e1\<rparr>) sz) (\<lambda>p.
     Inr (e1, emit (ToTM p) s)))"

definition LTENR_RLCAM_TriggerStatusReport ::
  "rlc_env \<Rightarrow> LTENR_RLCENTITY \<Rightarrow> EVENTDETAILS \<Rightarrow> (LTENR_RLCENTITY \<times> EVENTDETAILS) result" where
  "LTENR_RLCAM_TriggerStatusReport E entity s =
     (if isStatusProhibitTimerStarted entity
      then Inr (entity\<lparr>AM_isConstructStatusReortDelayed := True\<rparr>, s)
      else LTENR_RLCAM_ConstructStatusPDU E entity s)"

definition LTENR_RLCAM_InitiateToTriggerStatusReport ::
  "rlc_env \<Rightarrow> LTENR_RLCENTITY \<Rightarrow> u32 \<Rightarrow> EVENTDETAILS \<Rightarrow> (LTENR_RLCENTITY \<times> EVENTDETAILS) result" where
  "LTENR_RLCAM_InitiateToTriggerStatusReport E entity x s =
     (if x < AM_RX_Next_Highest entity \<or> x \<ge> AM_RX_Next entity + AM_Window_Size
      then LTENR_RLCAM_TriggerStatusReport E (entity\<lparr>AM_isStatusReportDelayed := False\<rparr>) s
      else Inr (entity\<lparr>AM_isStatusReportDelayed := True\<rparr>, s))"

definition LTENR_RLCAM_Handle_t_StatusProhibitTimer ::
  "rlc_env \<Rightarrow> LTENR_RLCENTITY \<Rightarrow> EVENTDETAILS \<Rightarrow> (LTENR_RLCENTITY \<times> EVENTDETAILS) result" where
  "LTENR_RLCAM_Handle_t_StatusProhibitTimer E entity s =
     (let e1 = entity\<lparr>isStatusProhibitTimerStarted := False\<rparr>
      in if AM_isConstructStatusReortDelayed e1
         then LTENR_RLCAM_ConstructStatusPDU E (e1\<lparr>AM_isConstructStatusReortDelayed := False\<rparr>) s
         else Inr (e1, s))"

section \<open>Receiving a PDU\<close>

text \<open>\<open>LTENR_RLC_AM_RECEIVE_PDU\<close>, once the entity is found.\<close>

definition am_discard :: "NetSim_PACKET \<Rightarrow> EVENTDETAILS \<Rightarrow> EVENTDETAILS" where
  "am_discard packet s = (emit (FreePacket packet) s)\<lparr>pPacket := None\<rparr>"

definition am_receive_pdu ::
  "rlc_env \<Rightarrow> LTENR_RLCENTITY \<Rightarrow> NetSim_PACKET \<Rightarrow> EVENTDETAILS
     \<Rightarrow> (LTENR_RLCENTITY \<times> EVENTDETAILS) result" where
  "am_receive_pdu E entity packet s =
     rbind (deref (LTENR_RLCMSG_AMHDR_GET E packet)) (\<lambda>hdr.
     if \<not> LTENR_RLCAM_IsSNFallsInReceivingWindow entity (am_SN hdr)
     then Inr (entity, am_discard packet s)
     else rbind (LTENR_RLCAM_IsPDUPresentInReceptionBuffer E entity (am_SN hdr) (am_SO hdr)) (\<lambda>present.
     if present then Inr (entity, am_discard packet s)
     else rbind (LTENR_RLCAM_PLACE_AMDPDU_IN_RECEPTIONBUFFER E entity packet s) (\<lambda>(e1, s1).
     if am_P hdr \<or> AM_isStatusReportDelayed e1
     then LTENR_RLCAM_InitiateToTriggerStatusReport E e1 (am_SN hdr) s1
     else Inr (e1, s1))))"

section \<open>The reassembly timer\<close>

definition LTENR_RLCAM_IncreaseReassembleCount :: "LTENR_RLCENTITY \<Rightarrow> LTENR_RLCENTITY" where
  "LTENR_RLCAM_IncreaseReassembleCount entity =
     entity\<lparr>AM_receptionBuffer := map (\<lambda>b.
        if rb_SN b \<le> AM_RX_Highest_Status entity then b\<lparr>reassembleCount := reassembleCount b + 1\<rparr>
        else b) (AM_receptionBuffer entity)\<rparr>"

text \<open>
  The loop that gives up SDUs waiting too long; after freeing a buffer it starts again at
  the head of the list.
\<close>

fun updateReceptionBuffer_loop ::
  "rlc_env \<Rightarrow> nat \<Rightarrow> LTENR_RLCENTITY \<Rightarrow> EVENTDETAILS \<Rightarrow> nat
     \<Rightarrow> (LTENR_RLCENTITY \<times> EVENTDETAILS) result" where
  "updateReceptionBuffer_loop E 0 entity s i = Inl Diverges"
| "updateReceptionBuffer_loop E (Suc fuel) entity s i =
     (if i < length (AM_receptionBuffer entity)
      then let buffer = AM_receptionBuffer entity ! i
           in if reassembleCount buffer > maxRetxThreshold entity
              then rbind (LTENR_RLCAM_ClearReceivedInfo E entity (rb_SN buffer)) (\<lambda>e1.
                   updateReceptionBuffer_loop E fuel
                     (e1\<lparr>AM_receptionBuffer := list_free (rb_lib E) (AM_receptionBuffer e1) i\<rparr>)
                     (emits (map FreePacket (rb_packets buffer)) s) 0)
              else updateReceptionBuffer_loop E fuel entity s (Suc i)
      else Inr (entity, s))"

definition LTENR_RLCAM_UpdateReceptionBuffer ::
  "rlc_env \<Rightarrow> LTENR_RLCENTITY \<Rightarrow> EVENTDETAILS \<Rightarrow> (LTENR_RLCENTITY \<times> EVENTDETAILS) result" where
  "LTENR_RLCAM_UpdateReceptionBuffer E entity s =
     updateReceptionBuffer_loop E (purge_fuel (length (AM_receptionBuffer entity))) entity s 0"

definition LTENR_RLCAM_Handle_t_reassemblyTimer ::
  "rlc_env \<Rightarrow> LTENR_RLCENTITY \<Rightarrow> EVENTDETAILS \<Rightarrow> (LTENR_RLCENTITY \<times> EVENTDETAILS) result" where
  "LTENR_RLCAM_Handle_t_reassemblyTimer E entity s =
     rbind (LTENR_RLCAM_UpdateReceptionBuffer E (entity\<lparr>isReassemblyTimerStarted := False\<rparr>) s) (\<lambda>(e1, s1).
     let e2 = e1\<lparr>AM_RX_Highest_Status := LTENR_RLCAM_UpdateRX_Highest_Status e1\<rparr>;
         e3 = e2\<lparr>AM_RX_Next := LTENR_RLCAM_UpdateRxNext e2\<rparr>
     in rbind (reassembly_start_test E e3 (AM_RX_Highest_Status e3)) (\<lambda>b.
        let (e4, s4) = (if b then let (e, s) = LTENR_RLC_Start_t_ReassemblyTimer E e3 s1
                                  in (e\<lparr>AM_RX_Next_Status_Trigger := AM_RX_Next_Highest e\<rparr>, s)
                        else (e3, s1))
        in rbind (LTENR_RLCAM_TriggerStatusReport E e4 s4) (\<lambda>(e5, s5).
           Inr (LTENR_RLCAM_IncreaseReassembleCount e5, s5))))"

end
