(* ===== verification/RLC_AM_Rx_Props.thy ===== *)
theory RLC_AM_Rx_Props
  imports RLC_AM_Rx
begin

text \<open>
  What the receiving side of acknowledged mode does: the completeness test of an SDU, the
  invariant of the reception buffers, delivery, discarding, and the status reports.
\<close>

section \<open>Lemmas: completeness of an SDU\<close>

definition so_of :: "'z pkt_api_scheme \<Rightarrow> NetSim_PACKET \<Rightarrow> u16" where
  "so_of E p = am_SO (the (LTENR_RLCMSG_AMHDR_GET E p))"

definition has_hdr :: "'z pkt_api_scheme \<Rightarrow> u32 \<Rightarrow> NetSim_PACKET \<Rightarrow> bool" where
  "has_hdr E sn p \<longleftrightarrow> (\<exists>h. LTENR_RLCMSG_AMHDR_GET E p = Some h \<and> am_SN h = sn)"

lemma mark_received_eq:
  "(\<forall>p \<in> set ps. LTENR_RLCMSG_AMHDR_GET E p \<noteq> None) \<Longrightarrow>
   mark_received E ps r =
     (if \<forall>p \<in> set ps. unat (so_of E p) < length r
      then Inr (map (\<lambda>i. r ! i \<or> (\<exists>p \<in> set ps. unat (so_of E p) = i)) [0..<length r])
      else Inl OutOfBounds)"
proof (induction ps arbitrary: r)
  case Nil
  show ?case by (simp add: map_nth)
next
  case (Cons p ps)
  then obtain h where h: "LTENR_RLCMSG_AMHDR_GET E p = Some h" by auto
  have "[0..<length r] = [0..<length (r[unat (am_SO h) := True])]" by simp
  then show ?case
    using Cons.IH [of "r[unat (am_SO h) := True]"] Cons.prems h
    by (auto simp: so_of_def nth_list_update)
qed

lemma all_marked_iff: "n \<le> length r \<Longrightarrow> all_marked r n \<longleftrightarrow> (\<forall>i < n. r ! i)"
  by (auto simp: all_marked_def list_all_length)

lemma unat_ucast_u16: "unat (ucast (x :: u16) :: u32) = unat x"
  by (simp add: unsigned_ucast_eq take_bit_nat_eq_self_iff) (use unsigned_less [of x, where ?'a = nat] in simp)

theorem isAllByteSegmentReceived_correct:
  assumes "isLastSDUReceived b" and "lastSDUSO b = ucast last_so"
    and "\<forall>p \<in> set (rb_packets b). LTENR_RLCMSG_AMHDR_GET E p \<noteq> None"
  shows "LTENR_RLCAM_isAllByteSegmentReceived E b =
    (if \<exists>p \<in> set (rb_packets b). last_so < so_of E p then Inl OutOfBounds
     else Inr (\<forall>so < last_so. \<exists>p \<in> set (rb_packets b). so_of E p = so))"
proof -
  have u: "unat (lastSDUSO b) = unat last_so"
    using assms(2) by (simp add: unat_ucast_u16)
  have all: "(\<forall>i < unat last_so. \<exists>p \<in> set (rb_packets b). unat (so_of E p) = i)
      \<longleftrightarrow> (\<forall>so < last_so. \<exists>p \<in> set (rb_packets b). so_of E p = so)"
  proof (intro iffI allI impI)
    fix so assume "\<forall>i < unat last_so. \<exists>p \<in> set (rb_packets b). unat (so_of E p) = i" "so < last_so"
    then obtain p where "p \<in> set (rb_packets b)" "unat (so_of E p) = unat so"
      by (auto simp: word_less_nat_alt)
    then show "\<exists>p \<in> set (rb_packets b). so_of E p = so" by (auto simp: word_unat_eq_iff)
  next
    fix i assume a: "\<forall>so < last_so. \<exists>p \<in> set (rb_packets b). so_of E p = so" "i < unat last_so"
    have i: "unat (of_nat i :: u16) = i" using a(2) by (rule unat_of_nat_less)
    then have "(of_nat i :: u16) < last_so" using a(2) by (simp add: word_less_nat_alt)
    then show "\<exists>p \<in> set (rb_packets b). unat (so_of E p) = i" using a(1) i by metis
  qed
  have len: "unat (so_of E p) < unat last_so + 1 \<longleftrightarrow> \<not> last_so < so_of E p" for p
    by (auto simp: word_less_nat_alt)
  let ?r = "replicate (unat last_so + 1) False"
  let ?m = "map (\<lambda>i. ?r ! i \<or> (\<exists>p \<in> set (rb_packets b). unat (so_of E p) = i)) [0..<length ?r]"
  have m: "all_marked ?m (unat last_so)
      \<longleftrightarrow> (\<forall>so < last_so. \<exists>p \<in> set (rb_packets b). so_of E p = so)"
    unfolding all [symmetric] by (subst all_marked_iff) (simp_all add: nth_append del: upt_Suc replicate.simps)
  have "mark_received E (rb_packets b) ?r =
      (if \<exists>p \<in> set (rb_packets b). last_so < so_of E p then Inl OutOfBounds else Inr ?m)"
    unfolding mark_received_eq [OF assms(3)] length_replicate len by auto
  then show ?thesis
    using assms(1) m by (simp add: LTENR_RLCAM_isAllByteSegmentReceived_def u del: upt_Suc replicate.simps)
qed

section \<open>Lemmas: what the timers leave alone\<close>

text \<open>An entity with what the reassembly timer changes blanked out.\<close>

definition untimed :: "LTENR_RLCENTITY \<Rightarrow> LTENR_RLCENTITY" where
  "untimed e = e\<lparr>isReassemblyTimerStarted := False, reassemblyTimerId := 0,
     AM_RX_Next_Status_Trigger := 0\<rparr>"

definition timer_calls :: "EVENTDETAILS \<Rightarrow> EVENTDETAILS \<Rightarrow> bool" where
  "timer_calls s s' \<longleftrightarrow> (\<exists>tl. s' = emits tl s
     \<and> (\<forall>x \<in> set tl. (\<exists>ev i. x = AddEvent ev i) \<or> (\<exists>i. x = DeleteEvent i)))"

lemma untimed_sel [simp]:
  "AM_receptionBuffer (untimed e) = AM_receptionBuffer e" "AM_RX_Next (untimed e) = AM_RX_Next e"
  "AM_RX_Next_Highest (untimed e) = AM_RX_Next_Highest e" "AM_recvdInfo (untimed e) = AM_recvdInfo e"
  "AM_RX_Highest_Status (untimed e) = AM_RX_Highest_Status e"
  "maxRetxThreshold (untimed e) = maxRetxThreshold e"
  "isStatusProhibitTimerStarted (untimed e) = isStatusProhibitTimerStarted e"
  "AM_isStatusReportDelayed (untimed e) = AM_isStatusReportDelayed e"
  "ent_d (untimed e) = ent_d e" "peerId (untimed e) = peerId e"
  by (simp_all add: untimed_def)

lemma untimedD:
  assumes "untimed e' = untimed e"
  shows "AM_receptionBuffer e' = AM_receptionBuffer e" "AM_RX_Next e' = AM_RX_Next e"
    "AM_RX_Next_Highest e' = AM_RX_Next_Highest e" "AM_recvdInfo e' = AM_recvdInfo e"
    "AM_RX_Highest_Status e' = AM_RX_Highest_Status e" "maxRetxThreshold e' = maxRetxThreshold e"
    "isStatusProhibitTimerStarted e' = isStatusProhibitTimerStarted e"
    "AM_isStatusReportDelayed e' = AM_isStatusReportDelayed e"
    "ent_d e' = ent_d e" "peerId e' = peerId e"
  using arg_cong [OF assms, of AM_receptionBuffer] arg_cong [OF assms, of AM_RX_Next]
    arg_cong [OF assms, of AM_RX_Next_Highest] arg_cong [OF assms, of AM_recvdInfo]
    arg_cong [OF assms, of AM_RX_Highest_Status] arg_cong [OF assms, of maxRetxThreshold]
    arg_cong [OF assms, of isStatusProhibitTimerStarted]
    arg_cong [OF assms, of AM_isStatusReportDelayed]
    arg_cong [OF assms, of ent_d] arg_cong [OF assms, of peerId]
  by simp_all

lemma timer_calls_refl [simp]: "timer_calls s s"
  unfolding timer_calls_def by (rule exI [of _ "[]"]) (simp add: emits_def)

lemma timer_calls_trans: "timer_calls s s1 \<Longrightarrow> timer_calls s1 s2 \<Longrightarrow> timer_calls s s2"
  unfolding timer_calls_def
proof (elim exE conjE, goal_cases)
  case (1 t1 t2)
  then show ?case by (intro exI [of _ "t1 @ t2"]) (auto simp: emits_def)
qed

lemma timer_callsI:
  "(\<And>x. x \<in> set ts \<Longrightarrow> (\<exists>ev i. x = AddEvent ev i) \<or> (\<exists>i. x = DeleteEvent i)) \<Longrightarrow>
     timer_calls s (emits ts s)"
  unfolding timer_calls_def by blast

lemma start_frame:
  "untimed ((fst (LTENR_RLC_Start_t_ReassemblyTimer E e s))\<lparr>AM_RX_Next_Status_Trigger := t\<rparr>) = untimed e"
  "timer_calls s (snd (LTENR_RLC_Start_t_ReassemblyTimer E e s))"
proof -
  show "timer_calls s (snd (LTENR_RLC_Start_t_ReassemblyTimer E e s))"
    using timer_callsI [of "[AddEvent _ _]" s]
    by (simp add: LTENR_RLC_Start_t_ReassemblyTimer_def Let_def emit_def emits_def)
qed (simp add: LTENR_RLC_Start_t_ReassemblyTimer_def Let_def untimed_def)

lemma stop_frame:
  "untimed (fst (LTENR_RLC_Stop_t_ReassemblyTimer e s)) = untimed e"
  "timer_calls s (snd (LTENR_RLC_Stop_t_ReassemblyTimer e s))"
proof -
  show "timer_calls s (snd (LTENR_RLC_Stop_t_ReassemblyTimer e s))"
    using timer_callsI [of "[DeleteEvent _]" s]
    by (simp add: LTENR_RLC_Stop_t_ReassemblyTimer_def emit_def emits_def)
  show "untimed (fst (LTENR_RLC_Stop_t_ReassemblyTimer e s)) = untimed e"
    by (simp add: LTENR_RLC_Stop_t_ReassemblyTimer_def untimed_def)
qed

lemma start_started [simp]:
  "isReassemblyTimerStarted (fst (LTENR_RLC_Start_t_ReassemblyTimer E e s))"
  by (simp add: LTENR_RLC_Start_t_ReassemblyTimer_def Let_def)

lemma place_timers_frame:
  assumes "place_timers E e s = Inr (e', s')"
  shows "untimed e' = untimed e" and "timer_calls s s'"
proof -
  obtain e1 s1 where 1: "untimed e1 = untimed e" "timer_calls s s1"
    and 2: "(if isReassemblyTimerStarted e1 then Inr (e1, s1)
     else rbind (reassembly_start_test E e1 (AM_RX_Next e1)) (\<lambda>b.
          if b then let (e2, s2) = LTENR_RLC_Start_t_ReassemblyTimer E e1 s1
                    in Inr (e2\<lparr>AM_RX_Next_Status_Trigger := AM_RX_Next_Highest e2\<rparr>, s2)
          else Inr (e1, s1))) = Inr (e', s')"
  proof -
    obtain x where x: "(if isReassemblyTimerStarted e
            then rbind (reassembly_stop_test E e) (\<lambda>b.
                 Inr (if b then LTENR_RLC_Stop_t_ReassemblyTimer e s else (e, s)))
            else Inr (e, s)) = Inr x" "x = (e, s) \<or> x = LTENR_RLC_Stop_t_ReassemblyTimer e s"
      using assms unfolding place_timers_def
      by (auto elim!: rbind_InrE split: if_splits)
    show ?thesis
    proof (rule that [of "fst x" "snd x"])
      show "untimed (fst x) = untimed e" "timer_calls s (snd x)" using x(2) stop_frame by auto
    qed (use assms x(1) in \<open>simp add: place_timers_def split_def\<close>)
  qed
  have 3: "(e', s') = (e1, s1) \<or>
     (\<exists>t. e' = (fst (LTENR_RLC_Start_t_ReassemblyTimer E e1 s1))\<lparr>AM_RX_Next_Status_Trigger := t\<rparr>)
       \<and> s' = snd (LTENR_RLC_Start_t_ReassemblyTimer E e1 s1)"
    using 2 by (auto elim!: rbind_InrE simp: split_def Let_def split: if_splits)
  show "timer_calls s s'" using 1(2) 3 start_frame(2) timer_calls_trans by blast
  show "untimed e' = untimed e" using 1(1) 3 start_frame(1) by force
qed

section \<open>Lemmas: one PDU placed\<close>

text \<open>The entity after the PDU with header \<open>hdr\<close> is in its buffer, before anything is delivered.\<close>

definition placed ::
  "LTENR_RLCENTITY \<Rightarrow> LTENR_RLCMSG_AMDHDR \<Rightarrow> LTENR_RLC_RECEPTIONBUFFER list \<Rightarrow> LTENR_RLCENTITY" where
  "placed e hdr B = e\<lparr>AM_receptionBuffer := B,
     AM_recvdInfo := AM_recvdInfo e @ [\<lparr>st_si = am_si hdr, st_SN = am_SN hdr, st_SO = am_SO hdr\<rparr>],
     AM_RX_Next_Highest :=
       (if am_SN hdr \<ge> AM_RX_Next_Highest e then am_SN hdr + 1 else AM_RX_Next_Highest e)\<rparr>"

lemma placed_sel [simp]:
  "AM_receptionBuffer (placed e hdr B) = B"
  "AM_RX_Next (placed e hdr B) = AM_RX_Next e"
  "AM_RX_Next_Highest (placed e hdr B) =
     (if am_SN hdr \<ge> AM_RX_Next_Highest e then am_SN hdr + 1 else AM_RX_Next_Highest e)"
  by (simp_all add: placed_def)

text \<open>The buffers with one for this number, and its position.\<close>

definition place_slot ::
  "LTENR_RLCENTITY \<Rightarrow> u32 \<Rightarrow> LTENR_RLC_RECEPTIONBUFFER list \<times> nat" where
  "place_slot e x = (case find_receptionBuffer (AM_receptionBuffer e) x of
      Some i \<Rightarrow> (AM_receptionBuffer e, i)
    | None \<Rightarrow> (AM_receptionBuffer e @ [LTENR_RLC_RECEPTIONBUFFER_ALLOC\<lparr>rb_SN := x\<rparr>],
               length (AM_receptionBuffer e)))"

context rlc_environment
begin

lemma PLACE_eq:
  assumes "LTENR_RLCMSG_AMHDR_GET E packet = Some hdr" and B: "place_slot e (am_SN hdr) = (B, i)"
  shows "LTENR_RLCAM_PLACE_AMDPDU_IN_RECEPTIONBUFFER E e packet s =
    rbind (LTENR_RLCAM_AddToReceptionBuffer E (B ! i) packet) (\<lambda>buf.
    rbind (LTENR_RLCAM_isAllByteSegmentReceived E buf) (\<lambda>c.
    rbind (if c then place_deliver E (placed e hdr (B[i := buf])) i buf s
           else Inr (placed e hdr (B[i := buf]), s)) (\<lambda>(e5, s5). place_timers E e5 s5)))"
proof -
  have if_upd: "(if b then e\<lparr>AM_RX_Next_Highest := y\<rparr> else e)
      = e\<lparr>AM_RX_Next_Highest := if b then y else AM_RX_Next_Highest e\<rparr>" for b y and e :: LTENR_RLCENTITY
    by simp
  have "(case LTENR_RLCAM_FINDRECEPTIONBUFFER e (am_SN hdr) of
      None \<Rightarrow> LTENR_RLCAM_CREATERECEPTIONBUFFER E e (am_SN hdr) | Some i \<Rightarrow> (e, i))
    = (e\<lparr>AM_receptionBuffer := B\<rparr>, i)"
    using B by (auto simp: place_slot_def LTENR_RLCAM_FINDRECEPTIONBUFFER_def
        LTENR_RLCAM_CREATERECEPTIONBUFFER_def Let_def rb.add_last_law split: option.splits)
  then show ?thesis
    using assms(1) by (simp add: LTENR_RLCAM_PLACE_AMDPDU_IN_RECEPTIONBUFFER_def Let_def if_upd
        placed_def LTENR_RLCAM_STATUS_ADD_def st.add_last_law cong: if_cong)
qed

lemma place_cases:
  assumes "LTENR_RLCMSG_AMHDR_GET E packet = Some hdr"
    and "LTENR_RLCAM_PLACE_AMDPDU_IN_RECEPTIONBUFFER E e packet s = Inr (e', s')"
  obtains B i buf c e5 s5 where
    "place_slot e (am_SN hdr) = (B, i)"
    "LTENR_RLCAM_AddToReceptionBuffer E (B ! i) packet = Inr buf"
    "LTENR_RLCAM_isAllByteSegmentReceived E buf = Inr c"
    "if c then place_deliver E (placed e hdr (B[i := buf])) i buf s = Inr (e5, s5)
     else e5 = placed e hdr (B[i := buf]) \<and> s5 = s"
    "place_timers E e5 s5 = Inr (e', s')"
proof -
  obtain B i where B: "place_slot e (am_SN hdr) = (B, i)" by fastforce
  show thesis
    using assms(2) that [OF B] unfolding PLACE_eq [OF assms(1) B]
    by (auto elim!: rbind_InrE split: if_splits)
qed

lemma place_deliver_Inr:
  assumes "place_deliver E e i buf s = Inr (e5, s5)" and "i < length (AM_receptionBuffer e)"
  obtains p ps where "rb_packets buf = p # ps"
    "AM_receptionBuffer e5 = remove_at i (AM_receptionBuffer e)"
    "AM_RX_Next e5 = LTENR_RLCAM_UpdateRxNext (e\<lparr>AM_receptionBuffer := AM_receptionBuffer e5\<rparr>)"
    "AM_RX_Next_Highest e5 = AM_RX_Next_Highest e" "AM_recvdInfo e5 = AM_recvdInfo e"
    "s5 = (emits (map FreePacket ps @ [ToPDCP (LTENR_RLCMSG_AMDHDR_REMOVE E (reassemble_loop p ps))]) s)
       \<lparr>pPacket := Some (LTENR_RLCMSG_AMDHDR_REMOVE E (reassemble_loop p ps))\<rparr>"
  using assms
  by (auto simp: place_deliver_def LTENR_RLCAM_ReassembleAllBytes_def ReassembleAllBytes_def
      LTENR_RLCAM_DeleteReceptionBuffer_def rb.free_law Let_def emit_def emits_def
      LTENR_RLCAM_UpdateRxNext_def split: list.splits)

end

section \<open>The invariant of the reception buffers\<close>

definition is_last :: "'z pkt_api_scheme \<Rightarrow> NetSim_PACKET \<Rightarrow> bool" where
  "is_last E p \<longleftrightarrow>
     (\<exists>h. LTENR_RLCMSG_AMHDR_GET E p = Some h \<and> (am_si h = SI_LAST \<or> am_si h = SI_ALL))"

text \<open>The fields \<open>isLastSDUReceived\<close> and \<open>lastSDUSO\<close> describe the last segment that came in.\<close>

definition rb_meta :: "'z pkt_api_scheme \<Rightarrow> LTENR_RLC_RECEPTIONBUFFER \<Rightarrow> bool" where
  "rb_meta E b \<longleftrightarrow> (isLastSDUReceived b \<longleftrightarrow> filter (is_last E) (rb_packets b) \<noteq> [])
     \<and> (isLastSDUReceived b \<longrightarrow>
          lastSDUSO b = ucast (so_of E (last (filter (is_last E) (rb_packets b)))))"

text \<open>A set of segments makes up an SDU: a last one is there, and every offset before it.\<close>

definition sdu_complete :: "'z pkt_api_scheme \<Rightarrow> NetSim_PACKET list \<Rightarrow> bool" where
  "sdu_complete E ps \<longleftrightarrow> filter (is_last E) ps \<noteq> []
     \<and> (\<forall>so < so_of E (last (filter (is_last E) ps)). \<exists>p \<in> set ps. so_of E p = so)"

text \<open>
  Every buffer holds at least one segment, all segments carry its sequence number and no
  offset twice, and a buffer whose SDU is complete is not kept. No two buffers have the
  same number, and all numbers are below \<open>RX_Next_Highest\<close>.
\<close>

definition rb_wf :: "'z pkt_api_scheme \<Rightarrow> LTENR_RLC_RECEPTIONBUFFER \<Rightarrow> bool" where
  "rb_wf E b \<longleftrightarrow> rb_packets b \<noteq> [] \<and> (\<forall>p \<in> set (rb_packets b). has_hdr E (rb_SN b) p)
     \<and> distinct (map (so_of E) (rb_packets b)) \<and> rb_meta E b
     \<and> LTENR_RLCAM_isAllByteSegmentReceived E b = Inr False"

definition am_rx_inv :: "'z pkt_api_scheme \<Rightarrow> LTENR_RLCENTITY \<Rightarrow> bool" where
  "am_rx_inv E e \<longleftrightarrow> distinct (map rb_SN (AM_receptionBuffer e))
     \<and> (\<forall>b \<in> set (AM_receptionBuffer e). rb_wf E b \<and> rb_SN b < AM_RX_Next_Highest e)"

lemma window_no_wrap:
  "LTENR_RLCAM_IsSNFallsInReceivingWindow e x \<Longrightarrow> x < x + 1"
proof -
  assume "LTENR_RLCAM_IsSNFallsInReceivingWindow e x"
  then have "x \<noteq> - 1"
    unfolding LTENR_RLCAM_IsSNFallsInReceivingWindow_def using word_order.extremum_strict by blast
  then show ?thesis by (simp add: unat_plus_one word_less_nat_alt)
qed

lemma chain_has_SO_False:
  "chain_has_SO E ps so = Inr False \<Longrightarrow> so \<notin> so_of E ` set ps"
  by (induction ps) (auto simp: so_of_def rbind_Inr_iff split: if_splits)

lemma AddTo_packets:
  assumes "LTENR_RLCAM_AddToReceptionBuffer E b packet = Inr buf"
  shows "rb_packets buf = rb_packets b @ [packet]" and "rb_SN buf = rb_SN b"
  using assms by (auto simp: LTENR_RLCAM_AddToReceptionBuffer_def Let_def rbind_Inr_iff split: if_splits)

lemma AddTo_meta:
  assumes "rb_meta E b" and "LTENR_RLCAM_AddToReceptionBuffer E b packet = Inr buf"
  shows "rb_meta E buf"
proof -
  obtain h where h: "LTENR_RLCMSG_AMHDR_GET E packet = Some h"
    and buf: "buf = (if am_si h = SI_LAST \<or> am_si h = SI_ALL
      then b\<lparr>rb_packets := rb_packets b @ [packet], isLastSDUReceived := True,
             lastSDUSO := ucast (am_SO h)\<rparr>
      else b\<lparr>rb_packets := rb_packets b @ [packet]\<rparr>)"
    using assms(2) by (auto simp: LTENR_RLCAM_AddToReceptionBuffer_def Let_def rbind_Inr_iff)
  show ?thesis
  proof (cases "am_si h = SI_LAST \<or> am_si h = SI_ALL")
    case True
    then show ?thesis using h buf by (simp add: rb_meta_def is_last_def so_of_def)
  next
    case False
    then show ?thesis using h buf assms(1) by (simp add: rb_meta_def is_last_def)
  qed
qed

lemma isAll_complete:
  assumes "rb_meta E b" and "\<forall>p \<in> set (rb_packets b). LTENR_RLCMSG_AMHDR_GET E p \<noteq> None"
    and "LTENR_RLCAM_isAllByteSegmentReceived E b = Inr c"
  shows "c \<longleftrightarrow> sdu_complete E (rb_packets b)"
proof (cases "isLastSDUReceived b")
  case True
  then show ?thesis
    using assms isAllByteSegmentReceived_correct [OF True _ assms(2)]
    by (auto simp: rb_meta_def sdu_complete_def split: if_splits)
next
  case False
  then show ?thesis
    using assms by (simp add: LTENR_RLCAM_isAllByteSegmentReceived_def rb_meta_def sdu_complete_def)
qed

lemma set_update_distinct:
  "distinct (map f xs) \<Longrightarrow> i < length xs \<Longrightarrow> f y = f (xs ! i) \<Longrightarrow>
     distinct (map f (xs[i := y])) \<and>
     set (remove_at i (xs[i := y])) = {x \<in> set xs. f x \<noteq> f (xs ! i)}"
proof -
  assume a: "distinct (map f xs)" "i < length xs" "f y = f (xs ! i)"
  then have m: "map f (xs[i := y]) = map f xs"
    by (auto simp: list_eq_iff_nth_eq nth_list_update)
  have "remove_at i (xs[i := y]) = remove_at i xs"
    by (simp add: remove_at_def)
  with m a show ?thesis by (simp add: set_remove_at_map)
qed

lemma set_subset_remove_at: "i < length xs \<Longrightarrow> set xs \<subseteq> insert (xs ! i) (set (remove_at i xs))"
  by (subst (1) id_take_nth_drop) (auto simp: remove_at_def)

lemma place_slot_props:
  assumes "place_slot e x = (B, i)" and "distinct (map rb_SN (AM_receptionBuffer e))"
  shows "i < length B" "rb_SN (B ! i) = x" "distinct (map rb_SN B)"
    "B ! i \<in> set (AM_receptionBuffer e) \<or> rb_packets (B ! i) = [] \<and> rb_meta E (B ! i)"
    "\<And>b. b \<in> set B \<Longrightarrow> rb_SN b \<noteq> x \<Longrightarrow> b \<in> set (AM_receptionBuffer e)"
  using assms find_receptionBuffer_Some [of "AM_receptionBuffer e" x]
    find_receptionBuffer_None [of "AM_receptionBuffer e" x]
  by (auto simp: place_slot_def LTENR_RLC_RECEPTIONBUFFER_ALLOC_def rb_meta_def split: option.splits)

context rlc_environment
begin

text \<open>The buffers once the PDU is placed and, if its SDU is complete, delivered.\<close>

lemma placed_inv:
  assumes inv: "am_rx_inv E e" and hdr: "LTENR_RLCMSG_AMHDR_GET E packet = Some hdr"
    and win: "LTENR_RLCAM_IsSNFallsInReceivingWindow e (am_SN hdr)"
    and new: "LTENR_RLCAM_IsPDUPresentInReceptionBuffer E e (am_SN hdr) (am_SO hdr) = Inr False"
    and 1: "place_slot e (am_SN hdr) = (B, i)"
      "LTENR_RLCAM_AddToReceptionBuffer E (B ! i) packet = Inr buf"
      "LTENR_RLCAM_isAllByteSegmentReceived E buf = Inr c"
      "if c then place_deliver E (placed e hdr (B[i := buf])) i buf s = Inr (e5, s5)
       else e5 = placed e hdr (B[i := buf]) \<and> s5 = s"
  shows "am_rx_inv E e5"
proof -
  let ?x = "am_SN hdr"
  have dist: "distinct (map rb_SN (AM_receptionBuffer e))" using inv by (simp add: am_rx_inv_def)
  note slot = place_slot_props(4) [OF 1(1) dist, where E = E] place_slot_props(5) [OF 1(1) dist]
  have i: "i < length B" "rb_SN (B ! i) = ?x" "distinct (map rb_SN B)"
    using place_slot_props(1-3) [OF 1(1) dist] by auto
  note buf = AddTo_packets [OF 1(2)]
  have upd: "distinct (map rb_SN (B[i := buf]))"
    "set (remove_at i (B[i := buf])) = {b \<in> set B. rb_SN b \<noteq> ?x}"
    using set_update_distinct [OF i(3,1), of buf] i buf by auto
  have top: "?x < AM_RX_Next_Highest (placed e hdr B')" for B'
    using window_no_wrap [OF win] by (simp add: not_le)
  have le: "AM_RX_Next_Highest e \<le> AM_RX_Next_Highest (placed e hdr B')" for B'
    using window_no_wrap [OF win] by auto
  have others: "rb_wf E b \<and> rb_SN b < AM_RX_Next_Highest (placed e hdr B')"
    if "b \<in> set B" "rb_SN b \<noteq> ?x" for b B'
    using slot(2) [OF that] inv le [of B'] by (auto simp: am_rx_inv_def)
  show ?thesis
  proof (cases c)
    case True
    with 1(4) have "place_deliver E (placed e hdr (B[i := buf])) i buf s = Inr (e5, s5)" by simp
    then have e5: "AM_receptionBuffer e5 = remove_at i (B[i := buf])"
      "AM_RX_Next_Highest e5 = AM_RX_Next_Highest (placed e hdr (B[i := buf]))"
      using i(1) by (auto elim!: place_deliver_Inr)
    have "distinct (map rb_SN (remove_at i (B[i := buf])))"
      using upd(1) by (rule distinct_map_remove_at)
    then show ?thesis
      unfolding am_rx_inv_def e5 upd(2) using others by auto
  next
    case False
    with 1(4) have e5: "e5 = placed e hdr (B[i := buf])" by simp
    have old: "rb_packets (B ! i) = [] \<and> rb_meta E (B ! i) \<or> rb_wf E (B ! i)"
      using slot(1) inv by (auto simp: am_rx_inv_def)
    have "rb_wf E buf"
      unfolding rb_wf_def
    proof (intro conjI)
      show "rb_meta E buf" using AddTo_meta [OF _ 1(2)] old by (auto simp: rb_wf_def)
      show "\<forall>p \<in> set (rb_packets buf). has_hdr E (rb_SN buf) p"
        using old hdr buf i(2) by (auto simp: rb_wf_def has_hdr_def)
      have "am_SO hdr \<notin> so_of E ` set (rb_packets (B ! i))"
        using new 1(1) chain_has_SO_False
        by (fastforce simp: LTENR_RLCAM_IsPDUPresentInReceptionBuffer_def place_slot_def
            LTENR_RLCAM_FINDRECEPTIONBUFFER_def LTENR_RLC_RECEPTIONBUFFER_ALLOC_def
            split: option.splits)
      moreover have "so_of E packet = am_SO hdr" using hdr by (simp add: so_of_def)
      ultimately show "distinct (map (so_of E) (rb_packets buf))"
        using old buf by (auto simp: rb_wf_def)
    qed (use buf 1(3) False in auto)
    moreover have "set (B[i := buf]) \<subseteq> insert buf {b \<in> set B. rb_SN b \<noteq> ?x}"
      using set_subset_remove_at [of i "B[i := buf]"] upd(2) i(1) by simp
    ultimately have "\<forall>b \<in> set (B[i := buf]). rb_wf E b
        \<and> rb_SN b < AM_RX_Next_Highest (placed e hdr (B[i := buf]))"
      using others [of _ "B[i := buf]"] top [of "B[i := buf]"] buf(2) i(2) by auto
    then show ?thesis
      unfolding am_rx_inv_def e5 placed_sel(1) using upd(1) by blast
  qed
qed

lemma place_inv:
  assumes inv: "am_rx_inv E e" and hdr: "LTENR_RLCMSG_AMHDR_GET E packet = Some hdr"
    and win: "LTENR_RLCAM_IsSNFallsInReceivingWindow e (am_SN hdr)"
    and new: "LTENR_RLCAM_IsPDUPresentInReceptionBuffer E e (am_SN hdr) (am_SO hdr) = Inr False"
    and res: "LTENR_RLCAM_PLACE_AMDPDU_IN_RECEPTIONBUFFER E e packet s = Inr (e', s')"
  shows "am_rx_inv E e'"
  using hdr res
proof (cases rule: place_cases)
  case (1 B i buf c e5 s5)
  have "am_rx_inv E e5" by (rule placed_inv [OF inv hdr win new 1(1-4)])
  then show ?thesis
    using untimedD(1,3) [OF place_timers_frame(1) [OF 1(5)]] by (simp add: am_rx_inv_def)
qed

end

section \<open>Lemmas: status reports leave the buffers alone\<close>

lemma ConstructStatusPDU_frame:
  assumes "LTENR_RLCAM_ConstructStatusPDU E e s = Inr (e', s')"
  shows "\<exists>info p. e' = e\<lparr>AM_recvdInfo := info\<rparr> \<and> s' = emit (ToTM p) s"
proof -
  obtain pdu sz p where u: "LTENR_RLCAM_UpdateStatus E e LTENR_RLCMSG_STATUSPDU_NEW = Inr (e', pdu, sz)"
    and s': "s' = emit (ToTM p) s"
    using assms unfolding LTENR_RLCAM_ConstructStatusPDU_def by (auto elim!: rbind_InrE)
  obtain info where "e' = e\<lparr>AM_recvdInfo := info\<rparr>"
    using u unfolding LTENR_RLCAM_UpdateStatus_def LTENR_RLCAM_DeleteFromStatusInfo_def
    by (auto elim!: rbind_InrE)
  with s' show ?thesis by blast
qed

text \<open>What a status report leaves alone, and the calls it makes.\<close>

definition report_frame :: "LTENR_RLCENTITY \<Rightarrow> EVENTDETAILS \<Rightarrow> LTENR_RLCENTITY \<Rightarrow> EVENTDETAILS \<Rightarrow> bool" where
  "report_frame e s e' s' \<longleftrightarrow> AM_receptionBuffer e' = AM_receptionBuffer e
     \<and> AM_RX_Next e' = AM_RX_Next e \<and> AM_RX_Next_Highest e' = AM_RX_Next_Highest e
     \<and> (\<exists>ps. s' = emits (map ToTM ps) s)"

lemma report_frameI:
  "AM_receptionBuffer e' = AM_receptionBuffer e \<Longrightarrow> AM_RX_Next e' = AM_RX_Next e \<Longrightarrow>
     AM_RX_Next_Highest e' = AM_RX_Next_Highest e \<Longrightarrow> s' = emits (map ToTM ps) s \<Longrightarrow>
     report_frame e s e' s'"
  by (auto simp: report_frame_def)

lemma emits_Nil: "s = emits (map ToTM []) s"
  by (simp add: emits_def)

lemma TriggerStatusReport_frame:
  assumes "LTENR_RLCAM_TriggerStatusReport E e s = Inr (e', s')"
  shows "report_frame e s e' s'"
proof (cases "isStatusProhibitTimerStarted e")
  case True
  then show ?thesis
    using assms report_frameI [OF _ _ _ emits_Nil] by (auto simp: LTENR_RLCAM_TriggerStatusReport_def)
next
  case False
  then obtain info p where "e' = e\<lparr>AM_recvdInfo := info\<rparr>" "s' = emit (ToTM p) s"
    using assms ConstructStatusPDU_frame by (fastforce simp: LTENR_RLCAM_TriggerStatusReport_def)
  then show ?thesis
    using report_frameI [where ps = "[p]"] by (simp add: emit_def emits_def)
qed

lemma InitiateToTriggerStatusReport_frame:
  assumes "LTENR_RLCAM_InitiateToTriggerStatusReport E e x s = Inr (e', s')"
  shows "report_frame e s e' s'"
proof (cases "x < AM_RX_Next_Highest e \<or> x \<ge> AM_RX_Next e + AM_Window_Size")
  case True
  then show ?thesis
    using assms TriggerStatusReport_frame [of E "e\<lparr>AM_isStatusReportDelayed := False\<rparr>" s]
    by (simp add: LTENR_RLCAM_InitiateToTriggerStatusReport_def report_frame_def)
next
  case False
  then show ?thesis
    using assms report_frameI [OF _ _ _ emits_Nil]
    by (auto simp: LTENR_RLCAM_InitiateToTriggerStatusReport_def)
qed

text \<open>The SDUs among the calls.\<close>

definition pdcp_of :: "effect list \<Rightarrow> NetSim_PACKET list" where
  "pdcp_of tr = concat (map (\<lambda>x. case x of ToPDCP p \<Rightarrow> [p] | _ \<Rightarrow> []) tr)"

lemma pdcp_of_simps [simp]:
  "pdcp_of [] = []" "pdcp_of (xs @ ys) = pdcp_of xs @ pdcp_of ys"
  "pdcp_of (ToPDCP p # xs) = p # pdcp_of xs"
  "pdcp_of (map FreePacket ps) = []" "pdcp_of (map ToTM ps) = []"
  "pdcp_of (FreePacket p # xs) = pdcp_of xs"
  by (simp_all add: pdcp_of_def o_def)

lemma pdcp_of_timer:
  "\<forall>x \<in> set ts. (\<exists>ev i. x = AddEvent ev i) \<or> (\<exists>i. x = DeleteEvent i) \<Longrightarrow> pdcp_of ts = []"
  by (induction ts) (auto simp: pdcp_of_def)

lemma timer_calls_pdcp: "timer_calls s s' \<Longrightarrow> pdcp_of (trace s') = pdcp_of (trace s)"
  by (auto simp: timer_calls_def pdcp_of_timer)

lemma report_frame_pdcp: "report_frame e s e' s' \<Longrightarrow> pdcp_of (trace s') = pdcp_of (trace s)"
  by (auto simp: report_frame_def)

lemma am_rx_inv_frame: "report_frame e s e' s' \<Longrightarrow> am_rx_inv E e \<Longrightarrow> am_rx_inv E e'"
  by (simp add: report_frame_def am_rx_inv_def)

text \<open>The segments held for a sequence number.\<close>

definition held :: "LTENR_RLCENTITY \<Rightarrow> u32 \<Rightarrow> NetSim_PACKET list" where
  "held e sn = (case find_receptionBuffer (AM_receptionBuffer e) sn of
      None \<Rightarrow> [] | Some i \<Rightarrow> rb_packets (AM_receptionBuffer e ! i))"

lemma held_eq:
  assumes d: "distinct (map rb_SN (AM_receptionBuffer e))" and b: "b \<in> set (AM_receptionBuffer e)"
  shows "held e (rb_SN b) = rb_packets b"
proof -
  obtain i where i: "find_receptionBuffer (AM_receptionBuffer e) (rb_SN b) = Some i"
    using b find_receptionBuffer_None [of "AM_receptionBuffer e" "rb_SN b"]
    by (cases "find_receptionBuffer (AM_receptionBuffer e) (rb_SN b)") auto
  then have "AM_receptionBuffer e ! i = b"
    using find_receptionBuffer_Some [OF i] d b by (metis distinct_map inj_onD nth_mem)
  with i show ?thesis by (simp add: held_def)
qed

lemma held_Nil: "(\<forall>b \<in> set (AM_receptionBuffer e). rb_SN b \<noteq> sn) \<Longrightarrow> held e sn = []"
  using find_receptionBuffer_None [of "AM_receptionBuffer e" sn]
  by (auto simp: held_def split: option.splits)

lemma held_frame: "report_frame e s e' s' \<Longrightarrow> held e' sn = held e sn"
  by (simp add: report_frame_def held_def split: option.splits)

lemma place_slot_held: "place_slot e x = (B, i) \<Longrightarrow> rb_packets (B ! i) = held e x"
  by (auto simp: place_slot_def held_def LTENR_RLC_RECEPTIONBUFFER_ALLOC_def split: option.splits)

context rlc_environment
begin

lemma place_delivery:
  assumes inv: "am_rx_inv E e" and hdr: "LTENR_RLCMSG_AMHDR_GET E packet = Some hdr"
    and res: "LTENR_RLCAM_PLACE_AMDPDU_IN_RECEPTIONBUFFER E e packet s = Inr (e', s')"
  shows "if sdu_complete E (held e (am_SN hdr) @ [packet])
    then held e' (am_SN hdr) = []
      \<and> (\<exists>sdu. pdcp_of (trace s') = pdcp_of (trace s) @ [sdu]
           \<and> dPayload sdu = payload_sum (held e (am_SN hdr) @ [packet])
           \<and> LTENR_RLCMSG_AMHDR_GET E sdu = None)
    else held e' (am_SN hdr) = held e (am_SN hdr) @ [packet]
      \<and> pdcp_of (trace s') = pdcp_of (trace s)"
  using hdr res
proof (cases rule: place_cases)
  case (1 B i buf c e5 s5)
  let ?x = "am_SN hdr"
  have dist: "distinct (map rb_SN (AM_receptionBuffer e))" using inv by (simp add: am_rx_inv_def)
  have i: "i < length B" "rb_SN (B ! i) = ?x" "distinct (map rb_SN B)"
    using place_slot_props(1-3) [OF 1(1) dist] by auto
  note buf = AddTo_packets [OF 1(2)]
  have pk: "rb_packets buf = held e ?x @ [packet]" using buf place_slot_held [OF 1(1)] by simp
  have wf: "rb_packets (B ! i) = [] \<and> rb_meta E (B ! i) \<or> rb_wf E (B ! i)"
    using place_slot_props(4) [OF 1(1) dist, where E = E] inv by (auto simp: am_rx_inv_def)
  have hdrs: "\<forall>p \<in> set (rb_packets buf). LTENR_RLCMSG_AMHDR_GET E p \<noteq> None"
    using wf hdr buf by (auto simp: rb_wf_def has_hdr_def)
  have c: "c \<longleftrightarrow> sdu_complete E (held e ?x @ [packet])"
    using isAll_complete [OF AddTo_meta [OF _ 1(2)] hdrs 1(3)] wf pk by (auto simp: rb_wf_def)
  have e': "AM_receptionBuffer e' = AM_receptionBuffer e5"
    using untimedD [OF place_timers_frame(1) [OF 1(5)]] by auto
  have tr: "pdcp_of (trace s') = pdcp_of (trace s5)"
    using timer_calls_pdcp place_timers_frame(2) [OF 1(5)] by blast
  have upd: "distinct (map rb_SN (B[i := buf]))"
    "set (remove_at i (B[i := buf])) = {b \<in> set B. rb_SN b \<noteq> ?x}"
    using set_update_distinct [OF i(3,1), of buf] i buf by auto
  show ?thesis
  proof (cases c)
    case True
    with 1(4) have "place_deliver E (placed e hdr (B[i := buf])) i buf s = Inr (e5, s5)" by simp
    then obtain p ps where d: "rb_packets buf = p # ps"
      "AM_receptionBuffer e5 = remove_at i (B[i := buf])"
      "s5 = (emits (map FreePacket ps @ [ToPDCP (LTENR_RLCMSG_AMDHDR_REMOVE E (reassemble_loop p ps))]) s)
         \<lparr>pPacket := Some (LTENR_RLCMSG_AMDHDR_REMOVE E (reassemble_loop p ps))\<rparr>"
      using i(1) by (auto elim!: place_deliver_Inr)
    have "dPayload (reassemble_loop p ps) = payload_sum (held e ?x @ [packet])"
      unfolding pk [symmetric] d(1) by (simp add: reassemble_loop_payload payload_sum_def)
    moreover have "held e' ?x = []"
      using upd(2) d(2) e' by (intro held_Nil) auto
    ultimately show ?thesis
      using True c d(3) tr
      by (simp add: LTENR_RLCMSG_AMDHDR_REMOVE_def LTENR_RLCMSG_AMHDR_GET_def)
  next
    case False
    with 1(4) have e5: "e5 = placed e hdr (B[i := buf])" "s5 = s" by simp_all
    have "buf \<in> set (AM_receptionBuffer e')"
      using e5 e' i(1) set_update_memI [of i B buf] by simp
    then have "held e' (rb_SN buf) = rb_packets buf"
      using upd(1) e' e5 by (intro held_eq) simp_all
    then show ?thesis
      using False c e5 tr pk buf(2) i(2) by simp
  qed
qed

end

text \<open>A PDU is either discarded, or placed and perhaps followed by a status report.\<close>

lemma receive_cases:
  assumes "am_receive_pdu E e packet s = Inr (e', s')"
  obtains (discard) hdr where "LTENR_RLCMSG_AMHDR_GET E packet = Some hdr" "e' = e"
      "s' = am_discard packet s"
      "LTENR_RLCAM_IsSNFallsInReceivingWindow e (am_SN hdr) \<Longrightarrow>
       LTENR_RLCAM_IsPDUPresentInReceptionBuffer E e (am_SN hdr) (am_SO hdr) = Inr True"
    | (place) hdr e1 s1 where "LTENR_RLCMSG_AMHDR_GET E packet = Some hdr"
      "LTENR_RLCAM_IsSNFallsInReceivingWindow e (am_SN hdr)"
      "LTENR_RLCAM_IsPDUPresentInReceptionBuffer E e (am_SN hdr) (am_SO hdr) = Inr False"
      "LTENR_RLCAM_PLACE_AMDPDU_IN_RECEPTIONBUFFER E e packet s = Inr (e1, s1)"
      "report_frame e1 s1 e' s'"
      "(if am_P hdr \<or> AM_isStatusReportDelayed e1
        then LTENR_RLCAM_InitiateToTriggerStatusReport E e1 (am_SN hdr) s1 else Inr (e1, s1)) = Inr (e', s')"
proof -
  obtain hdr where h: "LTENR_RLCMSG_AMHDR_GET E packet = Some hdr"
    using assms by (auto simp: am_receive_pdu_def rbind_Inr_iff)
  show thesis
  proof (cases "LTENR_RLCAM_IsSNFallsInReceivingWindow e (am_SN hdr)")
    case False
    then show thesis using assms h discard [OF h] by (simp add: am_receive_pdu_def)
  next
    case win: True
    then obtain present where pr:
        "LTENR_RLCAM_IsPDUPresentInReceptionBuffer E e (am_SN hdr) (am_SO hdr) = Inr present"
      using assms h by (auto simp: am_receive_pdu_def rbind_Inr_iff)
    show thesis
    proof (cases present)
      case True
      then show thesis using assms h win pr discard [OF h] by (simp add: am_receive_pdu_def)
    next
      case False
      then obtain e1 s1 where p:
          "LTENR_RLCAM_PLACE_AMDPDU_IN_RECEPTIONBUFFER E e packet s = Inr (e1, s1)"
        and r: "(if am_P hdr \<or> AM_isStatusReportDelayed e1
          then LTENR_RLCAM_InitiateToTriggerStatusReport E e1 (am_SN hdr) s1
          else Inr (e1, s1)) = Inr (e', s')"
        using assms h win pr by (auto simp: am_receive_pdu_def rbind_Inr_iff)
      have "report_frame e1 s1 e' s'"
        using r InitiateToTriggerStatusReport_frame report_frameI [OF _ _ _ emits_Nil, of e1 e1 s1]
        by (auto split: if_splits)
      with place [OF h win _ p _ r] pr False show thesis by simp
    qed
  qed
qed

lemma chain_has_SO_True:
  "chain_has_SO E ps so = Inr True \<Longrightarrow> so \<in> so_of E ` set ps"
  by (induction ps) (auto simp: so_of_def rbind_Inr_iff split: if_splits)

section \<open>Concrete PDUs for the witnesses\<close>

definition ex_pdu :: "SI \<Rightarrow> u32 \<Rightarrow> u16 \<Rightarrow> real \<Rightarrow> NetSim_PACKET" where
  "ex_pdu si sn so len = fst (LTENR_RLCMSG_AMHDR_ADD plain_rlc_env
     ((plain_create 1 2 0 LTENR_MSG_USERDATA)\<lparr>dPayload := len, dPacketSize := len\<rparr>) si sn so)"

definition ex_event :: EVENTDETAILS where
  "ex_event = \<lparr>dEventTime = 0, nDeviceId = 2, nInterfaceId = 1, pPacket = None, trace = []\<rparr>"

definition ex_am :: LTENR_RLCENTITY where
  "ex_am = LTENR_RLCENTITY_ALLOC\<lparr>rlcMode := LTENR_RLCMODE_AM, isTransmittingRLCEntity := True,
     isReceivingRLCEntity := True, maxRetxThreshold := 4, pollPDU := 4, pollByte := 1000\<rparr>"

text \<open>An entity that holds the first of two segments of SDU 0.\<close>

definition ex_am1 :: LTENR_RLCENTITY where
  "ex_am1 = ex_am\<lparr>AM_RX_Next_Highest := 1, AM_receptionBuffer :=
     [LTENR_RLC_RECEPTIONBUFFER_ALLOC\<lparr>rb_packets := [ex_pdu SI_FIRST 0 0 60]\<rparr>]\<rparr>"

definition ex_hdr :: "SI \<Rightarrow> u32 \<Rightarrow> u16 \<Rightarrow> LTENR_RLCMSG_AMDHDR" where
  "ex_hdr si sn so = \<lparr>am_dcBit = DC_CONTROL, am_P = False, am_si = si, am_SN = sn, am_SO = so\<rparr>"

lemma ex_pdu_hdr: "LTENR_RLCMSG_AMHDR_GET plain_rlc_env (ex_pdu si sn so len) = Some (ex_hdr si sn so)"
  unfolding ex_pdu_def ex_hdr_def
  by (rule plain_rlc.AMHDR_GET_ADD)
     (simp add: plain_rlc_env_def plain_pkt_api_def pkt_api.defs plain_get_def plain_msg_def plain_create_def)

lemma ex_pdu_payload: "dPayload (ex_pdu si sn so len) = len"
  unfolding ex_pdu_def by (simp only: plain_rlc.payload_AMHDR_ADD) simp

lemma Inr_of_not_isl: "\<not> isl r \<Longrightarrow> \<exists>a b. r = Inr (a, b)"
  by (cases r) auto

lemma ex_am1_inv: "am_rx_inv plain_rlc_env ex_am1"
proof -
  have "LTENR_RLCAM_isAllByteSegmentReceived plain_rlc_env
      (LTENR_RLC_RECEPTIONBUFFER_ALLOC\<lparr>rb_packets := [ex_pdu SI_FIRST 0 0 60]\<rparr>) = Inr False"
    by (simp add: LTENR_RLCAM_isAllByteSegmentReceived_def LTENR_RLC_RECEPTIONBUFFER_ALLOC_def)
  then show ?thesis
    by (simp add: am_rx_inv_def ex_am1_def ex_am_def rb_wf_def rb_meta_def has_hdr_def is_last_def
        ex_pdu_hdr ex_hdr_def LTENR_RLC_RECEPTIONBUFFER_ALLOC_def)
qed

lemma ex_am1_receive:
  "\<not> isl (am_receive_pdu plain_rlc_env ex_am1 (ex_pdu SI_LAST 0 1 40) ex_event)"
  by code_simp

section \<open>Properties of the receiver\<close>

text \<open>
  C32. The test that decides whether an SDU is complete is right: with the last segment in
  the buffer it says yes exactly when every segment offset before the last one is there;
  a segment with a larger offset than the last one's makes it write past its array.
\<close>

theorem am_complete_iff_all_offsets:
  assumes "isLastSDUReceived b" and "lastSDUSO b = ucast last_so"
    and "\<forall>p \<in> set (rb_packets b). LTENR_RLCMSG_AMHDR_GET E p \<noteq> None"
  shows "LTENR_RLCAM_isAllByteSegmentReceived E b =
    (if \<exists>p \<in> set (rb_packets b). last_so < so_of E p then Inl OutOfBounds
     else Inr (\<forall>so < last_so. \<exists>p \<in> set (rb_packets b). so_of E p = so))"
  by (rule isAllByteSegmentReceived_correct [OF assms])

lemma am_complete_iff_all_offsets_witness:
  "LTENR_RLCAM_isAllByteSegmentReceived plain_rlc_env
     (LTENR_RLC_RECEPTIONBUFFER_ALLOC\<lparr>isLastSDUReceived := True, lastSDUSO := 1,
        rb_packets := [ex_pdu SI_LAST 0 1 40, ex_pdu SI_FIRST 0 0 60]\<rparr>) = Inr True"
proof -
  have "\<forall>so < 1. so = (0 :: u16)" by (simp add: word_less_nat_alt word_unat_eq_iff)
  then show ?thesis
    using am_complete_iff_all_offsets
      [of "LTENR_RLC_RECEPTIONBUFFER_ALLOC\<lparr>isLastSDUReceived := True, lastSDUSO := 1,
        rb_packets := [ex_pdu SI_LAST 0 1 40, ex_pdu SI_FIRST 0 0 60]\<rparr>" 1 plain_rlc_env]
    by (simp add: ex_pdu_hdr ex_hdr_def so_of_def)
qed

text \<open>
  C33. The buffers of a receiving entity stay in order under every PDU: each holds distinct
  segments of its own sequence number, no number has two buffers, no complete SDU is kept
  waiting, and all numbers stay below \<open>RX_Next_Highest\<close>.
\<close>

theorem am_receive_keeps_inv:
  assumes "rlc_environment E" and "am_rx_inv E e"
    and "am_receive_pdu E e packet s = Inr (e', s')"
  shows "am_rx_inv E e'"
  using assms(3)
proof (cases rule: receive_cases)
  case (discard hdr)
  with assms(2) show ?thesis by simp
next
  case (place hdr e1 s1)
  with assms(1,2) show ?thesis
    using rlc_environment.place_inv am_rx_inv_frame by blast
qed

lemma am_receive_keeps_inv_witness:
  "\<exists>e' s'. am_receive_pdu plain_rlc_env ex_am1 (ex_pdu SI_LAST 0 1 40) ex_event = Inr (e', s')
     \<and> am_rx_inv plain_rlc_env e'"
  using Inr_of_not_isl [OF ex_am1_receive]
    am_receive_keeps_inv [OF plain_rlc.rlc_environment_axioms ex_am1_inv] by blast

text \<open>
  C17. A PDU inside the window that is not a duplicate is kept with the segments of its SDU
  until they are complete; then one SDU with the payload of all of them goes to PDCP, without
  the RLC header, and its buffer is gone. Any other PDU is freed and changes nothing.
\<close>

theorem am_receive_delivers_once_complete:
  assumes "rlc_environment E" and "am_rx_inv E e"
    and "LTENR_RLCMSG_AMHDR_GET E packet = Some hdr"
    and "am_receive_pdu E e packet s = Inr (e', s')"
  shows "if LTENR_RLCAM_IsSNFallsInReceivingWindow e (am_SN hdr)
      \<and> am_SO hdr \<notin> so_of E ` set (held e (am_SN hdr))
    then
      (if sdu_complete E (held e (am_SN hdr) @ [packet])
       then held e' (am_SN hdr) = []
         \<and> (\<exists>sdu. pdcp_of (trace s') = pdcp_of (trace s) @ [sdu]
              \<and> dPayload sdu = payload_sum (held e (am_SN hdr) @ [packet])
              \<and> LTENR_RLCMSG_AMHDR_GET E sdu = None)
       else held e' (am_SN hdr) = held e (am_SN hdr) @ [packet]
         \<and> pdcp_of (trace s') = pdcp_of (trace s))
    else e' = e \<and> s' = am_discard packet s"
  using assms(4)
proof (cases rule: receive_cases)
  case (discard hdr')
  have "am_SO hdr \<in> so_of E ` set (held e (am_SN hdr))"
    if "LTENR_RLCAM_IsSNFallsInReceivingWindow e (am_SN hdr)"
    using discard(4) that assms(3) discard(1) chain_has_SO_True
    by (fastforce simp: LTENR_RLCAM_IsPDUPresentInReceptionBuffer_def held_def
        LTENR_RLCAM_FINDRECEPTIONBUFFER_def split: option.splits)
  with discard show ?thesis by auto
next
  case (place hdr' e1 s1)
  have "am_SO hdr \<notin> so_of E ` set (held e (am_SN hdr))"
    using place(3) assms(3) place(1) chain_has_SO_False
    by (fastforce simp: LTENR_RLCAM_IsPDUPresentInReceptionBuffer_def held_def
        LTENR_RLCAM_FINDRECEPTIONBUFFER_def split: option.splits)
  moreover have hdr': "hdr' = hdr" using place(1) assms(3) by simp
  ultimately show ?thesis
    using rlc_environment.place_delivery [OF assms(1,2) place(1,4)] place(2)
    unfolding held_frame [OF place(5)] report_frame_pdcp [OF place(5)] hdr'
    by (simp only: simp_thms if_True not_False_eq_True)
qed

lemma am_receive_delivers_once_complete_witness:
  "\<exists>e' s' sdu. am_receive_pdu plain_rlc_env ex_am1 (ex_pdu SI_LAST 0 1 40) ex_event = Inr (e', s')
     \<and> held e' 0 = [] \<and> pdcp_of (trace s') = [sdu] \<and> dPayload sdu = 100"
proof -
  obtain e' s' where r:
      "am_receive_pdu plain_rlc_env ex_am1 (ex_pdu SI_LAST 0 1 40) ex_event = Inr (e', s')"
    using Inr_of_not_isl [OF ex_am1_receive] by blast
  have "\<forall>so < 1. so = (0 :: u16)" by (simp add: word_less_nat_alt word_unat_eq_iff)
  moreover have "held ex_am1 0 = [ex_pdu SI_FIRST 0 0 60]"
    by (simp add: held_def ex_am1_def LTENR_RLC_RECEPTIONBUFFER_ALLOC_def)
  moreover have "LTENR_RLCAM_IsSNFallsInReceivingWindow ex_am1 0"
    by (simp add: LTENR_RLCAM_IsSNFallsInReceivingWindow_def ex_am1_def ex_am_def
        LTENR_RLCENTITY_ALLOC_def AM_Window_Size_def)
  ultimately show ?thesis
    using am_receive_delivers_once_complete
      [OF plain_rlc.rlc_environment_axioms ex_am1_inv ex_pdu_hdr r] r
    by (auto simp: ex_hdr_def so_of_def ex_pdu_hdr sdu_complete_def is_last_def payload_sum_def
        ex_pdu_payload ex_event_def)
qed

text \<open>
  When a PDU with a whole SDU arrives while no other SDU is under way, \<open>RX_Next\<close> goes to
  \<open>RX_Next_Highest\<close>, past every number that was skipped.
\<close>

lemma UpdateStatus_nothing_below:
  assumes "LTENR_RLCAM_UpdateStatus E e pdu = Inr (e', pdu', sz)"
    and "AM_RX_Next_Highest e \<le> AM_RX_Next e"
  shows "pdu' = pdu"
  using assms by (auto simp: LTENR_RLCAM_UpdateStatus_def for_lt_below below_word_Nil rbind_Inr_iff)

context rlc_environment
begin

lemma place_whole_sdu:
  assumes hdr: "LTENR_RLCMSG_AMHDR_GET E packet = Some hdr"
    and all: "am_si hdr = SI_ALL" "am_SO hdr = 0" and empty: "AM_receptionBuffer e = []"
    and res: "LTENR_RLCAM_PLACE_AMDPDU_IN_RECEPTIONBUFFER E e packet s = Inr (e', s')"
  shows "AM_RX_Next e' = AM_RX_Next_Highest e'"
    and "AM_RX_Next_Highest e' = (if am_SN hdr \<ge> AM_RX_Next_Highest e then am_SN hdr + 1 else AM_RX_Next_Highest e)"
proof -
  obtain B i buf c e5 s5 where
    1: "place_slot e (am_SN hdr) = (B, i)"
    and 2: "LTENR_RLCAM_AddToReceptionBuffer E (B ! i) packet = Inr buf"
    and 3: "LTENR_RLCAM_isAllByteSegmentReceived E buf = Inr c"
    and 4: "if c then place_deliver E (placed e hdr (B[i := buf])) i buf s = Inr (e5, s5)
     else e5 = placed e hdr (B[i := buf]) \<and> s5 = s"
    and 5: "place_timers E e5 s5 = Inr (e', s')"
    using hdr res by (rule place_cases)
  have Bi: "i = 0" "length B = 1" "rb_packets (B ! 0) = []" "rb_meta E (B ! i)"
    using 1 empty by (auto simp: place_slot_def LTENR_RLC_RECEPTIONBUFFER_ALLOC_def rb_meta_def)
  have pk: "rb_packets buf = [packet]" using AddTo_packets(1) [OF 2] Bi by simp
  then have "c \<longleftrightarrow> sdu_complete E [packet]"
    using isAll_complete [OF AddTo_meta [OF Bi(4) 2] _ 3] hdr by simp
  moreover have "sdu_complete E [packet]"
    using hdr all by (simp add: sdu_complete_def is_last_def so_of_def)
  ultimately have "place_deliver E (placed e hdr (B[i := buf])) i buf s = Inr (e5, s5)"
    using 4 by simp
  then have e5: "AM_receptionBuffer e5 = remove_at i (B[i := buf])"
    "AM_RX_Next e5 = LTENR_RLCAM_UpdateRxNext
       ((placed e hdr (B[i := buf]))\<lparr>AM_receptionBuffer := AM_receptionBuffer e5\<rparr>)"
    "AM_RX_Next_Highest e5 = AM_RX_Next_Highest (placed e hdr (B[i := buf]))"
    using Bi by (auto elim!: place_deliver_Inr)
  have "AM_receptionBuffer e5 = []" using e5(1) Bi(1,2) by (cases B) auto
  then have "AM_RX_Next e5 = AM_RX_Next_Highest e5"
    using e5(2,3) by (simp add: LTENR_RLCAM_UpdateRxNext_def)
  with e5(3) untimedD [OF place_timers_frame(1) [OF 5]]
  show "AM_RX_Next e' = AM_RX_Next_Highest e'"
    "AM_RX_Next_Highest e' = (if am_SN hdr \<ge> AM_RX_Next_Highest e then am_SN hdr + 1 else AM_RX_Next_Highest e)"
    by simp_all
qed

end

text \<open>
  A gap is never repaired: when a PDU that holds a whole SDU with number \<open>x\<close> arrives and
  no other SDU is under way, every smaller number falls out of the receiving window - a PDU
  with such a number is freed from then on - and a status report built next names no NACK.
\<close>

theorem am_gap_is_given_up:
  assumes "rlc_environment E" and "LTENR_RLCMSG_AMHDR_GET E packet = Some hdr"
    and "am_si hdr = SI_ALL" and "am_SO hdr = 0" and "AM_receptionBuffer e = []"
    and "LTENR_RLCAM_IsSNFallsInReceivingWindow e (am_SN hdr)"
    and "am_receive_pdu E e packet s = Inr (e', s')"
  shows "(\<forall>q h t. LTENR_RLCMSG_AMHDR_GET E q = Some h \<and> am_SN h < am_SN hdr \<longrightarrow>
            am_receive_pdu E e' q t = Inr (e', am_discard q t))
    \<and> (\<forall>pdu e2 pdu' sz. LTENR_RLCAM_UpdateStatus E e' pdu = Inr (e2, pdu', sz) \<longrightarrow>
            nackList pdu' = nackList pdu)"
  using assms(7)
proof (cases rule: receive_cases)
  case (discard hdr')
  then show ?thesis
    using assms(2,5,6) by (auto simp: LTENR_RLCAM_IsPDUPresentInReceptionBuffer_def
        LTENR_RLCAM_FINDRECEPTIONBUFFER_def)
next
  case (place hdr' e1 s1)
  have n: "AM_RX_Next e1 = AM_RX_Next_Highest e1"
    "AM_RX_Next_Highest e1 = (if am_SN hdr \<ge> AM_RX_Next_Highest e then am_SN hdr + 1 else AM_RX_Next_Highest e)"
    using rlc_environment.place_whole_sdu [OF assms(1-5) place(4)] by auto
  have eq: "AM_RX_Next e' = AM_RX_Next_Highest e'" "AM_RX_Next e' = AM_RX_Next_Highest e1"
    using n place(5) by (simp_all add: report_frame_def)
  have "am_SN hdr < AM_RX_Next e'"
    using eq(2) n(2) window_no_wrap [OF assms(6)] by (auto simp: not_le)
  then have out: "\<not> LTENR_RLCAM_IsSNFallsInReceivingWindow e' y" if "y < am_SN hdr" for y
    using that unfolding LTENR_RLCAM_IsSNFallsInReceivingWindow_def by auto
  have "pdu' = pdu" if "LTENR_RLCAM_UpdateStatus E e' pdu = Inr (e2, pdu', sz)" for pdu e2 pdu' sz
    using UpdateStatus_nothing_below [OF that] eq(1) by simp
  then show ?thesis
    using out by (auto simp: am_receive_pdu_def)
qed

lemma am_gap_is_given_up_witness:
  "\<exists>e' s'. am_receive_pdu plain_rlc_env ex_am (ex_pdu SI_ALL 2 0 100) ex_event = Inr (e', s')
    \<and> am_receive_pdu plain_rlc_env e' (ex_pdu SI_ALL 0 0 100) ex_event
      = Inr (e', am_discard (ex_pdu SI_ALL 0 0 100) ex_event)"
proof -
  have "\<not> isl (am_receive_pdu plain_rlc_env ex_am (ex_pdu SI_ALL 2 0 100) ex_event)"
    by code_simp
  then obtain e' s' where r:
      "am_receive_pdu plain_rlc_env ex_am (ex_pdu SI_ALL 2 0 100) ex_event = Inr (e', s')"
    using Inr_of_not_isl by blast
  have "LTENR_RLCAM_IsSNFallsInReceivingWindow ex_am 2" by code_simp
  moreover have "AM_receptionBuffer ex_am = []" by (simp add: ex_am_def LTENR_RLCENTITY_ALLOC_def)
  ultimately show ?thesis
    using am_gap_is_given_up [OF plain_rlc.rlc_environment_axioms ex_pdu_hdr _ _ _ _ r] r ex_pdu_hdr
    by (auto simp: ex_hdr_def)
qed

section \<open>What a status report names\<close>

text \<open>
  The numbers (\<open>(sn, None)\<close>: a whole SDU) and segments (\<open>(sn, Some so)\<close>) a NACK stands for
  when the receiver builds it: a range NACK covers \<open>NAckRange\<close> numbers from \<open>NAck_SN\<close> on.
\<close>

definition nack_means :: "LTENR_RLCMSG_STATUSPDU_NACK \<Rightarrow> (nat \<times> nat option) set" where
  "nack_means n =
     (if nack_E3 n
      then {(k, None) | k. unat (NAck_SN n) \<le> k \<and> k < unat (NAck_SN n) + unat (NAckRange n)}
      else if nack_E2 n
      then {(unat (NAck_SN n), Some k) | k. unat (soStart n) \<le> k \<and> k \<le> unat (soEnd n)}
      else {(unat (NAck_SN n), None)})"

definition status_means :: "LTENR_RLCMSG_STATUSPDU \<Rightarrow> (nat \<times> nat option) set" where
  "status_means pdu = (\<Union>n \<in> set (nackList pdu). nack_means n)"

text \<open>A report under construction: NACKs of numbers from \<open>lo\<close> on, all below \<open>hi\<close>.\<close>

definition nack_ok :: "nat \<Rightarrow> nat \<Rightarrow> LTENR_RLCMSG_STATUSPDU_NACK \<Rightarrow> bool" where
  "nack_ok lo hi n \<longleftrightarrow> lo \<le> unat (NAck_SN n)
     \<and> (nack_E3 n \<longrightarrow> unat (NAck_SN n) + unat (NAckRange n) \<le> hi)
     \<and> unat (NAck_SN n) < hi \<and> (nack_E2 n \<longrightarrow> \<not> nack_E3 n \<and> soStart n \<le> soEnd n)"

definition status_ok :: "nat \<Rightarrow> nat \<Rightarrow> LTENR_RLCMSG_STATUSPDU \<Rightarrow> bool" where
  "status_ok lo hi pdu \<longleftrightarrow> (\<forall>n \<in> set (nackList pdu). nack_ok lo hi n)"

lemma unat_ucast_u8: "unat (ucast (x :: u8) :: u32) = unat x"
  by (simp add: unsigned_ucast_eq take_bit_nat_eq_self_iff) (use unsigned_less [of x, where ?'a = nat] in simp)

lemma unat_plus_one_u8: "unat (x :: u8) < 255 \<Longrightarrow> unat (x + 1) = Suc (unat x)"
proof (rule unat_plus_one)
  assume "unat x < 255"
  moreover have "unat (- 1 :: u8) = 255" by code_simp
  ultimately show "x \<noteq> - 1" by auto
qed

lemma nack_ok_mono: "nack_ok lo hi n \<Longrightarrow> hi \<le> hi' \<Longrightarrow> nack_ok lo hi' n"
  by (auto simp: nack_ok_def)

lemma status_ok_mono: "status_ok lo hi pdu \<Longrightarrow> hi \<le> hi' \<Longrightarrow> status_ok lo hi' pdu"
  by (auto simp: status_ok_def intro: nack_ok_mono)

lemma nackTail_cases:
  obtains "nackTail pdu = None" "nackList pdu = []"
  | ns n where "nackTail pdu = Some n" "nackList pdu = ns @ [n]"
  by (cases "nackList pdu" rule: rev_cases) (auto simp: nackTail_def)

lemma nack_E1_same [simp]:
  "nack_means (n\<lparr>nack_E1 := x\<rparr>) = nack_means n" "nack_ok lo hi (n\<lparr>nack_E1 := x\<rparr>) = nack_ok lo hi n"
  by (simp_all add: nack_means_def nack_ok_def)

lemma SETE1_list:
  "nackList (LTENR_RLCMSG_STATUSPDU_SETE1 pdu) = nackList pdu
   \<or> (\<exists>ns n. nackList pdu = ns @ [n]
        \<and> nackList (LTENR_RLCMSG_STATUSPDU_SETE1 pdu) = ns @ [n\<lparr>nack_E1 := True\<rparr>])"
  by (cases pdu rule: nackTail_cases)
     (auto simp: LTENR_RLCMSG_STATUSPDU_SETE1_def nackTail_write_def)

lemma SETE1_same:
  "status_means (LTENR_RLCMSG_STATUSPDU_SETE1 pdu) = status_means pdu"
  "status_ok lo hi (LTENR_RLCMSG_STATUSPDU_SETE1 pdu) = status_ok lo hi pdu"
  using SETE1_list [of pdu] by (auto simp: status_means_def status_ok_def)

lemma nackTail_write_means:
  assumes "nackTail pdu = Some n" and "nack_means n' = insert a (nack_means n)"
  shows "status_means (nackTail_write n' pdu) = insert a (status_means pdu)"
  using assms by (cases pdu rule: nackTail_cases) (auto simp: nackTail_write_def status_means_def)

lemma nackTail_write_ok:
  assumes "nackTail pdu = Some n" and "status_ok lo hi pdu" and "nack_ok lo hi' n'" and "hi \<le> hi'"
  shows "status_ok lo hi' (nackTail_write n' pdu)"
  using assms nack_ok_mono
  by (cases pdu rule: nackTail_cases) (auto simp: nackTail_write_def status_ok_def)

lemma STATUSPDU_AddNack_means:
  "status_means (LTENR_RLCMSG_STATUSPDU_AddNack pdu n) = nack_means n \<union> status_means pdu"
  "status_ok lo hi (LTENR_RLCMSG_STATUSPDU_AddNack pdu n) \<longleftrightarrow> nack_ok lo hi n \<and> status_ok lo hi pdu"
  by (auto simp: LTENR_RLCMSG_STATUSPDU_AddNack_def status_means_def status_ok_def)

lemma NewNack_adds:
  assumes "status_ok lo hi pdu" and "lo \<le> unat sn" and "hi \<le> Suc (unat sn)"
  shows "status_means (fst (LTENR_RLCAM_StatusPdu_NewNack pdu si sn so))
      = insert (unat sn, if si = SI_ALL then None else Some (unat so)) (status_means pdu)"
    and "status_ok lo (Suc (unat sn)) (fst (LTENR_RLCAM_StatusPdu_NewNack pdu si sn so))"
proof -
  have ok: "status_ok lo (Suc (unat sn)) (LTENR_RLCMSG_STATUSPDU_SETE1 pdu)"
    using assms by (simp add: SETE1_same status_ok_mono)
  show "status_means (fst (LTENR_RLCAM_StatusPdu_NewNack pdu si sn so))
      = insert (unat sn, if si = SI_ALL then None else Some (unat so)) (status_means pdu)"
    by (auto simp: LTENR_RLCAM_StatusPdu_NewNack_def STATUSPDU_AddNack_means SETE1_same Let_def
        nack_means_def empty_nack_def)
  show "status_ok lo (Suc (unat sn)) (fst (LTENR_RLCAM_StatusPdu_NewNack pdu si sn so))"
    using ok assms(2)
    by (auto simp: LTENR_RLCAM_StatusPdu_NewNack_def STATUSPDU_AddNack_means Let_def
        nack_ok_def empty_nack_def)
qed

text \<open>A missing SDU, with a number beyond all NACKs so far and fewer than 256 in the report.\<close>

lemma AddNack_SDU:
  assumes "status_ok lo (unat sn) pdu" and "lo \<le> unat sn" and "unat sn < lo + 255"
  shows "status_means (fst (LTENR_RLCAM_STATUSPDU_AddNack pdu SI_ALL sn 0))
      = insert (unat sn, None) (status_means pdu)"
    and "status_ok lo (Suc (unat sn)) (fst (LTENR_RLCAM_STATUSPDU_AddNack pdu SI_ALL sn 0))"
proof -
  let ?new = "LTENR_RLCAM_StatusPdu_NewNack pdu SI_ALL sn 0"
  have new: "status_means (fst ?new) = insert (unat sn, None) (status_means pdu)"
    "status_ok lo (Suc (unat sn)) (fst ?new)"
    using NewNack_adds [OF assms(1,2), of SI_ALL 0] by simp_all
  have "fst (LTENR_RLCAM_STATUSPDU_AddNack pdu SI_ALL sn 0) = fst ?new
    \<or> (\<exists>n n'. nackTail pdu = Some n \<and> nack_means n' = insert (unat sn, None) (nack_means n)
        \<and> nack_ok lo (Suc (unat sn)) n'
        \<and> fst (LTENR_RLCAM_STATUSPDU_AddNack pdu SI_ALL sn 0) = nackTail_write n' pdu)"
  proof (cases pdu rule: nackTail_cases)
    case 1
    then show ?thesis by (simp add: LTENR_RLCAM_STATUSPDU_AddNack_def)
  next
    case (2 ns n)
    then have ok: "nack_ok lo (unat sn) n" using assms(1) by (simp add: status_ok_def)
    consider (range) "nack_E3 n" "NAck_SN n + ucast (NAckRange n) = sn"
      | (two) "\<not> nack_E3 n" "\<not> nack_E2 n" "NAck_SN n + 1 = sn"
      | (new) "fst (LTENR_RLCAM_STATUSPDU_AddNack pdu SI_ALL sn 0) = fst ?new"
    proof -
      have "nack_E3 n \<and> NAck_SN n + ucast (NAckRange n) = sn
        \<or> \<not> nack_E3 n \<and> \<not> nack_E2 n \<and> NAck_SN n + 1 = sn
        \<or> fst (LTENR_RLCAM_STATUSPDU_AddNack pdu SI_ALL sn 0) = fst ?new"
        using 2 by (simp add: LTENR_RLCAM_STATUSPDU_AddNack_def
          LTENR_RLCAM_StatusPdu_UpdateNackTail_def)
      then show thesis using that by blast
    qed
    then show ?thesis
    proof cases
      case range
      have u: "unat sn = unat (NAck_SN n) + unat (NAckRange n)"
      proof -
        have lt: "unat (NAck_SN n) + unat (NAckRange n) < 2 ^ 32"
          using ok range(1) unsigned_less [of sn, where ?'a = nat] by (simp add: nack_ok_def)
        have "unat (NAck_SN n + ucast (NAckRange n))
            = (unat (NAck_SN n) + unat (NAckRange n)) mod 2 ^ 32"
          by (simp add: unat_word_ariths unat_ucast_u8)
        then show ?thesis using range(2) lt by simp
      qed
      then have r: "unat (NAckRange n + 1) = Suc (unat (NAckRange n))"
        using assms(3) ok by (intro unat_plus_one_u8) (auto simp: nack_ok_def)
      let ?n = "n\<lparr>NAckRange := NAckRange n + 1\<rparr>"
      have "nack_means ?n = insert (unat sn, None) (nack_means n)"
        using range(1) u r by (auto simp: nack_means_def)
      moreover have "nack_ok lo (Suc (unat sn)) ?n"
        using ok u r range(1) by (simp add: nack_ok_def)
      ultimately show ?thesis
        using 2 range by (auto simp: LTENR_RLCAM_STATUSPDU_AddNack_def
            LTENR_RLCAM_StatusPdu_UpdateNackTail_def)
    next
      case two
      have u: "unat sn = Suc (unat (NAck_SN n))"
      proof -
        have "NAck_SN n \<noteq> - 1" using ok two(3) by (auto simp: nack_ok_def)
        then show ?thesis using two(3) unat_plus_one by metis
      qed
      let ?n = "n\<lparr>nack_E3 := True, NAckRange := 2\<rparr>"
      have "nack_means ?n = insert (unat sn, None) (nack_means n)"
        using two(1,2) u by (auto simp: nack_means_def)
      moreover have "nack_ok lo (Suc (unat sn)) ?n"
        using ok u two by (simp add: nack_ok_def)
      ultimately show ?thesis
        using 2 two by (auto simp: LTENR_RLCAM_STATUSPDU_AddNack_def
            LTENR_RLCAM_StatusPdu_UpdateNackTail_def)
    qed simp
  qed
  then show "status_means (fst (LTENR_RLCAM_STATUSPDU_AddNack pdu SI_ALL sn 0))
      = insert (unat sn, None) (status_means pdu)"
    "status_ok lo (Suc (unat sn)) (fst (LTENR_RLCAM_STATUSPDU_AddNack pdu SI_ALL sn 0))"
    using new nackTail_write_means nackTail_write_ok [OF _ assms(1)] by auto
qed

text \<open>A missing segment of the SDU the report has come to.\<close>

lemma AddNack_segment:
  assumes "status_ok lo hi pdu" and "lo \<le> unat sn" and "hi \<le> Suc (unat sn)"
  shows "status_means (fst (LTENR_RLCAM_STATUSPDU_AddNack pdu SI_MIDDLE sn so))
      = insert (unat sn, Some (unat so)) (status_means pdu)"
    and "status_ok lo (Suc (unat sn)) (fst (LTENR_RLCAM_STATUSPDU_AddNack pdu SI_MIDDLE sn so))"
proof -
  let ?add = "LTENR_RLCAM_STATUSPDU_AddNack pdu SI_MIDDLE sn so"
  let ?new = "LTENR_RLCAM_StatusPdu_NewNack pdu SI_MIDDLE sn so"
  have new: "status_means (fst ?new) = insert (unat sn, Some (unat so)) (status_means pdu)"
    "status_ok lo (Suc (unat sn)) (fst ?new)"
    using NewNack_adds [OF assms, of SI_MIDDLE so] by simp_all
  have "fst ?add = fst ?new
    \<or> (\<exists>n n'. nackTail pdu = Some n \<and> nack_means n' = insert (unat sn, Some (unat so)) (nack_means n)
        \<and> nack_ok lo (Suc (unat sn)) n' \<and> fst ?add = nackTail_write n' pdu)"
  proof (cases pdu rule: nackTail_cases)
    case 1
    then show ?thesis by (simp add: LTENR_RLCAM_STATUSPDU_AddNack_def)
  next
    case (2 ns n)
    then have ok: "nack_ok lo hi n" using assms(1) by (simp add: status_ok_def)
    show ?thesis
    proof (cases "NAck_SN n = sn \<and> nack_E2 n \<and> unat (soEnd n) + 1 = unat so")
      case True
      let ?n = "n\<lparr>soEnd := so\<rparr>"
      have "unat (soStart n) \<le> unat (soEnd n)" using ok True by (auto simp: nack_ok_def word_le_nat_alt)
      then have "nack_means ?n = insert (unat sn, Some (unat so)) (nack_means n)"
        using True ok by (auto simp: nack_means_def nack_ok_def)
      moreover have "nack_ok lo (Suc (unat sn)) ?n"
        using ok True assms(3) by (auto simp: nack_ok_def word_le_nat_alt)
      moreover have "fst ?add = nackTail_write ?n pdu"
        using 2 True by (simp add: LTENR_RLCAM_STATUSPDU_AddNack_def
            LTENR_RLCAM_StatusPdu_UpdateNackTail_def)
      ultimately show ?thesis using 2 by blast
    next
      case False
      then show ?thesis
        using 2 by (simp add: LTENR_RLCAM_STATUSPDU_AddNack_def
            LTENR_RLCAM_StatusPdu_UpdateNackTail_def)
    qed
  qed
  then show "status_means (fst ?add) = insert (unat sn, Some (unat so)) (status_means pdu)"
    "status_ok lo (Suc (unat sn)) (fst ?add)"
    using new nackTail_write_means nackTail_write_ok [OF _ assms(1) _ assms(3)] by auto
qed

text \<open>The gaps of an SDU as the loops of \<open>UpdateStatus\<close> look them up in the records.\<close>

definition missing :: "LTENR_RLCENTITY \<Rightarrow> u32 \<Rightarrow> (nat \<times> nat option) set" where
  "missing e sn = (case LTENR_RLCAM_FindLastStatusInfo e sn of
      None \<Rightarrow> {(unat sn, None)}
    | Some s \<Rightarrow> if st_si s = SI_ALL then {}
        else {(unat sn, Some (unat so)) | so. so \<le> st_SO s \<and> LTENR_RLCAM_FindStatus e sn so = None})"

lemma update_status_so_total: "\<exists>y. update_status_so e sn so acc = Inr y"
  by (simp add: update_status_so_def split: prod.splits)

lemma update_status_so_loop:
  assumes "for_le (for_le_fuel m) 0 m (update_status_so e sn) (pdu, sz) = Inr (pdu', sz')"
    and "status_ok lo (unat sn) pdu" and "lo \<le> unat sn"
  shows "status_means pdu' = status_means pdu
        \<union> {(unat sn, Some (unat so)) | so. so \<le> m \<and> LTENR_RLCAM_FindStatus e sn so = None}"
    and "status_ok lo (Suc (unat sn)) pdu'"
proof -
  have m: "m \<noteq> - 1"
    using assms(1) for_le_max [of "update_status_so e sn"] update_status_so_total by fastforce
  let ?P = "\<lambda>k (x :: LTENR_RLCMSG_STATUSPDU \<times> u32). status_ok lo (Suc (unat sn)) (fst x) \<and>
    status_means (fst x) = status_means pdu
      \<union> {(unat sn, Some (unat so)) | so. unat so < k \<and> LTENR_RLCAM_FindStatus e sn so = None}"
  have "?P (Suc (unat m)) (pdu', sz')"
  proof (rule fold_upto_induct [OF _ m, where a = 0 and P = ?P])
    show "fold_result (update_status_so e sn) (upto_word 0 m) (pdu, sz) = Inr (pdu', sz')"
      using assms(1) m by (simp add: for_le_upto)
    show "?P (unat (0 :: u16)) (pdu, sz)" using assms(2) by (auto intro: status_ok_mono)
    fix so x y
    assume P: "?P (unat so) x" and step: "update_status_so e sn so x = Inr y"
    have split: "{(unat sn, Some (unat o')) | o'. unat o' < Suc (unat so) \<and> LTENR_RLCAM_FindStatus e sn o' = None}
      = {(unat sn, Some (unat o')) | o'. unat o' < unat so \<and> LTENR_RLCAM_FindStatus e sn o' = None}
        \<union> (if LTENR_RLCAM_FindStatus e sn so = None then {(unat sn, Some (unat so))} else {})"
      by (auto simp: less_Suc_eq word_unat_eq_iff [symmetric])
    obtain p z where x: "x = (p, z)" by (cases x)
    show "?P (Suc (unat so)) y"
    proof (cases "LTENR_RLCAM_FindStatus e sn so = None")
      case True
      then have y: "fst y = fst (LTENR_RLCAM_STATUSPDU_AddNack p SI_MIDDLE sn so)"
        using step x by (auto simp: update_status_so_def Let_def split: prod.splits)
      show ?thesis
        using P True x y AddNack_segment [of lo "Suc (unat sn)" p sn so] assms(3)
        unfolding split by simp
    next
      case False
      then have "y = x" using step x by (auto simp: update_status_so_def)
      then show ?thesis using P False unfolding split by auto
    qed
  qed simp
  then show "status_means pdu' = status_means pdu
        \<union> {(unat sn, Some (unat so)) | so. so \<le> m \<and> LTENR_RLCAM_FindStatus e sn so = None}"
    "status_ok lo (Suc (unat sn)) pdu'"
    by (simp_all add: word_le_nat_alt less_Suc_eq_le)
qed

lemma update_status_sn_step:
  assumes "update_status_sn e sn (pdu, sz) = Inr (pdu', sz')"
    and "status_ok lo (unat sn) pdu" and "lo \<le> unat sn" and "unat sn < lo + 255"
  shows "status_means pdu' = status_means pdu \<union> missing e sn"
    and "status_ok lo (Suc (unat sn)) pdu'"
proof -
  have "status_means pdu' = status_means pdu \<union> missing e sn \<and> status_ok lo (Suc (unat sn)) pdu'"
  proof (cases "LTENR_RLCAM_FindLastStatusInfo e sn")
    case None
    then have "pdu' = fst (LTENR_RLCAM_STATUSPDU_AddNack pdu SI_ALL sn 0)"
      using assms(1) by (auto simp: update_status_sn_def Let_def split: prod.splits)
    then show ?thesis using AddNack_SDU [OF assms(2-4)] None by (simp add: missing_def)
  next
    case (Some s)
    show ?thesis
    proof (cases "st_si s = SI_ALL")
      case True
      then show ?thesis
        using assms(1,2) Some status_ok_mono [OF assms(2)] by (simp add: update_status_sn_def missing_def)
    next
      case False
      then have "for_le (for_le_fuel (st_SO s)) 0 (st_SO s) (update_status_so e sn) (pdu, sz) = Inr (pdu', sz')"
        using assms(1) Some by (simp add: update_status_sn_def)
      then show ?thesis
        using update_status_so_loop assms(2,3) False Some by (simp add: missing_def)
    qed
  qed
  then show "status_means pdu' = status_means pdu \<union> missing e sn"
    "status_ok lo (Suc (unat sn)) pdu'" by simp_all
qed

lemma UpdateStatus_means:
  assumes "LTENR_RLCAM_UpdateStatus E e LTENR_RLCMSG_STATUSPDU_NEW = Inr (e', pdu, sz)"
    and "AM_RX_Next e \<le> AM_RX_Next_Highest e"
    and "unat (AM_RX_Next_Highest e) \<le> unat (AM_RX_Next e) + 255"
  shows "status_means pdu = (\<Union>sn \<in> {sn. AM_RX_Next e \<le> sn \<and> sn < AM_RX_Next_Highest e}. missing e sn)"
proof -
  let ?lo = "AM_RX_Next e" and ?hi = "AM_RX_Next_Highest e"
  let ?P = "\<lambda>k (x :: LTENR_RLCMSG_STATUSPDU \<times> u32). status_ok (unat ?lo) (unat k) (fst x)
    \<and> status_means (fst x) = (\<Union>sn \<in> {sn. ?lo \<le> sn \<and> sn < k}. missing e sn)"
  obtain sz' where "for_lt (for_lt_fuel ?hi) ?lo ?hi (update_status_sn e)
      (LTENR_RLCMSG_STATUSPDU_NEW, 0) = Inr (pdu, sz')"
    using assms(1) by (auto simp: LTENR_RLCAM_UpdateStatus_def elim!: rbind_InrE)
  then have "fold_result (update_status_sn e) (below_word ?lo ?hi) (LTENR_RLCMSG_STATUSPDU_NEW, 0)
      = Inr (pdu, sz')"
    by (simp add: for_lt_below)
  then have "?P ?hi (pdu, sz')"
  proof (rule fold_below_induct [OF _ assms(2), where P = ?P])
    show "?P ?lo (LTENR_RLCMSG_STATUSPDU_NEW, 0)"
      by (auto simp: LTENR_RLCMSG_STATUSPDU_NEW_def status_ok_def status_means_def)
    fix sn x y
    assume r: "?lo \<le> sn" "sn < ?hi" and P: "?P sn x" and step: "update_status_sn e sn x = Inr y"
    have "sn \<noteq> - 1" using r(2) word_order.extremum_strict by auto
    then have u: "unat (sn + 1) = Suc (unat sn)" by (rule unat_plus_one)
    have "{k. ?lo \<le> k \<and> k < sn + 1} = insert sn {k. ?lo \<le> k \<and> k < sn}"
      using r(1) u by (auto simp: word_less_nat_alt word_le_nat_alt less_Suc_eq word_unat_eq_iff)
    moreover have "unat sn < unat ?lo + 255"
      using r(2) assms(3) by (simp add: word_less_nat_alt)
    ultimately show "?P (sn + 1) y"
      using update_status_sn_step [of e sn "fst x" "snd x" "fst y" "snd y" "unat ?lo"] step P r(1) u
      by (auto simp: word_le_nat_alt)
  qed
  then show ?thesis by simp
qed

end
