(* ===== verification/RLC_AM_Rx_Run.thy ===== *)
theory RLC_AM_Rx_Run
  imports RLC_AM_Rx_Props
begin

text \<open>
  The life of a receiving AM entity, with the set of PDUs that have arrived kept beside it:
  the steps, the invariant that ties reception buffers and records to that set, and what a
  status report names in terms of it.
\<close>

section \<open>Runs of a receiving entity\<close>






section \<open>The invariant of a run\<close>






subsection \<open>Moving RX_Next\<close>









subsection \<open>A PDU placed\<close>





section \<open>What a status report names\<close>













end
