(* ===== verification/RLC_AM_Tx.thy ===== *)
theory RLC_AM_Tx
  imports RLC_AM_Rx
begin

text \<open>
  The transmitting side of RLC acknowledged mode (\<open>LTE_NR/LTENR_RLC_AM.c\<close>): queueing and
  segmenting SDUs, retransmission, the poll and its timer, and the handling of status PDUs.
\<close>

section \<open>Queueing and segmenting\<close>

definition LTENR_RLCAM_IsSNFallsInTransmittingWindow :: "LTENR_RLCENTITY \<Rightarrow> u32 \<Rightarrow> bool" where
  "LTENR_RLCAM_IsSNFallsInTransmittingWindow entity sn \<longleftrightarrow>
     AM_TX_Next_Ack entity \<le> sn \<and> sn < AM_TX_Next_Ack entity + AM_Window_Size"

text \<open>\<open>LTENR_RLCAM_HandlePDUFromUpperLayer\<close>, once the entity is found.\<close>

definition am_handle_pdu_from_upper ::
  "LTENR_RLCENTITY \<Rightarrow> NetSim_PACKET \<Rightarrow> LTENR_RLCENTITY result" where
  "am_handle_pdu_from_upper entity packet =
     rbind (LTENR_PACKET_GET_LOGICALCHANNEL packet) (\<lambda>ch.
     Inr (entity\<lparr>transmissionBuffer :=
            transmissionBuffer entity @ [buf_new packet (AM_TX_Next entity) 0 ch],
          AM_TX_Next := AM_TX_Next entity + 1,
          bufferStatus := (bufferStatus entity)
            (ch := bufferStatus entity ch + UINT_of_double (dPacketSize packet))\<rparr>))"

text \<open>
  What \<open>LTENR_RLC_AM_FRAGMENT_PACKET\<close> returns: NULL, the buffer itself (now written to), or a
  fresh entry for the first bytes, with what stays in the buffer.
\<close>

datatype am_fragment =
    NoRoom | Whole LTENR_RLCBUFFER_DATA | Fragment LTENR_RLCBUFFER_DATA LTENR_RLCBUFFER_DATA

definition LTENR_RLC_AM_FRAGMENT_PACKET ::
  "'z pkt_api_scheme \<Rightarrow> LTENR_RLCBUFFER_DATA \<Rightarrow> u32 \<Rightarrow> am_fragment" where
  "LTENR_RLC_AM_FRAGMENT_PACKET E buffer sz =
     (let p = data_packet buffer;
          hl = dOverhead p + double_of_UINT LTENR_RLCMSG_AMDHDR_SIZE_WITHSO
      in if double_of_UINT sz \<le> hl then NoRoom
         else
           let room = UINT_of_double (double_of_UINT sz - hl);
               s = UINT_of_double (dPayload p)
           in if s > room
              then
                let c = fn_NetSim_Packet_CopyPacket E p;
                    c1 = c\<lparr>dPayload := double_of_UINT room\<rparr>;
                    c2 = c1\<lparr>dPacketSize := dPayload c1 + dOverhead c1\<rparr>;
                    p' = p\<lparr>dPayload := dPayload p - double_of_UINT room,
                           dPacketSize := dPacketSize p - double_of_UINT room\<rparr>;
                    ret = \<lparr>data_si = (if isFragmented buffer then SI_MIDDLE else SI_FIRST),
                           data_SN = data_SN buffer,
                           data_SO = (if isFragmented buffer then data_SO buffer else 0),
                           retxCount = 0, channel = channel buffer, data_packet = c2,
                           isMarkedForRemoval = False, isFragmented = True\<rparr>
                in Fragment ret (buffer\<lparr>data_packet := p', data_si := SI_LAST,
                     data_SO := (if isFragmented buffer then data_SO buffer + 1 else 1),
                     isFragmented := True\<rparr>)
              else Whole (buffer\<lparr>data_si := (if isFragmented buffer then SI_LAST else SI_ALL)\<rparr>))"

section \<open>Sending\<close>

text \<open>
  \<open>!entity->transmissionBuffer\<close> tests the pointer to the buffer structure, which
  \<open>LTENR_RLC_ESTABLISHENTITY\<close> allocates and nothing resets: it is never NULL.
\<close>

definition RLCBUFFER_is_NULL :: "LTENR_RLCBUFFER_DATA list \<Rightarrow> bool" where
  "RLCBUFFER_is_NULL buffer = False"

text \<open>The poll bit is written through the header pointer after the PDU was handed to the MAC.\<close>

definition am_include_poll ::
  "rlc_env \<Rightarrow> LTENR_RLCENTITY \<Rightarrow> NetSim_PACKET \<Rightarrow> EVENTDETAILS
     \<Rightarrow> (LTENR_RLCENTITY \<times> EVENTDETAILS) result" where
  "am_include_poll E entity amdpdu s =
     rbind (LTENR_RLCMSG_AMDHDR_SETPOLL E amdpdu) (\<lambda>polled.
     let s1 = emit (HdrWrite polled) s;
         e1 = entity\<lparr>AM_BYTE_WITHOUT_POLL := 0, AM_PDU_WITHOUT_POLL := 0,
                AM_POLL_SN := AM_TX_HighestSN entity\<rparr>;
         (e2, s2) = (if isPollRetransmitTimerStarted e1
                     then LTENR_RLCAM_Stop_t_PollRetransmitTimer e1 s1 else (e1, s1))
     in Inr (LTENR_RLCAM_Start_t_PollRetransmitTimer E e2 s2))"

definition LTENR_RLCAM_SendPDUToMac ::
  "rlc_env \<Rightarrow> LTENR_RLCENTITY \<Rightarrow> NetSim_PACKET \<Rightarrow> EVENTDETAILS
     \<Rightarrow> (LTENR_RLCENTITY \<times> EVENTDETAILS) result" where
  "LTENR_RLCAM_SendPDUToMac E entity amdpdu s =
     (let s1 = LTENR_RLC_SENDPDUTOMAC E (ent_d entity) (ent_in entity) amdpdu s
      in rbind (deref (LTENR_RLCMSG_AMHDR_GET E amdpdu)) (\<lambda>hdr.
         let e1 = entity\<lparr>AM_TX_HighestSN := max (AM_TX_HighestSN entity) (am_SN hdr)\<rparr>;
             e2 = e1\<lparr>AM_BYTE_WITHOUT_POLL :=
                       AM_BYTE_WITHOUT_POLL e1 + UINT_of_double (dPacketSize amdpdu)\<rparr>
         in if am_si hdr = SI_ALL \<or> am_si hdr = SI_LAST
            then
              let e3 = e2\<lparr>AM_PDU_WITHOUT_POLL := AM_PDU_WITHOUT_POLL e2 + 1\<rparr>;
                  isPollIncluded =
                    (AM_PDU_WITHOUT_POLL e3 \<ge> pollPDU e3 \<or> AM_BYTE_WITHOUT_POLL e3 \<ge> pollByte e3
                     \<or> (RLCBUFFER_is_NULL (transmissionBuffer e3)
                        \<and> RLCBUFFER_is_NULL (retransmissionBuffer e3)))
              in if isPollIncluded then am_include_poll E e3 amdpdu s1 else Inr (e3, s1)
            else Inr (e2, s1)))"

text \<open>
  The walk through the retransmission buffer. The result is the entity, the bytes left, and
  the entries that stay in the buffer.
\<close>

fun retx_loop ::
  "rlc_env \<Rightarrow> LTENR_LOGICALCHANNEL \<Rightarrow> LTENR_RLCENTITY \<Rightarrow> EVENTDETAILS \<Rightarrow> u32
     \<Rightarrow> LTENR_RLCBUFFER_DATA list
     \<Rightarrow> (LTENR_RLCENTITY \<times> EVENTDETAILS \<times> u32 \<times> LTENR_RLCBUFFER_DATA list) result" where
  "retx_loop E ch e s left [] = Inr (e, s, left, [])"
| "retx_loop E ch e s left (buf # bufs) =
     (let keep = rbind (retx_loop E ch e s left bufs) (\<lambda>(e', s', left', rest).
                 Inr (e', s', left', buf # rest));
          amdpdu = data_packet buf
      in if channel buf \<noteq> ch then keep
         else if left < MIN_RLC_PDU_SIZE then Inr (e, s, left, buf # bufs)
         else if \<not> LTENR_RLCAM_IsSNFallsInTransmittingWindow e (data_SN buf) then keep
         else if dPacketSize amdpdu > double_of_UINT left then keep
         else
           let sz = UINT_of_double (dPacketSize amdpdu);
               left' = (if left < sz then 0 else left - sz);
               e1 = e\<lparr>bufferStatus := (bufferStatus e)(ch :=
                      if bufferStatus e ch < sz then 0 else bufferStatus e ch - sz)\<rparr>;
               sent = fn_NetSim_Packet_CopyPacket E amdpdu
           in rbind (LTENR_RLCAM_SendPDUToMac E e1 sent s) (\<lambda>(e2, s2).
              retx_loop E ch (e2\<lparr>transmittedBuffer := transmittedBuffer e2 @ [buf]\<rparr>) s2 left' bufs))"

definition LTENR_RLCAM_SendPDUFromRetransmissionBuffer ::
  "rlc_env \<Rightarrow> LTENR_RLCENTITY \<Rightarrow> EVENTDETAILS \<Rightarrow> u32 \<Rightarrow> LTENR_LOGICALCHANNEL
     \<Rightarrow> (LTENR_RLCENTITY \<times> EVENTDETAILS \<times> u32) result" where
  "LTENR_RLCAM_SendPDUFromRetransmissionBuffer E entity s sz lch =
     rbind (retx_loop E lch entity s sz (retransmissionBuffer entity))
       (\<lambda>(e', s', left, rest). Inr (e'\<lparr>retransmissionBuffer := rest\<rparr>, s', sz - left))"

text \<open>
  The walk through the transmission buffer. A fragmented entry is looked at again with what
  is left; an overhead that is not a whole number of bytes could keep that going, so the
  number of rounds is bounded.
\<close>

fun tx_loop ::
  "nat \<Rightarrow> rlc_env \<Rightarrow> LTENR_LOGICALCHANNEL \<Rightarrow> LTENR_RLCENTITY \<Rightarrow> EVENTDETAILS \<Rightarrow> u32
     \<Rightarrow> LTENR_RLCBUFFER_DATA list
     \<Rightarrow> (LTENR_RLCENTITY \<times> EVENTDETAILS \<times> u32 \<times> LTENR_RLCBUFFER_DATA list) result" where
  "tx_loop 0 E ch e s left bufs = Inl Diverges"
| "tx_loop (Suc fuel) E ch e s left [] = Inr (e, s, left, [])"
| "tx_loop (Suc fuel) E ch e s left (buf # bufs) =
     (let keep = rbind (tx_loop fuel E ch e s left bufs) (\<lambda>(e', s', left', rest).
                 Inr (e', s', left', buf # rest));
          send = (\<lambda>ret todo.
            let n = UINT_of_double (dPayload (data_packet ret));
                e1 = e\<lparr>bufferStatus := (bufferStatus e)(ch := bufferStatus e ch - n)\<rparr>;
                ret' = ret\<lparr>data_packet := fst (LTENR_RLCMSG_AMHDR_ADD E (data_packet ret)
                              (data_si ret) (data_SN ret) (data_SO ret))\<rparr>;
                sent = fn_NetSim_Packet_CopyPacket E (data_packet ret')
            in rbind (LTENR_RLCAM_SendPDUToMac E e1 sent s) (\<lambda>(e2, s2).
               tx_loop fuel E ch (e2\<lparr>transmittedBuffer := transmittedBuffer e2 @ [ret']\<rparr>) s2
                 (left - n) todo))
      in if channel buf \<noteq> ch then keep
         else if left < MIN_RLC_PDU_SIZE then Inr (e, s, left, buf # bufs)
         else if \<not> LTENR_RLCAM_IsSNFallsInTransmittingWindow e (data_SN buf) then keep
         else (case LTENR_RLC_AM_FRAGMENT_PACKET E buf left of
                 NoRoom \<Rightarrow> Inr (e, s, left, buf # bufs)
               | Whole ret \<Rightarrow> send ret bufs
               | Fragment ret buf' \<Rightarrow> send ret (buf' # bufs)))"

definition LTENR_RLCAM_SendPDUFromTransmissionBuffer ::
  "rlc_env \<Rightarrow> LTENR_RLCENTITY \<Rightarrow> EVENTDETAILS \<Rightarrow> u32 \<Rightarrow> LTENR_LOGICALCHANNEL
     \<Rightarrow> (LTENR_RLCENTITY \<times> EVENTDETAILS \<times> u32) result" where
  "LTENR_RLCAM_SendPDUFromTransmissionBuffer E entity s sz lch =
     rbind (tx_loop (2 * length (transmissionBuffer entity) + 2) E lch entity s sz
              (transmissionBuffer entity))
       (\<lambda>(e', s', left, rest). Inr (e'\<lparr>transmissionBuffer := rest\<rparr>, s', sz - left))"

text \<open>\<open>LTENR_RLCAM_SEND_PDU\<close>, once the entity is found.\<close>

definition am_send_pdu ::
  "rlc_env \<Rightarrow> LTENR_RLCENTITY \<Rightarrow> EVENTDETAILS \<Rightarrow> u32 \<Rightarrow> LTENR_LOGICALCHANNEL
     \<Rightarrow> (LTENR_RLCENTITY \<times> EVENTDETAILS \<times> u32) result" where
  "am_send_pdu E entity s sz lch =
     rbind (LTENR_RLCAM_SendPDUFromRetransmissionBuffer E entity s sz lch) (\<lambda>(e1, s1, n1).
     rbind (LTENR_RLCAM_SendPDUFromTransmissionBuffer E e1 s1 (sz - n1) lch) (\<lambda>(e2, s2, n2).
     Inr (e2, s2, n1 + n2)))"

section \<open>The poll timer\<close>

text \<open>
  The walk through the transmitted buffer when the poll timer expires. It gives back what
  stays there, what moves to the retransmission buffer, and the bytes to add to the status
  of each channel.
\<close>

fun poll_loop ::
  "rlc_env \<Rightarrow> LTENR_RLCENTITY \<Rightarrow> EVENTDETAILS \<Rightarrow> LTENR_RLCBUFFER_DATA list
     \<Rightarrow> (LTENR_RLCENTITY \<times> EVENTDETAILS \<times> LTENR_RLCBUFFER_DATA list) result" where
  "poll_loop E e s [] = Inr (e, s, [])"
| "poll_loop E e s (buffer # bufs) =
     (if data_SN buffer \<le> AM_POLL_SN e
      then
        let b1 = buffer\<lparr>retxCount := retxCount buffer + 1\<rparr>
        in if retxCount b1 > maxRetxThreshold e
           then poll_loop E e (emit (FreePacket (data_packet b1)) s) bufs
           else
             rbind (LTENR_RLCMSG_AMDHDR_WRITEPOLL E (data_packet b1) False) (\<lambda>p.
             let b2 = b1\<lparr>data_packet := p\<rparr>
             in poll_loop E (e\<lparr>retransmissionBuffer := retransmissionBuffer e @ [b2],
                  bufferStatus := (bufferStatus e)(channel b2 :=
                    bufferStatus e (channel b2) + UINT_of_double (dPacketSize p))\<rparr>) s bufs)
      else rbind (poll_loop E e s bufs) (\<lambda>(e', s', rest). Inr (e', s', buffer # rest)))"

definition LTENR_RLCAM_Handle_t_PollRetransmitTimer ::
  "rlc_env \<Rightarrow> LTENR_RLCENTITY \<Rightarrow> EVENTDETAILS \<Rightarrow> (LTENR_RLCENTITY \<times> EVENTDETAILS) result" where
  "LTENR_RLCAM_Handle_t_PollRetransmitTimer E entity s =
     rbind (poll_loop E (entity\<lparr>isPollRetransmitTimerStarted := False\<rparr>) s (transmittedBuffer entity))
       (\<lambda>(e', s', rest). Inr (e'\<lparr>transmittedBuffer := rest\<rparr>, s'))"

section \<open>Receiving a status PDU\<close>

text \<open>The flag is false when the PDU is dropped; its packet is freed then.\<close>

definition LTENR_RLCAM_MovePacketFromTransmittedBuffer ::
  "rlc_env \<Rightarrow> LTENR_RLCENTITY \<Rightarrow> EVENTDETAILS \<Rightarrow> LTENR_RLCBUFFER_DATA
     \<Rightarrow> (LTENR_RLCENTITY \<times> EVENTDETAILS \<times> bool) result" where
  "LTENR_RLCAM_MovePacketFromTransmittedBuffer E entity s buffer =
     (if retxCount buffer = maxRetxThreshold entity
      then Inr (entity, emit (FreePacket (data_packet buffer)) s, False)
      else
        rbind (LTENR_RLCMSG_AMDHDR_WRITEPOLL E (data_packet buffer) False) (\<lambda>p.
        let b = buffer\<lparr>data_packet := p, retxCount := retxCount buffer + 1\<rparr>
        in Inr (entity\<lparr>retransmissionBuffer := retransmissionBuffer entity @ [b],
              bufferStatus := (bufferStatus entity)(channel b :=
                bufferStatus entity (channel b) + UINT_of_double (dPayload p))\<rparr>, s, True)))"

text \<open>\<open>while (buffer->head)\<close> over the entries taken out.\<close>

fun move_all ::
  "rlc_env \<Rightarrow> LTENR_RLCENTITY \<Rightarrow> EVENTDETAILS \<Rightarrow> LTENR_RLCBUFFER_DATA list
     \<Rightarrow> (LTENR_RLCENTITY \<times> EVENTDETAILS) result" where
  "move_all E e s [] = Inr (e, s)"
| "move_all E e s (d # ds) =
     rbind (LTENR_RLCAM_MovePacketFromTransmittedBuffer E e s d) (\<lambda>(e', s', moved).
     move_all E e' s' ds)"

definition update_all_SN ::
  "rlc_env \<Rightarrow> u32 \<Rightarrow> LTENR_RLCENTITY \<times> EVENTDETAILS \<Rightarrow> (LTENR_RLCENTITY \<times> EVENTDETAILS) result" where
  "update_all_SN E sn es =
     (case es of (e, s) \<Rightarrow>
       let (taken, rest) = buf_allBySN (transmittedBuffer e) sn
       in move_all E (e\<lparr>transmittedBuffer := rest\<rparr>) s taken)"

definition LTENR_RLCAM_UpdateBufferBasedOnNACK0 ::
  "rlc_env \<Rightarrow> LTENR_RLCMSG_STATUSPDU_NACK \<Rightarrow> LTENR_RLCENTITY \<times> EVENTDETAILS
     \<Rightarrow> (LTENR_RLCENTITY \<times> EVENTDETAILS) result" where
  "LTENR_RLCAM_UpdateBufferBasedOnNACK0 E nack es = update_all_SN E (NAck_SN nack) es"

definition nack1_step ::
  "rlc_env \<Rightarrow> u32 \<Rightarrow> u16 \<Rightarrow> LTENR_RLCENTITY \<times> EVENTDETAILS
     \<Rightarrow> (LTENR_RLCENTITY \<times> EVENTDETAILS) result" where
  "nack1_step E sn so es =
     (case es of (e, s) \<Rightarrow>
       (case buf_bySNSO (transmittedBuffer e) sn so of
          None \<Rightarrow> Inr (e, s)
        | Some (d, rest) \<Rightarrow>
            rbind (LTENR_RLCAM_MovePacketFromTransmittedBuffer E (e\<lparr>transmittedBuffer := rest\<rparr>) s d)
              (\<lambda>(e', s', moved). Inr (e', s'))))"

definition LTENR_RLCAM_UpdateBufferBasedOnNACK1 ::
  "rlc_env \<Rightarrow> LTENR_RLCMSG_STATUSPDU_NACK \<Rightarrow> LTENR_RLCENTITY \<times> EVENTDETAILS
     \<Rightarrow> (LTENR_RLCENTITY \<times> EVENTDETAILS) result" where
  "LTENR_RLCAM_UpdateBufferBasedOnNACK1 E nack es =
     for_le (for_le_fuel (soEnd nack)) (soStart nack) (soEnd nack) (nack1_step E (NAck_SN nack)) es"

definition LTENR_RLCAM_UpdateBufferBasedOnNACK2 ::
  "rlc_env \<Rightarrow> LTENR_RLCMSG_STATUSPDU_NACK \<Rightarrow> LTENR_RLCENTITY \<times> EVENTDETAILS
     \<Rightarrow> (LTENR_RLCENTITY \<times> EVENTDETAILS) result" where
  "LTENR_RLCAM_UpdateBufferBasedOnNACK2 E nack es =
     (let last_sn = NAck_SN nack + ucast (NAckRange nack)
      in for_le (for_le_fuel last_sn) (NAck_SN nack) last_sn (update_all_SN E) es)"

definition LTENR_RLCAM_ClearTransmittedBuffer ::
  "LTENR_RLCENTITY \<Rightarrow> EVENTDETAILS \<Rightarrow> u32 \<Rightarrow> LTENR_RLCENTITY \<times> EVENTDETAILS" where
  "LTENR_RLCAM_ClearTransmittedBuffer entity s sn =
     (entity\<lparr>transmittedBuffer := filter (\<lambda>b. \<not> data_SN b < sn) (transmittedBuffer entity)\<rparr>,
      emits (map (\<lambda>b. FreePacket (data_packet b))
        (filter (\<lambda>b. data_SN b < sn) (transmittedBuffer entity))) s)"

fun nack_loop ::
  "rlc_env \<Rightarrow> LTENR_RLCMSG_STATUSPDU_NACK list \<Rightarrow> LTENR_RLCENTITY \<times> EVENTDETAILS
     \<Rightarrow> (LTENR_RLCENTITY \<times> EVENTDETAILS) result" where
  "nack_loop E [] es = Inr es"
| "nack_loop E (nack # nacks) es =
     rbind (if nack_E3 nack then LTENR_RLCAM_UpdateBufferBasedOnNACK2 E nack es
            else if nack_E2 nack then LTENR_RLCAM_UpdateBufferBasedOnNACK1 E nack es
            else LTENR_RLCAM_UpdateBufferBasedOnNACK0 E nack es) (nack_loop E nacks)"

text \<open>\<open>LTENR_RLCAM_ReceiveStatusPDU\<close>, once the entity is found.\<close>

definition am_receive_status ::
  "rlc_env \<Rightarrow> LTENR_RLCENTITY \<Rightarrow> NetSim_PACKET \<Rightarrow> EVENTDETAILS
     \<Rightarrow> (LTENR_RLCENTITY \<times> EVENTDETAILS) result" where
  "am_receive_status E entity packet s =
     rbind (deref (LTENR_RLCMSG_STATUSPDU_GET E packet)) (\<lambda>statusPdu.
     let (e1, s1) =
       (if LTENR_RLCAM_STATUSPDU_FindSN statusPdu (AM_POLL_SN entity)
           \<and> isPollRetransmitTimerStarted entity
        then let (e, s') = LTENR_RLCAM_Stop_t_PollRetransmitTimer entity s
             in LTENR_RLCAM_Start_t_PollRetransmitTimer E e s'
        else (entity, s))
     in rbind (nack_loop E (nackList statusPdu) (e1, s1)) (\<lambda>(e2, s2).
        let (e3, s3) = LTENR_RLCAM_ClearTransmittedBuffer e2 s2 (Ack_SN statusPdu);
            e4 = e3\<lparr>AM_TX_Next_Ack := (case transmissionBuffer e3 of
                       b # bs \<Rightarrow> data_SN b | [] \<Rightarrow> AM_TX_Next e3)\<rparr>;
            (e5, s5) = (if AM_POLL_SN e4 < Ack_SN statusPdu
                        then LTENR_RLCAM_Stop_t_PollRetransmitTimer e4 s3 else (e4, s3))
        in Inr (e5, (emit (FreePacket packet) s5)\<lparr>pPacket := None\<rparr>)))"

end
