(* ===== verification/RLC_AM_Tx_Props.thy ===== *)
theory RLC_AM_Tx_Props
  imports RLC_AM_Tx RLC_AM_Rx_Props
begin

text \<open>
  What the transmitting side of acknowledged mode does: segmentation, the bytes a grant is
  used for, the poll, the retransmission buffer and the effect of a status PDU.
\<close>

section \<open>Lemmas: sending one PDU\<close>

text \<open>What the sending of a PDU leaves alone.\<close>

definition tx_view where
  "tx_view e = (transmissionBuffer e, transmittedBuffer e, retransmissionBuffer e,
     AM_TX_Next_Ack e, AM_TX_Next e, bufferStatus e, maxRetxThreshold e, pollPDU e, pollByte e)"

lemma tx_viewD:
  assumes "tx_view e' = tx_view e"
  shows "transmissionBuffer e' = transmissionBuffer e" "transmittedBuffer e' = transmittedBuffer e"
    "retransmissionBuffer e' = retransmissionBuffer e" "AM_TX_Next_Ack e' = AM_TX_Next_Ack e"
    "AM_TX_Next e' = AM_TX_Next e" "bufferStatus e' = bufferStatus e"
    "maxRetxThreshold e' = maxRetxThreshold e" "pollPDU e' = pollPDU e" "pollByte e' = pollByte e"
  using assms by (simp_all add: tx_view_def)

text \<open>The packets handed to the MAC sublayer.\<close>

definition mac_of :: "effect list \<Rightarrow> NetSim_PACKET list" where
  "mac_of tr = concat (map (\<lambda>x. case x of ToMAC ev \<Rightarrow> [mo_packet ev] | _ \<Rightarrow> []) tr)"

lemma mac_of_simps [simp]:
  "mac_of [] = []" "mac_of (xs @ ys) = mac_of xs @ mac_of ys"
  "mac_of (ToMAC ev # xs) = mo_packet ev # mac_of xs"
  "mac_of (AddEvent te i # xs) = mac_of xs" "mac_of (DeleteEvent i # xs) = mac_of xs"
  "mac_of (HdrWrite p # xs) = mac_of xs" "mac_of (FreePacket p # xs) = mac_of xs"
  by (simp_all add: mac_of_def)

lemma poll_timer_frame:
  "tx_view (fst (LTENR_RLCAM_Start_t_PollRetransmitTimer E e s)) = tx_view e"
  "mac_of (trace (snd (LTENR_RLCAM_Start_t_PollRetransmitTimer E e s))) = mac_of (trace s)"
  "tx_view (fst (LTENR_RLCAM_Stop_t_PollRetransmitTimer e s)) = tx_view e"
  "mac_of (trace (snd (LTENR_RLCAM_Stop_t_PollRetransmitTimer e s))) = mac_of (trace s)"
  "AM_PDU_WITHOUT_POLL (fst (LTENR_RLCAM_Start_t_PollRetransmitTimer E e s)) = AM_PDU_WITHOUT_POLL e"
  "AM_PDU_WITHOUT_POLL (fst (LTENR_RLCAM_Stop_t_PollRetransmitTimer e s)) = AM_PDU_WITHOUT_POLL e"
  by (simp_all add: timer_defs tx_view_def Let_def)

lemma include_poll_frame:
  assumes "am_include_poll E e p s = Inr (e', s')"
  shows "tx_view e' = tx_view e" "mac_of (trace s') = mac_of (trace s)"
    "AM_PDU_WITHOUT_POLL e' = 0"
proof -
  obtain q where q: "LTENR_RLCMSG_AMDHDR_SETPOLL E p = Inr q"
    using assms by (auto simp: am_include_poll_def rbind_Inr_iff)
  define e1 where "e1 = e\<lparr>AM_BYTE_WITHOUT_POLL := 0, AM_PDU_WITHOUT_POLL := 0,
    AM_POLL_SN := AM_TX_HighestSN e\<rparr>"
  define x where "x = (if isPollRetransmitTimerStarted e1
    then LTENR_RLCAM_Stop_t_PollRetransmitTimer e1 (emit (HdrWrite q) s) else (e1, emit (HdrWrite q) s))"
  have "LTENR_RLCAM_Start_t_PollRetransmitTimer E (fst x) (snd x) = (e', s')"
    using assms q unfolding am_include_poll_def x_def e1_def
    by (simp add: Let_def split_def split del: if_split)
  then have e': "e' = fst (LTENR_RLCAM_Start_t_PollRetransmitTimer E (fst x) (snd x))"
    "s' = snd (LTENR_RLCAM_Start_t_PollRetransmitTimer E (fst x) (snd x))"
    by simp_all
  have x: "tx_view (fst x) = tx_view e1" "mac_of (trace (snd x)) = mac_of (trace s)"
    "AM_PDU_WITHOUT_POLL (fst x) = AM_PDU_WITHOUT_POLL e1"
    by (simp_all add: x_def poll_timer_frame)
  have "tx_view e1 = tx_view e" by (simp add: e1_def tx_view_def)
  with x show "tx_view e' = tx_view e" "mac_of (trace s') = mac_of (trace s)"
    "AM_PDU_WITHOUT_POLL e' = 0"
    unfolding e' poll_timer_frame by (simp_all add: e1_def)
qed

lemma SendPDUToMac_frame:
  assumes "LTENR_RLCAM_SendPDUToMac E e p s = Inr (e', s')"
  shows "tx_view e' = tx_view e" and "mac_of (trace s') = mac_of (trace s) @ [p]"
    and "0 < pollPDU e \<Longrightarrow> AM_PDU_WITHOUT_POLL e < pollPDU e \<Longrightarrow> AM_PDU_WITHOUT_POLL e' < pollPDU e"
proof -
  obtain hdr where h: "LTENR_RLCMSG_AMHDR_GET E p = Some hdr"
    using assms by (auto simp: LTENR_RLCAM_SendPDUToMac_def Let_def rbind_Inr_iff)
  define s1 where "s1 = LTENR_RLC_SENDPDUTOMAC E (ent_d e) (ent_in e) p s"
  define e2 where "e2 = e\<lparr>AM_TX_HighestSN := max (AM_TX_HighestSN e) (am_SN hdr),
    AM_BYTE_WITHOUT_POLL := AM_BYTE_WITHOUT_POLL e + UINT_of_double (dPacketSize p)\<rparr>"
  define e3 where "e3 = e2\<lparr>AM_PDU_WITHOUT_POLL := AM_PDU_WITHOUT_POLL e2 + 1\<rparr>"
  have s1: "mac_of (trace s1) = mac_of (trace s) @ [p]"
    by (simp add: s1_def LTENR_RLC_SENDPDUTOMAC_def)
  have v: "tx_view e2 = tx_view e" "tx_view e3 = tx_view e" "AM_PDU_WITHOUT_POLL e2 = AM_PDU_WITHOUT_POLL e"
    "pollPDU e3 = pollPDU e"
    by (simp_all add: e3_def e2_def tx_view_def)
  have "(if am_si hdr = SI_ALL \<or> am_si hdr = SI_LAST
      then if pollPDU e3 \<le> AM_PDU_WITHOUT_POLL e3 \<or> pollByte e3 \<le> AM_BYTE_WITHOUT_POLL e3
           then am_include_poll E e3 p s1 else Inr (e3, s1)
      else Inr (e2, s1)) = Inr (e', s')"
    using assms h unfolding LTENR_RLCAM_SendPDUToMac_def Let_def s1_def e3_def e2_def
    by (simp add: RLCBUFFER_is_NULL_def split del: if_split cong: if_cong)
  then have "e' = e2 \<and> s' = s1 \<or> e' = e3 \<and> s' = s1 \<and> AM_PDU_WITHOUT_POLL e3 < pollPDU e3
      \<or> am_include_poll E e3 p s1 = Inr (e', s')"
    by (cases "pollPDU e3 \<le> AM_PDU_WITHOUT_POLL e3"; cases "pollByte e3 \<le> AM_BYTE_WITHOUT_POLL e3";
        cases "am_si hdr = SI_ALL \<or> am_si hdr = SI_LAST") (simp_all add: not_le)
  then consider "e' = e2" "s' = s1" | "e' = e3" "s' = s1" "AM_PDU_WITHOUT_POLL e3 < pollPDU e3"
    | "am_include_poll E e3 p s1 = Inr (e', s')"
    by blast
  note c = this
  show "tx_view e' = tx_view e"
    using c by cases (simp_all add: v include_poll_frame(1))
  show "mac_of (trace s') = mac_of (trace s) @ [p]"
    using c by cases (simp_all add: s1 include_poll_frame(2))
  show "0 < pollPDU e \<Longrightarrow> AM_PDU_WITHOUT_POLL e < pollPDU e \<Longrightarrow> AM_PDU_WITHOUT_POLL e' < pollPDU e"
    using c by cases (simp_all add: v include_poll_frame(3))
qed

lemma SendPDUToMac_total:
  assumes "LTENR_RLCMSG_AMHDR_GET E p = Some h"
  shows "\<exists>e' s'. LTENR_RLCAM_SendPDUToMac E e p s = Inr (e', s')"
  using assms
  by (simp add: LTENR_RLCAM_SendPDUToMac_def am_include_poll_def LTENR_RLCMSG_AMDHDR_SETPOLL_def
      LTENR_RLCMSG_AMDHDR_WRITEPOLL_def Let_def split_def)

section \<open>Segmentation\<close>

declare of_nat_unat [simp del]

text \<open>
  An entry of the transmission buffer as the sender finds it: the packet has no RLC header
  yet, and its payload and overhead are whole numbers of bytes.
\<close>

definition good_entry :: "'z pkt_api_scheme \<Rightarrow> LTENR_RLCBUFFER_DATA \<Rightarrow> bool" where
  "good_entry E b \<longleftrightarrow> LTENR_HDR_GET_FROM_PACKET E (data_packet b) rlcMsgAMDHDRID = None
     \<and> (\<exists>k. dPayload (data_packet b) = real k \<and> k < 2 ^ 32)
     \<and> (\<exists>k. dOverhead (data_packet b) = real k)
     \<and> dPacketSize (data_packet b) = dPayload (data_packet b) + dOverhead (data_packet b)"

lemma good_entryE:
  assumes "good_entry E b"
  obtains k m where "dPayload (data_packet b) = real k" "k < 2 ^ 32" "dOverhead (data_packet b) = real m"
    "dPacketSize (data_packet b) = real k + real m"
    "LTENR_HDR_GET_FROM_PACKET E (data_packet b) rlcMsgAMDHDRID = None"
  using assms by (auto simp: good_entry_def)

lemma room_nat:
  assumes "\<not> double_of_UINT sz \<le> real m + double_of_UINT LTENR_RLCMSG_AMDHDR_SIZE_WITHSO"
  shows "unat (UINT_of_double (double_of_UINT sz - (real m + double_of_UINT LTENR_RLCMSG_AMDHDR_SIZE_WITHSO)))
      = unat sz - m - 4" and "m + 4 < unat sz"
proof -
  show lt: "m + 4 < unat sz" using assms by (simp add: LTENR_RLCMSG_AMDHDR_SIZE_WITHSO_def)
  then have "double_of_UINT sz - (real m + double_of_UINT LTENR_RLCMSG_AMDHDR_SIZE_WITHSO)
      = real (unat sz - m - 4)"
    by (simp add: LTENR_RLCMSG_AMDHDR_SIZE_WITHSO_def of_nat_diff)
  moreover have "unat (of_nat (unat sz - m - 4) :: u32) = unat sz - m - 4"
    using lt by (intro unat_of_nat_less [of _ sz]) simp
  ultimately show "unat (UINT_of_double (double_of_UINT sz - (real m + double_of_UINT LTENR_RLCMSG_AMDHDR_SIZE_WITHSO)))
      = unat sz - m - 4" by simp
qed

lemma unat_UINT_real: "k < 2 ^ 32 \<Longrightarrow> unat (UINT_of_double (real k)) = k"
  by (simp add: unat_of_nat)

context packet_api
begin

text \<open>Both parts of a fragmented entry, and a whole one, in numbers.\<close>

lemma fragment_split:
  assumes good: "good_entry E b" and f: "LTENR_RLC_AM_FRAGMENT_PACKET E b sz = Fragment ret b'"
  shows "good_entry E ret" "good_entry E b'"
    "dPayload (data_packet ret) + dPayload (data_packet b') = dPayload (data_packet b)"
    "dPacketSize (data_packet ret) + 4 = double_of_UINT sz"
    "0 < dPayload (data_packet ret)" "0 < dPayload (data_packet b')"
    "dOverhead (data_packet b') = dOverhead (data_packet b)"
    "unat (UINT_of_double (dPayload (data_packet ret))) + 4 \<le> unat sz"
    "double_of_UINT (sz - UINT_of_double (dPayload (data_packet ret))) = dOverhead (data_packet b) + 4"
    "data_SN ret = data_SN b \<and> data_SN b' = data_SN b \<and> channel ret = channel b \<and> channel b' = channel b"
    "isFragmented ret \<and> isFragmented b' \<and> data_si b' = SI_LAST"
    "if isFragmented b then data_si ret = SI_MIDDLE \<and> data_SO ret = data_SO b \<and> data_SO b' = data_SO b + 1
     else data_si ret = SI_FIRST \<and> data_SO ret = 0 \<and> data_SO b' = 1"
proof -
  obtain k m where k: "dPayload (data_packet b) = real k" "k < 2 ^ 32" "dOverhead (data_packet b) = real m"
    "dPacketSize (data_packet b) = real k + real m"
    "LTENR_HDR_GET_FROM_PACKET E (data_packet b) rlcMsgAMDHDRID = None"
    using good by (rule good_entryE)
  define room where "room = UINT_of_double (double_of_UINT sz - (real m + double_of_UINT LTENR_RLCMSG_AMDHDR_SIZE_WITHSO))"
  have nr: "\<not> double_of_UINT sz \<le> real m + double_of_UINT LTENR_RLCMSG_AMDHDR_SIZE_WITHSO"
    and s: "UINT_of_double (dPayload (data_packet b)) > room"
    and ret: "ret = \<lparr>data_si = (if isFragmented b then SI_MIDDLE else SI_FIRST), data_SN = data_SN b,
        data_SO = (if isFragmented b then data_SO b else 0), retxCount = 0, channel = channel b,
        data_packet = (fn_NetSim_Packet_CopyPacket E (data_packet b))
          \<lparr>dPayload := double_of_UINT room, dPacketSize := double_of_UINT room + real m\<rparr>,
        isMarkedForRemoval = False, isFragmented = True\<rparr>"
    and b': "b' = b\<lparr>data_packet := (data_packet b)\<lparr>dPayload := real k - double_of_UINT room,
          dPacketSize := real k + real m - double_of_UINT room\<rparr>, data_si := SI_LAST,
        data_SO := (if isFragmented b then data_SO b + 1 else 1), isFragmented := True\<rparr>"
    using f k by (auto simp: LTENR_RLC_AM_FRAGMENT_PACKET_def Let_def room_def split: if_splits)
  note room = room_nat [OF nr, folded room_def]
  have "room < of_nat k" using s k by simp
  then have rk: "unat room < k" using k(2) by (simp add: word_less_nat_alt unat_of_nat)
  have pos: "0 < unat room" using room by simp
  have ur: "UINT_of_double (double_of_UINT room) = room"
    unfolding UINT_of_double_of_nat by (simp add: word_unat_eq_iff unat_of_nat_less unsigned_of_nat take_bit_nat_eq_self_iff) (use unsigned_less [of room, where ?'a = nat] in simp)
  have diff: "real k - double_of_UINT room = real (k - unat room)"
    using rk by (simp add: of_nat_diff)
  show "good_entry E ret"
    using k room ret rk by (auto simp: good_entry_def intro: exI [of _ "unat room"])
  show "good_entry E b'"
    using k rk unfolding b' diff good_entry_def by (auto intro: exI [of _ "k - unat room"] simp: of_nat_diff)
  show "dPayload (data_packet ret) + dPayload (data_packet b') = dPayload (data_packet b)"
    "dOverhead (data_packet b') = dOverhead (data_packet b)"
    "data_SN ret = data_SN b \<and> data_SN b' = data_SN b \<and> channel ret = channel b \<and> channel b' = channel b"
    "isFragmented ret \<and> isFragmented b' \<and> data_si b' = SI_LAST"
    "if isFragmented b then data_si ret = SI_MIDDLE \<and> data_SO ret = data_SO b \<and> data_SO b' = data_SO b + 1
     else data_si ret = SI_FIRST \<and> data_SO ret = 0 \<and> data_SO b' = 1"
    using k ret b' by auto
  show "dPacketSize (data_packet ret) + 4 = double_of_UINT sz"
    using room by (simp add: ret of_nat_diff)
  show "0 < dPayload (data_packet ret)" "0 < dPayload (data_packet b')"
    using pos rk by (simp_all add: ret b')
  have pr: "UINT_of_double (dPayload (data_packet ret)) = room"
    using ur by (simp add: ret del: UINT_of_double_of_nat)
  show "unat (UINT_of_double (dPayload (data_packet ret))) + 4 \<le> unat sz"
    unfolding pr using room by simp
  have "room \<le> sz" using room by (simp add: word_le_nat_alt)
  then have "unat (sz - room) = unat sz - unat room" by (simp add: unat_sub)
  then show "double_of_UINT (sz - UINT_of_double (dPayload (data_packet ret))) = dOverhead (data_packet b) + 4"
    unfolding pr using room k by (simp add: of_nat_diff)
qed

lemma fragment_whole:
  assumes good: "good_entry E b" and f: "LTENR_RLC_AM_FRAGMENT_PACKET E b sz = Whole ret"
  shows "ret = b\<lparr>data_si := (if isFragmented b then SI_LAST else SI_ALL)\<rparr>"
    and "unat (UINT_of_double (dPayload (data_packet b))) + 4 \<le> unat sz"
    and "dPacketSize (data_packet b) + 4 \<le> double_of_UINT sz"
proof -
  obtain k m where k: "dPayload (data_packet b) = real k" "k < 2 ^ 32" "dOverhead (data_packet b) = real m"
    "dPacketSize (data_packet b) = real k + real m"
    using good by (rule good_entryE)
  define room where "room = UINT_of_double (double_of_UINT sz - (real m + double_of_UINT LTENR_RLCMSG_AMDHDR_SIZE_WITHSO))"
  have nr: "\<not> double_of_UINT sz \<le> real m + double_of_UINT LTENR_RLCMSG_AMDHDR_SIZE_WITHSO"
    and s: "\<not> UINT_of_double (dPayload (data_packet b)) > room"
    and ret: "ret = b\<lparr>data_si := (if isFragmented b then SI_LAST else SI_ALL)\<rparr>"
    using f k by (auto simp: LTENR_RLC_AM_FRAGMENT_PACKET_def Let_def room_def split: if_splits)
  show "ret = b\<lparr>data_si := (if isFragmented b then SI_LAST else SI_ALL)\<rparr>" by (rule ret)
  note room = room_nat [OF nr, folded room_def]
  have "k \<le> unat room" using s k by (simp add: not_less word_le_nat_alt unat_of_nat)
  then show "unat (UINT_of_double (dPayload (data_packet b))) + 4 \<le> unat sz"
    "dPacketSize (data_packet b) + 4 \<le> double_of_UINT sz"
    using room k unat_UINT_real [OF k(2)] by simp_all
qed

lemma fragment_no_room:
  assumes "double_of_UINT sz \<le> dOverhead (data_packet b) + 4"
  shows "LTENR_RLC_AM_FRAGMENT_PACKET E b sz = NoRoom"
  using assms by (simp add: LTENR_RLC_AM_FRAGMENT_PACKET_def LTENR_RLCMSG_AMDHDR_SIZE_WITHSO_def Let_def)

end

section \<open>The transmission buffer\<close>

definition entry_payload :: "LTENR_RLCBUFFER_DATA list \<Rightarrow> real" where
  "entry_payload ds = sum_list (map (\<lambda>d. dPayload (data_packet d)) ds)"

lemma entry_payload_simps [simp]:
  "entry_payload [] = 0" "entry_payload (d # ds) = dPayload (data_packet d) + entry_payload ds"
  "entry_payload (ds @ es) = entry_payload ds + entry_payload es"
  by (simp_all add: entry_payload_def)

definition poll_ok :: "LTENR_RLCENTITY \<Rightarrow> bool" where
  "poll_ok e \<longleftrightarrow> AM_PDU_WITHOUT_POLL e < pollPDU e"

text \<open>The entry with its header, as it goes to the transmitted buffer.\<close>

definition with_hdr :: "rlc_env \<Rightarrow> LTENR_RLCBUFFER_DATA \<Rightarrow> LTENR_RLCBUFFER_DATA" where
  "with_hdr E ret = ret\<lparr>data_packet :=
     fst (LTENR_RLCMSG_AMHDR_ADD E (data_packet ret) (data_si ret) (data_SN ret) (data_SO ret))\<rparr>"

text \<open>
  What a walk through the transmission buffer does when it sends the entries \<open>new\<close> and leaves
  \<open>rest\<close>: a copy of every entry goes to MAC, each of them fits what was left of the grant, and
  their payload is what the grant is charged with and what the buffer loses.
\<close>

definition tx_result where
  "tx_result E e s left bufs e' s' left' rest new \<longleftrightarrow>
     transmittedBuffer e' = transmittedBuffer e @ new
   \<and> mac_of (trace s') = mac_of (trace s) @ map (\<lambda>d. fn_NetSim_Packet_CopyPacket E (data_packet d)) new
   \<and> double_of_UINT left' + entry_payload new = double_of_UINT left
   \<and> entry_payload rest + entry_payload new = entry_payload bufs
   \<and> (\<forall>d \<in> set new. 0 \<le> dPayload (data_packet d) \<and> dPacketSize (data_packet d) \<le> double_of_UINT left)
   \<and> retransmissionBuffer e' = retransmissionBuffer e \<and> AM_TX_Next_Ack e' = AM_TX_Next_Ack e
   \<and> AM_TX_Next e' = AM_TX_Next e \<and> (poll_ok e \<longrightarrow> poll_ok e')"

lemma tx_result_refl: "tx_result E e s left bufs e s left bufs []"
  by (simp add: tx_result_def)

lemma tx_result_keep:
  "tx_result E e s left bufs e' s' left' rest new \<Longrightarrow>
     tx_result E e s left (b # bufs) e' s' left' (b # rest) new"
  by (simp add: tx_result_def)

lemma tx_loop_stop:
  assumes "channel buf = ch" and "LTENR_RLCAM_IsSNFallsInTransmittingWindow e (data_SN buf)"
    and "double_of_UINT left \<le> dOverhead (data_packet buf) + 4"
  shows "tx_loop (Suc fuel) E ch e s left (buf # bufs) = Inr (e, s, left, buf # bufs)"
  using assms
  by (simp add: LTENR_RLC_AM_FRAGMENT_PACKET_def LTENR_RLCMSG_AMDHDR_SIZE_WITHSO_def Let_def)

context rlc_environment
begin

lemma tx_result_step:
  assumes ret: "good_entry E ret" "0 \<le> dPayload (data_packet ret)"
    and fits: "dPacketSize (data_packet ret) + double_of_UINT (LTENR_RLCMSG_AMDHDR_SIZE (data_si ret)) \<le> double_of_UINT left"
    and n: "unat (UINT_of_double (dPayload (data_packet ret))) \<le> unat left"
    and pay: "dPayload (data_packet ret) + entry_payload todo = entry_payload bufs"
    and e1: "e1 = e\<lparr>bufferStatus := bs\<rparr>"
    and send: "LTENR_RLCAM_SendPDUToMac E e1 (fn_NetSim_Packet_CopyPacket E (data_packet (with_hdr E ret))) s
      = Inr (e2, s2)"
    and rec: "tx_result E (e2\<lparr>transmittedBuffer := transmittedBuffer e2 @ [with_hdr E ret]\<rparr>) s2
      (left - UINT_of_double (dPayload (data_packet ret))) todo e' s' left' rest new"
  shows "tx_result E e s left bufs e' s' left' rest (with_hdr E ret # new)"
proof -
  obtain k where k: "dPayload (data_packet ret) = real k" "k < 2 ^ 32"
    using ret(1) by (auto elim: good_entryE)
  have u: "unat (UINT_of_double (dPayload (data_packet ret))) = k"
    using k unat_UINT_real by simp
  then have left: "double_of_UINT (left - UINT_of_double (dPayload (data_packet ret)))
      = double_of_UINT left - real k"
    using n by (simp add: unat_sub word_le_nat_alt of_nat_diff)
  note v = tx_viewD [OF SendPDUToMac_frame(1) [OF send]]
  have p: "poll_ok e \<longrightarrow> poll_ok (e2\<lparr>transmittedBuffer := transmittedBuffer e2 @ [with_hdr E ret]\<rparr>)"
    using SendPDUToMac_frame(3) [OF send] v by (auto simp: poll_ok_def e1 word_less_nat_alt)
  have pk: "dPayload (data_packet (with_hdr E ret)) = real k"
    "dPacketSize (data_packet (with_hdr E ret)) \<le> double_of_UINT left"
    using k fits by (simp_all add: with_hdr_def)
  show ?thesis
    using rec v p pk k pay SendPDUToMac_frame(2) [OF send] left ret(2)
    unfolding tx_result_def e1 by auto
qed

lemma with_hdr_sends:
  assumes "good_entry E ret"
  shows "\<exists>e2 s2. LTENR_RLCAM_SendPDUToMac E e1 (fn_NetSim_Packet_CopyPacket E (data_packet (with_hdr E ret))) s
    = Inr (e2, s2)"
proof -
  have "LTENR_HDR_GET_FROM_PACKET E (data_packet ret) rlcMsgAMDHDRID = None"
    using assms by (rule good_entryE)
  then have "LTENR_RLCMSG_AMHDR_GET E (data_packet (with_hdr E ret)) \<noteq> None"
    by (simp add: with_hdr_def AMHDR_GET_ADD)
  then show ?thesis using SendPDUToMac_total by (metis AMHDR_GET_copy not_None_eq)
qed

lemma tx_loop_spec:
  assumes "\<forall>b \<in> set bufs. good_entry E b" and "length bufs + 2 \<le> fuel"
  shows "\<exists>e' s' left' rest new. tx_loop fuel E ch e s left bufs = Inr (e', s', left', rest)
    \<and> tx_result E e s left bufs e' s' left' rest new"
  using assms
proof (induction fuel arbitrary: e s left bufs)
  case 0
  then show ?case by simp
next
  case (Suc fuel)
  show ?case
  proof (cases bufs)
    case Nil
    then show ?thesis using tx_result_refl by fastforce
  next
    case (Cons b bs)
    have good: "good_entry E b" "\<forall>b \<in> set bs. good_entry E b" and len: "length bs + 2 \<le> fuel"
      using Suc.prems Cons by auto
    define keep where "keep = rbind (tx_loop fuel E ch e s left bs)
      (\<lambda>(e', s', left', rest). Inr (e', s', left', b # rest))"
    define send where "send = (\<lambda>ret todo.
      rbind (LTENR_RLCAM_SendPDUToMac E (e\<lparr>bufferStatus := (bufferStatus e)
          (ch := bufferStatus e ch - UINT_of_double (dPayload (data_packet ret)))\<rparr>)
        (fn_NetSim_Packet_CopyPacket E (data_packet (with_hdr E ret))) s) (\<lambda>(e2, s2).
      tx_loop fuel E ch (e2\<lparr>transmittedBuffer := transmittedBuffer e2 @ [with_hdr E ret]\<rparr>) s2
        (left - UINT_of_double (dPayload (data_packet ret))) todo))"
    have eq: "tx_loop (Suc fuel) E ch e s left bufs =
       (if channel b \<noteq> ch then keep
         else if left < MIN_RLC_PDU_SIZE then Inr (e, s, left, b # bs)
         else if \<not> LTENR_RLCAM_IsSNFallsInTransmittingWindow e (data_SN b) then keep
         else (case LTENR_RLC_AM_FRAGMENT_PACKET E b left of
                 NoRoom \<Rightarrow> Inr (e, s, left, b # bs)
               | Whole ret \<Rightarrow> send ret bs
               | Fragment ret buf' \<Rightarrow> send ret (buf' # bs)))"
      unfolding Cons tx_loop.simps keep_def send_def with_hdr_def Let_def by simp
    have K: "\<exists>e' s' left' rest new. keep = Inr (e', s', left', rest)
        \<and> tx_result E e s left bufs e' s' left' rest new"
      using Suc.IH [OF good(2) len, of e s left] tx_result_keep unfolding keep_def Cons by fastforce
    have stop: "\<exists>e' s' left' rest new. Inr (e, s, left, b # bs) = Inr (e', s', left', rest)
        \<and> tx_result E e s left bufs e' s' left' rest new"
      using tx_result_refl Cons by fastforce
    consider "channel b \<noteq> ch \<or> left < MIN_RLC_PDU_SIZE \<or> \<not> LTENR_RLCAM_IsSNFallsInTransmittingWindow e (data_SN b)
        \<or> LTENR_RLC_AM_FRAGMENT_PACKET E b left = NoRoom"
      | (whole) ret where "channel b = ch" "\<not> left < MIN_RLC_PDU_SIZE"
        "LTENR_RLCAM_IsSNFallsInTransmittingWindow e (data_SN b)"
        "LTENR_RLC_AM_FRAGMENT_PACKET E b left = Whole ret"
      | (fragment) ret b' where "channel b = ch" "\<not> left < MIN_RLC_PDU_SIZE"
        "LTENR_RLCAM_IsSNFallsInTransmittingWindow e (data_SN b)"
        "LTENR_RLC_AM_FRAGMENT_PACKET E b left = Fragment ret b'"
      by (cases "LTENR_RLC_AM_FRAGMENT_PACKET E b left") blast+
    then show ?thesis
    proof cases
      case 1
      then show ?thesis using K stop unfolding eq by (auto split del: if_split split: if_splits)
    next
      case (whole ret)
      note w = fragment_whole [OF good(1) whole(4)]
      have g: "good_entry E ret" using good(1) by (simp add: w(1) good_entry_def)
      obtain e2 s2 where s: "LTENR_RLCAM_SendPDUToMac E (e\<lparr>bufferStatus := (bufferStatus e)
          (ch := bufferStatus e ch - UINT_of_double (dPayload (data_packet ret)))\<rparr>)
        (fn_NetSim_Packet_CopyPacket E (data_packet (with_hdr E ret))) s = Inr (e2, s2)"
        using with_hdr_sends [OF g] by blast
      obtain e' s' left' rest new where r:
        "tx_loop fuel E ch (e2\<lparr>transmittedBuffer := transmittedBuffer e2 @ [with_hdr E ret]\<rparr>) s2
          (left - UINT_of_double (dPayload (data_packet ret))) bs = Inr (e', s', left', rest)"
        "tx_result E (e2\<lparr>transmittedBuffer := transmittedBuffer e2 @ [with_hdr E ret]\<rparr>) s2
          (left - UINT_of_double (dPayload (data_packet ret))) bs e' s' left' rest new"
        using Suc.IH [OF good(2) len] by blast
      have "double_of_UINT (LTENR_RLCMSG_AMDHDR_SIZE si) \<le> 4" for si
        by (cases si) (simp_all add: LTENR_RLCMSG_AMDHDR_SIZE_NOSO_def LTENR_RLCMSG_AMDHDR_SIZE_WITHSO_def)
      then have fits: "dPacketSize (data_packet ret) + double_of_UINT (LTENR_RLCMSG_AMDHDR_SIZE (data_si ret)) \<le> double_of_UINT left"
      proof -
        have "data_packet ret = data_packet b" by (simp add: w(1))
        with \<open>\<And>si. double_of_UINT (LTENR_RLCMSG_AMDHDR_SIZE si) \<le> 4\<close> [of "data_si ret"] w(3)
        show ?thesis by simp
      qed
      have "tx_result E e s left bufs e' s' left' rest (with_hdr E ret # new)"
        by (rule tx_result_step [OF g _ fits _ _ refl s r(2)])
           (use g w Cons in \<open>auto simp: good_entry_def\<close>)
      moreover have "tx_loop (Suc fuel) E ch e s left bufs = Inr (e', s', left', rest)"
        using whole s r(1) unfolding eq send_def by simp
      ultimately show ?thesis by blast
    next
      case (fragment ret b')
      note f = fragment_split [OF good(1) fragment(4)]
      obtain e2 s2 where s: "LTENR_RLCAM_SendPDUToMac E (e\<lparr>bufferStatus := (bufferStatus e)
          (ch := bufferStatus e ch - UINT_of_double (dPayload (data_packet ret)))\<rparr>)
        (fn_NetSim_Packet_CopyPacket E (data_packet (with_hdr E ret))) s = Inr (e2, s2)"
        using with_hdr_sends [OF f(1)] by blast
      note v = tx_viewD [OF SendPDUToMac_frame(1) [OF s]]
      let ?e = "e2\<lparr>transmittedBuffer := transmittedBuffer e2 @ [with_hdr E ret]\<rparr>"
      let ?left = "left - UINT_of_double (dPayload (data_packet ret))"
      obtain f' where f': "fuel = Suc f'" using len by (cases fuel) auto
      have again: "tx_loop fuel E ch ?e s2 ?left (b' # bs) = Inr (?e, s2, ?left, b' # bs)"
        unfolding f'
        by (rule tx_loop_stop)
           (use fragment f v in \<open>auto simp: LTENR_RLCAM_IsSNFallsInTransmittingWindow_def\<close>)
      have "data_si ret \<noteq> SI_ALL" using f(12) by (auto split: if_splits)
      then have fits: "dPacketSize (data_packet ret) + double_of_UINT (LTENR_RLCMSG_AMDHDR_SIZE (data_si ret)) \<le> double_of_UINT left"
        using f(4) by (cases "data_si ret") (simp_all add: LTENR_RLCMSG_AMDHDR_SIZE_WITHSO_def)
      have "tx_result E e s left bufs ?e s2 ?left (b' # bs) [with_hdr E ret]"
        by (rule tx_result_step [OF f(1) _ fits _ _ refl s tx_result_refl])
           (use f Cons in auto)
      moreover have "tx_loop (Suc fuel) E ch e s left bufs = Inr (?e, s2, ?left, b' # bs)"
        using fragment s again unfolding eq send_def by simp
      ultimately show ?thesis by blast
    qed
  qed
qed

end

section \<open>The retransmission buffer\<close>

lemma retx_loop_spec:
  assumes "retx_loop E ch e s left bufs = Inr (e', s', left', rest)"
    and "\<forall>b \<in> set bufs. \<exists>k. dPacketSize (data_packet b) = real k"
  shows "\<exists>new. transmittedBuffer e' = transmittedBuffer e @ new
    \<and> mset bufs = mset new + mset rest
    \<and> mac_of (trace s') = mac_of (trace s) @ map (\<lambda>d. fn_NetSim_Packet_CopyPacket E (data_packet d)) new
    \<and> sum_list (map (\<lambda>d. dPacketSize (data_packet d)) new) + double_of_UINT left' = double_of_UINT left
    \<and> (\<forall>d \<in> set new. LTENR_RLCAM_IsSNFallsInTransmittingWindow e (data_SN d) \<and> channel d = ch)
    \<and> transmissionBuffer e' = transmissionBuffer e \<and> AM_TX_Next_Ack e' = AM_TX_Next_Ack e
    \<and> (poll_ok e \<longrightarrow> poll_ok e')"
  using assms
proof (induction bufs arbitrary: e s left e' s' left' rest)
  case Nil
  then show ?case by simp
next
  case (Cons b bs)
  let ?sz = "UINT_of_double (dPacketSize (data_packet b))"
  let ?e1 = "e\<lparr>bufferStatus := (bufferStatus e)(ch :=
     if bufferStatus e ch < ?sz then 0 else bufferStatus e ch - ?sz)\<rparr>"
  have bs: "\<forall>b \<in> set bs. \<exists>k. dPacketSize (data_packet b) = real k" using Cons.prems(2) by simp
  consider (keep) rest' where "retx_loop E ch e s left bs = Inr (e', s', left', rest')" "rest = b # rest'"
    | (stop) "e' = e" "s' = s" "left' = left" "rest = b # bs"
    | (send) e2 s2 where "channel b = ch" "LTENR_RLCAM_IsSNFallsInTransmittingWindow e (data_SN b)"
      "dPacketSize (data_packet b) \<le> double_of_UINT left"
      "LTENR_RLCAM_SendPDUToMac E ?e1 (fn_NetSim_Packet_CopyPacket E (data_packet b)) s = Inr (e2, s2)"
      "retx_loop E ch (e2\<lparr>transmittedBuffer := transmittedBuffer e2 @ [b]\<rparr>) s2
         (if left < ?sz then 0 else left - ?sz) bs = Inr (e', s', left', rest)"
    using Cons.prems(1)
    by (auto simp: Let_def not_less rbind_Inr_iff split: if_splits)
  then show ?case
  proof cases
    case (keep rest')
    then show ?thesis using Cons.IH [OF keep(1) bs] by fastforce
  next
    case stop
    then show ?thesis by simp
  next
    case (send e2 s2)
    obtain k where k: "dPacketSize (data_packet b) = real k" using Cons.prems(2) by auto
    have kl: "k \<le> unat left" using send(3) k by simp
    then have "k < 2 ^ 32" using unsigned_less [of left, where ?'a = nat] by simp
    then have u: "unat ?sz = k" unfolding k by (rule unat_UINT_real)
    then have le: "\<not> left < ?sz" using kl by (simp add: word_less_nat_alt)
    have left: "double_of_UINT (left - ?sz) = double_of_UINT left - real k"
      using kl u by (simp add: unat_sub word_le_nat_alt of_nat_diff)
    note v = tx_viewD [OF SendPDUToMac_frame(1) [OF send(4)]]
    have p: "poll_ok e \<longrightarrow> poll_ok (e2\<lparr>transmittedBuffer := transmittedBuffer e2 @ [b]\<rparr>)"
      using SendPDUToMac_frame(3) [OF send(4)] v by (auto simp: poll_ok_def word_less_nat_alt)
    have rec: "retx_loop E ch (e2\<lparr>transmittedBuffer := transmittedBuffer e2 @ [b]\<rparr>) s2 (left - ?sz) bs
        = Inr (e', s', left', rest)"
      using send(5) le by simp
    obtain new where n: "transmittedBuffer e' = transmittedBuffer e2 @ [b] @ new"
      "mset bs = mset new + mset rest"
      "mac_of (trace s') = mac_of (trace s2) @ map (\<lambda>d. fn_NetSim_Packet_CopyPacket E (data_packet d)) new"
      "sum_list (map (\<lambda>d. dPacketSize (data_packet d)) new) + double_of_UINT left' = double_of_UINT (left - ?sz)"
      "\<forall>d \<in> set new. LTENR_RLCAM_IsSNFallsInTransmittingWindow e2 (data_SN d) \<and> channel d = ch"
      "transmissionBuffer e' = transmissionBuffer e2" "AM_TX_Next_Ack e' = AM_TX_Next_Ack e2"
      "poll_ok (e2\<lparr>transmittedBuffer := transmittedBuffer e2 @ [b]\<rparr>) \<longrightarrow> poll_ok e'"
      using Cons.IH [OF rec bs] by (auto simp: LTENR_RLCAM_IsSNFallsInTransmittingWindow_def)
    show ?thesis
    proof (rule exI [of _ "b # new"], intro conjI)
      show "\<forall>d \<in> set (b # new). LTENR_RLCAM_IsSNFallsInTransmittingWindow e (data_SN d) \<and> channel d = ch"
        using n(5) send(1,2) v by (auto simp: LTENR_RLCAM_IsSNFallsInTransmittingWindow_def)
    qed (use n v p k left SendPDUToMac_frame(2) [OF send(4)] in auto)
  qed
qed

lemma retx_loop_out_of_window:
  assumes "\<forall>b \<in> set bufs. \<not> LTENR_RLCAM_IsSNFallsInTransmittingWindow e (data_SN b)"
  shows "retx_loop E ch e s left bufs = Inr (e, s, left, bufs)"
  using assms by (induction bufs) (auto simp: Let_def)

section \<open>Lemmas: what a NACK does\<close>

text \<open>The entry in the retransmission buffer: one retransmission more, the poll bit off.\<close>

definition nacked :: "rlc_env \<Rightarrow> LTENR_RLCBUFFER_DATA \<Rightarrow> LTENR_RLCBUFFER_DATA \<Rightarrow> bool" where
  "nacked E b b' \<longleftrightarrow> (\<exists>p. LTENR_RLCMSG_AMDHDR_WRITEPOLL E (data_packet b) False = Inr p
     \<and> b' = b\<lparr>data_packet := p, retxCount := retxCount b + 1\<rparr>)"

text \<open>
  Steps that only move entries on: an entry of the transmitted buffer stays there, or goes to
  the retransmission buffer, or is freed after its last retransmission.
\<close>

definition moves_on ::
  "rlc_env \<Rightarrow> LTENR_RLCENTITY \<times> EVENTDETAILS \<Rightarrow> LTENR_RLCENTITY \<times> EVENTDETAILS \<Rightarrow> bool" where
  "moves_on E es es' \<longleftrightarrow> maxRetxThreshold (fst es') = maxRetxThreshold (fst es)
     \<and> transmissionBuffer (fst es') = transmissionBuffer (fst es)
     \<and> AM_TX_Next (fst es') = AM_TX_Next (fst es)
     \<and> set (transmittedBuffer (fst es')) \<subseteq> set (transmittedBuffer (fst es))
     \<and> set (retransmissionBuffer (fst es)) \<subseteq> set (retransmissionBuffer (fst es'))
     \<and> set (trace (snd es)) \<subseteq> set (trace (snd es'))
     \<and> data_SN ` set (retransmissionBuffer (fst es')) \<subseteq>
         data_SN ` (set (transmittedBuffer (fst es)) \<union> set (retransmissionBuffer (fst es)))
     \<and> (\<forall>b \<in> set (transmittedBuffer (fst es)). b \<in> set (transmittedBuffer (fst es'))
          \<or> (\<exists>b' \<in> set (retransmissionBuffer (fst es')). nacked E b b')
          \<or> retxCount b = maxRetxThreshold (fst es) \<and> FreePacket (data_packet b) \<in> set (trace (snd es')))"

lemma moves_on_refl: "moves_on E es es"
  by (auto simp: moves_on_def)

lemma sub_chain: "T1 \<subseteq> T0 \<Longrightarrow> R1 \<subseteq> T0 \<union> R0 \<Longrightarrow> R2 \<subseteq> T1 \<union> R1 \<Longrightarrow> R2 \<subseteq> T0 \<union> R0"
  by blast

lemma moves_on_trans:
  assumes "moves_on E es es1" and "moves_on E es1 es2"
  shows "moves_on E es es2"
  unfolding moves_on_def
proof (intro conjI)
  show "data_SN ` set (retransmissionBuffer (fst es2)) \<subseteq>
         data_SN ` (set (transmittedBuffer (fst es)) \<union> set (retransmissionBuffer (fst es)))"
  proof -
    have "data_SN ` set (transmittedBuffer (fst es1)) \<subseteq> data_SN ` set (transmittedBuffer (fst es))"
      using assms(1) by (intro image_mono) (simp add: moves_on_def)
    moreover have "data_SN ` set (retransmissionBuffer (fst es1)) \<subseteq>
        data_SN ` set (transmittedBuffer (fst es)) \<union> data_SN ` set (retransmissionBuffer (fst es))"
      using assms(1) by (simp add: moves_on_def image_Un)
    moreover have "data_SN ` set (retransmissionBuffer (fst es2)) \<subseteq>
        data_SN ` set (transmittedBuffer (fst es1)) \<union> data_SN ` set (retransmissionBuffer (fst es1))"
      using assms(2) by (simp add: moves_on_def image_Un)
    ultimately show ?thesis unfolding image_Un by (rule sub_chain)
  qed
  show "\<forall>b \<in> set (transmittedBuffer (fst es)). b \<in> set (transmittedBuffer (fst es2))
          \<or> (\<exists>b' \<in> set (retransmissionBuffer (fst es2)). nacked E b b')
          \<or> retxCount b = maxRetxThreshold (fst es) \<and> FreePacket (data_packet b) \<in> set (trace (snd es2))"
  proof
    fix b assume "b \<in> set (transmittedBuffer (fst es))"
    then consider "b \<in> set (transmittedBuffer (fst es1))"
      | "\<exists>b' \<in> set (retransmissionBuffer (fst es1)). nacked E b b'"
      | "retxCount b = maxRetxThreshold (fst es)" "FreePacket (data_packet b) \<in> set (trace (snd es1))"
      using assms(1) unfolding moves_on_def by blast
    then show "b \<in> set (transmittedBuffer (fst es2))
          \<or> (\<exists>b' \<in> set (retransmissionBuffer (fst es2)). nacked E b b')
          \<or> retxCount b = maxRetxThreshold (fst es) \<and> FreePacket (data_packet b) \<in> set (trace (snd es2))"
    proof cases
      case 1
      then show ?thesis using assms unfolding moves_on_def by simp
    next
      case 2
      then show ?thesis using assms(2) unfolding moves_on_def by blast
    next
      case 3
      then show ?thesis using assms(2) unfolding moves_on_def by blast
    qed
  qed
qed (use assms in \<open>auto simp: moves_on_def\<close>)

lemma MovePacket_moves:
  assumes "LTENR_RLCAM_MovePacketFromTransmittedBuffer E e s b = Inr (e', s', m)"
  shows "maxRetxThreshold e' = maxRetxThreshold e" "transmissionBuffer e' = transmissionBuffer e"
    "AM_TX_Next e' = AM_TX_Next e" "transmittedBuffer e' = transmittedBuffer e"
    "set (trace s) \<subseteq> set (trace s')"
    "retransmissionBuffer e' = retransmissionBuffer e \<and> retxCount b = maxRetxThreshold e
        \<and> FreePacket (data_packet b) \<in> set (trace s')
     \<or> (\<exists>b'. retransmissionBuffer e' = retransmissionBuffer e @ [b'] \<and> nacked E b b')"
  using assms
  by (auto simp: LTENR_RLCAM_MovePacketFromTransmittedBuffer_def nacked_def Let_def rbind_Inr_iff
      split: if_splits)

lemma nacked_SN: "nacked E b b' \<Longrightarrow> data_SN b' = data_SN b"
  by (auto simp: nacked_def)

text \<open>Taking some entries out of the transmitted buffer and moving each of them on.\<close>

lemma move_all_moves:
  assumes "move_all E e s ds = Inr (e', s')"
  shows "maxRetxThreshold e' = maxRetxThreshold e \<and> transmissionBuffer e' = transmissionBuffer e
    \<and> AM_TX_Next e' = AM_TX_Next e \<and> transmittedBuffer e' = transmittedBuffer e
    \<and> set (trace s) \<subseteq> set (trace s')
    \<and> set (retransmissionBuffer e) \<subseteq> set (retransmissionBuffer e')
    \<and> data_SN ` set (retransmissionBuffer e') \<subseteq> data_SN ` (set ds \<union> set (retransmissionBuffer e))
    \<and> (\<forall>b \<in> set ds. (\<exists>b' \<in> set (retransmissionBuffer e'). nacked E b b')
         \<or> retxCount b = maxRetxThreshold e \<and> FreePacket (data_packet b) \<in> set (trace s'))"
  using assms
proof (induction ds arbitrary: e s)
  case Nil
  then show ?case by auto
next
  case (Cons d ds)
  then obtain e1 s1 m where 1: "LTENR_RLCAM_MovePacketFromTransmittedBuffer E e s d = Inr (e1, s1, m)"
    and 2: "move_all E e1 s1 ds = Inr (e', s')"
    by (auto simp: rbind_Inr_iff)
  note mv = MovePacket_moves [OF 1] and ih = Cons.IH [OF 2]
  have "data_SN ` set (retransmissionBuffer e1) \<subseteq> data_SN ` (insert d (set (retransmissionBuffer e)))"
    using mv(6) nacked_SN by fastforce
  moreover have "data_SN ` set (retransmissionBuffer e')
      \<subseteq> data_SN ` set ds \<union> data_SN ` set (retransmissionBuffer e1)"
    using ih by (simp add: image_Un)
  ultimately have sns: "data_SN ` set (retransmissionBuffer e')
      \<subseteq> data_SN ` (set (d # ds) \<union> set (retransmissionBuffer e))"
    unfolding image_Un list.set image_insert by blast
  have grow: "set (retransmissionBuffer e) \<subseteq> set (retransmissionBuffer e1)"
    using mv(6) by auto
  have ih_trace: "set (trace s1) \<subseteq> set (trace s')"
    and ih_grow: "set (retransmissionBuffer e1) \<subseteq> set (retransmissionBuffer e')"
    and ih_max: "maxRetxThreshold e' = maxRetxThreshold e1"
    and ih_all: "\<forall>b \<in> set ds. (\<exists>b' \<in> set (retransmissionBuffer e'). nacked E b b')
         \<or> retxCount b = maxRetxThreshold e1 \<and> FreePacket (data_packet b) \<in> set (trace s')"
    and ih_same: "transmissionBuffer e' = transmissionBuffer e1" "AM_TX_Next e' = AM_TX_Next e1"
      "transmittedBuffer e' = transmittedBuffer e1"
    by (insert ih, (elim conjE, assumption)+)
  have d: "(\<exists>b' \<in> set (retransmissionBuffer e'). nacked E d b')
         \<or> retxCount d = maxRetxThreshold e \<and> FreePacket (data_packet d) \<in> set (trace s')"
    using mv(6) ih_trace ih_grow by auto
  show ?case
    using sns grow ih_grow ih_trace mv(5) d ih_all
    by (intro conjI) (simp_all add: mv(1-4) ih_max ih_same subset_trans [OF grow ih_grow]
      subset_trans [OF mv(5) ih_trace])
qed

lemma move_allD:
  assumes "move_all E e s ds = Inr (e', s')"
  shows "maxRetxThreshold e' = maxRetxThreshold e" "transmissionBuffer e' = transmissionBuffer e"
    "AM_TX_Next e' = AM_TX_Next e" "transmittedBuffer e' = transmittedBuffer e"
    "set (trace s) \<subseteq> set (trace s')"
    "set (retransmissionBuffer e) \<subseteq> set (retransmissionBuffer e')"
    "data_SN ` set (retransmissionBuffer e') \<subseteq> data_SN ` (set ds \<union> set (retransmissionBuffer e))"
    "\<forall>b \<in> set ds. (\<exists>b' \<in> set (retransmissionBuffer e'). nacked E b b')
         \<or> retxCount b = maxRetxThreshold e \<and> FreePacket (data_packet b) \<in> set (trace s')"
  by (insert move_all_moves [OF assms], (elim conjE, assumption)+)

lemma update_all_SN_moves:
  assumes "update_all_SN E sn es = Inr es'"
  shows "moves_on E es es'"
    and "transmittedBuffer (fst es') = filter (\<lambda>b. data_SN b \<noteq> sn) (transmittedBuffer (fst es))"
proof -
  obtain e s where es: "es = (e, s)" by fastforce
  obtain e' s' where es': "es' = (e', s')" by fastforce
  let ?e = "e\<lparr>transmittedBuffer := filter (\<lambda>b. data_SN b \<noteq> sn) (transmittedBuffer e)\<rparr>"
  have "move_all E ?e s (filter (\<lambda>b. data_SN b = sn) (transmittedBuffer e)) = Inr (e', s')"
    using assms by (simp add: es es' update_all_SN_def buf_allBySN_def)
  note mv = move_allD [OF this]
  show "transmittedBuffer (fst es') = filter (\<lambda>b. data_SN b \<noteq> sn) (transmittedBuffer (fst es))"
    using mv(4) by (simp add: es es')
  have sub: "data_SN ` set (retransmissionBuffer e')
      \<subseteq> data_SN ` (set (transmittedBuffer e) \<union> set (retransmissionBuffer e))"
    by (rule order_trans [OF mv(7)], rule image_mono) auto
  have all: "b \<in> set (transmittedBuffer e') \<or> (\<exists>b' \<in> set (retransmissionBuffer e'). nacked E b b')
      \<or> retxCount b = maxRetxThreshold e \<and> FreePacket (data_packet b) \<in> set (trace s')"
    if "b \<in> set (transmittedBuffer e)" for b
  proof (cases "data_SN b = sn")
    case True
    then have "b \<in> set (filter (\<lambda>b. data_SN b = sn) (transmittedBuffer e))" using that by simp
    with mv(8) show ?thesis by auto
  next
    case False
    with that mv(4) show ?thesis by simp
  qed
  show "moves_on E es es'"
    unfolding moves_on_def es es' fst_conv snd_conv
    using mv(1-6) sub all by (intro conjI ballI) simp_all
qed

lemma buf_bySNSO_set: "buf_bySNSO ds sn so = Some (d, es) \<Longrightarrow> set ds = insert d (set es)"
  using buf_bySNSO_mset by (metis set_mset_add_mset_insert set_mset_mset)

lemma nack1_step_moves:
  assumes "nack1_step E sn so es = Inr es'"
  shows "moves_on E es es'"
proof -
  obtain e s where es: "es = (e, s)" by fastforce
  obtain e' s' where es': "es' = (e', s')" by fastforce
  show ?thesis
  proof (cases "buf_bySNSO (transmittedBuffer e) sn so")
    case None
    then show ?thesis using assms moves_on_refl by (simp add: es nack1_step_def)
  next
    case (Some x)
    obtain d rest where x: "x = (d, rest)" by fastforce
    then obtain m where "LTENR_RLCAM_MovePacketFromTransmittedBuffer E (e\<lparr>transmittedBuffer := rest\<rparr>) s d
        = Inr (e', s', m)"
      using assms Some by (auto simp: es es' nack1_step_def rbind_Inr_iff)
    note mv = MovePacket_moves [OF this]
    have set: "set (transmittedBuffer e) = insert d (set rest)"
      using Some x buf_bySNSO_set by simp
    show ?thesis
      using mv set nacked_SN [of E d] unfolding moves_on_def es es' by fastforce
  qed
qed

lemma fold_result_moves:
  assumes "fold_result f is es = Inr es'"
    and "\<And>i es es'. f i es = Inr es' \<Longrightarrow> moves_on E es es'"
  shows "moves_on E es es'"
  using assms(1)
proof (induction "is" arbitrary: es)
  case Nil
  then show ?case using moves_on_refl by simp
next
  case (Cons i "is")
  then obtain es1 where "f i es = Inr es1" "fold_result f is es1 = Inr es'"
    by (auto simp: rbind_Inr_iff)
  then show ?case using Cons.IH assms(2) moves_on_trans by blast
qed

lemma for_le_moves:
  assumes "for_le fuel a b f es = Inr es'"
    and "\<And>i es es'. f i es = Inr es' \<Longrightarrow> moves_on E es es'"
  shows "moves_on E es es'"
  using assms(1)
proof (induction fuel arbitrary: a es)
  case (Suc fuel)
  show ?case
  proof (cases "a \<le> b")
    case True
    then obtain es1 where "f a es = Inr es1" "for_le fuel (a + 1) b f es1 = Inr es'"
      using Suc.prems by (auto simp: rbind_Inr_iff)
    then show ?thesis using Suc.IH assms(2) moves_on_trans by blast
  next
    case False
    then show ?thesis using Suc.prems moves_on_refl by simp
  qed
qed simp

lemma nack_loop_moves:
  assumes "nack_loop E ns es = Inr es'"
  shows "moves_on E es es'"
  using assms
proof (induction ns arbitrary: es)
  case Nil
  then show ?case using moves_on_refl by simp
next
  case (Cons n ns)
  then obtain es1 where 1: "(if nack_E3 n then LTENR_RLCAM_UpdateBufferBasedOnNACK2 E n es
      else if nack_E2 n then LTENR_RLCAM_UpdateBufferBasedOnNACK1 E n es
      else LTENR_RLCAM_UpdateBufferBasedOnNACK0 E n es) = Inr es1" and 2: "nack_loop E ns es1 = Inr es'"
    by (auto simp: rbind_Inr_iff)
  have "moves_on E es es1"
    using 1 update_all_SN_moves(1) for_le_moves [where f = "update_all_SN E"]
      for_le_moves [where f = "nack1_step E (NAck_SN n)"] nack1_step_moves
    unfolding LTENR_RLCAM_UpdateBufferBasedOnNACK0_def LTENR_RLCAM_UpdateBufferBasedOnNACK1_def
      LTENR_RLCAM_UpdateBufferBasedOnNACK2_def Let_def
    by (metis (no_types, lifting))
  then show ?case using Cons.IH [OF 2] moves_on_trans by blast
qed

section \<open>Lemmas: a status PDU\<close>

lemma poll_timer_trace:
  "set (trace s) \<subseteq> set (trace (snd (LTENR_RLCAM_Start_t_PollRetransmitTimer E e s)))"
  "set (trace s) \<subseteq> set (trace (snd (LTENR_RLCAM_Stop_t_PollRetransmitTimer e s)))"
  by (auto simp: timer_defs Let_def)

lemma receive_status_cases:
  assumes "am_receive_status E e packet s = Inr (e', s')"
  obtains st e1 s1 e2 s2 where "LTENR_RLCMSG_STATUSPDU_GET E packet = Some st"
    "tx_view e1 = tx_view e" "set (trace s) \<subseteq> set (trace s1)"
    "nack_loop E (nackList st) (e1, s1) = Inr (e2, s2)"
    "transmittedBuffer e' = filter (\<lambda>b. \<not> data_SN b < Ack_SN st) (transmittedBuffer e2)"
    "retransmissionBuffer e' = retransmissionBuffer e2" "transmissionBuffer e' = transmissionBuffer e2"
    "AM_TX_Next e' = AM_TX_Next e2"
    "AM_TX_Next_Ack e' = (case transmissionBuffer e2 of b # bs \<Rightarrow> data_SN b | [] \<Rightarrow> AM_TX_Next e2)"
    "set (trace s2) \<union> (\<lambda>b. FreePacket (data_packet b)) `
       {b \<in> set (transmittedBuffer e2). data_SN b < Ack_SN st} \<subseteq> set (trace s')"
proof -
  obtain st where st: "LTENR_RLCMSG_STATUSPDU_GET E packet = Some st"
    using assms by (auto simp: am_receive_status_def rbind_Inr_iff)
  define x where "x = (if LTENR_RLCAM_STATUSPDU_FindSN st (AM_POLL_SN e) \<and> isPollRetransmitTimerStarted e
    then let (e, s') = LTENR_RLCAM_Stop_t_PollRetransmitTimer e s
         in LTENR_RLCAM_Start_t_PollRetransmitTimer E e s' else (e, s))"
  have x: "tx_view (fst x) = tx_view e" "set (trace s) \<subseteq> set (trace (snd x))"
    using poll_timer_frame(1) [of E "fst (LTENR_RLCAM_Stop_t_PollRetransmitTimer e s)"
        "snd (LTENR_RLCAM_Stop_t_PollRetransmitTimer e s)"]
      poll_timer_frame(3) [of e s] poll_timer_trace(2) [of s e]
      poll_timer_trace(1) [of "snd (LTENR_RLCAM_Stop_t_PollRetransmitTimer e s)" E
        "fst (LTENR_RLCAM_Stop_t_PollRetransmitTimer e s)"]
    by (auto simp: x_def split_def Let_def)
  have run: "rbind (nack_loop E (nackList st) x) (\<lambda>(e2, s2).
        let (e3, s3) = LTENR_RLCAM_ClearTransmittedBuffer e2 s2 (Ack_SN st);
            e4 = e3\<lparr>AM_TX_Next_Ack := (case transmissionBuffer e3 of
                       b # bs \<Rightarrow> data_SN b | [] \<Rightarrow> AM_TX_Next e3)\<rparr>;
            (e5, s5) = (if AM_POLL_SN e4 < Ack_SN st
                        then LTENR_RLCAM_Stop_t_PollRetransmitTimer e4 s3 else (e4, s3))
        in Inr (e5, (emit (FreePacket packet) s5)\<lparr>pPacket := None\<rparr>)) = Inr (e', s')"
    using assms unfolding am_receive_status_def st deref_simps rbind_simps x_def
    by (simp only: Let_def split_def prod.collapse)
  obtain e2 s2 where n: "nack_loop E (nackList st) x = Inr (e2, s2)"
    using run by (cases "nack_loop E (nackList st) x") auto
  define e4 where "e4 = e2\<lparr>transmittedBuffer := filter (\<lambda>b. \<not> data_SN b < Ack_SN st) (transmittedBuffer e2),
    AM_TX_Next_Ack := (case transmissionBuffer e2 of b # bs \<Rightarrow> data_SN b | [] \<Rightarrow> AM_TX_Next e2)\<rparr>"
  define s4 where "s4 = emits (map (\<lambda>b. FreePacket (data_packet b))
    (filter (\<lambda>b. data_SN b < Ack_SN st) (transmittedBuffer e2))) s2"
  define y where "y = (if AM_POLL_SN e4 < Ack_SN st then LTENR_RLCAM_Stop_t_PollRetransmitTimer e4 s4 else (e4, s4))"
  have out: "e' = fst y" "s' = (emit (FreePacket packet) (snd y))\<lparr>pPacket := None\<rparr>"
    using run unfolding n rbind_simps prod.case LTENR_RLCAM_ClearTransmittedBuffer_def y_def e4_def s4_def
    by (simp_all add: Let_def split_def split del: if_split cong: if_cong list.case_cong)
  have y: "tx_view (fst y) = tx_view e4" "set (trace s4) \<subseteq> set (trace (snd y))"
    using poll_timer_frame(3) [of e4 s4] poll_timer_trace(2) [of s4 e4] by (auto simp: y_def)
  note v = tx_viewD [OF y(1)]
  show thesis
  proof (rule that [OF st x])
    show "nack_loop E (nackList st) (fst x, snd x) = Inr (e2, s2)" using n by simp
    show "set (trace s2) \<union> (\<lambda>b. FreePacket (data_packet b)) `
       {b \<in> set (transmittedBuffer e2). data_SN b < Ack_SN st} \<subseteq> set (trace s')"
      using y(2) by (auto simp: out s4_def)
  qed (use v in \<open>simp_all add: out e4_def\<close>)
qed

section \<open>Properties of the sender\<close>

text \<open>
  Segmenting an SDU loses nothing: the two parts are non-empty, their payloads add up to
  that of the SDU, both keep its sequence number and channel, the offsets continue (FIRST
  with offset 0 or MIDDLE with the offset reached, then one more), the rest is the last
  segment, and the part to send fills the grant exactly with its overhead and header.
\<close>

theorem am_fragment_splits:
  assumes "packet_api E" and "good_entry E b"
    and "LTENR_RLC_AM_FRAGMENT_PACKET E b sz = Fragment ret b'"
  shows "dPayload (data_packet ret) + dPayload (data_packet b') = dPayload (data_packet b)
    \<and> 0 < dPayload (data_packet ret) \<and> 0 < dPayload (data_packet b')
    \<and> dPacketSize (data_packet ret) + 4 = double_of_UINT sz
    \<and> data_SN ret = data_SN b \<and> data_SN b' = data_SN b \<and> channel ret = channel b \<and> channel b' = channel b
    \<and> data_si b' = SI_LAST \<and> isFragmented b' \<and> good_entry E b'
    \<and> (if isFragmented b then data_si ret = SI_MIDDLE \<and> data_SO ret = data_SO b \<and> data_SO b' = data_SO b + 1
       else data_si ret = SI_FIRST \<and> data_SO ret = 0 \<and> data_SO b' = 1)"
  using packet_api.fragment_split [OF assms] by (intro conjI) simp_all

definition ex_sdu :: "u32 \<Rightarrow> real \<Rightarrow> real \<Rightarrow> LTENR_RLCBUFFER_DATA" where
  "ex_sdu sn len ov = buf_new ((plain_create 1 2 0 LTENR_MSG_USERDATA)
     \<lparr>dPayload := len, dOverhead := ov, dPacketSize := len + ov\<rparr>) sn 0 LTENR_LOGICALCHANNEL_DTCH"

lemma ex_sdu_good:
  "k < 2 ^ 32 \<Longrightarrow> good_entry plain_rlc_env (ex_sdu sn (real k) (real m))"
  by (auto simp: good_entry_def ex_sdu_def buf_new_def plain_create_def plain_rlc_env_def
      plain_pkt_api_def pkt_api.defs plain_get_def plain_msg_def)

lemma am_fragment_splits_witness:
  "\<exists>ret b'. LTENR_RLC_AM_FRAGMENT_PACKET plain_rlc_env (ex_sdu 5 100 20) 74 = Fragment ret b'
     \<and> dPayload (data_packet ret) + dPayload (data_packet b') = 100"
proof -
  have "(case LTENR_RLC_AM_FRAGMENT_PACKET plain_rlc_env (ex_sdu 5 100 20) 74 of
      Fragment ret b' \<Rightarrow> True | _ \<Rightarrow> False)"
    by code_simp
  then obtain ret b' where f: "LTENR_RLC_AM_FRAGMENT_PACKET plain_rlc_env (ex_sdu 5 100 20) 74 = Fragment ret b'"
    by (auto split: am_fragment.splits)
  have "good_entry plain_rlc_env (ex_sdu 5 100 20)"
    using ex_sdu_good [of 100 5 20] by simp
  then have "dPayload (data_packet ret) + dPayload (data_packet b') = dPayload (data_packet (ex_sdu 5 100 20))"
    using am_fragment_splits [OF plain_rlc.packet_api_axioms _ f] by blast
  with f show ?thesis by (simp add: ex_sdu_def buf_new_def)
qed

text \<open>
  Sending new SDUs always ends, and the grant is charged the payload: the returned number
  is the payload of the PDUs handed to MAC, is at most the grant, and is what the
  transmission buffer loses; each PDU has a copy in the transmitted buffer, behind those
  already there, and each one fits the grant with its headers.
\<close>

theorem am_transmission_charges_payload:
  assumes "rlc_environment E" and "\<forall>b \<in> set (transmissionBuffer e). good_entry E b"
  shows "\<exists>e' s' n new.
      LTENR_RLCAM_SendPDUFromTransmissionBuffer E e s sz ch = Inr (e', s', n)
    \<and> n \<le> sz \<and> double_of_UINT n = entry_payload new
    \<and> entry_payload (transmissionBuffer e') + entry_payload new = entry_payload (transmissionBuffer e)
    \<and> transmittedBuffer e' = transmittedBuffer e @ new
    \<and> mac_of (trace s') = mac_of (trace s) @ map (\<lambda>d. fn_NetSim_Packet_CopyPacket E (data_packet d)) new
    \<and> (\<forall>d \<in> set new. dPacketSize (data_packet d) \<le> double_of_UINT sz)"
proof -
  obtain e' s' left' rest new where
    l: "tx_loop (2 * length (transmissionBuffer e) + 2) E ch e s sz (transmissionBuffer e) = Inr (e', s', left', rest)"
    and r: "tx_result E e s sz (transmissionBuffer e) e' s' left' rest new"
    using rlc_environment.tx_loop_spec [OF assms, of "2 * length (transmissionBuffer e) + 2"] by fastforce
  have "entry_payload new \<ge> 0"
    using r unfolding tx_result_def entry_payload_def by (intro sum_list_nonneg) auto
  then have "unat left' \<le> unat sz" using r by (simp add: tx_result_def)
  then have n: "sz - left' \<le> sz" "double_of_UINT (sz - left') = entry_payload new"
    using r by (simp_all add: tx_result_def unat_sub word_le_nat_alt of_nat_diff)
  have run: "LTENR_RLCAM_SendPDUFromTransmissionBuffer E e s sz ch
      = Inr (e'\<lparr>transmissionBuffer := rest\<rparr>, s', sz - left')"
    using l by (simp add: LTENR_RLCAM_SendPDUFromTransmissionBuffer_def)
  show ?thesis
    by (intro exI conjI, rule run)
       (use r n in \<open>auto simp add: tx_result_def simp del: UINT_of_double_of_nat\<close>)
qed

definition ex_sender :: LTENR_RLCENTITY where
  "ex_sender = ex_am\<lparr>transmissionBuffer := [ex_sdu 0 20 10, ex_sdu 1 20 10, ex_sdu 2 20 10,
     ex_sdu 3 20 10], AM_TX_Next := 4\<rparr>"

lemma ex_sender_good: "\<forall>b \<in> set (transmissionBuffer ex_sender). good_entry plain_rlc_env b"
  using ex_sdu_good [of 20 _ 10] by (simp add: ex_sender_def)

lemma am_transmission_charges_payload_witness:
  "\<exists>e' s' n. LTENR_RLCAM_SendPDUFromTransmissionBuffer plain_rlc_env ex_sender ex_event 100
      LTENR_LOGICALCHANNEL_DTCH = Inr (e', s', n) \<and> n \<le> 100"
  using am_transmission_charges_payload [OF plain_rlc.rlc_environment_axioms ex_sender_good] by blast

text \<open>
  Since the headers are not charged, the PDUs of one grant can be larger than the grant:
  with four SDUs of 20 bytes payload and 10 bytes overhead, 128 bytes go to MAC on a
  grant of 100, and at most 100 are reported.
\<close>

theorem am_grant_overrun:
  "case LTENR_RLCAM_SendPDUFromTransmissionBuffer plain_rlc_env ex_sender ex_event 100
      LTENR_LOGICALCHANNEL_DTCH of
     Inr (e', s', n) \<Rightarrow> n \<le> 100 \<and> sum_list (map dPacketSize (mac_of (trace s'))) = 128
   | Inl f \<Rightarrow> False"
  by code_simp

lemma fold_update_all_SN:
  assumes "fold_result (update_all_SN E) sns es = Inr es'"
  shows "transmittedBuffer (fst es') = filter (\<lambda>b. data_SN b \<notin> set sns) (transmittedBuffer (fst es))"
  using assms
proof (induction sns arbitrary: es)
  case Nil
  then show ?case by simp
next
  case (Cons sn sns)
  then obtain es1 where "update_all_SN E sn es = Inr es1" "fold_result (update_all_SN E) sns es1 = Inr es'"
    by (auto simp: rbind_Inr_iff)
  with Cons.IH update_all_SN_moves(2) show ?case by (fastforce intro: filter_cong)
qed

text \<open>
  A NACK with a range takes out one sequence number too many: besides the
  \<open>NAckRange\<close> numbers from \<open>NAck_SN\<close> on that the receiver reports missing, the one right
  after them goes, all others stay, and nothing that goes is lost (it is in the
  retransmission buffer, or freed after its last retransmission).
\<close>

theorem am_nack_range_takes_one_more:
  assumes "LTENR_RLCAM_UpdateBufferBasedOnNACK2 E n (e, s) = Inr (e', s')"
    and "NAck_SN n + ucast (NAckRange n) \<noteq> - 1"
  shows "transmittedBuffer e' = filter (\<lambda>b. \<not> (NAck_SN n \<le> data_SN b
        \<and> data_SN b \<le> NAck_SN n + ucast (NAckRange n))) (transmittedBuffer e)
    \<and> (\<forall>b \<in> set (transmittedBuffer e).
        NAck_SN n \<le> data_SN b \<and> data_SN b \<le> NAck_SN n + ucast (NAckRange n) \<longrightarrow>
        (\<exists>b' \<in> set (retransmissionBuffer e'). nacked E b b')
        \<or> retxCount b = maxRetxThreshold e \<and> FreePacket (data_packet b) \<in> set (trace s'))"
proof -
  let ?last = "NAck_SN n + ucast (NAckRange n)"
  have "fold_result (update_all_SN E) (upto_word (NAck_SN n) ?last) (e, s) = Inr (e', s')"
    using assms for_le_upto [of ?last "NAck_SN n" "update_all_SN E"]
    by (simp add: LTENR_RLCAM_UpdateBufferBasedOnNACK2_def Let_def)
  note run = this
  have out: "transmittedBuffer e' = filter (\<lambda>b. \<not> (NAck_SN n \<le> data_SN b \<and> data_SN b \<le> ?last)) (transmittedBuffer e)"
    using fold_update_all_SN [OF run] by (simp add: set_upto_word)
  moreover have "moves_on E (e, s) (e', s')"
    by (rule fold_result_moves [OF run update_all_SN_moves(1)])
  ultimately show ?thesis by (auto simp: moves_on_def)
qed

definition ex_sent :: "u32 \<Rightarrow> LTENR_RLCBUFFER_DATA" where
  "ex_sent sn = with_hdr plain_rlc_env (ex_sdu sn 20 10)"

text \<open>The numbers 5 to 9 were sent and wait for their acknowledgement.\<close>

definition ex_waiting :: LTENR_RLCENTITY where
  "ex_waiting = ex_am\<lparr>transmittedBuffer := map ex_sent [5, 6, 7, 8, 9], AM_TX_Next := 10,
     AM_TX_Next_Ack := 5, maxRetxThreshold := 4\<rparr>"

definition ex_range_nack :: LTENR_RLCMSG_STATUSPDU_NACK where
  "ex_range_nack = \<lparr>NAck_SN = 6, nack_E1 = False, nack_E2 = False, nack_E3 = True,
     soStart = 0, soEnd = 0, NAckRange = 2\<rparr>"

lemma am_nack_range_takes_one_more_witness:
  "\<exists>e' s'. LTENR_RLCAM_UpdateBufferBasedOnNACK2 plain_rlc_env ex_range_nack (ex_waiting, ex_event) = Inr (e', s')
     \<and> map data_SN (transmittedBuffer e') = [5, 9]"
proof -
  have "\<not> isl (LTENR_RLCAM_UpdateBufferBasedOnNACK2 plain_rlc_env ex_range_nack (ex_waiting, ex_event))"
    by code_simp
  then obtain e' s' where r:
    "LTENR_RLCAM_UpdateBufferBasedOnNACK2 plain_rlc_env ex_range_nack (ex_waiting, ex_event) = Inr (e', s')"
    by (metis Inr_of_not_isl surj_pair)
  have "NAck_SN ex_range_nack + ucast (NAckRange ex_range_nack) \<noteq> - 1" by code_simp
  with am_nack_range_takes_one_more [OF r]
  have "transmittedBuffer e' = filter (\<lambda>b. \<not> (NAck_SN ex_range_nack \<le> data_SN b
        \<and> data_SN b \<le> NAck_SN ex_range_nack + ucast (NAckRange ex_range_nack))) (transmittedBuffer ex_waiting)"
    by blast
  moreover have "map data_SN (filter (\<lambda>b. \<not> (NAck_SN ex_range_nack \<le> data_SN b
        \<and> data_SN b \<le> NAck_SN ex_range_nack + ucast (NAckRange ex_range_nack))) (transmittedBuffer ex_waiting)) = [5, 9]"
    by code_simp
  ultimately show ?thesis using r by simp
qed

text \<open>
  C24. A status PDU loses nothing silently: every entry that waited for its
  acknowledgement still waits and is not acknowledged, or is in the retransmission buffer
  with one retransmission more and the poll bit off, or was freed because it is
  acknowledged, or was freed because it used up its retransmissions.
\<close>

theorem am_status_loses_nothing_silently:
  assumes "am_receive_status E e packet s = Inr (e', s')"
  shows "\<exists>st. LTENR_RLCMSG_STATUSPDU_GET E packet = Some st
    \<and> (\<forall>b \<in> set (transmittedBuffer e).
         b \<in> set (transmittedBuffer e') \<and> \<not> data_SN b < Ack_SN st
       \<or> (\<exists>b' \<in> set (retransmissionBuffer e'). nacked E b b')
       \<or> data_SN b < Ack_SN st \<and> FreePacket (data_packet b) \<in> set (trace s')
       \<or> retxCount b = maxRetxThreshold e \<and> FreePacket (data_packet b) \<in> set (trace s'))
    \<and> set (transmittedBuffer e') \<subseteq> set (transmittedBuffer e)"
proof -
  obtain st e1 s1 e2 s2 where st: "LTENR_RLCMSG_STATUSPDU_GET E packet = Some st"
    and v: "tx_view e1 = tx_view e" and n: "nack_loop E (nackList st) (e1, s1) = Inr (e2, s2)"
    and t: "transmittedBuffer e' = filter (\<lambda>b. \<not> data_SN b < Ack_SN st) (transmittedBuffer e2)"
    and r: "retransmissionBuffer e' = retransmissionBuffer e2"
    and tr: "set (trace s2) \<union> (\<lambda>b. FreePacket (data_packet b)) `
       {b \<in> set (transmittedBuffer e2). data_SN b < Ack_SN st} \<subseteq> set (trace s')"
    using assms by (rule receive_status_cases)
  note v = tx_viewD [OF v]
  have m: "moves_on E (e1, s1) (e2, s2)" by (rule nack_loop_moves [OF n])
  have freed: "FreePacket (data_packet b) \<in> set (trace s')"
    if "b \<in> set (transmittedBuffer e2)" "data_SN b < Ack_SN st" for b
    using tr that by auto
  have "b \<in> set (transmittedBuffer e') \<and> \<not> data_SN b < Ack_SN st
       \<or> (\<exists>b' \<in> set (retransmissionBuffer e'). nacked E b b')
       \<or> data_SN b < Ack_SN st \<and> FreePacket (data_packet b) \<in> set (trace s')
       \<or> retxCount b = maxRetxThreshold e \<and> FreePacket (data_packet b) \<in> set (trace s')"
    if "b \<in> set (transmittedBuffer e)" for b
  proof -
    have "b \<in> set (transmittedBuffer e2) \<or> (\<exists>b' \<in> set (retransmissionBuffer e2). nacked E b b')
        \<or> retxCount b = maxRetxThreshold e \<and> FreePacket (data_packet b) \<in> set (trace s2)"
      using m that v by (simp add: moves_on_def)
    then show ?thesis using freed [of b] tr t r by auto
  qed
  moreover have "set (transmittedBuffer e') \<subseteq> set (transmittedBuffer e)"
    using m t v by (auto simp: moves_on_def)
  ultimately show ?thesis using st by blast
qed

definition ex_status_pdu :: NetSim_PACKET where
  "ex_status_pdu = plain_add (plain_create 2 1 0 LTENR_MSG_RLC_STATUSPDU)
     (STATUS \<lparr>sp_dcBit = DC_CONTROL, sp_CPT = 0, Ack_SN = 9, sp_E1 = True, NACKCount = 1,
        nackList = [ex_range_nack]\<rparr>) rlcMsgSTATUSPDUHDRID 3"

lemma am_status_loses_nothing_silently_witness:
  "\<exists>e' s'. am_receive_status plain_rlc_env ex_waiting ex_status_pdu ex_event = Inr (e', s')
     \<and> set (transmittedBuffer e') \<subseteq> set (transmittedBuffer ex_waiting)
     \<and> map data_SN (retransmissionBuffer e') = [6, 7, 8]"
proof -
  have c: "case am_receive_status plain_rlc_env ex_waiting ex_status_pdu ex_event of
      Inr (e', s') \<Rightarrow> map data_SN (retransmissionBuffer e') = [6, 7, 8] | Inl f \<Rightarrow> False"
    by code_simp
  then obtain e' s' where r: "am_receive_status plain_rlc_env ex_waiting ex_status_pdu ex_event = Inr (e', s')"
    by (auto split: sum.splits)
  with c am_status_loses_nothing_silently [OF r] show ?thesis by auto
qed

text \<open>
  C37. After a status PDU a sender with nothing new to send never retransmits: the
  transmitting window is moved to the next sequence number to use, every entry of the
  retransmission buffer falls out of it, and no grant, however large, sends any of them.
\<close>

theorem am_nacked_never_resent:
  assumes "am_receive_status E e packet s = Inr (e', s')" and "transmissionBuffer e = []"
    and "\<forall>b \<in> set (transmittedBuffer e) \<union> set (retransmissionBuffer e). data_SN b < AM_TX_Next e"
  shows "LTENR_RLCAM_SendPDUFromRetransmissionBuffer E e' t sz ch = Inr (e', t, 0)"
proof -
  obtain st e1 s1 e2 s2 where "LTENR_RLCMSG_STATUSPDU_GET E packet = Some st"
    and v: "tx_view e1 = tx_view e" and n: "nack_loop E (nackList st) (e1, s1) = Inr (e2, s2)"
    and r: "retransmissionBuffer e' = retransmissionBuffer e2"
    and x: "AM_TX_Next_Ack e' = (case transmissionBuffer e2 of b # bs \<Rightarrow> data_SN b | [] \<Rightarrow> AM_TX_Next e2)"
    using assms(1) by (rule receive_status_cases)
  note v = tx_viewD [OF v]
  have m: "moves_on E (e1, s1) (e2, s2)" by (rule nack_loop_moves [OF n])
  then have "AM_TX_Next_Ack e' = AM_TX_Next e"
    using x v assms(2) by (simp add: moves_on_def)
  moreover have "data_SN ` set (retransmissionBuffer e')
      \<subseteq> data_SN ` (set (transmittedBuffer e) \<union> set (retransmissionBuffer e))"
    using m r v by (simp add: moves_on_def)
  ultimately have "\<not> LTENR_RLCAM_IsSNFallsInTransmittingWindow e' (data_SN b)"
    if b: "b \<in> set (retransmissionBuffer e')" for b
  proof -
    obtain c where "c \<in> set (transmittedBuffer e) \<union> set (retransmissionBuffer e)" "data_SN b = data_SN c"
      using subsetD [OF \<open>data_SN ` _ \<subseteq> _\<close> imageI [OF b]] by auto
    then show ?thesis
      using assms(3) \<open>AM_TX_Next_Ack e' = AM_TX_Next e\<close>
      by (simp add: LTENR_RLCAM_IsSNFallsInTransmittingWindow_def not_le)
  qed
  then show ?thesis
    by (simp add: LTENR_RLCAM_SendPDUFromRetransmissionBuffer_def retx_loop_out_of_window)
qed

lemma am_nacked_never_resent_witness:
  "\<exists>e' s'. am_receive_status plain_rlc_env ex_waiting ex_status_pdu ex_event = Inr (e', s')
     \<and> map data_SN (retransmissionBuffer e') = [6, 7, 8]
     \<and> LTENR_RLCAM_SendPDUFromRetransmissionBuffer plain_rlc_env e' s' 100000 LTENR_LOGICALCHANNEL_DTCH
       = Inr (e', s', 0)"
proof -
  have c: "case am_receive_status plain_rlc_env ex_waiting ex_status_pdu ex_event of
      Inr (e', s') \<Rightarrow> map data_SN (retransmissionBuffer e') = [6, 7, 8] | Inl f \<Rightarrow> False"
    by code_simp
  then obtain e' s' where r: "am_receive_status plain_rlc_env ex_waiting ex_status_pdu ex_event = Inr (e', s')"
    by (auto split: sum.splits)
  have "transmissionBuffer ex_waiting = []" by code_simp
  moreover have "\<forall>b \<in> set (transmittedBuffer ex_waiting) \<union> set (retransmissionBuffer ex_waiting).
      data_SN b < AM_TX_Next ex_waiting"
    by code_simp
  ultimately show ?thesis using am_nacked_never_resent [OF r] c r by auto
qed


lemma retx_loop_total:
  assumes "rlc_environment E" and "\<forall>b \<in> set bufs. LTENR_RLCMSG_AMHDR_GET E (data_packet b) \<noteq> None"
  shows "\<exists>e' s' left' rest. retx_loop E ch e s left bufs = Inr (e', s', left', rest)"
  using assms(2)
proof (induction bufs arbitrary: e s left)
  case Nil
  then show ?case by simp
next
  case (Cons b bs)
  have ih: "\<exists>e' s' left' rest. retx_loop E ch e s left bs = Inr (e', s', left', rest)" for e s left
    using Cons by simp
  obtain h where "LTENR_RLCMSG_AMHDR_GET E (data_packet b) = Some h" using Cons.prems by auto
  then have h: "LTENR_RLCMSG_AMHDR_GET E (fn_NetSim_Packet_CopyPacket E (data_packet b)) = Some h"
    using packet_api.AMHDR_GET_copy rlc_environment.axioms(1) assms(1) by metis
  have send: "\<exists>e' s' left' rest. rbind (LTENR_RLCAM_SendPDUToMac E e1
      (fn_NetSim_Packet_CopyPacket E (data_packet b)) s) (\<lambda>(e2, s2). retx_loop E ch (f e2) s2 left bs)
      = Inr (e', s', left', rest)" for e1 f left
  proof -
    obtain e2 s2 where "LTENR_RLCAM_SendPDUToMac E e1 (fn_NetSim_Packet_CopyPacket E (data_packet b)) s = Inr (e2, s2)"
      using SendPDUToMac_total [OF h] by blast
    then show ?thesis using ih by simp
  qed
  obtain e' s' left' rest where k: "retx_loop E ch e s left bs = Inr (e', s', left', rest)"
    using ih by blast
  show ?case
    unfolding retx_loop.simps Let_def using send by (simp add: k)
qed

lemma am_send_pdu_spec:
  assumes "rlc_environment E" and "\<forall>b \<in> set (transmissionBuffer e). good_entry E b"
    and "\<forall>b \<in> set (retransmissionBuffer e). LTENR_RLCMSG_AMHDR_GET E (data_packet b) \<noteq> None
          \<and> (\<exists>k. dPacketSize (data_packet b) = real k)"
    and "AM_PDU_WITHOUT_POLL e < pollPDU e"
  shows "\<exists>e' s' n again new. am_send_pdu E e s sz ch = Inr (e', s', n) \<and> n \<le> sz
    \<and> transmittedBuffer e' = transmittedBuffer e @ again @ new
    \<and> mac_of (trace s') = mac_of (trace s) @
        map (\<lambda>d. fn_NetSim_Packet_CopyPacket E (data_packet d)) (again @ new)
    \<and> mset (retransmissionBuffer e) = mset again + mset (retransmissionBuffer e')
    \<and> entry_payload (transmissionBuffer e') + entry_payload new = entry_payload (transmissionBuffer e)
    \<and> double_of_UINT n = sum_list (map (\<lambda>d. dPacketSize (data_packet d)) again) + entry_payload new
    \<and> (\<forall>d \<in> set again. channel d = ch \<and> AM_TX_Next_Ack e \<le> data_SN d)
    \<and> AM_PDU_WITHOUT_POLL e' < pollPDU e'"
proof -
  obtain e1 s1 left1 rest1 where
    l1: "retx_loop E ch e s sz (retransmissionBuffer e) = Inr (e1, s1, left1, rest1)"
    using retx_loop_total [OF assms(1)] assms(3) by blast
  obtain again where a: "transmittedBuffer e1 = transmittedBuffer e @ again"
    "mset (retransmissionBuffer e) = mset again + mset rest1"
    "mac_of (trace s1) = mac_of (trace s) @ map (\<lambda>d. fn_NetSim_Packet_CopyPacket E (data_packet d)) again"
    "sum_list (map (\<lambda>d. dPacketSize (data_packet d)) again) + double_of_UINT left1 = double_of_UINT sz"
    "\<forall>d \<in> set again. LTENR_RLCAM_IsSNFallsInTransmittingWindow e (data_SN d) \<and> channel d = ch"
    "transmissionBuffer e1 = transmissionBuffer e" "poll_ok e1"
    using retx_loop_spec [OF l1] assms(3,4) by (auto simp: poll_ok_def)
  let ?e1 = "e1\<lparr>retransmissionBuffer := rest1\<rparr>"
  have rp: "0 \<le> sum_list (map (\<lambda>d. dPacketSize (data_packet d)) again)"
  proof (rule sum_list_nonneg)
    fix x assume "x \<in> set (map (\<lambda>d. dPacketSize (data_packet d)) again)"
    then obtain d where d: "d \<in> set again" "x = dPacketSize (data_packet d)" by auto
    have "set again \<subseteq> set (retransmissionBuffer e)"
      using a(2) by (metis mset_subset_eq_add_left set_mset_mono set_mset_mset)
    with d assms(3) show "0 \<le> x" by (metis of_nat_0_le_iff subsetD)
  qed
  have l1_le: "left1 \<le> sz" using a(4) rp by (simp add: word_le_nat_alt)
  obtain e2 s2 left2 rest2 new where
    l2: "tx_loop (2 * length (transmissionBuffer ?e1) + 2) E ch ?e1 s1 left1 (transmissionBuffer ?e1)
      = Inr (e2, s2, left2, rest2)"
    and r: "tx_result E ?e1 s1 left1 (transmissionBuffer ?e1) e2 s2 left2 rest2 new"
    using rlc_environment.tx_loop_spec [OF assms(1), of "transmissionBuffer ?e1"
        "2 * length (transmissionBuffer ?e1) + 2" ch ?e1 s1 left1] assms(2) a(6) by auto
  have "0 \<le> entry_payload new"
    using r unfolding tx_result_def entry_payload_def by (intro sum_list_nonneg) auto
  then have l2_le: "left2 \<le> left1" using r by (simp add: tx_result_def word_le_nat_alt)
  let ?e2 = "e2\<lparr>transmissionBuffer := rest2\<rparr>"
  have run: "am_send_pdu E e s sz ch = Inr (?e2, s2, sz - left2)"
    using l1 l2 a(6)
    by (simp add: am_send_pdu_def LTENR_RLCAM_SendPDUFromRetransmissionBuffer_def
        LTENR_RLCAM_SendPDUFromTransmissionBuffer_def)
  have le: "left2 \<le> sz" using l1_le l2_le by (rule order.trans [rotated])
  then have n: "sz - left2 \<le> sz" "double_of_UINT (sz - left2) = double_of_UINT sz - double_of_UINT left2"
    by (simp_all add: word_le_nat_alt unat_sub of_nat_diff)
  have p: "AM_PDU_WITHOUT_POLL ?e2 < pollPDU ?e2"
    using r a(7) by (auto simp: tx_result_def poll_ok_def)
  have r': "transmittedBuffer e2 = transmittedBuffer e1 @ new"
    "mac_of (trace s2) = mac_of (trace s1) @ map (\<lambda>d. fn_NetSim_Packet_CopyPacket E (data_packet d)) new"
    "double_of_UINT left2 + entry_payload new = double_of_UINT left1"
    "entry_payload rest2 + entry_payload new = entry_payload (transmissionBuffer e)"
    "retransmissionBuffer e2 = rest1"
    using r a(6) by (auto simp: tx_result_def)
  show ?thesis
  proof (intro exI conjI, rule run)
    show "double_of_UINT (sz - left2) = sum_list (map (\<lambda>d. dPacketSize (data_packet d)) again) + entry_payload new"
      using n(2) r'(3) a(4) by linarith
    show "\<forall>d \<in> set again. channel d = ch \<and> AM_TX_Next_Ack e \<le> data_SN d"
      using a(5) by (auto simp: LTENR_RLCAM_IsSNFallsInTransmittingWindow_def)
  qed (use r' a n p in simp_all)
qed

text \<open>
  C20. One grant: retransmissions first, new SDUs with what they left. The call always ends,
  reports at most the grant, sends only from the window and on the channel asked for when it
  retransmits, and the number of PDUs since the last poll stays below \<open>pollPDU\<close>.
\<close>

theorem am_send_pdu_within_grant:
  assumes "rlc_environment E" and "\<forall>b \<in> set (transmissionBuffer e). good_entry E b"
    and "\<forall>b \<in> set (retransmissionBuffer e). LTENR_RLCMSG_AMHDR_GET E (data_packet b) \<noteq> None
          \<and> (\<exists>k. dPacketSize (data_packet b) = real k)"
    and "AM_PDU_WITHOUT_POLL e < pollPDU e"
  shows "\<exists>e' s' n again new. am_send_pdu E e s sz ch = Inr (e', s', n) \<and> n \<le> sz
    \<and> transmittedBuffer e' = transmittedBuffer e @ again @ new
    \<and> mac_of (trace s') = mac_of (trace s) @
        map (\<lambda>d. fn_NetSim_Packet_CopyPacket E (data_packet d)) (again @ new)
    \<and> mset (retransmissionBuffer e) = mset again + mset (retransmissionBuffer e')
    \<and> entry_payload (transmissionBuffer e') + entry_payload new = entry_payload (transmissionBuffer e)
    \<and> double_of_UINT n = sum_list (map (\<lambda>d. dPacketSize (data_packet d)) again) + entry_payload new
    \<and> (\<forall>d \<in> set again. channel d = ch \<and> AM_TX_Next_Ack e \<le> data_SN d)
    \<and> AM_PDU_WITHOUT_POLL e' < pollPDU e'"
  by (rule am_send_pdu_spec [OF assms])

definition ex_busy :: LTENR_RLCENTITY where
  "ex_busy = ex_am\<lparr>transmissionBuffer := [ex_sdu 7 20 10, ex_sdu 8 60 10],
     retransmissionBuffer := [ex_sent 5], AM_TX_Next_Ack := 5, AM_TX_Next := 9,
     pollPDU := 4, pollByte := 1000\<rparr>"

lemma am_send_pdu_within_grant_witness:
  "\<exists>e' s' n. am_send_pdu plain_rlc_env ex_busy ex_event 100 LTENR_LOGICALCHANNEL_DTCH = Inr (e', s', n)
     \<and> n \<le> 100 \<and> AM_PDU_WITHOUT_POLL e' < pollPDU e'"
proof -
  have g: "\<forall>b \<in> set (transmissionBuffer ex_busy). good_entry plain_rlc_env b"
    using ex_sdu_good [of 20 7 10] ex_sdu_good [of 60 8 10] by (simp add: ex_busy_def)
  have "dPacketSize (data_packet (ex_sent 5)) = real 32" by code_simp
  moreover have "LTENR_RLCMSG_AMHDR_GET plain_rlc_env (data_packet (ex_sent 5)) \<noteq> None" by code_simp
  ultimately have r: "\<forall>b \<in> set (retransmissionBuffer ex_busy).
      LTENR_RLCMSG_AMHDR_GET plain_rlc_env (data_packet b) \<noteq> None
      \<and> (\<exists>k. dPacketSize (data_packet b) = real k)"
    unfolding ex_busy_def by auto
  have p: "AM_PDU_WITHOUT_POLL ex_busy < pollPDU ex_busy" by code_simp
  show ?thesis
    using am_send_pdu_within_grant [OF plain_rlc.rlc_environment_axioms g r p] by blast
qed

end
