(* ===== verification/RLC_UM.thy ===== *)
theory RLC_UM
  imports RLC_Entity
begin

text \<open>
  RLC unacknowledged mode (\<open>LTE_NR/LTENR_RLC_UM.c\<close>): reception buffers, the reassembly
  timer, segmentation and sending, and the receiving side with its reassembly window.
\<close>

section \<open>Reception buffer\<close>

definition LTENR_RLC_UM_FINDRECEPTIONBUFFER :: "LTENR_RLCENTITY \<Rightarrow> u32 \<Rightarrow> nat option" where
  "LTENR_RLC_UM_FINDRECEPTIONBUFFER entity sn = find_receptionBuffer (UM_receptionBuffer entity) sn"

text \<open>The new buffer is the last of the list; its position is given back.\<close>

definition LTENR_RLC_UM_CREATERECEPTIONBUFFER ::
  "rlc_env \<Rightarrow> LTENR_RLCENTITY \<Rightarrow> u32 \<Rightarrow> LTENR_RLCENTITY \<times> nat" where
  "LTENR_RLC_UM_CREATERECEPTIONBUFFER E entity sn =
     (let buf = LTENR_RLC_RECEPTIONBUFFER_ALLOC\<lparr>rb_SN := sn\<rparr>
      in (entity\<lparr>UM_receptionBuffer := list_add_last (rb_lib E) (UM_receptionBuffer entity) buf\<rparr>,
          length (UM_receptionBuffer entity)))"

definition LTENR_RLC_UM_DeleteReceptionBuffer ::
  "rlc_env \<Rightarrow> LTENR_RLCENTITY \<Rightarrow> nat \<Rightarrow> LTENR_RLCENTITY" where
  "LTENR_RLC_UM_DeleteReceptionBuffer E entity i =
     entity\<lparr>UM_receptionBuffer := list_free (rb_lib E) (UM_receptionBuffer entity) i\<rparr>"

text \<open>
  \<open>isRecv[h->SO] = true\<close> for each segment. Where the \<open>assert\<close> before it fails, the write is
  past the end of the array.
\<close>

fun um_mark_received ::
  "'z pkt_api_scheme \<Rightarrow> NetSim_PACKET list \<Rightarrow> bool list \<Rightarrow> bool list result" where
  "um_mark_received E [] isRecv = Inr isRecv"
| "um_mark_received E (p # ps) isRecv =
     rbind (deref (LTENR_RLCMSG_UMHDR_GET E p)) (\<lambda>h.
     if unat (um_SO h) < length isRecv
     then um_mark_received E ps (isRecv[unat (um_SO h) := True])
     else Inl OutOfBounds)"

definition LTENR_RLC_UM_isAllByteSegmentReceived ::
  "'z pkt_api_scheme \<Rightarrow> LTENR_RLC_RECEPTIONBUFFER \<Rightarrow> bool result" where
  "LTENR_RLC_UM_isAllByteSegmentReceived E buffer =
     (if \<not> isLastSDUReceived buffer then Inr False
      else rbind (um_mark_received E (rb_packets buffer)
                    (replicate (unat (lastSDUSO buffer) + 1) False)) (\<lambda>isRecv.
           Inr (all_marked isRecv (unat (lastSDUSO buffer)))))"

definition LTENR_RLC_UM_isAllBytesReceivedForSN ::
  "'z pkt_api_scheme \<Rightarrow> LTENR_RLCENTITY \<Rightarrow> u32 \<Rightarrow> bool result" where
  "LTENR_RLC_UM_isAllBytesReceivedForSN E entity sn =
     (case LTENR_RLC_UM_FINDRECEPTIONBUFFER entity sn of
        None \<Rightarrow> Inr True
      | Some i \<Rightarrow> LTENR_RLC_UM_isAllByteSegmentReceived E (UM_receptionBuffer entity ! i))"

definition LTENR_RLC_UM_AddToReceptionBuffer ::
  "'z pkt_api_scheme \<Rightarrow> LTENR_RLC_RECEPTIONBUFFER \<Rightarrow> NetSim_PACKET
     \<Rightarrow> LTENR_RLC_RECEPTIONBUFFER result" where
  "LTENR_RLC_UM_AddToReceptionBuffer E buffer packet =
     (let b1 = buffer\<lparr>rb_packets := rb_packets buffer @ [packet]\<rparr>
      in rbind (deref (LTENR_RLCMSG_UMHDR_GET E packet)) (\<lambda>h.
         Inr (if um_si h = SI_LAST
              then b1\<lparr>isLastSDUReceived := True, lastSDUSO := ucast (um_SO h)\<rparr> else b1)))"

definition LTENR_RLC_UM_ReassembleAllBytes ::
  "LTENR_RLC_RECEPTIONBUFFER \<Rightarrow> (NetSim_PACKET \<times> effect list) result" where
  "LTENR_RLC_UM_ReassembleAllBytes buffer = ReassembleAllBytes buffer"

definition LTENR_RLC_UM_UpdateRXNextReassembly :: "LTENR_RLCENTITY \<Rightarrow> LTENR_RLCENTITY" where
  "LTENR_RLC_UM_UpdateRXNextReassembly entity =
     (case find (\<lambda>buf. rb_SN buf > UM_RX_Next_Reassembly entity) (UM_receptionBuffer entity) of
        None \<Rightarrow> entity
      | Some buf \<Rightarrow> entity\<lparr>UM_RX_Next_Reassembly := rb_SN buf\<rparr>)"

definition LTENR_RLC_UM_PLACE_UMDPDU_IN_RECEPTIONBUFFER ::
  "rlc_env \<Rightarrow> LTENR_RLCENTITY \<Rightarrow> NetSim_PACKET \<Rightarrow> EVENTDETAILS
     \<Rightarrow> (LTENR_RLCENTITY \<times> EVENTDETAILS) result" where
  "LTENR_RLC_UM_PLACE_UMDPDU_IN_RECEPTIONBUFFER E entity packet s =
     rbind (deref (LTENR_RLCMSG_UMHDR_GET E packet)) (\<lambda>hdr.
     let x = um_SN hdr;
         (e1, i) = (case LTENR_RLC_UM_FINDRECEPTIONBUFFER entity x of
                      None \<Rightarrow> LTENR_RLC_UM_CREATERECEPTIONBUFFER E entity x
                    | Some i \<Rightarrow> (entity, i))
     in rbind (LTENR_RLC_UM_AddToReceptionBuffer E (UM_receptionBuffer e1 ! i) packet) (\<lambda>buffer.
        let e2 = e1\<lparr>UM_receptionBuffer := (UM_receptionBuffer e1)[i := buffer]\<rparr>
        in rbind (LTENR_RLC_UM_isAllByteSegmentReceived E buffer) (\<lambda>complete.
           if complete
           then rbind (LTENR_RLC_UM_ReassembleAllBytes buffer) (\<lambda>(p, frees).
                let packet' = LTENR_RLCMSG_UMDHDR_REMOVE E p;
                    e3 = LTENR_RLC_UM_DeleteReceptionBuffer E e2 i
                in Inr (if x = UM_RX_Next_Reassembly e3
                        then LTENR_RLC_UM_UpdateRXNextReassembly e3 else e3,
                      emit (ToPDCP packet') ((emits frees s)\<lparr>pPacket := Some packet'\<rparr>)))
           else Inr (e2, s))))"

definition LTENR_RLC_UM_ReceptionBuffer_FindSN :: "LTENR_RLCENTITY \<Rightarrow> u32 \<Rightarrow> string \<Rightarrow> u32" where
  "LTENR_RLC_UM_ReceptionBuffer_FindSN entity sn op =
     ReceptionBuffer_FindSN (UM_receptionBuffer entity) sn op"

text \<open>After freeing a buffer the walk starts again at the head of the list.\<close>

fun um_discard_loop ::
  "rlc_env \<Rightarrow> nat \<Rightarrow> u32 \<Rightarrow> LTENR_RLCENTITY \<Rightarrow> EVENTDETAILS \<Rightarrow> nat
     \<Rightarrow> (LTENR_RLCENTITY \<times> EVENTDETAILS) result" where
  "um_discard_loop E 0 sn entity s i = Inl Diverges"
| "um_discard_loop E (Suc fuel) sn entity s i =
     (if i < length (UM_receptionBuffer entity)
      then let buffer = UM_receptionBuffer entity ! i
           in if rb_SN buffer < sn
              then um_discard_loop E fuel sn
                     (entity\<lparr>UM_receptionBuffer := list_free (rb_lib E) (UM_receptionBuffer entity) i\<rparr>)
                     (emits (map FreePacket (rb_packets buffer)) s) 0
              else um_discard_loop E fuel sn entity s (Suc i)
      else Inr (entity, s))"

definition LTENR_RLC_UN_DiscardAllSengmentFromReceptionBuffer ::
  "rlc_env \<Rightarrow> LTENR_RLCENTITY \<Rightarrow> EVENTDETAILS \<Rightarrow> u32 \<Rightarrow> (LTENR_RLCENTITY \<times> EVENTDETAILS) result" where
  "LTENR_RLC_UN_DiscardAllSengmentFromReceptionBuffer E entity s sn =
     um_discard_loop E (purge_fuel (length (UM_receptionBuffer entity))) sn entity s 0"

section \<open>The reassembly timer\<close>

definition LTENR_RLC_UM_Start_t_ReassemblyTimer ::
  "rlc_env \<Rightarrow> LTENR_RLCENTITY \<Rightarrow> EVENTDETAILS \<Rightarrow> LTENR_RLCENTITY \<times> EVENTDETAILS" where
  "LTENR_RLC_UM_Start_t_ReassemblyTimer E entity s = LTENR_RLC_Start_t_ReassemblyTimer E entity s"

definition LTENR_RLC_UM_Stop_t_ReassemblyTimer ::
  "LTENR_RLCENTITY \<Rightarrow> EVENTDETAILS \<Rightarrow> LTENR_RLCENTITY \<times> EVENTDETAILS" where
  "LTENR_RLC_UM_Stop_t_ReassemblyTimer entity s = LTENR_RLC_Stop_t_ReassemblyTimer entity s"

text \<open>
  The test that starts the timer, on the handler of the timer and on reception; the second
  operand of \<open>&&\<close> is evaluated only when the first holds.
\<close>

definition um_start_test :: "rlc_env \<Rightarrow> LTENR_RLCENTITY \<Rightarrow> bool result" where
  "um_start_test E e =
     (if UM_RX_Next_Highest e > UM_RX_Next_Reassembly e + 1 then Inr True
      else if UM_RX_Next_Highest e = UM_RX_Next_Reassembly e + 1
      then rbind (LTENR_RLC_UM_isAllBytesReceivedForSN E e (UM_RX_Next_Reassembly e)) (\<lambda>r. Inr (\<not> r))
      else Inr False)"

definition um_start_timer ::
  "rlc_env \<Rightarrow> LTENR_RLCENTITY \<Rightarrow> EVENTDETAILS \<Rightarrow> (LTENR_RLCENTITY \<times> EVENTDETAILS) result" where
  "um_start_timer E e s =
     rbind (um_start_test E e) (\<lambda>b.
     if b then let (e1, s1) = LTENR_RLC_UM_Start_t_ReassemblyTimer E e s
               in Inr (e1\<lparr>UM_RX_Timer_Trigger := UM_RX_Next_Highest e1\<rparr>, s1)
     else Inr (e, s))"

text \<open>The handler leaves \<open>isReassemblyTimerStarted\<close> as it is.\<close>

definition LTENR_RLC_UM_Handle_t_reassemblyTimer ::
  "rlc_env \<Rightarrow> LTENR_RLCENTITY \<Rightarrow> EVENTDETAILS \<Rightarrow> (LTENR_RLCENTITY \<times> EVENTDETAILS) result" where
  "LTENR_RLC_UM_Handle_t_reassemblyTimer E entity s =
     (let e1 = entity\<lparr>UM_RX_Next_Reassembly :=
                 LTENR_RLC_UM_ReceptionBuffer_FindSN entity (UM_RX_Timer_Trigger entity) ''>=''\<rparr>
      in rbind (LTENR_RLC_UN_DiscardAllSengmentFromReceptionBuffer E e1 s (UM_RX_Next_Reassembly e1))
           (\<lambda>(e2, s2). um_start_timer E e2 s2))"

section \<open>Sending\<close>

text \<open>\<open>LTENR_RLC_UM_HandlePDUFromUpperLayer\<close>, once the entity is found.\<close>

definition um_handle_pdu_from_upper ::
  "LTENR_RLCENTITY \<Rightarrow> NetSim_PACKET \<Rightarrow> LTENR_RLCENTITY result" where
  "um_handle_pdu_from_upper entity packet =
     rbind (LTENR_PACKET_GET_LOGICALCHANNEL packet) (\<lambda>ch.
     Inr (entity\<lparr>transmissionBuffer := transmissionBuffer entity @ [buf_new packet 0 0 ch],
          bufferStatus := (bufferStatus entity)
            (ch := bufferStatus entity ch + UINT_of_double (dPayload packet))\<rparr>))"

text \<open>The fragment to send, and the packet that stays in the buffer.\<close>

definition LTENR_RLC_UM_FRAGMENT_PACKET ::
  "'z pkt_api_scheme \<Rightarrow> NetSim_PACKET \<Rightarrow> u32 \<Rightarrow> u32 \<Rightarrow> NetSim_PACKET \<times> NetSim_PACKET" where
  "LTENR_RLC_UM_FRAGMENT_PACKET E p sz sn =
     (let (so, si) = (case LTENR_RLCMSG_UMHDR_GET E p of
                        Some hdr \<Rightarrow> (um_SO hdr, SI_MIDDLE) | None \<Rightarrow> (0, SI_FIRST));
          p1 = LTENR_RLCMSG_UMDHDR_REMOVE E p;
          c = fn_NetSim_Packet_CopyPacket E p1;
          c1 = c\<lparr>dPayload := double_of_UINT sz\<rparr>;
          ret = c1\<lparr>dPacketSize := dPayload c1 + dOverhead c1\<rparr>;
          p2 = p1\<lparr>dPayload := dPayload p1 - double_of_UINT sz,
                  dPacketSize := dPacketSize p1 - double_of_UINT sz\<rparr>
      in (fst (LTENR_RLCMSG_UMHDR_ADD E ret si sn so),
          fst (LTENR_RLCMSG_UMHDR_ADD E p2 SI_MIDDLE sn (so + 1))))"

text \<open>The packet with its last header, and the \<open>int\<close> result: -1 for an unsegmented SDU.\<close>

definition LTENR_RLC_UM_ADD_HDR ::
  "'z pkt_api_scheme \<Rightarrow> NetSim_PACKET \<Rightarrow> NetSim_PACKET \<times> u32" where
  "LTENR_RLC_UM_ADD_HDR E p =
     (let (sn, so, si, ret) = (case LTENR_RLCMSG_UMHDR_GET E p of
            Some hdr \<Rightarrow> (um_SN hdr, um_SO hdr, SI_LAST, um_SN hdr)
          | None \<Rightarrow> (0, 0, SI_ALL, - 1))
      in (fst (LTENR_RLCMSG_UMHDR_ADD E (LTENR_RLCMSG_UMDHDR_REMOVE E p) si sn so), ret))"

text \<open>
  The walk through the transmission buffer: \<open>keep\<close> is what the entries passed so far have
  become. A fragmented entry is looked at again.
\<close>

fun um_tx_loop ::
  "nat \<Rightarrow> rlc_env \<Rightarrow> netsim_id \<Rightarrow> netsim_id \<Rightarrow> LTENR_LOGICALCHANNEL \<Rightarrow> LTENR_RLCENTITY
     \<Rightarrow> EVENTDETAILS \<Rightarrow> u32 \<Rightarrow> LTENR_RLCBUFFER_DATA list \<Rightarrow> LTENR_RLCBUFFER_DATA list
     \<Rightarrow> (LTENR_RLCENTITY \<times> EVENTDETAILS \<times> u32 \<times> LTENR_RLCBUFFER_DATA list) result" where
  "um_tx_loop 0 E d i ch e s left keep bufs = Inl Diverges"
| "um_tx_loop (Suc fuel) E d i ch e s left keep [] = Inr (e, s, left, keep)"
| "um_tx_loop (Suc fuel) E d i ch e s left keep (buf # bufs) =
     (if channel buf \<noteq> ch then um_tx_loop fuel E d i ch e s left (keep @ [buf]) bufs
      else if left < MIN_RLC_PDU_SIZE then Inr (e, s, left, keep @ buf # bufs)
      else
        let p = data_packet buf;
            send = (\<lambda>e1 sent keep' todo.
              let n = UINT_of_double (dPayload sent);
                  e2 = e1\<lparr>bufferStatus := (bufferStatus e1)(ch := bufferStatus e1 ch - n)\<rparr>
              in um_tx_loop fuel E d i ch e2 (LTENR_RLC_SENDPDUTOMAC E d i sent s) (left - n) keep' todo)
        in if LTENR_IS_UPLANE_MSG p \<and> dPacketSize p > double_of_UINT left
           then case LTENR_RLC_UM_FRAGMENT_PACKET E p left (UM_TX_Next e) of
                  (frag, p') \<Rightarrow> send e frag keep (buf\<lparr>data_packet := p'\<rparr> # bufs)
           else case LTENR_RLC_UM_ADD_HDR E p of
                  (p', sn) \<Rightarrow>
                    send (if sn \<noteq> - 1 then e\<lparr>UM_TX_Next := UM_TX_Next e + 1\<rparr> else e) p'
                      (keep @ [buf\<lparr>data_packet := p', isMarkedForRemoval := True\<rparr>]) bufs)"

text \<open>\<open>LTENR_RLC_UM_SEND_PDU\<close>, once the entity is found.\<close>

definition um_send_pdu ::
  "rlc_env \<Rightarrow> netsim_id \<Rightarrow> netsim_id \<Rightarrow> LTENR_RLCENTITY \<Rightarrow> EVENTDETAILS \<Rightarrow> u32
     \<Rightarrow> LTENR_LOGICALCHANNEL \<Rightarrow> (LTENR_RLCENTITY \<times> EVENTDETAILS \<times> u32) result" where
  "um_send_pdu E d i entity s sz lch =
     rbind (um_tx_loop (2 * length (transmissionBuffer entity) + 2) E d i lch entity s sz []
              (transmissionBuffer entity))
       (\<lambda>(e', s', left, bufs). Inr (e'\<lparr>transmissionBuffer := buf_update bufs\<rparr>, s', sz - left))"

section \<open>Receiving\<close>

definition LTENR_RLC_UM_IsSNFallsInReassemblyWindows :: "LTENR_RLCENTITY \<Rightarrow> u32 \<Rightarrow> bool" where
  "LTENR_RLC_UM_IsSNFallsInReassemblyWindows entity sn \<longleftrightarrow>
     UM_RX_Next_Highest entity - UM_Window_Size \<le> sn \<and> sn < UM_RX_Next_Highest entity"

text \<open>The loop does not step to the next buffer: it ends at the first one or never.\<close>

definition LTENR_RLC_UM_NextRXReassembly :: "LTENR_RLCENTITY \<Rightarrow> u32 result" where
  "LTENR_RLC_UM_NextRXReassembly entity =
     (case UM_receptionBuffer entity of
        [] \<Rightarrow> Inr 0
      | buf # bufs \<Rightarrow>
          if rb_SN buf \<ge> UM_RX_Next_Highest entity - UM_Window_Size then Inr (rb_SN buf)
          else Inl Diverges)"

definition um_restart_test :: "rlc_env \<Rightarrow> LTENR_RLCENTITY \<Rightarrow> bool result" where
  "um_restart_test E e =
     (if UM_RX_Timer_Trigger e \<le> UM_RX_Next_Reassembly e then Inr True
      else if UM_RX_Next_Highest e - UM_Window_Size \<le> UM_RX_Timer_Trigger e
              \<and> UM_RX_Timer_Trigger e \<noteq> UM_RX_Next_Highest e then Inr True
      else if UM_RX_Next_Highest e = UM_RX_Next_Reassembly e + 1
      then LTENR_RLC_UM_isAllBytesReceivedForSN E e (UM_RX_Next_Reassembly e)
      else Inr False)"

definition um_receive_timers ::
  "rlc_env \<Rightarrow> LTENR_RLCENTITY \<Rightarrow> EVENTDETAILS \<Rightarrow> (LTENR_RLCENTITY \<times> EVENTDETAILS) result" where
  "um_receive_timers E e s =
     (if isReassemblyTimerStarted e
      then rbind (um_restart_test E e) (\<lambda>b.
           Inr (if b then let (e1, s1) = LTENR_RLC_UM_Stop_t_ReassemblyTimer e s
                          in LTENR_RLC_UM_Start_t_ReassemblyTimer E e1 s1
                else (e, s)))
      else um_start_timer E e s)"

text \<open>\<open>LTENR_RLC_UM_RECEIVE_PDU_WITH_SN\<close>, once the entity is found.\<close>

definition um_receive_pdu_with_sn ::
  "rlc_env \<Rightarrow> LTENR_RLCENTITY \<Rightarrow> NetSim_PACKET \<Rightarrow> EVENTDETAILS
     \<Rightarrow> (LTENR_RLCENTITY \<times> EVENTDETAILS) result" where
  "um_receive_pdu_with_sn E entity packet s =
     rbind (deref (LTENR_RLCMSG_UMHDR_GET E packet)) (\<lambda>hdr.
     let x = um_SN hdr
     in rbind
       (if LTENR_RLC_UM_IsSNFallsInReassemblyWindows entity x
        then
          let s1 = (emit (FreePacket packet) s)\<lparr>pPacket := None\<rparr>;
              e1 = entity\<lparr>UM_RX_Next_Highest := x + 1\<rparr>
          in if LTENR_RLC_UM_IsSNFallsInReassemblyWindows e1 (UM_RX_Next_Reassembly e1)
             then rbind (LTENR_RLC_UM_NextRXReassembly e1) (\<lambda>n.
                  Inr (e1\<lparr>UM_RX_Next_Reassembly := n\<rparr>, s1))
             else Inr (e1, s1)
        else LTENR_RLC_UM_PLACE_UMDPDU_IN_RECEPTIONBUFFER E entity packet s)
       (\<lambda>(e2, s2). um_receive_timers E e2 s2))"

text \<open>
  The first part of \<open>LTENR_RLC_UM_RECEIVE_PDU\<close>: an unsegmented SDU goes up without looking
  for an entity. The result is None when a PDU with a sequence number is to be received.
\<close>

definition um_receive_unsegmented ::
  "rlc_env \<Rightarrow> NetSim_PACKET \<Rightarrow> EVENTDETAILS \<Rightarrow> EVENTDETAILS option result" where
  "um_receive_unsegmented E packet s =
     rbind (deref (LTENR_RLCMSG_UMHDR_GET E packet)) (\<lambda>hdr.
     if um_si hdr = SI_ALL
     then let packet' = LTENR_RLCMSG_UMDHDR_REMOVE E packet
          in Inr (Some (emit (ToPDCP packet') (s\<lparr>pPacket := Some packet'\<rparr>)))
     else Inr None)"

end
