(* ===== verification/RLC_UM_Props.thy ===== *)
theory RLC_UM_Props
  imports RLC_UM RLC_AM_Tx_Props
begin

text \<open>
  What unacknowledged mode does: segmentation and reassembly, the bytes a grant is used
  for, and what becomes of the reassembly window and its timer.
\<close>

declare of_nat_unat [simp del]

section \<open>Lemmas: the scan for missing segments\<close>

text \<open>
  The scan of both modes: it marks, in an array, the offset each packet's header gives. The
  interface is the header access \<open>so\<close>; what the loop of a mode promises are its equations.
\<close>

locale segment_marking =
  fixes so :: "NetSim_PACKET \<Rightarrow> u16 option"
    and mark :: "NetSim_PACKET list \<Rightarrow> bool list \<Rightarrow> bool list result"
  assumes mark_Nil: "mark [] r = Inr r"
    and mark_Cons: "mark (p # ps) r = rbind (deref (so p)) (\<lambda>i.
          if unat i < length r then mark ps (r[unat i := True]) else Inl OutOfBounds)"
begin

lemma mark_all:
  "(\<forall>p \<in> set ps. \<exists>i. so p = Some i \<and> unat i < length r) \<Longrightarrow>
   \<exists>r'. mark ps r = Inr r' \<and> length r' = length r
      \<and> (\<forall>n < length r. r' ! n \<longleftrightarrow> r ! n \<or> (\<exists>p \<in> set ps. \<exists>i. so p = Some i \<and> unat i = n))"
proof (induction ps arbitrary: r)
  case Nil
  then show ?case by (simp add: mark_Nil)
next
  case (Cons p ps)
  then obtain i where i: "so p = Some i" "unat i < length r" by auto
  obtain r' where r': "mark ps (r[unat i := True]) = Inr r'" "length r' = length r"
    "\<forall>n < length r. r' ! n \<longleftrightarrow> r[unat i := True] ! n \<or> (\<exists>p \<in> set ps. \<exists>i. so p = Some i \<and> unat i = n)"
    using Cons.IH [of "r[unat i := True]"] Cons.prems by auto
  then show ?case using i by (auto simp: mark_Cons nth_list_update)
qed

lemma all_marked_spec:
  assumes "\<forall>p \<in> set ps. \<exists>i. so p = Some i \<and> unat i \<le> m"
  shows "\<exists>r. mark ps (replicate (m + 1) False) = Inr r
    \<and> (all_marked r m \<longleftrightarrow> (\<forall>n < m. \<exists>p \<in> set ps. \<exists>i. so p = Some i \<and> unat i = n))"
proof -
  have "\<forall>p \<in> set ps. \<exists>i. so p = Some i \<and> unat i < length (replicate (m + 1) False)"
    using assms by (auto simp: less_Suc_eq_le)
  from mark_all [OF this] obtain r where r: "mark ps (replicate (m + 1) False) = Inr r"
    "length r = m + 1"
    "\<forall>n < m + 1. r ! n \<longleftrightarrow> replicate (m + 1) False ! n \<or> (\<exists>p \<in> set ps. \<exists>i. so p = Some i \<and> unat i = n)"
    by (auto simp del: replicate.simps)
  have "all_marked r m \<longleftrightarrow> (\<forall>n < m. r ! n)"
    using r(2) by (intro all_marked_iff) simp
  moreover have "r ! n \<longleftrightarrow> (\<exists>p \<in> set ps. \<exists>i. so p = Some i \<and> unat i = n)" if "n < m" for n
    using r(3) that by (simp del: replicate.simps)
  ultimately show ?thesis using r(1) by auto
qed

end

definition um_so :: "'z pkt_api_scheme \<Rightarrow> NetSim_PACKET \<Rightarrow> u16 option" where
  "um_so E p = map_option um_SO (LTENR_RLCMSG_UMHDR_GET E p)"

interpretation um_marking: segment_marking "um_so E" "um_mark_received E" for E
proof (unfold_locales, goal_cases)
  case (2 p ps r)
  then show ?case by (cases "LTENR_RLCMSG_UMHDR_GET E p") (simp_all add: um_so_def)
qed simp

interpretation am_marking: segment_marking "\<lambda>p. map_option am_SO (LTENR_RLCMSG_AMHDR_GET E p)" "mark_received E" for E
proof (unfold_locales, goal_cases)
  case (2 p ps r)
  then show ?case by (cases "LTENR_RLCMSG_AMHDR_GET E p") simp_all
qed simp

lemma um_complete_spec:
  assumes "isLastSDUReceived b"
    and "\<forall>p \<in> set (rb_packets b). \<exists>i. um_so E p = Some i \<and> unat i \<le> unat (lastSDUSO b)"
  shows "LTENR_RLC_UM_isAllByteSegmentReceived E b
    = Inr (\<forall>n < unat (lastSDUSO b). \<exists>p \<in> set (rb_packets b). \<exists>i. um_so E p = Some i \<and> unat i = n)"
  using um_marking.all_marked_spec [OF assms(2)] assms(1)
  by (auto simp: LTENR_RLC_UM_isAllByteSegmentReceived_def simp del: replicate.simps)

section \<open>Segmenting and reassembling\<close>

text \<open>
  What the sender makes of one SDU when the grants cut it at the sizes \<open>zs\<close>: the fragments,
  then the packet that is left with its last header.
\<close>

fun um_segments :: "'z pkt_api_scheme \<Rightarrow> NetSim_PACKET \<Rightarrow> u32 \<Rightarrow> u32 list \<Rightarrow> NetSim_PACKET list" where
  "um_segments E p sn [] = [fst (LTENR_RLC_UM_ADD_HDR E p)]"
| "um_segments E p sn (z # zs) =
     (case LTENR_RLC_UM_FRAGMENT_PACKET E p z sn of (frag, p') \<Rightarrow> frag # um_segments E p' sn zs)"

context packet_api
begin

lemma UMHDR_GET_REMOVE: "LTENR_RLCMSG_UMHDR_GET E (LTENR_RLCMSG_UMDHDR_REMOVE E p) = None"
  by (simp add: LTENR_RLCMSG_UMHDR_GET_def LTENR_RLCMSG_UMDHDR_REMOVE_def)

lemma UM_REMOVE_raw: "LTENR_HDR_GET_FROM_PACKET E (LTENR_RLCMSG_UMDHDR_REMOVE E p) rlcMsgUMDHDRID = None"
  by (simp add: LTENR_RLCMSG_UMDHDR_REMOVE_def)

lemma payload_UMHDR_ADD [simp]: "dPayload (fst (LTENR_RLCMSG_UMHDR_ADD E p si sn so)) = dPayload p"
  by (simp add: LTENR_RLCMSG_UMHDR_ADD_def Let_def)

lemma payload_UMDHDR_REMOVE [simp]: "dPayload (LTENR_RLCMSG_UMDHDR_REMOVE E p) = dPayload p"
  by (simp add: LTENR_RLCMSG_UMDHDR_REMOVE_def)

lemma UM_FRAGMENT_hdr:
  assumes "LTENR_RLC_UM_FRAGMENT_PACKET E p z sn = (f, p')"
  shows "LTENR_RLCMSG_UMHDR_GET E f = Some (case LTENR_RLCMSG_UMHDR_GET E p of
       None \<Rightarrow> \<lparr>um_si = SI_FIRST, um_SN = sn, um_SO = 0\<rparr>
     | Some h \<Rightarrow> \<lparr>um_si = SI_MIDDLE, um_SN = sn, um_SO = um_SO h\<rparr>)"
    and "LTENR_RLCMSG_UMHDR_GET E p' = Some \<lparr>um_si = SI_MIDDLE, um_SN = sn,
       um_SO = (case LTENR_RLCMSG_UMHDR_GET E p of None \<Rightarrow> 0 | Some h \<Rightarrow> um_SO h) + 1\<rparr>"
    and "dPayload f = double_of_UINT z" and "dPayload p' = dPayload p - double_of_UINT z"
proof -
  have f: "f = fst (LTENR_RLCMSG_UMHDR_ADD E ((fn_NetSim_Packet_CopyPacket E (LTENR_RLCMSG_UMDHDR_REMOVE E p))
        \<lparr>dPayload := double_of_UINT z, dPacketSize := double_of_UINT z
          + dOverhead (fn_NetSim_Packet_CopyPacket E (LTENR_RLCMSG_UMDHDR_REMOVE E p))\<rparr>)
      (case LTENR_RLCMSG_UMHDR_GET E p of None \<Rightarrow> SI_FIRST | Some h \<Rightarrow> SI_MIDDLE) sn
      (case LTENR_RLCMSG_UMHDR_GET E p of None \<Rightarrow> 0 | Some h \<Rightarrow> um_SO h))"
    and p': "p' = fst (LTENR_RLCMSG_UMHDR_ADD E ((LTENR_RLCMSG_UMDHDR_REMOVE E p)
        \<lparr>dPayload := dPayload (LTENR_RLCMSG_UMDHDR_REMOVE E p) - double_of_UINT z,
         dPacketSize := dPacketSize (LTENR_RLCMSG_UMDHDR_REMOVE E p) - double_of_UINT z\<rparr>)
      SI_MIDDLE sn ((case LTENR_RLCMSG_UMHDR_GET E p of None \<Rightarrow> 0 | Some h \<Rightarrow> um_SO h) + 1))"
    using assms by (auto simp: LTENR_RLC_UM_FRAGMENT_PACKET_def Let_def split: option.splits)
  show "LTENR_RLCMSG_UMHDR_GET E f = Some (case LTENR_RLCMSG_UMHDR_GET E p of
       None \<Rightarrow> \<lparr>um_si = SI_FIRST, um_SN = sn, um_SO = 0\<rparr>
     | Some h \<Rightarrow> \<lparr>um_si = SI_MIDDLE, um_SN = sn, um_SO = um_SO h\<rparr>)"
    unfolding f by (subst UMHDR_GET_ADD) (simp_all add: UM_REMOVE_raw split: option.splits)
  show "LTENR_RLCMSG_UMHDR_GET E p' = Some \<lparr>um_si = SI_MIDDLE, um_SN = sn,
       um_SO = (case LTENR_RLCMSG_UMHDR_GET E p of None \<Rightarrow> 0 | Some h \<Rightarrow> um_SO h) + 1\<rparr>"
    unfolding p' by (subst UMHDR_GET_ADD) (simp_all add: UM_REMOVE_raw)
  show "dPayload f = double_of_UINT z" "dPayload p' = dPayload p - double_of_UINT z"
    unfolding f p' by simp_all
qed

lemma UM_ADD_HDR_hdr:
  "LTENR_RLCMSG_UMHDR_GET E (fst (LTENR_RLC_UM_ADD_HDR E p)) = Some (case LTENR_RLCMSG_UMHDR_GET E p of
       None \<Rightarrow> \<lparr>um_si = SI_ALL, um_SN = 0, um_SO = 0\<rparr>
     | Some h \<Rightarrow> \<lparr>um_si = SI_LAST, um_SN = um_SN h, um_SO = um_SO h\<rparr>)"
  "dPayload (fst (LTENR_RLC_UM_ADD_HDR E p)) = dPayload p"
  "snd (LTENR_RLC_UM_ADD_HDR E p) = (case LTENR_RLCMSG_UMHDR_GET E p of None \<Rightarrow> - 1 | Some h \<Rightarrow> um_SN h)"
  by (simp_all add: LTENR_RLC_UM_ADD_HDR_def UMHDR_GET_ADD UM_REMOVE_raw split: option.splits)

text \<open>The segments of a packet that is already under way at offset \<open>so\<close>.\<close>

lemma um_segments_tail:
  assumes "LTENR_RLCMSG_UMHDR_GET E p = Some \<lparr>um_si = SI_MIDDLE, um_SN = sn, um_SO = of_nat so\<rparr>"
  shows "map (LTENR_RLCMSG_UMHDR_GET E) (um_segments E p sn zs) =
      map (\<lambda>n. Some \<lparr>um_si = (if n = so + length zs then SI_LAST else SI_MIDDLE), um_SN = sn, um_SO = of_nat n\<rparr>)
        [so ..< so + length zs + 1]"
    and "payload_sum (um_segments E p sn zs) = dPayload p"
  using assms
proof (induction zs arbitrary: p so)
  case Nil
  { case 1 then show ?case by (simp add: UM_ADD_HDR_hdr) }
  { case 2 then show ?case by (simp add: UM_ADD_HDR_hdr payload_sum_def) }
next
  case (Cons z zs)
  { case 1
    obtain f p' where f: "LTENR_RLC_UM_FRAGMENT_PACKET E p z sn = (f, p')" by fastforce
    note h = UM_FRAGMENT_hdr [OF f]
    have p': "LTENR_RLCMSG_UMHDR_GET E p' = Some \<lparr>um_si = SI_MIDDLE, um_SN = sn, um_SO = of_nat (Suc so)\<rparr>"
      using h(2) 1 by simp
    have "[so ..< so + length (z # zs) + 1] = so # [Suc so ..< Suc so + length zs + 1]"
      by (simp add: upt_conv_Cons del: upt_Suc)
    then show ?case using Cons.IH(1) [OF p'] h(1) 1 f by (simp del: upt_Suc) }
  { case 2
    obtain f p' where f: "LTENR_RLC_UM_FRAGMENT_PACKET E p z sn = (f, p')" by fastforce
    note h = UM_FRAGMENT_hdr [OF f]
    have p': "LTENR_RLCMSG_UMHDR_GET E p' = Some \<lparr>um_si = SI_MIDDLE, um_SN = sn, um_SO = of_nat (Suc so)\<rparr>"
      using h(2) 2 by simp
    show ?case using Cons.IH(2) [OF p'] h(3,4) f by (simp add: payload_sum_def) }
qed

lemma um_segments_hdrs:
  assumes "LTENR_RLCMSG_UMHDR_GET E p = None"
  shows "map (LTENR_RLCMSG_UMHDR_GET E) (um_segments E p sn (z # zs)) =
      map (\<lambda>n. Some \<lparr>um_si = (if n = Suc (length zs) then SI_LAST else if n = 0 then SI_FIRST else SI_MIDDLE),
                 um_SN = sn, um_SO = of_nat n\<rparr>) [0 ..< length zs + 2]"
    and "payload_sum (um_segments E p sn (z # zs)) = dPayload p"
proof -
  obtain f p' where f: "LTENR_RLC_UM_FRAGMENT_PACKET E p z sn = (f, p')" by fastforce
  note h = UM_FRAGMENT_hdr [OF f]
  have p': "LTENR_RLCMSG_UMHDR_GET E p' = Some \<lparr>um_si = SI_MIDDLE, um_SN = sn, um_SO = of_nat 1\<rparr>"
    using h(2) assms by simp
  have "[0 ..< length zs + 2] = 0 # [1 ..< 1 + length zs + 1]"
    by (simp add: upt_conv_Cons del: upt_Suc)
  then show "map (LTENR_RLCMSG_UMHDR_GET E) (um_segments E p sn (z # zs)) =
      map (\<lambda>n. Some \<lparr>um_si = (if n = Suc (length zs) then SI_LAST else if n = 0 then SI_FIRST else SI_MIDDLE),
                 um_SN = sn, um_SO = of_nat n\<rparr>) [0 ..< length zs + 2]"
    using um_segments_tail(1) [OF p', of zs] h(1) assms f by (simp del: upt_Suc)
  show "payload_sum (um_segments E p sn (z # zs)) = dPayload p"
    using um_segments_tail(2) [OF p', of zs] h(3,4) f by (simp add: payload_sum_def)
qed

end


text \<open>The segments put one after the other into a reception buffer.\<close>

fun um_fill ::
  "'z pkt_api_scheme \<Rightarrow> LTENR_RLC_RECEPTIONBUFFER \<Rightarrow> NetSim_PACKET list
     \<Rightarrow> LTENR_RLC_RECEPTIONBUFFER result" where
  "um_fill E b [] = Inr b"
| "um_fill E b (p # ps) = rbind (LTENR_RLC_UM_AddToReceptionBuffer E b p) (\<lambda>b'. um_fill E b' ps)"

lemma um_fill_spec:
  assumes "\<forall>p \<in> set ps. \<exists>h. LTENR_RLCMSG_UMHDR_GET E p = Some h \<and> (um_si h = SI_LAST \<longrightarrow> ucast (um_SO h) = m)"
    and "isLastSDUReceived b \<longrightarrow> lastSDUSO b = m"
  shows "\<exists>b'. um_fill E b ps = Inr b' \<and> rb_packets b' = rb_packets b @ ps
    \<and> (isLastSDUReceived b' \<longleftrightarrow> isLastSDUReceived b
         \<or> (\<exists>p \<in> set ps. \<exists>h. LTENR_RLCMSG_UMHDR_GET E p = Some h \<and> um_si h = SI_LAST))
    \<and> (isLastSDUReceived b' \<longrightarrow> lastSDUSO b' = m)"
  using assms
proof (induction ps arbitrary: b)
  case Nil
  then show ?case by simp
next
  case (Cons p ps)
  obtain h where h: "LTENR_RLCMSG_UMHDR_GET E p = Some h" "um_si h = SI_LAST \<longrightarrow> ucast (um_SO h) = m"
    using Cons.prems(1) by auto
  let ?b = "if um_si h = SI_LAST
      then b\<lparr>rb_packets := rb_packets b @ [p], isLastSDUReceived := True, lastSDUSO := ucast (um_SO h)\<rparr>
      else b\<lparr>rb_packets := rb_packets b @ [p]\<rparr>"
  have add: "LTENR_RLC_UM_AddToReceptionBuffer E b p = Inr ?b"
    using h(1) by (simp add: LTENR_RLC_UM_AddToReceptionBuffer_def Let_def)
  have "isLastSDUReceived ?b \<longrightarrow> lastSDUSO ?b = m" using h(2) Cons.prems(2) by simp
  from Cons.IH [OF _ this] Cons.prems(1)
  obtain b' where b': "um_fill E ?b ps = Inr b'" "rb_packets b' = rb_packets ?b @ ps"
    "isLastSDUReceived b' \<longleftrightarrow> isLastSDUReceived ?b
         \<or> (\<exists>p \<in> set ps. \<exists>h. LTENR_RLCMSG_UMHDR_GET E p = Some h \<and> um_si h = SI_LAST)"
    "isLastSDUReceived b' \<longrightarrow> lastSDUSO b' = m"
    by auto
  have "rb_packets ?b = rb_packets b @ [p]" by simp
  moreover have "isLastSDUReceived ?b \<longleftrightarrow> isLastSDUReceived b \<or> um_si h = SI_LAST" by simp
  ultimately show ?case using b' add h(1) by auto
qed

lemma mset_sub_by_key:
  assumes sub: "mset ps \<subseteq># mset qs" and inj: "distinct (map f qs)"
  shows "mset ps = mset qs \<longleftrightarrow> f ` set qs \<subseteq> f ` set ps"
proof
  assume "mset ps = mset qs"
  then show "f ` set qs \<subseteq> f ` set ps" using mset_eq_setD by blast
next
  assume cov: "f ` set qs \<subseteq> f ` set ps"
  have "length qs = card (f ` set qs)" using inj distinct_card [of "map f qs"] by simp
  also have "\<dots> \<le> card (f ` set ps)" using cov by (intro card_mono) simp_all
  also have "\<dots> \<le> card (set ps)" by (rule card_image_le) simp
  also have "\<dots> \<le> length ps" by (rule card_length)
  finally have "size (mset qs) \<le> size (mset ps)" by simp
  then show "mset ps = mset qs"
    using sub by (metis mset_subset_size subset_mset.less_le linorder_not_le)
qed

text \<open>
  C18. What the sender cuts the receiver puts together: whatever segments of an SDU arrived,
  in whatever order, the reception buffer is found complete exactly when all of them are
  there, and then the reassembled SDU has the payload of the original one.
\<close>

theorem um_segments_reassemble:
  assumes api: "packet_api E" and fresh: "LTENR_RLCMSG_UMHDR_GET E p = None"
    and few: "length zs < 65534" and arrived: "mset ps \<subseteq># mset (um_segments E p sn (z # zs))"
  shows "\<exists>b. um_fill E (LTENR_RLC_RECEPTIONBUFFER_ALLOC\<lparr>rb_SN := sn\<rparr>) ps = Inr b
    \<and> LTENR_RLC_UM_isAllByteSegmentReceived E b
        = Inr (mset ps = mset (um_segments E p sn (z # zs)))
    \<and> (mset ps = mset (um_segments E p sn (z # zs)) \<longrightarrow>
        (\<exists>q frees. LTENR_RLC_UM_ReassembleAllBytes b = Inr (q, frees) \<and> dPayload q = dPayload p))"
proof -
  let ?L = "Suc (length zs)"
  let ?segs = "um_segments E p sn (z # zs)"
  define hd where "hd n = \<lparr>um_si = (if n = ?L then SI_LAST else if n = 0 then SI_FIRST else SI_MIDDLE),
    um_SN = sn, um_SO = of_nat n\<rparr>" for n
  have hdrs: "map (LTENR_RLCMSG_UMHDR_GET E) ?segs = map (\<lambda>n. Some (hd n)) [0 ..< length zs + 2]"
    unfolding hd_def by (rule packet_api.um_segments_hdrs(1) [OF api fresh])
  have L: "?L < 2 ^ 16" using few by simp
  have so: "unat (um_SO (hd n)) = n" if "n \<le> ?L" for n
    using that L by (simp add: hd_def unat_of_nat)
  have inj: "distinct (map (LTENR_RLCMSG_UMHDR_GET E) ?segs)"
    unfolding hdrs distinct_map
  proof (intro conjI inj_onI)
    fix m n assume "m \<in> set [0 ..< length zs + 2]" "n \<in> set [0 ..< length zs + 2]" "Some (hd m) = Some (hd n)"
    then have "m \<le> ?L" "n \<le> ?L" "hd m = hd n" by auto
    then show "m = n" using so by metis
  qed simp
  have range: "LTENR_RLCMSG_UMHDR_GET E ` set ?segs = (\<lambda>n. Some (hd n)) ` {..?L}"
    using arg_cong [OF hdrs, of set] by (simp add: atLeast0LessThan lessThan_Suc_atMost del: um_segments.simps upt_Suc)
  have known: "\<exists>n \<le> ?L. LTENR_RLCMSG_UMHDR_GET E q = Some (hd n)" if "q \<in> set ps" for q
  proof -
    have "q \<in> set ?segs" using arrived that by (metis mset_subset_eqD set_mset_mset)
    then have "LTENR_RLCMSG_UMHDR_GET E q \<in> (\<lambda>n. Some (hd n)) ` {..?L}"
      unfolding range [symmetric] by simp
    then show ?thesis by auto
  qed
  have last: "um_si (hd n) = SI_LAST \<longleftrightarrow> n = ?L" for n by (simp add: hd_def)
  have u32: "unat (of_nat ?L :: u32) = ?L" using L by (simp add: unat_of_nat del: of_nat_Suc)
  have um: "ucast (um_SO (hd ?L)) = (of_nat ?L :: u32)"
    unfolding word_unat_eq_iff unat_ucast_u16 u32 using so by simp
  let ?b0 = "LTENR_RLC_RECEPTIONBUFFER_ALLOC\<lparr>rb_SN := sn\<rparr>"
  have f1: "\<forall>q \<in> set ps. \<exists>h. LTENR_RLCMSG_UMHDR_GET E q = Some h
      \<and> (um_si h = SI_LAST \<longrightarrow> ucast (um_SO h) = (of_nat ?L :: u32))"
    using known last um by metis
  have f2: "isLastSDUReceived ?b0 \<longrightarrow> lastSDUSO ?b0 = of_nat ?L"
    by (simp add: LTENR_RLC_RECEPTIONBUFFER_ALLOC_def)
  obtain b where b: "um_fill E ?b0 ps = Inr b" "rb_packets b = rb_packets ?b0 @ ps"
    "isLastSDUReceived b \<longleftrightarrow> isLastSDUReceived ?b0
         \<or> (\<exists>p \<in> set ps. \<exists>h. LTENR_RLCMSG_UMHDR_GET E p = Some h \<and> um_si h = SI_LAST)"
    "isLastSDUReceived b \<longrightarrow> lastSDUSO b = of_nat ?L"
    using um_fill_spec [OF f1 f2] by (elim exE conjE) (rule that)
  have pk: "rb_packets b = ps" using b(2) by (simp add: LTENR_RLC_RECEPTIONBUFFER_ALLOC_def)
  have lastin: "isLastSDUReceived b \<longleftrightarrow> Some (hd ?L) \<in> LTENR_RLCMSG_UMHDR_GET E ` set ps"
  proof
    assume "isLastSDUReceived b"
    then obtain q h where "q \<in> set ps" "LTENR_RLCMSG_UMHDR_GET E q = Some h" "um_si h = SI_LAST"
      using b(3) by (auto simp: LTENR_RLC_RECEPTIONBUFFER_ALLOC_def)
    with known [of q] last show "Some (hd ?L) \<in> LTENR_RLCMSG_UMHDR_GET E ` set ps" by force
  next
    assume "Some (hd ?L) \<in> LTENR_RLCMSG_UMHDR_GET E ` set ps"
    then show "isLastSDUReceived b" using b(3) last by (metis imageE)
  qed
  have key: "mset ps = mset ?segs \<longleftrightarrow> (\<forall>n \<le> ?L. Some (hd n) \<in> LTENR_RLCMSG_UMHDR_GET E ` set ps)"
    unfolding mset_sub_by_key [OF arrived inj] range by auto
  have here: "Some (hd n) \<in> LTENR_RLCMSG_UMHDR_GET E ` set ps
      \<longleftrightarrow> (\<exists>q \<in> set ps. \<exists>i. um_so E q = Some i \<and> unat i = n)" if "n \<le> ?L" for n
  proof
    assume "Some (hd n) \<in> LTENR_RLCMSG_UMHDR_GET E ` set ps"
    then obtain q where "q \<in> set ps" "LTENR_RLCMSG_UMHDR_GET E q = Some (hd n)" by (metis imageE)
    then show "\<exists>q \<in> set ps. \<exists>i. um_so E q = Some i \<and> unat i = n" using so [OF that] by (auto simp: um_so_def)
  next
    assume "\<exists>q \<in> set ps. \<exists>i. um_so E q = Some i \<and> unat i = n"
    then obtain q i where q: "q \<in> set ps" "um_so E q = Some i" "unat i = n" by auto
    then show "Some (hd n) \<in> LTENR_RLCMSG_UMHDR_GET E ` set ps"
      using known [OF q(1)] so by (force simp: um_so_def)
  qed
  have complete: "LTENR_RLC_UM_isAllByteSegmentReceived E b = Inr (mset ps = mset ?segs)"
  proof (cases "isLastSDUReceived b")
    case False
    then show ?thesis using lastin key by (auto simp: LTENR_RLC_UM_isAllByteSegmentReceived_def)
  next
    case True
    then have lso: "unat (lastSDUSO b) = ?L" using b(4) u32 by simp
    have "\<forall>q \<in> set (rb_packets b). \<exists>i. um_so E q = Some i \<and> unat i \<le> unat (lastSDUSO b)"
      unfolding pk lso using known so by (fastforce simp: um_so_def)
    note um_complete_spec [OF True this]
    moreover have "(\<forall>n < ?L. \<exists>q \<in> set ps. \<exists>i. um_so E q = Some i \<and> unat i = n) \<longleftrightarrow> mset ps = mset ?segs"
      unfolding key using here lastin True by (metis le_eq_less_or_eq)
    ultimately show ?thesis unfolding pk lso by simp
  qed
  have "\<exists>q frees. LTENR_RLC_UM_ReassembleAllBytes b = Inr (q, frees) \<and> dPayload q = dPayload p"
    if all: "mset ps = mset ?segs"
  proof -
    have "payload_sum ps = payload_sum ?segs"
      using all unfolding payload_sum_def by (metis mset_map sum_mset_sum_list)
    then have "payload_sum ps = dPayload p"
      using packet_api.um_segments_hdrs(2) [OF api fresh, of sn z zs] by (rule trans)
    moreover obtain q fs where r: "LTENR_RLC_UM_ReassembleAllBytes b = Inr (q, fs)"
      using all hdrs pk by (cases ps) (auto simp: LTENR_RLC_UM_ReassembleAllBytes_def ReassembleAllBytes_def
        split: prod.splits)
    moreover have "dPayload q = payload_sum ps"
      using ReassembleAllBytes_payload r pk unfolding LTENR_RLC_UM_ReassembleAllBytes_def by metis
    ultimately show ?thesis by metis
  qed
  with b(1) complete show ?thesis by blast
qed

definition ex_um_sdu :: NetSim_PACKET where
  "ex_um_sdu = (plain_create 1 2 0 LTENR_MSG_USERDATA)
     \<lparr>dPayload := 100, dOverhead := 20, dPacketSize := 120\<rparr>"

lemma um_segments_reassemble_witness:
  "\<exists>b q frees. um_fill plain_rlc_env (LTENR_RLC_RECEPTIONBUFFER_ALLOC\<lparr>rb_SN := 7\<rparr>)
        (rev (um_segments plain_rlc_env ex_um_sdu 7 [30, 40])) = Inr b
     \<and> LTENR_RLC_UM_isAllByteSegmentReceived plain_rlc_env b = Inr True
     \<and> LTENR_RLC_UM_ReassembleAllBytes b = Inr (q, frees) \<and> dPayload q = 100"
proof -
  have "LTENR_RLCMSG_UMHDR_GET plain_rlc_env ex_um_sdu = None" by code_simp
  moreover have "length [40 :: u32] < 65534" by simp
  moreover have "mset (rev (um_segments plain_rlc_env ex_um_sdu 7 [30, 40]))
      = mset (um_segments plain_rlc_env ex_um_sdu 7 [30, 40])"
    by (rule mset_rev)
  ultimately show ?thesis
    using um_segments_reassemble [OF plain_rlc.packet_api_axioms, of ex_um_sdu "[40]"
        "rev (um_segments plain_rlc_env ex_um_sdu 7 [30, 40])" 7 30]
    by (auto simp: ex_um_sdu_def simp del: um_segments.simps)
qed

section \<open>Sending\<close>

lemma UINT_of_double_of_UINT: "UINT_of_double (double_of_UINT u) = u"
proof -
  have "unat u < 2 ^ 32" using unsigned_less [of u, where ?'a = nat] by simp
  then show ?thesis unfolding word_unat_eq_iff by (rule unat_UINT_real)
qed

text \<open>Entries whose payload is a whole number of bytes and whose overhead is not negative.\<close>

definition um_entry :: "LTENR_RLCBUFFER_DATA \<Rightarrow> bool" where
  "um_entry b \<longleftrightarrow> LTENR_IS_UPLANE_MSG (data_packet b)
     \<and> (\<exists>k. dPayload (data_packet b) = real k \<and> k < 2 ^ 32)
     \<and> dPayload (data_packet b) \<le> dPacketSize (data_packet b)"

definition mac_payload :: "effect list \<Rightarrow> real" where
  "mac_payload tr = payload_sum (mac_of tr)"

lemma mac_payload_send:
  "mac_payload (trace (LTENR_RLC_SENDPDUTOMAC E d i p s)) = mac_payload (trace s) + dPayload p"
  by (simp add: mac_payload_def LTENR_RLC_SENDPDUTOMAC_def emit_def payload_sum_def)

definition um_tx_result where
  "um_tx_result s left keep bufs s' left' out \<longleftrightarrow> left' \<le> left
     \<and> double_of_UINT (left - left') = mac_payload (trace s') - mac_payload (trace s)
     \<and> entry_payload (filter (\<lambda>b. \<not> isMarkedForRemoval b) out) + (mac_payload (trace s') - mac_payload (trace s))
       = entry_payload (filter (\<lambda>b. \<not> isMarkedForRemoval b) keep) + entry_payload bufs"

lemma um_tx_result_step:
  assumes "um_tx_result (LTENR_RLC_SENDPDUTOMAC E d i p s) (left - n) keep' todo s' left' out"
    and "dPayload p = double_of_UINT n" and "n \<le> left"
    and "entry_payload (filter (\<lambda>b. \<not> isMarkedForRemoval b) keep') + entry_payload todo + dPayload p
      = entry_payload (filter (\<lambda>b. \<not> isMarkedForRemoval b) keep) + entry_payload bufs"
  shows "um_tx_result s left keep bufs s' left' out"
proof -
  have "left' \<le> left - n" using assms(1) by (simp add: um_tx_result_def)
  then have u: "unat left' \<le> unat left - unat n" "unat n \<le> unat left"
    using assms(3) by (simp_all add: word_le_nat_alt unat_sub)
  then have le: "left' \<le> left" by (simp add: word_le_nat_alt)
  have "unat (left - n - left') = unat left - unat n - unat left'"
    using u \<open>left' \<le> left - n\<close> assms(3) by (simp add: unat_sub word_le_nat_alt)
  moreover have "unat (left - left') = unat left - unat left'"
    using le by (simp add: unat_sub word_le_nat_alt)
  ultimately have "double_of_UINT (left - left') = double_of_UINT (left - n - left') + double_of_UINT n"
    using u by simp
  then show ?thesis using assms le by (simp add: um_tx_result_def mac_payload_send)
qed

lemma um_tx_result_stop:
  assumes "\<forall>b \<in> set bufs. \<not> isMarkedForRemoval b"
  shows "um_tx_result s left keep bufs s left (keep @ bufs)"
proof -
  have "filter (\<lambda>b. \<not> isMarkedForRemoval b) bufs = bufs" using assms by (simp add: filter_True)
  then show ?thesis by (simp add: um_tx_result_def)
qed

context rlc_environment
begin

lemma um_tx_loop_spec:
  assumes "\<forall>b \<in> set bufs. um_entry b \<and> \<not> isMarkedForRemoval b" and "length bufs + 2 \<le> fuel"
  shows "\<exists>e' s' left' out. um_tx_loop fuel E d i ch e s left keep bufs = Inr (e', s', left', out)
    \<and> um_tx_result s left keep bufs s' left' out"
  using assms
proof (induction fuel arbitrary: e s left keep bufs)
  case 0
  then show ?case by simp
next
  case (Suc fuel)
  show ?case
  proof (cases bufs)
    case Nil
    then show ?thesis using um_tx_result_stop [of "[]" s left keep] by simp
  next
    case (Cons b bs)
    have b: "um_entry b" "\<not> isMarkedForRemoval b"
      and bs: "\<forall>b \<in> set bs. um_entry b \<and> \<not> isMarkedForRemoval b" and len: "length bs + 2 \<le> fuel"
      using Suc.prems Cons by auto
    obtain k where k: "dPayload (data_packet b) = real k" "k < 2 ^ 32"
      "real k \<le> dPacketSize (data_packet b)" "LTENR_IS_UPLANE_MSG (data_packet b)"
      using b(1) by (auto simp: um_entry_def)
    consider (other) "channel b \<noteq> ch" | (small) "channel b = ch" "left < MIN_RLC_PDU_SIZE"
      | (cut) "channel b = ch" "\<not> left < MIN_RLC_PDU_SIZE" "dPacketSize (data_packet b) > double_of_UINT left"
      | (whole) "channel b = ch" "\<not> left < MIN_RLC_PDU_SIZE" "\<not> dPacketSize (data_packet b) > double_of_UINT left"
      by blast
    then show ?thesis
    proof cases
      case other
      obtain e' s' left' out where
        "um_tx_loop fuel E d i ch e s left (keep @ [b]) bs = Inr (e', s', left', out)"
        "um_tx_result s left (keep @ [b]) bs s' left' out"
        using Suc.IH [OF bs len] by blast
      then show ?thesis using other b(2) Cons by (simp add: um_tx_result_def)
    next
      case small
      then show ?thesis using Cons Suc.prems(1) um_tx_result_stop [of bufs s left keep] by simp
    next
      case cut
      obtain frag p' where f: "LTENR_RLC_UM_FRAGMENT_PACKET E (data_packet b) left (UM_TX_Next e) = (frag, p')"
        by fastforce
      note h = UM_FRAGMENT_hdr(3,4) [OF f]
      let ?b' = "b\<lparr>data_packet := p'\<rparr>"
      let ?s = "LTENR_RLC_SENDPDUTOMAC E d i frag s"
      let ?e = "e\<lparr>bufferStatus := (bufferStatus e)(ch := bufferStatus e ch - UINT_of_double (dPayload frag))\<rparr>"
      have n: "UINT_of_double (dPayload frag) = left" unfolding h(1) by (rule UINT_of_double_of_UINT)
      obtain f' where f': "fuel = Suc f'" using len by (cases fuel) auto
      have "um_tx_loop (Suc fuel) E d i ch e s left keep bufs
          = um_tx_loop fuel E d i ch ?e ?s (left - left) keep (?b' # bs)"
        using cut f k(4) n unfolding Cons um_tx_loop.simps by (simp add: Let_def)
      also have "\<dots> = Inr (?e, ?s, 0, keep @ ?b' # bs)"
        using cut(1) by (simp add: f' MIN_RLC_PDU_SIZE_def)
      finally have run: "um_tx_loop (Suc fuel) E d i ch e s left keep bufs = Inr (?e, ?s, 0, keep @ ?b' # bs)" .
      have "um_tx_result ?s (left - left) keep (?b' # bs) ?s 0 (keep @ ?b' # bs)"
        using um_tx_result_stop [of "?b' # bs" ?s 0 keep] b(2) bs by simp
      then have "um_tx_result s left keep bufs ?s 0 (keep @ ?b' # bs)"
        by (rule um_tx_result_step) (simp_all add: h Cons)
      with run show ?thesis by blast
    next
      case whole
      obtain p' sn where a: "LTENR_RLC_UM_ADD_HDR E (data_packet b) = (p', sn)" by fastforce
      have p': "dPayload p' = real k" using UM_ADD_HDR_hdr(2) [of "data_packet b"] a k(1) by simp
      let ?n = "UINT_of_double (dPayload p')"
      let ?s = "LTENR_RLC_SENDPDUTOMAC E d i p' s"
      let ?k = "keep @ [b\<lparr>data_packet := p', isMarkedForRemoval := True\<rparr>]"
      let ?e1 = "if sn \<noteq> - 1 then e\<lparr>UM_TX_Next := UM_TX_Next e + 1\<rparr> else e"
      let ?e = "?e1\<lparr>bufferStatus := (bufferStatus ?e1)(ch := bufferStatus ?e1 ch - ?n)\<rparr>"
      have n: "unat ?n = k" unfolding p' by (rule unat_UINT_real [OF k(2)])
      have "um_tx_loop (Suc fuel) E d i ch e s left keep bufs
          = um_tx_loop fuel E d i ch ?e ?s (left - ?n) ?k bs"
        using whole a unfolding Cons um_tx_loop.simps by (simp only: Let_def prod.case simp_thms if_False)
      moreover obtain e' s' left' out where
        "um_tx_loop fuel E d i ch ?e ?s (left - ?n) ?k bs = Inr (e', s', left', out)"
        "um_tx_result ?s (left - ?n) ?k bs s' left' out"
        using Suc.IH [OF bs len] by blast
      moreover have "um_tx_result s left keep bufs s' left' out" if "um_tx_result ?s (left - ?n) ?k bs s' left' out"
        using that
      proof (rule um_tx_result_step)
        show "dPayload p' = double_of_UINT ?n" using n p' by simp
        show "?n \<le> left" using n k whole(3) by (simp add: word_le_nat_alt)
      qed (simp add: Cons p' k b(2))
      ultimately show ?thesis by metis
    qed
  qed
qed

end

text \<open>
  What a call leaves of the entries \<open>bufs\<close>: entries with a payload, or the rest of one that was cut by
  \<open>g\<close> bytes, more than its payload and less than its size.
\<close>

definition um_overcut :: "LTENR_RLCBUFFER_DATA list \<Rightarrow> u32 \<Rightarrow> LTENR_RLCBUFFER_DATA \<Rightarrow> bool" where
  "um_overcut bufs left b' \<longleftrightarrow> (\<exists>b \<in> set bufs. \<exists>g \<le> left. dPayload (data_packet b) < double_of_UINT g
     \<and> double_of_UINT g < dPacketSize (data_packet b)
     \<and> dPayload (data_packet b') = dPayload (data_packet b) - double_of_UINT g)"

lemma um_overcut_mono: "um_overcut bufs left b' \<Longrightarrow> set bufs \<subseteq> set bufs' \<Longrightarrow> left \<le> left' \<Longrightarrow> um_overcut bufs' left' b'"
  unfolding um_overcut_def by (meson order_trans subsetD)

context rlc_environment
begin

lemma um_tx_loop_rest:
  assumes "um_tx_loop fuel E d i ch e s left keep bufs = Inr (e', s', left', out)" and "\<forall>b \<in> set bufs. um_entry b"
  shows "\<forall>b' \<in> set out. b' \<in> set keep \<or> isMarkedForRemoval b' \<or> 0 \<le> dPayload (data_packet b') \<or> um_overcut bufs left b'"
  using assms
proof (induction fuel arbitrary: e s left keep bufs)
  case 0
  then show ?case by simp
next
  case (Suc fuel)
  show ?case
  proof (cases bufs)
    case Nil
    then show ?thesis using Suc.prems by auto
  next
    case (Cons b bs)
    have b: "um_entry b" and bs: "\<forall>b \<in> set bs. um_entry b" using Suc.prems(2) Cons by auto
    obtain k where k: "dPayload (data_packet b) = real k" "k < 2 ^ 32"
      "real k \<le> dPacketSize (data_packet b)" "LTENR_IS_UPLANE_MSG (data_packet b)"
      using b by (auto simp: um_entry_def)
    have ok: "0 \<le> dPayload (data_packet b')" if "b' \<in> set bufs" for b'
      using that Suc.prems(2) by (auto simp: um_entry_def)
    have sub: "set bs \<subseteq> set bufs" using Cons by auto
    consider (other) "channel b \<noteq> ch" | (small) "channel b = ch" "left < MIN_RLC_PDU_SIZE"
      | (cut) "channel b = ch" "\<not> left < MIN_RLC_PDU_SIZE" "dPacketSize (data_packet b) > double_of_UINT left"
      | (whole) "channel b = ch" "\<not> left < MIN_RLC_PDU_SIZE" "\<not> dPacketSize (data_packet b) > double_of_UINT left"
      by blast
    then show ?thesis
    proof cases
      case other
      then have "um_tx_loop fuel E d i ch e s left (keep @ [b]) bs = Inr (e', s', left', out)" using Suc.prems(1) Cons by simp
      from Suc.IH [OF this bs] ok [of b] Cons show ?thesis using um_overcut_mono [OF _ sub order.refl] by auto
    next
      case small
      then have "out = keep @ bufs" using Suc.prems(1) Cons by simp
      then show ?thesis using ok by auto
    next
      case cut
      obtain frag p' where f: "LTENR_RLC_UM_FRAGMENT_PACKET E (data_packet b) left (UM_TX_Next e) = (frag, p')"
        by fastforce
      note h = UM_FRAGMENT_hdr(3,4) [OF f]
      let ?b' = "b\<lparr>data_packet := p'\<rparr>"
      have n: "UINT_of_double (dPayload frag) = left" unfolding h(1) by (rule UINT_of_double_of_UINT)
      have "um_tx_loop fuel E d i ch (e\<lparr>bufferStatus := (bufferStatus e)(ch := bufferStatus e ch - left)\<rparr>)
          (LTENR_RLC_SENDPDUTOMAC E d i frag s) 0 keep (?b' # bs) = Inr (e', s', left', out)"
        using Suc.prems(1) cut f k(4) n unfolding Cons um_tx_loop.simps by (simp add: Let_def)
      then have "out = keep @ ?b' # bs" using cut(1) by (cases fuel) (simp_all add: MIN_RLC_PDU_SIZE_def)
      moreover have "0 \<le> dPayload (data_packet ?b') \<or> um_overcut bufs left ?b'"
      proof (cases "double_of_UINT left \<le> dPayload (data_packet b)")
        case True
        then show ?thesis by (simp add: h)
      next
        case False
        then have "um_overcut bufs left ?b'" unfolding um_overcut_def
          using cut(3) Cons by (intro bexI [of _ b] exI [of _ left]) (simp_all add: h)
        then show ?thesis ..
      qed
      ultimately show ?thesis using ok Cons by auto
    next
      case whole
      obtain p' sn where a: "LTENR_RLC_UM_ADD_HDR E (data_packet b) = (p', sn)" by fastforce
      have p': "dPayload p' = real k" using UM_ADD_HDR_hdr(2) [of "data_packet b"] a k(1) by simp
      let ?n = "UINT_of_double (dPayload p')"
      let ?e1 = "if sn \<noteq> - 1 then e\<lparr>UM_TX_Next := UM_TX_Next e + 1\<rparr> else e"
      have "?n \<le> left" unfolding p' using unat_UINT_real [OF k(2)] k(3) whole(3) by (simp add: word_le_nat_alt)
      then have le: "left - ?n \<le> left" by (rule word_sub_le)
      have "um_tx_loop fuel E d i ch (?e1\<lparr>bufferStatus := (bufferStatus ?e1)(ch := bufferStatus ?e1 ch - ?n)\<rparr>)
          (LTENR_RLC_SENDPDUTOMAC E d i p' s) (left - ?n) (keep @ [b\<lparr>data_packet := p', isMarkedForRemoval := True\<rparr>]) bs
        = Inr (e', s', left', out)"
        using Suc.prems(1) whole a unfolding Cons um_tx_loop.simps by (simp only: Let_def prod.case simp_thms if_False)
      from Suc.IH [OF this bs] show ?thesis using um_overcut_mono [OF _ sub le] by auto
    qed
  qed
qed

end

lemma um_send_pdu_spec:
  assumes "rlc_environment E"
    and "\<forall>b \<in> set (transmissionBuffer e). um_entry b \<and> \<not> isMarkedForRemoval b"
  shows "\<exists>e' s' n. um_send_pdu E d i e s sz ch = Inr (e', s', n) \<and> n \<le> sz
    \<and> double_of_UINT n = mac_payload (trace s') - mac_payload (trace s)
    \<and> entry_payload (filter (\<lambda>b. \<not> isMarkedForRemoval b) (transmissionBuffer e')) + double_of_UINT n
      = entry_payload (transmissionBuffer e)"
proof -
  obtain e' s' left' out where
    l: "um_tx_loop (2 * length (transmissionBuffer e) + 2) E d i ch e s sz [] (transmissionBuffer e)
        = Inr (e', s', left', out)" and r: "um_tx_result s sz [] (transmissionBuffer e) s' left' out"
    using rlc_environment.um_tx_loop_spec [OF assms, of "2 * length (transmissionBuffer e) + 2"] by fastforce
  have run: "um_send_pdu E d i e s sz ch = Inr (e'\<lparr>transmissionBuffer := buf_update out\<rparr>, s', sz - left')"
    using l by (simp add: um_send_pdu_def)
  have live: "filter (\<lambda>b. \<not> isMarkedForRemoval b) (buf_update out) = filter (\<lambda>b. \<not> isMarkedForRemoval b) out"
    unfolding buf_update_def by (induction out) auto
  have le: "sz - left' \<le> sz"
    using r unfolding um_tx_result_def by (metis word_sub_le)
  show ?thesis
    by (intro exI conjI, rule run) (use r live le in \<open>auto simp: um_tx_result_def\<close>)
qed

text \<open>
  C35. A grant in unacknowledged mode, for SDUs as they are queued, whose payload is a whole number of
  bytes and not larger than their packet: the call always ends, reports exactly the payload it
  handed to the MAC sublayer and never more than the grant, and what the buffer still has to send
  afterwards is what it had less that payload. The packets left have such a payload still, with one
  exception: when what was left of the grant lay between the payload of an SDU and its size
  with headers, the cut took more than the SDU has, and the rest has a negative payload.
\<close>

theorem um_send_conserves_payload:
  assumes "rlc_environment E"
    and "\<forall>b \<in> set (transmissionBuffer e). um_entry b \<and> \<not> isMarkedForRemoval b"
  shows "\<exists>e' s' n. um_send_pdu E d i e s sz ch = Inr (e', s', n) \<and> n \<le> sz
    \<and> double_of_UINT n = mac_payload (trace s') - mac_payload (trace s)
    \<and> entry_payload (filter (\<lambda>b. \<not> isMarkedForRemoval b) (transmissionBuffer e')) + double_of_UINT n
      = entry_payload (transmissionBuffer e)
    \<and> (\<forall>b' \<in> set (transmissionBuffer e'). isMarkedForRemoval b' \<or> 0 \<le> dPayload (data_packet b')
         \<or> (\<exists>b \<in> set (transmissionBuffer e). \<exists>g \<le> sz. dPayload (data_packet b) < double_of_UINT g
              \<and> double_of_UINT g < dPacketSize (data_packet b)
              \<and> dPayload (data_packet b') = dPayload (data_packet b) - double_of_UINT g))"
proof -
  obtain e' s' n where 1: "um_send_pdu E d i e s sz ch = Inr (e', s', n)" "n \<le> sz"
    "double_of_UINT n = mac_payload (trace s') - mac_payload (trace s)"
    "entry_payload (filter (\<lambda>b. \<not> isMarkedForRemoval b) (transmissionBuffer e')) + double_of_UINT n
      = entry_payload (transmissionBuffer e)"
    using um_send_pdu_spec [OF assms] by blast
  obtain e1 left' out where l: "um_tx_loop (2 * length (transmissionBuffer e) + 2) E d i ch e s sz [] (transmissionBuffer e)
      = Inr (e1, s', left', out)" "transmissionBuffer e' = buf_update out"
    using 1(1) by (auto simp: um_send_pdu_def elim!: rbind_InrE)
  have "set (buf_update out) \<subseteq> set out" unfolding buf_update_def by (meson set_dropWhileD subsetI)
  then have "\<forall>b' \<in> set (transmissionBuffer e'). isMarkedForRemoval b' \<or> 0 \<le> dPayload (data_packet b')
      \<or> um_overcut (transmissionBuffer e) sz b'"
    using rlc_environment.um_tx_loop_rest [OF assms(1) l(1)] assms(2) unfolding l(2) by auto
  with 1 show ?thesis unfolding um_overcut_def by blast
qed

definition ex_um :: LTENR_RLCENTITY where
  "ex_um = LTENR_RLCENTITY_ALLOC\<lparr>ent_d := 1, ent_in := 1, peerId := 2, peerIf := 1,
     rlcMode := LTENR_RLCMODE_UM, isTransmittingRLCEntity := True, t_Reassembly := 50\<rparr>"

definition ex_um_busy :: LTENR_RLCENTITY where
  "ex_um_busy = ex_um\<lparr>transmissionBuffer :=
     [buf_new (ex_um_sdu\<lparr>dPayload := 40, dPacketSize := 60\<rparr>) 0 0 LTENR_LOGICALCHANNEL_DTCH,
      buf_new ex_um_sdu 0 0 LTENR_LOGICALCHANNEL_DTCH]\<rparr>"

lemma um_send_conserves_payload_witness:
  "\<exists>e' s' n. um_send_pdu plain_rlc_env 1 1 ex_um_busy ex_event 90 LTENR_LOGICALCHANNEL_DTCH = Inr (e', s', n)
     \<and> n \<le> 90 \<and> double_of_UINT n = mac_payload (trace s') - mac_payload (trace ex_event)"
proof -
  have "dPayload (ex_um_sdu\<lparr>dPayload := 40, dPacketSize := 60\<rparr>) = real 40" "dPayload ex_um_sdu = real 100"
    by (simp_all add: ex_um_sdu_def)
  then have "\<forall>b \<in> set (transmissionBuffer ex_um_busy). um_entry b \<and> \<not> isMarkedForRemoval b"
    by (auto simp: ex_um_busy_def um_entry_def buf_new_def ex_um_sdu_def LTENR_IS_UPLANE_MSG_def plain_create_def)
  then show ?thesis
    using um_send_conserves_payload [OF plain_rlc.rlc_environment_axioms] by blast
qed

text \<open>
  An SDU whose payload fits the grant, but not with its headers, is cut all the same: the
  fragment claims the whole grant as payload, more than the SDU has, and what stays in
  the buffer has a negative payload.
\<close>

theorem um_fragment_exceeds_sdu:
  assumes "rlc_environment E" and "transmissionBuffer e = [b]" and "channel b = ch"
    and "LTENR_IS_UPLANE_MSG (data_packet b)" and "\<not> sz < MIN_RLC_PDU_SIZE"
    and "dPayload (data_packet b) < double_of_UINT sz" and "double_of_UINT sz < dPacketSize (data_packet b)"
    and "\<not> isMarkedForRemoval b"
  shows "\<exists>e' s' b'. um_send_pdu E d i e s sz ch = Inr (e', s', sz)
    \<and> transmissionBuffer e' = [b'] \<and> dPayload (data_packet b') = dPayload (data_packet b) - double_of_UINT sz
    \<and> dPayload (data_packet b') < 0"
proof -
  obtain frag p' where f: "LTENR_RLC_UM_FRAGMENT_PACKET E (data_packet b) sz (UM_TX_Next e) = (frag, p')"
    by fastforce
  have "packet_api E" using assms(1) by (simp add: rlc_environment_def)
  note h = packet_api.UM_FRAGMENT_hdr(3,4) [OF this f]
  have n: "UINT_of_double (dPayload frag) = sz" unfolding h(1) by (rule UINT_of_double_of_UINT)
  let ?e = "e\<lparr>bufferStatus := (bufferStatus e)(ch := bufferStatus e ch - sz)\<rparr>"
  have run: "um_send_pdu E d i e s sz ch = Inr (?e\<lparr>transmissionBuffer := [b\<lparr>data_packet := p'\<rparr>]\<rparr>,
      LTENR_RLC_SENDPDUTOMAC E d i frag s, sz)"
  proof -
    have fuel: "2 * length (transmissionBuffer e) + 2 = Suc (Suc (Suc (Suc 0)))"
      using assms(2) by simp
    have "0 < MIN_RLC_PDU_SIZE" by (simp add: MIN_RLC_PDU_SIZE_def)
    then have "um_tx_loop (Suc (Suc (Suc (Suc 0)))) E d i ch e s sz [] [b]
      = Inr (?e, LTENR_RLC_SENDPDUTOMAC E d i frag s, 0, [b\<lparr>data_packet := p'\<rparr>])"
      using assms(3-7) f n by (simp add: Let_def)
    then show ?thesis
      using assms(8) unfolding um_send_pdu_def fuel by (simp add: assms(2) buf_update_def)
  qed
  show ?thesis
    unfolding run using h(2) assms(6)
    by (intro exI [of _ "b\<lparr>data_packet := p'\<rparr>"] exI [of _ "?e\<lparr>transmissionBuffer := [b\<lparr>data_packet := p'\<rparr>]\<rparr>"]
        exI [of _ "LTENR_RLC_SENDPDUTOMAC E d i frag s"]) simp
qed

lemma um_fragment_exceeds_sdu_witness:
  "\<exists>e' s' b'. um_send_pdu plain_rlc_env 1 1
      (ex_um\<lparr>transmissionBuffer := [buf_new ex_um_sdu 0 0 LTENR_LOGICALCHANNEL_DTCH]\<rparr>) ex_event 110
      LTENR_LOGICALCHANNEL_DTCH = Inr (e', s', 110)
    \<and> transmissionBuffer e' = [b'] \<and> dPayload (data_packet b') = - 10"
proof -
  let ?b = "buf_new ex_um_sdu 0 0 LTENR_LOGICALCHANNEL_DTCH"
  have "channel ?b = LTENR_LOGICALCHANNEL_DTCH" "LTENR_IS_UPLANE_MSG (data_packet ?b)"
    "\<not> (110 :: u32) < MIN_RLC_PDU_SIZE" "dPayload (data_packet ?b) < double_of_UINT 110"
    "double_of_UINT 110 < dPacketSize (data_packet ?b)" "\<not> isMarkedForRemoval ?b"
    by (simp_all add: buf_new_def ex_um_sdu_def LTENR_IS_UPLANE_MSG_def plain_create_def MIN_RLC_PDU_SIZE_def)
  from um_fragment_exceeds_sdu [OF plain_rlc.rlc_environment_axioms _ this(1-6),
      of "ex_um\<lparr>transmissionBuffer := [?b]\<rparr>" 1 1 ex_event]
  show ?thesis by (auto simp: buf_new_def ex_um_sdu_def)
qed

section \<open>The reassembly window and its timer\<close>

text \<open>The steps of a receiving entity: a PDU with a sequence number, or its timer.\<close>

inductive um_step :: "rlc_env \<Rightarrow> LTENR_RLCENTITY \<Rightarrow> LTENR_RLCENTITY \<Rightarrow> bool" for E where
  receive: "LTENR_RLCMSG_UMHDR_GET E p = Some h \<Longrightarrow> um_SN h \<noteq> - 1 \<Longrightarrow>
     um_receive_pdu_with_sn E e p s = Inr (e', s') \<Longrightarrow> um_step E e e'"
| expire: "isReassemblyTimerStarted e \<Longrightarrow>
     LTENR_RLC_UM_Handle_t_reassemblyTimer E e s = Inr (e', s') \<Longrightarrow> um_step E e e'"

inductive um_run :: "rlc_env \<Rightarrow> LTENR_RLCENTITY \<Rightarrow> LTENR_RLCENTITY \<Rightarrow> bool" for E where
  start: "um_run E e e"
| step: "um_run E e e1 \<Longrightarrow> um_step E e1 e2 \<Longrightarrow> um_run E e e2"

inductive_cases um_stepE: "um_step E e e'"

text \<open>
  The state the receiver never leaves: \<open>RX_Next_Highest\<close> is still 0, so no sequence number
  is inside the reassembly window, and the timer is off.
\<close>

definition um_closed :: "LTENR_RLCENTITY \<Rightarrow> bool" where
  "um_closed e \<longleftrightarrow> UM_RX_Next_Highest e = 0 \<and> UM_RX_Next_Reassembly e \<noteq> - 1
     \<and> \<not> isReassemblyTimerStarted e \<and> (\<forall>b \<in> set (UM_receptionBuffer e). rb_SN b \<noteq> - 1)"

lemma um_closed_window: "um_closed e \<Longrightarrow> \<not> LTENR_RLC_UM_IsSNFallsInReassemblyWindows e sn"
  by (simp add: um_closed_def LTENR_RLC_UM_IsSNFallsInReassemblyWindows_def)

lemma um_closed_timers:
  assumes "um_closed e"
  shows "um_receive_timers E e s = Inr (e, s)"
proof -
  have "UM_RX_Next_Reassembly e + 1 \<noteq> 0"
    using assms unfolding um_closed_def by (metis add.commute eq_neg_iff_add_eq_0)
  then show ?thesis
    using assms by (simp add: um_closed_def um_receive_timers_def um_start_timer_def um_start_test_def)
qed

lemma set_remove_at: "set (remove_at i xs) \<subseteq> set xs"
  by (auto simp: remove_at_def dest: in_set_takeD in_set_dropD)

lemma UM_AddToReceptionBuffer_Inr:
  assumes "LTENR_RLC_UM_AddToReceptionBuffer E b p = Inr b'"
  shows "rb_SN b' = rb_SN b" and "rb_packets b' = rb_packets b @ [p]"
  using assms by (auto simp: LTENR_RLC_UM_AddToReceptionBuffer_def Let_def rbind_Inr_iff)

context rlc_environment
begin

text \<open>
  The placing of a PDU: where the segments of its SDU are, what is done when they are
  complete.
\<close>

lemma um_place_cases:
  assumes "LTENR_RLC_UM_PLACE_UMDPDU_IN_RECEPTIONBUFFER E e p s = Inr (e', s')"
    and h: "LTENR_RLCMSG_UMHDR_GET E p = Some h"
  obtains (wait) bufs b i where "LTENR_RLC_UM_isAllByteSegmentReceived E b = Inr False"
      "e' = e\<lparr>UM_receptionBuffer := bufs[i := b]\<rparr>" "s' = s" "i < length bufs"
      "bufs = UM_receptionBuffer e \<or> bufs = UM_receptionBuffer e @ [LTENR_RLC_RECEPTIONBUFFER_ALLOC\<lparr>rb_SN := um_SN h\<rparr>]"
      "rb_SN (bufs ! i) = um_SN h" "rb_SN b = um_SN h" "rb_packets b = rb_packets (bufs ! i) @ [p]"
  | (deliver) bufs b i q frees where "LTENR_RLC_UM_isAllByteSegmentReceived E b = Inr True"
      "LTENR_RLC_UM_ReassembleAllBytes b = Inr (q, frees)"
      "UM_receptionBuffer e' = remove_at i (bufs[i := b])" "i < length bufs"
      "bufs = UM_receptionBuffer e \<or> bufs = UM_receptionBuffer e @ [LTENR_RLC_RECEPTIONBUFFER_ALLOC\<lparr>rb_SN := um_SN h\<rparr>]"
      "rb_SN (bufs ! i) = um_SN h" "rb_SN b = um_SN h" "rb_packets b = rb_packets (bufs ! i) @ [p]"
      "UM_RX_Next_Highest e' = UM_RX_Next_Highest e"
      "isReassemblyTimerStarted e' = isReassemblyTimerStarted e"
      "UM_RX_Next_Reassembly e' = UM_RX_Next_Reassembly e
        \<or> UM_RX_Next_Reassembly e' \<in> rb_SN ` set (UM_receptionBuffer e')"
      "s' = emit (ToPDCP (LTENR_RLCMSG_UMDHDR_REMOVE E q)) ((emits frees s)\<lparr>pPacket := Some (LTENR_RLCMSG_UMDHDR_REMOVE E q)\<rparr>)"
proof -
  obtain e1 i where e1: "(case LTENR_RLC_UM_FINDRECEPTIONBUFFER e (um_SN h) of
      None \<Rightarrow> LTENR_RLC_UM_CREATERECEPTIONBUFFER E e (um_SN h) | Some i \<Rightarrow> (e, i)) = (e1, i)"
    by fastforce
  define bufs where "bufs = UM_receptionBuffer e1"
  have bufs: "bufs = UM_receptionBuffer e \<or> bufs = UM_receptionBuffer e @ [LTENR_RLC_RECEPTIONBUFFER_ALLOC\<lparr>rb_SN := um_SN h\<rparr>]"
    and e1': "e1 = e\<lparr>UM_receptionBuffer := bufs\<rparr>" and i: "i < length bufs" "rb_SN (bufs ! i) = um_SN h"
    using e1 find_receptionBuffer_Some [of "UM_receptionBuffer e" "um_SN h"]
    by (auto simp: bufs_def LTENR_RLC_UM_FINDRECEPTIONBUFFER_def LTENR_RLC_UM_CREATERECEPTIONBUFFER_def
        rb.add_last_law split: option.splits)
  obtain b where b: "LTENR_RLC_UM_AddToReceptionBuffer E (bufs ! i) p = Inr b"
    and run: "rbind (LTENR_RLC_UM_isAllByteSegmentReceived E b) (\<lambda>complete.
           if complete
           then rbind (LTENR_RLC_UM_ReassembleAllBytes b) (\<lambda>(p, frees).
                let packet' = LTENR_RLCMSG_UMDHDR_REMOVE E p;
                    e3 = LTENR_RLC_UM_DeleteReceptionBuffer E (e1\<lparr>UM_receptionBuffer := bufs[i := b]\<rparr>) i
                in Inr (if um_SN h = UM_RX_Next_Reassembly e3
                        then LTENR_RLC_UM_UpdateRXNextReassembly e3 else e3,
                      emit (ToPDCP packet') ((emits frees s)\<lparr>pPacket := Some packet'\<rparr>)))
           else Inr (e1\<lparr>UM_receptionBuffer := bufs[i := b]\<rparr>, s)) = Inr (e', s')"
    using assms e1 unfolding LTENR_RLC_UM_PLACE_UMDPDU_IN_RECEPTIONBUFFER_def bufs_def h deref_simps rbind_simps Let_def
    by (auto simp: rbind_Inr_iff [of "LTENR_RLC_UM_AddToReceptionBuffer E (UM_receptionBuffer e1 ! i) p"])
  note b' = UM_AddToReceptionBuffer_Inr [OF b]
  obtain complete where c: "LTENR_RLC_UM_isAllByteSegmentReceived E b = Inr complete"
    using run by (auto simp: rbind_Inr_iff)
  show thesis
  proof (cases complete)
    case False
    show thesis
      by (rule wait [of b bufs i]) (use c False run i bufs b' e1' in auto)
  next
    case True
    obtain q frees where r: "LTENR_RLC_UM_ReassembleAllBytes b = Inr (q, frees)"
      using run c True by (auto simp: rbind_Inr_iff)
    define e3 where "e3 = LTENR_RLC_UM_DeleteReceptionBuffer E (e1\<lparr>UM_receptionBuffer := bufs[i := b]\<rparr>) i"
    have e3: "UM_receptionBuffer e3 = remove_at i (bufs[i := b])" "UM_RX_Next_Highest e3 = UM_RX_Next_Highest e"
      "isReassemblyTimerStarted e3 = isReassemblyTimerStarted e" "UM_RX_Next_Reassembly e3 = UM_RX_Next_Reassembly e"
      using i by (simp_all add: e3_def LTENR_RLC_UM_DeleteReceptionBuffer_def rb.free_law e1')
    have out: "e' = (if um_SN h = UM_RX_Next_Reassembly e3 then LTENR_RLC_UM_UpdateRXNextReassembly e3 else e3)"
      "s' = emit (ToPDCP (LTENR_RLCMSG_UMDHDR_REMOVE E q)) ((emits frees s)\<lparr>pPacket := Some (LTENR_RLCMSG_UMDHDR_REMOVE E q)\<rparr>)"
      using run c True r by (auto simp: e3_def Let_def)
    have upd: "UM_receptionBuffer (LTENR_RLC_UM_UpdateRXNextReassembly e3) = UM_receptionBuffer e3"
      "UM_RX_Next_Highest (LTENR_RLC_UM_UpdateRXNextReassembly e3) = UM_RX_Next_Highest e3"
      "isReassemblyTimerStarted (LTENR_RLC_UM_UpdateRXNextReassembly e3) = isReassemblyTimerStarted e3"
      "UM_RX_Next_Reassembly (LTENR_RLC_UM_UpdateRXNextReassembly e3) = UM_RX_Next_Reassembly e3
        \<or> UM_RX_Next_Reassembly (LTENR_RLC_UM_UpdateRXNextReassembly e3) \<in> rb_SN ` set (UM_receptionBuffer e3)"
      by (auto simp: LTENR_RLC_UM_UpdateRXNextReassembly_def find_Some_iff split: option.splits)
    show thesis
      by (rule deliver [of b q frees i bufs])
         (use c True r i bufs b' e3 out upd in \<open>auto split: if_splits\<close>)
  qed
qed

lemma um_receive_closed:
  assumes "um_closed e" and h: "LTENR_RLCMSG_UMHDR_GET E p = Some h" "um_SN h \<noteq> - 1"
    and run: "um_receive_pdu_with_sn E e p s = Inr (e', s')"
  shows "um_closed e'" and "LTENR_RLC_UM_PLACE_UMDPDU_IN_RECEPTIONBUFFER E e p s = Inr (e', s')"
proof -
  obtain e2 s2 where 2: "LTENR_RLC_UM_PLACE_UMDPDU_IN_RECEPTIONBUFFER E e p s = Inr (e2, s2)"
    and t: "um_receive_timers E e2 s2 = Inr (e', s')"
    using run h um_closed_window [OF assms(1)]
    by (auto simp: um_receive_pdu_with_sn_def Let_def rbind_Inr_iff)
  have new: "\<forall>b \<in> set bufs. rb_SN b \<noteq> - 1" if "bufs = UM_receptionBuffer e
      \<or> bufs = UM_receptionBuffer e @ [LTENR_RLC_RECEPTIONBUFFER_ALLOC\<lparr>rb_SN := um_SN h\<rparr>]" for bufs
    using that assms(1) h(2) by (auto simp: um_closed_def)
  from 2 h(1) have "um_closed e2"
  proof (cases rule: um_place_cases)
    case (wait bufs b i)
    have "\<forall>x \<in> set (bufs[i := b]). rb_SN x \<noteq> - 1"
      using new [OF wait(5)] wait(7) h(2) set_update_subset_insert [of bufs i b] by auto
    then show ?thesis using assms(1) wait(2) by (simp add: um_closed_def)
  next
    case (deliver bufs b i q frees)
    have "\<forall>x \<in> set (bufs[i := b]). rb_SN x \<noteq> - 1"
      using new [OF deliver(5)] deliver(7) h(2) set_update_subset_insert [of bufs i b] by auto
    then have "\<forall>x \<in> set (UM_receptionBuffer e'). rb_SN x \<noteq> - 1" if "e' = e2" for e'
      using that deliver(3) set_remove_at [of i "bufs[i := b]"] by auto
    then show ?thesis using assms(1) deliver(9-11) by (auto simp: um_closed_def)
  qed
  moreover from um_closed_timers [OF this] t have "e' = e2" "s' = s2" by simp_all
  ultimately show "um_closed e'" "LTENR_RLC_UM_PLACE_UMDPDU_IN_RECEPTIONBUFFER E e p s = Inr (e', s')"
    using 2 by simp_all
qed

lemma um_run_closed: "um_run E e e' \<Longrightarrow> um_closed e \<Longrightarrow> um_closed e'"
proof (induction rule: um_run.induct)
  case (start e)
  then show ?case .
next
  case (step e e1 e2)
  then have "um_closed e1" by simp
  with step.hyps(2) show ?case
  proof (elim um_stepE)
    fix p h s s'
    assume "LTENR_RLCMSG_UMHDR_GET E p = Some h" "um_SN h \<noteq> - 1"
      "um_receive_pdu_with_sn E e1 p s = Inr (e2, s')"
    with \<open>um_closed e1\<close> show ?thesis by (rule um_receive_closed(1))
  qed (simp add: um_closed_def)
qed

lemma um_receive_outcome:
  assumes "um_closed e" and "LTENR_RLCMSG_UMHDR_GET E p = Some h" and "um_SN h \<noteq> - 1"
    and "um_receive_pdu_with_sn E e p s = Inr (e', s')"
  shows "s' = s \<and> (\<exists>b \<in> set (UM_receptionBuffer e'). rb_SN b = um_SN h \<and> p \<in> set (rb_packets b))
      \<and> (\<forall>b \<in> set (UM_receptionBuffer e). rb_SN b \<noteq> um_SN h \<longrightarrow> b \<in> set (UM_receptionBuffer e'))
    \<or> (\<exists>q b. pPacket s' = Some q \<and> last (trace s') = ToPDCP q \<and> p \<in> set (rb_packets b)
        \<and> LTENR_RLC_UM_isAllByteSegmentReceived E b = Inr True \<and> dPayload q = payload_sum (rb_packets b)
        \<and> (\<forall>c \<in> set (UM_receptionBuffer e). rb_SN c \<noteq> um_SN h \<longrightarrow> c \<in> set (UM_receptionBuffer e')))"
proof -
  have P: "LTENR_RLC_UM_PLACE_UMDPDU_IN_RECEPTIONBUFFER E e p s = Inr (e', s')"
    by (rule um_receive_closed(2) [OF assms])
  have others: "c \<in> set (bufs[i := b])" "c \<in> set (remove_at i (bufs[i := b]))"
    if "c \<in> set (UM_receptionBuffer e)" "rb_SN c \<noteq> um_SN h" "i < length bufs" "rb_SN (bufs ! i) = um_SN h"
      "bufs = UM_receptionBuffer e \<or> bufs = UM_receptionBuffer e @ [LTENR_RLC_RECEPTIONBUFFER_ALLOC\<lparr>rb_SN := um_SN h\<rparr>]"
    for c b bufs i
  proof -
    have "c \<in> set bufs" using that by auto
    then obtain j where j: "j < length bufs" "bufs ! j = c" by (auto simp: in_set_conv_nth)
    then have "j \<noteq> i" using that by auto
    then show "c \<in> set (bufs[i := b])" using j by (metis length_list_update nth_list_update_neq nth_mem)
    show "c \<in> set (remove_at i (bufs[i := b]))"
    proof (cases "j < i")
      case True
      then show ?thesis using j that(3) by (auto simp: remove_at_def in_set_conv_nth intro!: exI [of _ j])
    next
      case False
      then have "c = drop (Suc i) bufs ! (j - Suc i)" "j - Suc i < length (drop (Suc i) bufs)"
        using j \<open>j \<noteq> i\<close> by auto
      then have "c \<in> set (drop (Suc i) bufs)" by (metis nth_mem)
      then show ?thesis by (simp add: remove_at_def)
    qed
  qed
  from P assms(2) show ?thesis
  proof (cases rule: um_place_cases)
    case (wait bufs b i)
    have "b \<in> set (bufs[i := b])" using wait(4) by (rule set_update_memI)
    then show ?thesis using wait others [of _ i bufs b] by auto
  next
    case (deliver bufs b i q frees)
    have "dPayload q = payload_sum (rb_packets b)"
      using ReassembleAllBytes_payload deliver(2) unfolding LTENR_RLC_UM_ReassembleAllBytes_def .
    then have "dPayload (LTENR_RLCMSG_UMDHDR_REMOVE E q) = payload_sum (rb_packets b)"
      by simp
    moreover have "p \<in> set (rb_packets b)" using deliver(8) by simp
    moreover have "\<forall>c \<in> set (UM_receptionBuffer e). rb_SN c \<noteq> um_SN h \<longrightarrow> c \<in> set (UM_receptionBuffer e')"
      using others(2) [OF _ _ deliver(4,6,5)] deliver(3) by simp
    moreover have "pPacket s' = Some (LTENR_RLCMSG_UMDHDR_REMOVE E q)"
      "last (trace s') = ToPDCP (LTENR_RLCMSG_UMDHDR_REMOVE E q)"
      by (simp_all add: deliver(12) emit_def)
    ultimately show ?thesis using deliver(1) by blast
  qed
qed

end

text \<open>
  A receiving entity starts with an empty reassembly window and never opens it: whatever
  PDUs arrive, \<open>RX_Next_Highest\<close> stays 0, every sequence number counts as outside, and the
  reassembly timer is never started, so nothing ever gives up an SDU that lost a segment.
\<close>

theorem um_reassembly_timer_never_starts:
  assumes "rlc_environment E" and "um_run E e e'"
    and "UM_RX_Next_Highest e = 0" and "UM_RX_Next_Reassembly e = 0"
    and "UM_receptionBuffer e = []" and "\<not> isReassemblyTimerStarted e"
  shows "\<not> isReassemblyTimerStarted e' \<and> UM_RX_Next_Highest e' = 0
    \<and> \<not> LTENR_RLC_UM_IsSNFallsInReassemblyWindows e' sn
    \<and> um_start_timer E e' s = Inr (e', s)"
proof -
  have "um_closed e" using assms(3-6) by (simp add: um_closed_def)
  then have c: "um_closed e'" using rlc_environment.um_run_closed [OF assms(1,2)] by simp
  moreover have "um_start_timer E e' s = Inr (e', s)"
    using um_closed_timers [OF c, of E s] c by (simp add: um_receive_timers_def um_closed_def)
  ultimately show ?thesis using um_closed_window by (simp add: um_closed_def)
qed

definition ex_um_seg :: "SI \<Rightarrow> u32 \<Rightarrow> u16 \<Rightarrow> NetSim_PACKET" where
  "ex_um_seg si sn so = plain_add ex_um_sdu (UMD \<lparr>um_si = si, um_SN = sn, um_SO = so\<rparr>) rlcMsgUMDHDRID 3"

lemma um_reassembly_timer_never_starts_witness:
  "\<exists>e'. um_run plain_rlc_env ex_um e' \<and> length (UM_receptionBuffer e') = 1
     \<and> \<not> isReassemblyTimerStarted e'"
proof -
  have c: "case um_receive_pdu_with_sn plain_rlc_env ex_um (ex_um_seg SI_LAST 3 2) ex_event of
      Inr (e', s') \<Rightarrow> length (UM_receptionBuffer e') = 1 | Inl f \<Rightarrow> False"
    by code_simp
  then obtain e' s' where r: "um_receive_pdu_with_sn plain_rlc_env ex_um (ex_um_seg SI_LAST 3 2) ex_event = Inr (e', s')"
    by (auto split: sum.splits)
  have "LTENR_RLCMSG_UMHDR_GET plain_rlc_env (ex_um_seg SI_LAST 3 2)
      = Some \<lparr>um_si = SI_LAST, um_SN = 3, um_SO = 2\<rparr>"
    by code_simp
  then have "um_step plain_rlc_env ex_um e'" using um_step.receive [OF _ _ r] by simp
  then have run: "um_run plain_rlc_env ex_um e'" by (rule um_run.step [OF um_run.start])
  have "UM_RX_Next_Highest ex_um = 0" "UM_RX_Next_Reassembly ex_um = 0" "UM_receptionBuffer ex_um = []"
    "\<not> isReassemblyTimerStarted ex_um"
    by (simp_all add: ex_um_def LTENR_RLCENTITY_ALLOC_def)
  from um_reassembly_timer_never_starts [OF plain_rlc.rlc_environment_axioms run this] c r run
  show ?thesis by auto
qed

text \<open>
  Until then the receiver only adds: a segment that does not complete its SDU is kept,
  with the other buffers as they were and nothing freed or passed on; one that completes
  it hands the payload of all its segments to PDCP in one packet.
\<close>

theorem um_receive_keeps_or_delivers:
  assumes "rlc_environment E" and "um_closed e" and "LTENR_RLCMSG_UMHDR_GET E p = Some h" and "um_SN h \<noteq> - 1"
    and "um_receive_pdu_with_sn E e p s = Inr (e', s')"
  shows "s' = s \<and> (\<exists>b \<in> set (UM_receptionBuffer e'). rb_SN b = um_SN h \<and> p \<in> set (rb_packets b))
      \<and> (\<forall>b \<in> set (UM_receptionBuffer e). rb_SN b \<noteq> um_SN h \<longrightarrow> b \<in> set (UM_receptionBuffer e'))
    \<or> (\<exists>q b. pPacket s' = Some q \<and> last (trace s') = ToPDCP q \<and> p \<in> set (rb_packets b)
        \<and> LTENR_RLC_UM_isAllByteSegmentReceived E b = Inr True \<and> dPayload q = payload_sum (rb_packets b)
        \<and> (\<forall>c \<in> set (UM_receptionBuffer e). rb_SN c \<noteq> um_SN h \<longrightarrow> c \<in> set (UM_receptionBuffer e')))"
  by (rule rlc_environment.um_receive_outcome [OF assms])

lemma um_receive_keeps_or_delivers_witness:
  "\<exists>e' s' q. um_receive_pdu_with_sn plain_rlc_env
        (ex_um\<lparr>UM_receptionBuffer := [LTENR_RLC_RECEPTIONBUFFER_ALLOC
           \<lparr>rb_SN := 3, rb_packets := [ex_um_seg SI_FIRST 3 0]\<rparr>]\<rparr>)
        (ex_um_seg SI_LAST 3 1) ex_event = Inr (e', s')
     \<and> pPacket s' = Some q \<and> dPayload q = 200"
proof -
  let ?e = "ex_um\<lparr>UM_receptionBuffer := [LTENR_RLC_RECEPTIONBUFFER_ALLOC
           \<lparr>rb_SN := 3, rb_packets := [ex_um_seg SI_FIRST 3 0]\<rparr>]\<rparr>"
  have c: "case um_receive_pdu_with_sn plain_rlc_env ?e (ex_um_seg SI_LAST 3 1) ex_event of
      Inr (e', s') \<Rightarrow> (case pPacket s' of Some q \<Rightarrow> dPayload q = 200 \<and> UM_receptionBuffer e' = [] | None \<Rightarrow> False)
    | Inl f \<Rightarrow> False"
    by code_simp
  then obtain e' s' where r: "um_receive_pdu_with_sn plain_rlc_env ?e (ex_um_seg SI_LAST 3 1) ex_event = Inr (e', s')"
    by (auto split: sum.splits)
  obtain q where q: "pPacket s' = Some q" "dPayload q = 200" "UM_receptionBuffer e' = []"
    using c r by (auto split: option.splits)
  have h: "LTENR_RLCMSG_UMHDR_GET plain_rlc_env (ex_um_seg SI_LAST 3 1)
      = Some \<lparr>um_si = SI_LAST, um_SN = 3, um_SO = 1\<rparr>"
    by code_simp
  have cl: "um_closed ?e"
    by (simp add: um_closed_def ex_um_def LTENR_RLCENTITY_ALLOC_def)
  have n: "um_SN \<lparr>um_si = SI_LAST, um_SN = 3, um_SO = 1\<rparr> \<noteq> - 1" by simp
  have "\<exists>b :: LTENR_RLC_RECEPTIONBUFFER. dPayload q = payload_sum (rb_packets b)"
    using um_receive_keeps_or_delivers [OF plain_rlc.rlc_environment_axioms cl h n r] q by auto
  then show ?thesis using r q by auto
qed

end
