(* ===== verification/RLC_Core.thy ===== *)
theory RLC_Core
  imports RLC_AM_Tx RLC_UM
begin

text \<open>
  The RLC sublayer of a device (\<open>LTE_NR/LTENR_RLC.c\<close>): the entities of an interface and how
  association establishes and releases them, transparent mode, and the entry points that
  find the entity a packet, a grant or a timer is for and run the AM, UM or TM operation
  on it.
\<close>

section \<open>Interfaces, their configuration and their RLC data\<close>

text \<open>In the source \<open>ENB\<close> is a second name of \<open>GNB\<close>.\<close>

datatype LTENR_DEVICETYPE =
    LTENR_DEVICETYPE_UE | LTENR_DEVICETYPE_GNB | LTENR_DEVICETYPE_EPC | LTENR_DEVICETYPE_AMF
  | LTENR_DEVICETYPE_SMF | LTENR_DEVICETYPE_UPF | LTENR_DEVICETYPE_LAST

datatype LTENR_NSA_MODES =
    NSA_MODE_OPTION3 | NSA_MODE_OPTION3A | NSA_MODE_OPTION3X | NSA_MODE_OPTION4 | NSA_MODE_OPTION4A
  | NSA_MODE_OPTION7 | NSA_MODE_OPTION7A | NSA_MODE_OPTION7X | NSA_MODE_LAST

datatype LTENR_CELL_TYPES = CELL_TYPE_NONE | MMWAVE_CELL_TYPE | NON_MMWAVE_CELL_TYPE

text \<open>The fields of \<open>LTENR_PROTODATA\<close> that RLC, PDCP and RRC read.\<close>

record LTENR_PROTODATA =
  deviceType :: LTENR_DEVICETYPE
  pd_discardTimer :: real
  pd_isHdrCompression :: bool
  pd_isoutOfOrderDelivery :: bool
  pd_t_reorderingTimer :: real
  pd_maxRetxThreshold :: string
  pd_pollPdu :: string
  pd_pollBytes :: string
  pd_t_reassembly :: string
  pd_t_pollRetransmit :: string
  pd_t_statusProhibit :: string
  pd_HandoverMargin :: real
  pd_TTT :: real
  series3GPP :: int
  isDCEnable :: bool
  MasterCellType :: LTENR_CELL_TYPES
  SecCellType :: LTENR_CELL_TYPES
  NSA_MODE :: LTENR_NSA_MODES

record LTENR_RLCVAR =
  t_reassembly :: real
  rlcEntities :: "LTENR_RLCENTITY list"

text \<open>
  \<open>LTENR_LAYER_DATA[devType][LTENR_SUBLAYER_RLC]\<close> of each interface, for the two device types
  that have an RLC sublayer.
\<close>

record rlc_state =
  ue_rlc :: "netsim_id \<times> netsim_id \<Rightarrow> LTENR_RLCVAR option"
  gnb_rlc :: "netsim_id \<times> netsim_id \<Rightarrow> LTENR_RLCVAR option"

text \<open>
  The code outside the repository: the kernel functions of \<open>rlc_env\<close>, the list library at the
  type of entities, the configuration of an interface, the association table, and the
  parsers of durations and sizes. Every interface RLC is called for has its configuration.
\<close>

record core_env =
  kernel :: rlc_env
  ent_lib :: "LTENR_RLCENTITY list_lib"
  LTENR_PROTODATA_GET :: "netsim_id \<Rightarrow> netsim_id \<Rightarrow> LTENR_PROTODATA"
  LTENR_FIND_ASSOCIATEINTERFACE :: "netsim_id \<Rightarrow> netsim_id \<Rightarrow> netsim_id \<Rightarrow> netsim_id"
  str_to_time :: "string \<Rightarrow> real"
  str_to_bytes :: "string \<Rightarrow> u32"

definition isUE :: "core_env \<Rightarrow> netsim_id \<Rightarrow> netsim_id \<Rightarrow> bool" where
  "isUE C d i \<longleftrightarrow> deviceType (LTENR_PROTODATA_GET C d i) = LTENR_DEVICETYPE_UE"

definition isGNB :: "core_env \<Rightarrow> netsim_id \<Rightarrow> netsim_id \<Rightarrow> bool" where
  "isGNB C d i \<longleftrightarrow> deviceType (LTENR_PROTODATA_GET C d i) = LTENR_DEVICETYPE_GNB"

definition LTENR_UERLC_SET ::
  "netsim_id \<Rightarrow> netsim_id \<Rightarrow> LTENR_RLCVAR \<Rightarrow> rlc_state \<Rightarrow> rlc_state" where
  "LTENR_UERLC_SET d i v st = st\<lparr>ue_rlc := (ue_rlc st)((d, i) := Some v)\<rparr>"

definition LTENR_GNBRLC_SET ::
  "netsim_id \<Rightarrow> netsim_id \<Rightarrow> LTENR_RLCVAR \<Rightarrow> rlc_state \<Rightarrow> rlc_state" where
  "LTENR_GNBRLC_SET d i v st = st\<lparr>gnb_rlc := (gnb_rlc st)((d, i) := Some v)\<rparr>"

definition LTENR_RLC_GET :: "core_env \<Rightarrow> rlc_state \<Rightarrow> netsim_id \<Rightarrow> netsim_id \<Rightarrow> LTENR_RLCVAR option" where
  "LTENR_RLC_GET C st d i =
     (if isUE C d i then ue_rlc st (d, i)
      else if isGNB C d i then gnb_rlc st (d, i) else None)"

text \<open>A write through the pointer \<open>LTENR_RLC_GET\<close> returned.\<close>

definition rlc_write ::
  "core_env \<Rightarrow> rlc_state \<Rightarrow> netsim_id \<Rightarrow> netsim_id \<Rightarrow> LTENR_RLCVAR \<Rightarrow> rlc_state" where
  "rlc_write C st d i v =
     (if isUE C d i then LTENR_UERLC_SET d i v st
      else if isGNB C d i then LTENR_GNBRLC_SET d i v st else st)"

text \<open>
  \<open>atoi\<close> of the C library: white space, a sign, then digits up to the first other character.
\<close>

fun atoi_digits :: "int \<Rightarrow> string \<Rightarrow> int" where
  "atoi_digits n [] = n"
| "atoi_digits n (c # cs) =
     (let k = of_char c :: int
      in if 48 \<le> k \<and> k \<le> 57 then atoi_digits (10 * n + (k - 48)) cs else n)"

fun atoi :: "string \<Rightarrow> int" where
  "atoi [] = 0"
| "atoi (c # cs) =
     (let k = of_char c :: int
      in if k = 32 \<or> (9 \<le> k \<and> k \<le> 13) then atoi cs
         else if k = 45 then - atoi_digits 0 cs
         else if k = 43 then atoi_digits 0 cs
         else atoi_digits 0 (c # cs))"

section \<open>Entities\<close>

definition entity_is ::
  "netsim_id \<Rightarrow> netsim_id \<Rightarrow> netsim_id \<Rightarrow> netsim_id \<Rightarrow> LTENR_RLCMODE \<Rightarrow> bool \<Rightarrow> bool
     \<Rightarrow> LTENR_RLCENTITY \<Rightarrow> bool" where
  "entity_is d i p pif mode tx rx e \<longleftrightarrow>
     ent_d e = d \<and> ent_in e = i \<and> peerId e = p \<and> peerIf e = pif \<and> rlcMode e = mode
     \<and> isTransmittingRLCEntity e = tx \<and> isReceivingRLCEntity e = rx"

text \<open>The pointer to an entity is its position in the list of the interface.\<close>

definition LTENR_RLC_FINDENTITY ::
  "core_env \<Rightarrow> rlc_state \<Rightarrow> netsim_id \<Rightarrow> netsim_id \<Rightarrow> netsim_id \<Rightarrow> netsim_id \<Rightarrow> LTENR_RLCMODE
     \<Rightarrow> bool \<Rightarrow> bool \<Rightarrow> nat option" where
  "LTENR_RLC_FINDENTITY C st d i p pif mode tx rx =
     find_pos (entity_is d i p pif mode tx rx)
       (case LTENR_RLC_GET C st d i of Some rlc \<Rightarrow> rlcEntities rlc | None \<Rightarrow> [])"

definition LTENR_RLC_ESTABLISHENTITY ::
  "core_env \<Rightarrow> netsim_id \<Rightarrow> netsim_id \<Rightarrow> netsim_id \<Rightarrow> netsim_id \<Rightarrow> LTENR_RLCMODE \<Rightarrow> bool \<Rightarrow> bool
     \<Rightarrow> rlc_state \<Rightarrow> rlc_state" where
  "LTENR_RLC_ESTABLISHENTITY C d i p pif mode tx rx st =
     (if LTENR_RLC_FINDENTITY C st d i p pif mode tx rx \<noteq> None then st
      else case LTENR_RLC_GET C st d i of
        None \<Rightarrow> st
      | Some rlc \<Rightarrow>
          let pd = LTENR_PROTODATA_GET C d i;
              e1 = LTENR_RLCENTITY_ALLOC\<lparr>retransmissionBuffer := [], transmissionBuffer := [],
                     transmittedBuffer := [], noBuffers := False\<rparr>;
              e2 = e1\<lparr>t_Reassembly := t_reassembly rlc\<rparr>;
              e3 = e2\<lparr>ent_d := d, ent_in := i, peerId := p, peerIf := pif, rlcMode := mode,
                     isReceivingRLCEntity := rx, isTransmittingRLCEntity := tx\<rparr>;
              e4 = e3\<lparr>t_PollRetransmit := str_to_time C (pd_t_pollRetransmit pd),
                     t_StatusProhibit := str_to_time C (pd_t_statusProhibit pd),
                     t_Reassembly := str_to_time C (pd_t_reassembly pd),
                     pollByte := str_to_bytes C (pd_pollBytes pd),
                     pollPDU := word_of_int (atoi (tl (pd_pollPdu pd))),
                     maxRetxThreshold := word_of_int (atoi (tl (pd_maxRetxThreshold pd)))\<rparr>
          in rlc_write C st d i (rlc\<lparr>rlcEntities := list_add_last (ent_lib C) (rlcEntities rlc) e4\<rparr>))"

text \<open>\<open>LIST_REMOVE(ls, mem)\<close> reads \<open>mem->ele->offset\<close>: it faults where no entity was found.\<close>

definition LTENR_RLC_UNESTABLISHENTITY ::
  "core_env \<Rightarrow> netsim_id \<Rightarrow> netsim_id \<Rightarrow> netsim_id \<Rightarrow> netsim_id \<Rightarrow> LTENR_RLCMODE \<Rightarrow> bool \<Rightarrow> bool
     \<Rightarrow> rlc_state \<Rightarrow> rlc_state result" where
  "LTENR_RLC_UNESTABLISHENTITY C d i p pif mode tx rx st =
     (case LTENR_RLC_GET C st d i of
        None \<Rightarrow> Inr st
      | Some rlc \<Rightarrow>
          rbind (deref (LTENR_RLC_FINDENTITY C st d i p pif mode tx rx)) (\<lambda>j.
          Inr (rlc_write C st d i (rlc\<lparr>rlcEntities := list_free (ent_lib C) (rlcEntities rlc) j\<rparr>))))"

definition LTENR_RLC_ESTABLISHENTITYALL ::
  "core_env \<Rightarrow> netsim_id \<Rightarrow> netsim_id \<Rightarrow> netsim_id \<Rightarrow> netsim_id \<Rightarrow> rlc_state \<Rightarrow> rlc_state" where
  "LTENR_RLC_ESTABLISHENTITYALL C d i p pif st =
     (let st1 = LTENR_RLC_ESTABLISHENTITY C d i p pif LTENR_RLCMODE_TM True False st;
          st2 = LTENR_RLC_ESTABLISHENTITY C d i p pif LTENR_RLCMODE_TM False True st1;
          st3 = LTENR_RLC_ESTABLISHENTITY C d i p pif LTENR_RLCMODE_UM True False st2;
          st4 = LTENR_RLC_ESTABLISHENTITY C d i p pif LTENR_RLCMODE_UM False True st3
      in LTENR_RLC_ESTABLISHENTITY C d i p pif LTENR_RLCMODE_AM True True st4)"

definition LTENR_RLC_UNESTABLISHENTITYALL ::
  "core_env \<Rightarrow> netsim_id \<Rightarrow> netsim_id \<Rightarrow> netsim_id \<Rightarrow> netsim_id \<Rightarrow> rlc_state \<Rightarrow> rlc_state result" where
  "LTENR_RLC_UNESTABLISHENTITYALL C d i p pif st =
     rbind (LTENR_RLC_UNESTABLISHENTITY C d i p pif LTENR_RLCMODE_TM True False st) (\<lambda>st1.
     rbind (LTENR_RLC_UNESTABLISHENTITY C d i p pif LTENR_RLCMODE_TM False True st1) (\<lambda>st2.
     rbind (LTENR_RLC_UNESTABLISHENTITY C d i p pif LTENR_RLCMODE_UM True False st2) (\<lambda>st3.
     rbind (LTENR_RLC_UNESTABLISHENTITY C d i p pif LTENR_RLCMODE_UM False True st3) (\<lambda>st4.
     LTENR_RLC_UNESTABLISHENTITY C d i p pif LTENR_RLCMODE_AM True True st4))))"

definition LTENR_RLC_TMESTABLISHENTITYALL ::
  "core_env \<Rightarrow> netsim_id \<Rightarrow> netsim_id \<Rightarrow> netsim_id \<Rightarrow> netsim_id \<Rightarrow> rlc_state \<Rightarrow> rlc_state" where
  "LTENR_RLC_TMESTABLISHENTITYALL C d i p pif st =
     (let st1 = LTENR_RLC_ESTABLISHENTITY C d i p pif LTENR_RLCMODE_TM True False st
      in LTENR_RLC_ESTABLISHENTITY C d i p pif LTENR_RLCMODE_TM False True st1)"

definition LTENR_RLC_ESTABLISHBROADCASTENTITY ::
  "core_env \<Rightarrow> netsim_id \<Rightarrow> netsim_id \<Rightarrow> rlc_state \<Rightarrow> rlc_state" where
  "LTENR_RLC_ESTABLISHBROADCASTENTITY C d i st =
     (let st1 = LTENR_RLC_ESTABLISHENTITY C d i 0 0 LTENR_RLCMODE_TM True False st;
          st2 = LTENR_RLC_ESTABLISHENTITY C d i 0 0 LTENR_RLCMODE_TM False True st1;
          st3 = LTENR_RLC_ESTABLISHENTITY C d i 0 0 LTENR_RLCMODE_UM True False st2;
          st4 = LTENR_RLC_ESTABLISHENTITY C d i 0 0 LTENR_RLCMODE_UM False True st3
      in LTENR_RLC_ESTABLISHENTITY C d i 0 0 LTENR_RLCMODE_AM True True st4)"

text \<open>The walk over the associations in the two functions below has an empty body.\<close>

definition fn_NetSim_LTENR_UERLC_Init ::
  "core_env \<Rightarrow> netsim_id \<Rightarrow> netsim_id \<Rightarrow> rlc_state \<Rightarrow> rlc_state" where
  "fn_NetSim_LTENR_UERLC_Init C ueId ueIf st =
     (let pd = LTENR_PROTODATA_GET C ueId ueIf;
          rlc = \<lparr>t_reassembly = str_to_time C (pd_t_reassembly pd), rlcEntities = []\<rparr>
      in LTENR_RLC_ESTABLISHBROADCASTENTITY C ueId ueIf (LTENR_UERLC_SET ueId ueIf rlc st))"

definition fn_NetSim_LTENR_GNBRLC_Init ::
  "core_env \<Rightarrow> netsim_id \<Rightarrow> netsim_id \<Rightarrow> rlc_state \<Rightarrow> rlc_state" where
  "fn_NetSim_LTENR_GNBRLC_Init C gnbId gnbIf st =
     (let pd = LTENR_PROTODATA_GET C gnbId gnbIf;
          rlc = \<lparr>t_reassembly = str_to_time C (pd_t_reassembly pd), rlcEntities = []\<rparr>
      in LTENR_RLC_ESTABLISHBROADCASTENTITY C gnbId gnbIf (LTENR_GNBRLC_SET gnbId gnbIf rlc st))"

definition LTENR_RLC_ASSOCIATION ::
  "core_env \<Rightarrow> netsim_id \<Rightarrow> netsim_id \<Rightarrow> netsim_id \<Rightarrow> netsim_id \<Rightarrow> bool \<Rightarrow> rlc_state
     \<Rightarrow> rlc_state result" where
  "LTENR_RLC_ASSOCIATION C gnbId gnbIf ueId ueIf isAssociated st =
     (if gnb_rlc st (gnbId, gnbIf) = None then Inr st
      else if ue_rlc st (ueId, ueIf) = None then Inr st
      else if isAssociated
      then Inr (LTENR_RLC_ESTABLISHENTITYALL C ueId ueIf gnbId gnbIf
                 (LTENR_RLC_ESTABLISHENTITYALL C gnbId gnbIf ueId ueIf st))
      else rbind (LTENR_RLC_UNESTABLISHENTITYALL C gnbId gnbIf ueId ueIf st)
             (LTENR_RLC_UNESTABLISHENTITYALL C ueId ueIf gnbId gnbIf))"

section \<open>Running an operation on an entity\<close>

definition entity_list :: "core_env \<Rightarrow> rlc_state \<Rightarrow> netsim_id \<Rightarrow> netsim_id \<Rightarrow> LTENR_RLCENTITY list" where
  "entity_list C st d i =
     (case LTENR_RLC_GET C st d i of Some rlc \<Rightarrow> rlcEntities rlc | None \<Rightarrow> [])"

text \<open>A write of the whole entity at a position, and the entity at a position.\<close>

definition entity_put ::
  "core_env \<Rightarrow> rlc_state \<Rightarrow> netsim_id \<Rightarrow> netsim_id \<Rightarrow> nat \<Rightarrow> LTENR_RLCENTITY \<Rightarrow> rlc_state" where
  "entity_put C st d i j e =
     (case LTENR_RLC_GET C st d i of
        Some rlc \<Rightarrow> rlc_write C st d i (rlc\<lparr>rlcEntities := (rlcEntities rlc)[j := e]\<rparr>)
      | None \<Rightarrow> st)"

definition entity_at :: "core_env \<Rightarrow> rlc_state \<Rightarrow> netsim_id \<Rightarrow> netsim_id \<Rightarrow> nat \<Rightarrow> LTENR_RLCENTITY" where
  "entity_at C st d i j = entity_list C st d i ! j"

section \<open>Transparent mode\<close>

definition LTENR_RLC_TM_HandlePDUFromUpperLayer ::
  "core_env \<Rightarrow> rlc_state \<Rightarrow> EVENTDETAILS \<Rightarrow> (rlc_state \<times> EVENTDETAILS) result" where
  "LTENR_RLC_TM_HandlePDUFromUpperLayer C st s =
     (let d = nDeviceId s; i = nInterfaceId s
      in rbind (deref (pPacket s)) (\<lambda>packet.
         case (if nReceiverId packet \<noteq> 0
               then LTENR_RLC_FINDENTITY C st d i (nReceiverId packet)
                      (LTENR_FIND_ASSOCIATEINTERFACE C d i (nReceiverId packet))
                      LTENR_RLCMODE_TM True False
               else LTENR_RLC_FINDENTITY C st d i 0 0 LTENR_RLCMODE_TM True False) of
           None \<Rightarrow> Inr (st, (emits [NetSimError, FreePacket packet] s)\<lparr>pPacket := None\<rparr>)
         | Some j \<Rightarrow>
             rbind (LTENR_PACKET_GET_LOGICALCHANNEL packet) (\<lambda>ch.
             let e = entity_at C st d i j
             in Inr (entity_put C st d i j
                      (e\<lparr>transmissionBuffer := transmissionBuffer e @ [buf_new packet 0 0 ch],
                         bufferStatus := (bufferStatus e)
                           (ch := bufferStatus e ch + UINT_of_double (dPacketSize packet))\<rparr>), s))))"

text \<open>
  What is left of a packet that was freed while an entry of the buffer still points to it:
  its message is gone, so that the next look at its logical channel faults.
\<close>

definition freed :: "NetSim_PACKET \<Rightarrow> NetSim_PACKET" where
  "freed packet = packet\<lparr>msg := None\<rparr>"

text \<open>
  The walk through the transmission buffer: the bytes left, and what the entries have become.
  The mark of an entry is not looked at, and \<open>left\<close> is unsigned: a control message that is
  larger than \<open>left\<close> makes it wrap.
\<close>

fun tm_loop ::
  "rlc_env \<Rightarrow> netsim_id \<Rightarrow> netsim_id \<Rightarrow> LTENR_LOGICALCHANNEL \<Rightarrow> EVENTDETAILS \<Rightarrow> u32
     \<Rightarrow> LTENR_RLCBUFFER_DATA list \<Rightarrow> (EVENTDETAILS \<times> u32 \<times> LTENR_RLCBUFFER_DATA list) result" where
  "tm_loop E d i lch s left [] = Inr (s, left, [])"
| "tm_loop E d i lch s left (buf # bufs) =
     (let tmdpdu = data_packet buf;
          walk = (\<lambda>buf' s' left'. rbind (tm_loop E d i lch s' left' bufs)
                    (\<lambda>(s'', left'', rest). Inr (s'', left'', buf' # rest)))
      in rbind (LTENR_PACKET_GET_LOGICALCHANNEL tmdpdu) (\<lambda>ch.
         if ch \<noteq> lch then walk buf s left
         else if LTENR_IS_UPLANE_MSG tmdpdu \<and> dPacketSize tmdpdu > double_of_UINT left
         then walk (buf\<lparr>isMarkedForRemoval := True, data_packet := freed tmdpdu\<rparr>)
                (emit (FreePacket tmdpdu) s) left
         else let sent = LTENR_RLCMSG_TMHDR_ADD tmdpdu
              in walk (buf\<lparr>isMarkedForRemoval := True, data_packet := sent\<rparr>)
                   (LTENR_RLC_SENDPDUTOMAC E d i sent s) (left - UINT_of_double (dPacketSize tmdpdu))))"

definition LTENR_RLC_TM_SEND_PDU ::
  "core_env \<Rightarrow> rlc_state \<Rightarrow> EVENTDETAILS \<Rightarrow> netsim_id \<Rightarrow> netsim_id \<Rightarrow> netsim_id \<Rightarrow> netsim_id \<Rightarrow> u32
     \<Rightarrow> LTENR_LOGICALCHANNEL \<Rightarrow> (rlc_state \<times> EVENTDETAILS \<times> u32) result" where
  "LTENR_RLC_TM_SEND_PDU C st s d i r rin sz lch =
     rbind (deref (LTENR_RLC_FINDENTITY C st d i r rin LTENR_RLCMODE_TM True False)) (\<lambda>j.
     let e = entity_at C st d i j
     in rbind (tm_loop (kernel C) d i lch s sz (transmissionBuffer e)) (\<lambda>(s', left, bufs).
        Inr (entity_put C st d i j (e\<lparr>transmissionBuffer := buf_update bufs\<rparr>), s', sz - left)))"

text \<open>
  An AM operation hands status PDUs to the TM handler with \<open>pPacket\<close> replaced for the call
  (\<open>ToTM\<close>). The handler works on the TM entity, which the AM operation does not touch, so the
  calls are carried out when the AM entity is written back.
\<close>

fun tm_calls :: "effect list \<Rightarrow> NetSim_PACKET list" where
  "tm_calls [] = []"
| "tm_calls (ToTM p # es) = p # tm_calls es"
| "tm_calls (e # es) = tm_calls es"

fun tm_replay ::
  "core_env \<Rightarrow> rlc_state \<Rightarrow> EVENTDETAILS \<Rightarrow> NetSim_PACKET list \<Rightarrow> (rlc_state \<times> EVENTDETAILS) result" where
  "tm_replay C st s [] = Inr (st, s)"
| "tm_replay C st s (p # ps) =
     rbind (LTENR_RLC_TM_HandlePDUFromUpperLayer C st (s\<lparr>pPacket := Some p\<rparr>)) (\<lambda>(st', s').
     tm_replay C st' (s'\<lparr>pPacket := pPacket s\<rparr>) ps)"

definition on_entity ::
  "core_env \<Rightarrow> rlc_state \<Rightarrow> netsim_id \<Rightarrow> netsim_id \<Rightarrow> nat
     \<Rightarrow> (LTENR_RLCENTITY \<Rightarrow> EVENTDETAILS \<Rightarrow> (LTENR_RLCENTITY \<times> EVENTDETAILS) result)
     \<Rightarrow> EVENTDETAILS \<Rightarrow> (rlc_state \<times> EVENTDETAILS) result" where
  "on_entity C st d i j f s =
     rbind (f (entity_at C st d i j) s) (\<lambda>(e', s').
     tm_replay C (entity_put C st d i j e') s' (tm_calls (drop (length (trace s)) (trace s'))))"

section \<open>Acknowledged mode\<close>

text \<open>The log line of the source reads \<open>entity->AM.TX_Next\<close>: without an entity this faults.\<close>

definition LTENR_RLCAM_HandlePDUFromUpperLayer ::
  "core_env \<Rightarrow> rlc_state \<Rightarrow> EVENTDETAILS \<Rightarrow> (rlc_state \<times> EVENTDETAILS) result" where
  "LTENR_RLCAM_HandlePDUFromUpperLayer C st s =
     (let d = nDeviceId s; i = nInterfaceId s
      in rbind (deref (pPacket s)) (\<lambda>packet.
         let rin = LTENR_FIND_ASSOCIATEINTERFACE C d i (nReceiverId packet)
         in rbind (deref (LTENR_RLC_FINDENTITY C st d i (nReceiverId packet) rin LTENR_RLCMODE_AM True True)) (\<lambda>j.
            rbind (am_handle_pdu_from_upper (entity_at C st d i j) packet) (\<lambda>e'.
            Inr (entity_put C st d i j e', s)))))"

definition LTENR_RLCAM_SEND_PDU ::
  "core_env \<Rightarrow> rlc_state \<Rightarrow> EVENTDETAILS \<Rightarrow> netsim_id \<Rightarrow> netsim_id \<Rightarrow> netsim_id \<Rightarrow> netsim_id \<Rightarrow> u32
     \<Rightarrow> LTENR_LOGICALCHANNEL \<Rightarrow> (rlc_state \<times> EVENTDETAILS \<times> u32) result" where
  "LTENR_RLCAM_SEND_PDU C st s d i r rin sz lch =
     (case LTENR_RLC_FINDENTITY C st d i r rin LTENR_RLCMODE_AM True True of
        None \<Rightarrow> Inr (st, s, sz)
      | Some j \<Rightarrow>
          rbind (am_send_pdu (kernel C) (entity_at C st d i j) s sz lch) (\<lambda>(e', s', n).
          Inr (entity_put C st d i j e', s', n)))"

definition LTENR_RLC_AM_RECEIVE_PDU ::
  "core_env \<Rightarrow> rlc_state \<Rightarrow> EVENTDETAILS \<Rightarrow> (rlc_state \<times> EVENTDETAILS) result" where
  "LTENR_RLC_AM_RECEIVE_PDU C st s =
     (let d = nDeviceId s; i = nInterfaceId s
      in rbind (deref (pPacket s)) (\<lambda>packet.
         let r = nTransmitterId packet; rin = LTENR_FIND_ASSOCIATEINTERFACE C d i r
         in case LTENR_RLC_FINDENTITY C st d i r rin LTENR_RLCMODE_AM True True of
              None \<Rightarrow> Inr (st, s)
            | Some j \<Rightarrow> on_entity C st d i j (\<lambda>e. am_receive_pdu (kernel C) e packet) s))"

definition LTENR_RLCAM_ReceiveStatusPDU ::
  "core_env \<Rightarrow> rlc_state \<Rightarrow> EVENTDETAILS \<Rightarrow> (rlc_state \<times> EVENTDETAILS) result" where
  "LTENR_RLCAM_ReceiveStatusPDU C st s =
     (let d = nDeviceId s; i = nInterfaceId s
      in rbind (deref (pPacket s)) (\<lambda>packet.
         let r = nTransmitterId packet; rin = LTENR_FIND_ASSOCIATEINTERFACE C d i r
         in case LTENR_RLC_FINDENTITY C st d i r rin LTENR_RLCMODE_AM True True of
              None \<Rightarrow> Inr (st, s)
            | Some j \<Rightarrow> on_entity C st d i j (\<lambda>e. am_receive_status (kernel C) e packet) s))"

section \<open>Unacknowledged mode\<close>

text \<open>The entity is used without a test for NULL.\<close>

definition LTENR_RLC_UM_HandlePDUFromUpperLayer ::
  "core_env \<Rightarrow> rlc_state \<Rightarrow> EVENTDETAILS \<Rightarrow> (rlc_state \<times> EVENTDETAILS) result" where
  "LTENR_RLC_UM_HandlePDUFromUpperLayer C st s =
     (let d = nDeviceId s; i = nInterfaceId s
      in rbind (deref (pPacket s)) (\<lambda>packet.
         let rin = LTENR_FIND_ASSOCIATEINTERFACE C d i (nReceiverId packet)
         in rbind (deref (LTENR_RLC_FINDENTITY C st d i (nReceiverId packet) rin LTENR_RLCMODE_UM True False)) (\<lambda>j.
            rbind (um_handle_pdu_from_upper (entity_at C st d i j) packet) (\<lambda>e'.
            Inr (entity_put C st d i j e', s)))))"

definition LTENR_RLC_UM_SEND_PDU ::
  "core_env \<Rightarrow> rlc_state \<Rightarrow> EVENTDETAILS \<Rightarrow> netsim_id \<Rightarrow> netsim_id \<Rightarrow> netsim_id \<Rightarrow> netsim_id \<Rightarrow> u32
     \<Rightarrow> LTENR_LOGICALCHANNEL \<Rightarrow> (rlc_state \<times> EVENTDETAILS \<times> u32) result" where
  "LTENR_RLC_UM_SEND_PDU C st s d i r rin sz lch =
     (case LTENR_RLC_FINDENTITY C st d i r rin LTENR_RLCMODE_UM True False of
        None \<Rightarrow> Inr (st, s, sz)
      | Some j \<Rightarrow>
          rbind (um_send_pdu (kernel C) d i (entity_at C st d i j) s sz lch) (\<lambda>(e', s', n).
          Inr (entity_put C st d i j e', s', n)))"

definition LTENR_RLC_UM_RECEIVE_PDU_WITH_SN ::
  "core_env \<Rightarrow> rlc_state \<Rightarrow> EVENTDETAILS \<Rightarrow> (rlc_state \<times> EVENTDETAILS) result" where
  "LTENR_RLC_UM_RECEIVE_PDU_WITH_SN C st s =
     (let d = nDeviceId s; i = nInterfaceId s
      in rbind (deref (pPacket s)) (\<lambda>packet.
         let r = nTransmitterId packet; rin = LTENR_FIND_ASSOCIATEINTERFACE C d i r
         in case LTENR_RLC_FINDENTITY C st d i r rin LTENR_RLCMODE_UM False True of
              None \<Rightarrow> Inr (st, s)
            | Some j \<Rightarrow> on_entity C st d i j (\<lambda>e. um_receive_pdu_with_sn (kernel C) e packet) s))"

definition LTENR_RLC_UM_RECEIVE_PDU ::
  "core_env \<Rightarrow> rlc_state \<Rightarrow> EVENTDETAILS \<Rightarrow> (rlc_state \<times> EVENTDETAILS) result" where
  "LTENR_RLC_UM_RECEIVE_PDU C st s =
     rbind (deref (pPacket s)) (\<lambda>packet.
     rbind (um_receive_unsegmented (kernel C) packet s) (\<lambda>done_with.
     case done_with of Some s' \<Rightarrow> Inr (st, s') | None \<Rightarrow> LTENR_RLC_UM_RECEIVE_PDU_WITH_SN C st s))"

section \<open>Entry points\<close>

definition LTENR_RLC_IS_LOGICALCHANNEL_FOR_TM :: "LTENR_LOGICALCHANNEL \<Rightarrow> bool" where
  "LTENR_RLC_IS_LOGICALCHANNEL_FOR_TM ch \<longleftrightarrow>
     ch = LTENR_LOGICALCHANNEL_BCCH \<or> ch = LTENR_LOGICALCHANNEL_CCCH \<or> ch = LTENR_LOGICALCHANNEL_PCCH"

definition LTENR_RLC_IS_LOGICALCHANNEL_FOR_UM :: "LTENR_LOGICALCHANNEL \<Rightarrow> bool" where
  "LTENR_RLC_IS_LOGICALCHANNEL_FOR_UM ch \<longleftrightarrow> ch = LTENR_LOGICALCHANNEL_DTCH"

definition LTENR_RLC_IS_LOGICALCHANNEL_FOR_AM :: "LTENR_LOGICALCHANNEL \<Rightarrow> bool" where
  "LTENR_RLC_IS_LOGICALCHANNEL_FOR_AM ch \<longleftrightarrow>
     ch = LTENR_LOGICALCHANNEL_DCCH \<or> ch = LTENR_LOGICALCHANNEL_DTCH"

definition LTENR_RLC_VALIDATE_PDU :: "NetSim_PACKET option \<Rightarrow> EVENTDETAILS \<Rightarrow> bool \<times> EVENTDETAILS" where
  "LTENR_RLC_VALIDATE_PDU packet s =
     (case packet of
        None \<Rightarrow> (False, emit NetSimError s)
      | Some p \<Rightarrow>
         (case msg p of
            None \<Rightarrow> (False, emit NetSimError s)
          | Some m \<Rightarrow>
              if msg_rlcMode m = LTENR_RLCMODE_TM \<and> \<not> LTENR_RLC_IS_LOGICALCHANNEL_FOR_TM (logicalChannel m)
              then (False, emit NetSimError s)
              else if msg_rlcMode m = LTENR_RLCMODE_UM \<and> \<not> LTENR_RLC_IS_LOGICALCHANNEL_FOR_UM (logicalChannel m)
              then (False, emit NetSimError s)
              else if msg_rlcMode m = LTENR_RLCMODE_AM \<and> \<not> LTENR_RLC_IS_LOGICALCHANNEL_FOR_AM (logicalChannel m)
              then (False, emit NetSimError s)
              else (True, s)))"

definition fn_NetSim_LTENR_RLC_HandlePDUFromUpperLayer ::
  "core_env \<Rightarrow> rlc_state \<Rightarrow> EVENTDETAILS \<Rightarrow> (rlc_state \<times> EVENTDETAILS) result" where
  "fn_NetSim_LTENR_RLC_HandlePDUFromUpperLayer C st s =
     (case LTENR_RLC_VALIDATE_PDU (pPacket s) s of
        (False, s') \<Rightarrow> Inr (st, s')
      | (True, s') \<Rightarrow>
          rbind (deref (pPacket s')) (\<lambda>packet.
          rbind (LTENR_PACKET_GET_RLCMODE packet) (\<lambda>mode.
          case mode of
            LTENR_RLCMODE_TM \<Rightarrow> LTENR_RLC_TM_HandlePDUFromUpperLayer C st s'
          | LTENR_RLCMODE_UM \<Rightarrow> LTENR_RLC_UM_HandlePDUFromUpperLayer C st s'
          | LTENR_RLCMODE_AM \<Rightarrow> LTENR_RLCAM_HandlePDUFromUpperLayer C st s')))"

text \<open>A grant: the modes the channel is for share it, each taking it off what is left.\<close>

definition fn_NetSim_LTENR_RLC_TransmissionStatusNotification ::
  "core_env \<Rightarrow> rlc_state \<Rightarrow> EVENTDETAILS \<Rightarrow> netsim_id \<Rightarrow> netsim_id \<Rightarrow> netsim_id \<Rightarrow> netsim_id \<Rightarrow> u32
     \<Rightarrow> LTENR_LOGICALCHANNEL \<Rightarrow> (rlc_state \<times> EVENTDETAILS) result" where
  "fn_NetSim_LTENR_RLC_TransmissionStatusNotification C st s d i r rin sz lch =
     rbind (if LTENR_RLC_IS_LOGICALCHANNEL_FOR_TM lch
            then LTENR_RLC_TM_SEND_PDU C st s d i r rin sz lch else Inr (st, s, 0)) (\<lambda>(st1, s1, tsize).
     let sz1 = sz - tsize
     in rbind (if LTENR_RLC_IS_LOGICALCHANNEL_FOR_UM lch
               then LTENR_RLC_UM_SEND_PDU C st1 s1 d i r rin sz1 lch else Inr (st1, s1, 0)) (\<lambda>(st2, s2, usize).
        let sz2 = sz1 - usize
        in rbind (if LTENR_RLC_IS_LOGICALCHANNEL_FOR_AM lch
                  then LTENR_RLCAM_SEND_PDU C st2 s2 d i r rin sz2 lch else Inr (st2, s2, 0)) (\<lambda>(st3, s3, asize).
           Inr (st3, s3))))"

definition fn_NetSim_LTENR_RLC_BufferStatusNotificaton ::
  "core_env \<Rightarrow> rlc_state \<Rightarrow> netsim_id \<Rightarrow> netsim_id \<Rightarrow> netsim_id \<Rightarrow> netsim_id
     \<Rightarrow> LTENR_LOGICALCHANNEL \<Rightarrow> u32" where
  "fn_NetSim_LTENR_RLC_BufferStatusNotificaton C st d i r rin lch =
     (let status = (\<lambda>applies entity. if applies
            then case entity of Some j \<Rightarrow> bufferStatus (entity_at C st d i j) lch | None \<Rightarrow> 0
            else 0);
          tsize = status (LTENR_RLC_IS_LOGICALCHANNEL_FOR_TM lch)
                    (LTENR_RLC_FINDENTITY C st d i r rin LTENR_RLCMODE_TM True False);
          usize = status (LTENR_RLC_IS_LOGICALCHANNEL_FOR_UM lch)
                    (LTENR_RLC_FINDENTITY C st d i r rin LTENR_RLCMODE_UM True False);
          asize = status (LTENR_RLC_IS_LOGICALCHANNEL_FOR_AM lch)
                    (LTENR_RLC_FINDENTITY C st d i r rin LTENR_RLCMODE_AM True True)
      in tsize + usize + asize)"

definition LTENR_RLC_TM_ReceivePDU ::
  "core_env \<Rightarrow> rlc_state \<Rightarrow> EVENTDETAILS \<Rightarrow> (rlc_state \<times> EVENTDETAILS) result" where
  "LTENR_RLC_TM_ReceivePDU C st s =
     rbind (deref (pPacket s)) (\<lambda>p.
     case nControlDataType p of
       LTENR_MSG_RLC_STATUSPDU \<Rightarrow> LTENR_RLCAM_ReceiveStatusPDU C st s
     | LTENR_MSG_RRC_MIB \<Rightarrow> Inr (st, emit (ToRRC p) s)
     | LTENR_MSG_RRC_SIB1 \<Rightarrow> Inr (st, emit (ToRRC p) s)
     | LTENR_MSG_RRC_SI \<Rightarrow> Inr (st, emit (ToRRC p) s)
     | LTENR_MSG_RRC_SETUP_REQUEST \<Rightarrow> Inr (st, emit (ToRRC p) s)
     | _ \<Rightarrow> Inr (st, emit (ToPDCP p) s))"

definition fn_NetSim_LTENR_RLC_HandleMACIN ::
  "core_env \<Rightarrow> rlc_state \<Rightarrow> EVENTDETAILS \<Rightarrow> (rlc_state \<times> EVENTDETAILS) result" where
  "fn_NetSim_LTENR_RLC_HandleMACIN C st s =
     rbind (deref (pPacket s)) (\<lambda>p.
     rbind (LTENR_PACKET_GET_RLCMODE p) (\<lambda>mode.
     case mode of
       LTENR_RLCMODE_TM \<Rightarrow> LTENR_RLC_TM_ReceivePDU C st s
     | LTENR_RLCMODE_UM \<Rightarrow> LTENR_RLC_UM_RECEIVE_PDU C st s
     | LTENR_RLCMODE_AM \<Rightarrow> LTENR_RLC_AM_RECEIVE_PDU C st s))"

text \<open>\<open>szOtherDetails\<close> of a timer event is the entity: here its interface and position.\<close>

definition LTENR_RLC_Handle_t_reassemblyTimer ::
  "core_env \<Rightarrow> rlc_state \<Rightarrow> netsim_id \<Rightarrow> netsim_id \<Rightarrow> nat \<Rightarrow> EVENTDETAILS
     \<Rightarrow> (rlc_state \<times> EVENTDETAILS) result" where
  "LTENR_RLC_Handle_t_reassemblyTimer C st d i j s =
     (case rlcMode (entity_at C st d i j) of
        LTENR_RLCMODE_UM \<Rightarrow> on_entity C st d i j (LTENR_RLC_UM_Handle_t_reassemblyTimer (kernel C)) s
      | LTENR_RLCMODE_AM \<Rightarrow> on_entity C st d i j (LTENR_RLCAM_Handle_t_reassemblyTimer (kernel C)) s
      | _ \<Rightarrow> Inr (st, emit NetSimError s))"

text \<open>The handlers \<open>fn_NetSim_LTENR_RLC_Init\<close> registers for the timer events.\<close>

definition rlc_subevent ::
  "core_env \<Rightarrow> LTENR_SUBEVENT \<Rightarrow> rlc_state \<Rightarrow> netsim_id \<Rightarrow> netsim_id \<Rightarrow> nat \<Rightarrow> EVENTDETAILS
     \<Rightarrow> (rlc_state \<times> EVENTDETAILS) result" where
  "rlc_subevent C ev st d i j s =
     (case ev of
        LTENR_SUBEVNT_RLC_TREASSEMBLYTIMER \<Rightarrow> LTENR_RLC_Handle_t_reassemblyTimer C st d i j s
      | LTENR_SUBEVNT_RLC_TPOLLRETRANSMITTIMER \<Rightarrow>
          on_entity C st d i j (LTENR_RLCAM_Handle_t_PollRetransmitTimer (kernel C)) s
      | LTENR_SUBEVNT_RLC_TSTATUSPROHIBITTIMER \<Rightarrow>
          on_entity C st d i j (LTENR_RLCAM_Handle_t_StatusProhibitTimer (kernel C)) s)"

end
