(* ===== verification/RLC_Core_Props.thy ===== *)
theory RLC_Core_Props
  imports RLC_Core RLC_AM_Tx_Props RLC_UM_Props
begin

text \<open>
  The entities of an RLC sublayer: a concrete environment, the lookup of entities by key, and
  what association establishes and releases.
\<close>

declare of_nat_unat [simp del]

section \<open>A concrete environment\<close>

text \<open>Device 1 is a gNB, every other device a UE; every interface has number 1.\<close>

definition plain_core_env :: core_env where
  "plain_core_env =
     \<lparr>kernel = plain_rlc_env, ent_lib = plain_list_lib,
      LTENR_PROTODATA_GET = (\<lambda>d i.
        \<lparr>deviceType = (if d = 1 then LTENR_DEVICETYPE_GNB else LTENR_DEVICETYPE_UE),
         pd_discardTimer = 100, pd_isHdrCompression = False, pd_isoutOfOrderDelivery = False,
         pd_t_reorderingTimer = 500, pd_maxRetxThreshold = ''t4'', pd_pollPdu = ''p4'',
         pd_pollBytes = ''kb25'', pd_t_reassembly = ''ms5'', pd_t_pollRetransmit = ''ms5'',
         pd_t_statusProhibit = ''ms5'', pd_HandoverMargin = 3, pd_TTT = 256, series3GPP = 38,
         isDCEnable = False, MasterCellType = CELL_TYPE_NONE, SecCellType = CELL_TYPE_NONE,
         NSA_MODE = NSA_MODE_LAST\<rparr>),
      LTENR_FIND_ASSOCIATEINTERFACE = (\<lambda>d i r. 1),
      str_to_time = (\<lambda>t. 1000 * real_of_int (atoi (drop 2 t))),
      str_to_bytes = (\<lambda>b. 1000 * word_of_int (atoi (drop 2 b)))\<rparr>"

locale core_environment = rlc_environment "kernel C" + ent: list_library "ent_lib C" for C :: core_env

interpretation plain_core: core_environment plain_core_env
  using plain_rlc.rlc_environment_axioms plain.list_library_axioms
  by (simp add: core_environment_def plain_core_env_def)

section \<open>The entities of an interface\<close>

definition entity_key ::
  "LTENR_RLCENTITY \<Rightarrow> netsim_id \<times> netsim_id \<times> netsim_id \<times> netsim_id \<times> LTENR_RLCMODE \<times> bool \<times> bool" where
  "entity_key e = (ent_d e, ent_in e, peerId e, peerIf e, rlcMode e,
     isTransmittingRLCEntity e, isReceivingRLCEntity e)"

lemma entity_is_key: "entity_is d i p pif m tx rx = (\<lambda>e. entity_key e = (d, i, p, pif, m, tx, rx))"
  by (auto simp: entity_is_def entity_key_def fun_eq_iff)

lemma FINDENTITY_list:
  "LTENR_RLC_FINDENTITY C st d i p pif m tx rx
     = find_pos (\<lambda>e. entity_key e = (d, i, p, pif, m, tx, rx)) (entity_list C st d i)"
  by (simp add: LTENR_RLC_FINDENTITY_def entity_is_key entity_list_def)

lemma key_in_image: "k \<in> f ` S \<longleftrightarrow> (\<exists>x \<in> S. f x = k)"
  by blast

text \<open>Every interface holds entities of its own, at most one of each key.\<close>

definition rlc_wf :: "core_env \<Rightarrow> rlc_state \<Rightarrow> bool" where
  "rlc_wf C st \<longleftrightarrow> (\<forall>d i. distinct (map entity_key (entity_list C st d i))
     \<and> (\<forall>e \<in> set (entity_list C st d i). ent_d e = d \<and> ent_in e = i))"

lemma rlc_write_get:
  "LTENR_RLC_GET C st d i = Some v0 \<Longrightarrow>
     LTENR_RLC_GET C (rlc_write C st d i v) d' i'
       = (if d' = d \<and> i' = i then Some v else LTENR_RLC_GET C st d' i')"
  by (auto simp: LTENR_RLC_GET_def rlc_write_def LTENR_UERLC_SET_def LTENR_GNBRLC_SET_def split: if_splits)

lemma entity_list_write:
  "LTENR_RLC_GET C st d i = Some v0 \<Longrightarrow>
     entity_list C (rlc_write C st d i v) d' i'
       = (if d' = d \<and> i' = i then rlcEntities v else entity_list C st d' i')"
  by (simp add: entity_list_def rlc_write_get)

lemma rlc_write_same: "LTENR_RLC_GET C st d i = Some v \<Longrightarrow> rlc_write C st d i v = st"
  by (auto simp: LTENR_RLC_GET_def rlc_write_def LTENR_UERLC_SET_def LTENR_GNBRLC_SET_def fun_upd_idem
      split: if_splits)

lemma rlc_write_twice: "rlc_write C (rlc_write C st d i v) d i v' = rlc_write C st d i v'"
  by (simp add: rlc_write_def LTENR_UERLC_SET_def LTENR_GNBRLC_SET_def)

lemma rlc_write_commute:
  "(d, i) \<noteq> (d', i') \<Longrightarrow>
     rlc_write C (rlc_write C st d i v) d' i' v' = rlc_write C (rlc_write C st d' i' v') d i v"
  by (auto simp: rlc_write_def LTENR_UERLC_SET_def LTENR_GNBRLC_SET_def fun_upd_twist)

definition has_rlc :: "core_env \<Rightarrow> rlc_state \<Rightarrow> netsim_id \<Rightarrow> netsim_id \<Rightarrow> bool" where
  "has_rlc C st d i \<longleftrightarrow> LTENR_RLC_GET C st d i \<noteq> None"

text \<open>What the state says about one interface: its list of entities is replaced.\<close>

definition with_entities ::
  "core_env \<Rightarrow> rlc_state \<Rightarrow> netsim_id \<Rightarrow> netsim_id \<Rightarrow> LTENR_RLCENTITY list \<Rightarrow> rlc_state" where
  "with_entities C st d i es =
     (case LTENR_RLC_GET C st d i of
        Some rlc \<Rightarrow> rlc_write C st d i (rlc\<lparr>rlcEntities := es\<rparr>) | None \<Rightarrow> st)"

lemma has_rlc_with [simp]: "has_rlc C (with_entities C st d i es) d' i' = has_rlc C st d' i'"
  by (auto simp: has_rlc_def with_entities_def rlc_write_get split: option.splits)

lemma entity_list_with [simp]:
  "entity_list C (with_entities C st d i es) d' i'
     = (if has_rlc C st d i \<and> d' = d \<and> i' = i then es else entity_list C st d' i')"
  by (auto simp: has_rlc_def with_entities_def entity_list_write split: option.splits)

lemma with_entities_twice [simp]:
  "with_entities C (with_entities C st d i es) d i es' = with_entities C st d i es'"
  by (auto simp: with_entities_def rlc_write_get rlc_write_twice split: option.splits)

lemma with_entities_same [simp]: "with_entities C st d i (entity_list C st d i) = st"
  by (auto simp: with_entities_def entity_list_def rlc_write_same split: option.splits)

lemma with_entities_commute:
  "(d, i) \<noteq> (d', i') \<Longrightarrow>
     with_entities C (with_entities C st d i es) d' i' es'
       = with_entities C (with_entities C st d' i' es') d i es"
  by (cases "LTENR_RLC_GET C st d i"; cases "LTENR_RLC_GET C st d' i'")
     (auto simp: with_entities_def rlc_write_get rlc_write_commute)

lemma entity_put_with: "entity_put C st d i j e = with_entities C st d i ((entity_list C st d i)[j := e])"
  by (auto simp: entity_put_def with_entities_def entity_list_def split: option.splits)

lemma slots_with [simp]:
  "(ue_rlc (with_entities C st d i es) x = None) = (ue_rlc st x = None)"
  "(gnb_rlc (with_entities C st d i es) x = None) = (gnb_rlc st x = None)"
  by (auto simp: with_entities_def LTENR_RLC_GET_def rlc_write_def LTENR_UERLC_SET_def LTENR_GNBRLC_SET_def
      split: option.splits if_splits)

text \<open>The entity \<open>LTENR_RLC_ESTABLISHENTITY\<close> makes.\<close>

definition new_entity ::
  "core_env \<Rightarrow> netsim_id \<Rightarrow> netsim_id \<Rightarrow> netsim_id \<Rightarrow> netsim_id \<Rightarrow> LTENR_RLCMODE \<times> bool \<times> bool
     \<Rightarrow> LTENR_RLCENTITY" where
  "new_entity C d i p pif k = (case k of (m, tx, rx) \<Rightarrow>
     let pd = LTENR_PROTODATA_GET C d i
     in LTENR_RLCENTITY_ALLOC\<lparr>ent_d := d, ent_in := i, peerId := p, peerIf := pif, rlcMode := m,
          isTransmittingRLCEntity := tx, isReceivingRLCEntity := rx, noBuffers := False,
          t_PollRetransmit := str_to_time C (pd_t_pollRetransmit pd),
          t_StatusProhibit := str_to_time C (pd_t_statusProhibit pd),
          t_Reassembly := str_to_time C (pd_t_reassembly pd),
          pollByte := str_to_bytes C (pd_pollBytes pd),
          pollPDU := word_of_int (atoi (tl (pd_pollPdu pd))),
          maxRetxThreshold := word_of_int (atoi (tl (pd_maxRetxThreshold pd)))\<rparr>)"

lemma new_entity_key [simp]: "entity_key (new_entity C d i p pif (m, tx, rx)) = (d, i, p, pif, m, tx, rx)"
  by (simp add: new_entity_def entity_key_def Let_def)

text \<open>The five entities an association has: mode, transmitting, receiving.\<close>

definition entity_kinds :: "(LTENR_RLCMODE \<times> bool \<times> bool) list" where
  "entity_kinds = [(LTENR_RLCMODE_TM, True, False), (LTENR_RLCMODE_TM, False, True),
     (LTENR_RLCMODE_UM, True, False), (LTENR_RLCMODE_UM, False, True), (LTENR_RLCMODE_AM, True, True)]"

context core_environment
begin

lemma ESTABLISHENTITY_eq:
  "LTENR_RLC_ESTABLISHENTITY C d i p pif m tx rx st =
     (if (d, i, p, pif, m, tx, rx) \<in> entity_key ` set (entity_list C st d i) then st
      else with_entities C st d i (entity_list C st d i @ [new_entity C d i p pif (m, tx, rx)]))"
proof (cases "LTENR_RLC_GET C st d i")
  case None
  then show ?thesis
    by (simp add: LTENR_RLC_ESTABLISHENTITY_def FINDENTITY_list entity_list_def with_entities_def)
next
  case (Some rlc)
  have "(LTENR_RLC_FINDENTITY C st d i p pif m tx rx \<noteq> None)
      = ((d, i, p, pif, m, tx, rx) \<in> entity_key ` set (entity_list C st d i))"
    unfolding FINDENTITY_list find_pos_None_iff key_in_image by blast
  then show ?thesis
    using Some unfolding LTENR_RLC_ESTABLISHENTITY_def
    by (simp add: with_entities_def entity_list_def ent.add_last_law new_entity_def Let_def LTENR_RLCENTITY_ALLOC_def)
qed

lemma UNESTABLISHENTITY_eq:
  assumes "rlc_wf C st"
  shows "LTENR_RLC_UNESTABLISHENTITY C d i p pif m tx rx st =
     (if \<not> has_rlc C st d i then Inr st
      else if (d, i, p, pif, m, tx, rx) \<notin> entity_key ` set (entity_list C st d i) then Inl NullDeref
      else Inr (with_entities C st d i
        (filter (\<lambda>e. entity_key e \<noteq> (d, i, p, pif, m, tx, rx)) (entity_list C st d i))))"
proof (cases "LTENR_RLC_GET C st d i")
  case None
  then show ?thesis by (simp add: LTENR_RLC_UNESTABLISHENTITY_def has_rlc_def)
next
  case (Some rlc)
  let ?k = "(d, i, p, pif, m, tx, rx)"
  have l: "entity_list C st d i = rlcEntities rlc" using Some by (simp add: entity_list_def)
  have di: "distinct (map entity_key (rlcEntities rlc))" using assms unfolding rlc_wf_def l [symmetric] by blast
  show ?thesis
  proof (cases "find_pos (\<lambda>e. entity_key e = ?k) (rlcEntities rlc)")
    case None
    then have "?k \<notin> entity_key ` set (rlcEntities rlc)"
      unfolding find_pos_None_iff key_in_image by blast
    then show ?thesis using Some None
      by (simp add: LTENR_RLC_UNESTABLISHENTITY_def has_rlc_def FINDENTITY_list l)
  next
    case (Some j)
    note j = find_pos_SomeD [OF Some]
    have "list_free (ent_lib C) (rlcEntities rlc) j = filter (\<lambda>e. entity_key e \<noteq> ?k) (rlcEntities rlc)"
      using remove_at_find_pos [OF Some di] ent.free_law j by simp
    moreover have "?k \<in> entity_key ` set (rlcEntities rlc)"
      using j by (metis image_eqI nth_mem)
    ultimately show ?thesis
      using \<open>LTENR_RLC_GET C st d i = Some rlc\<close> Some
      by (simp add: LTENR_RLC_UNESTABLISHENTITY_def has_rlc_def FINDENTITY_list l with_entities_def)
  qed
qed

end

section \<open>Association\<close>

definition pair_keys where
  "pair_keys d i p pif = (\<lambda>k :: LTENR_RLCMODE \<times> bool \<times> bool. (d :: netsim_id, i :: netsim_id, p :: netsim_id, pif :: netsim_id, k)) ` set entity_kinds"

lemma rlc_wf_list:
  "rlc_wf C st \<Longrightarrow> distinct (map entity_key (entity_list C st d i))"
  "rlc_wf C st \<Longrightarrow> e \<in> set (entity_list C st d i) \<Longrightarrow> ent_d e = d \<and> ent_in e = i"
  by (auto simp: rlc_wf_def)

lemma rlc_wf_with:
  "rlc_wf C st \<Longrightarrow> distinct (map entity_key es) \<Longrightarrow> \<forall>e \<in> set es. ent_d e = d \<and> ent_in e = i \<Longrightarrow>
     rlc_wf C (with_entities C st d i es)"
  by (auto simp: rlc_wf_def)

lemma new_entity_at: "ent_d (new_entity C d i p pif k) = d" "ent_in (new_entity C d i p pif k) = i"
  by (cases k; simp add: new_entity_def Let_def)+

lemma new_entity_key': "entity_key (new_entity C d i p pif k) = (d, i, p, pif, k)"
  by (cases k) simp

definition establish_kinds where
  "establish_kinds C d i p pif ks st =
     fold (\<lambda>(m, tx, rx). LTENR_RLC_ESTABLISHENTITY C d i p pif m tx rx) ks st"

definition release_kinds where
  "release_kinds C d i p pif ks st =
     fold_result (\<lambda>(m, tx, rx). LTENR_RLC_UNESTABLISHENTITY C d i p pif m tx rx) ks st"

lemma ESTABLISHENTITYALL_kinds:
  "LTENR_RLC_ESTABLISHENTITYALL C d i p pif st = establish_kinds C d i p pif entity_kinds st"
  "LTENR_RLC_ESTABLISHBROADCASTENTITY C d i st = establish_kinds C d i 0 0 entity_kinds st"
  "LTENR_RLC_TMESTABLISHENTITYALL C d i p pif st = establish_kinds C d i p pif (take 2 entity_kinds) st"
  by (simp_all add: establish_kinds_def entity_kinds_def LTENR_RLC_ESTABLISHENTITYALL_def
      LTENR_RLC_ESTABLISHBROADCASTENTITY_def LTENR_RLC_TMESTABLISHENTITYALL_def Let_def)

lemma UNESTABLISHENTITYALL_kinds:
  "LTENR_RLC_UNESTABLISHENTITYALL C d i p pif st = release_kinds C d i p pif entity_kinds st"
proof -
  have f: "fold_result body [] = Inr"
    "fold_result body (k # ks) = (\<lambda>x. rbind (body k x) (fold_result body ks))"
    for body :: "'k \<Rightarrow> rlc_state \<Rightarrow> rlc_state result" and k ks
    by (simp_all add: fun_eq_iff)
  have r: "rbind m Inr = m" for m :: "rlc_state result" by (cases m) simp_all
  show ?thesis
    by (simp add: release_kinds_def entity_kinds_def LTENR_RLC_UNESTABLISHENTITYALL_def f r)
qed

context core_environment
begin

text \<open>What establishing adds: an entity of each kind that is not there yet.\<close>

definition missing_kinds where
  "missing_kinds st d i p pif ks =
     filter (\<lambda>k. (d, i, p, pif, k) \<notin> entity_key ` set (entity_list C st d i)) ks"

lemma establish_kinds_eq:
  "distinct ks \<Longrightarrow> establish_kinds C d i p pif ks st
     = with_entities C st d i (entity_list C st d i
         @ map (new_entity C d i p pif) (missing_kinds st d i p pif ks))"
proof (induction ks arbitrary: st)
  case Nil
  then show ?case by (simp add: establish_kinds_def missing_kinds_def)
next
  case (Cons k ks)
  obtain m tx rx where k: "k = (m, tx, rx)" by (cases k) blast
  let ?st = "LTENR_RLC_ESTABLISHENTITY C d i p pif m tx rx st"
  have "establish_kinds C d i p pif (k # ks) st = establish_kinds C d i p pif ks ?st"
    by (simp add: establish_kinds_def k)
  also have "\<dots> = with_entities C ?st d i (entity_list C ?st d i
         @ map (new_entity C d i p pif) (missing_kinds ?st d i p pif ks))"
    using Cons by simp
  also have "\<dots> = with_entities C st d i (entity_list C st d i
         @ map (new_entity C d i p pif) (missing_kinds st d i p pif (k # ks)))"
  proof (cases "has_rlc C st d i")
    case False
    then have "with_entities C st d i es = st" for es
      by (simp add: with_entities_def has_rlc_def)
    then show ?thesis using ESTABLISHENTITY_eq by (simp split: if_splits)
  next
    case True
    have "(d, i, p, pif, k) \<notin> (\<lambda>k. (d, i, p, pif, k)) ` set ks" using Cons.prems by auto
    then have "filter (\<lambda>k'. (d, i, p, pif, k') \<noteq> (d, i, p, pif, k) \<and> P k') ks = filter P ks" for P
      by (intro filter_cong) auto
    then show ?thesis
      using True by (auto simp: ESTABLISHENTITY_eq missing_kinds_def k new_entity_key')
  qed
  finally show ?case .
qed

lemma release_kinds_eq:
  assumes "rlc_wf C st" and "has_rlc C st d i" and "distinct ks"
    and "\<forall>k \<in> set ks. (d, i, p, pif, k) \<in> entity_key ` set (entity_list C st d i)"
  shows "release_kinds C d i p pif ks st
     = Inr (with_entities C st d i
         (filter (\<lambda>e. entity_key e \<notin> (\<lambda>k. (d, i, p, pif, k)) ` set ks) (entity_list C st d i)))"
  using assms
proof (induction ks arbitrary: st)
  case Nil
  then show ?case by (simp add: release_kinds_def)
next
  case (Cons k ks)
  obtain m tx rx where k: "k = (m, tx, rx)" by (cases k) blast
  let ?es = "filter (\<lambda>e. entity_key e \<noteq> (d, i, p, pif, k)) (entity_list C st d i)"
  let ?st = "with_entities C st d i ?es"
  have "LTENR_RLC_UNESTABLISHENTITY C d i p pif m tx rx st = Inr ?st"
    using Cons.prems UNESTABLISHENTITY_eq [OF Cons.prems(1)] by (simp add: k)
  then have "release_kinds C d i p pif (k # ks) st = release_kinds C d i p pif ks ?st"
    by (simp add: release_kinds_def k)
  also have "\<dots> = Inr (with_entities C ?st d i
      (filter (\<lambda>e. entity_key e \<notin> (\<lambda>k. (d, i, p, pif, k)) ` set ks) (entity_list C ?st d i)))"
  proof (rule Cons.IH)
    show "rlc_wf C ?st"
      using rlc_wf_list [OF Cons.prems(1)] by (intro rlc_wf_with Cons.prems(1) distinct_map_filter) auto
    show "\<forall>k' \<in> set ks. (d, i, p, pif, k') \<in> entity_key ` set (entity_list C ?st d i)"
    proof
      fix k' assume k': "k' \<in> set ks"
      then have "(d, i, p, pif, k') \<in> entity_key ` set (entity_list C st d i)" using Cons.prems(4) by simp
      then obtain e where "e \<in> set (entity_list C st d i)" "entity_key e = (d, i, p, pif, k')"
        unfolding key_in_image by blast
      then have "e \<in> set ?es" using k' Cons.prems(3) by auto
      then show "(d, i, p, pif, k') \<in> entity_key ` set (entity_list C ?st d i)"
        using Cons.prems(2) \<open>entity_key e = (d, i, p, pif, k')\<close> by (force simp: key_in_image)
    qed
  qed (use Cons.prems in simp_all)
  also have "filter (\<lambda>e. entity_key e \<notin> (\<lambda>k. (d, i, p, pif, k)) ` set ks) (entity_list C ?st d i)
      = filter (\<lambda>e. entity_key e \<notin> (\<lambda>k. (d, i, p, pif, k)) ` set (k # ks)) (entity_list C st d i)"
    using Cons.prems(2) by (auto intro!: filter_cong)
  finally show ?case by simp
qed

end

definition pair_ready :: "core_env \<Rightarrow> rlc_state \<Rightarrow> netsim_id \<Rightarrow> netsim_id \<Rightarrow> netsim_id \<Rightarrow> netsim_id \<Rightarrow> bool" where
  "pair_ready C st g gi u ui \<longleftrightarrow> rlc_wf C st \<and> isGNB C g gi \<and> isUE C u ui
     \<and> gnb_rlc st (g, gi) \<noteq> None \<and> ue_rlc st (u, ui) \<noteq> None"

lemma pair_readyD:
  assumes "pair_ready C st g gi u ui"
  shows "rlc_wf C st" "has_rlc C st g gi" "has_rlc C st u ui" "(g, gi) \<noteq> (u, ui)"
    "gnb_rlc st (g, gi) \<noteq> None" "ue_rlc st (u, ui) \<noteq> None"
  using assms by (auto simp: pair_ready_def has_rlc_def LTENR_RLC_GET_def isUE_def isGNB_def)

lemma pair_ready_with:
  "pair_ready C st g gi u ui \<Longrightarrow> rlc_wf C (with_entities C st d i es) \<Longrightarrow>
     pair_ready C (with_entities C st d i es) g gi u ui"
  by (simp add: pair_ready_def)

lemma distinct_entity_kinds: "distinct entity_kinds"
  by (simp add: entity_kinds_def)

lemma FINDENTITY_iff:
  "LTENR_RLC_FINDENTITY C st d i p pif m tx rx \<noteq> None
     \<longleftrightarrow> (d, i, p, pif, m, tx, rx) \<in> entity_key ` set (entity_list C st d i)"
  unfolding FINDENTITY_list find_pos_None_iff key_in_image by blast

context core_environment
begin

lemma missing_keys:
  "entity_key ` set (map (new_entity C d i p pif) (missing_kinds st d i p pif ks))
     = (\<lambda>k. (d, i, p, pif, k)) ` {k \<in> set ks. (d, i, p, pif, k) \<notin> entity_key ` set (entity_list C st d i)}"
  by (force simp: missing_kinds_def new_entity_key')

lemma establish_kinds_wf:
  assumes "rlc_wf C st" and "distinct ks"
  shows "rlc_wf C (establish_kinds C d i p pif ks st)"
proof -
  let ?new = "map (new_entity C d i p pif) (missing_kinds st d i p pif ks)"
  have "distinct (map entity_key ?new)"
    using assms(2) by (auto simp: missing_kinds_def distinct_map inj_on_def new_entity_key')
  moreover have "entity_key ` set (entity_list C st d i) \<inter> entity_key ` set ?new = {}"
    unfolding missing_keys by auto
  ultimately show ?thesis
    using rlc_wf_list [OF assms(1)] unfolding establish_kinds_eq [OF assms(2)]
    by (intro rlc_wf_with assms(1)) (auto simp: new_entity_at)
qed

lemma establish_kinds_has:
  assumes "has_rlc C st d i" and "distinct ks" and "k \<in> set ks"
  shows "(d, i, p, pif, k) \<in> entity_key ` set (entity_list C (establish_kinds C d i p pif ks st) d i)"
proof -
  have "entity_key ` set (entity_list C (establish_kinds C d i p pif ks st) d i)
      = entity_key ` set (entity_list C st d i)
        \<union> entity_key ` set (map (new_entity C d i p pif) (missing_kinds st d i p pif ks))"
    using assms(1) by (simp add: establish_kinds_eq [OF assms(2)] image_Un del: set_map)
  then show ?thesis unfolding missing_keys using assms(3) by blast
qed

lemma establish_kinds_there:
  assumes "distinct ks" and "\<forall>k \<in> set ks. (d, i, p, pif, k) \<in> entity_key ` set (entity_list C st d i)"
  shows "establish_kinds C d i p pif ks st = st"
proof -
  have "missing_kinds st d i p pif ks = []" using assms(2) by (simp add: missing_kinds_def)
  then show ?thesis by (simp add: establish_kinds_eq [OF assms(1)])
qed

lemma establish_kinds_other:
  assumes "distinct ks" and "(d', i') \<noteq> (d, i)"
  shows "entity_list C (establish_kinds C d i p pif ks st) d' i' = entity_list C st d' i'"
  using assms(2) by (auto simp: establish_kinds_eq [OF assms(1)])

lemma establish_kinds_grows:
  assumes "distinct ks"
  shows "\<exists>es. entity_list C (establish_kinds C d i p pif ks st) d' i' = entity_list C st d' i' @ es"
  by (simp add: establish_kinds_eq [OF assms])

lemma association_result:
  assumes "pair_ready C st g gi u ui"
  shows "LTENR_RLC_ASSOCIATION C g gi u ui True st
      = Inr (establish_kinds C u ui g gi entity_kinds (establish_kinds C g gi u ui entity_kinds st))"
    and "LTENR_RLC_ASSOCIATION C g gi u ui False st
      = rbind (release_kinds C g gi u ui entity_kinds st) (release_kinds C u ui g gi entity_kinds)"
  using pair_readyD [OF assms]
  by (auto simp: LTENR_RLC_ASSOCIATION_def ESTABLISHENTITYALL_kinds UNESTABLISHENTITYALL_kinds [abs_def])

lemma association_establishes:
  assumes "pair_ready C st g gi u ui"
  shows "\<exists>st'. LTENR_RLC_ASSOCIATION C g gi u ui True st = Inr st'
    \<and> rlc_wf C st' \<and> LTENR_RLC_ASSOCIATION C g gi u ui True st' = Inr st'
    \<and> (\<forall>(m, tx, rx) \<in> set entity_kinds. LTENR_RLC_FINDENTITY C st' g gi u ui m tx rx \<noteq> None
         \<and> LTENR_RLC_FINDENTITY C st' u ui g gi m tx rx \<noteq> None)
    \<and> (\<forall>d i. \<exists>es. entity_list C st' d i = entity_list C st d i @ es)"
proof -
  note r = pair_readyD [OF assms] and ks = distinct_entity_kinds
  define st1 where "st1 = establish_kinds C g gi u ui entity_kinds st"
  define st2 where "st2 = establish_kinds C u ui g gi entity_kinds st1"
  have run: "LTENR_RLC_ASSOCIATION C g gi u ui True st = Inr st2"
    unfolding st1_def st2_def by (rule association_result(1) [OF assms])
  have wf1: "rlc_wf C st1" and wf2: "rlc_wf C st2"
    unfolding st1_def st2_def by (intro establish_kinds_wf r(1) ks)+
  have p2: "pair_ready C st2 g gi u ui"
    using assms wf1 wf2 unfolding st1_def st2_def establish_kinds_eq [OF ks]
    by (intro pair_ready_with) simp_all
  have u: "has_rlc C st1 u ui" using r(3) unfolding st1_def establish_kinds_eq [OF ks] by simp
  have in_u: "(u, ui, g, gi, k) \<in> entity_key ` set (entity_list C st2 u ui)" if "k \<in> set entity_kinds" for k
    unfolding st2_def by (rule establish_kinds_has [OF u ks that])
  have same: "entity_list C st2 g gi = entity_list C st1 g gi"
    unfolding st2_def by (rule establish_kinds_other [OF ks r(4)])
  have in_g: "(g, gi, u, ui, k) \<in> entity_key ` set (entity_list C st2 g gi)" if "k \<in> set entity_kinds" for k
    unfolding same unfolding st1_def by (rule establish_kinds_has [OF r(2) ks that])
  have "LTENR_RLC_ASSOCIATION C g gi u ui True st2 = Inr st2"
    unfolding association_result(1) [OF p2]
    using in_g in_u by (simp add: establish_kinds_there ks)
  moreover have "\<exists>es. entity_list C st2 d i = entity_list C st d i @ es" for d i
    unfolding st2_def st1_def using establish_kinds_grows [OF ks] by (metis append.assoc)
  moreover have "\<forall>(m, tx, rx) \<in> set entity_kinds. LTENR_RLC_FINDENTITY C st2 g gi u ui m tx rx \<noteq> None
         \<and> LTENR_RLC_FINDENTITY C st2 u ui g gi m tx rx \<noteq> None"
    unfolding FINDENTITY_iff using in_g in_u by auto
  ultimately show ?thesis using run wf2 by blast
qed

text \<open>Releasing what was established on one interface gives the list back.\<close>

lemma release_established:
  assumes "rlc_wf C st" and "has_rlc C st d i" and "distinct ks" and "rlc_wf C st'"
    and "has_rlc C st' d i"
    and "entity_list C st' d i = entity_list C st d i @ map (new_entity C d i p pif) ks"
    and "\<forall>e \<in> set (entity_list C st d i). (peerId e, peerIf e) \<noteq> (p, pif)"
  shows "release_kinds C d i p pif ks st' = Inr (with_entities C st' d i (entity_list C st d i))"
proof -
  let ?K = "(\<lambda>k. (d, i, p, pif, k)) ` set ks"
  have "\<forall>k \<in> set ks. (d, i, p, pif, k) \<in> entity_key ` set (entity_list C st' d i)"
    unfolding assms(6) by (force simp: key_in_image new_entity_key')
  note r = release_kinds_eq [OF assms(4,5,3) this]
  have "filter (\<lambda>e. entity_key e \<notin> ?K) (entity_list C st d i) = entity_list C st d i"
    using assms(7) by (auto simp: filter_id_conv entity_key_def)
  moreover have "filter (\<lambda>e. entity_key e \<notin> ?K) (map (new_entity C d i p pif) ks) = []"
    by (auto simp: filter_empty_conv new_entity_key')
  ultimately have "filter (\<lambda>e. entity_key e \<notin> ?K) (entity_list C st' d i) = entity_list C st d i"
    unfolding assms(6) by simp
  with r show ?thesis by simp
qed

lemma no_peer_missing:
  assumes "\<forall>e \<in> set (entity_list C st d i). (peerId e, peerIf e) \<noteq> (p, pif)"
  shows "missing_kinds st d i p pif ks = ks"
proof -
  have "(d, i, p, pif, k) \<notin> entity_key ` set (entity_list C st d i)" for k
    using assms by (auto simp: entity_key_def)
  then show ?thesis by (simp add: missing_kinds_def)
qed

lemma association_roundtrip:
  assumes "pair_ready C st g gi u ui"
    and g: "\<forall>e \<in> set (entity_list C st g gi). (peerId e, peerIf e) \<noteq> (u, ui)"
    and u: "\<forall>e \<in> set (entity_list C st u ui). (peerId e, peerIf e) \<noteq> (g, gi)"
  shows "\<exists>st'. LTENR_RLC_ASSOCIATION C g gi u ui True st = Inr st'
    \<and> LTENR_RLC_ASSOCIATION C g gi u ui False st' = Inr st"
proof -
  note r = pair_readyD [OF assms(1)] and ks = distinct_entity_kinds
  define esg where "esg = entity_list C st g gi @ map (new_entity C g gi u ui) entity_kinds"
  define esu where "esu = entity_list C st u ui @ map (new_entity C u ui g gi) entity_kinds"
  define st1 where "st1 = establish_kinds C g gi u ui entity_kinds st"
  define st2 where "st2 = establish_kinds C u ui g gi entity_kinds st1"
  have st1: "st1 = with_entities C st g gi esg"
    unfolding st1_def esg_def establish_kinds_eq [OF ks] no_peer_missing [OF g] ..
  have lu: "entity_list C st1 u ui = entity_list C st u ui"
    unfolding st1 using r(4) by auto
  have st2: "st2 = with_entities C st1 u ui esu"
    unfolding st2_def esu_def establish_kinds_eq [OF ks] using no_peer_missing [of st1 u ui] u lu by simp
  have run: "LTENR_RLC_ASSOCIATION C g gi u ui True st = Inr st2"
    unfolding st1_def st2_def by (rule association_result(1) [OF assms(1)])
  have wf1: "rlc_wf C st1" and wf2: "rlc_wf C st2"
    unfolding st1_def st2_def by (intro establish_kinds_wf r(1) ks)+
  have p2: "pair_ready C st2 g gi u ui"
    using assms(1) wf1 wf2 unfolding st1 st2 by (intro pair_ready_with) simp_all
  define st3 where "st3 = with_entities C st2 g gi (entity_list C st g gi)"
  have rel1: "release_kinds C g gi u ui entity_kinds st2 = Inr st3"
    unfolding st3_def using r wf2 g
    by (intro release_established [OF _ _ ks]) (auto simp: st1 st2 esg_def)
  have st3: "st3 = with_entities C st u ui esu"
  proof -
    have "st3 = with_entities C (with_entities C st1 g gi (entity_list C st g gi)) u ui esu"
      unfolding st3_def st2 by (rule with_entities_commute) (use r(4) in auto)
    also have "with_entities C st1 g gi (entity_list C st g gi) = st" unfolding st1 by simp
    finally show ?thesis .
  qed
  have wf3: "rlc_wf C st3"
    using rlc_wf_list [OF r(1)] unfolding st3_def by (intro rlc_wf_with wf2) auto
  have "release_kinds C u ui g gi entity_kinds st3 = Inr (with_entities C st3 u ui (entity_list C st u ui))"
    using r wf3 u by (intro release_established [OF _ _ ks]) (auto simp: st3 esu_def)
  also have "with_entities C st3 u ui (entity_list C st u ui) = st" by (simp add: st3)
  finally show ?thesis
    unfolding run using association_result(2) [OF p2] rel1 by auto
qed

end

text \<open>
  C22. Associating a UE with a gNB gives each side its five entities for the other (TM and UM in
  both directions, AM), so that every lookup the handlers make for the pair finds one;
  entities that were there stay, keys stay unique, and associating again changes nothing.
\<close>

theorem rlc_association_establishes:
  assumes "core_environment C" and "pair_ready C st g gi u ui"
  shows "\<exists>st'. LTENR_RLC_ASSOCIATION C g gi u ui True st = Inr st'
    \<and> rlc_wf C st' \<and> LTENR_RLC_ASSOCIATION C g gi u ui True st' = Inr st'
    \<and> (\<forall>(m, tx, rx) \<in> set entity_kinds. LTENR_RLC_FINDENTITY C st' g gi u ui m tx rx \<noteq> None
         \<and> LTENR_RLC_FINDENTITY C st' u ui g gi m tx rx \<noteq> None)
    \<and> (\<forall>d i. \<exists>es. entity_list C st' d i = entity_list C st d i @ es)"
  by (rule core_environment.association_establishes [OF assms])

text \<open>
  Releasing an association undoes establishing it: when the two had no entities for each
  other before, the state is the one before the association.
\<close>

theorem rlc_association_roundtrip:
  assumes "core_environment C" and "pair_ready C st g gi u ui"
    and "\<forall>e \<in> set (entity_list C st g gi). (peerId e, peerIf e) \<noteq> (u, ui)"
    and "\<forall>e \<in> set (entity_list C st u ui). (peerId e, peerIf e) \<noteq> (g, gi)"
  shows "\<exists>st'. LTENR_RLC_ASSOCIATION C g gi u ui True st = Inr st'
    \<and> LTENR_RLC_ASSOCIATION C g gi u ui False st' = Inr st"
  by (rule core_environment.association_roundtrip [OF assms])

text \<open>
  Releasing an association that was never made dereferences a NULL pointer.
\<close>

theorem rlc_release_unassociated_faults:
  assumes "core_environment C" and "pair_ready C st g gi u ui"
    and "LTENR_RLC_FINDENTITY C st g gi u ui LTENR_RLCMODE_TM True False = None"
  shows "LTENR_RLC_ASSOCIATION C g gi u ui False st = Inl NullDeref"
proof -
  note r = pair_readyD [OF assms(2)]
  have "(g, gi, u, ui, LTENR_RLCMODE_TM, True, False) \<notin> entity_key ` set (entity_list C st g gi)"
    using assms(3) FINDENTITY_iff [of C st g gi u ui] by blast
  then have "LTENR_RLC_UNESTABLISHENTITY C g gi u ui LTENR_RLCMODE_TM True False st = Inl NullDeref"
    using core_environment.UNESTABLISHENTITY_eq [OF assms(1) r(1)] r(2) by simp
  then show ?thesis
    unfolding core_environment.association_result(2) [OF assms(1,2)]
    by (simp add: release_kinds_def entity_kinds_def)
qed

text \<open>Two interfaces after start-up, and associated.\<close>

definition ex_core :: rlc_state where
  "ex_core = fn_NetSim_LTENR_UERLC_Init plain_core_env 2 1
     (fn_NetSim_LTENR_GNBRLC_Init plain_core_env 1 1 \<lparr>ue_rlc = (\<lambda>x. None), gnb_rlc = (\<lambda>x. None)\<rparr>)"

lemma init_wf:
  assumes "core_environment C"
  shows "rlc_wf C st \<Longrightarrow> rlc_wf C (fn_NetSim_LTENR_UERLC_Init C d i st)"
    and "rlc_wf C st \<Longrightarrow> rlc_wf C (fn_NetSim_LTENR_GNBRLC_Init C d i st)"
proof -
  have "entity_list C (LTENR_UERLC_SET d i \<lparr>t_reassembly = x, rlcEntities = []\<rparr> st) d' i' \<in> {[], entity_list C st d' i'}"
    "entity_list C (LTENR_GNBRLC_SET d i \<lparr>t_reassembly = x, rlcEntities = []\<rparr> st) d' i' \<in> {[], entity_list C st d' i'}"
    for x d' i'
    by (auto simp: entity_list_def LTENR_RLC_GET_def LTENR_UERLC_SET_def LTENR_GNBRLC_SET_def)
  moreover have "rlc_wf C st'" if "rlc_wf C st" "\<And>d i. entity_list C st' d i \<in> {[], entity_list C st d i}" for st st'
    unfolding rlc_wf_def
  proof (intro allI)
    fix d i
    from that(2) [of d i] rlc_wf_list(1) [OF that(1), of d i] rlc_wf_list(2) [OF that(1), of _ d i]
    show "distinct (map entity_key (entity_list C st' d i))
      \<and> (\<forall>e \<in> set (entity_list C st' d i). ent_d e = d \<and> ent_in e = i)" by auto
  qed
  ultimately have "rlc_wf C (LTENR_UERLC_SET d i \<lparr>t_reassembly = x, rlcEntities = []\<rparr> st)"
    "rlc_wf C (LTENR_GNBRLC_SET d i \<lparr>t_reassembly = x, rlcEntities = []\<rparr> st)" if "rlc_wf C st" for x
    using that by blast+
  then show "rlc_wf C st \<Longrightarrow> rlc_wf C (fn_NetSim_LTENR_UERLC_Init C d i st)"
    and "rlc_wf C st \<Longrightarrow> rlc_wf C (fn_NetSim_LTENR_GNBRLC_Init C d i st)"
    unfolding fn_NetSim_LTENR_UERLC_Init_def fn_NetSim_LTENR_GNBRLC_Init_def Let_def ESTABLISHENTITYALL_kinds
    by (intro core_environment.establish_kinds_wf [OF assms] distinct_entity_kinds; simp)+
qed

lemma ex_core_ready: "pair_ready plain_core_env ex_core 1 1 2 1"
proof -
  have "rlc_wf plain_core_env \<lparr>ue_rlc = (\<lambda>x. None), gnb_rlc = (\<lambda>x. None)\<rparr>"
    by (simp add: rlc_wf_def entity_list_def LTENR_RLC_GET_def)
  then have "rlc_wf plain_core_env ex_core"
    unfolding ex_core_def by (intro init_wf plain_core.core_environment_axioms)
  moreover have "isGNB plain_core_env 1 1 \<and> isUE plain_core_env 2 1
    \<and> gnb_rlc ex_core (1, 1) \<noteq> None \<and> ue_rlc ex_core (2, 1) \<noteq> None"
    by code_simp
  ultimately show ?thesis by (simp add: pair_ready_def)
qed

lemma ex_core_peers:
  "\<forall>e \<in> set (entity_list plain_core_env ex_core 1 1). (peerId e, peerIf e) \<noteq> (2, 1)"
  "\<forall>e \<in> set (entity_list plain_core_env ex_core 2 1). (peerId e, peerIf e) \<noteq> (1, 1)"
  by code_simp+

lemma rlc_association_establishes_witness:
  "\<exists>st'. LTENR_RLC_ASSOCIATION plain_core_env 1 1 2 1 True ex_core = Inr st'
    \<and> LTENR_RLC_FINDENTITY plain_core_env st' 2 1 1 1 LTENR_RLCMODE_AM True True \<noteq> None"
  using rlc_association_establishes [OF plain_core.core_environment_axioms ex_core_ready]
  by (auto simp: entity_kinds_def)

lemma rlc_association_roundtrip_witness:
  "\<exists>st'. LTENR_RLC_ASSOCIATION plain_core_env 1 1 2 1 True ex_core = Inr st'
    \<and> LTENR_RLC_ASSOCIATION plain_core_env 1 1 2 1 False st' = Inr ex_core"
  by (rule rlc_association_roundtrip [OF plain_core.core_environment_axioms ex_core_ready ex_core_peers])

lemma rlc_release_unassociated_faults_witness:
  "LTENR_RLC_ASSOCIATION plain_core_env 1 1 2 1 False ex_core = Inl NullDeref"
proof (rule rlc_release_unassociated_faults [OF plain_core.core_environment_axioms ex_core_ready])
  show "LTENR_RLC_FINDENTITY plain_core_env ex_core 1 1 2 1 LTENR_RLCMODE_TM True False = None"
    by code_simp
qed

end
