(* ===== verification/RLC_Core_Traffic.thy ===== *)
theory RLC_Core_Traffic
  imports RLC_Core_Props RLC_AM_Rx_Run
begin

text \<open>
  How packets move through the RLC sublayer of a device: what transparent mode sends, how a
  grant is shared between the modes, how a status report of AM leaves through TM, and what
  becomes of a packet from the upper layer.
\<close>

declare of_nat_unat [simp del]

section \<open>Looking up entities after a write\<close>

lemma find_pos_map: "find_pos (\<lambda>x. f x = k) xs = find_pos (\<lambda>y. y = k) (map f xs)"
  by (induction xs) simp_all

lemma FINDENTITY_keys:
  "LTENR_RLC_FINDENTITY C st d i p pif m tx rx
     = find_pos (\<lambda>k. k = (d, i, p, pif, m, tx, rx)) (map entity_key (entity_list C st d i))"
  unfolding FINDENTITY_list by (rule find_pos_map)

lemma FINDENTITY_SomeD:
  assumes "LTENR_RLC_FINDENTITY C st d i p pif m tx rx = Some j"
  shows "j < length (entity_list C st d i)" and "has_rlc C st d i"
    and "entity_key (entity_at C st d i j) = (d, i, p, pif, m, tx, rx)"
  using find_pos_SomeD [OF assms [unfolded FINDENTITY_list]]
  by (auto simp: entity_at_def has_rlc_def entity_list_def split: option.splits)

lemma entity_list_put:
  "has_rlc C st d i \<Longrightarrow> entity_list C (entity_put C st d i j e) d' i'
     = (if d' = d \<and> i' = i then (entity_list C st d i)[j := e] else entity_list C st d' i')"
  by (simp add: entity_put_with)

lemma entity_at_put:
  "has_rlc C st d i \<Longrightarrow> j < length (entity_list C st d i) \<Longrightarrow>
     entity_at C (entity_put C st d i j e) d i k = (if k = j then e else entity_at C st d i k)"
  by (simp add: entity_at_def entity_list_put)

lemma entity_key_put:
  assumes "entity_key e = entity_key (entity_at C st d i j)"
  shows "map entity_key (entity_list C (entity_put C st d i j e) d' i')
     = map entity_key (entity_list C st d' i')"
proof (cases "has_rlc C st d i")
  case True
  have "map entity_key ((entity_list C st d i)[j := e]) = map entity_key (entity_list C st d i)"
    using assms by (cases "j < length (entity_list C st d i)")
      (simp_all add: map_update entity_at_def list_update_same_conv list_update_beyond)
  with True show ?thesis by (simp add: entity_list_put)
next
  case False
  then show ?thesis by (simp add: entity_put_def has_rlc_def)
qed

lemma FINDENTITY_put:
  assumes "entity_key e = entity_key (entity_at C st d i j)"
  shows "LTENR_RLC_FINDENTITY C (entity_put C st d i j e) d' i' p pif m tx rx
     = LTENR_RLC_FINDENTITY C st d' i' p pif m tx rx"
  by (simp add: FINDENTITY_keys entity_key_put [OF assms])

lemma entity_key_upd [simp]:
  "entity_key (e\<lparr>transmissionBuffer := x\<rparr>) = entity_key e"
  "entity_key (e\<lparr>bufferStatus := y\<rparr>) = entity_key e"
  by (simp_all add: entity_key_def)

section \<open>Transparent mode\<close>

definition control_entry :: "LTENR_RLCBUFFER_DATA \<Rightarrow> bool" where
  "control_entry b \<longleftrightarrow> msg (data_packet b) \<noteq> None \<and> \<not> LTENR_IS_UPLANE_MSG (data_packet b)"

definition entry_channel :: "LTENR_RLCBUFFER_DATA \<Rightarrow> LTENR_LOGICALCHANNEL" where
  "entry_channel b = (case msg (data_packet b) of Some m \<Rightarrow> logicalChannel m | None \<Rightarrow> LTENR_LOGICALCHANNEL_NONE)"

definition mark_channel :: "LTENR_LOGICALCHANNEL \<Rightarrow> LTENR_RLCBUFFER_DATA \<Rightarrow> LTENR_RLCBUFFER_DATA" where
  "mark_channel ch b = (if entry_channel b = ch then b\<lparr>isMarkedForRemoval := True\<rparr> else b)"

lemma tm_loop_control:
  "\<forall>b \<in> set bufs. control_entry b \<Longrightarrow> \<exists>s' left'. tm_loop E d i lch s left bufs
     = Inr (s', left', map (mark_channel lch) bufs)
   \<and> mac_of (trace s') = mac_of (trace s) @ map data_packet (filter (\<lambda>b. entry_channel b = lch) bufs)"
proof (induction bufs arbitrary: s left)
  case Nil
  then show ?case by simp
next
  case (Cons b bufs)
  then obtain m where m: "msg (data_packet b) = Some m" "\<not> LTENR_IS_UPLANE_MSG (data_packet b)"
    by (auto simp: control_entry_def)
  have c: "entry_channel b = logicalChannel m" using m by (simp add: entry_channel_def)
  show ?case
  proof (cases "logicalChannel m = lch")
    case False
    obtain s' left' where "tm_loop E d i lch s left bufs = Inr (s', left', map (mark_channel lch) bufs)"
      "mac_of (trace s') = mac_of (trace s) @ map data_packet (filter (\<lambda>b. entry_channel b = lch) bufs)"
      using Cons by (meson list.set_intros(2))
    then show ?thesis using False m c
      by (simp add: LTENR_PACKET_GET_LOGICALCHANNEL_def mark_channel_def)
  next
    case True
    let ?s = "LTENR_RLC_SENDPDUTOMAC E d i (data_packet b) s"
    let ?left = "left - UINT_of_double (dPacketSize (data_packet b))"
    obtain s' left' where "tm_loop E d i lch ?s ?left bufs = Inr (s', left', map (mark_channel lch) bufs)"
      "mac_of (trace s') = mac_of (trace ?s) @ map data_packet (filter (\<lambda>b. entry_channel b = lch) bufs)"
      using Cons by (meson list.set_intros(2))
    moreover have "b\<lparr>isMarkedForRemoval := True, data_packet := data_packet b\<rparr> = b\<lparr>isMarkedForRemoval := True\<rparr>"
      by simp
    ultimately show ?thesis using True m c
      by (simp add: LTENR_PACKET_GET_LOGICALCHANNEL_def mark_channel_def Let_def LTENR_RLCMSG_TMHDR_ADD_def
          LTENR_RLC_SENDPDUTOMAC_def emit_def)
  qed
qed

lemma tm_send_control:
  assumes "LTENR_RLC_FINDENTITY C st d i r rin LTENR_RLCMODE_TM True False = Some j"
    and "\<forall>b \<in> set (transmissionBuffer (entity_at C st d i j)). control_entry b"
  shows "\<exists>s' n. LTENR_RLC_TM_SEND_PDU C st s d i r rin sz lch
      = Inr (entity_put C st d i j ((entity_at C st d i j)\<lparr>transmissionBuffer :=
          buf_update (map (mark_channel lch) (transmissionBuffer (entity_at C st d i j)))\<rparr>), s', n)
    \<and> mac_of (trace s') = mac_of (trace s) @ map data_packet
        (filter (\<lambda>b. entry_channel b = lch) (transmissionBuffer (entity_at C st d i j)))"
  using tm_loop_control [OF assms(2), of "kernel C" d i lch s sz] assms(1)
  by (auto simp: LTENR_RLC_TM_SEND_PDU_def Let_def)

text \<open>
  A grant for a channel in transparent mode sends every control message of that channel,
  also those sent before: when an unmarked message of another channel heads the queue,
  nothing leaves it, the next grant sends the same messages again, and the size the entity
  reports for the channel never goes down.
\<close>

theorem tm_grant_sends_again:
  assumes "LTENR_RLC_FINDENTITY C st d i r rin LTENR_RLCMODE_TM True False = Some j"
    and "transmissionBuffer (entity_at C st d i j) = b0 # bs"
    and "\<forall>b \<in> set (b0 # bs). control_entry b" and "entry_channel b0 \<noteq> lch" and "\<not> isMarkedForRemoval b0"
  shows "\<exists>st1 s1 n st2 s2 m. LTENR_RLC_TM_SEND_PDU C st s d i r rin sz lch = Inr (st1, s1, n)
    \<and> LTENR_RLC_TM_SEND_PDU C st1 s1 d i r rin sz' lch = Inr (st2, s2, m)
    \<and> (let sent = map data_packet (filter (\<lambda>b. entry_channel b = lch) bs)
       in mac_of (trace s1) = mac_of (trace s) @ sent \<and> mac_of (trace s2) = mac_of (trace s1) @ sent)
    \<and> map data_packet (transmissionBuffer (entity_at C st2 d i j)) = map data_packet (b0 # bs)
    \<and> bufferStatus (entity_at C st2 d i j) = bufferStatus (entity_at C st d i j)"
proof -
  note f = FINDENTITY_SomeD [OF assms(1)]
  have mark: "entry_channel (mark_channel lch b) = entry_channel b" "data_packet (mark_channel lch b) = data_packet b"
    "control_entry (mark_channel lch b) = control_entry b" "mark_channel lch (mark_channel lch b) = mark_channel lch b" for b
    by (simp_all add: mark_channel_def entry_channel_def control_entry_def)
  let ?e = "entity_at C st d i j"
  let ?sent = "map data_packet (filter (\<lambda>b. entry_channel b = lch) bs)"
  define B where "B = map (mark_channel lch) (b0 # bs)"
  have B: "buf_update B = B" "map (mark_channel lch) B = B" "\<forall>b \<in> set B. control_entry b"
    "map data_packet B = map data_packet (b0 # bs)"
    using assms(3-5) by (auto simp: B_def mark buf_update_def) (auto simp: mark_channel_def)
  have "filter (\<lambda>b. entry_channel b = lch) B = map (mark_channel lch) (filter (\<lambda>b. entry_channel b = lch) (b0 # bs))"
    unfolding B_def filter_map o_def mark(1) ..
  then have sentB: "map data_packet (filter (\<lambda>b. entry_channel b = lch) B) = ?sent"
    using assms(4) by (simp add: o_def mark(2))
  define st1 where "st1 = entity_put C st d i j (?e\<lparr>transmissionBuffer := B\<rparr>)"
  have filt: "filter (\<lambda>b. entry_channel b = lch) (b0 # bs) = filter (\<lambda>b. entry_channel b = lch) bs"
    using assms(4) by simp
  obtain s1 n where 1: "LTENR_RLC_TM_SEND_PDU C st s d i r rin sz lch = Inr (st1, s1, n)"
    "mac_of (trace s1) = mac_of (trace s) @ ?sent"
    using tm_send_control [OF assms(1), of s sz lch] assms(3)
    unfolding assms(2) filt B_def [symmetric] B(1) st1_def [symmetric] by blast
  have find1: "LTENR_RLC_FINDENTITY C st1 d i r rin LTENR_RLCMODE_TM True False = Some j"
    unfolding st1_def by (subst FINDENTITY_put) (simp_all add: assms(1))
  have e1: "entity_at C st1 d i j = ?e\<lparr>transmissionBuffer := B\<rparr>"
    using f unfolding st1_def by (simp add: entity_at_put)
  then have t1: "transmissionBuffer (entity_at C st1 d i j) = B"
    and same: "(entity_at C st1 d i j)\<lparr>transmissionBuffer := B\<rparr> = entity_at C st1 d i j"
    by simp_all
  obtain s2 m where 2: "LTENR_RLC_TM_SEND_PDU C st1 s1 d i r rin sz' lch
      = Inr (entity_put C st1 d i j (entity_at C st1 d i j), s2, m)"
    "mac_of (trace s2) = mac_of (trace s1) @ ?sent"
    using tm_send_control [OF find1, of s1 sz' lch] B(3)
    unfolding t1 B(1,2) same sentB by blast
  have "has_rlc C st1 d i" "j < length (entity_list C st1 d i)" using f by (simp_all add: st1_def entity_put_with)
  then have e2: "entity_at C (entity_put C st1 d i j (entity_at C st1 d i j)) d i j = entity_at C st1 d i j"
    by (simp add: entity_at_put)
  show ?thesis
    by (intro exI conjI, rule 1(1), rule 2(1)) (simp_all add: 1(2) 2(2) e1 e2 [unfolded e1] B(4) [simplified])
qed

text \<open>A gNB with a broadcast message and a status PDU for the UE in its TM queue.\<close>

definition ex_control :: "LTENR_MSGTYPE \<Rightarrow> LTENR_LOGICALCHANNEL \<Rightarrow> NetSim_PACKET" where
  "ex_control ty ch = (plain_create 1 2 0 ty)\<lparr>msg := Some \<lparr>msgType = ty, hdrSize = 0, msg_hdrs = [],
     logicalChannel = ch, msg_rlcMode = LTENR_RLCMODE_TM\<rparr>, dPacketSize := 20\<rparr>"

definition ex_associated :: rlc_state where
  "ex_associated = LTENR_RLC_ESTABLISHENTITYALL plain_core_env 2 1 1 1
     (LTENR_RLC_ESTABLISHENTITYALL plain_core_env 1 1 2 1 ex_core)"

definition ex_tm_queue :: rlc_state where
  "ex_tm_queue = entity_put plain_core_env ex_associated 1 1 5
     ((entity_at plain_core_env ex_associated 1 1 5)\<lparr>transmissionBuffer :=
        [buf_new (ex_control LTENR_MSG_RRC_SETUP LTENR_LOGICALCHANNEL_BCCH) 0 0 LTENR_LOGICALCHANNEL_BCCH,
         buf_new (ex_control LTENR_MSG_RLC_STATUSPDU LTENR_LOGICALCHANNEL_CCCH) 0 0 LTENR_LOGICALCHANNEL_CCCH]\<rparr>)"

lemma tm_grant_sends_again_witness:
  "\<exists>st1 s1 n st2 s2 m. LTENR_RLC_TM_SEND_PDU plain_core_env ex_tm_queue ex_event 1 1 2 1 100 LTENR_LOGICALCHANNEL_CCCH
      = Inr (st1, s1, n)
    \<and> LTENR_RLC_TM_SEND_PDU plain_core_env st1 s1 1 1 2 1 100 LTENR_LOGICALCHANNEL_CCCH = Inr (st2, s2, m)
    \<and> length (mac_of (trace s2)) = length (mac_of (trace ex_event)) + 2"
proof -
  let ?b = "\<lambda>ty ch. buf_new (ex_control ty ch) 0 0 ch"
  have f: "LTENR_RLC_FINDENTITY plain_core_env ex_tm_queue 1 1 2 1 LTENR_RLCMODE_TM True False = Some 5"
    by code_simp
  have b: "transmissionBuffer (entity_at plain_core_env ex_tm_queue 1 1 5)
      = ?b LTENR_MSG_RRC_SETUP LTENR_LOGICALCHANNEL_BCCH # [?b LTENR_MSG_RLC_STATUSPDU LTENR_LOGICALCHANNEL_CCCH]"
    using FINDENTITY_SomeD [OF f] by code_simp
  have c: "control_entry (?b ty ch) \<longleftrightarrow> ty \<noteq> LTENR_MSG_USERDATA" "entry_channel (?b ty ch) = ch"
    "\<not> isMarkedForRemoval (?b ty ch)" for ty ch
    by (simp_all add: control_entry_def entry_channel_def buf_new_def ex_control_def LTENR_IS_UPLANE_MSG_def)
  from tm_grant_sends_again [OF f b, of LTENR_LOGICALCHANNEL_CCCH ex_event 100 100]
  show ?thesis by (simp add: c Let_def) (elim exE conjE, intro exI conjI, assumption, assumption, simp)
qed

section \<open>Sharing a grant\<close>

lemma um_tx_loop_key:
  "um_tx_loop fuel E d i ch e s left keep bufs = Inr (e', s', left', out) \<Longrightarrow> entity_key e' = entity_key e"
proof (induction fuel E d i ch e s left keep bufs arbitrary: e' s' left' out rule: um_tx_loop.induct)
  case (3 fuel E d i ch e s left keep buf bufs)
  have k: "entity_key (x\<lparr>UM_TX_Next := y\<rparr>) = entity_key x" for x y by (simp add: entity_key_def)
  from 3 show ?case by (auto simp: Let_def k split: if_splits prod.splits)
qed auto

lemma um_send_pdu_key:
  "um_send_pdu E d i e s sz ch = Inr (e', s', n) \<Longrightarrow> entity_key e' = entity_key e"
  by (auto simp: um_send_pdu_def rbind_Inr_iff dest: um_tx_loop_key)

lemma retx_loop_0: "retx_loop E ch e s 0 bufs = Inr (e, s, 0, bufs)"
  by (induction bufs) (simp_all add: Let_def MIN_RLC_PDU_SIZE_def)

lemma tx_loop_0: "length bufs < fuel \<Longrightarrow> tx_loop fuel E ch e s 0 bufs = Inr (e, s, 0, bufs)"
proof (induction bufs arbitrary: fuel)
  case Nil
  then show ?case by (cases fuel) simp_all
next
  case (Cons b bufs)
  then show ?case by (cases fuel) (simp_all add: Let_def MIN_RLC_PDU_SIZE_def)
qed

lemma am_send_pdu_0: "am_send_pdu E e s 0 ch = Inr (e, s, 0)"
proof -
  have "retransmissionBuffer_update (\<lambda>_. retransmissionBuffer e) e = e"
    "transmissionBuffer_update (\<lambda>_. transmissionBuffer e) e = e" by simp_all
  then show ?thesis
    by (simp add: am_send_pdu_def LTENR_RLCAM_SendPDUFromRetransmissionBuffer_def
        LTENR_RLCAM_SendPDUFromTransmissionBuffer_def retx_loop_0 tx_loop_0)
qed

lemma entity_put_same:
  "j < length (entity_list C st d i) \<Longrightarrow> entity_put C st d i j (entity_at C st d i j) = st"
  by (simp add: entity_put_with entity_at_def)

lemma DTCH_modes [simp]:
  "\<not> LTENR_RLC_IS_LOGICALCHANNEL_FOR_TM LTENR_LOGICALCHANNEL_DTCH"
  "LTENR_RLC_IS_LOGICALCHANNEL_FOR_UM LTENR_LOGICALCHANNEL_DTCH"
  "LTENR_RLC_IS_LOGICALCHANNEL_FOR_AM LTENR_LOGICALCHANNEL_DTCH"
  by (simp_all add: LTENR_RLC_IS_LOGICALCHANNEL_FOR_TM_def LTENR_RLC_IS_LOGICALCHANNEL_FOR_UM_def
      LTENR_RLC_IS_LOGICALCHANNEL_FOR_AM_def)

text \<open>
  On the traffic channel a grant goes to unacknowledged mode first, and acknowledged mode
  gets exactly what was left: the two never report more than the grant together, and what
  unacknowledged mode reports is the payload it handed to the MAC sublayer.
\<close>

theorem rlc_grant_shared:
  assumes "core_environment C"
    and um: "LTENR_RLC_FINDENTITY C st d i r rin LTENR_RLCMODE_UM True False = Some ju"
    and am: "LTENR_RLC_FINDENTITY C st d i r rin LTENR_RLCMODE_AM True True = Some ja"
    and "\<forall>b \<in> set (transmissionBuffer (entity_at C st d i ju)). um_entry b \<and> \<not> isMarkedForRemoval b"
    and "\<forall>b \<in> set (transmissionBuffer (entity_at C st d i ja)). good_entry (kernel C) b"
    and "\<forall>b \<in> set (retransmissionBuffer (entity_at C st d i ja)).
          LTENR_RLCMSG_AMHDR_GET (kernel C) (data_packet b) \<noteq> None \<and> (\<exists>k. dPacketSize (data_packet b) = real k)"
    and "AM_PDU_WITHOUT_POLL (entity_at C st d i ja) < pollPDU (entity_at C st d i ja)"
  shows "\<exists>st' s' su nu na.
    fn_NetSim_LTENR_RLC_TransmissionStatusNotification C st s d i r rin sz LTENR_LOGICALCHANNEL_DTCH = Inr (st', s')
    \<and> nu \<le> sz \<and> na \<le> sz - nu
    \<and> double_of_UINT nu = mac_payload (trace su) - mac_payload (trace s)
    \<and> am_send_pdu (kernel C) (entity_at C st d i ja) su (sz - nu) LTENR_LOGICALCHANNEL_DTCH
        = Inr (entity_at C st' d i ja, s', na)"
proof -
  have E: "rlc_environment (kernel C)" using assms(1) by (simp add: core_environment_def)
  note fu = FINDENTITY_SomeD [OF um] and fa = FINDENTITY_SomeD [OF am]
  obtain eu su nu where u: "um_send_pdu (kernel C) d i (entity_at C st d i ju) s sz LTENR_LOGICALCHANNEL_DTCH
      = Inr (eu, su, nu)" "nu \<le> sz" "double_of_UINT nu = mac_payload (trace su) - mac_payload (trace s)"
    using um_send_pdu_spec [OF E assms(4)] by blast
  obtain ea s' na where a: "am_send_pdu (kernel C) (entity_at C st d i ja) su (sz - nu) LTENR_LOGICALCHANNEL_DTCH
      = Inr (ea, s', na)" "na \<le> sz - nu"
    using am_send_pdu_spec [OF E assms(5-7)] by blast
  have "ju \<noteq> ja" using fu(3) fa(3) by auto
  define st1 where "st1 = entity_put C st d i ju eu"
  have key: "entity_key eu = entity_key (entity_at C st d i ju)" by (rule um_send_pdu_key [OF u(1)])
  have find: "LTENR_RLC_FINDENTITY C st1 d i r rin LTENR_RLCMODE_AM True True = Some ja"
    unfolding st1_def FINDENTITY_put [OF key] by (rule am)
  have at: "entity_at C st1 d i ja = entity_at C st d i ja"
    using fu \<open>ju \<noteq> ja\<close> by (simp add: st1_def entity_at_put)
  have run: "fn_NetSim_LTENR_RLC_TransmissionStatusNotification C st s d i r rin sz LTENR_LOGICALCHANNEL_DTCH
      = Inr (entity_put C st1 d i ja ea, s')"
    unfolding fn_NetSim_LTENR_RLC_TransmissionStatusNotification_def LTENR_RLC_UM_SEND_PDU_def LTENR_RLCAM_SEND_PDU_def
    using um find u(1) a(1) by (simp add: at st1_def [symmetric])
  have "has_rlc C st1 d i" "ja < length (entity_list C st1 d i)"
    using fa fu by (simp_all add: st1_def entity_put_with)
  then have written: "entity_at C (entity_put C st1 d i ja ea) d i ja = ea" by (simp add: entity_at_put)
  show ?thesis
    by (intro exI conjI, rule run) (use u(2,3) a written in simp_all)
qed

text \<open>
  Without a UM entity for the peer a grant on the traffic channel is lost: the function
  that found no entity reports the whole grant as sent, and acknowledged mode gets nothing,
  whatever it has to send.
\<close>

theorem rlc_grant_lost_without_um:
  assumes "LTENR_RLC_FINDENTITY C st d i r rin LTENR_RLCMODE_UM True False = None"
    and "LTENR_RLC_FINDENTITY C st d i r rin LTENR_RLCMODE_AM True True = Some ja"
  shows "fn_NetSim_LTENR_RLC_TransmissionStatusNotification C st s d i r rin sz LTENR_LOGICALCHANNEL_DTCH = Inr (st, s)"
  unfolding fn_NetSim_LTENR_RLC_TransmissionStatusNotification_def LTENR_RLC_UM_SEND_PDU_def LTENR_RLCAM_SEND_PDU_def
  using assms FINDENTITY_SomeD(1) [OF assms(2)] by (simp add: am_send_pdu_0 entity_put_same)


text \<open>The two examples of the modes, in one device.\<close>

lemma ex_um_busy_entries: "\<forall>b \<in> set (transmissionBuffer ex_um_busy). um_entry b \<and> \<not> isMarkedForRemoval b"
proof -
  have "dPayload (ex_um_sdu\<lparr>dPayload := 40, dPacketSize := 60\<rparr>) = real 40" "dPayload ex_um_sdu = real 100"
    by (simp_all add: ex_um_sdu_def)
  then show ?thesis
    by (auto simp: ex_um_busy_def um_entry_def buf_new_def ex_um_sdu_def LTENR_IS_UPLANE_MSG_def plain_create_def)
qed

lemma ex_busy_entries:
  "\<forall>b \<in> set (transmissionBuffer ex_busy). good_entry plain_rlc_env b"
  "\<forall>b \<in> set (retransmissionBuffer ex_busy). LTENR_RLCMSG_AMHDR_GET plain_rlc_env (data_packet b) \<noteq> None
     \<and> (\<exists>k. dPacketSize (data_packet b) = real k)"
proof -
  show "\<forall>b \<in> set (transmissionBuffer ex_busy). good_entry plain_rlc_env b"
    using ex_sdu_good [of 20 7 10] ex_sdu_good [of 60 8 10] by (simp add: ex_busy_def)
  have "dPacketSize (data_packet (ex_sent 5)) = real 32"
    "LTENR_RLCMSG_AMHDR_GET plain_rlc_env (data_packet (ex_sent 5)) \<noteq> None" by code_simp+
  then show "\<forall>b \<in> set (retransmissionBuffer ex_busy). LTENR_RLCMSG_AMHDR_GET plain_rlc_env (data_packet b) \<noteq> None
     \<and> (\<exists>k. dPacketSize (data_packet b) = real k)"
    unfolding ex_busy_def by auto
qed

definition ex_traffic :: rlc_state where
  "ex_traffic =
     (let st1 = entity_put plain_core_env ex_associated 1 1 7
            ((entity_at plain_core_env ex_associated 1 1 7)\<lparr>transmissionBuffer := transmissionBuffer ex_um_busy\<rparr>)
      in entity_put plain_core_env st1 1 1 9
           ((entity_at plain_core_env st1 1 1 9)\<lparr>transmissionBuffer := transmissionBuffer ex_busy,
              retransmissionBuffer := retransmissionBuffer ex_busy\<rparr>))"

lemma ex_traffic_entities:
  "LTENR_RLC_FINDENTITY plain_core_env ex_traffic 1 1 2 1 LTENR_RLCMODE_UM True False = Some 7"
  "LTENR_RLC_FINDENTITY plain_core_env ex_traffic 1 1 2 1 LTENR_RLCMODE_AM True True = Some 9"
  "transmissionBuffer (entity_at plain_core_env ex_traffic 1 1 7) = transmissionBuffer ex_um_busy"
  "transmissionBuffer (entity_at plain_core_env ex_traffic 1 1 9) = transmissionBuffer ex_busy"
  "retransmissionBuffer (entity_at plain_core_env ex_traffic 1 1 9) = retransmissionBuffer ex_busy"
  "AM_PDU_WITHOUT_POLL (entity_at plain_core_env ex_traffic 1 1 9) < pollPDU (entity_at plain_core_env ex_traffic 1 1 9)"
proof -
  have h: "has_rlc plain_core_env ex_associated 1 1" "length (entity_list plain_core_env ex_associated 1 1) = 10"
    by code_simp+
  have a: "AM_PDU_WITHOUT_POLL (entity_at plain_core_env ex_associated 1 1 9)
      < pollPDU (entity_at plain_core_env ex_associated 1 1 9)" by code_simp
  have f: "LTENR_RLC_FINDENTITY plain_core_env ex_associated 1 1 2 1 LTENR_RLCMODE_UM True False = Some 7"
    "LTENR_RLC_FINDENTITY plain_core_env ex_associated 1 1 2 1 LTENR_RLCMODE_AM True True = Some 9" by code_simp+
  have k: "entity_key (e\<lparr>retransmissionBuffer := x\<rparr>) = entity_key e" for e x by (simp add: entity_key_def)
  show "LTENR_RLC_FINDENTITY plain_core_env ex_traffic 1 1 2 1 LTENR_RLCMODE_UM True False = Some 7"
    "LTENR_RLC_FINDENTITY plain_core_env ex_traffic 1 1 2 1 LTENR_RLCMODE_AM True True = Some 9"
    by (simp_all add: ex_traffic_def Let_def FINDENTITY_put k f)
  have h2: "has_rlc plain_core_env (entity_put plain_core_env ex_associated 1 1 j e) 1 1"
    "length (entity_list plain_core_env (entity_put plain_core_env ex_associated 1 1 j e) 1 1) = 10" for j e
    using h by (simp_all add: entity_put_with)
  show "transmissionBuffer (entity_at plain_core_env ex_traffic 1 1 7) = transmissionBuffer ex_um_busy"
    "transmissionBuffer (entity_at plain_core_env ex_traffic 1 1 9) = transmissionBuffer ex_busy"
    "retransmissionBuffer (entity_at plain_core_env ex_traffic 1 1 9) = retransmissionBuffer ex_busy"
    "AM_PDU_WITHOUT_POLL (entity_at plain_core_env ex_traffic 1 1 9) < pollPDU (entity_at plain_core_env ex_traffic 1 1 9)"
    using a by (simp_all add: ex_traffic_def Let_def entity_at_put h h2)
qed

lemma rlc_grant_shared_witness:
  "\<exists>st' s' nu na. fn_NetSim_LTENR_RLC_TransmissionStatusNotification plain_core_env ex_traffic ex_event 1 1 2 1 150
      LTENR_LOGICALCHANNEL_DTCH = Inr (st', s') \<and> nu \<le> (150 :: u32) \<and> na \<le> 150 - nu"
proof -
  have kn: "kernel plain_core_env = plain_rlc_env" by (simp add: plain_core_env_def)
  show ?thesis
    using rlc_grant_shared [OF plain_core.core_environment_axioms ex_traffic_entities(1,2)
        _ _ _ ex_traffic_entities(6), of ex_event 150]
    unfolding ex_traffic_entities kn using ex_um_busy_entries ex_busy_entries by blast
qed

lemma rlc_grant_lost_without_um_witness:
  "fn_NetSim_LTENR_RLC_TransmissionStatusNotification plain_core_env
     (LTENR_RLC_ESTABLISHENTITY plain_core_env 1 1 2 1 LTENR_RLCMODE_AM True True ex_core) ex_event 1 1 2 1 150
     LTENR_LOGICALCHANNEL_DTCH
   = Inr (LTENR_RLC_ESTABLISHENTITY plain_core_env 1 1 2 1 LTENR_RLCMODE_AM True True ex_core, ex_event)"
proof (rule rlc_grant_lost_without_um)
  show "LTENR_RLC_FINDENTITY plain_core_env
     (LTENR_RLC_ESTABLISHENTITY plain_core_env 1 1 2 1 LTENR_RLCMODE_AM True True ex_core) 1 1 2 1
     LTENR_RLCMODE_UM True False = None" by code_simp
  show "LTENR_RLC_FINDENTITY plain_core_env
     (LTENR_RLC_ESTABLISHENTITY plain_core_env 1 1 2 1 LTENR_RLCMODE_AM True True ex_core) 1 1 2 1
     LTENR_RLCMODE_AM True True = Some 5" by code_simp
qed

section \<open>From the receiver of AM to the transmitter of TM\<close>






lemma tm_calls_frees [simp]: "tm_calls (map FreePacket ps) = []"
  by (induction ps) simp_all








lemma status_means_ack [simp]: "status_means (pdu\<lparr>Ack_SN := x\<rparr>) = status_means pdu"
  by (simp add: status_means_def)







section \<open>Packets from the upper layer\<close>

definition mode_channel_ok :: "LTENR_RLCMODE \<Rightarrow> LTENR_LOGICALCHANNEL \<Rightarrow> bool" where
  "mode_channel_ok mode ch = (case mode of
     LTENR_RLCMODE_TM \<Rightarrow> ch \<in> {LTENR_LOGICALCHANNEL_BCCH, LTENR_LOGICALCHANNEL_CCCH, LTENR_LOGICALCHANNEL_PCCH}
   | LTENR_RLCMODE_UM \<Rightarrow> ch = LTENR_LOGICALCHANNEL_DTCH
   | LTENR_RLCMODE_AM \<Rightarrow> ch \<in> {LTENR_LOGICALCHANNEL_DCCH, LTENR_LOGICALCHANNEL_DTCH})"

lemma VALIDATE_PDU_eq:
  "LTENR_RLC_VALIDATE_PDU p s = (case p of
     None \<Rightarrow> (False, emit NetSimError s)
   | Some p \<Rightarrow> (case msg p of
       None \<Rightarrow> (False, emit NetSimError s)
     | Some m \<Rightarrow> if mode_channel_ok (msg_rlcMode m) (logicalChannel m) then (True, s) else (False, emit NetSimError s)))"
  by (auto simp: LTENR_RLC_VALIDATE_PDU_def mode_channel_ok_def LTENR_RLC_IS_LOGICALCHANNEL_FOR_TM_def
      LTENR_RLC_IS_LOGICALCHANNEL_FOR_UM_def LTENR_RLC_IS_LOGICALCHANNEL_FOR_AM_def
      split: option.splits LTENR_RLCMODE.splits)

text \<open>The part of one mode in the buffer status.\<close>

definition mode_status where
  "mode_status C st d i r rin m tx rx lch = (case LTENR_RLC_FINDENTITY C st d i r rin m tx rx of
     Some j \<Rightarrow> bufferStatus (entity_at C st d i j) lch | None \<Rightarrow> 0)"

lemma BufferStatus_modes:
  "fn_NetSim_LTENR_RLC_BufferStatusNotificaton C st d i r rin lch =
     (if mode_channel_ok LTENR_RLCMODE_TM lch then mode_status C st d i r rin LTENR_RLCMODE_TM True False lch else 0)
   + (if mode_channel_ok LTENR_RLCMODE_UM lch then mode_status C st d i r rin LTENR_RLCMODE_UM True False lch else 0)
   + (if mode_channel_ok LTENR_RLCMODE_AM lch then mode_status C st d i r rin LTENR_RLCMODE_AM True True lch else 0)"
  unfolding fn_NetSim_LTENR_RLC_BufferStatusNotificaton_def Let_def mode_status_def mode_channel_ok_def
    LTENR_RLC_IS_LOGICALCHANNEL_FOR_TM_def LTENR_RLC_IS_LOGICALCHANNEL_FOR_UM_def
    LTENR_RLC_IS_LOGICALCHANNEL_FOR_AM_def
  by simp

lemma mode_status_put:
  assumes f: "LTENR_RLC_FINDENTITY C st d i r rin m tx rx = Some j"
    and e': "entity_key e' = entity_key (entity_at C st d i j)"
      "bufferStatus e' = (bufferStatus (entity_at C st d i j))(ch := bufferStatus (entity_at C st d i j) ch + n)"
  shows "mode_status C (entity_put C st d i j e') d i r rin m' tx' rx' lch
    = mode_status C st d i r rin m' tx' rx' lch + (if (m', tx', rx') = (m, tx, rx) \<and> lch = ch then n else 0)"
proof (cases "LTENR_RLC_FINDENTITY C st d i r rin m' tx' rx'")
  case None
  then show ?thesis using f by (auto simp: mode_status_def FINDENTITY_put [OF e'(1)])
next
  case (Some k)
  have "k = j \<longleftrightarrow> (m', tx', rx') = (m, tx, rx)"
    using FINDENTITY_SomeD(3) [OF f] FINDENTITY_SomeD(3) [OF Some] f Some by auto
  then show ?thesis
    using Some FINDENTITY_SomeD(1,2) [OF f] by (auto simp: mode_status_def FINDENTITY_put [OF e'(1)] entity_at_put e'(2))
qed

text \<open>The bytes a mode adds to the buffer status for a packet.\<close>

definition queued_bytes :: "LTENR_RLCMODE \<Rightarrow> NetSim_PACKET \<Rightarrow> u32" where
  "queued_bytes mode p = UINT_of_double (if mode = LTENR_RLCMODE_UM then dPayload p else dPacketSize p)"

lemma upper_layer_run:
  assumes "pPacket s = Some p" and "msg p = Some m"
    and ok: "mode_channel_ok (msg_rlcMode m) (logicalChannel m)"
    and r: "r = nReceiverId p" "r \<noteq> 0" "d = nDeviceId s" "i = nInterfaceId s"
      "rin = LTENR_FIND_ASSOCIATEINTERFACE C d i r"
    and f: "LTENR_RLC_FINDENTITY C st d i r rin (msg_rlcMode m) True (msg_rlcMode m = LTENR_RLCMODE_AM) = Some j"
  shows "\<exists>e' b. fn_NetSim_LTENR_RLC_HandlePDUFromUpperLayer C st s = Inr (entity_put C st d i j e', s)
    \<and> transmissionBuffer e' = transmissionBuffer (entity_at C st d i j) @ [b]
    \<and> data_packet b = p \<and> channel b = logicalChannel m
    \<and> entity_key e' = entity_key (entity_at C st d i j)
    \<and> bufferStatus e' = (bufferStatus (entity_at C st d i j))(logicalChannel m :=
        bufferStatus (entity_at C st d i j) (logicalChannel m) + queued_bytes (msg_rlcMode m) p)"
  using assms
  by (cases "msg_rlcMode m")
    (auto simp: fn_NetSim_LTENR_RLC_HandlePDUFromUpperLayer_def VALIDATE_PDU_eq LTENR_PACKET_GET_RLCMODE_def
      LTENR_RLC_TM_HandlePDUFromUpperLayer_def LTENR_RLC_UM_HandlePDUFromUpperLayer_def
      LTENR_RLCAM_HandlePDUFromUpperLayer_def um_handle_pdu_from_upper_def am_handle_pdu_from_upper_def
      LTENR_PACKET_GET_LOGICALCHANNEL_def buf_new_def queued_bytes_def entity_key_def Let_def)

text \<open>
  A packet whose channel suits its mode is queued once, behind all others, at the
  transmitting entity towards its receiver, and the buffer status RLC reports to MAC grows
  by exactly its bytes (payload in UM, whole size otherwise) on its channel and nowhere else.
\<close>

theorem rlc_upper_layer_queues:
  assumes "pPacket s = Some p" and "msg p = Some m"
    and "mode_channel_ok (msg_rlcMode m) (logicalChannel m)"
    and r: "r = nReceiverId p" "r \<noteq> 0" "d = nDeviceId s" "i = nInterfaceId s"
      "rin = LTENR_FIND_ASSOCIATEINTERFACE C d i r"
    and f: "LTENR_RLC_FINDENTITY C st d i r rin (msg_rlcMode m) True (msg_rlcMode m = LTENR_RLCMODE_AM) = Some j"
  shows "\<exists>st' b. fn_NetSim_LTENR_RLC_HandlePDUFromUpperLayer C st s = Inr (st', s)
    \<and> transmissionBuffer (entity_at C st' d i j) = transmissionBuffer (entity_at C st d i j) @ [b]
    \<and> data_packet b = p \<and> channel b = logicalChannel m
    \<and> (\<forall>lch. fn_NetSim_LTENR_RLC_BufferStatusNotificaton C st' d i r rin lch
        = fn_NetSim_LTENR_RLC_BufferStatusNotificaton C st d i r rin lch
          + (if lch = logicalChannel m then queued_bytes (msg_rlcMode m) p else 0))"
proof -
  obtain e' b where run: "fn_NetSim_LTENR_RLC_HandlePDUFromUpperLayer C st s = Inr (entity_put C st d i j e', s)"
    and e': "transmissionBuffer e' = transmissionBuffer (entity_at C st d i j) @ [b]" "data_packet b = p"
      "channel b = logicalChannel m" "entity_key e' = entity_key (entity_at C st d i j)"
      "bufferStatus e' = (bufferStatus (entity_at C st d i j))(logicalChannel m :=
        bufferStatus (entity_at C st d i j) (logicalChannel m) + queued_bytes (msg_rlcMode m) p)"
    using upper_layer_run [OF assms] by blast
  have at: "entity_at C (entity_put C st d i j e') d i j = e'"
    using FINDENTITY_SomeD(1,2) [OF f] by (simp add: entity_at_put)
  have grows: "fn_NetSim_LTENR_RLC_BufferStatusNotificaton C (entity_put C st d i j e') d i r rin lch
        = fn_NetSim_LTENR_RLC_BufferStatusNotificaton C st d i r rin lch
          + (if lch = logicalChannel m then queued_bytes (msg_rlcMode m) p else 0)" for lch
    using assms(3) unfolding BufferStatus_modes mode_status_put [OF f e'(4,5)]
    by (cases "msg_rlcMode m") (auto simp: mode_channel_ok_def)
  show ?thesis
    by (intro exI [of _ "entity_put C st d i j e'"] exI [of _ b] conjI, rule run) (simp_all add: at e' grows)
qed

text \<open>
  A packet without an entity for its receiver is dropped with an error in transparent
  mode; in the two other modes the handler dereferences the missing entity. A packet whose
  channel does not suit its mode is refused with an error in every mode.
\<close>

theorem rlc_upper_layer_without_entity:
  assumes "pPacket s = Some p" and "msg p = Some m"
    and "nReceiverId p \<noteq> 0" and "d = nDeviceId s" and "i = nInterfaceId s"
    and "LTENR_RLC_FINDENTITY C st d i (nReceiverId p) (LTENR_FIND_ASSOCIATEINTERFACE C d i (nReceiverId p))
           (msg_rlcMode m) True (msg_rlcMode m = LTENR_RLCMODE_AM) = None"
  shows "fn_NetSim_LTENR_RLC_HandlePDUFromUpperLayer C st s =
    (if \<not> mode_channel_ok (msg_rlcMode m) (logicalChannel m) then Inr (st, emit NetSimError s)
     else if msg_rlcMode m = LTENR_RLCMODE_TM
     then Inr (st, (emits [NetSimError, FreePacket p] s)\<lparr>pPacket := None\<rparr>)
     else Inl NullDeref)"
  using assms
  by (cases "msg_rlcMode m")
    (auto simp: fn_NetSim_LTENR_RLC_HandlePDUFromUpperLayer_def VALIDATE_PDU_eq LTENR_PACKET_GET_RLCMODE_def
      LTENR_RLC_TM_HandlePDUFromUpperLayer_def LTENR_RLC_UM_HandlePDUFromUpperLayer_def
      LTENR_RLCAM_HandlePDUFromUpperLayer_def Let_def)

definition ex_sdu_in :: "LTENR_RLCMODE \<Rightarrow> NetSim_PACKET" where
  "ex_sdu_in mode = (plain_create 1 2 0 LTENR_MSG_USERDATA)\<lparr>msg := Some \<lparr>msgType = LTENR_MSG_USERDATA,
     hdrSize = 0, msg_hdrs = [], logicalChannel = LTENR_LOGICALCHANNEL_DTCH, msg_rlcMode = mode\<rparr>,
     dPayload := 100, dPacketSize := 120\<rparr>"

definition ex_at_gnb :: "NetSim_PACKET \<Rightarrow> EVENTDETAILS" where
  "ex_at_gnb p = \<lparr>dEventTime = 0, nDeviceId = 1, nInterfaceId = 1, pPacket = Some p, trace = []\<rparr>"

lemma rlc_upper_layer_queues_witness:
  "\<exists>st'. fn_NetSim_LTENR_RLC_HandlePDUFromUpperLayer plain_core_env ex_associated (ex_at_gnb (ex_sdu_in LTENR_RLCMODE_UM))
      = Inr (st', ex_at_gnb (ex_sdu_in LTENR_RLCMODE_UM))
    \<and> fn_NetSim_LTENR_RLC_BufferStatusNotificaton plain_core_env st' 1 1 2 1 LTENR_LOGICALCHANNEL_DTCH
      = fn_NetSim_LTENR_RLC_BufferStatusNotificaton plain_core_env ex_associated 1 1 2 1 LTENR_LOGICALCHANNEL_DTCH + 100"
proof -
  let ?m = "\<lparr>msgType = LTENR_MSG_USERDATA, hdrSize = 0, msg_hdrs = [],
     logicalChannel = LTENR_LOGICALCHANNEL_DTCH, msg_rlcMode = LTENR_RLCMODE_UM\<rparr>"
  let ?p = "ex_sdu_in LTENR_RLCMODE_UM"
  have p: "pPacket (ex_at_gnb ?p) = Some ?p" "msg ?p = Some ?m"
    "mode_channel_ok (msg_rlcMode ?m) (logicalChannel ?m)" "2 = nReceiverId ?p" "(2 :: u32) \<noteq> 0"
    "1 = nDeviceId (ex_at_gnb ?p)" "1 = nInterfaceId (ex_at_gnb ?p)"
    "1 = LTENR_FIND_ASSOCIATEINTERFACE plain_core_env 1 1 2"
    by (simp_all add: ex_at_gnb_def ex_sdu_in_def mode_channel_ok_def plain_create_def plain_core_env_def)
  have f: "LTENR_RLC_FINDENTITY plain_core_env ex_associated 1 1 2 1 (msg_rlcMode ?m) True
      (msg_rlcMode ?m = LTENR_RLCMODE_AM) = Some 7"
    by code_simp
  have "queued_bytes (msg_rlcMode ?m) ?p = 100"
    using UINT_of_double_of_nat [of 100] by (simp add: queued_bytes_def ex_sdu_in_def)
  then show ?thesis using rlc_upper_layer_queues [OF p f] by auto
qed

lemma rlc_upper_layer_without_entity_witness:
  "fn_NetSim_LTENR_RLC_HandlePDUFromUpperLayer plain_core_env ex_core (ex_at_gnb (ex_sdu_in LTENR_RLCMODE_AM))
     = Inl NullDeref"
proof -
  let ?m = "\<lparr>msgType = LTENR_MSG_USERDATA, hdrSize = 0, msg_hdrs = [],
     logicalChannel = LTENR_LOGICALCHANNEL_DTCH, msg_rlcMode = LTENR_RLCMODE_AM\<rparr>"
  let ?p = "ex_sdu_in LTENR_RLCMODE_AM"
  have p: "pPacket (ex_at_gnb ?p) = Some ?p" "msg ?p = Some ?m" "nReceiverId ?p \<noteq> 0"
    "1 = nDeviceId (ex_at_gnb ?p)" "1 = nInterfaceId (ex_at_gnb ?p)"
    by (simp_all add: ex_at_gnb_def ex_sdu_in_def plain_create_def)
  have f: "LTENR_RLC_FINDENTITY plain_core_env ex_core 1 1 (nReceiverId ?p)
      (LTENR_FIND_ASSOCIATEINTERFACE plain_core_env 1 1 (nReceiverId ?p)) (msg_rlcMode ?m) True
      (msg_rlcMode ?m = LTENR_RLCMODE_AM) = None"
    by code_simp
  show ?thesis using rlc_upper_layer_without_entity [OF p f] by (simp add: mode_channel_ok_def)
qed

end
