(* ===== verification/PDCP.thy ===== *)
theory PDCP
  imports RLC_Core
begin

text \<open>
  The PDCP sublayer (\<open>LTE_NR/LTENR_PDCP.c\<close>, \<open>LTENR_PDCP.h\<close>): the entities of an interface,
  numbering and the discard timer on the sending side, COUNT, reordering and delivery on the
  receiving side, and the choice of the cell a packet goes through in dual connectivity.
\<close>

unbundle bit_operations_syntax

section \<open>Buffers\<close>

text \<open>
  An entry of an \<open>LTENR_BUFFER\<close>; \<open>bp_count\<close> is what \<open>optionalInfo\<close> points to, NULL in the
  transmission buffer. The functions of \<open>LTENR_Buffer.h\<close>, whose source is not in the
  repository, are the fields of \<open>buffer_lib\<close>; a buffer is the sequence from \<open>headPacket\<close> on.
\<close>

record LTENR_BUFFEREDPACKET =
  bp_packet :: NetSim_PACKET
  bp_size :: u64
  bp_time :: real
  bp_count :: "u32 option"

record buffer_lib =
  LTENR_BUFFER_ADDPACKET :: "LTENR_BUFFEREDPACKET list \<Rightarrow> LTENR_BUFFEREDPACKET \<Rightarrow> LTENR_BUFFEREDPACKET list"
  LTENR_BUFFER_ADDPACKET_SORTED :: "LTENR_BUFFEREDPACKET list \<Rightarrow> LTENR_BUFFEREDPACKET
    \<Rightarrow> (LTENR_BUFFEREDPACKET \<Rightarrow> LTENR_BUFFEREDPACKET \<Rightarrow> bool) \<Rightarrow> LTENR_BUFFEREDPACKET list"
  LTENR_BUFFER_HEADPACKET :: "LTENR_BUFFEREDPACKET list \<Rightarrow> LTENR_BUFFEREDPACKET option"
  LTENR_BUFFER_GETPACKET :: "LTENR_BUFFEREDPACKET list \<Rightarrow> LTENR_BUFFEREDPACKET option \<times> LTENR_BUFFEREDPACKET list"

definition LTENR_BUFFER_HASPACKET :: "LTENR_BUFFEREDPACKET list \<Rightarrow> bool" where
  "LTENR_BUFFER_HASPACKET buffer \<longleftrightarrow> buffer \<noteq> []"

section \<open>Constants and macros of LTENR_PDCP.h\<close>

definition LTENR_PDCP_SN_SIZE :: nat where "LTENR_PDCP_SN_SIZE = 12"
definition LTENR_PDCP_HDR_LEN :: u32 where "LTENR_PDCP_HDR_LEN = 16"
definition LTENR_PDCP_WINDOW_SIZE :: u32 where "LTENR_PDCP_WINDOW_SIZE = 0x800"
definition POW_2_SN_SIZE :: u32 where "POW_2_SN_SIZE = 0xFFF"

definition LTENR_PDCP_SN :: "u32 \<Rightarrow> u32" where
  "LTENR_PDCP_SN state = state AND 0x00000FFF"

definition LTENR_PDCP_HFN :: "u32 \<Rightarrow> u32" where
  "LTENR_PDCP_HFN state = drop_bit LTENR_PDCP_SN_SIZE state"

definition LTENR_PDCP_COUNT :: "u32 \<Rightarrow> u32 \<Rightarrow> u32" where
  "LTENR_PDCP_COUNT HFN SN = push_bit LTENR_PDCP_SN_SIZE HFN + SN"

text \<open>
  The numbers of \<open>MAC_PROTOCOL_LTE_NR\<close> and \<open>MAC_PROTOCOL_LTE\<close> are those that
  \<open>LTENR_MSG_LAST\<close> does not stand for.
\<close>

definition isLTENRControlPacket :: "NetSim_PACKET \<Rightarrow> bool" where
  "isLTENRControlPacket packet \<longleftrightarrow>
     nPacketType packet = PacketType_Control \<and> nControlDataType packet \<noteq> LTENR_MSG_LAST"

section \<open>Entities and state\<close>

text \<open>
  \<open>pe_noBuffers\<close>: the pointers to the two buffers are NULL, because a handover has taken the
  buffers away; the sequences are empty then.
\<close>

record LTENR_PDCPENTITY =
  pe_ueId :: netsim_id
  pe_ueIf :: netsim_id
  pe_enbId :: netsim_id
  pe_enbIf :: netsim_id
  pe_isControlPacket :: bool
  pe_rlcMode :: LTENR_RLCMODE
  pe_isAlternativePacket :: bool
  TX_NEXT :: u32
  RX_NEXT :: u32
  RX_DELIV :: u32
  RX_REORD :: u32
  last_RECV_COUNT :: u32
  pe_transmissionBuffer :: "LTENR_BUFFEREDPACKET list"
  pe_receiveBuffer :: "LTENR_BUFFEREDPACKET list"
  pe_noBuffers :: bool
  discardDelayTime :: real
  isDiscardTimerStarted :: bool
  discardTimerId :: u64
  t_Reordering :: real
  isT_ReorderingRunning :: bool
  t_ReorderingEventId :: u64

record LTENR_PDCPVAR =
  isoutOfOrderDelivery :: bool
  isHdrCompression :: bool
  discardDelayTimer :: real
  pv_t_Reordering :: real
  TotalPDSCHBytes :: real
  TotalPUSCHBytes :: real
  pdcpEntity :: "LTENR_PDCPENTITY list"

datatype LTENR_UE_RRCSTATE = UERRC_IDLE | UERRC_INACTIVE | UERRC_CONNECTED

datatype LTENR_UE_CMSTATE = UE_CM_IDLE | UE_CM_CONNECTED

text \<open>The fields of \<open>LTENR_UERRC\<close> that PDCP and handover use.\<close>

record LTENR_UERRC =
  ueRRCState :: LTENR_UE_RRCSTATE
  ueCMState :: LTENR_UE_CMSTATE
  SelectedCellID :: netsim_id
  SelectedCellIF :: netsim_id
  SelectedAMFID :: netsim_id
  SelectedAMFIF :: netsim_id
  isSNSconnected :: bool
  SNID :: netsim_id
  SNIF :: netsim_id
  rrc_isAlternativePacket :: bool
  isSecondaryAssociated :: bool
  InteruptionInterval :: real
  isMNHandoverComplete :: bool

record pdcp_state =
  ue_pdcp :: "netsim_id \<times> netsim_id \<Rightarrow> LTENR_PDCPVAR option"
  gnb_pdcp :: "netsim_id \<times> netsim_id \<Rightarrow> LTENR_PDCPVAR option"
  ue_rrc :: "netsim_id \<times> netsim_id \<Rightarrow> LTENR_UERRC option"

text \<open>
  The calls and events of PDCP. \<open>ToRLC i p\<close>: \<open>p\<close> goes to RLC with \<open>nInterfaceId = i\<close>.
  \<open>ToXN p d i ue ueIf cell down\<close>: \<open>fn_NetSim_LTENR_SNED_TO_XN_INTERFACE\<close> with the Xn address of
  \<open>d\<close> as gateway and that of \<open>cell\<close> as next hop. \<open>WriteAfterFree\<close>: a write to an entity
  that was freed.
\<close>

datatype pdcp_timer = LTENR_SUBEVENT_PDCP_DISCARDTIMER | LTENR_SUBEVENT_PDCP_TREORDERINGTIMER

record pdcp_timer_event =
  pt_time :: real
  pt_deviceId :: netsim_id
  pt_interfaceId :: netsim_id
  pt_subevent :: pdcp_timer

datatype pdcp_effect =
    ToRLC netsim_id NetSim_PACKET | ToSDAP NetSim_PACKET | UpToRRC NetSim_PACKET | ToNAS NetSim_PACKET
  | ToXN NetSim_PACKET netsim_id netsim_id netsim_id netsim_id netsim_id bool
  | StartTimer pdcp_timer_event u64 | StopTimer u64
  | Freed NetSim_PACKET | WriteAfterFree | PdcpError

record PDCP_EVENT =
  pv_time :: real
  pv_deviceId :: netsim_id
  pv_interfaceId :: netsim_id
  pv_packet :: "NetSim_PACKET option"
  pv_trace :: "pdcp_effect list"

definition out :: "pdcp_effect \<Rightarrow> PDCP_EVENT \<Rightarrow> PDCP_EVENT" where
  "out x s = s\<lparr>pv_trace := pv_trace s @ [x]\<rparr>"

text \<open>The code outside the repository, on top of that of RLC.\<close>

record pdcp_env =
  core :: core_env
  buf_lib :: buffer_lib
  pdcp_AddEvent :: "pdcp_timer_event \<Rightarrow> pdcp_effect list \<Rightarrow> u64"
  fn_NetSim_LTENR_NSA_IS_CORE_SPLIT_EXISTS :: "netsim_id \<Rightarrow> netsim_id \<Rightarrow> bool"
  fn_NetSim_LTENR_NSA_IS_OPTION_X_EXISTS :: "netsim_id \<Rightarrow> netsim_id \<Rightarrow> bool"
  fn_NetSim_LTENR_MASTER_INTEFACE_FOR_UE :: "netsim_id \<Rightarrow> netsim_id \<Rightarrow> netsim_id"
  fn_NetSim_LTENR_SEC_INTEFACE_FOR_UE :: "netsim_id \<Rightarrow> netsim_id \<Rightarrow> netsim_id"
  fn_NetSim_Get_LTENR_INTERFACE_ID_FROM_DEVICE_ID :: "netsim_id \<Rightarrow> netsim_id"

definition LTENR_PDCP_GET :: "pdcp_env \<Rightarrow> pdcp_state \<Rightarrow> netsim_id \<Rightarrow> netsim_id \<Rightarrow> LTENR_PDCPVAR option" where
  "LTENR_PDCP_GET P st d i =
     (if isUE (core P) d i then ue_pdcp st (d, i)
      else if isGNB (core P) d i then gnb_pdcp st (d, i) else None)"

text \<open>A write through the pointer \<open>LTENR_PDCP_GET\<close> returned.\<close>

definition pdcp_write :: "pdcp_env \<Rightarrow> pdcp_state \<Rightarrow> netsim_id \<Rightarrow> netsim_id \<Rightarrow> LTENR_PDCPVAR \<Rightarrow> pdcp_state" where
  "pdcp_write P st d i v =
     (if isUE (core P) d i then st\<lparr>ue_pdcp := (ue_pdcp st)((d, i) := Some v)\<rparr>
      else if isGNB (core P) d i then st\<lparr>gnb_pdcp := (gnb_pdcp st)((d, i) := Some v)\<rparr> else st)"

definition pdcp_new_var :: "LTENR_PROTODATA \<Rightarrow> LTENR_PDCPVAR" where
  "pdcp_new_var pd =
     \<lparr>isoutOfOrderDelivery = pd_isoutOfOrderDelivery pd, isHdrCompression = pd_isHdrCompression pd,
      discardDelayTimer = pd_discardTimer pd, pv_t_Reordering = pd_t_reorderingTimer pd,
      TotalPDSCHBytes = 0, TotalPUSCHBytes = 0, pdcpEntity = []\<rparr>"

definition fn_NetSim_LTENR_GNBPDCP_Init :: "pdcp_env \<Rightarrow> netsim_id \<Rightarrow> netsim_id \<Rightarrow> pdcp_state \<Rightarrow> pdcp_state" where
  "fn_NetSim_LTENR_GNBPDCP_Init P gnbId gnbIf st =
     st\<lparr>gnb_pdcp := (gnb_pdcp st)((gnbId, gnbIf) :=
        Some (pdcp_new_var (LTENR_PROTODATA_GET (core P) gnbId gnbIf)))\<rparr>"

definition fn_NetSim_LTENR_UEPDCP_Init :: "pdcp_env \<Rightarrow> netsim_id \<Rightarrow> netsim_id \<Rightarrow> pdcp_state \<Rightarrow> pdcp_state" where
  "fn_NetSim_LTENR_UEPDCP_Init P ueId ueIf st =
     st\<lparr>ue_pdcp := (ue_pdcp st)((ueId, ueIf) :=
        Some (pdcp_new_var (LTENR_PROTODATA_GET (core P) ueId ueIf)))\<rparr>"

definition LTENR_PDCP_CreateNewEntity ::
  "netsim_id \<Rightarrow> netsim_id \<Rightarrow> netsim_id \<Rightarrow> netsim_id \<Rightarrow> LTENR_RLCMODE \<Rightarrow> LTENR_PDCPENTITY" where
  "LTENR_PDCP_CreateNewEntity enbId enbIf ueId ueIf mode =
     \<lparr>pe_ueId = ueId, pe_ueIf = ueIf, pe_enbId = enbId, pe_enbIf = enbIf, pe_isControlPacket = False,
      pe_rlcMode = mode, pe_isAlternativePacket = False, TX_NEXT = 0, RX_NEXT = 0, RX_DELIV = 0,
      RX_REORD = 0, last_RECV_COUNT = 0, pe_transmissionBuffer = [], pe_receiveBuffer = [],
      pe_noBuffers = False,
      discardDelayTime = 0, isDiscardTimerStarted = False, discardTimerId = 0, t_Reordering = 0,
      isT_ReorderingRunning = False, t_ReorderingEventId = 0\<rparr>"

text \<open>The new entity becomes the last of the chain.\<close>

definition LTENR_PDCP_AddEntity :: "LTENR_PDCPVAR \<Rightarrow> LTENR_PDCPENTITY \<Rightarrow> LTENR_PDCPVAR" where
  "LTENR_PDCP_AddEntity pdcp entity = pdcp\<lparr>pdcpEntity := pdcpEntity pdcp @ [entity]\<rparr>"

text \<open>The two writes to the entity come after \<open>free\<close>.\<close>

definition LTENR_PDCP_FreeEntity :: "PDCP_EVENT \<Rightarrow> PDCP_EVENT" where
  "LTENR_PDCP_FreeEntity s = out WriteAfterFree (out WriteAfterFree s)"

text \<open>Both branches of the source unlink the entity and do the same with it; NULL is never met in the chain.\<close>

definition LTENR_PDCP_RemoveEntity ::
  "LTENR_PDCPVAR \<Rightarrow> nat option \<Rightarrow> PDCP_EVENT \<Rightarrow> LTENR_PDCPVAR \<times> PDCP_EVENT" where
  "LTENR_PDCP_RemoveEntity pdcp entity s =
     (case entity of
        None \<Rightarrow> (pdcp, s)
      | Some j \<Rightarrow>
         (if j < length (pdcpEntity pdcp)
          then let e = pdcpEntity pdcp ! j
               in (pdcp\<lparr>pdcpEntity := remove_at j (pdcpEntity pdcp)\<rparr>,
                   LTENR_PDCP_FreeEntity (out (StopTimer (t_ReorderingEventId e)) (out (StopTimer (discardTimerId e)) s)))
          else (pdcp, s)))"

definition LTENR_PDCP_FindEntity ::
  "LTENR_PDCPVAR \<Rightarrow> netsim_id \<Rightarrow> netsim_id \<Rightarrow> netsim_id \<Rightarrow> netsim_id \<Rightarrow> LTENR_RLCMODE \<Rightarrow> nat option" where
  "LTENR_PDCP_FindEntity pdcp enbId enbIf ueId ueIf mode =
     find_pos (\<lambda>e. pe_enbId e = enbId \<and> pe_enbIf e = enbIf \<and> pe_ueId e = ueId \<and> pe_ueIf e = ueIf
        \<and> pe_rlcMode e = mode) (pdcpEntity pdcp)"

definition LTENR_PDCPENTITY_GET ::
  "pdcp_env \<Rightarrow> LTENR_PDCPVAR option \<Rightarrow> netsim_id \<Rightarrow> netsim_id \<Rightarrow> netsim_id \<Rightarrow> LTENR_RLCMODE \<Rightarrow> PDCP_EVENT
     \<Rightarrow> (nat option \<times> PDCP_EVENT) result" where
  "LTENR_PDCPENTITY_GET P pdcp d i remote mode s =
     (let rin = LTENR_FIND_ASSOCIATEINTERFACE (core P) d i remote
      in if rin = 0 then Inr (None, out PdcpError s)
         else if isUE (core P) d i
         then rbind (deref pdcp) (\<lambda>v. Inr (LTENR_PDCP_FindEntity v remote rin d i mode, s))
         else if isGNB (core P) d i
         then rbind (deref pdcp) (\<lambda>v. Inr (LTENR_PDCP_FindEntity v d i remote rin mode, s))
         else Inr (None, out PdcpError s))"

definition MILLISECOND :: real where "MILLISECOND = 1000"

definition LTENR_GNBPDCP_CreatePDCPEntityForUE ::
  "netsim_id \<Rightarrow> netsim_id \<Rightarrow> netsim_id \<Rightarrow> netsim_id \<Rightarrow> LTENR_RLCMODE \<Rightarrow> pdcp_state \<Rightarrow> pdcp_state result" where
  "LTENR_GNBPDCP_CreatePDCPEntityForUE gnbId gnbIf ueId ueIf mode st =
     rbind (deref (gnb_pdcp st (gnbId, gnbIf))) (\<lambda>pdcp.
     let entity = (LTENR_PDCP_CreateNewEntity gnbId gnbIf ueId ueIf mode)
           \<lparr>discardDelayTime := discardDelayTimer pdcp * MILLISECOND,
            t_Reordering := pv_t_Reordering pdcp * MILLISECOND\<rparr>
     in Inr (st\<lparr>gnb_pdcp := (gnb_pdcp st)((gnbId, gnbIf) := Some (LTENR_PDCP_AddEntity pdcp entity))\<rparr>))"

definition LTENR_UEPDCP_CreatePDCPEntity ::
  "netsim_id \<Rightarrow> netsim_id \<Rightarrow> netsim_id \<Rightarrow> netsim_id \<Rightarrow> LTENR_RLCMODE \<Rightarrow> pdcp_state \<Rightarrow> pdcp_state result" where
  "LTENR_UEPDCP_CreatePDCPEntity gnbId gnbIf ueId ueIf mode st =
     rbind (deref (ue_pdcp st (ueId, ueIf))) (\<lambda>pdcp.
     let entity = (LTENR_PDCP_CreateNewEntity gnbId gnbIf ueId ueIf mode)
           \<lparr>discardDelayTime := discardDelayTimer pdcp * MILLISECOND,
            t_Reordering := pv_t_Reordering pdcp * MILLISECOND\<rparr>
     in Inr (st\<lparr>ue_pdcp := (ue_pdcp st)((ueId, ueIf) := Some (LTENR_PDCP_AddEntity pdcp entity))\<rparr>))"

section \<open>Association\<close>

text \<open>The two steps of one mode, when associated and when released.\<close>

definition pdcp_associate ::
  "netsim_id \<Rightarrow> netsim_id \<Rightarrow> netsim_id \<Rightarrow> netsim_id \<Rightarrow> LTENR_RLCMODE \<Rightarrow> pdcp_state \<Rightarrow> pdcp_state result" where
  "pdcp_associate gnbId gnbIf ueId ueIf mode st =
     rbind (deref (gnb_pdcp st (gnbId, gnbIf))) (\<lambda>gpdcp.
     rbind (if LTENR_PDCP_FindEntity gpdcp gnbId gnbIf ueId ueIf mode = None
            then LTENR_GNBPDCP_CreatePDCPEntityForUE gnbId gnbIf ueId ueIf mode st else Inr st) (\<lambda>st1.
     rbind (deref (ue_pdcp st1 (ueId, ueIf))) (\<lambda>uepdcp.
     if LTENR_PDCP_FindEntity uepdcp gnbId gnbIf ueId ueIf mode = None
     then LTENR_UEPDCP_CreatePDCPEntity gnbId gnbIf ueId ueIf mode st1 else Inr st1)))"

definition pdcp_release ::
  "netsim_id \<Rightarrow> netsim_id \<Rightarrow> netsim_id \<Rightarrow> netsim_id \<Rightarrow> LTENR_RLCMODE \<Rightarrow> pdcp_state \<times> PDCP_EVENT
     \<Rightarrow> (pdcp_state \<times> PDCP_EVENT) result" where
  "pdcp_release gnbId gnbIf ueId ueIf mode x =
     (case x of (st, s) \<Rightarrow>
      rbind (deref (gnb_pdcp st (gnbId, gnbIf))) (\<lambda>gpdcp.
      let (g', s1) = LTENR_PDCP_RemoveEntity gpdcp (LTENR_PDCP_FindEntity gpdcp gnbId gnbIf ueId ueIf mode) s;
          st1 = st\<lparr>gnb_pdcp := (gnb_pdcp st)((gnbId, gnbIf) := Some g')\<rparr>
      in rbind (deref (ue_pdcp st1 (ueId, ueIf))) (\<lambda>uepdcp.
         let (u', s2) = LTENR_PDCP_RemoveEntity uepdcp (LTENR_PDCP_FindEntity uepdcp gnbId gnbIf ueId ueIf mode) s1
         in Inr (st1\<lparr>ue_pdcp := (ue_pdcp st1)((ueId, ueIf) := Some u')\<rparr>, s2))))"

definition LTENR_PDCP_ASSOCIATION ::
  "netsim_id \<Rightarrow> netsim_id \<Rightarrow> netsim_id \<Rightarrow> netsim_id \<Rightarrow> bool \<Rightarrow> pdcp_state \<Rightarrow> PDCP_EVENT
     \<Rightarrow> (pdcp_state \<times> PDCP_EVENT) result" where
  "LTENR_PDCP_ASSOCIATION gnbId gnbIf ueId ueIf isAssociated st s =
     (if gnb_pdcp st (gnbId, gnbIf) = None then Inr (st, s)
      else if ue_pdcp st (ueId, ueIf) = None then Inr (st, s)
      else if isAssociated
      then rbind (pdcp_associate gnbId gnbIf ueId ueIf LTENR_RLCMODE_TM st) (\<lambda>st1.
           rbind (pdcp_associate gnbId gnbIf ueId ueIf LTENR_RLCMODE_UM st1) (\<lambda>st2.
           rbind (pdcp_associate gnbId gnbIf ueId ueIf LTENR_RLCMODE_AM st2) (\<lambda>st3. Inr (st3, s))))
      else rbind (pdcp_release gnbId gnbIf ueId ueIf LTENR_RLCMODE_TM (st, s)) (\<lambda>x1.
           rbind (pdcp_release gnbId gnbIf ueId ueIf LTENR_RLCMODE_UM x1) (\<lambda>x2.
           pdcp_release gnbId gnbIf ueId ueIf LTENR_RLCMODE_AM x2)))"

section \<open>Numbering and the discard timer\<close>

text \<open>The field \<open>SN\<close> of the header is 12 bits wide; the modulus of the source is 4095.\<close>

definition LTENR_PDCP_ADDHDR :: "pdcp_env \<Rightarrow> u32 \<Rightarrow> NetSim_PACKET \<Rightarrow> NetSim_PACKET" where
  "LTENR_PDCP_ADDHDR P sn packet =
     LTENR_HDR_ADD_TO_PACKET (kernel (core P)) packet
       (PDCP \<lparr>pdcp_dcBit = DC_DATA, pdcp_SN = (sn mod POW_2_SN_SIZE) AND 0xFFF\<rparr>) PDCPHDRID LTENR_PDCP_HDR_LEN"

definition LTENR_PDCP_HDR_GET :: "pdcp_env \<Rightarrow> NetSim_PACKET \<Rightarrow> LTENR_PDCP_HDR option" where
  "LTENR_PDCP_HDR_GET P packet =
     (case LTENR_HDR_GET_FROM_PACKET (kernel (core P)) packet PDCPHDRID of Some (PDCP h) \<Rightarrow> Some h | _ \<Rightarrow> None)"

definition LTENR_PDCP_HDR_COPY :: "LTENR_PDCP_HDR \<Rightarrow> LTENR_PDCP_HDR" where
  "LTENR_PDCP_HDR_COPY hdr = hdr"

definition LTENR_PDCP_HDRCOMPRESSION :: "NetSim_PACKET \<Rightarrow> NetSim_PACKET" where
  "LTENR_PDCP_HDRCOMPRESSION packet = packet"

definition pdcp_start_timer ::
  "pdcp_env \<Rightarrow> pdcp_timer_event \<Rightarrow> PDCP_EVENT \<Rightarrow> u64 \<times> PDCP_EVENT" where
  "pdcp_start_timer P ev s = (let id = pdcp_AddEvent P ev (pv_trace s) in (id, out (StartTimer ev id) s))"

definition LTENR_PDCP_START_DISCARD_TIMER ::
  "pdcp_env \<Rightarrow> LTENR_PDCPENTITY \<Rightarrow> PDCP_EVENT \<Rightarrow> LTENR_PDCPENTITY \<times> PDCP_EVENT" where
  "LTENR_PDCP_START_DISCARD_TIMER P entity s =
     (let (id, s') = pdcp_start_timer P \<lparr>pt_time = pv_time s + discardDelayTime entity + 1,
            pt_deviceId = pv_deviceId s, pt_interfaceId = pv_interfaceId s,
            pt_subevent = LTENR_SUBEVENT_PDCP_DISCARDTIMER\<rparr> s
      in (entity\<lparr>discardTimerId := id, isDiscardTimerStarted := True\<rparr>, s'))"

text \<open>The event is a copy of the one that fired, with a new time.\<close>

definition LTENR_PDCP_RESET_DISCARD_TIMER ::
  "pdcp_env \<Rightarrow> LTENR_PDCPENTITY \<Rightarrow> PDCP_EVENT \<Rightarrow> (LTENR_PDCPENTITY \<times> PDCP_EVENT) result" where
  "LTENR_PDCP_RESET_DISCARD_TIMER P entity s =
     (if \<not> LTENR_BUFFER_HASPACKET (pe_transmissionBuffer entity)
      then Inr (entity\<lparr>discardTimerId := 0, isDiscardTimerStarted := False\<rparr>, s)
      else rbind (deref (LTENR_BUFFER_HEADPACKET (buf_lib P) (pe_transmissionBuffer entity))) (\<lambda>h.
           let (id, s') = pdcp_start_timer P \<lparr>pt_time = bp_time h + discardDelayTime entity + 1,
                 pt_deviceId = pv_deviceId s, pt_interfaceId = pv_interfaceId s,
                 pt_subevent = LTENR_SUBEVENT_PDCP_DISCARDTIMER\<rparr> s
           in Inr (entity\<lparr>discardTimerId := id, isDiscardTimerStarted := True\<rparr>, s')))"

text \<open>
  The loop over the transmission buffer. Without a packet at the head \<open>time\<close> would be read
  uninitialised: the model faults there. A buffer that never got shorter would keep the
  loop running, so its rounds are bounded.
\<close>

primrec discard_loop ::
  "pdcp_env \<Rightarrow> nat \<Rightarrow> LTENR_PDCPENTITY \<Rightarrow> PDCP_EVENT \<Rightarrow> (LTENR_PDCPENTITY \<times> PDCP_EVENT) result" where
  "discard_loop P 0 entity s = Inl Diverges"
| "discard_loop P (Suc fuel) entity s =
     rbind (deref (LTENR_BUFFER_HEADPACKET (buf_lib P) (pe_transmissionBuffer entity))) (\<lambda>h.
     if discardDelayTime entity + bp_time h \<le> pv_time s
     then
       (case LTENR_BUFFER_GETPACKET (buf_lib P) (pe_transmissionBuffer entity) of
          (got, rest) \<Rightarrow>
          rbind (deref got) (\<lambda>b.
          if LTENR_BUFFER_HASPACKET rest
          then discard_loop P fuel (entity\<lparr>pe_transmissionBuffer := rest\<rparr>) (out (Freed (bp_packet b)) s)
          else Inr (entity\<lparr>pe_transmissionBuffer := rest\<rparr>, out (Freed (bp_packet b)) s)))
     else Inr (entity, s))"

definition LTENR_PDCP_HANDLE_DISCARD_TIMER ::
  "pdcp_env \<Rightarrow> LTENR_PDCPENTITY \<Rightarrow> PDCP_EVENT \<Rightarrow> (LTENR_PDCPENTITY \<times> PDCP_EVENT) result" where
  "LTENR_PDCP_HANDLE_DISCARD_TIMER P entity s =
     rbind (discard_loop P (Suc (length (pe_transmissionBuffer entity))) entity s) (\<lambda>(e1, s1).
     LTENR_PDCP_RESET_DISCARD_TIMER P e1 s1)"

text \<open>\<open>(UINT64)\<close> of a size.\<close>

definition UINT64_of_double :: "real \<Rightarrow> u64" where
  "UINT64_of_double x = word_of_int \<lfloor>x\<rfloor>"

definition LTENR_PDCP_TXBUFFER_ENQUEUE ::
  "pdcp_env \<Rightarrow> LTENR_PDCPENTITY \<Rightarrow> NetSim_PACKET \<Rightarrow> PDCP_EVENT \<Rightarrow> LTENR_PDCPENTITY \<times> PDCP_EVENT" where
  "LTENR_PDCP_TXBUFFER_ENQUEUE P entity packet s =
     (if \<not> LTENR_IS_UPLANE_MSG packet then (entity, s)
      else
        let e1 = entity\<lparr>pe_transmissionBuffer :=
              LTENR_BUFFER_ADDPACKET (buf_lib P) (pe_transmissionBuffer entity)
                \<lparr>bp_packet = fn_NetSim_Packet_CopyPacket (kernel (core P)) packet,
                 bp_size = UINT64_of_double (dPacketSize packet), bp_time = pv_time s, bp_count = None\<rparr>\<rparr>
        in if \<not> isDiscardTimerStarted e1 then LTENR_PDCP_START_DISCARD_TIMER P e1 s else (e1, s))"

definition LTENR_PDCP_SET_SN :: "LTENR_PDCPENTITY \<Rightarrow> u32 \<times> LTENR_PDCPENTITY" where
  "LTENR_PDCP_SET_SN entity = (TX_NEXT entity, entity\<lparr>TX_NEXT := TX_NEXT entity + 1\<rparr>)"

section \<open>Reception\<close>

definition LTENR_PDCP_START_TREORDERING ::
  "pdcp_env \<Rightarrow> LTENR_PDCPENTITY \<Rightarrow> PDCP_EVENT \<Rightarrow> LTENR_PDCPENTITY \<times> PDCP_EVENT" where
  "LTENR_PDCP_START_TREORDERING P entity s =
     (let (id, s') = pdcp_start_timer P \<lparr>pt_time = pv_time s + t_Reordering entity,
            pt_deviceId = pv_deviceId s, pt_interfaceId = pv_interfaceId s,
            pt_subevent = LTENR_SUBEVENT_PDCP_TREORDERINGTIMER\<rparr> s
      in (entity\<lparr>t_ReorderingEventId := id, isT_ReorderingRunning := True\<rparr>, s'))"

definition LTENR_PDCP_STOP_TREORDERING :: "LTENR_PDCPENTITY \<Rightarrow> PDCP_EVENT \<Rightarrow> LTENR_PDCPENTITY \<times> PDCP_EVENT" where
  "LTENR_PDCP_STOP_TREORDERING entity s =
     (entity\<lparr>isT_ReorderingRunning := False\<rparr>, out (StopTimer (t_ReorderingEventId entity)) s)"

definition LTENR_PDCP_ACTION_FOR_TREORDERING_ONRECEV ::
  "pdcp_env \<Rightarrow> LTENR_PDCPENTITY \<Rightarrow> PDCP_EVENT \<Rightarrow> LTENR_PDCPENTITY \<times> PDCP_EVENT" where
  "LTENR_PDCP_ACTION_FOR_TREORDERING_ONRECEV P entity s =
     (if isT_ReorderingRunning entity \<and> RX_DELIV entity \<ge> RX_REORD entity
      then let (e1, s1) = LTENR_PDCP_STOP_TREORDERING entity s
           in LTENR_PDCP_START_TREORDERING P e1 s1
      else if \<not> isT_ReorderingRunning entity \<and> RX_DELIV entity < RX_REORD entity
      then LTENR_PDCP_START_TREORDERING P (entity\<lparr>RX_REORD := RX_NEXT entity\<rparr>) s
      else (entity, s))"

text \<open>
  The loop that takes consecutive COUNTs off the head of the reception buffer: \<open>up\<close> is the
  call made with each packet. Rounds are bounded like those of the discard loop.
\<close>

primrec deliver_loop ::
  "pdcp_env \<Rightarrow> (NetSim_PACKET \<Rightarrow> PDCP_EVENT \<Rightarrow> PDCP_EVENT) \<Rightarrow> nat \<Rightarrow> u32 \<Rightarrow> LTENR_PDCPENTITY \<Rightarrow> PDCP_EVENT
     \<Rightarrow> (LTENR_PDCPENTITY \<times> PDCP_EVENT) result" where
  "deliver_loop P up 0 nxt entity s = Inl Diverges"
| "deliver_loop P up (Suc fuel) nxt entity s =
     (if \<not> LTENR_BUFFER_HASPACKET (pe_receiveBuffer entity) then Inr (entity, s)
      else rbind (deref (LTENR_BUFFER_HEADPACKET (buf_lib P) (pe_receiveBuffer entity))) (\<lambda>h.
           rbind (deref (bp_count h)) (\<lambda>count.
           if (if nxt = 0 then count else nxt) = count
           then (case LTENR_BUFFER_GETPACKET (buf_lib P) (pe_receiveBuffer entity) of
                   (got, rest) \<Rightarrow>
                   rbind (deref got) (\<lambda>b.
                   let p = LTENR_HDR_FREE_FROM_PACKET (kernel (core P)) (bp_packet b) PDCPHDRID
                   in deliver_loop P up fuel ((if nxt = 0 then count else nxt) + 1)
                        (entity\<lparr>pe_receiveBuffer := rest\<rparr>) (up p (s\<lparr>pv_packet := Some p\<rparr>))))
           else Inr (entity\<lparr>RX_DELIV := count\<rparr>, s))))"

definition LTENR_PDCP_HANDLE_TREORDERINGTIMER ::
  "pdcp_env \<Rightarrow> LTENR_PDCPENTITY \<Rightarrow> PDCP_EVENT \<Rightarrow> (LTENR_PDCPENTITY \<times> PDCP_EVENT) result" where
  "LTENR_PDCP_HANDLE_TREORDERINGTIMER P entity s =
     rbind (deliver_loop P (\<lambda>p. out (UpToRRC p)) (Suc (length (pe_receiveBuffer entity))) 0
              (entity\<lparr>isT_ReorderingRunning := False, t_ReorderingEventId := 0\<rparr>) s) (\<lambda>(e1, s1).
     Inr (if RX_DELIV e1 < RX_NEXT e1
          then LTENR_PDCP_START_TREORDERING P (e1\<lparr>RX_REORD := RX_NEXT e1\<rparr>) s1 else (e1, s1)))"

definition LTENR_PDCP_RXBUFFER_SORT :: "LTENR_BUFFEREDPACKET \<Rightarrow> LTENR_BUFFEREDPACKET \<Rightarrow> bool" where
  "LTENR_PDCP_RXBUFFER_SORT cbp nbp =
     (case (bp_count cbp, bp_count nbp) of (Some co, Some no) \<Rightarrow> co > no | _ \<Rightarrow> False)"

definition LTENR_PDCP_RXBUFFER_ENQUEUE ::
  "pdcp_env \<Rightarrow> LTENR_PDCPENTITY \<Rightarrow> NetSim_PACKET \<Rightarrow> u32 \<Rightarrow> PDCP_EVENT \<Rightarrow> LTENR_PDCPENTITY result" where
  "LTENR_PDCP_RXBUFFER_ENQUEUE P entity packet recv_count s =
     (let buffer = LTENR_BUFFER_ADDPACKET_SORTED (buf_lib P) (pe_receiveBuffer entity)
            \<lparr>bp_packet = packet, bp_size = UINT64_of_double (dPacketSize packet), bp_time = pv_time s,
             bp_count = Some recv_count\<rparr> LTENR_PDCP_RXBUFFER_SORT
      in case buffer of
           [] \<Rightarrow> Inl NullDeref
         | h # _ \<Rightarrow> rbind (deref (bp_count h)) (\<lambda>count.
             Inr (entity\<lparr>pe_receiveBuffer := buffer, RX_DELIV := count\<rparr>)))"

text \<open>The comparisons are made on \<open>int\<close>: the operands are converted to signed numbers.\<close>

definition LTENR_PDCP_CALCULATE_STATE_VARIABLE ::
  "LTENR_PDCPENTITY \<Rightarrow> LTENR_PDCP_HDR \<Rightarrow> u32 \<times> u32 \<times> u32" where
  "LTENR_PDCP_CALCULATE_STATE_VARIABLE entity hdr =
     (let delvSN = LTENR_PDCP_SN (RX_DELIV entity);
          delvHFN = LTENR_PDCP_HFN (RX_DELIV entity);
          recv_sn = pdcp_SN hdr;
          recv_hfn =
            (if sint (pdcp_SN hdr) < sint (delvSN - LTENR_PDCP_WINDOW_SIZE) then delvHFN + 1
             else if sint (pdcp_SN hdr) \<ge> sint (delvSN + LTENR_PDCP_WINDOW_SIZE) then delvHFN - 1
             else delvHFN)
      in (recv_sn, recv_hfn, LTENR_PDCP_COUNT recv_hfn recv_sn))"

definition LTENR_PDCP_UPDATE_STATE_VARIABLE :: "LTENR_PDCPENTITY \<Rightarrow> u32 \<Rightarrow> LTENR_PDCPENTITY" where
  "LTENR_PDCP_UPDATE_STATE_VARIABLE entity recv_count =
     (if recv_count \<ge> RX_NEXT entity then entity\<lparr>RX_NEXT := recv_count + 1\<rparr> else entity)"

definition LTENR_PDCP_ISDUPLICATEPDU :: "LTENR_PDCPENTITY \<Rightarrow> u32 \<Rightarrow> bool" where
  "LTENR_PDCP_ISDUPLICATEPDU entity recv_count \<longleftrightarrow> recv_count < RX_DELIV entity"

definition LTENR_PDCP_SendUp :: "NetSim_PACKET \<Rightarrow> PDCP_EVENT \<Rightarrow> PDCP_EVENT" where
  "LTENR_PDCP_SendUp packet s =
     (if LTENR_IS_UPLANE_MSG packet then out (ToSDAP packet) s
      else if nControlDataType packet = LTENR_MSG_NAS_HANDOVER_COMMAND then out (ToNAS packet) s
      else out (UpToRRC packet) s)"

definition LTENR_PDCP_DeliverSDUToUpperLayer ::
  "pdcp_env \<Rightarrow> bool \<Rightarrow> LTENR_PDCPENTITY \<Rightarrow> u32 \<Rightarrow> PDCP_EVENT \<Rightarrow> (LTENR_PDCPENTITY \<times> PDCP_EVENT) result" where
  "LTENR_PDCP_DeliverSDUToUpperLayer P outOfOrder entity recv_count s =
     (if outOfOrder
      then let (got, rest) = LTENR_BUFFER_GETPACKET (buf_lib P) (pe_receiveBuffer entity)
           in rbind (deref got) (\<lambda>b.
              let p = LTENR_HDR_FREE_FROM_PACKET (kernel (core P)) (bp_packet b) PDCPHDRID
              in Inr (entity\<lparr>pe_receiveBuffer := rest\<rparr>, LTENR_PDCP_SendUp p (s\<lparr>pv_packet := Some p\<rparr>)))
      else if recv_count = RX_DELIV entity
      then deliver_loop P LTENR_PDCP_SendUp (Suc (length (pe_receiveBuffer entity))) 0 entity s
      else Inr (entity, s))"

text \<open>\<open>fn_NetSim_LTENR_PDCP_ReceivePDCPSDU\<close> from the header on, once the entity is found.\<close>

definition pdcp_receive ::
  "pdcp_env \<Rightarrow> bool \<Rightarrow> LTENR_PDCPENTITY \<Rightarrow> NetSim_PACKET \<Rightarrow> PDCP_EVENT \<Rightarrow> (LTENR_PDCPENTITY \<times> PDCP_EVENT) result" where
  "pdcp_receive P outOfOrder entity packet s =
     (case LTENR_PDCP_HDR_GET P packet of
        None \<Rightarrow> Inr (entity, (out (Freed packet) (out PdcpError s))\<lparr>pv_packet := None\<rparr>)
      | Some hdr \<Rightarrow>
         (let (recv_sn, recv_hfn, recv_count) = LTENR_PDCP_CALCULATE_STATE_VARIABLE entity hdr
          in if LTENR_PDCP_ISDUPLICATEPDU entity recv_count \<and> \<not> isLTENRControlPacket packet
             then Inr (entity, (out (Freed packet) s)\<lparr>pv_packet := None\<rparr>)
             else rbind (LTENR_PDCP_RXBUFFER_ENQUEUE P entity packet recv_count s) (\<lambda>e1.
                  let e2 = LTENR_PDCP_UPDATE_STATE_VARIABLE e1 recv_count
                  in rbind (LTENR_PDCP_DeliverSDUToUpperLayer P outOfOrder e2 recv_count s) (\<lambda>(e3, s3).
                     Inr (LTENR_PDCP_ACTION_FOR_TREORDERING_ONRECEV P e3 s3)))))"

section \<open>The choice of the cell\<close>

text \<open>Every branch of the two algorithms reads \<open>rrc\<close>, whose NULL value faults.\<close>

definition fn_NetSim_LTENR_PDCP_Splitting_Alogrithm ::
  "pdcp_env \<Rightarrow> pdcp_state \<Rightarrow> NetSim_PACKET \<Rightarrow> netsim_id \<Rightarrow> netsim_id \<Rightarrow> LTENR_PDCPENTITY
     \<Rightarrow> (netsim_id \<times> LTENR_PDCPENTITY) result" where
  "fn_NetSim_LTENR_PDCP_Splitting_Alogrithm P st packet UEID UEIF0 entity =
     (let UEIF = fn_NetSim_LTENR_MASTER_INTEFACE_FOR_UE P UEID UEIF0;
          data = LTENR_PROTODATA_GET (core P) UEID UEIF
      in rbind (deref (ue_rrc st (UEID, UEIF))) (\<lambda>rrc.
         if isDCEnable data \<and> NSA_MODE data = NSA_MODE_OPTION3A then Inr (SelectedCellID rrc, entity)
         else if isDCEnable data \<and> (NSA_MODE data = NSA_MODE_OPTION3 \<or> NSA_MODE data = NSA_MODE_OPTION7)
         then Inr (if nQOS packet = QOS_GBR then SelectedCellID rrc
                   else if SNID rrc \<noteq> 0 then SNID rrc else SelectedCellID rrc, entity)
         else if isDCEnable data \<and> NSA_MODE data = NSA_MODE_OPTION4
         then Inr (if nQOS packet = QOS_GBR \<and> SNID rrc \<noteq> 0 then SNID rrc else SelectedCellID rrc, entity)
         else if pe_isAlternativePacket entity
         then Inr (if SNID rrc \<noteq> 0 then SNID rrc else SelectedCellID rrc,
                   entity\<lparr>pe_isAlternativePacket := False\<rparr>)
         else Inr (if SelectedCellID rrc \<noteq> 0 then SelectedCellID rrc else SNID rrc,
                   entity\<lparr>pe_isAlternativePacket := True\<rparr>)))"

definition fn_NetSim_LTENR_PDCP_Splitting_Alogrithm_GNB ::
  "pdcp_env \<Rightarrow> pdcp_state \<Rightarrow> netsim_id \<Rightarrow> netsim_id \<Rightarrow> (netsim_id \<times> pdcp_state) result" where
  "fn_NetSim_LTENR_PDCP_Splitting_Alogrithm_GNB P st d i0 =
     (let i = fn_NetSim_LTENR_MASTER_INTEFACE_FOR_UE P d i0
      in rbind (deref (ue_rrc st (d, i))) (\<lambda>rrc.
         if rrc_isAlternativePacket rrc
         then Inr (SNID rrc, st\<lparr>ue_rrc := (ue_rrc st)((d, i) := Some (rrc\<lparr>rrc_isAlternativePacket := False\<rparr>))\<rparr>)
         else Inr (SelectedCellID rrc,
                   st\<lparr>ue_rrc := (ue_rrc st)((d, i) := Some (rrc\<lparr>rrc_isAlternativePacket := True\<rparr>))\<rparr>)))"

section \<open>Packet processing\<close>

text \<open>The entity a position of the chain of \<open>(d, i)\<close> stands for, and a write through its pointer.\<close>

definition pdcp_entities :: "pdcp_env \<Rightarrow> pdcp_state \<Rightarrow> netsim_id \<Rightarrow> netsim_id \<Rightarrow> LTENR_PDCPENTITY list" where
  "pdcp_entities P st d i = (case LTENR_PDCP_GET P st d i of None \<Rightarrow> [] | Some v \<Rightarrow> pdcpEntity v)"

definition pdcp_put ::
  "pdcp_env \<Rightarrow> pdcp_state \<Rightarrow> netsim_id \<Rightarrow> netsim_id \<Rightarrow> nat \<Rightarrow> LTENR_PDCPENTITY \<Rightarrow> pdcp_state" where
  "pdcp_put P st d i j e =
     (case LTENR_PDCP_GET P st d i of
        None \<Rightarrow> st
      | Some v \<Rightarrow> pdcp_write P st d i (v\<lparr>pdcpEntity := (pdcpEntity v)[j := e]\<rparr>))"

text \<open>\<open>LTENR_CallRLCOut\<close> on interface \<open>i\<close>.\<close>

definition LTENR_CallRLCOut :: "netsim_id \<Rightarrow> NetSim_PACKET \<Rightarrow> PDCP_EVENT \<Rightarrow> PDCP_EVENT" where
  "LTENR_CallRLCOut i packet s = (out (ToRLC i packet) s)\<lparr>pv_packet := Some packet\<rparr>"

text \<open>
  The uplink choice: the receiver and the interface change when the algorithm picks another
  cell. \<open>nonzero\<close> tells the branch that also wants a cell different from 0.
\<close>

definition pdcp_split_uplink ::
  "pdcp_env \<Rightarrow> bool \<Rightarrow> pdcp_state \<Rightarrow> NetSim_PACKET \<Rightarrow> LTENR_PDCPENTITY \<Rightarrow> PDCP_EVENT
     \<Rightarrow> (LTENR_PDCPENTITY \<times> PDCP_EVENT) result" where
  "pdcp_split_uplink P nonzero st packet entity s =
     rbind (fn_NetSim_LTENR_PDCP_Splitting_Alogrithm P st packet (pe_ueId entity) (pe_ueIf entity) entity)
       (\<lambda>(splitID, e1).
     let master = fn_NetSim_LTENR_MASTER_INTEFACE_FOR_UE P (pe_ueId entity) (pe_ueIf entity);
         sec = fn_NetSim_LTENR_SEC_INTEFACE_FOR_UE P (pe_ueId entity) (pe_ueIf entity)
     in if splitID \<noteq> nReceiverId packet \<and> (nonzero \<longrightarrow> splitID \<noteq> 0)
        then rbind (deref (ue_rrc st (pe_ueId entity, master))) (\<lambda>rrc.
             Inr (e1, LTENR_CallRLCOut
               (if splitID = SNID rrc then sec else if splitID = SelectedCellID rrc then master
                else pv_interfaceId s)
               (packet\<lparr>nReceiverId := splitID\<rparr>) s))
        else Inr (e1, LTENR_CallRLCOut (pv_interfaceId s) packet s))"

definition pdcp_pass_to_rlc ::
  "pdcp_env \<Rightarrow> pdcp_state \<Rightarrow> netsim_id \<Rightarrow> netsim_id \<Rightarrow> NetSim_PACKET \<Rightarrow> LTENR_PDCPENTITY \<Rightarrow> PDCP_EVENT
     \<Rightarrow> (LTENR_PDCPENTITY \<times> PDCP_EVENT) result" where
  "pdcp_pass_to_rlc P st d i packet entity s =
     (let data = LTENR_PROTODATA_GET (core P) (pe_ueId entity) (pe_ueIf entity)
      in if \<not> isLTENRControlPacket packet \<and> isDCEnable data
         then if \<not> fn_NetSim_LTENR_NSA_IS_CORE_SPLIT_EXISTS P (pe_ueId entity) (pe_ueIf entity)
              then if isUE (core P) d i then pdcp_split_uplink P True st packet entity s
                   else if isGNB (core P) d i
                   then rbind (fn_NetSim_LTENR_PDCP_Splitting_Alogrithm P st packet (pe_ueId entity)
                                 (pe_ueIf entity) entity) (\<lambda>(splitID, e1).
                        if splitID \<noteq> d \<and> splitID \<noteq> 0
                        then let p = packet\<lparr>nReceiverId := splitID\<rparr>
                             in Inr (e1, (out (ToXN p d i (pe_ueId entity)
                                  (fn_NetSim_LTENR_SEC_INTEFACE_FOR_UE P (pe_ueId entity) (pe_ueIf entity))
                                  splitID True) s)\<lparr>pv_packet := Some p\<rparr>)
                        else Inr (e1, LTENR_CallRLCOut (pv_interfaceId s) packet s))
                   else Inr (entity, s)
              else if isUE (core P) d i then pdcp_split_uplink P False st packet entity s
              else Inr (entity, LTENR_CallRLCOut (pv_interfaceId s) packet s)
         else Inr (entity, LTENR_CallRLCOut (pv_interfaceId s) packet s))"

definition fn_NetSim_LTENR_PDCP_TransmitPDCPSDU ::
  "pdcp_env \<Rightarrow> pdcp_state \<Rightarrow> PDCP_EVENT \<Rightarrow> (pdcp_state \<times> PDCP_EVENT) result" where
  "fn_NetSim_LTENR_PDCP_TransmitPDCPSDU P st s =
     (let d = pv_deviceId s; i = pv_interfaceId s
      in case pv_packet s of
           None \<Rightarrow> Inr (st, out PdcpError s)
         | Some packet \<Rightarrow>
            if nReceiverId packet = 0 then Inr (st, out PdcpError s)
            else case msg packet of
              None \<Rightarrow> Inr (st, out PdcpError s)
            | Some m \<Rightarrow>
               rbind (LTENR_PDCPENTITY_GET P (LTENR_PDCP_GET P st d i) d i (nReceiverId packet)
                        (msg_rlcMode m) s) (\<lambda>(found, s1).
               case found of
                 None \<Rightarrow> Inr (st, (out (Freed packet) (out PdcpError s1))\<lparr>pv_packet := None\<rparr>)
               | Some j \<Rightarrow>
                  let (sn, e1) = LTENR_PDCP_SET_SN (pdcp_entities P st d i ! j);
                      (e2, s2) = LTENR_PDCP_TXBUFFER_ENQUEUE P e1 packet s1;
                      p = LTENR_PDCP_ADDHDR P sn
                        (if LTENR_IS_UPLANE_MSG packet then LTENR_PDCP_HDRCOMPRESSION packet else packet)
                  in rbind (pdcp_pass_to_rlc P st d i p e2 (s2\<lparr>pv_packet := Some p\<rparr>)) (\<lambda>(e3, s3).
                     Inr (pdcp_put P st d i j e3, s3))))"

text \<open>
  What the first half of \<open>fn_NetSim_LTENR_PDCP_ReceivePDCPSDU\<close> decides: the packet went on to
  another cell, or it is handled here, with the \<open>in\<close> and the packet from then on.
\<close>

datatype pdcp_route = SentOn pdcp_state PDCP_EVENT | GoOn pdcp_state netsim_id NetSim_PACKET

definition pdcp_receive_route ::
  "pdcp_env \<Rightarrow> pdcp_state \<Rightarrow> netsim_id \<Rightarrow> netsim_id \<Rightarrow> NetSim_PACKET \<Rightarrow> PDCP_EVENT \<Rightarrow> pdcp_route result" where
  "pdcp_receive_route P st d i packet s =
     (let r = nTransmitterId packet; rin = fn_NetSim_Get_LTENR_INTERFACE_ID_FROM_DEVICE_ID P r
      in if fn_NetSim_LTENR_NSA_IS_CORE_SPLIT_EXISTS P d i then Inr (GoOn st i packet)
         else if isGNB (core P) d i \<and> \<not> isLTENRControlPacket packet
         then rbind (deref (LTENR_PDCP_GET P st d i)) (\<lambda>v.
              let st1 = pdcp_write P st d i (v\<lparr>TotalPUSCHBytes := TotalPUSCHBytes v + dPayload packet\<rparr>)
              in rbind (deref (LTENR_PDCP_GET P st1 r rin)) (\<lambda>u.
              let st2 = pdcp_write P st1 r rin (u\<lparr>TotalPUSCHBytes := TotalPUSCHBytes u + dPayload packet\<rparr>)
              in if isDCEnable (LTENR_PROTODATA_GET (core P) r rin)
                 then let m = fn_NetSim_LTENR_MASTER_INTEFACE_FOR_UE P r rin
                      in rbind (deref (ue_rrc st2 (r, m))) (\<lambda>rrc.
                         let MCellID = SelectedCellID rrc;
                             sent = (\<lambda>st'. SentOn st' (out (ToXN packet d i r m MCellID False) s))
                         in if fn_NetSim_LTENR_NSA_IS_OPTION_X_EXISTS P d i \<and> MCellID \<noteq> d
                            then rbind (fn_NetSim_LTENR_PDCP_Splitting_Alogrithm_GNB P st2 r m) (\<lambda>(splitID, st3).
                                 Inr (if splitID \<noteq> d then sent st3 else GoOn st3 i packet))
                            else if SelectedCellID rrc \<noteq> d then Inr (sent st2)
                            else Inr (GoOn st2 i packet))
                 else Inr (GoOn st2 i packet)))
         else if isUE (core P) d i \<and> \<not> isLTENRControlPacket packet
         then rbind (deref (LTENR_PDCP_GET P st r rin)) (\<lambda>v.
              let st1 = pdcp_write P st r rin (v\<lparr>TotalPDSCHBytes := TotalPDSCHBytes v + dPayload packet\<rparr>)
              in if isDCEnable (LTENR_PROTODATA_GET (core P) d i)
                 then let m = fn_NetSim_LTENR_MASTER_INTEFACE_FOR_UE P d i
                      in rbind (deref (ue_rrc st1 (d, m))) (\<lambda>rrc.
                         Inr (GoOn st1 m (if SelectedCellID rrc \<noteq> nTransmitterId packet
                                          then packet\<lparr>nTransmitterId := SelectedCellID rrc\<rparr> else packet)))
                 else Inr (GoOn st1 i packet))
         else Inr (GoOn st i packet))"

definition fn_NetSim_LTENR_PDCP_ReceivePDCPSDU ::
  "pdcp_env \<Rightarrow> pdcp_state \<Rightarrow> PDCP_EVENT \<Rightarrow> (pdcp_state \<times> PDCP_EVENT) result" where
  "fn_NetSim_LTENR_PDCP_ReceivePDCPSDU P st s =
     (let d = pv_deviceId s
      in case pv_packet s of
           None \<Rightarrow> Inr (st, out PdcpError s)
         | Some packet0 \<Rightarrow>
           (case msg packet0 of
              None \<Rightarrow> Inr (st, out PdcpError s)
            | Some m \<Rightarrow>
               rbind (pdcp_receive_route P st d (pv_interfaceId s) packet0 s) (\<lambda>route.
               case route of
                 SentOn st1 s1 \<Rightarrow> Inr (st1, s1)
               | GoOn st1 i packet \<Rightarrow>
                  rbind (LTENR_PDCPENTITY_GET P (LTENR_PDCP_GET P st1 d i) d i (nTransmitterId packet)
                           (msg_rlcMode m) (s\<lparr>pv_packet := Some packet\<rparr>)) (\<lambda>(found, s1).
                  case found of
                    None \<Rightarrow> Inr (st1, (out (Freed packet) (out PdcpError s1))\<lparr>pv_packet := None\<rparr>)
                  | Some j \<Rightarrow>
                     rbind (deref (LTENR_PDCP_GET P st1 d i)) (\<lambda>v.
                     rbind (pdcp_receive P (isoutOfOrderDelivery v) (pdcpEntity v ! j) packet s1) (\<lambda>(e, s2).
                     Inr (pdcp_put P st1 d i j e, s2)))))))"

text \<open>The two subevents; the entity is the one \<open>szOtherDetails\<close> points to, at position \<open>j\<close>.\<close>

definition pdcp_subevent ::
  "pdcp_env \<Rightarrow> pdcp_timer \<Rightarrow> pdcp_state \<Rightarrow> netsim_id \<Rightarrow> netsim_id \<Rightarrow> nat \<Rightarrow> PDCP_EVENT
     \<Rightarrow> (pdcp_state \<times> PDCP_EVENT) result" where
  "pdcp_subevent P timer st d i j s =
     rbind (case timer of
         LTENR_SUBEVENT_PDCP_DISCARDTIMER \<Rightarrow> LTENR_PDCP_HANDLE_DISCARD_TIMER P (pdcp_entities P st d i ! j) s
       | LTENR_SUBEVENT_PDCP_TREORDERINGTIMER \<Rightarrow> LTENR_PDCP_HANDLE_TREORDERINGTIMER P (pdcp_entities P st d i ! j) s)
       (\<lambda>(e, s'). Inr (pdcp_put P st d i j e, s'))"

end
