(* ===== verification/Handover.thy ===== *)
theory Handover
  imports PDCP
begin

text \<open>
  Handover: the time-to-trigger matrix and the measurement report of a gNB
  (\<open>LTE_NR/LTENR_GNBRRC.c\<close>), the choice of a secondary cell (\<open>LTENR_AMF.c\<close>,
  \<open>LTENR_SN_HandOver.c\<close>), and the messages on the Xn interface with the ping-pong detector
  (\<open>LTENR_HANDOVER.c\<close>).
\<close>

section \<open>The state of a gNB's RRC\<close>

definition TTT_NOT_SET :: real where "TTT_NOT_SET = - 1"

record LTENR_gNB_HO_Trigger =
  trg_gnbID :: netsim_id
  trg_gnbIF :: netsim_id
  TriggerTime :: real

record LTENR_Conditional_HO_TTT_Matrix =
  ttt_ueID :: netsim_id
  ttt_ueIF :: netsim_id
  gNB_HO_Trigger :: "LTENR_gNB_HO_Trigger list"

record LTENR_GNBRRC =
  Conditional_HO_TTT_Matrix :: "LTENR_Conditional_HO_TTT_Matrix list"
  InterruptionTime :: real
  HandoverMargin :: real
  TTT :: real

section \<open>Messages\<close>

datatype LTENR_NAS_HANDOVER_TYPE = HANDOVER_TYPE_INTRA_LTENR | HANDOVER_TYPE_INTER_LTENR | HANDOVER_TYPE_INTER_RAT

datatype LTENR_NAS_HANDOVER_REQUEST_CAUSE =
    HANDOVER_CAUSE_RADIO_NETWORK | HANDOVER_CAUSE_TRANSPORT | HANDOVER_CAUSE_NAS | HANDOVER_CAUSE_PROTOCOL
  | HANDOVER_CAUSE_MISC

datatype LTENR_NAS_HANDOVER_OUTCOME =
    HANDOVER_OUTCOME_SUCESSFUL | HANDOVER_OUTCOME_UNSUCESSFUL | HANDOVER_OUTCOME_UNAVAILABLE | HANDOVER_OUTCOME_UE_LOST

datatype LTENR_NAS_CELL_TYPE = CELL_TYPE_SMALL | CELL_TYPE_MEDIUM | CELL_TYPE_LARGE

record LTENR_NAS_HANDOVER_REQUEST =
  rq_MME_UE_ID :: netsim_id
  rq_type :: LTENR_NAS_HANDOVER_TYPE
  rq_cause :: LTENR_NAS_HANDOVER_REQUEST_CAUSE
  rq_targetID :: netsim_id
  rq_lastVisitedCellID :: netsim_id
  rq_LastVisitedCellType :: LTENR_NAS_CELL_TYPE

record LTENR_NAS_HANDOVER_REQUEST_ACK =
  ack_MME_UE_ID :: netsim_id
  ack_GNB_UE_ID :: netsim_id
  ack_outCome :: LTENR_NAS_HANDOVER_OUTCOME

record LTENR_NAS_UECONTEXTRELEASEREQUEST =
  rel_mme_UE_ID :: netsim_id
  rel_gnb_UE_ID :: netsim_id
  rel_cause :: LTENR_NAS_HANDOVER_REQUEST_CAUSE

record LTENR_NAS_UECONTEXTRELEASECOMMAND =
  cmd_ueID :: netsim_id
  cmd_cause :: LTENR_NAS_HANDOVER_REQUEST_CAUSE
  cmd_outCome :: LTENR_NAS_HANDOVER_OUTCOME

text \<open>What the \<open>void* msg\<close> of a handover header points to.\<close>

datatype nas_msg =
    HandoverRequest LTENR_NAS_HANDOVER_REQUEST
  | HandoverRequestAck LTENR_NAS_HANDOVER_REQUEST_ACK
  | UEContextReleaseRequest LTENR_NAS_UECONTEXTRELEASEREQUEST
  | UEContextReleaseCommand LTENR_NAS_UECONTEXTRELEASECOMMAND

record LTENR_HANDOVER_Hdr =
  ho_msgType :: LTENR_MSGTYPE
  ho_msg :: "nas_msg option"
  serveringCellID :: netsim_id
  serveringCellIF :: netsim_id
  targetCellID :: netsim_id
  targetCellIF :: netsim_id
  UEID :: netsim_id
  UEIF :: netsim_id
  AMFID :: netsim_id
  AMFIF :: netsim_id
  targetAMFID :: netsim_id
  targetAMFIF :: netsim_id
  associateSMFID :: netsim_id
  HandoverStartTime :: real

datatype LTENR_RRC_EstablishmentCause =
    EstablishmentCause_Emergency | EstablishmentCause_HighPriorityAccess | EstablishmentCause_mt_Access
  | EstablishmentCause_mo_Signalling | EstablishmentCause_mo_data | EstablishmentCause_mo_Videocall
  | EstablishmentCasue_mo_VoiceCall | Establishmentcause_mo_SMS | EstablishmentCause_mps_PriorityAccess
  | EstablishmentCause_mcs_PriorityAccess | spare6 | spare5 | spare4 | spare3 | spare2 | spare1

record LTENR_HO_SN_ADDITION_REQUEST =
  add_ueID :: netsim_id
  add_SNID :: netsim_id
  add_MNID :: netsim_id
  add_cause :: LTENR_RRC_EstablishmentCause

record LTENR_SN_HANDOVER_HDR =
  sn_msgType :: LTENR_MSGTYPE
  sn_msg :: "LTENR_HO_SN_ADDITION_REQUEST option"
  sn_ueID :: netsim_id
  sn_ueIF :: netsim_id
  sn_MNID :: netsim_id
  sn_MNIF :: netsim_id
  sn_SNID :: netsim_id
  sn_SNIF :: netsim_id
  sn_TSNID :: netsim_id
  sn_TSNIF :: netsim_id
  sn_AMFID :: netsim_id
  sn_AMFIF :: netsim_id
  sn_targetAMFID :: netsim_id
  sn_targetAMFIF :: netsim_id
  sn_associateSMFID :: netsim_id
  SNHandoverStartTime :: real

record LTENR_RRC_UE_MEASUREMENT_REPORT =
  rep_cellID :: netsim_id
  rep_cellIF :: netsim_id
  rep_ueID :: netsim_id
  rep_sinr :: real

datatype LTENR_INTERFACE_TYPE =
    nGC_INTERFACE_NULL | nGC_INTERFACE_LTE | nGC_INTERFACE_RAN | nGC_INTERFACE_N1_N2 | nGC_INTERFACE_N3
  | nGC_INTERFACE_N4 | nGC_INTERFACE_N11 | nGC_INTERFACE_N6 | nGC_INTERFACE_XN | nGC_INTERFACE_LTE_S1
  | nGC_INTERFACE_LAST

text \<open>
  The calls handover makes. \<open>SendPacket src dest srcIP destIP h\<close> is
  \<open>LTENR_Handover_Send_Packet\<close>, its message type being that of the header and the two addresses
  those of an interface of a device. \<open>PingPong\<close> is the line sent to the Python listener.
\<close>

datatype ho_effect =
    SendPacket netsim_id netsim_id "netsim_id \<times> LTENR_INTERFACE_TYPE" "netsim_id \<times> LTENR_INTERFACE_TYPE" LTENR_HANDOVER_Hdr
  | SendSN netsim_id netsim_id "netsim_id \<times> LTENR_INTERFACE_TYPE" "netsim_id \<times> LTENR_INTERFACE_TYPE" LTENR_SN_HANDOVER_HDR
  | SecondaryCellAddition netsim_id netsim_id netsim_id netsim_id netsim_id netsim_id
  | NASHandoverRequest LTENR_HANDOVER_Hdr
  | NASHandoverCommand LTENR_HANDOVER_Hdr
  | NASContextRelease LTENR_HANDOVER_Hdr
  | HandoverLog netsim_id real real netsim_id netsim_id string
  | PingPong int netsim_id netsim_id real
  | HandoverError

record ho_state =
  ho_time :: real
  ho_ue_rrc :: "netsim_id \<times> netsim_id \<Rightarrow> LTENR_UERRC option"
  ho_gnb_rrc :: "netsim_id \<times> netsim_id \<Rightarrow> LTENR_GNBRRC option"
  lastServingCell :: "int list"
  lastHOTime :: "real list"
  ho_trace :: "ho_effect list"

definition ho_out :: "ho_effect \<Rightarrow> ho_state \<Rightarrow> ho_state" where
  "ho_out x s = s\<lparr>ho_trace := ho_trace s @ [x]\<rparr>"

text \<open>
  What the code gets from elsewhere. \<open>trig_lib\<close>, \<open>matrix_lib\<close> and \<open>report_lib\<close> are the list
  library at three types; \<open>interfaces\<close> are the LTE-NR interfaces in the order the loops over all
  devices meet them; \<open>gnbDCList\<close> and \<open>enbDCList\<close> the lists of cells; \<open>LTENR_PHY_RRC_RSRP_SINR\<close>
  the measurement the physical layer gives (\<open>LTENR_PHY.c\<close>, not modelled); \<open>gnb_epc\<close> the fields
  \<open>epcId\<close> and \<open>epcIf\<close> of \<open>LTENR_GNBMAC\<close>; \<open>connectedAMF\<close> and \<open>connectedSMF\<close> the devices of the
  names in \<open>LTENR_PROTODATA\<close>.
\<close>

record ho_env =
  pdcpE :: pdcp_env
  trig_lib :: "LTENR_gNB_HO_Trigger list_lib"
  matrix_lib :: "LTENR_Conditional_HO_TTT_Matrix list_lib"
  report_lib :: "LTENR_RRC_UE_MEASUREMENT_REPORT list_lib"
  interfaces :: "(netsim_id \<times> netsim_id) list"
  gnbDCList :: "(netsim_id \<times> netsim_id) list"
  enbDCList :: "(netsim_id \<times> netsim_id) list"
  fn_NetSim_isDeviceLTENR :: "netsim_id \<Rightarrow> netsim_id \<Rightarrow> bool"
  fn_NetSim_LTENR_CORE_INTERFACE :: "netsim_id \<Rightarrow> LTENR_INTERFACE_TYPE \<Rightarrow> netsim_id"
  fn_NetSim_LTENR_IS_S1_INTERFACE_EXISTS :: "netsim_id \<Rightarrow> bool"
  fn_NetSim_LTENR_INTERFACE_ID_FROM_CONNECTED_DEVICE :: "netsim_id \<Rightarrow> netsim_id \<Rightarrow> netsim_id \<Rightarrow> netsim_id"
  LTENR_PHY_RRC_RSRP_SINR :: "netsim_id \<Rightarrow> netsim_id \<Rightarrow> netsim_id \<Rightarrow> netsim_id \<Rightarrow> real"
  gnb_epc :: "netsim_id \<Rightarrow> netsim_id \<Rightarrow> netsim_id \<times> netsim_id"
  connectedAMF :: "netsim_id \<Rightarrow> netsim_id \<Rightarrow> netsim_id"
  connectedSMF :: "netsim_id \<Rightarrow> netsim_id \<Rightarrow> netsim_id"

abbreviation ho_data :: "ho_env \<Rightarrow> netsim_id \<Rightarrow> netsim_id \<Rightarrow> LTENR_PROTODATA" where
  "ho_data H d i \<equiv> LTENR_PROTODATA_GET (core (pdcpE H)) d i"

section \<open>The time-to-trigger matrix\<close>

text \<open>The functions of the matrix, on the \<open>LTENR_GNBRRC\<close> of the gNB. A pointer into a list is the rest of the list from there.\<close>

definition fn_NetSim_LTENR_Conditional_HO_TTT_Matrix_Add ::
  "ho_env \<Rightarrow> netsim_id \<Rightarrow> netsim_id \<Rightarrow> netsim_id \<Rightarrow> netsim_id \<Rightarrow> LTENR_GNBRRC \<Rightarrow> LTENR_GNBRRC" where
  "fn_NetSim_LTENR_Conditional_HO_TTT_Matrix_Add H gnbId gnbIf ueId ueIf rrc =
     (let cells = if series3GPP (ho_data H gnbId gnbIf) = 38 then gnbDCList H else enbDCList H;
          triggers = fold (\<lambda>(d, i) ts. if d \<noteq> gnbId
            then list_add_last (trig_lib H) ts \<lparr>trg_gnbID = d, trg_gnbIF = i, TriggerTime = TTT_NOT_SET\<rparr>
            else ts) cells []
      in rrc\<lparr>Conditional_HO_TTT_Matrix := list_add_last (matrix_lib H) (Conditional_HO_TTT_Matrix rrc)
           \<lparr>ttt_ueID = ueId, ttt_ueIF = ueIf, gNB_HO_Trigger = triggers\<rparr>\<rparr>)"

text \<open>
  The loop moves \<open>temp\<close> through the matrix; \<open>HO_TTT_MATRIX_REMOVE(&temp, temp)\<close> takes the head
  off the list that starts there. What is left in \<open>temp\<close> becomes the matrix.
\<close>

fun ttt_remove_loop ::
  "ho_env \<Rightarrow> netsim_id \<Rightarrow> netsim_id
     \<Rightarrow> LTENR_Conditional_HO_TTT_Matrix list \<Rightarrow> LTENR_Conditional_HO_TTT_Matrix list" where
  "ttt_remove_loop H ueId ueIf [] = []"
| "ttt_remove_loop H ueId ueIf (temp # rest) =
     (if ttt_ueID temp = ueId \<and> ttt_ueIF temp = ueIf then list_free (matrix_lib H) (temp # rest) 0
      else ttt_remove_loop H ueId ueIf rest)"

definition fn_NetSim_LTENR_Conditional_HO_TTT_Matrix_Remove ::
  "ho_env \<Rightarrow> netsim_id \<Rightarrow> netsim_id \<Rightarrow> LTENR_GNBRRC \<Rightarrow> LTENR_GNBRRC" where
  "fn_NetSim_LTENR_Conditional_HO_TTT_Matrix_Remove H ueId ueIf rrc =
     rrc\<lparr>Conditional_HO_TTT_Matrix := ttt_remove_loop H ueId ueIf (Conditional_HO_TTT_Matrix rrc)\<rparr>"

fun ttt_free_loop ::
  "ho_env \<Rightarrow> nat \<Rightarrow> LTENR_Conditional_HO_TTT_Matrix list \<Rightarrow> LTENR_Conditional_HO_TTT_Matrix list result" where
  "ttt_free_loop H 0 temp = Inl Diverges"
| "ttt_free_loop H (Suc fuel) temp =
     (if temp = [] then Inr [] else ttt_free_loop H fuel (list_free (matrix_lib H) temp 0))"

definition fn_NetSim_LTENR_Conditional_HO_TTT_Matrix_Free :: "ho_env \<Rightarrow> LTENR_GNBRRC \<Rightarrow> LTENR_GNBRRC result" where
  "fn_NetSim_LTENR_Conditional_HO_TTT_Matrix_Free H rrc =
     rbind (ttt_free_loop H (Suc (length (Conditional_HO_TTT_Matrix rrc))) (Conditional_HO_TTT_Matrix rrc))
       (\<lambda>temp. Inr (rrc\<lparr>Conditional_HO_TTT_Matrix := temp\<rparr>))"

fun fn_NetSim_LTENR_Conditional_HO_TTT_Matrix_Find ::
  "LTENR_Conditional_HO_TTT_Matrix list \<Rightarrow> netsim_id \<Rightarrow> netsim_id \<Rightarrow> real" where
  "fn_NetSim_LTENR_Conditional_HO_TTT_Matrix_Find [] ueID targetID = - 1"
| "fn_NetSim_LTENR_Conditional_HO_TTT_Matrix_Find (temp # rest) ueID targetID =
     (if ttt_ueID temp = ueID
      then case find (\<lambda>g. trg_gnbID g = targetID) (gNB_HO_Trigger temp) of
             Some g \<Rightarrow> TriggerTime g
           | None \<Rightarrow> fn_NetSim_LTENR_Conditional_HO_TTT_Matrix_Find rest ueID targetID
      else fn_NetSim_LTENR_Conditional_HO_TTT_Matrix_Find rest ueID targetID)"

fun set_trigger :: "netsim_id \<Rightarrow> real \<Rightarrow> LTENR_gNB_HO_Trigger list \<Rightarrow> LTENR_gNB_HO_Trigger list option" where
  "set_trigger targetID value [] = None"
| "set_trigger targetID value (g # gs) =
     (if trg_gnbID g = targetID then Some (g\<lparr>TriggerTime := value\<rparr> # gs)
      else map_option (Cons g) (set_trigger targetID value gs))"

fun fn_NetSim_LTENR_Conditional_HO_TTT_Matrix_Set ::
  "LTENR_Conditional_HO_TTT_Matrix list \<Rightarrow> netsim_id \<Rightarrow> netsim_id \<Rightarrow> real
     \<Rightarrow> LTENR_Conditional_HO_TTT_Matrix list" where
  "fn_NetSim_LTENR_Conditional_HO_TTT_Matrix_Set [] ueID targetID value = []"
| "fn_NetSim_LTENR_Conditional_HO_TTT_Matrix_Set (temp # rest) ueID targetID value =
     (if ttt_ueID temp = ueID
      then case set_trigger targetID value (gNB_HO_Trigger temp) of
             Some gs \<Rightarrow> temp\<lparr>gNB_HO_Trigger := gs\<rparr> # rest
           | None \<Rightarrow> temp # fn_NetSim_LTENR_Conditional_HO_TTT_Matrix_Set rest ueID targetID value
      else temp # fn_NetSim_LTENR_Conditional_HO_TTT_Matrix_Set rest ueID targetID value)"

section \<open>Measurement reports\<close>

text \<open>
  The list a UE puts in its report. The fields of an entry that no handler reads are left out.
\<close>

definition fn_NetSIM_LTENR_RRC_GENERATE_UE_MEASUREMENT_REPORT ::
  "ho_env \<Rightarrow> netsim_id \<Rightarrow> netsim_id \<Rightarrow> ho_state \<Rightarrow> LTENR_RRC_UE_MEASUREMENT_REPORT list result" where
  "fn_NetSIM_LTENR_RRC_GENERATE_UE_MEASUREMENT_REPORT H d i s =
     rbind (deref (ho_ue_rrc s (d, i))) (\<lambda>ueRRC.
       let report = fold (\<lambda>(r, rin) report.
             if deviceType (ho_data H r rin) = LTENR_DEVICETYPE_GNB
             then list_add_last (report_lib H) report
               \<lparr>rep_cellID = r, rep_cellIF = rin, rep_ueID = d, rep_sinr = LTENR_PHY_RRC_RSRP_SINR H r rin d i\<rparr>
             else report) (interfaces H) []
       in if report \<noteq> [] \<and> ho_gnb_rrc s (SelectedCellID ueRRC, SelectedCellIF ueRRC) = None
          then Inl NullDeref else Inr report)"

definition INT_MIN :: real where "INT_MIN = - 2147483648"

text \<open>The tests in front of the loops that skip cells of the other radio access.\<close>

definition report_considered :: "ho_env \<Rightarrow> netsim_id \<Rightarrow> netsim_id \<Rightarrow> LTENR_RRC_UE_MEASUREMENT_REPORT \<Rightarrow> bool" where
  "report_considered H ueID ueIF report1 =
     (if isDCEnable (ho_data H ueID ueIF)
      then (if MasterCellType (ho_data H ueID ueIF) = MMWAVE_CELL_TYPE
            then (if fn_NetSim_isDeviceLTENR H ueID ueIF
                  then fn_NetSim_isDeviceLTENR H (rep_cellID report1) (rep_cellIF report1) else False)
            else (if \<not> fn_NetSim_isDeviceLTENR H ueID ueIF
                  then \<not> fn_NetSim_isDeviceLTENR H (rep_cellID report1) (rep_cellIF report1) else False))
      else True)"

definition sn_considered :: "ho_env \<Rightarrow> netsim_id \<Rightarrow> netsim_id \<Rightarrow> netsim_id \<Rightarrow> netsim_id \<Rightarrow> bool" where
  "sn_considered H ueID ueIF cell cellIF =
     (if isDCEnable (ho_data H ueID ueIF)
      then (if SecCellType (ho_data H ueID ueIF) = MMWAVE_CELL_TYPE
            then fn_NetSim_isDeviceLTENR H cell cellIF else \<not> fn_NetSim_isDeviceLTENR H cell cellIF)
      else True)"

section \<open>The secondary cell\<close>

definition fn_NetSim_LTENR_FIND_BEST_SN_CELL_FOR_UE :: "ho_env \<Rightarrow> netsim_id \<Rightarrow> netsim_id \<Rightarrow> netsim_id" where
  "fn_NetSim_LTENR_FIND_BEST_SN_CELL_FOR_UE H d i =
     snd (fold (\<lambda>(r, rin) (Best_SINR, BEST_SN_ID).
       if d \<noteq> r \<and> sn_considered H d i r rin \<and> deviceType (ho_data H r rin) = LTENR_DEVICETYPE_GNB
          \<and> Best_SINR < LTENR_PHY_RRC_RSRP_SINR H r rin d i
       then (LTENR_PHY_RRC_RSRP_SINR H r rin d i, r) else (Best_SINR, BEST_SN_ID))
       (interfaces H) (INT_MIN, 0))"

definition fn_NetSim_LTENR_SEC_CELL_SelectionAddition ::
  "ho_env \<Rightarrow> netsim_id \<Rightarrow> netsim_id \<Rightarrow> ho_state \<Rightarrow> ho_state result" where
  "fn_NetSim_LTENR_SEC_CELL_SelectionAddition H UE_ID UE_IF s =
     (if isDCEnable (ho_data H UE_ID UE_IF)
      then rbind (deref (ho_ue_rrc s (UE_ID, UE_IF))) (\<lambda>rrc.
        if isSNSconnected rrc then Inr s
        else let ueInterface = fn_NetSim_LTENR_SEC_INTEFACE_FOR_UE (pdcpE H) UE_ID UE_IF;
                 snid = fn_NetSim_LTENR_FIND_BEST_SN_CELL_FOR_UE H UE_ID ueInterface
             in if snid = 0 then Inr s
                else let snif = fn_NetSim_LTENR_INTERFACE_ID_FROM_CONNECTED_DEVICE H UE_ID ueInterface snid;
                         s1 = ho_out (SecondaryCellAddition UE_ID ueInterface (SelectedCellID rrc)
                                (SelectedCellIF rrc) snid snif) s
                     in Inr (s1\<lparr>ho_ue_rrc := (ho_ue_rrc s1)((UE_ID, UE_IF) :=
                              Some (rrc\<lparr>SNID := snid, SNIF := snif\<rparr>))\<rparr>))
      else Inr s)"

definition fn_NetSim_LTENR_DC_HO_SN_ADDITION_REQUEST :: "ho_env \<Rightarrow> LTENR_SN_HANDOVER_HDR \<Rightarrow> ho_state \<Rightarrow> ho_state" where
  "fn_NetSim_LTENR_DC_HO_SN_ADDITION_REQUEST H hdr0 s =
     (let msg = \<lparr>add_ueID = sn_ueID hdr0, add_SNID = sn_SNID hdr0, add_MNID = sn_MNID hdr0,
                 add_cause = EstablishmentCause_mo_data\<rparr>;
          hdr = hdr0\<lparr>sn_msg := Some msg, sn_msgType := LTENR_MSG_DC_HO_SEC_CELL_ADDITION_REQUEST,
                     SNHandoverStartTime := ho_time s\<rparr>;
          addr = (\<lambda>d. (d, if \<not> fn_NetSim_LTENR_NSA_IS_CORE_SPLIT_EXISTS (pdcpE H) (sn_MNID hdr) (sn_MNIF hdr)
                          then nGC_INTERFACE_XN
                          else if fn_NetSim_LTENR_IS_S1_INTERFACE_EXISTS H (sn_MNID hdr) then nGC_INTERFACE_LTE_S1
                          else nGC_INTERFACE_N3))
      in ho_out (SendSN (sn_MNID hdr) (sn_TSNID hdr) (addr (sn_MNID hdr)) (addr (sn_TSNID hdr)) hdr) s)"

text \<open>The serving SINR is that of the last entry of the serving cell, the target the first entry of the greatest SINR.\<close>

definition sn_scan ::
  "ho_env \<Rightarrow> netsim_id \<Rightarrow> netsim_id \<Rightarrow> LTENR_UERRC \<Rightarrow> LTENR_RRC_UE_MEASUREMENT_REPORT
     \<Rightarrow> real \<times> real \<times> netsim_id \<Rightarrow> real \<times> real \<times> netsim_id" where
  "sn_scan H ueID ueIF rrc report1 = (\<lambda>(serveingSINR, targetSINR, target).
     if sn_considered H ueID ueIF (rep_cellID report1) (rep_cellIF report1)
     then (if rep_cellID report1 = SNID rrc then rep_sinr report1 else serveingSINR,
           if targetSINR < rep_sinr report1 then rep_sinr report1 else targetSINR,
           if targetSINR < rep_sinr report1 then rep_cellID report1 else target)
     else (serveingSINR, targetSINR, target))"

definition sn_handover_hdr :: "ho_env \<Rightarrow> netsim_id \<Rightarrow> netsim_id \<Rightarrow> LTENR_UERRC \<Rightarrow> netsim_id \<Rightarrow> LTENR_SN_HANDOVER_HDR" where
  "sn_handover_hdr H ueID ueIF rrc target =
     (let tif = fn_NetSim_Get_LTENR_INTERFACE_ID_FROM_DEVICE_ID (pdcpE H) target;
          s1 = fn_NetSim_LTENR_IS_S1_INTERFACE_EXISTS H (SelectedCellID rrc);
          epc = gnb_epc H (SelectedCellID rrc) (SelectedCellIF rrc);
          tamf = connectedAMF H target tif
      in \<lparr>sn_msgType = LTENR_MSG_DC_HO_SEC_CELL_ADDITION_REQUEST, sn_msg = None,
          sn_ueID = ueID, sn_ueIF = fn_NetSim_LTENR_SEC_INTEFACE_FOR_UE (pdcpE H) ueID ueIF,
          sn_MNID = SelectedCellID rrc, sn_MNIF = SelectedCellIF rrc, sn_SNID = SNID rrc, sn_SNIF = SNIF rrc,
          sn_TSNID = target, sn_TSNIF = tif,
          sn_AMFID = (if s1 then fst epc else SelectedAMFID rrc),
          sn_AMFIF = (if s1 then snd epc else SelectedAMFIF rrc),
          sn_targetAMFID = (if s1 then 0 else tamf),
          sn_targetAMFIF = (if s1 then 0 else fn_NetSim_LTENR_CORE_INTERFACE H tamf nGC_INTERFACE_N1_N2),
          sn_associateSMFID = (if s1 then 0 else connectedSMF H target tif),
          SNHandoverStartTime = 0\<rparr>)"

definition fn_NetSim_DC_HO_SN_PROCESSIONG ::
  "ho_env \<Rightarrow> netsim_id \<Rightarrow> netsim_id \<Rightarrow> LTENR_RRC_UE_MEASUREMENT_REPORT list \<Rightarrow> ho_state \<Rightarrow> ho_state result" where
  "fn_NetSim_DC_HO_SN_PROCESSIONG H ueID ueIF report s =
     rbind (deref (ho_ue_rrc s (ueID, ueIF))) (\<lambda>rrc.
     rbind (deref (ho_gnb_rrc s (SNID rrc, SNIF rrc))) (\<lambda>gnbrrc.
       case fold (sn_scan H ueID ueIF rrc) report (0, INT_MIN, 0) of (serveingSINR, targetSINR, target) \<Rightarrow>
         if serveingSINR + HandoverMargin gnbrrc < targetSINR \<and> target > 0 \<and> SNID rrc \<noteq> target
         then Inr (fn_NetSim_LTENR_DC_HO_SN_ADDITION_REQUEST H (sn_handover_hdr H ueID ueIF rrc target) s)
         else Inr s))"

section \<open>The messages on the Xn interface\<close>

definition Xn :: "netsim_id \<Rightarrow> netsim_id \<times> LTENR_INTERFACE_TYPE" where
  "Xn d = (d, nGC_INTERFACE_XN)"

definition LTENR_HANDOVER_REQUEST :: "LTENR_HANDOVER_Hdr \<Rightarrow> ho_state \<Rightarrow> ho_state" where
  "LTENR_HANDOVER_REQUEST hdr0 =
     (let msg = \<lparr>rq_MME_UE_ID = AMFID hdr0, rq_type = HANDOVER_TYPE_INTRA_LTENR,
                 rq_cause = HANDOVER_CAUSE_RADIO_NETWORK, rq_targetID = targetCellID hdr0,
                 rq_lastVisitedCellID = serveringCellID hdr0, rq_LastVisitedCellType = CELL_TYPE_LARGE\<rparr>;
          hdr = hdr0\<lparr>ho_msg := Some (HandoverRequest msg), ho_msgType := LTENR_MSG_NAS_HANDOVER_REQUEST\<rparr>
      in ho_out (SendPacket (serveringCellID hdr) (targetCellID hdr)
           (Xn (serveringCellID hdr)) (Xn (targetCellID hdr)) hdr))"

definition LTENR_HANDOVER_REQUEST_ACK :: "LTENR_HANDOVER_Hdr \<Rightarrow> ho_state \<Rightarrow> ho_state" where
  "LTENR_HANDOVER_REQUEST_ACK hdr0 =
     (let msg = \<lparr>ack_MME_UE_ID = AMFID hdr0, ack_GNB_UE_ID = serveringCellID hdr0,
                 ack_outCome = HANDOVER_OUTCOME_SUCESSFUL\<rparr>;
          hdr = hdr0\<lparr>ho_msgType := LTENR_MSG_NAS_HANDOVER_REQUEST_ACK, ho_msg := Some (HandoverRequestAck msg)\<rparr>
      in ho_out (SendPacket (targetCellID hdr) (serveringCellID hdr)
           (Xn (targetCellID hdr)) (Xn (serveringCellID hdr)) hdr))"

definition LTENR_HANDOVER_UE_CONTEXT_RELEASE :: "LTENR_HANDOVER_Hdr \<Rightarrow> ho_state \<Rightarrow> ho_state" where
  "LTENR_HANDOVER_UE_CONTEXT_RELEASE hdr0 =
     (let msg = \<lparr>rel_mme_UE_ID = AMFID hdr0, rel_gnb_UE_ID = targetCellIF hdr0,
                 rel_cause = HANDOVER_CAUSE_RADIO_NETWORK\<rparr>;
          hdr = hdr0\<lparr>ho_msgType := LTENR_MSG_NAS_HANDOVER_UE_CONTEXT_RELEASE,
                     ho_msg := Some (UEContextReleaseRequest msg)\<rparr>
      in ho_out (SendPacket (targetCellID hdr) (serveringCellID hdr)
           (Xn (targetCellID hdr)) (Xn (serveringCellID hdr)) hdr))"

definition LTENR_HANDOVER_UE_CONTEXT_RELEASE_ACK :: "LTENR_HANDOVER_Hdr \<Rightarrow> ho_state \<Rightarrow> ho_state" where
  "LTENR_HANDOVER_UE_CONTEXT_RELEASE_ACK hdr0 =
     (let msg = \<lparr>cmd_ueID = UEID hdr0, cmd_cause = HANDOVER_CAUSE_RADIO_NETWORK,
                 cmd_outCome = HANDOVER_OUTCOME_SUCESSFUL\<rparr>;
          hdr = hdr0\<lparr>ho_msgType := LTENR_MSG_NAS_HANDOVER_UE_CONTEXT_RELEASE_ACK,
                     ho_msg := Some (UEContextReleaseCommand msg)\<rparr>
      in ho_out (SendPacket (serveringCellID hdr) (targetCellID hdr)
           (Xn (serveringCellID hdr)) (Xn (targetCellID hdr)) hdr))"

definition LTENR_HANDOVER_REQUEST_RECV :: "LTENR_HANDOVER_Hdr \<Rightarrow> ho_state \<Rightarrow> ho_state" where
  "LTENR_HANDOVER_REQUEST_RECV hdr = LTENR_HANDOVER_REQUEST_ACK (hdr\<lparr>ho_msg := None\<rparr>)"

definition LTENR_HANDOVER_REQUEST_ACK_RECV :: "LTENR_HANDOVER_Hdr \<Rightarrow> ho_state \<Rightarrow> ho_state" where
  "LTENR_HANDOVER_REQUEST_ACK_RECV hdr = ho_out (NASHandoverCommand (hdr\<lparr>ho_msg := None\<rparr>))"

definition LTENR_HANDOVER_UE_CONTEXT_RELEASE_RECV :: "LTENR_HANDOVER_Hdr \<Rightarrow> ho_state \<Rightarrow> ho_state" where
  "LTENR_HANDOVER_UE_CONTEXT_RELEASE_RECV hdr = LTENR_HANDOVER_UE_CONTEXT_RELEASE_ACK (hdr\<lparr>ho_msg := None\<rparr>)"

section \<open>The ping-pong detector\<close>

text \<open>
  \<open>lastServingCell\<close> and \<open>lastHOTime\<close> have \<open>MAX_UE\<close> entries; a greater number of a UE, or one that is
  negative as an \<open>int\<close>, is an index out of bounds.
\<close>

definition MAX_UE :: nat where "MAX_UE = 1024"

definition send_pingpong_event :: "LTENR_HANDOVER_Hdr \<Rightarrow> ho_state \<Rightarrow> ho_state result" where
  "send_pingpong_event hdr s =
     (let ue = unat (UEID hdr); curr = sint (targetCellID hdr); now = ho_time s
      in if ue \<ge> MAX_UE then Inl OutOfBounds
         else let prev = lastServingCell s ! ue;
                  s1 = s\<lparr>lastServingCell := (lastServingCell s)[ue := curr], lastHOTime := (lastHOTime s)[ue := now]\<rparr>
              in if prev = 0 then Inr s1
                 else if prev = curr \<and> now - lastHOTime s ! ue < 2
                 then Inr (ho_out (PingPong (int ue) (serveringCellID hdr) (targetCellID hdr)
                        (now - lastHOTime s ! ue)) s1)
                 else Inr s1)"

text \<open>
  The message of a release acknowledgement is a \<open>LTENR_NAS_UECONTEXTRELEASECOMMAND\<close>; no other is
  ever put into such a header, and the cast of one is not modelled (a fault).
\<close>

definition LTENR_HANDOVER_UE_CONTEXT_RELEASE_ACK_RECV :: "LTENR_HANDOVER_Hdr \<Rightarrow> ho_state \<Rightarrow> ho_state result" where
  "LTENR_HANDOVER_UE_CONTEXT_RELEASE_ACK_RECV hdr s =
     (case ho_msg hdr of
        Some (UEContextReleaseCommand cmd) \<Rightarrow>
          if cmd_outCome cmd \<noteq> HANDOVER_OUTCOME_SUCESSFUL then Inr (ho_out HandoverError s)
          else send_pingpong_event hdr s
      | _ \<Rightarrow> Inl NullDeref)"

text \<open>
  The arrival of a packet: its \<open>nControlDataType\<close> and the header
  \<open>LTENR_HANDOVER_HDR_GET_FROM_PACKET\<close> finds in it for that type, which the handler frees at the end.
\<close>

definition fn_NetSim_LTENR_Handover_RECV ::
  "LTENR_MSGTYPE \<Rightarrow> LTENR_HANDOVER_Hdr option \<Rightarrow> ho_state \<Rightarrow> ho_state result" where
  "fn_NetSim_LTENR_Handover_RECV ctype h s =
     (if ctype = LTENR_MSG_NAS_HANDOVER_REQUEST
      then rbind (deref h) (\<lambda>hdr. Inr (LTENR_HANDOVER_REQUEST_RECV hdr s))
      else if ctype = LTENR_MSG_NAS_HANDOVER_REQUEST_ACK
      then rbind (deref h) (\<lambda>hdr. Inr (LTENR_HANDOVER_REQUEST_ACK_RECV hdr s))
      else if ctype = LTENR_MSG_NAS_HANDOVER_UE_CONTEXT_RELEASE
      then rbind (deref h) (\<lambda>hdr. Inr (LTENR_HANDOVER_UE_CONTEXT_RELEASE_RECV hdr s))
      else if ctype = LTENR_MSG_NAS_HANDOVER_UE_CONTEXT_RELEASE_ACK
      then rbind (deref h) (\<lambda>hdr. LTENR_HANDOVER_UE_CONTEXT_RELEASE_ACK_RECV hdr s)
      else Inr s)"

text \<open>The answer of the core network (\<open>LTENR_NAS.c\<close>); without an Xn interface the release goes through NAS.\<close>

definition fn_NetSim_LTENR_NAS_PATH_SWITCH_ACK_RECV :: "ho_env \<Rightarrow> LTENR_HANDOVER_Hdr \<Rightarrow> ho_state \<Rightarrow> ho_state" where
  "fn_NetSim_LTENR_NAS_PATH_SWITCH_ACK_RECV H hdr =
     (if fn_NetSim_LTENR_CORE_INTERFACE H (serveringCellID hdr) nGC_INTERFACE_XN \<noteq> 0
      then LTENR_HANDOVER_UE_CONTEXT_RELEASE hdr else ho_out (NASContextRelease hdr))"

section \<open>The handover decision\<close>

text \<open>
  One entry of the report in the second pass, \<open>TTTflag\<close> being false. The state is that of the RRC,
  \<open>targetSINR\<close> and the log.
\<close>

definition ttt_scan ::
  "ho_env \<Rightarrow> real \<Rightarrow> netsim_id \<Rightarrow> netsim_id \<Rightarrow> netsim_id \<Rightarrow> real \<Rightarrow> LTENR_RRC_UE_MEASUREMENT_REPORT
     \<Rightarrow> LTENR_GNBRRC \<times> real \<times> ho_effect list \<Rightarrow> LTENR_GNBRRC \<times> real \<times> ho_effect list" where
  "ttt_scan H now gnbID ueID ueIF servingSINR report1 = (\<lambda>(gnbrrc, targetSINR, xs).
     if \<not> report_considered H ueID ueIF report1 \<or> rep_cellID report1 = gnbID then (gnbrrc, targetSINR, xs)
     else let cell = rep_cellID report1;
              Trigger = fn_NetSim_LTENR_Conditional_HO_TTT_Matrix_Find (Conditional_HO_TTT_Matrix gnbrrc) ueID cell;
              set_to = (\<lambda>v. gnbrrc\<lparr>Conditional_HO_TTT_Matrix :=
                fn_NetSim_LTENR_Conditional_HO_TTT_Matrix_Set (Conditional_HO_TTT_Matrix gnbrrc) ueID cell v\<rparr>);
              log = (\<lambda>m. xs @ [HandoverLog ueID servingSINR (rep_sinr report1) gnbID cell m])
          in if rep_sinr report1 - servingSINR > HandoverMargin gnbrrc
             then (if Trigger = - 1 \<and> TTT gnbrrc > 0
                   then (set_to now, targetSINR, log ''Handover offset conditions met'')
                   else if now - Trigger \<ge> TTT gnbrrc * MILLISECOND then (gnbrrc, rep_sinr report1, xs)
                   else (gnbrrc, targetSINR, xs))
             else if Trigger \<noteq> - 1
             then (set_to (- 1), targetSINR, log ''Handover not initiated. TTT condition not met'')
             else (gnbrrc, targetSINR, xs))"

definition serving_sinr :: "ho_env \<Rightarrow> netsim_id \<Rightarrow> netsim_id \<Rightarrow> netsim_id \<Rightarrow> LTENR_RRC_UE_MEASUREMENT_REPORT list \<Rightarrow> real" where
  "serving_sinr H gnbID ueID ueIF report =
     (case find (\<lambda>r. report_considered H ueID ueIF r \<and> rep_cellID r = gnbID) report of
        Some r \<Rightarrow> rep_sinr r | None \<Rightarrow> 0)"

text \<open>What follows when the target is accepted.\<close>

definition initiate_handover ::
  "ho_env \<Rightarrow> netsim_id \<Rightarrow> netsim_id \<Rightarrow> netsim_id \<Rightarrow> netsim_id \<Rightarrow> real \<Rightarrow> real \<Rightarrow> netsim_id
     \<Rightarrow> ho_state \<Rightarrow> ho_state result" where
  "initiate_handover H gnbID gnbIF ueID ueIF servingSINR targetSINR target s =
     (let s1 = ho_out (HandoverLog ueID servingSINR targetSINR gnbID target ''Handover Initiated'') s;
          tif = fn_NetSim_Get_LTENR_INTERFACE_ID_FROM_DEVICE_ID (pdcpE H) target;
          msg = \<lparr>ho_msgType = LTENR_MSG_NAS_HANDOVER_REQUEST, ho_msg = None, serveringCellID = gnbID,
                 serveringCellIF = gnbIF, targetCellID = target, targetCellIF = tif, UEID = ueID, UEIF = ueIF,
                 AMFID = 0, AMFIF = 0, targetAMFID = 0, targetAMFIF = 0, associateSMFID = 0,
                 HandoverStartTime = ho_time s\<rparr>;
          via_amf = (\<lambda>rrc. msg\<lparr>AMFID := SelectedAMFID rrc, AMFIF := SelectedAMFIF rrc,
                 targetAMFID := connectedAMF H target tif,
                 targetAMFIF := fn_NetSim_LTENR_CORE_INTERFACE H (connectedAMF H target tif) nGC_INTERFACE_N1_N2,
                 associateSMFID := connectedSMF H target tif\<rparr>);
          via_epc = msg\<lparr>AMFID := fst (gnb_epc H gnbID gnbIF), AMFIF := snd (gnb_epc H gnbID gnbIF)\<rparr>;
          data = ho_data H ueID ueIF
      in if \<not> fn_NetSim_isDeviceLTENR H gnbID gnbIF
         then (if fn_NetSim_LTENR_CORE_INTERFACE H gnbID nGC_INTERFACE_XN \<noteq> 0
               then (if isDCEnable data \<and> NSA_MODE data \<in> {NSA_MODE_OPTION7, NSA_MODE_OPTION7A, NSA_MODE_OPTION7X}
                     then rbind (deref (ho_ue_rrc s1 (ueID, ueIF))) (\<lambda>rrc. Inr (LTENR_HANDOVER_REQUEST (via_amf rrc) s1))
                     else Inr (LTENR_HANDOVER_REQUEST via_epc s1))
               else Inr (ho_out (NASHandoverRequest via_epc) s1))
         else rbind (deref (ho_ue_rrc s1 (ueID, ueIF))) (\<lambda>rrc. Inr (LTENR_HANDOVER_REQUEST (via_amf rrc) s1)))"

text \<open>The two calls about the secondary cell, between the loops and the decision.\<close>

definition measurement_sn ::
  "ho_env \<Rightarrow> netsim_id \<Rightarrow> netsim_id \<Rightarrow> LTENR_RRC_UE_MEASUREMENT_REPORT list \<Rightarrow> ho_state \<Rightarrow> ho_state result" where
  "measurement_sn H ueID ueIF report s =
     (if isDCEnable (ho_data H ueID ueIF)
      then rbind (deref (ho_ue_rrc s (ueID, ueIF))) (\<lambda>rrc.
           rbind (if SNID rrc = 0 then fn_NetSim_LTENR_SEC_CELL_SelectionAddition H ueID ueIF s else Inr s) (\<lambda>s1.
           rbind (deref (ho_ue_rrc s1 (ueID, ueIF))) (\<lambda>rrc1.
             if SNID rrc1 \<noteq> 0 then fn_NetSim_DC_HO_SN_PROCESSIONG H ueID ueIF report s1 else Inr s1)))
      else Inr s)"

text \<open>
  The first pass over the report stops at the serving cell, the second runs through all of it.
  The one assignment of \<open>target\<close> after its initialisation is commented out in the source.
\<close>

definition fn_NetSim_LTENR_RRC_UE_MEASUREMENT_RECV ::
  "ho_env \<Rightarrow> netsim_id \<Rightarrow> netsim_id \<Rightarrow> netsim_id \<Rightarrow> netsim_id \<Rightarrow> LTENR_RRC_UE_MEASUREMENT_REPORT list
     \<Rightarrow> ho_state \<Rightarrow> ho_state result" where
  "fn_NetSim_LTENR_RRC_UE_MEASUREMENT_RECV H gnbID gnbIF ueID ueIF report s =
     rbind (deref (ho_gnb_rrc s (gnbID, gnbIF))) (\<lambda>gnbrrc0.
       let target = 0; servingSINR = serving_sinr H gnbID ueID ueIF report
       in case fold (ttt_scan H (ho_time s) gnbID ueID ueIF servingSINR) report (gnbrrc0, INT_MIN, []) of
            (gnbrrc, targetSINR, xs) \<Rightarrow>
              let s1 = s\<lparr>ho_gnb_rrc := (ho_gnb_rrc s)((gnbID, gnbIF) := Some gnbrrc), ho_trace := ho_trace s @ xs\<rparr>
              in rbind (measurement_sn H ueID ueIF report s1) (\<lambda>s2.
                 if servingSINR + HandoverMargin gnbrrc < targetSINR \<and> target > 0 \<and> gnbID \<noteq> target
                 then initiate_handover H gnbID gnbIF ueID ueIF servingSINR targetSINR target s2
                 else Inr s2))"

end
