(* ===== verification/PDCP_Props.thy ===== *)
theory PDCP_Props
  imports PDCP RLC_Core_Props
begin

text \<open>
  Properties of the PDCP sublayer: when a received PDU goes up, the reordering timer, the
  COUNT a receiver recovers, the discard timer, numbering and association.
\<close>

declare of_nat_unat [simp del]

section \<open>The buffer library\<close>

text \<open>
  What \<open>LTENR_Buffer.h\<close> promises: packets are appended, or put before the first one the sort
  function says comes after them; the head is looked at or taken.
\<close>

locale buffer_library =
  fixes B :: buffer_lib
  assumes add_law [simp]: "LTENR_BUFFER_ADDPACKET B xs x = xs @ [x]"
    and add_sorted_law: "LTENR_BUFFER_ADDPACKET_SORTED B xs x f
      = takeWhile (\<lambda>y. \<not> f y x) xs @ x # dropWhile (\<lambda>y. \<not> f y x) xs"
    and head_law [simp]: "LTENR_BUFFER_HEADPACKET B xs = (case xs of [] \<Rightarrow> None | x # _ \<Rightarrow> Some x)"
    and get_law [simp]: "LTENR_BUFFER_GETPACKET B xs = (case xs of [] \<Rightarrow> (None, []) | x # ys \<Rightarrow> (Some x, ys))"

definition plain_buffer_lib :: buffer_lib where
  "plain_buffer_lib =
     \<lparr>LTENR_BUFFER_ADDPACKET = (\<lambda>xs x. xs @ [x]),
      LTENR_BUFFER_ADDPACKET_SORTED = (\<lambda>xs x f. takeWhile (\<lambda>y. \<not> f y x) xs @ x # dropWhile (\<lambda>y. \<not> f y x) xs),
      LTENR_BUFFER_HEADPACKET = (\<lambda>xs. case xs of [] \<Rightarrow> None | x # _ \<Rightarrow> Some x),
      LTENR_BUFFER_GETPACKET = (\<lambda>xs. case xs of [] \<Rightarrow> (None, []) | x # ys \<Rightarrow> (Some x, ys))\<rparr>"

interpretation plain_buffer: buffer_library plain_buffer_lib
  by unfold_locales (simp_all add: plain_buffer_lib_def)

text \<open>One gNB, device 1, and UEs without dual connectivity.\<close>

definition plain_pdcp_env :: pdcp_env where
  "plain_pdcp_env =
     \<lparr>core = plain_core_env, buf_lib = plain_buffer_lib,
      pdcp_AddEvent = (\<lambda>ev tr. of_nat (length tr)),
      fn_NetSim_LTENR_NSA_IS_CORE_SPLIT_EXISTS = (\<lambda>d i. False),
      fn_NetSim_LTENR_NSA_IS_OPTION_X_EXISTS = (\<lambda>d i. False),
      fn_NetSim_LTENR_MASTER_INTEFACE_FOR_UE = (\<lambda>d i. i),
      fn_NetSim_LTENR_SEC_INTEFACE_FOR_UE = (\<lambda>d i. 2),
      fn_NetSim_Get_LTENR_INTERFACE_ID_FROM_DEVICE_ID = (\<lambda>d. 1)\<rparr>"

locale pdcp_environment = buffer_library "buf_lib P" + packet_api "kernel (core P)" for P :: pdcp_env

lemma plain_pdcp_fields [simp]:
  "core plain_pdcp_env = plain_core_env" "buf_lib plain_pdcp_env = plain_buffer_lib"
  "kernel plain_core_env = plain_rlc_env"
  by (simp_all add: plain_pdcp_env_def plain_core_env_def)

interpretation plain_pdcp: pdcp_environment plain_pdcp_env
  using plain_buffer.buffer_library_axioms plain_rlc.packet_api_axioms
  by (simp add: pdcp_environment_def)

lemma HASPACKET_Nil [simp]: "\<not> LTENR_BUFFER_HASPACKET []"
  and HASPACKET_Cons [simp]: "LTENR_BUFFER_HASPACKET (x # xs)"
  by (simp_all add: LTENR_BUFFER_HASPACKET_def)

section \<open>Delivery\<close>

text \<open>COUNT of a PDU at a receiver, and the receiver no PDU is waiting in.\<close>

definition recv_count :: "LTENR_PDCPENTITY \<Rightarrow> LTENR_PDCP_HDR \<Rightarrow> u32" where
  "recv_count e h = snd (snd (LTENR_PDCP_CALCULATE_STATE_VARIABLE e h))"

definition nothing_waits :: "LTENR_PDCPENTITY \<Rightarrow> bool" where
  "nothing_waits e \<longleftrightarrow> pe_receiveBuffer e = [] \<and> RX_REORD e = 0 \<and> \<not> isT_ReorderingRunning e"

text \<open>What such a receiver makes of a PDU.\<close>

definition sdu_of :: "pdcp_env \<Rightarrow> NetSim_PACKET \<Rightarrow> NetSim_PACKET" where
  "sdu_of P p = LTENR_HDR_FREE_FROM_PACKET (kernel (core P)) p PDCPHDRID"

definition received_at :: "u32 \<Rightarrow> LTENR_PDCPENTITY \<Rightarrow> LTENR_PDCPENTITY" where
  "received_at c e = e\<lparr>RX_DELIV := c, RX_NEXT := (if RX_NEXT e \<le> c then c + 1 else RX_NEXT e)\<rparr>"

definition goes_up :: "pdcp_env \<Rightarrow> NetSim_PACKET \<Rightarrow> PDCP_EVENT \<Rightarrow> PDCP_EVENT" where
  "goes_up P p s = LTENR_PDCP_SendUp (sdu_of P p) (s\<lparr>pv_packet := Some (sdu_of P p)\<rparr>)"

lemma nothing_waits_received [simp]: "nothing_waits (received_at c e) = nothing_waits e"
  by (simp add: nothing_waits_def received_at_def)

lemma ACTION_idle:
  "nothing_waits e \<Longrightarrow> LTENR_PDCP_ACTION_FOR_TREORDERING_ONRECEV P e s = (e, s)"
  by (simp add: nothing_waits_def LTENR_PDCP_ACTION_FOR_TREORDERING_ONRECEV_def)

context pdcp_environment
begin

lemma enqueue_empty:
  "pe_receiveBuffer e = [] \<Longrightarrow> \<exists>b. bp_packet b = p \<and> bp_count b = Some c
     \<and> LTENR_PDCP_RXBUFFER_ENQUEUE P e p c s = Inr (e\<lparr>pe_receiveBuffer := [b], RX_DELIV := c\<rparr>)"
  by (rule exI [of _ "\<lparr>bp_packet = p, bp_size = UINT64_of_double (dPacketSize p), bp_time = pv_time s,
      bp_count = Some c\<rparr>"])
     (simp add: LTENR_PDCP_RXBUFFER_ENQUEUE_def add_sorted_law Let_def)

lemma deliver_one:
  assumes "pe_receiveBuffer e = [b]" and "bp_count b = Some c" and "RX_DELIV e = c"
  shows "LTENR_PDCP_DeliverSDUToUpperLayer P ooo e c s
    = Inr (e\<lparr>pe_receiveBuffer := []\<rparr>, goes_up P (bp_packet b) s)"
  using assms
  by (simp add: LTENR_PDCP_DeliverSDUToUpperLayer_def goes_up_def sdu_of_def Let_def)

lemma receive_unfold:
  assumes "LTENR_PDCP_HDR_GET P p = Some h" and "nothing_waits e"
  shows "pdcp_receive P ooo e p s =
    (if recv_count e h < RX_DELIV e \<and> \<not> isLTENRControlPacket p
     then Inr (e, (out (Freed p) s)\<lparr>pv_packet := None\<rparr>)
     else Inr (received_at (recv_count e h) e, goes_up P p s))"
proof -
  obtain sn hfn c where calc: "LTENR_PDCP_CALCULATE_STATE_VARIABLE e h = (sn, hfn, c)"
    by (cases "LTENR_PDCP_CALCULATE_STATE_VARIABLE e h") auto
  then have c: "recv_count e h = c" by (simp add: recv_count_def)
  have rb: "pe_receiveBuffer e = []" using assms(2) by (simp add: nothing_waits_def)
  from enqueue_empty [OF rb] obtain b where b: "bp_packet b = p" "bp_count b = Some c"
    and enq: "LTENR_PDCP_RXBUFFER_ENQUEUE P e p c s = Inr (e\<lparr>pe_receiveBuffer := [b], RX_DELIV := c\<rparr>)"
    by blast
  let ?e2 = "LTENR_PDCP_UPDATE_STATE_VARIABLE (e\<lparr>pe_receiveBuffer := [b], RX_DELIV := c\<rparr>) c"
  have e2: "pe_receiveBuffer ?e2 = [b]" "RX_DELIV ?e2 = c"
    by (simp_all add: LTENR_PDCP_UPDATE_STATE_VARIABLE_def)
  have e3: "?e2\<lparr>pe_receiveBuffer := []\<rparr> = received_at c e"
    using rb by (simp add: LTENR_PDCP_UPDATE_STATE_VARIABLE_def received_at_def)
  have idle: "nothing_waits (received_at c e)" using assms(2) by simp
  show ?thesis
    using assms(1)
    by (simp add: pdcp_receive_def calc c LTENR_PDCP_ISDUPLICATEPDU_def enq Let_def
        deliver_one [OF e2(1) b(2) e2(2)] e3 b(1) ACTION_idle [OF idle])
qed

lemma receive_no_hdr:
  "LTENR_PDCP_HDR_GET P p = None \<Longrightarrow>
     pdcp_receive P ooo e p s = Inr (e, (out (Freed p) (out PdcpError s))\<lparr>pv_packet := None\<rparr>)"
  by (simp add: pdcp_receive_def)

lemma receive_keeps_idle:
  assumes "nothing_waits e"
  obtains e' s' where "pdcp_receive P ooo e p s = Inr (e', s')" and "nothing_waits e'"
    and "\<exists>xs. pv_trace s' = pv_trace s @ xs \<and> (\<forall>ev id. StartTimer ev id \<notin> set xs)"
proof (cases "LTENR_PDCP_HDR_GET P p")
  case None
  then show ?thesis using assms that by (simp add: receive_no_hdr out_def)
next
  case (Some h)
  then show ?thesis
    using assms that
    by (cases "recv_count e h < RX_DELIV e \<and> \<not> isLTENRControlPacket p")
       (auto simp: receive_unfold out_def goes_up_def LTENR_PDCP_SendUp_def)
qed

end

section \<open>The COUNT a receiver recovers\<close>

text \<open>COUNT of the PDU numbered \<open>k\<close>: the sender puts \<open>k mod 4095\<close> into its header.\<close>

definition count_of :: "nat \<Rightarrow> u32" where
  "count_of k = of_nat (4096 * (k div 4095) + k mod 4095)"

text \<open>The numbers for which COUNT does not wrap.\<close>

definition max_sdus :: nat where "max_sdus = 4095 * 2 ^ 20"

lemma count_below: "k < max_sdus \<Longrightarrow> 4096 * (k div 4095) + k mod 4095 < 2 ^ 32"
proof -
  assume "k < max_sdus"
  then have "k div 4095 < 2 ^ 20" by (simp add: max_sdus_def div_less_iff_less_mult mult.commute)
  moreover have "k mod 4095 < 4095" by simp
  moreover have "(2 :: nat) ^ 20 = 1048576" "(2 :: nat) ^ 32 = 4294967296" by simp_all
  ultimately show ?thesis by linarith
qed

lemma unat_of_nat_32: "n < 2 ^ 32 \<Longrightarrow> unat (of_nat n :: u32) = n"
  by (simp add: unat_of_nat take_bit_eq_mod)

lemma unat_count_of: "k < max_sdus \<Longrightarrow> unat (count_of k) = 4096 * (k div 4095) + k mod 4095"
  unfolding count_of_def by (rule unat_of_nat_32) (rule count_below)

lemma unat_and_FFF: "unat ((x :: u32) AND 0xFFF) = unat x mod 4096"
proof -
  have m: "(0xFFF :: u32) = mask 12" by (simp add: mask_eq_exp_minus_1)
  show ?thesis unfolding m take_bit_eq_mask [symmetric] by (simp only: unsigned_take_bit_eq) (simp add: take_bit_eq_mod)
qed

lemma PDCP_SN_unat: "unat (LTENR_PDCP_SN x) = unat x mod 4096"
  by (simp only: LTENR_PDCP_SN_def unat_and_FFF)

lemma PDCP_HFN_unat: "unat (LTENR_PDCP_HFN x) = unat x div 4096"
  by (simp add: LTENR_PDCP_HFN_def LTENR_PDCP_SN_SIZE_def drop_bit_eq_div unat_div)

lemma word_unatI: "unat (x :: u32) = n \<Longrightarrow> x = of_nat n"
  by (auto simp: of_nat_unat)

lemma count_of_parts:
  assumes "k < max_sdus"
  shows "LTENR_PDCP_SN (count_of k) = of_nat (k mod 4095)"
    and "LTENR_PDCP_HFN (count_of k) = of_nat (k div 4095)"
proof -
  have a: "k mod 4095 < 4096" by (rule less_trans [of _ 4095]) simp_all
  show "LTENR_PDCP_SN (count_of k) = of_nat (k mod 4095)"
    using a by (intro word_unatI) (simp add: PDCP_SN_unat unat_count_of [OF assms])
  show "LTENR_PDCP_HFN (count_of k) = of_nat (k div 4095)"
    using a by (intro word_unatI) (simp add: PDCP_HFN_unat unat_count_of [OF assms])
qed

lemma COUNT_of_parts: "LTENR_PDCP_COUNT (of_nat q) (of_nat r) = of_nat (4096 * q + r)"
  by (simp add: LTENR_PDCP_COUNT_def LTENR_PDCP_SN_SIZE_def push_bit_eq_mult)

lemma sint_of_int_self: "- (2 ^ 31) \<le> k \<Longrightarrow> k < 2 ^ 31 \<Longrightarrow> sint (word_of_int k :: u32) = k"
  by (simp add: sint_sbintrunc' signed_take_bit_int_eq_self)

lemma window_compare:
  assumes "a < 4095" and "b < 4095"
  shows "sint (of_nat b :: u32) < sint (of_nat a - LTENR_PDCP_WINDOW_SIZE) \<longleftrightarrow> b + 2048 < a"
    and "sint (of_nat b :: u32) \<ge> sint (of_nat a + LTENR_PDCP_WINDOW_SIZE) \<longleftrightarrow> a + 2048 \<le> b"
proof -
  have eqs: "(of_nat b :: u32) = word_of_int (int b)"
    "(of_nat a - LTENR_PDCP_WINDOW_SIZE :: u32) = word_of_int (int a - 2048)"
    "(of_nat a + LTENR_PDCP_WINDOW_SIZE :: u32) = word_of_int (int a + 2048)"
    by (simp_all add: LTENR_PDCP_WINDOW_SIZE_def)
  have s: "sint (word_of_int (int b) :: u32) = int b" "sint (word_of_int (int a - 2048) :: u32) = int a - 2048"
    "sint (word_of_int (int a + 2048) :: u32) = int a + 2048"
    by (rule sint_of_int_self; use assms in simp)+
  show "sint (of_nat b :: u32) < sint (of_nat a - LTENR_PDCP_WINDOW_SIZE) \<longleftrightarrow> b + 2048 < a"
    "sint (of_nat b :: u32) \<ge> sint (of_nat a + LTENR_PDCP_WINDOW_SIZE) \<longleftrightarrow> a + 2048 \<le> b"
    unfolding eqs s by linarith+
qed

text \<open>The sequence number in the header of PDU \<open>k\<close>.\<close>

lemma header_sn:
  assumes "k < max_sdus"
  shows "(of_nat k mod POW_2_SN_SIZE) AND 0xFFF = (of_nat (k mod 4095) :: u32)"
proof -
  have k: "unat (of_nat k :: u32) = k" using assms by (intro unat_of_nat_32) (simp add: max_sdus_def)
  have a: "k mod 4095 < 4096" by (rule less_trans [of _ 4095]) simp_all
  have "of_nat k mod POW_2_SN_SIZE = (of_nat (k mod 4095) :: u32)"
    by (rule word_unatI) (simp add: POW_2_SN_SIZE_def unat_mod k)
  moreover have "(of_nat (k mod 4095) :: u32) AND 0xFFF = of_nat (k mod 4095)"
  proof (rule word_unatI)
    have "unat (of_nat (k mod 4095) :: u32) = k mod 4095" using a by (intro unat_of_nat_32) (rule less_trans, assumption, simp)
    then show "unat ((of_nat (k mod 4095) :: u32) AND 0xFFF) = k mod 4095" using a by (simp only: unat_and_FFF) simp
  qed
  ultimately show ?thesis by simp
qed

lemma hfn_choice:
  fixes q r q' r' :: nat
  assumes "r < 4095" and "r' < 4095"
    and "4095 * q' + r' \<le> 4095 * q + r + 2046" and "4095 * q + r \<le> 4095 * q' + r' + 2046"
  shows "(if r' + 2048 < r then q + 1 else if r + 2048 \<le> r' then q - 1 else q) = q'"
    and "r + 2048 \<le> r' \<Longrightarrow> 0 < q"
proof -
  consider "q' = q" | "q' = Suc q" | "q = Suc q'"
    using assms by linarith
  then show "(if r' + 2048 < r then q + 1 else if r + 2048 \<le> r' then q - 1 else q) = q'"
    by cases (use assms in simp_all)
  show "r + 2048 \<le> r' \<Longrightarrow> 0 < q"
    using assms by linarith
qed

text \<open>
  Within 2046 SDUs of the last one received, in either direction, the receiver finds the COUNT
  the sender's number stands for.
\<close>

lemma recv_count_exact:
  assumes "RX_DELIV e = count_of i" and "pdcp_SN h = of_nat (j mod 4095)"
    and "i < max_sdus" and "j < max_sdus" and "j \<le> i + 2046" and "i \<le> j + 2046"
  shows "snd (snd (LTENR_PDCP_CALCULATE_STATE_VARIABLE e h)) = count_of j"
proof -
  let ?q = "i div 4095" and ?r = "i mod 4095" and ?q' = "j div 4095" and ?r' = "j mod 4095"
  have r: "?r < 4095" "?r' < 4095" by simp_all
  have near: "4095 * ?q' + ?r' \<le> 4095 * ?q + ?r + 2046" "4095 * ?q + ?r \<le> 4095 * ?q' + ?r' + 2046"
    using assms(5,6) by simp_all
  have hfn: "(if ?r' + 2048 < ?r then of_nat ?q + 1
      else if ?r + 2048 \<le> ?r' then of_nat ?q - 1 else of_nat ?q) = (of_nat ?q' :: u32)"
  proof -
    have step: "of_nat (n + 1) = of_nat n + (1 :: u32)" "0 < m \<Longrightarrow> of_nat (m - 1) = of_nat m - (1 :: u32)"
      for n m :: nat by (simp_all add: of_nat_diff)
    show ?thesis
      using hfn_choice(1) [OF r near, symmetric] hfn_choice(2) [OF r near] step(1) [of ?q] step(2) [of ?q]
      by (simp split: if_splits)
  qed
  show ?thesis
    unfolding LTENR_PDCP_CALCULATE_STATE_VARIABLE_def Let_def assms(1,2)
      count_of_parts [OF assms(3)] window_compare [OF r] snd_conv hfn COUNT_of_parts
    by (simp add: count_of_def)
qed

lemma count_of_mono: "i < j \<Longrightarrow> j < max_sdus \<Longrightarrow> count_of i < count_of j"
proof -
  assume ij: "i < j" "j < max_sdus"
  have split: "4096 * (n div 4095) + n mod 4095 = n + n div 4095" for n :: nat
    using div_mult_mod_eq [of n 4095] by linarith
  have "i div 4095 \<le> j div 4095" using ij(1) by (simp add: div_le_mono)
  then have "4096 * (i div 4095) + i mod 4095 < 4096 * (j div 4095) + j mod 4095"
    unfolding split using ij(1) by linarith
  then show ?thesis
    using ij by (simp add: word_less_nat_alt unat_count_of)
qed

section \<open>A receiver and its sender\<close>

text \<open>Several PDUs one after the other.\<close>

fun receive_all ::
  "pdcp_env \<Rightarrow> bool \<Rightarrow> NetSim_PACKET list \<Rightarrow> LTENR_PDCPENTITY \<Rightarrow> PDCP_EVENT
     \<Rightarrow> (LTENR_PDCPENTITY \<times> PDCP_EVENT) result" where
  "receive_all P ooo [] e s = Inr (e, s)"
| "receive_all P ooo (p # ps) e s = rbind (pdcp_receive P ooo e p s) (\<lambda>(e', s'). receive_all P ooo ps e' s')"

text \<open>PDU \<open>k\<close> of the sender, made of the SDU \<open>p\<close>, and the call that takes an SDU up.\<close>

definition pdu :: "pdcp_env \<Rightarrow> nat \<times> NetSim_PACKET \<Rightarrow> NetSim_PACKET" where
  "pdu P kp = LTENR_PDCP_ADDHDR P (of_nat (fst kp)) (snd kp)"

definition up_call :: "NetSim_PACKET \<Rightarrow> pdcp_effect" where
  "up_call p = (if LTENR_IS_UPLANE_MSG p then ToSDAP p
     else if nControlDataType p = LTENR_MSG_NAS_HANDOVER_COMMAND then ToNAS p else UpToRRC p)"

lemma SendUp_out: "LTENR_PDCP_SendUp p s = out (up_call p) s"
  by (simp add: LTENR_PDCP_SendUp_def up_call_def)

lemma count_of_0 [simp]: "count_of 0 = 0"
  by (simp add: count_of_def)

context pdcp_environment
begin

lemma pdu_hdr:
  "LTENR_HDR_GET_FROM_PACKET (kernel (core P)) (snd kp) PDCPHDRID = None \<Longrightarrow> fst kp < max_sdus \<Longrightarrow>
     LTENR_PDCP_HDR_GET P (pdu P kp) = Some \<lparr>pdcp_dcBit = DC_DATA, pdcp_SN = of_nat (fst kp mod 4095)\<rparr>"
  by (simp add: LTENR_PDCP_HDR_GET_def pdu_def LTENR_PDCP_ADDHDR_def header_sn)

lemma receive_pdu:
  assumes "LTENR_HDR_GET_FROM_PACKET (kernel (core P)) (snd kp) PDCPHDRID = None"
    and "nothing_waits e" and "RX_DELIV e = count_of i" and "i < max_sdus"
    and "i \<le> fst kp + 2046" and "fst kp \<le> i + 2046" and "fst kp < max_sdus"
  shows "pdcp_receive P ooo e (pdu P kp) s =
    (if count_of (fst kp) < count_of i \<and> \<not> isLTENRControlPacket (pdu P kp)
     then Inr (e, (out (Freed (pdu P kp)) s)\<lparr>pv_packet := None\<rparr>)
     else Inr (received_at (count_of (fst kp)) e, goes_up P (pdu P kp) s))"
proof -
  have "recv_count e \<lparr>pdcp_dcBit = DC_DATA, pdcp_SN = of_nat (fst kp mod 4095)\<rparr> = count_of (fst kp)"
    unfolding recv_count_def by (rule recv_count_exact [OF assms(3)]) (use assms in simp_all)
  then show ?thesis
    using receive_unfold [OF pdu_hdr [OF assms(1,7)] assms(2)] assms(3) by simp
qed

lemma count_of_le: "i \<le> k \<Longrightarrow> k < max_sdus \<Longrightarrow> \<not> count_of k < count_of i"
  using count_of_mono [of i k] by (cases "i = k") auto

lemma count_of_less: "i < max_sdus \<Longrightarrow> k < max_sdus \<Longrightarrow> count_of k < count_of i \<longleftrightarrow> k < i"
  using count_of_mono [of k i] count_of_le [of i k] by (cases "k < i") auto

end

text \<open>
  The reference for a receiver: \<open>i\<close> is the number of the PDU it handed up last. A PDU of the user plane
  with a smaller number is freed; every other one is handed up, and its number is the new \<open>i\<close>.
\<close>

definition overtaken :: "pdcp_env \<Rightarrow> nat \<Rightarrow> nat \<times> NetSim_PACKET \<Rightarrow> bool" where
  "overtaken P i kp \<longleftrightarrow> fst kp < i \<and> \<not> isLTENRControlPacket (pdu P kp)"

fun link_calls :: "pdcp_env \<Rightarrow> nat \<Rightarrow> (nat \<times> NetSim_PACKET) list \<Rightarrow> pdcp_effect list" where
  "link_calls P i [] = []"
| "link_calls P i (kp # kps) =
     (if overtaken P i kp then Freed (pdu P kp) # link_calls P i kps
      else up_call (sdu_of P (pdu P kp)) # link_calls P (fst kp) kps)"

text \<open>Every number lies within 2046 of the one handed up last.\<close>

fun near :: "pdcp_env \<Rightarrow> nat \<Rightarrow> (nat \<times> NetSim_PACKET) list \<Rightarrow> bool" where
  "near P i [] \<longleftrightarrow> i < max_sdus"
| "near P i (kp # kps) \<longleftrightarrow> i < max_sdus \<and> fst kp < max_sdus \<and> i \<le> fst kp + 2046 \<and> fst kp \<le> i + 2046
     \<and> near P (if overtaken P i kp then i else fst kp) kps"

context pdcp_environment
begin

lemma link_delivers:
  assumes "\<forall>kp \<in> set kps. LTENR_HDR_GET_FROM_PACKET (kernel (core P)) (snd kp) PDCPHDRID = None"
    and "near P i kps" and "nothing_waits e" and "RX_DELIV e = count_of i"
  shows "\<exists>e' s'. receive_all P ooo (map (pdu P) kps) e s = Inr (e', s') \<and> nothing_waits e'
    \<and> pv_trace s' = pv_trace s @ link_calls P i kps"
  using assms
proof (induction kps arbitrary: i e s)
  case Nil
  then show ?case by simp
next
  case (Cons kp kps)
  note n = Cons.prems(2) [simplified]
  have step: "pdcp_receive P ooo e (pdu P kp) s =
    (if overtaken P i kp then Inr (e, (out (Freed (pdu P kp)) s)\<lparr>pv_packet := None\<rparr>)
     else Inr (received_at (count_of (fst kp)) e, goes_up P (pdu P kp) s))"
    using receive_pdu [of kp e i ooo s] Cons.prems n count_of_less [of i "fst kp"] by (simp add: overtaken_def)
  show ?case
  proof (cases "overtaken P i kp")
    case True
    then have "near P i kps" using n by simp
    from Cons.IH [OF _ this Cons.prems(3,4), of "(out (Freed (pdu P kp)) s)\<lparr>pv_packet := None\<rparr>"] Cons.prems(1) True step
    show ?thesis by (auto simp: out_def)
  next
    case False
    then have k: "near P (fst kp) kps" using n by simp
    have "RX_DELIV (received_at (count_of (fst kp)) e) = count_of (fst kp)"
      by (simp add: received_at_def)
    then show ?thesis
      using Cons.IH [OF _ k, of "received_at (count_of (fst kp)) e" "goes_up P (pdu P kp) s"] Cons.prems False step
      by (auto simp: goes_up_def SendUp_out out_def)
  qed
qed

end

text \<open>
  C31. What a new receiver makes of the PDUs of its sender, in whatever order they come, as long as
  each number is within 2046 of the one handed up last. A PDU with that number or a larger one goes up
  at once, without its header, and no gap is waited for: a PDU that comes twice in a row goes up twice.
  A PDU of the user plane with a smaller number, which others overtook, is freed; one of the
  control plane goes up, and the receiver falls back to its number. Nothing ever waits.
\<close>

theorem pdcp_link_delivers:
  assumes "pdcp_environment P"
    and "\<forall>kp \<in> set kps. LTENR_HDR_GET_FROM_PACKET (kernel (core P)) (snd kp) PDCPHDRID = None"
    and "near P 0 kps"
  shows "\<exists>e' s'. receive_all P ooo (map (pdu P) kps) (LTENR_PDCP_CreateNewEntity enb enbIf ue ueIf m) s = Inr (e', s')
    \<and> pe_receiveBuffer e' = []
    \<and> pv_trace s' = pv_trace s @ link_calls P 0 kps"
  using pdcp_environment.link_delivers [OF assms,
      of "LTENR_PDCP_CreateNewEntity enb enbIf ue ueIf m" ooo s]
  by (auto simp: nothing_waits_def LTENR_PDCP_CreateNewEntity_def)

declare of_nat_unat [simp del]

definition ex_sdu :: "nat \<Rightarrow> NetSim_PACKET" where
  "ex_sdu n = (plain_create 1 2 0 LTENR_MSG_USERDATA)\<lparr>nPacketId := int n, nPacketType := PacketType_CBR,
     dPayload := 100, dPacketSize := 100\<rparr>"

definition ex_event :: PDCP_EVENT where
  "ex_event = \<lparr>pv_time = 0, pv_deviceId = 2, pv_interfaceId = 1, pv_packet = None, pv_trace = []\<rparr>"

lemma ex_sdu_no_hdr [simp]:
  "LTENR_HDR_GET_FROM_PACKET plain_rlc_env (ex_sdu n) PDCPHDRID = None"
  by (simp add: ex_sdu_def plain_rlc_env_def plain_pkt_api_def pkt_api.defs plain_pkt_defs)

lemma ex_sdu_plane [simp]: "\<not> isLTENRControlPacket (pdu plain_pdcp_env (k, ex_sdu n))"
  by (simp add: isLTENRControlPacket_def pdu_def LTENR_PDCP_ADDHDR_def ex_sdu_def plain_rlc_env_def
      plain_pkt_api_def pkt_api.defs plain_pkt_defs)

text \<open>A gap, a PDU that comes twice, and one that was overtaken.\<close>

theorem pdcp_link_delivers_witness:
  "\<exists>e' s'. receive_all plain_pdcp_env False
      (map (pdu plain_pdcp_env) [(0, ex_sdu 0), (7, ex_sdu 7), (7, ex_sdu 7), (4, ex_sdu 4)])
      (LTENR_PDCP_CreateNewEntity 1 1 2 1 LTENR_RLCMODE_UM) ex_event = Inr (e', s')
    \<and> pe_receiveBuffer e' = []
    \<and> pv_trace s' = map (\<lambda>kp. up_call (sdu_of plain_pdcp_env (pdu plain_pdcp_env kp))) [(0, ex_sdu 0), (7, ex_sdu 7), (7, ex_sdu 7)]
        @ [Freed (pdu plain_pdcp_env (4, ex_sdu 4))]"
proof -
  let ?kps = "[(0, ex_sdu 0), (7, ex_sdu 7), (7, ex_sdu 7), (4, ex_sdu 4)]"
  have "near plain_pdcp_env 0 ?kps" by (simp add: overtaken_def max_sdus_def)
  from pdcp_link_delivers [OF plain_pdcp.pdcp_environment_axioms _ this, of False 1 1 2 1 LTENR_RLCMODE_UM ex_event]
  show ?thesis by (auto simp: overtaken_def ex_event_def)
qed

section \<open>Runs of an entity\<close>

text \<open>
  What can happen to an entity and the events of its device: a PDU comes in, an SDU goes out,
  a timer that was started fires, and time passes with other calls of the device.
\<close>

inductive pdcp_step ::
  "pdcp_env \<Rightarrow> LTENR_PDCPENTITY \<times> PDCP_EVENT \<Rightarrow> LTENR_PDCPENTITY \<times> PDCP_EVENT \<Rightarrow> bool" for P where
  receives: "pdcp_receive P ooo e p s = Inr (e', s') \<Longrightarrow> pdcp_step P (e, s) (e', s')"
| transmits: "LTENR_PDCP_SET_SN e = (sn, e1) \<Longrightarrow> LTENR_PDCP_TXBUFFER_ENQUEUE P e1 p s = (e', s') \<Longrightarrow>
    pdcp_step P (e, s) (e', s')"
| discard_fires: "StartTimer ev tid \<in> set (pv_trace s) \<Longrightarrow> pt_subevent ev = LTENR_SUBEVENT_PDCP_DISCARDTIMER \<Longrightarrow>
    isDiscardTimerStarted e \<Longrightarrow> LTENR_PDCP_HANDLE_DISCARD_TIMER P e s = Inr (e', s') \<Longrightarrow>
    pdcp_step P (e, s) (e', s')"
| reordering_fires: "StartTimer ev tid \<in> set (pv_trace s) \<Longrightarrow> pt_subevent ev = LTENR_SUBEVENT_PDCP_TREORDERINGTIMER \<Longrightarrow>
    LTENR_PDCP_HANDLE_TREORDERINGTIMER P e s = Inr (e', s') \<Longrightarrow> pdcp_step P (e, s) (e', s')"
| passes: "pdcp_step P (e, s) (e, s\<lparr>pv_time := t, pv_deviceId := d, pv_interfaceId := i, pv_packet := q\<rparr>)"

inductive_cases pdcp_stepE: "pdcp_step P (e, s) (e', s')"

text \<open>
  The invariant of an entity, and that every step keeps it. When the entity took over what another
  one held (\<open>h\<close>) SDUs can wait without the timer.
\<close>

definition no_reordering :: "pdcp_effect list \<Rightarrow> bool" where
  "no_reordering tr \<longleftrightarrow> (\<forall>ev tid. StartTimer ev tid \<in> set tr \<longrightarrow> pt_subevent ev = LTENR_SUBEVENT_PDCP_DISCARDTIMER)"

definition pdcp_inv :: "bool \<Rightarrow> LTENR_PDCPENTITY \<times> PDCP_EVENT \<Rightarrow> bool" where
  "pdcp_inv h x \<longleftrightarrow> nothing_waits (fst x) \<and> no_reordering (pv_trace (snd x))
     \<and> (isDiscardTimerStarted (fst x) \<longrightarrow> pe_transmissionBuffer (fst x) \<noteq> [])
     \<and> (pe_transmissionBuffer (fst x) \<noteq> [] \<longrightarrow> h \<or> isDiscardTimerStarted (fst x))"

lemma no_reordering_simps [simp]:
  "no_reordering []" "no_reordering (xs @ ys) \<longleftrightarrow> no_reordering xs \<and> no_reordering ys"
  "no_reordering [x] \<longleftrightarrow> (\<forall>ev tid. x = StartTimer ev tid \<longrightarrow> pt_subevent ev = LTENR_SUBEVENT_PDCP_DISCARDTIMER)"
  by (auto simp: no_reordering_def)

text \<open>What has waited for \<open>discardDelayTime\<close> or longer.\<close>

definition expired :: "real \<Rightarrow> real \<Rightarrow> LTENR_BUFFEREDPACKET \<Rightarrow> bool" where
  "expired delay now b \<longleftrightarrow> delay + bp_time b \<le> now"

text \<open>What the discard timer leaves: the timer runs for the new head, if there is one.\<close>

definition discard_timer_event :: "LTENR_PDCPENTITY \<Rightarrow> LTENR_BUFFEREDPACKET \<Rightarrow> PDCP_EVENT \<Rightarrow> pdcp_timer_event" where
  "discard_timer_event e b s = \<lparr>pt_time = bp_time b + discardDelayTime e + 1, pt_deviceId = pv_deviceId s,
     pt_interfaceId = pv_interfaceId s, pt_subevent = LTENR_SUBEVENT_PDCP_DISCARDTIMER\<rparr>"

context pdcp_environment
begin

lemma discard_loop_frees:
  assumes "pe_transmissionBuffer e \<noteq> []" and "length (pe_transmissionBuffer e) \<le> fuel"
  shows "discard_loop P fuel e s =
    Inr (e\<lparr>pe_transmissionBuffer := dropWhile (expired (discardDelayTime e) (pv_time s)) (pe_transmissionBuffer e)\<rparr>,
         s\<lparr>pv_trace := pv_trace s @ map (\<lambda>b. Freed (bp_packet b))
             (takeWhile (expired (discardDelayTime e) (pv_time s)) (pe_transmissionBuffer e))\<rparr>)"
  using assms
proof (induction fuel arbitrary: e s)
  case (Suc fuel)
  then obtain b bs where bs: "pe_transmissionBuffer e = b # bs" by (cases "pe_transmissionBuffer e") auto
  show ?case
  proof (cases "bs = []")
    case True
    then show ?thesis by (simp add: bs expired_def out_def)
  next
    case False
    have "length bs \<le> fuel" using Suc.prems by (simp add: bs)
    then show ?thesis
      using Suc.IH [of "e\<lparr>pe_transmissionBuffer := bs\<rparr>" "out (Freed (bp_packet b)) s"] False
      by (auto simp: bs expired_def out_def LTENR_BUFFER_HASPACKET_def)
  qed
qed simp

lemma HANDLE_DISCARD:
  assumes "pe_transmissionBuffer e \<noteq> []"
  shows "\<exists>e' s'. LTENR_PDCP_HANDLE_DISCARD_TIMER P e s = Inr (e', s')
    \<and> pe_transmissionBuffer e' = dropWhile (expired (discardDelayTime e) (pv_time s)) (pe_transmissionBuffer e)
    \<and> isDiscardTimerStarted e' = (dropWhile (expired (discardDelayTime e) (pv_time s)) (pe_transmissionBuffer e) \<noteq> [])
    \<and> nothing_waits e' = nothing_waits e
    \<and> pv_trace s' = pv_trace s @ map (\<lambda>b. Freed (bp_packet b)) (takeWhile (expired (discardDelayTime e) (pv_time s)) (pe_transmissionBuffer e))
        @ (case dropWhile (expired (discardDelayTime e) (pv_time s)) (pe_transmissionBuffer e) of [] \<Rightarrow> []
           | b # _ \<Rightarrow> [StartTimer (discard_timer_event e b s) (discardTimerId e')])"
  unfolding LTENR_PDCP_HANDLE_DISCARD_TIMER_def discard_loop_frees [OF assms(1) le_SucI [OF order.refl]]
  by (auto simp: LTENR_PDCP_RESET_DISCARD_TIMER_def pdcp_start_timer_def Let_def out_def nothing_waits_def
      LTENR_BUFFER_HASPACKET_def discard_timer_event_def simp del: dropWhile_eq_Nil_conv split: list.splits)

end

text \<open>
  When the discard timer fires while SDUs wait, the handler returns: the leading copies
  that have waited for the discard delay are freed, in order, the others stay, and the timer
  runs again for the first of those if there is one.
\<close>

theorem pdcp_discard_frees_expired:
  assumes "pdcp_environment P" and "pe_transmissionBuffer e \<noteq> []"
    and "late = (\<lambda>b. discardDelayTime e + bp_time b \<le> pv_time s)"
  shows "\<exists>e' s'. LTENR_PDCP_HANDLE_DISCARD_TIMER P e s = Inr (e', s')
    \<and> pe_transmissionBuffer e' = dropWhile late (pe_transmissionBuffer e)
    \<and> isDiscardTimerStarted e' = (dropWhile late (pe_transmissionBuffer e) \<noteq> [])
    \<and> pv_trace s' = pv_trace s @ map (\<lambda>b. Freed (bp_packet b)) (takeWhile late (pe_transmissionBuffer e))
        @ (case dropWhile late (pe_transmissionBuffer e) of [] \<Rightarrow> []
           | b # _ \<Rightarrow> [StartTimer (discard_timer_event e b s) (discardTimerId e')])"
proof -
  have late: "late = expired (discardDelayTime e) (pv_time s)" by (simp add: assms(3) expired_def fun_eq_iff)
  show ?thesis using pdcp_environment.HANDLE_DISCARD [OF assms(1,2), of s] unfolding late by blast
qed

definition ex_waiting :: "real \<Rightarrow> nat \<Rightarrow> LTENR_BUFFEREDPACKET" where
  "ex_waiting t n = \<lparr>bp_packet = ex_sdu n, bp_size = 100, bp_time = t, bp_count = None\<rparr>"

definition ex_sender :: LTENR_PDCPENTITY where
  "ex_sender = (LTENR_PDCP_CreateNewEntity 1 1 2 1 LTENR_RLCMODE_UM)\<lparr>discardDelayTime := 100,
     isDiscardTimerStarted := True, pe_transmissionBuffer := [ex_waiting 0 0, ex_waiting 30 1, ex_waiting 60 2]\<rparr>"

theorem pdcp_discard_frees_expired_witness:
  "\<exists>e' s'. LTENR_PDCP_HANDLE_DISCARD_TIMER plain_pdcp_env ex_sender (ex_event\<lparr>pv_time := 140\<rparr>) = Inr (e', s')
    \<and> pe_transmissionBuffer e' = [ex_waiting 60 2] \<and> isDiscardTimerStarted e'
    \<and> pv_trace s' = [Freed (ex_sdu 0), Freed (ex_sdu 1),
        StartTimer (discard_timer_event ex_sender (ex_waiting 60 2) (ex_event\<lparr>pv_time := 140\<rparr>)) (discardTimerId e')]"
proof -
  have "pe_transmissionBuffer ex_sender \<noteq> []" by (simp add: ex_sender_def)
  from pdcp_discard_frees_expired [OF plain_pdcp.pdcp_environment_axioms this refl, of "ex_event\<lparr>pv_time := 140\<rparr>"]
  show ?thesis
    by (simp add: ex_sender_def ex_waiting_def ex_event_def LTENR_PDCP_CreateNewEntity_def)
qed

context pdcp_environment
begin

lemma step_keeps_inv:
  assumes "pdcp_step P x y" and "pdcp_inv h x"
  shows "pdcp_inv h y"
  using assms
proof (cases rule: pdcp_step.cases)
  case (receives ooo e p s e' s')
  then have idle: "nothing_waits e" using assms(2) by (simp add: pdcp_inv_def)
  have same: "pe_transmissionBuffer e' = pe_transmissionBuffer e \<and> isDiscardTimerStarted e' = isDiscardTimerStarted e"
    using receives(3) receive_unfold [OF _ idle, of p _ ooo s] receive_no_hdr [of p ooo e s]
    by (cases "LTENR_PDCP_HDR_GET P p") (auto simp: received_at_def split: if_splits)
  obtain e2 s2 xs where "pdcp_receive P ooo e p s = Inr (e2, s2)" "nothing_waits e2"
    "pv_trace s2 = pv_trace s @ xs" "\<forall>ev tid. StartTimer ev tid \<notin> set xs"
    using receive_keeps_idle [OF idle, of ooo p s] by metis
  then show ?thesis
    using receives assms(2) same by (auto simp: pdcp_inv_def no_reordering_def)
next
  case (transmits e sn e1 p s e' s')
  have e1: "e1 = e\<lparr>TX_NEXT := TX_NEXT e + 1\<rparr>" using transmits(3) by (auto simp: LTENR_PDCP_SET_SN_def)
  show ?thesis
    using transmits assms(2)
    by (auto simp: pdcp_inv_def e1 LTENR_PDCP_TXBUFFER_ENQUEUE_def LTENR_PDCP_START_DISCARD_TIMER_def
        pdcp_start_timer_def out_def Let_def nothing_waits_def split: if_splits)
next
  case (discard_fires ev tid s e e' s')
  then have ne: "pe_transmissionBuffer e \<noteq> []" using assms(2) by (simp add: pdcp_inv_def)
  from HANDLE_DISCARD [OF ne, of s] discard_fires assms(2) show ?thesis
    by (auto simp: pdcp_inv_def discard_timer_event_def no_reordering_def split: list.splits)
next
  case (reordering_fires ev tid s e e' s')
  then show ?thesis using assms(2) by (auto simp: pdcp_inv_def no_reordering_def)
next
  case (passes e s t d i q)
  then show ?thesis using assms(2) by (simp add: pdcp_inv_def)
qed

end

declare of_nat_unat [simp del]

section \<open>Association\<close>

text \<open>The entity of one mode as association makes it, and the chain it makes.\<close>

definition new_pdcp_entity ::
  "LTENR_PDCPVAR \<Rightarrow> netsim_id \<Rightarrow> netsim_id \<Rightarrow> netsim_id \<Rightarrow> netsim_id \<Rightarrow> LTENR_RLCMODE \<Rightarrow> LTENR_PDCPENTITY" where
  "new_pdcp_entity v gnb gif ue uif m =
     (LTENR_PDCP_CreateNewEntity gnb gif ue uif m)
       \<lparr>discardDelayTime := discardDelayTimer v * MILLISECOND, t_Reordering := pv_t_Reordering v * MILLISECOND\<rparr>"

definition with_new :: "LTENR_RLCMODE list \<Rightarrow> netsim_id \<Rightarrow> netsim_id \<Rightarrow> netsim_id \<Rightarrow> netsim_id \<Rightarrow> LTENR_PDCPVAR \<Rightarrow> LTENR_PDCPVAR" where
  "with_new ms gnb gif ue uif v = v\<lparr>pdcpEntity := pdcpEntity v @ map (new_pdcp_entity v gnb gif ue uif) ms\<rparr>"

definition no_pdcp_entity :: "LTENR_PDCPVAR \<Rightarrow> netsim_id \<Rightarrow> netsim_id \<Rightarrow> netsim_id \<Rightarrow> netsim_id \<Rightarrow> bool" where
  "no_pdcp_entity v gnb gif ue uif \<longleftrightarrow> (\<forall>e \<in> set (pdcpEntity v).
     \<not> (pe_enbId e = gnb \<and> pe_enbIf e = gif \<and> pe_ueId e = ue \<and> pe_ueIf e = uif))"

lemma Find_none: "no_pdcp_entity v gnb gif ue uif \<Longrightarrow> LTENR_PDCP_FindEntity v gnb gif ue uif m = None"
  by (auto simp: LTENR_PDCP_FindEntity_def no_pdcp_entity_def find_pos_None_iff)

lemma pdcp_entity_key [simp]:
  "pe_enbId (new_pdcp_entity v gnb gif ue uif m) = gnb" "pe_enbIf (new_pdcp_entity v gnb gif ue uif m) = gif"
  "pe_ueId (new_pdcp_entity v gnb gif ue uif m) = ue" "pe_ueIf (new_pdcp_entity v gnb gif ue uif m) = uif"
  "pe_rlcMode (new_pdcp_entity v gnb gif ue uif m) = m"
  "discardTimerId (new_pdcp_entity v gnb gif ue uif m) = 0"
  "t_ReorderingEventId (new_pdcp_entity v gnb gif ue uif m) = 0"
  by (simp_all add: new_pdcp_entity_def LTENR_PDCP_CreateNewEntity_def)

lemma Find_with_new:
  assumes "no_pdcp_entity v gnb gif ue uif"
  shows "LTENR_PDCP_FindEntity (with_new ms gnb gif ue uif v) gnb gif ue uif m = None \<longleftrightarrow> m \<notin> set ms"
    and "LTENR_PDCP_FindEntity (with_new (m # ms) gnb gif ue uif v) gnb gif ue uif m = Some (length (pdcpEntity v))"
proof -
  show "LTENR_PDCP_FindEntity (with_new ms gnb gif ue uif v) gnb gif ue uif m = None \<longleftrightarrow> m \<notin> set ms"
    using assms
    by (simp add: with_new_def LTENR_PDCP_FindEntity_def find_pos_None_iff no_pdcp_entity_def ball_Un)
      blast
  show "LTENR_PDCP_FindEntity (with_new (m # ms) gnb gif ue uif v) gnb gif ue uif m = Some (length (pdcpEntity v))"
    using Find_none [OF assms, of m] by (simp add: with_new_def LTENR_PDCP_FindEntity_def find_pos_append)
qed

lemma with_new_snoc:
  "LTENR_PDCP_AddEntity (with_new ms gnb gif ue uif v) (new_pdcp_entity v gnb gif ue uif m)
     = with_new (ms @ [m]) gnb gif ue uif v"
  by (simp add: LTENR_PDCP_AddEntity_def with_new_def)

lemma new_entity_with_new [simp]:
  "new_pdcp_entity (with_new ms gnb gif ue uif v) = new_pdcp_entity v"
  by (simp add: with_new_def new_pdcp_entity_def fun_eq_iff)

text \<open>The two interfaces of an association, with the entities of the modes \<open>ms\<close> added.\<close>

definition both_with ::
  "LTENR_RLCMODE list \<Rightarrow> netsim_id \<Rightarrow> netsim_id \<Rightarrow> netsim_id \<Rightarrow> netsim_id \<Rightarrow> LTENR_PDCPVAR \<Rightarrow> LTENR_PDCPVAR
     \<Rightarrow> pdcp_state \<Rightarrow> pdcp_state" where
  "both_with ms gnb gif ue uif g u st =
     st\<lparr>gnb_pdcp := (gnb_pdcp st)((gnb, gif) := Some (with_new ms gnb gif ue uif g)),
        ue_pdcp := (ue_pdcp st)((ue, uif) := Some (with_new ms gnb gif ue uif u))\<rparr>"

lemma both_with_Nil:
  "gnb_pdcp st (gnb, gif) = Some g \<Longrightarrow> ue_pdcp st (ue, uif) = Some u \<Longrightarrow>
     both_with [] gnb gif ue uif g u st = st"
  by (simp add: both_with_def with_new_def fun_upd_idem)

lemma both_with_get [simp]:
  "gnb_pdcp (both_with ms gnb gif ue uif g u st) (gnb, gif) = Some (with_new ms gnb gif ue uif g)"
  "ue_pdcp (both_with ms gnb gif ue uif g u st) (ue, uif) = Some (with_new ms gnb gif ue uif u)"
  by (simp_all add: both_with_def)

lemma associate_step:
  assumes "no_pdcp_entity g gnb gif ue uif" and "no_pdcp_entity u gnb gif ue uif"
  shows "pdcp_associate gnb gif ue uif m (both_with ms gnb gif ue uif g u st)
    = Inr (both_with (if m \<in> set ms then ms else ms @ [m]) gnb gif ue uif g u st)"
proof -
  have new: "(LTENR_PDCP_CreateNewEntity gnb gif ue uif m)
      \<lparr>discardDelayTime := discardDelayTimer (with_new ms gnb gif ue uif v) * MILLISECOND,
       t_Reordering := pv_t_Reordering (with_new ms gnb gif ue uif v) * MILLISECOND\<rparr>
     = new_pdcp_entity v gnb gif ue uif m" for v
    by (simp add: new_pdcp_entity_def with_new_def)
  show ?thesis
    using Find_with_new(1) [OF assms(1), of ms m] Find_with_new(1) [OF assms(2), of ms m]
    by (simp add: pdcp_associate_def LTENR_GNBPDCP_CreatePDCPEntityForUE_def
        LTENR_UEPDCP_CreatePDCPEntity_def Let_def new with_new_snoc both_with_def)
qed

text \<open>The timers of a new entity were never started: both stops name event 0.\<close>

definition entity_released :: "pdcp_effect list" where
  "entity_released = [StopTimer 0, StopTimer 0, WriteAfterFree, WriteAfterFree]"

lemma remove_with_new:
  assumes "no_pdcp_entity v gnb gif ue uif"
  shows "LTENR_PDCP_RemoveEntity (with_new (m # ms) gnb gif ue uif v)
      (LTENR_PDCP_FindEntity (with_new (m # ms) gnb gif ue uif v) gnb gif ue uif m) s
    = (with_new ms gnb gif ue uif v, s\<lparr>pv_trace := pv_trace s @ entity_released\<rparr>)"
  using Find_with_new(2) [OF assms]
  by (simp add: LTENR_PDCP_RemoveEntity_def with_new_def LTENR_PDCP_FreeEntity_def out_def
      entity_released_def)

lemma release_step:
  assumes "no_pdcp_entity g gnb gif ue uif" and "no_pdcp_entity u gnb gif ue uif"
  shows "pdcp_release gnb gif ue uif m (both_with (m # ms) gnb gif ue uif g u st, s)
    = Inr (both_with ms gnb gif ue uif g u st, s\<lparr>pv_trace := pv_trace s @ entity_released @ entity_released\<rparr>)"
  by (simp add: pdcp_release_def remove_with_new [OF assms(1)] remove_with_new [OF assms(2)] both_with_def)

text \<open>
  Associating a pair that has no entities makes one entity per RLC mode on each side;
  doing it again changes nothing; and releasing the pair restores the state exactly, though
  each of the six entities is written to twice after it was freed.
\<close>

theorem pdcp_association_roundtrip:
  assumes "gnb_pdcp st (gnb, gif) = Some g" and "ue_pdcp st (ue, uif) = Some u"
    and "no_pdcp_entity g gnb gif ue uif" and "no_pdcp_entity u gnb gif ue uif"
  shows "\<exists>st'. LTENR_PDCP_ASSOCIATION gnb gif ue uif True st s = Inr (st', s)
    \<and> (\<forall>m. \<exists>g' u'. gnb_pdcp st' (gnb, gif) = Some g' \<and> ue_pdcp st' (ue, uif) = Some u'
         \<and> LTENR_PDCP_FindEntity g' gnb gif ue uif m \<noteq> None \<and> LTENR_PDCP_FindEntity u' gnb gif ue uif m \<noteq> None)
    \<and> LTENR_PDCP_ASSOCIATION gnb gif ue uif True st' s = Inr (st', s)
    \<and> LTENR_PDCP_ASSOCIATION gnb gif ue uif False st' s
        = Inr (st, s\<lparr>pv_trace := pv_trace s @ concat (replicate 6 entity_released)\<rparr>)"
proof -
  let ?with = "\<lambda>ms. both_with ms gnb gif ue uif g u st"
  note step = associate_step [OF assms(3,4), of _ _ st] release_step [OF assms(3,4), of _ _ st]
  have st: "?with [] = st" by (rule both_with_Nil [OF assms(1,2)])
  let ?all = "[LTENR_RLCMODE_TM, LTENR_RLCMODE_UM, LTENR_RLCMODE_AM]"
  have "LTENR_PDCP_ASSOCIATION gnb gif ue uif True (?with []) s = Inr (?with ?all, s)"
    by (simp add: LTENR_PDCP_ASSOCIATION_def step)
  moreover have "LTENR_PDCP_ASSOCIATION gnb gif ue uif True (?with ?all) s = Inr (?with ?all, s)"
    by (simp add: LTENR_PDCP_ASSOCIATION_def step)
  moreover have "LTENR_PDCP_ASSOCIATION gnb gif ue uif False (?with ?all) s
      = Inr (?with [], s\<lparr>pv_trace := pv_trace s @ concat (replicate 6 entity_released)\<rparr>)"
    by (simp add: LTENR_PDCP_ASSOCIATION_def step numeral_eq_Suc)
  moreover have "LTENR_PDCP_FindEntity (with_new ?all gnb gif ue uif v) gnb gif ue uif m \<noteq> None"
    if "no_pdcp_entity v gnb gif ue uif" for v m
    using Find_with_new(1) [OF that, of ?all m] by (cases m) simp_all
  ultimately show ?thesis
    using assms(3,4) unfolding st by (intro exI [of _ "?with ?all"]) simp
qed

definition ex_pdcp_state :: pdcp_state where
  "ex_pdcp_state = fn_NetSim_LTENR_UEPDCP_Init plain_pdcp_env 2 1
     (fn_NetSim_LTENR_GNBPDCP_Init plain_pdcp_env 1 1
       \<lparr>ue_pdcp = (\<lambda>_. None), gnb_pdcp = (\<lambda>_. None), ue_rrc = (\<lambda>_. None)\<rparr>)"

theorem pdcp_association_roundtrip_witness:
  "\<exists>st'. LTENR_PDCP_ASSOCIATION 1 1 2 1 True ex_pdcp_state ex_event = Inr (st', ex_event)
    \<and> st' \<noteq> ex_pdcp_state
    \<and> LTENR_PDCP_ASSOCIATION 1 1 2 1 False st' ex_event
        = Inr (ex_pdcp_state, ex_event\<lparr>pv_trace := pv_trace ex_event @ concat (replicate 6 entity_released)\<rparr>)"
proof -
  let ?v = "\<lambda>d. pdcp_new_var (LTENR_PROTODATA_GET plain_core_env d 1)"
  have st: "gnb_pdcp ex_pdcp_state (1, 1) = Some (?v 1)" "ue_pdcp ex_pdcp_state (2, 1) = Some (?v 2)"
    by (simp_all add: ex_pdcp_state_def fn_NetSim_LTENR_UEPDCP_Init_def fn_NetSim_LTENR_GNBPDCP_Init_def)
  have none: "no_pdcp_entity (?v d) 1 1 2 1" for d by (simp add: no_pdcp_entity_def pdcp_new_var_def)
  from pdcp_association_roundtrip [OF st none none, of ex_event]
  obtain st' where st': "LTENR_PDCP_ASSOCIATION 1 1 2 1 True ex_pdcp_state ex_event = Inr (st', ex_event)"
    and found: "\<forall>m. \<exists>g' u'. gnb_pdcp st' (1, 1) = Some g' \<and> ue_pdcp st' (2, 1) = Some u'
         \<and> LTENR_PDCP_FindEntity g' 1 1 2 1 m \<noteq> None \<and> LTENR_PDCP_FindEntity u' 1 1 2 1 m \<noteq> None"
    and release: "LTENR_PDCP_ASSOCIATION 1 1 2 1 False st' ex_event
        = Inr (ex_pdcp_state, ex_event\<lparr>pv_trace := pv_trace ex_event @ concat (replicate 6 entity_released)\<rparr>)"
    by blast
  have "LTENR_PDCP_FindEntity (?v 1) 1 1 2 1 LTENR_RLCMODE_TM = None" by (rule Find_none) (rule none)
  then have "st' \<noteq> ex_pdcp_state" using spec [OF found, of LTENR_RLCMODE_TM] st(1) by auto
  then show ?thesis using st' release by blast
qed

section \<open>The choice of the cell\<close>

text \<open>The cells chosen for the packets \<open>ps\<close>, one after the other.\<close>

fun split_all ::
  "pdcp_env \<Rightarrow> pdcp_state \<Rightarrow> netsim_id \<Rightarrow> netsim_id \<Rightarrow> NetSim_PACKET list \<Rightarrow> LTENR_PDCPENTITY
     \<Rightarrow> netsim_id list result" where
  "split_all P st ue uif [] e = Inr []"
| "split_all P st ue uif (p # ps) e =
     rbind (fn_NetSim_LTENR_PDCP_Splitting_Alogrithm P st p ue uif e) (\<lambda>(c, e').
     rbind (split_all P st ue uif ps e') (\<lambda>cs. Inr (c # cs)))"

fun alternate :: "bool \<Rightarrow> netsim_id \<Rightarrow> netsim_id \<Rightarrow> NetSim_PACKET list \<Rightarrow> netsim_id list" where
  "alternate alt a b [] = []"
| "alternate alt a b (p # ps) = (if alt then b else a) # alternate (\<not> alt) a b ps"

text \<open>
  With a master cell \<open>a\<close> and a secondary cell \<open>b\<close>, option 3A always takes \<open>a\<close>; options 3
  and 7 take \<open>a\<close> for packets of guaranteed bit rate and \<open>b\<close> for the others, option 4 the
  other way round; in every other case the two cells take turns.
\<close>

theorem pdcp_split_by_mode:
  assumes "ue_rrc st (ue, fn_NetSim_LTENR_MASTER_INTEFACE_FOR_UE P ue uif) = Some rrc"
    and "SelectedCellID rrc = a" and "SNID rrc = b" and "a \<noteq> 0" and "b \<noteq> 0"
    and "data = LTENR_PROTODATA_GET (core P) ue (fn_NetSim_LTENR_MASTER_INTEFACE_FOR_UE P ue uif)"
  shows "split_all P st ue uif ps e = Inr
    (if isDCEnable data \<and> NSA_MODE data = NSA_MODE_OPTION3A then map (\<lambda>p. a) ps
     else if isDCEnable data \<and> NSA_MODE data \<in> {NSA_MODE_OPTION3, NSA_MODE_OPTION7}
     then map (\<lambda>p. if nQOS p = QOS_GBR then a else b) ps
     else if isDCEnable data \<and> NSA_MODE data = NSA_MODE_OPTION4
     then map (\<lambda>p. if nQOS p = QOS_GBR then b else a) ps
     else alternate (pe_isAlternativePacket e) a b ps)"
proof -
  note split = fn_NetSim_LTENR_PDCP_Splitting_Alogrithm_def Let_def assms(1-3) assms(6) [symmetric]
  show ?thesis
  proof (cases "isDCEnable data \<and> NSA_MODE data \<in> {NSA_MODE_OPTION3A, NSA_MODE_OPTION3, NSA_MODE_OPTION7, NSA_MODE_OPTION4}")
    case True
    then show ?thesis
      using assms(4,5) by (induction ps) (auto simp: split)
  next
    case False
    then have "split_all P st ue uif ps e = Inr (alternate (pe_isAlternativePacket e) a b ps)"
      using assms(4,5) by (induction ps arbitrary: e) (auto simp: split)
    then show ?thesis using False by auto
  qed
qed

text \<open>Interface 1 of UE 2, connected to master cell 1 and secondary cell 3, outside dual connectivity.\<close>

definition ex_rrc :: LTENR_UERRC where
  "ex_rrc = \<lparr>ueRRCState = UERRC_CONNECTED, ueCMState = UE_CM_CONNECTED, SelectedCellID = 1, SelectedCellIF = 1, SelectedAMFID = 0, SelectedAMFIF = 0,
     isSNSconnected = False, SNID = 3, SNIF = 1, rrc_isAlternativePacket = False,
     isSecondaryAssociated = False, InteruptionInterval = 0, isMNHandoverComplete = False\<rparr>"

theorem pdcp_split_by_mode_witness:
  "split_all plain_pdcp_env
     (ex_pdcp_state\<lparr>ue_rrc := (\<lambda>_. None)((2, 1) \<mapsto> ex_rrc)\<rparr>)
     2 1 [ex_sdu 0, ex_sdu 1, ex_sdu 2] (LTENR_PDCP_CreateNewEntity 1 1 2 1 LTENR_RLCMODE_UM) = Inr [1, 3, 1]"
proof -
  let ?st = "ex_pdcp_state\<lparr>ue_rrc := (\<lambda>_. None)((2, 1) \<mapsto> ex_rrc)\<rparr>"
  have "ue_rrc ?st (2, fn_NetSim_LTENR_MASTER_INTEFACE_FOR_UE plain_pdcp_env 2 1) = Some ex_rrc"
    by (simp add: plain_pdcp_env_def)
  from pdcp_split_by_mode [OF this refl refl _ _ refl,
      of "[ex_sdu 0, ex_sdu 1, ex_sdu 2]" "LTENR_PDCP_CreateNewEntity 1 1 2 1 LTENR_RLCMODE_UM"]
  show ?thesis
    by (simp add: ex_rrc_def plain_pdcp_env_def plain_core_env_def LTENR_PDCP_CreateNewEntity_def)
qed

end
