(* ===== verification/PDCP_Link.thy ===== *)
theory PDCP_Link
  imports PDCP_Props
begin

text \<open>
  Two PDCP sublayers and the RLC service between them: what a sender hands to RLC, and how an
  SDU gets from the PDCP of a gNB to that of a UE.
\<close>

declare of_nat_unat [simp del]

section \<open>From one PDCP sublayer to the other\<close>

lemma PDCP_GET_write:
  "LTENR_PDCP_GET P st d i = Some v0 \<Longrightarrow>
     LTENR_PDCP_GET P (pdcp_write P st d i v) d' i' = (if d' = d \<and> i' = i then Some v else LTENR_PDCP_GET P st d' i')"
  by (auto simp: LTENR_PDCP_GET_def pdcp_write_def split: if_splits)

lemma pdcp_entities_put:
  "pdcp_entities P (pdcp_put P st d i j e) d' i'
     = (if d' = d \<and> i' = i then (pdcp_entities P st d i)[j := e] else pdcp_entities P st d' i')"
  by (auto simp: pdcp_entities_def pdcp_put_def PDCP_GET_write split: option.splits)

lemma pass_plain:
  "\<not> isDCEnable (LTENR_PROTODATA_GET (core P) (pe_ueId e) (pe_ueIf e)) \<Longrightarrow>
     pdcp_pass_to_rlc P st d i p e s = Inr (e, LTENR_CallRLCOut (pv_interfaceId s) p s)"
  by (simp add: pdcp_pass_to_rlc_def Let_def)

context pdcp_environment
begin

lemma TXBUFFER_ENQUEUE_facts:
  assumes "LTENR_PDCP_TXBUFFER_ENQUEUE P e p s = (e', s')"
  shows "TX_NEXT e' = TX_NEXT e" and "pe_ueId e' = pe_ueId e" and "pe_ueIf e' = pe_ueIf e"
    and "map bp_packet (pe_transmissionBuffer e') = map bp_packet (pe_transmissionBuffer e)
        @ (if LTENR_IS_UPLANE_MSG p then [fn_NetSim_Packet_CopyPacket (kernel (core P)) p] else [])"
    and "LTENR_IS_UPLANE_MSG p \<Longrightarrow> isDiscardTimerStarted e'"
    and "pv_interfaceId s' = pv_interfaceId s"
    and "\<exists>xs. pv_trace s' = pv_trace s @ xs
      \<and> length xs = (if LTENR_IS_UPLANE_MSG p \<and> \<not> isDiscardTimerStarted e then 1 else 0)"
  using assms
  by (auto simp: LTENR_PDCP_TXBUFFER_ENQUEUE_def LTENR_PDCP_START_DISCARD_TIMER_def pdcp_start_timer_def
      out_def Let_def split: if_splits)

end

lemma transmit_plain:
  assumes "pv_packet s = Some p" and "nReceiverId p \<noteq> 0" and "msg p = Some m"
    and "LTENR_PDCPENTITY_GET P (LTENR_PDCP_GET P st (pv_deviceId s) (pv_interfaceId s)) (pv_deviceId s)
           (pv_interfaceId s) (nReceiverId p) (msg_rlcMode m) s = Inr (Some j, s)"
    and "e = pdcp_entities P st (pv_deviceId s) (pv_interfaceId s) ! j"
    and "\<not> isDCEnable (LTENR_PROTODATA_GET (core P) (pe_ueId e) (pe_ueIf e))"
    and "pdcp_environment P"
    and "LTENR_PDCP_TXBUFFER_ENQUEUE P (e\<lparr>TX_NEXT := TX_NEXT e + 1\<rparr>) p s = (e1, s1)"
    and "q = LTENR_PDCP_ADDHDR P (TX_NEXT e) p"
  shows "fn_NetSim_LTENR_PDCP_TransmitPDCPSDU P st s =
      Inr (pdcp_put P st (pv_deviceId s) (pv_interfaceId s) j e1,
           LTENR_CallRLCOut (pv_interfaceId s) q (s1\<lparr>pv_packet := Some q\<rparr>))"
proof -
  note facts = pdcp_environment.TXBUFFER_ENQUEUE_facts [OF assms(7,8)]
  have pass: "pdcp_pass_to_rlc P st d i q e1 (s1\<lparr>pv_packet := Some q\<rparr>)
      = Inr (e1, LTENR_CallRLCOut (pv_interfaceId s) q (s1\<lparr>pv_packet := Some q\<rparr>))" for d i
    using pass_plain [of P e1] facts(2,3,6) assms(6) by simp
  show ?thesis
    using assms(1-4) pass
    by (simp add: fn_NetSim_LTENR_PDCP_TransmitPDCPSDU_def Let_def LTENR_PDCP_SET_SN_def assms(5) [symmetric]
        assms(8) assms(9) [symmetric] LTENR_PDCP_HDRCOMPRESSION_def)
qed

text \<open>
  Outside dual connectivity a packet from above gets the next number of its entity: RLC is
  called on the same interface with the packet and a header of \<open>TX_NEXT mod 4095\<close>; a copy of
  a user-plane packet, as it was without the header, waits in the transmission buffer, and the
  discard timer is started if it was not running.
\<close>

theorem pdcp_transmit_numbers:
  assumes "pdcp_environment P" and "pv_packet s = Some p" and "nReceiverId p \<noteq> 0" and "msg p = Some m"
    and "LTENR_PDCPENTITY_GET P (LTENR_PDCP_GET P st (pv_deviceId s) (pv_interfaceId s)) (pv_deviceId s)
           (pv_interfaceId s) (nReceiverId p) (msg_rlcMode m) s = Inr (Some j, s)"
    and "e = pdcp_entities P st (pv_deviceId s) (pv_interfaceId s) ! j"
    and "\<not> isDCEnable (LTENR_PROTODATA_GET (core P) (pe_ueId e) (pe_ueIf e))"
  shows "\<exists>st' s' e' xs. fn_NetSim_LTENR_PDCP_TransmitPDCPSDU P st s = Inr (st', s')
    \<and> pdcp_entities P st' (pv_deviceId s) (pv_interfaceId s)
        = (pdcp_entities P st (pv_deviceId s) (pv_interfaceId s))[j := e']
    \<and> TX_NEXT e' = TX_NEXT e + 1
    \<and> map bp_packet (pe_transmissionBuffer e') = map bp_packet (pe_transmissionBuffer e)
        @ (if LTENR_IS_UPLANE_MSG p then [fn_NetSim_Packet_CopyPacket (kernel (core P)) p] else [])
    \<and> (LTENR_IS_UPLANE_MSG p \<longrightarrow> isDiscardTimerStarted e')
    \<and> pv_trace s' = pv_trace s @ xs @ [ToRLC (pv_interfaceId s) (LTENR_PDCP_ADDHDR P (TX_NEXT e) p)]
    \<and> length xs = (if LTENR_IS_UPLANE_MSG p \<and> \<not> isDiscardTimerStarted e then 1 else 0)"
proof -
  obtain e1 s1 where q: "LTENR_PDCP_TXBUFFER_ENQUEUE P (e\<lparr>TX_NEXT := TX_NEXT e + 1\<rparr>) p s = (e1, s1)"
    by (cases "LTENR_PDCP_TXBUFFER_ENQUEUE P (e\<lparr>TX_NEXT := TX_NEXT e + 1\<rparr>) p s") auto
  note facts = pdcp_environment.TXBUFFER_ENQUEUE_facts [OF assms(1) q]
  obtain xs where xs: "pv_trace s1 = pv_trace s @ xs"
    "length xs = (if LTENR_IS_UPLANE_MSG p \<and> \<not> isDiscardTimerStarted e then 1 else 0)"
    using facts(7) by auto
  show ?thesis
    unfolding transmit_plain [OF assms(2-7) assms(1) q refl]
    by (rule exI [of _ "pdcp_put P st (pv_deviceId s) (pv_interfaceId s) j e1"],
        rule exI [of _ "LTENR_CallRLCOut (pv_interfaceId s) (LTENR_PDCP_ADDHDR P (TX_NEXT e) p)
          (s1\<lparr>pv_packet := Some (LTENR_PDCP_ADDHDR P (TX_NEXT e) p)\<rparr>)"],
        rule exI [of _ e1], rule exI [of _ xs])
      (simp add: facts xs pdcp_entities_put LTENR_CallRLCOut_def out_def)
qed

text \<open>gNB 1 and UE 2 associated, and the gNB with a packet for the UE.\<close>

definition ex_pair :: pdcp_state where
  "ex_pair = (case LTENR_PDCP_ASSOCIATION 1 1 2 1 True ex_pdcp_state ex_event of Inr (st, s) \<Rightarrow> st)"

definition ex_down :: PDCP_EVENT where
  "ex_down = ex_event\<lparr>pv_deviceId := 1, pv_packet := Some (ex_sdu 0)\<rparr>"

lemma ex_pair_found:
  "LTENR_PDCPENTITY_GET plain_pdcp_env (LTENR_PDCP_GET plain_pdcp_env ex_pair 1 1) 1 1 2 LTENR_RLCMODE_TM s
     = Inr (Some 0, s)"
  "LTENR_PDCPENTITY_GET plain_pdcp_env (LTENR_PDCP_GET plain_pdcp_env ex_pair 2 1) 2 1 1 LTENR_RLCMODE_TM s
     = Inr (Some 0, s)"
  by code_simp+

lemma ex_pair_entities:
  "pdcp_entities plain_pdcp_env ex_pair 1 1 = map (new_pdcp_entity (pdcp_new_var (LTENR_PROTODATA_GET plain_core_env 1 1)) 1 1 2 1)
     [LTENR_RLCMODE_TM, LTENR_RLCMODE_UM, LTENR_RLCMODE_AM]"
  "pdcp_entities plain_pdcp_env ex_pair 2 1 = map (new_pdcp_entity (pdcp_new_var (LTENR_PROTODATA_GET plain_core_env 2 1)) 1 1 2 1)
     [LTENR_RLCMODE_TM, LTENR_RLCMODE_UM, LTENR_RLCMODE_AM]"
  by code_simp+

lemma ex_down_fields [simp]:
  "pv_packet ex_down = Some (ex_sdu 0)" "pv_deviceId ex_down = 1" "pv_interfaceId ex_down = 1" "pv_trace ex_down = []"
  by (simp_all add: ex_down_def ex_event_def)

lemma ex_sdu_fields [simp]:
  "nReceiverId (ex_sdu n) = 2" "\<exists>m. msg (ex_sdu n) = Some m \<and> msg_rlcMode m = LTENR_RLCMODE_TM"
  "LTENR_IS_UPLANE_MSG (ex_sdu n)" "nTransmitterId (ex_sdu n) = 1" "dPayload (ex_sdu n) = 100"
  by (simp_all add: ex_sdu_def plain_create_def LTENR_IS_UPLANE_MSG_def)

lemma plain_no_dc [simp]: "\<not> isDCEnable (LTENR_PROTODATA_GET plain_core_env d i)"
  by (simp add: plain_core_env_def)

theorem pdcp_transmit_numbers_witness:
  "\<exists>st' s' e' xs. fn_NetSim_LTENR_PDCP_TransmitPDCPSDU plain_pdcp_env ex_pair ex_down = Inr (st', s')
    \<and> pdcp_entities plain_pdcp_env st' 1 1 = (pdcp_entities plain_pdcp_env ex_pair 1 1)[0 := e']
    \<and> TX_NEXT e' = 1 \<and> isDiscardTimerStarted e'
    \<and> pv_trace s' = xs @ [ToRLC 1 (LTENR_PDCP_ADDHDR plain_pdcp_env 0 (ex_sdu 0))]"
proof -
  obtain m where m: "msg (ex_sdu 0) = Some m" "msg_rlcMode m = LTENR_RLCMODE_TM" using ex_sdu_fields(2) by blast
  let ?e = "pdcp_entities plain_pdcp_env ex_pair 1 1 ! 0"
  have tx: "TX_NEXT ?e = 0" by (simp add: ex_pair_entities new_pdcp_entity_def LTENR_PDCP_CreateNewEntity_def)
  have "LTENR_PDCPENTITY_GET plain_pdcp_env (LTENR_PDCP_GET plain_pdcp_env ex_pair (pv_deviceId ex_down) (pv_interfaceId ex_down))
      (pv_deviceId ex_down) (pv_interfaceId ex_down) (nReceiverId (ex_sdu 0)) (msg_rlcMode m) ex_down = Inr (Some 0, ex_down)"
    by (simp add: ex_pair_found m(2))
  from pdcp_transmit_numbers [OF plain_pdcp.pdcp_environment_axioms ex_down_fields(1) _ m(1) this refl]
  show ?thesis
    by (simp add: tx) blast
qed

text \<open>The routing half of a reception at a UE outside dual connectivity counts the bytes at the sender.\<close>

lemma receive_route_ue:
  assumes "\<not> fn_NetSim_LTENR_NSA_IS_CORE_SPLIT_EXISTS P u ui" and "isUE (core P) u ui"
    and "\<not> isLTENRControlPacket q" and "\<not> isDCEnable (LTENR_PROTODATA_GET (core P) u ui)"
    and "LTENR_PDCP_GET P st (nTransmitterId q)
           (fn_NetSim_Get_LTENR_INTERFACE_ID_FROM_DEVICE_ID P (nTransmitterId q)) = Some v"
  shows "pdcp_receive_route P st u ui q s = Inr (GoOn (pdcp_write P st (nTransmitterId q)
      (fn_NetSim_Get_LTENR_INTERFACE_ID_FROM_DEVICE_ID P (nTransmitterId q))
      (v\<lparr>TotalPDSCHBytes := TotalPDSCHBytes v + dPayload q\<rparr>)) ui q)"
proof -
  have "\<not> isGNB (core P) u ui" using assms(2) by (simp add: isUE_def isGNB_def)
  then show ?thesis using assms by (simp add: pdcp_receive_route_def Let_def)
qed

lemma receive_plain:
  assumes "pv_packet s = Some q" and "msg q = Some m"
    and "pdcp_receive_route P st (pv_deviceId s) (pv_interfaceId s) q s = Inr (GoOn st1 (pv_interfaceId s) q)"
    and "LTENR_PDCPENTITY_GET P (LTENR_PDCP_GET P st1 (pv_deviceId s) (pv_interfaceId s)) (pv_deviceId s)
           (pv_interfaceId s) (nTransmitterId q) (msg_rlcMode m) s = Inr (Some j, s)"
    and "LTENR_PDCP_GET P st1 (pv_deviceId s) (pv_interfaceId s) = Some v"
    and "pdcp_receive P (isoutOfOrderDelivery v) (pdcpEntity v ! j) q s = Inr (e', s')"
  shows "fn_NetSim_LTENR_PDCP_ReceivePDCPSDU P st s
    = Inr (pdcp_put P st1 (pv_deviceId s) (pv_interfaceId s) j e', s')"
proof -
  have same: "s\<lparr>pv_packet := Some q\<rparr> = s" using assms(1) by simp
  show ?thesis using assms by (simp add: fn_NetSim_LTENR_PDCP_ReceivePDCPSDU_def Let_def same)
qed

lemma RX_DELIV_received [simp]: "RX_DELIV (received_at c e) = c"
  by (simp add: received_at_def)

text \<open>
  C19. Outside dual connectivity a user-plane SDU that the PDCP of a gNB hands to RLC goes up at
  the UE as soon as the same PDU reaches the UE's PDCP, whatever was lost before it within 2046
  numbers: the SDU without the header is passed on, its payload is counted at the gNB, and the
  receiver has moved to its COUNT.
\<close>

theorem pdcp_sdu_crosses:
  assumes "pdcp_environment P" and "pv_packet s = Some p" and "nReceiverId p = u" and "u \<noteq> 0"
    and "msg p = Some m" and "LTENR_HDR_GET_FROM_PACKET (kernel (core P)) p PDCPHDRID = None"
    and "LTENR_PDCPENTITY_GET P (LTENR_PDCP_GET P st (pv_deviceId s) (pv_interfaceId s)) (pv_deviceId s)
           (pv_interfaceId s) u (msg_rlcMode m) s = Inr (Some j, s)"
    and "e = pdcp_entities P st (pv_deviceId s) (pv_interfaceId s) ! j"
    and "\<not> isDCEnable (LTENR_PROTODATA_GET (core P) (pe_ueId e) (pe_ueIf e))"
    and "TX_NEXT e = of_nat k" and "k < max_sdus" and "k0 \<le> k" and "k \<le> k0 + 2046"
    and "q = LTENR_PDCP_ADDHDR P (of_nat k) p" and "nTransmitterId q = pv_deviceId s" and "msg q = Some mq"
    and "\<not> isLTENRControlPacket q"
    and "isGNB (core P) (pv_deviceId s) (pv_interfaceId s)" and "isUE (core P) u ui"
    and "fn_NetSim_Get_LTENR_INTERFACE_ID_FROM_DEVICE_ID P (pv_deviceId s) = pv_interfaceId s"
    and "\<not> fn_NetSim_LTENR_NSA_IS_CORE_SPLIT_EXISTS P u ui"
    and "\<not> isDCEnable (LTENR_PROTODATA_GET (core P) u ui)"
    and "LTENR_PDCP_GET P st (pv_deviceId s) (pv_interfaceId s) = Some g"
    and "LTENR_PDCP_GET P st u ui = Some v" and "jr < length (pdcpEntity v)" and "r = pdcpEntity v ! jr"
    and "nothing_waits r" and "RX_DELIV r = count_of k0"
    and "pv_packet t = Some q" and "pv_deviceId t = u" and "pv_interfaceId t = ui"
    and "LTENR_PDCPENTITY_GET P (Some v) u ui (pv_deviceId s) (msg_rlcMode mq) t = Inr (Some jr, t)"
  shows "\<exists>st1 s1 st2 t2 g2. fn_NetSim_LTENR_PDCP_TransmitPDCPSDU P st s = Inr (st1, s1)
    \<and> last (pv_trace s1) = ToRLC (pv_interfaceId s) q
    \<and> fn_NetSim_LTENR_PDCP_ReceivePDCPSDU P st1 t = Inr (st2, t2)
    \<and> pv_trace t2 = pv_trace t @ [up_call (sdu_of P q)]
    \<and> LTENR_PDCP_GET P st2 (pv_deviceId s) (pv_interfaceId s) = Some g2
    \<and> TotalPDSCHBytes g2 = TotalPDSCHBytes g + dPayload p
    \<and> RX_DELIV (pdcp_entities P st2 u ui ! jr) = count_of k \<and> nothing_waits (pdcp_entities P st2 u ui ! jr)"
proof -
  let ?d = "pv_deviceId s" and ?i = "pv_interfaceId s"
  obtain e1 s1 where enq: "LTENR_PDCP_TXBUFFER_ENQUEUE P (e\<lparr>TX_NEXT := TX_NEXT e + 1\<rparr>) p s = (e1, s1)"
    by (cases "LTENR_PDCP_TXBUFFER_ENQUEUE P (e\<lparr>TX_NEXT := TX_NEXT e + 1\<rparr>) p s") auto
  let ?st1 = "pdcp_put P st ?d ?i j e1" and ?s1 = "LTENR_CallRLCOut ?i q (s1\<lparr>pv_packet := Some q\<rparr>)"
  have q: "q = LTENR_PDCP_ADDHDR P (TX_NEXT e) p" using assms(10,14) by simp
  have tx: "fn_NetSim_LTENR_PDCP_TransmitPDCPSDU P st s = Inr (?st1, ?s1)"
    using transmit_plain [OF assms(2) _ assms(5) _ assms(8,9,1) enq q] assms(3,4,7) by simp
  have other: "(u, ui) \<noteq> (?d, ?i)" using assms(18,19) by (auto simp: isUE_def isGNB_def)
  let ?g1 = "g\<lparr>pdcpEntity := (pdcpEntity g)[j := e1]\<rparr>"
  have g1: "LTENR_PDCP_GET P ?st1 ?d ?i = Some ?g1" and v1: "LTENR_PDCP_GET P ?st1 u ui = Some v"
    using assms(23,24) other by (auto simp: pdcp_put_def PDCP_GET_write)
  have pay: "dPayload q = dPayload p"
    using assms(1,14) by (simp add: LTENR_PDCP_ADDHDR_def packet_api.payload_api pdcp_environment_def)
  define g2 where "g2 = ?g1\<lparr>TotalPDSCHBytes := TotalPDSCHBytes g + dPayload p\<rparr>"
  define st2 where "st2 = pdcp_write P ?st1 ?d ?i g2"
  have route: "pdcp_receive_route P ?st1 (pv_deviceId t) (pv_interfaceId t) q t = Inr (GoOn st2 (pv_interfaceId t) q)"
    using receive_route_ue [OF assms(21,19,17,22), of ?st1 ?g1 t] assms(15,20,30,31) g1
    by (simp add: st2_def g2_def pay)
  have v2: "LTENR_PDCP_GET P st2 u ui = Some v" and g2: "LTENR_PDCP_GET P st2 ?d ?i = Some g2"
    using PDCP_GET_write [OF g1] v1 other by (auto simp: st2_def)
  have rec: "pdcp_receive P (isoutOfOrderDelivery v) (pdcpEntity v ! jr) q t
      = Inr (received_at (count_of k) r, goes_up P q t)"
    using pdcp_environment.receive_pdu [OF assms(1), of "(k, p)" r k0 "isoutOfOrderDelivery v" t]
      pdcp_environment.count_of_le [OF assms(1,12,11)] assms by (simp add: pdu_def)
  have rx: "fn_NetSim_LTENR_PDCP_ReceivePDCPSDU P ?st1 t
      = Inr (pdcp_put P st2 u ui jr (received_at (count_of k) r), goes_up P q t)"
    using receive_plain [OF assms(29,16) route _ _ rec] v2 assms(15,30-32) by simp
  define st3 where "st3 = pdcp_put P st2 u ui jr (received_at (count_of k) r)"
  have put: "pdcp_entities P st3 u ui ! jr = received_at (count_of k) r"
    using v2 assms(25) by (simp add: st3_def pdcp_entities_put) (simp add: pdcp_entities_def)
  have g3: "LTENR_PDCP_GET P st3 ?d ?i = Some g2"
    using PDCP_GET_write [OF v2] v2 g2 other by (auto simp: st3_def pdcp_put_def)
  show ?thesis
    by (rule exI [of _ ?st1], rule exI [of _ ?s1], rule exI [of _ st3], rule exI [of _ "goes_up P q t"],
        rule exI [of _ g2])
      (simp add: tx rx [folded st3_def] g3 put assms(27) g2_def LTENR_CallRLCOut_def goes_up_def SendUp_out out_def)
qed

definition ex_pdu :: NetSim_PACKET where
  "ex_pdu = LTENR_PDCP_ADDHDR plain_pdcp_env 0 (ex_sdu 0)"

lemma ex_pdu_fields:
  "nTransmitterId ex_pdu = 1" "\<not> isLTENRControlPacket ex_pdu"
  "msg ex_pdu = Some (plain_msg ex_pdu)" "msg_rlcMode (plain_msg ex_pdu) = LTENR_RLCMODE_TM"
  by (simp_all add: ex_pdu_def LTENR_PDCP_ADDHDR_def ex_sdu_def isLTENRControlPacket_def plain_rlc_env_def
      plain_pkt_api_def pkt_api.defs plain_pkt_defs)

theorem pdcp_sdu_crosses_witness:
  "\<exists>st1 s1 st2 t2 g2. fn_NetSim_LTENR_PDCP_TransmitPDCPSDU plain_pdcp_env ex_pair ex_down = Inr (st1, s1)
    \<and> last (pv_trace s1) = ToRLC 1 ex_pdu
    \<and> fn_NetSim_LTENR_PDCP_ReceivePDCPSDU plain_pdcp_env st1 (ex_event\<lparr>pv_packet := Some ex_pdu\<rparr>) = Inr (st2, t2)
    \<and> pv_trace t2 = [up_call (sdu_of plain_pdcp_env ex_pdu)]
    \<and> LTENR_PDCP_GET plain_pdcp_env st2 1 1 = Some g2 \<and> TotalPDSCHBytes g2 = 100"
proof -
  obtain m where m: "msg (ex_sdu 0) = Some m" "msg_rlcMode m = LTENR_RLCMODE_TM" using ex_sdu_fields(2) by blast
  obtain g where g: "LTENR_PDCP_GET plain_pdcp_env ex_pair 1 1 = Some g"
    using ex_pair_entities(1) by (cases "LTENR_PDCP_GET plain_pdcp_env ex_pair 1 1") (auto simp: pdcp_entities_def)
  obtain v where v: "LTENR_PDCP_GET plain_pdcp_env ex_pair 2 1 = Some v"
    using ex_pair_entities(2) by (cases "LTENR_PDCP_GET plain_pdcp_env ex_pair 2 1") (auto simp: pdcp_entities_def)
  have bytes: "TotalPDSCHBytes g = 0"
  proof -
    have "map_option TotalPDSCHBytes (LTENR_PDCP_GET plain_pdcp_env ex_pair 1 1) = Some 0" by code_simp
    then show ?thesis by (simp add: g)
  qed
  have ents: "pdcpEntity v = pdcp_entities plain_pdcp_env ex_pair 2 1" by (simp add: pdcp_entities_def v)
  have new: "TX_NEXT (pdcp_entities plain_pdcp_env ex_pair 1 1 ! 0) = of_nat 0"
    "nothing_waits (pdcpEntity v ! 0)" "RX_DELIV (pdcpEntity v ! 0) = count_of 0" "0 < length (pdcpEntity v)"
    by (simp_all add: ents ex_pair_entities new_pdcp_entity_def LTENR_PDCP_CreateNewEntity_def nothing_waits_def)
  have dev: "isGNB plain_core_env 1 1" "isUE plain_core_env 2 1"
    by (simp_all add: isGNB_def isUE_def plain_core_env_def)
  have env: "fn_NetSim_Get_LTENR_INTERFACE_ID_FROM_DEVICE_ID plain_pdcp_env d = 1"
    "\<not> fn_NetSim_LTENR_NSA_IS_CORE_SPLIT_EXISTS plain_pdcp_env d i" for d i
    by (simp_all add: plain_pdcp_env_def)
  have "\<exists>st1 s1 st2 t2 g2. fn_NetSim_LTENR_PDCP_TransmitPDCPSDU plain_pdcp_env ex_pair ex_down = Inr (st1, s1)
    \<and> last (pv_trace s1) = ToRLC (pv_interfaceId ex_down) ex_pdu
    \<and> fn_NetSim_LTENR_PDCP_ReceivePDCPSDU plain_pdcp_env st1 (ex_event\<lparr>pv_packet := Some ex_pdu\<rparr>) = Inr (st2, t2)
    \<and> pv_trace t2 = pv_trace (ex_event\<lparr>pv_packet := Some ex_pdu\<rparr>) @ [up_call (sdu_of plain_pdcp_env ex_pdu)]
    \<and> LTENR_PDCP_GET plain_pdcp_env st2 (pv_deviceId ex_down) (pv_interfaceId ex_down) = Some g2
    \<and> TotalPDSCHBytes g2 = TotalPDSCHBytes g + dPayload (ex_sdu 0)
    \<and> RX_DELIV (pdcp_entities plain_pdcp_env st2 2 1 ! 0) = count_of 0
    \<and> nothing_waits (pdcp_entities plain_pdcp_env st2 2 1 ! 0)"
    by (rule pdcp_sdu_crosses [where m = m and mq = "plain_msg ex_pdu" and k0 = 0 and k = 0 and v = v and g = g and j = 0
            and jr = 0 and r = "pdcpEntity v ! 0" and q = ex_pdu,
          OF plain_pdcp.pdcp_environment_axioms ex_down_fields(1)])
      (rule new(3) | use m g v new dev env ex_pdu_fields ex_pair_found ex_pair_found(2) [unfolded v] in
        \<open>simp add: max_sdus_def ex_pdu_def [symmetric] ex_event_def\<close>)+
  then show ?thesis using bytes by (simp add: ex_event_def) blast
qed

end
