(* ===== verification/Handover_Props.thy ===== *)
theory Handover_Props
  imports Handover PDCP_Link
begin

text \<open>
  What holds of the handover procedures: the laws of the time-to-trigger matrix, what a measurement
  report does to it and never causes, the choice of the secondary cell, the handshakes on the Xn
  interface, and what the ping-pong detector reports.
\<close>

section \<open>Reading and writing the matrix\<close>

definition has_trigger :: "LTENR_Conditional_HO_TTT_Matrix list \<Rightarrow> netsim_id \<Rightarrow> netsim_id \<Rightarrow> bool" where
  "has_trigger m ue cell \<longleftrightarrow> (\<exists>t \<in> set m. ttt_ueID t = ue \<and> (\<exists>g \<in> set (gNB_HO_Trigger t). trg_gnbID g = cell))"

abbreviation "ttt_find \<equiv> fn_NetSim_LTENR_Conditional_HO_TTT_Matrix_Find"
abbreviation "ttt_set \<equiv> fn_NetSim_LTENR_Conditional_HO_TTT_Matrix_Set"

lemma has_trigger_simps [simp]:
  "has_trigger [] ue cell = False"
  "has_trigger (t # m) ue cell =
     ((ttt_ueID t = ue \<and> (\<exists>g \<in> set (gNB_HO_Trigger t). trg_gnbID g = cell)) \<or> has_trigger m ue cell)"
  by (auto simp: has_trigger_def)

lemma set_trigger_None: "set_trigger c v gs = None \<longleftrightarrow> (\<forall>g \<in> set gs. trg_gnbID g \<noteq> c)"
  by (induction gs) auto

lemma set_trigger_find:
  assumes "set_trigger c v gs = Some gs'"
  shows "map_option TriggerTime (find (\<lambda>g. trg_gnbID g = c') gs')
    = (if c' = c then Some v else map_option TriggerTime (find (\<lambda>g. trg_gnbID g = c') gs))"
  using assms by (induction gs arbitrary: gs') (auto split: if_splits)

lemma set_trigger_ids:
  assumes "set_trigger c v gs = Some gs'"
  shows "map trg_gnbID gs' = map trg_gnbID gs"
  using assms by (induction gs arbitrary: gs') (auto split: if_splits)

lemma find_case_time:
  "(case find P gs of Some g \<Rightarrow> TriggerTime g | None \<Rightarrow> y)
     = (case map_option TriggerTime (find P gs) of Some v \<Rightarrow> v | None \<Rightarrow> y)"
  by (cases "find P gs") simp_all

lemma find_ids_None: "find (\<lambda>g. trg_gnbID g = c) gs = None \<longleftrightarrow> c \<notin> trg_gnbID ` set gs"
  by (induction gs) auto

lemma ttt_find_absent: "\<not> has_trigger m ue cell \<Longrightarrow> ttt_find m ue cell = - 1"
  by (induction m) (auto simp: find_Some_iff split: option.splits)

lemma has_trigger_set: "has_trigger (ttt_set m ue cell v) ue' cell' = has_trigger m ue' cell'"
proof (induction m)
  case (Cons t m)
  have "trg_gnbID ` set gs' = trg_gnbID ` set gs" if "set_trigger cell v gs = Some gs'" for gs gs'
    using set_trigger_ids [OF that] by (metis list.set_map)
  then show ?case using Cons.IH
    by (auto split: option.splits) (metis (no_types, opaque_lifting) imageE imageI)+
qed simp

theorem ttt_find_set:
  "ttt_find (ttt_set m ue cell v) ue' cell'
     = (if ue' = ue \<and> cell' = cell \<and> has_trigger m ue cell then v else ttt_find m ue' cell')"
proof (induction m)
  case (Cons t m)
  show ?case
  proof (cases "ttt_ueID t = ue")
    case True
    show ?thesis
    proof (cases "set_trigger cell v (gNB_HO_Trigger t)")
      case None
      then have none: "\<forall>g \<in> set (gNB_HO_Trigger t). trg_gnbID g \<noteq> cell" by (simp add: set_trigger_None)
      then have "find (\<lambda>g. trg_gnbID g = cell) (gNB_HO_Trigger t) = None" by (simp add: find_None_iff)
      then show ?thesis using Cons.IH True None none by (auto split: option.splits)
    next
      case (Some gs')
      then have "\<exists>g \<in> set (gNB_HO_Trigger t). trg_gnbID g = cell"
        using set_trigger_None [of cell v] by (metis option.distinct(1))
      then show ?thesis using True Some set_trigger_find [OF Some, of cell']
        by (auto simp: find_case_time split: option.splits)
    qed
  next
    case False
    then show ?thesis using Cons.IH by (auto split: option.splits)
  qed
qed simp

section \<open>What a measurement report does to the matrix\<close>

text \<open>The trigger time of the UE \<open>ue\<close> for the cell of \<open>r\<close> after the report.\<close>

definition trigger_after ::
  "real \<Rightarrow> LTENR_GNBRRC \<Rightarrow> netsim_id \<Rightarrow> real \<Rightarrow> LTENR_RRC_UE_MEASUREMENT_REPORT \<Rightarrow> real" where
  "trigger_after now g ue serving r =
     (let old = ttt_find (Conditional_HO_TTT_Matrix g) ue (rep_cellID r)
      in if rep_sinr r - serving \<le> HandoverMargin g then - 1
         else if old = - 1 \<and> TTT g > 0 \<and> has_trigger (Conditional_HO_TTT_Matrix g) ue (rep_cellID r) then now
         else old)"

definition is_log :: "ho_effect \<Rightarrow> bool" where
  "is_log x \<longleftrightarrow> (\<exists>u a b c d t. x = HandoverLog u a b c d t \<and> t \<noteq> ''Handover Initiated'')"

lemma is_log_simps [simp]:
  "is_log (HandoverLog u a b c d t) \<longleftrightarrow> t \<noteq> ''Handover Initiated''"
  by (simp add: is_log_def)

text \<open>How one entry leaves the RRC of the gNB.\<close>

definition scan_frame :: "LTENR_GNBRRC \<Rightarrow> LTENR_GNBRRC \<Rightarrow> bool" where
  "scan_frame g g' \<longleftrightarrow> HandoverMargin g' = HandoverMargin g \<and> TTT g' = TTT g
     \<and> has_trigger (Conditional_HO_TTT_Matrix g') = has_trigger (Conditional_HO_TTT_Matrix g)"

lemma scan_frame_refl: "scan_frame g g" by (simp add: scan_frame_def)

lemma scan_frame_trans: "scan_frame f g \<Longrightarrow> scan_frame g h \<Longrightarrow> scan_frame f h"
  by (simp add: scan_frame_def)

lemma scan_frame_set:
  "scan_frame g (g\<lparr>Conditional_HO_TTT_Matrix := ttt_set (Conditional_HO_TTT_Matrix g) ue c v\<rparr>)"
  by (simp add: scan_frame_def has_trigger_set fun_eq_iff)

lemma ttt_scan_step:
  assumes "ttt_scan H now gnbID ue uif serving r (g, t, xs) = (g', t', ys)"
  shows "scan_frame g g' \<and> (\<exists>zs. ys = xs @ zs \<and> (\<forall>x \<in> set zs. is_log x))"
  using assms by (auto simp: ttt_scan_def Let_def scan_frame_set scan_frame_refl split: if_splits)

lemma ttt_scan_find:
  assumes "ttt_scan H now gnbID ue uif serving r (g, t, xs) = (g', t', ys)"
  shows "ttt_find (Conditional_HO_TTT_Matrix g') ue' c =
    (if report_considered H ue uif r \<and> rep_cellID r \<noteq> gnbID \<and> ue' = ue \<and> c = rep_cellID r
     then trigger_after now g ue serving r else ttt_find (Conditional_HO_TTT_Matrix g) ue' c)"
  using assms
  by (auto simp: ttt_scan_def trigger_after_def Let_def ttt_find_set ttt_find_absent split: if_splits)

lemma ttt_scan_logs:
  assumes "fold (ttt_scan H now gnbID ue uif serving) rs (g, t, xs) = (g', t', ys)"
  shows "\<exists>zs. ys = xs @ zs \<and> (\<forall>x \<in> set zs. is_log x)"
  using assms
proof (induction rs arbitrary: g t xs)
  case (Cons r rs)
  obtain g1 t1 xs1 where st: "ttt_scan H now gnbID ue uif serving r (g, t, xs) = (g1, t1, xs1)"
    by (metis prod_cases3)
  obtain z1 where z1: "xs1 = xs @ z1" "\<forall>x \<in> set z1. is_log x" using ttt_scan_step [OF st] by blast
  obtain z2 where z2: "ys = xs1 @ z2" "\<forall>x \<in> set z2. is_log x" using Cons st by fastforce
  show ?case using z1 z2 by (intro exI [of _ "z1 @ z2"]) auto
qed simp

lemma ttt_fold:
  assumes "distinct (map rep_cellID rs)"
    and "fold (ttt_scan H now gnbID ue uif serving) rs (g, t, xs) = (g', t', ys)"
  shows "scan_frame g g'
    \<and> (\<forall>r \<in> set rs. report_considered H ue uif r \<and> rep_cellID r \<noteq> gnbID \<longrightarrow>
         ttt_find (Conditional_HO_TTT_Matrix g') ue (rep_cellID r) = trigger_after now g ue serving r)
    \<and> (\<forall>ue' c. (ue' \<noteq> ue \<or> c = gnbID \<or> (\<forall>r \<in> set rs. rep_cellID r = c \<longrightarrow> \<not> report_considered H ue uif r)) \<longrightarrow>
         ttt_find (Conditional_HO_TTT_Matrix g') ue' c = ttt_find (Conditional_HO_TTT_Matrix g) ue' c)"
  using assms
proof (induction rs arbitrary: g t xs)
  case Nil
  then show ?case by (simp add: scan_frame_refl)
next
  case (Cons r rs)
  obtain g1 t1 xs1 where st: "ttt_scan H now gnbID ue uif serving r (g, t, xs) = (g1, t1, xs1)"
    by (metis prod_cases3)
  from Cons.prems(2) st have rest: "fold (ttt_scan H now gnbID ue uif serving) rs (g1, t1, xs1) = (g', t', ys)"
    by simp
  note IH = Cons.IH [OF _ rest]
  have d: "distinct (map rep_cellID rs)" "rep_cellID r \<notin> rep_cellID ` set rs" using Cons.prems(1) by auto
  note sf = ttt_scan_step [OF st] and ff = ttt_scan_find [OF st]
  have same: "trigger_after now g1 ue serving r' = trigger_after now g ue serving r'" if "r' \<in> set rs" for r'
  proof -
    have "rep_cellID r' \<noteq> rep_cellID r" using that d(2) by (metis imageI)
    then show ?thesis using sf by (simp add: trigger_after_def ff scan_frame_def Let_def)
  qed
  have "scan_frame g g'" using sf IH [OF d(1)] scan_frame_trans by blast
  moreover have "ttt_find (Conditional_HO_TTT_Matrix g') ue (rep_cellID r') = trigger_after now g ue serving r'"
    if "r' \<in> set (r # rs)" "report_considered H ue uif r'" "rep_cellID r' \<noteq> gnbID" for r'
  proof (cases "r' \<in> set rs")
    case True
    then show ?thesis using IH [OF d(1)] that same by auto
  next
    case False
    then have r': "r' = r" using that by simp
    have "\<forall>r2 \<in> set rs. rep_cellID r2 = rep_cellID r \<longrightarrow> \<not> report_considered H ue uif r2"
      using d(2) by (metis imageI)
    then have "ttt_find (Conditional_HO_TTT_Matrix g') ue (rep_cellID r)
        = ttt_find (Conditional_HO_TTT_Matrix g1) ue (rep_cellID r)"
      using IH [OF d(1)] by blast
    then show ?thesis using r' that ff by simp
  qed
  moreover have "ttt_find (Conditional_HO_TTT_Matrix g') ue' c = ttt_find (Conditional_HO_TTT_Matrix g) ue' c"
    if "ue' \<noteq> ue \<or> c = gnbID \<or> (\<forall>r' \<in> set (r # rs). rep_cellID r' = c \<longrightarrow> \<not> report_considered H ue uif r')" for ue' c
  proof -
    have "ttt_find (Conditional_HO_TTT_Matrix g') ue' c = ttt_find (Conditional_HO_TTT_Matrix g1) ue' c"
      using IH [OF d(1)] that by auto
    also have "\<dots> = ttt_find (Conditional_HO_TTT_Matrix g) ue' c" using ff that by auto
    finally show ?thesis .
  qed
  ultimately show ?case by blast
qed

text \<open>What a measurement report may cause: log lines, and the two messages about the secondary cell.\<close>

definition harmless :: "ho_effect \<Rightarrow> bool" where
  "harmless x = (case x of HandoverLog _ _ _ _ _ t \<Rightarrow> t \<noteq> ''Handover Initiated''
     | SecondaryCellAddition _ _ _ _ _ _ \<Rightarrow> True | SendSN _ _ _ _ _ \<Rightarrow> True | _ \<Rightarrow> False)"

lemma is_log_harmless: "is_log x \<Longrightarrow> harmless x"
  by (auto simp: is_log_def harmless_def)

definition only_adds :: "ho_state \<Rightarrow> ho_state \<Rightarrow> bool" where
  "only_adds s s' \<longleftrightarrow> (\<exists>xs. ho_trace s' = ho_trace s @ xs \<and> (\<forall>x \<in> set xs. harmless x))
     \<and> ho_gnb_rrc s' = ho_gnb_rrc s"

lemma only_adds_refl: "only_adds s s"
  by (simp add: only_adds_def)

lemma only_adds_trans: "only_adds s t \<Longrightarrow> only_adds t u \<Longrightarrow> only_adds s u"
  by (clarsimp simp: only_adds_def) (metis Un_iff)

lemma SEC_only_adds:
  assumes "fn_NetSim_LTENR_SEC_CELL_SelectionAddition H ue uif s = Inr s'"
  shows "only_adds s s'"
  using assms
  by (auto simp: fn_NetSim_LTENR_SEC_CELL_SelectionAddition_def only_adds_def ho_out_def harmless_def
      rbind_Inr_iff Let_def split: if_splits)

lemma ADDITION_REQUEST_only_adds: "only_adds s (fn_NetSim_LTENR_DC_HO_SN_ADDITION_REQUEST H hdr s)"
  by (simp add: fn_NetSim_LTENR_DC_HO_SN_ADDITION_REQUEST_def only_adds_def ho_out_def harmless_def Let_def)

lemma ADDITION_REQUEST_sends:
  "\<exists>a b m. fn_NetSim_LTENR_DC_HO_SN_ADDITION_REQUEST H hdr s
    = ho_out (SendSN (sn_MNID hdr) (sn_TSNID hdr) a b (hdr\<lparr>sn_msg := m,
        sn_msgType := LTENR_MSG_DC_HO_SEC_CELL_ADDITION_REQUEST, SNHandoverStartTime := ho_time s\<rparr>)) s"
  unfolding fn_NetSim_LTENR_DC_HO_SN_ADDITION_REQUEST_def Let_def by simp blast

lemma SN_only_adds:
  assumes "fn_NetSim_DC_HO_SN_PROCESSIONG H ue uif report s = Inr s'"
  shows "only_adds s s'"
proof -
  obtain rrc gnbrrc where "ho_ue_rrc s (ue, uif) = Some rrc" "ho_gnb_rrc s (SNID rrc, SNIF rrc) = Some gnbrrc"
    using assms by (auto simp: fn_NetSim_DC_HO_SN_PROCESSIONG_def rbind_Inr_iff deref_Inr_iff)
  then show ?thesis using assms
    by (cases "fold (sn_scan H ue uif rrc) report (0, INT_MIN, 0)")
      (auto simp: fn_NetSim_DC_HO_SN_PROCESSIONG_def ADDITION_REQUEST_only_adds only_adds_refl split: if_splits)
qed

lemma measurement_sn_only_adds:
  assumes "measurement_sn H ue uif report s = Inr s'"
  shows "only_adds s s' \<and> (\<not> isDCEnable (ho_data H ue uif) \<longrightarrow> s' = s)"
  using assms
  by (auto simp: measurement_sn_def rbind_Inr_iff only_adds_refl split: if_splits
      dest: SEC_only_adds SN_only_adds intro: only_adds_trans)

text \<open>The whole handler: the scan, then at most the secondary cell.\<close>

lemma measurement_run:
  assumes "ho_gnb_rrc s (gnbID, gnbIF) = Some g"
    and "fold (ttt_scan H (ho_time s) gnbID ue uif (serving_sinr H gnbID ue uif report)) report (g, INT_MIN, [])
           = (g', t, xs)"
  shows "fn_NetSim_LTENR_RRC_UE_MEASUREMENT_RECV H gnbID gnbIF ue uif report s
    = measurement_sn H ue uif report
        (s\<lparr>ho_gnb_rrc := (ho_gnb_rrc s)((gnbID, gnbIF) := Some g'), ho_trace := ho_trace s @ xs\<rparr>)"
  using assms
  by (simp add: fn_NetSim_LTENR_RRC_UE_MEASUREMENT_RECV_def Let_def rbind_def split: sum.splits)

section \<open>Measurement reports\<close>

text \<open>
  C1. No measurement report ever makes a gNB hand a UE over, however much better another cell is
  and however long: whatever the handler adds to the calls it made, there is no handover request
  among them, neither on the Xn interface nor through NAS.
\<close>

theorem measurement_never_hands_over:
  assumes "fn_NetSim_LTENR_RRC_UE_MEASUREMENT_RECV H gnbID gnbIF ue uif report s = Inr s'"
  shows "\<exists>xs. ho_trace s' = ho_trace s @ xs \<and> (\<forall>x \<in> set xs. harmless x)"
proof -
  obtain g where g: "ho_gnb_rrc s (gnbID, gnbIF) = Some g"
    using assms by (auto simp: fn_NetSim_LTENR_RRC_UE_MEASUREMENT_RECV_def rbind_Inr_iff deref_Inr_iff)
  obtain g' t xs where f: "fold (ttt_scan H (ho_time s) gnbID ue uif (serving_sinr H gnbID ue uif report)) report
      (g, INT_MIN, []) = (g', t, xs)" by (metis prod_cases3)
  have "\<forall>x \<in> set xs. harmless x"
    using ttt_scan_logs [OF f] is_log_harmless by auto
  moreover have "only_adds (s\<lparr>ho_gnb_rrc := (ho_gnb_rrc s)((gnbID, gnbIF) := Some g'), ho_trace := ho_trace s @ xs\<rparr>) s'"
    using assms measurement_sn_only_adds by (simp add: measurement_run [OF g f])
  ultimately show ?thesis by (fastforce simp: only_adds_def)
qed

text \<open>Outside dual connectivity a report is the scan and nothing else.\<close>

definition better :: "ho_env \<Rightarrow> real \<Rightarrow> netsim_id \<Rightarrow> netsim_id \<Rightarrow> netsim_id \<Rightarrow> netsim_id
     \<Rightarrow> LTENR_RRC_UE_MEASUREMENT_REPORT list \<Rightarrow> bool" where
  "better H margin gnbID ue uif c rs \<longleftrightarrow>
     (\<exists>r \<in> set rs. rep_cellID r = c \<and> rep_sinr r - serving_sinr H gnbID ue uif rs > margin)"

lemma measurement_step:
  assumes g: "ho_gnb_rrc s (gnbID, gnbIF) = Some g" and dc: "\<not> isDCEnable (ho_data H ue uif)"
    and d: "distinct (map rep_cellID rs)"
  shows "\<exists>s' g'. fn_NetSim_LTENR_RRC_UE_MEASUREMENT_RECV H gnbID gnbIF ue uif rs s = Inr s'
    \<and> ho_gnb_rrc s' = (ho_gnb_rrc s)((gnbID, gnbIF) := Some g') \<and> scan_frame g g'
    \<and> (\<forall>c \<in> rep_cellID ` set rs. c \<noteq> gnbID \<longrightarrow> ttt_find (Conditional_HO_TTT_Matrix g') ue c =
         (if \<not> better H (HandoverMargin g) gnbID ue uif c rs then - 1
          else if ttt_find (Conditional_HO_TTT_Matrix g) ue c = - 1 \<and> TTT g > 0
                  \<and> has_trigger (Conditional_HO_TTT_Matrix g) ue c then ho_time s
          else ttt_find (Conditional_HO_TTT_Matrix g) ue c))
    \<and> (\<forall>ue' c. ue' \<noteq> ue \<or> c = gnbID \<or> c \<notin> rep_cellID ` set rs \<longrightarrow>
         ttt_find (Conditional_HO_TTT_Matrix g') ue' c = ttt_find (Conditional_HO_TTT_Matrix g) ue' c)"
proof -
  obtain g' t xs where f: "fold (ttt_scan H (ho_time s) gnbID ue uif (serving_sinr H gnbID ue uif rs)) rs
      (g, INT_MIN, []) = (g', t, xs)" by (metis prod_cases3)
  note F = ttt_fold [OF d f]
  have con: "report_considered H ue uif r" for r using dc by (simp add: report_considered_def)
  have better_iff: "better H (HandoverMargin g) gnbID ue uif (rep_cellID r) rs
      \<longleftrightarrow> rep_sinr r - serving_sinr H gnbID ue uif rs > HandoverMargin g" if "r \<in> set rs" for r
    using d that by (auto simp: better_def distinct_map inj_on_eq_iff)
  have 1: "ttt_find (Conditional_HO_TTT_Matrix g') ue c =
         (if \<not> better H (HandoverMargin g) gnbID ue uif c rs then - 1
          else if ttt_find (Conditional_HO_TTT_Matrix g) ue c = - 1 \<and> TTT g > 0
                  \<and> has_trigger (Conditional_HO_TTT_Matrix g) ue c then ho_time s
          else ttt_find (Conditional_HO_TTT_Matrix g) ue c)" if "c \<in> rep_cellID ` set rs" "c \<noteq> gnbID" for c
    using F con that better_iff by (auto simp: trigger_after_def Let_def)
  have 2: "ttt_find (Conditional_HO_TTT_Matrix g') ue' c = ttt_find (Conditional_HO_TTT_Matrix g) ue' c"
    if "ue' \<noteq> ue \<or> c = gnbID \<or> c \<notin> rep_cellID ` set rs" for ue' c
    using F that by (metis imageI)
  show ?thesis
    by (rule exI [of _ "s\<lparr>ho_gnb_rrc := (ho_gnb_rrc s)((gnbID, gnbIF) := Some g'), ho_trace := ho_trace s @ xs\<rparr>"],
        rule exI [of _ g'])
      (use F 1 2 dc in \<open>simp add: measurement_run [OF g f] measurement_sn_def\<close>)
qed

text \<open>A sequence of reports with their times, and since when a test has held without a break.\<close>

fun run_reports :: "ho_env \<Rightarrow> netsim_id \<Rightarrow> netsim_id \<Rightarrow> netsim_id \<Rightarrow> netsim_id
     \<Rightarrow> (real \<times> LTENR_RRC_UE_MEASUREMENT_REPORT list) list \<Rightarrow> ho_state \<Rightarrow> ho_state result" where
  "run_reports H gnbID gnbIF ue uif [] s = Inr s"
| "run_reports H gnbID gnbIF ue uif ((t, rs) # hist) s =
     rbind (fn_NetSim_LTENR_RRC_UE_MEASUREMENT_RECV H gnbID gnbIF ue uif rs (s\<lparr>ho_time := t\<rparr>))
       (run_reports H gnbID gnbIF ue uif hist)"

definition since :: "(real \<times> bool) list \<Rightarrow> real" where
  "since hist = (case takeWhile snd (rev hist) of [] \<Rightarrow> - 1 | x # xs \<Rightarrow> fst (last (x # xs)))"

lemma since_snoc:
  assumes "\<forall>(t, b) \<in> set hist. t \<noteq> - 1"
  shows "since (hist @ [(t, b)]) = (if \<not> b then - 1 else if since hist = - 1 then t else since hist)"
proof (cases "takeWhile snd (rev hist)")
  case (Cons x xs)
  have "last (x # xs) \<in> set hist"
    using Cons set_takeWhileD [of "last (x # xs)" snd "rev hist"] by (metis last_in_set list.distinct(1) set_rev)
  then have "since hist \<noteq> - 1" using assms Cons by (auto simp: since_def)
  then show ?thesis using Cons by (auto simp: since_def)
qed (simp add: since_def)

lemma run_reports_append:
  "run_reports H gnbID gnbIF ue uif (h1 @ h2) s
     = rbind (run_reports H gnbID gnbIF ue uif h1 s) (run_reports H gnbID gnbIF ue uif h2)"
  by (induction h1 arbitrary: s) (auto simp: rbind_def split: sum.splits)

text \<open>
  C16. The trigger time of a UE for a cell is the time since when every report has found that cell
  better than the serving one by more than the margin: after any sequence of reports it is
  the time of the first report of the last unbroken run of such reports, and \<open>-1\<close> when the
  last report was not one; margin and time to trigger stay as they are.
\<close>

theorem ttt_counts_since_better:
  assumes "ho_gnb_rrc s (gnbID, gnbIF) = Some g" and "\<not> isDCEnable (ho_data H ue uif)" and "TTT g > 0"
    and "has_trigger (Conditional_HO_TTT_Matrix g) ue c" and "c \<noteq> gnbID"
    and "ttt_find (Conditional_HO_TTT_Matrix g) ue c = - 1"
    and "\<forall>(t, rs) \<in> set hist. t \<noteq> - 1 \<and> distinct (map rep_cellID rs) \<and> c \<in> rep_cellID ` set rs"
  shows "\<exists>s' g'. run_reports H gnbID gnbIF ue uif hist s = Inr s' \<and> ho_gnb_rrc s' (gnbID, gnbIF) = Some g'
    \<and> HandoverMargin g' = HandoverMargin g \<and> TTT g' = TTT g
    \<and> ttt_find (Conditional_HO_TTT_Matrix g') ue c
        = since (map (\<lambda>(t, rs). (t, better H (HandoverMargin g) gnbID ue uif c rs)) hist)"
proof -
  have "\<exists>s' g'. run_reports H gnbID gnbIF ue uif hist s = Inr s' \<and> ho_gnb_rrc s' (gnbID, gnbIF) = Some g'
    \<and> scan_frame g g' \<and> ttt_find (Conditional_HO_TTT_Matrix g') ue c
        = since (map (\<lambda>(t, rs). (t, better H (HandoverMargin g) gnbID ue uif c rs)) hist)"
    using assms(7)
  proof (induction hist rule: rev_induct)
    case Nil
    then show ?case using assms(1,6) by (auto simp: since_def scan_frame_refl)
  next
    case (snoc h hist)
    obtain t rs where h: "h = (t, rs)" by (cases h)
    let ?bs = "map (\<lambda>(t, rs). (t, better H (HandoverMargin g) gnbID ue uif c rs)) hist"
    obtain s1 g1 where s1: "run_reports H gnbID gnbIF ue uif hist s = Inr s1" "ho_gnb_rrc s1 (gnbID, gnbIF) = Some g1"
      "scan_frame g g1" "ttt_find (Conditional_HO_TTT_Matrix g1) ue c = since ?bs"
      using snoc by auto
    have g1: "ho_gnb_rrc (s1\<lparr>ho_time := t\<rparr>) (gnbID, gnbIF) = Some g1" using s1(2) by simp
    have c: "c \<in> rep_cellID ` set rs" "distinct (map rep_cellID rs)" "\<forall>(t, b) \<in> set ?bs. t \<noteq> - 1"
      using snoc.prems h by auto
    from measurement_step [OF g1 assms(2) c(2)] c(1) assms(3-5) s1(3,4)
    obtain s2 g2 where "fn_NetSim_LTENR_RRC_UE_MEASUREMENT_RECV H gnbID gnbIF ue uif rs (s1\<lparr>ho_time := t\<rparr>) = Inr s2"
      "ho_gnb_rrc s2 (gnbID, gnbIF) = Some g2" "scan_frame g1 g2"
      "ttt_find (Conditional_HO_TTT_Matrix g2) ue c
         = (if \<not> better H (HandoverMargin g) gnbID ue uif c rs then - 1 else if since ?bs = - 1 then t else since ?bs)"
      by (auto simp: scan_frame_def)
    then show ?case using s1 scan_frame_trans since_snoc [OF c(3)]
      by (auto simp: run_reports_append h)
  qed
  then show ?thesis by (auto simp: scan_frame_def)
qed

section \<open>Attaching and detaching a UE\<close>

locale handover_environment =
  fixes H :: ho_env
  assumes triggers: "list_library (trig_lib H)"
    and matrix: "list_library (matrix_lib H)"
    and reports: "list_library (report_lib H)"
begin

lemma trigger_list:
  "fold (\<lambda>(d, i) ts. if d \<noteq> gnbId
      then list_add_last (trig_lib H) ts \<lparr>trg_gnbID = d, trg_gnbIF = i, TriggerTime = TTT_NOT_SET\<rparr> else ts) cells ts
   = ts @ map (\<lambda>(d, i). \<lparr>trg_gnbID = d, trg_gnbIF = i, TriggerTime = TTT_NOT_SET\<rparr>) (filter (\<lambda>(d, i). d \<noteq> gnbId) cells)"
  by (induction cells arbitrary: ts) (auto simp: list_library.add_last_law [OF triggers])

lemma Add_matrix:
  "Conditional_HO_TTT_Matrix (fn_NetSim_LTENR_Conditional_HO_TTT_Matrix_Add H gnbId gnbIf ue uif g)
    = Conditional_HO_TTT_Matrix g @ [\<lparr>ttt_ueID = ue, ttt_ueIF = uif, gNB_HO_Trigger =
        map (\<lambda>(d, i). \<lparr>trg_gnbID = d, trg_gnbIF = i, TriggerTime = TTT_NOT_SET\<rparr>) (filter (\<lambda>(d, i). d \<noteq> gnbId)
          (if series3GPP (ho_data H gnbId gnbIf) = 38 then gnbDCList H else enbDCList H))\<rparr>]"
  by (simp add: fn_NetSim_LTENR_Conditional_HO_TTT_Matrix_Add_def Let_def trigger_list
      list_library.add_last_law [OF matrix])

lemma remove_absent:
  "\<forall>t \<in> set m. \<not> (ttt_ueID t = ue \<and> ttt_ueIF t = uif) \<Longrightarrow> ttt_remove_loop H ue uif m = []"
  by (induction m) auto

lemma remove_present:
  "\<forall>t \<in> set xs. \<not> (ttt_ueID t = ue \<and> ttt_ueIF t = uif) \<Longrightarrow> ttt_ueID e = ue \<Longrightarrow> ttt_ueIF e = uif
    \<Longrightarrow> ttt_remove_loop H ue uif (xs @ e # ys) = ys"
  by (induction xs) (auto simp: list_library.free_law [OF matrix] remove_at_def)

lemma free_loop: "length m < fuel \<Longrightarrow> ttt_free_loop H fuel m = Inr []"
proof (induction fuel arbitrary: m)
  case (Suc fuel)
  then show ?case
    by (cases m) (auto simp: list_library.free_law [OF matrix] remove_at_def)
qed simp

end

text \<open>Cells 1, 2 and 3 and the UE 9, with dual connectivity or without.\<close>

definition plain_ho :: "bool \<Rightarrow> ho_env" where
  "plain_ho dc = \<lparr>pdcpE = plain_pdcp_env\<lparr>core := plain_core_env\<lparr>LTENR_PROTODATA_GET :=
       (\<lambda>d i. (LTENR_PROTODATA_GET plain_core_env d i)\<lparr>isDCEnable := dc, series3GPP := 38, SecCellType := MMWAVE_CELL_TYPE,
          deviceType := if d = 9 then LTENR_DEVICETYPE_UE else LTENR_DEVICETYPE_GNB\<rparr>)\<rparr>\<rparr>,
     trig_lib = plain_list_lib, matrix_lib = plain_list_lib, report_lib = plain_list_lib,
     interfaces = [(1, 1), (2, 1), (3, 1), (9, 1)], gnbDCList = [(1, 1), (2, 1), (3, 1)], enbDCList = [],
     fn_NetSim_isDeviceLTENR = (\<lambda>d i. True), fn_NetSim_LTENR_CORE_INTERFACE = (\<lambda>d t. 2),
     fn_NetSim_LTENR_IS_S1_INTERFACE_EXISTS = (\<lambda>d. False),
     fn_NetSim_LTENR_INTERFACE_ID_FROM_CONNECTED_DEVICE = (\<lambda>d i r. 1),
     LTENR_PHY_RRC_RSRP_SINR = (\<lambda>r rin d i. if r = 2 then 20 else 10),
     gnb_epc = (\<lambda>d i. (8, 1)), connectedAMF = (\<lambda>d i. 7), connectedSMF = (\<lambda>d i. 6)\<rparr>"

interpretation plain_ho: handover_environment "plain_ho dc"
  by unfold_locales (simp_all add: plain_ho_def plain_list_lib_def)

text \<open>
  Attaching a UE adds it behind the others, with one unset trigger per other cell of its
  radio access; detaching keeps only the UEs that were attached after it. So a UE that
  attaches and detaches, or detaches without having attached, wipes out the triggers of every
  UE of the gNB.
\<close>

theorem ttt_detach_forgets_others:
  assumes "handover_environment H"
    and "\<forall>t \<in> set (Conditional_HO_TTT_Matrix g). \<not> (ttt_ueID t = ue \<and> ttt_ueIF t = uif)"
    and "g1 = fn_NetSim_LTENR_Conditional_HO_TTT_Matrix_Add H gnb gif ue uif g"
  shows "\<exists>e. Conditional_HO_TTT_Matrix g1 = Conditional_HO_TTT_Matrix g @ [e]
    \<and> ttt_ueID e = ue \<and> ttt_ueIF e = uif
    \<and> map (\<lambda>t. (trg_gnbID t, trg_gnbIF t)) (gNB_HO_Trigger e) = filter (\<lambda>(d, i). d \<noteq> gnb)
        (if series3GPP (ho_data H gnb gif) = 38 then gnbDCList H else enbDCList H)
    \<and> (\<forall>t \<in> set (gNB_HO_Trigger e). TriggerTime t = TTT_NOT_SET)
    \<and> Conditional_HO_TTT_Matrix (fn_NetSim_LTENR_Conditional_HO_TTT_Matrix_Remove H ue uif g1) = []
    \<and> Conditional_HO_TTT_Matrix (fn_NetSim_LTENR_Conditional_HO_TTT_Matrix_Remove H ue uif g) = []
    \<and> (\<forall>ys. Conditional_HO_TTT_Matrix (fn_NetSim_LTENR_Conditional_HO_TTT_Matrix_Remove H ue uif
               (g1\<lparr>Conditional_HO_TTT_Matrix := Conditional_HO_TTT_Matrix g1 @ ys\<rparr>)) = ys)"
proof -
  obtain e where e: "Conditional_HO_TTT_Matrix g1 = Conditional_HO_TTT_Matrix g @ [e]" "ttt_ueID e = ue" "ttt_ueIF e = uif"
    "gNB_HO_Trigger e = map (\<lambda>(d, i). \<lparr>trg_gnbID = d, trg_gnbIF = i, TriggerTime = TTT_NOT_SET\<rparr>)
      (filter (\<lambda>(d, i). d \<noteq> gnb) (if series3GPP (ho_data H gnb gif) = 38 then gnbDCList H else enbDCList H))"
    by (rule that [of "last (Conditional_HO_TTT_Matrix g1)"])
      (simp_all add: assms(3) handover_environment.Add_matrix [OF assms(1)])
  have drop: "ttt_remove_loop H ue uif (Conditional_HO_TTT_Matrix g @ e # ys) = ys" for ys
    by (rule handover_environment.remove_present [OF assms(1,2) e(2,3)])
  show ?thesis
    using drop e(1) drop [of "[]"] handover_environment.remove_absent [OF assms(1,2)]
    by (intro exI [of _ e])
      (simp add: fn_NetSim_LTENR_Conditional_HO_TTT_Matrix_Remove_def comp_def case_prod_beta e)
qed

section \<open>The secondary cell\<close>

lemma fold_best:
  fixes f :: "'a \<Rightarrow> real"
  assumes "fold (\<lambda>x (b, k). if P x \<and> b < f x then (f x, key x) else (b, k)) xs (b0, k0) = (b, k)"
  shows "b0 \<le> b \<and> (\<forall>x \<in> set xs. P x \<longrightarrow> f x \<le> b)
    \<and> (b = b0 \<and> k = k0 \<or> (\<exists>x \<in> set xs. P x \<and> f x = b \<and> key x = k \<and> b0 < b))"
  using assms
proof (induction xs arbitrary: b0 k0)
  case (Cons x xs)
  show ?case
  proof (cases "P x \<and> b0 < f x")
    case True
    with Cons have "f x \<le> b \<and> (\<forall>x \<in> set xs. P x \<longrightarrow> f x \<le> b)
      \<and> (b = f x \<and> k = key x \<or> (\<exists>x' \<in> set xs. P x' \<and> f x' = b \<and> key x' = k \<and> f x < b))" by simp
    then show ?thesis using True by auto
  next
    case False
    with Cons have "b0 \<le> b \<and> (\<forall>x \<in> set xs. P x \<longrightarrow> f x \<le> b)
      \<and> (b = b0 \<and> k = k0 \<or> (\<exists>x \<in> set xs. P x \<and> f x = b \<and> key x = k \<and> b0 < b))" by auto
    then show ?thesis using False by auto
  qed
qed simp

definition sn_candidates :: "ho_env \<Rightarrow> netsim_id \<Rightarrow> netsim_id \<Rightarrow> (netsim_id \<times> netsim_id) set" where
  "sn_candidates H ue i = {(r, rin) \<in> set (interfaces H). ue \<noteq> r \<and> sn_considered H ue i r rin
     \<and> deviceType (ho_data H r rin) = LTENR_DEVICETYPE_GNB}"

lemma FIND_BEST_spec:
  assumes "\<forall>(r, rin) \<in> sn_candidates H ue i. LTENR_PHY_RRC_RSRP_SINR H r rin ue i > INT_MIN"
  shows "if sn_candidates H ue i = {} then fn_NetSim_LTENR_FIND_BEST_SN_CELL_FOR_UE H ue i = 0
    else \<exists>(r, rin) \<in> sn_candidates H ue i. fn_NetSim_LTENR_FIND_BEST_SN_CELL_FOR_UE H ue i = r
      \<and> (\<forall>(r', rin') \<in> sn_candidates H ue i. LTENR_PHY_RRC_RSRP_SINR H r' rin' ue i \<le> LTENR_PHY_RRC_RSRP_SINR H r rin ue i)"
proof -
  let ?P = "\<lambda>(r, rin). ue \<noteq> r \<and> sn_considered H ue i r rin \<and> deviceType (ho_data H r rin) = LTENR_DEVICETYPE_GNB"
  let ?f = "\<lambda>(r, rin). LTENR_PHY_RRC_RSRP_SINR H r rin ue i"
  obtain b k where bk: "fold (\<lambda>x (b, k). if ?P x \<and> b < ?f x then (?f x, fst x) else (b, k)) (interfaces H) (INT_MIN, 0) = (b, k)"
    by fastforce
  have eq: "(\<lambda>x (b, k). if ?P x \<and> b < ?f x then (?f x, fst x) else (b, k))
      = (\<lambda>(r, rin) (Best_SINR, BEST_SN_ID).
       if ue \<noteq> r \<and> sn_considered H ue i r rin \<and> deviceType (ho_data H r rin) = LTENR_DEVICETYPE_GNB
          \<and> Best_SINR < LTENR_PHY_RRC_RSRP_SINR H r rin ue i
       then (LTENR_PHY_RRC_RSRP_SINR H r rin ue i, r) else (Best_SINR, BEST_SN_ID))"
    by (auto simp: fun_eq_iff)
  have best: "fn_NetSim_LTENR_FIND_BEST_SN_CELL_FOR_UE H ue i = k"
    using bk unfolding eq fn_NetSim_LTENR_FIND_BEST_SN_CELL_FOR_UE_def by simp
  have cand: "x \<in> sn_candidates H ue i \<longleftrightarrow> x \<in> set (interfaces H) \<and> ?P x" for x
    by (auto simp: sn_candidates_def)
  note F = fold_best [OF bk]
  show ?thesis
  proof (cases "sn_candidates H ue i = {}")
    case True
    then show ?thesis using F cand best by auto
  next
    case False
    then obtain y where y: "y \<in> sn_candidates H ue i" by blast
    then have "b \<noteq> INT_MIN" using F assms cand by fastforce
    then obtain x where "x \<in> set (interfaces H)" "?P x" "?f x = b" "fst x = k" using F by blast
    then show ?thesis using F cand best False by (auto intro!: bexI [of _ x])
  qed
qed

text \<open>
  A UE in dual connectivity without a secondary cell gets the best one: when the SINR of some
  other cell of the secondary radio access is known, one of the greatest SINR is asked to
  join, once, and becomes the secondary cell; when there is none, nothing changes.
\<close>

theorem sn_selection_takes_best:
  assumes "ho_ue_rrc s (ue, uif) = Some rrc" and "isDCEnable (ho_data H ue uif)" and "\<not> isSNSconnected rrc"
    and "i = fn_NetSim_LTENR_SEC_INTEFACE_FOR_UE (pdcpE H) ue uif"
    and "\<forall>(r, rin) \<in> sn_candidates H ue i. LTENR_PHY_RRC_RSRP_SINR H r rin ue i > INT_MIN \<and> r \<noteq> 0"
  shows "if sn_candidates H ue i = {} then fn_NetSim_LTENR_SEC_CELL_SelectionAddition H ue uif s = Inr s
    else \<exists>(r, rin) \<in> sn_candidates H ue i. \<exists>s'. fn_NetSim_LTENR_SEC_CELL_SelectionAddition H ue uif s = Inr s'
      \<and> (\<forall>(r', rin') \<in> sn_candidates H ue i. LTENR_PHY_RRC_RSRP_SINR H r' rin' ue i \<le> LTENR_PHY_RRC_RSRP_SINR H r rin ue i)
      \<and> (\<exists>rif. ho_trace s' = ho_trace s @ [SecondaryCellAddition ue i (SelectedCellID rrc) (SelectedCellIF rrc) r rif]
          \<and> ho_ue_rrc s' = (ho_ue_rrc s)((ue, uif) := Some (rrc\<lparr>SNID := r, SNIF := rif\<rparr>)))"
proof -
  have run: "fn_NetSim_LTENR_SEC_CELL_SelectionAddition H ue uif s
      = (let r = fn_NetSim_LTENR_FIND_BEST_SN_CELL_FOR_UE H ue i;
             rif = fn_NetSim_LTENR_INTERFACE_ID_FROM_CONNECTED_DEVICE H ue i r;
             s1 = ho_out (SecondaryCellAddition ue i (SelectedCellID rrc) (SelectedCellIF rrc) r rif) s
         in Inr (if r = 0 then s else s1\<lparr>ho_ue_rrc := (ho_ue_rrc s1)((ue, uif) := Some (rrc\<lparr>SNID := r, SNIF := rif\<rparr>))\<rparr>))"
    using assms by (simp add: fn_NetSim_LTENR_SEC_CELL_SelectionAddition_def Let_def)
  have known: "\<forall>(r, rin) \<in> sn_candidates H ue i. LTENR_PHY_RRC_RSRP_SINR H r rin ue i > INT_MIN"
    using assms(5) by auto
  note B = FIND_BEST_spec [OF known]
  show ?thesis
  proof (cases "sn_candidates H ue i = {}")
    case True
    then show ?thesis using B by (simp add: run)
  next
    case False
    then obtain r rin where r: "(r, rin) \<in> sn_candidates H ue i" "fn_NetSim_LTENR_FIND_BEST_SN_CELL_FOR_UE H ue i = r"
      "\<forall>(r', rin') \<in> sn_candidates H ue i. LTENR_PHY_RRC_RSRP_SINR H r' rin' ue i \<le> LTENR_PHY_RRC_RSRP_SINR H r rin ue i"
      using B by auto
    moreover have "r \<noteq> 0" using r(1) assms(5) by auto
    ultimately show ?thesis using False
      by (auto simp: run Let_def ho_out_def intro!: bexI [of _ "(r, rin)"])
  qed
qed

lemma sn_scan_split:
  assumes "fold (sn_scan H ue uif rrc) rs (a, b, c) = (a', b', c')"
  shows "fold (\<lambda>r (b, k). if sn_considered H ue uif (rep_cellID r) (rep_cellIF r) \<and> b < rep_sinr r
        then (rep_sinr r, rep_cellID r) else (b, k)) rs (b, c) = (b', c')
    \<and> a' = (case find (\<lambda>r. sn_considered H ue uif (rep_cellID r) (rep_cellIF r) \<and> rep_cellID r = SNID rrc) (rev rs) of
        Some r \<Rightarrow> rep_sinr r | None \<Rightarrow> a)"
  using assms
proof (induction rs arbitrary: a' b' c' rule: rev_induct)
  case (snoc r rs)
  obtain x y z where xyz: "fold (sn_scan H ue uif rrc) rs (a, b, c) = (x, y, z)" by (metis prod_cases3)
  then have "sn_scan H ue uif rrc r (x, y, z) = (a', b', c')" using snoc.prems by simp
  with snoc.IH [OF xyz] show ?case by (auto simp: sn_scan_def split: if_splits)
qed simp

text \<open>
  With a margin that is not negative, the handover of the secondary cell is requested exactly
  when some considered cell is better than the serving secondary cell by more than the
  margin; one request goes from the master cell to a cell of the greatest SINR, on behalf of
  the UE, naming the serving cell; nothing else changes.
\<close>

theorem sn_handover_to_best:
  assumes "ho_ue_rrc s (ue, uif) = Some rrc" and "ho_gnb_rrc s (SNID rrc, SNIF rrc) = Some g" and "HandoverMargin g \<ge> 0"
    and "con = (\<lambda>r. sn_considered H ue uif (rep_cellID r) (rep_cellIF r))"
    and "\<forall>r \<in> set report. con r \<longrightarrow> rep_sinr r > INT_MIN \<and> rep_cellID r \<noteq> 0"
    and "r0 \<in> set report" and "con r0" and "rep_cellID r0 = SNID rrc" and "distinct (map rep_cellID report)"
  shows "\<exists>s'. fn_NetSim_DC_HO_SN_PROCESSIONG H ue uif report s = Inr s'
    \<and> (if \<exists>r \<in> set report. con r \<and> rep_sinr r > rep_sinr r0 + HandoverMargin g
       then \<exists>r \<in> set report. con r \<and> (\<forall>r' \<in> set report. con r' \<longrightarrow> rep_sinr r' \<le> rep_sinr r)
         \<and> (\<exists>a b h. s' = ho_out (SendSN (SelectedCellID rrc) (rep_cellID r) a b h) s
              \<and> sn_msgType h = LTENR_MSG_DC_HO_SEC_CELL_ADDITION_REQUEST \<and> sn_ueID h = ue
              \<and> sn_SNID h = SNID rrc \<and> sn_TSNID h = rep_cellID r \<and> SNHandoverStartTime h = ho_time s)
       else s' = s)"
proof -
  obtain a b c where f: "fold (sn_scan H ue uif rrc) report (0, INT_MIN, 0) = (a, b, c)" by (metis prod_cases3)
  note F = sn_scan_split [OF f]
  have B: "INT_MIN \<le> b \<and> (\<forall>r \<in> set report. con r \<longrightarrow> rep_sinr r \<le> b)
    \<and> (b = INT_MIN \<and> c = 0 \<or> (\<exists>r \<in> set report. con r \<and> rep_sinr r = b \<and> rep_cellID r = c \<and> INT_MIN < b))"
    using fold_best [OF conjunct1 [OF F]] by (simp add: assms(4))
  have serving: "a = rep_sinr r0"
  proof (cases "find (\<lambda>r. con r \<and> rep_cellID r = SNID rrc) (rev report)")
    case None
    then show ?thesis using assms(6-8) by (auto simp: find_None_iff)
  next
    case (Some r)
    then have "r \<in> set report" "rep_cellID r = rep_cellID r0"
      using assms(8) by (auto simp: find_Some_iff dest: nth_mem) (metis length_rev nth_mem set_rev)
    then have "r = r0" using assms(6,9) by (auto simp: distinct_map dest: inj_onD)
    then show ?thesis using F Some by (simp add: assms(4))
  qed
  obtain r where r: "r \<in> set report" "con r" "rep_sinr r = b" "rep_cellID r = c"
    using B assms(5-7) by fastforce
  have c: "c \<noteq> 0" using r assms(5) by auto
  have same: "c = SNID rrc \<Longrightarrow> b = rep_sinr r0"
    using r assms(6,8,9) by (metis distinct_map inj_onD)
  have run: "fn_NetSim_DC_HO_SN_PROCESSIONG H ue uif report s
      = (if rep_sinr r0 + HandoverMargin g < b
         then Inr (fn_NetSim_LTENR_DC_HO_SN_ADDITION_REQUEST H (sn_handover_hdr H ue uif rrc c) s) else Inr s)"
    using assms(1-3) same c
    by (auto simp: fn_NetSim_DC_HO_SN_PROCESSIONG_def f serving word_gt_0)
  have sent: "\<exists>x y h. fn_NetSim_LTENR_DC_HO_SN_ADDITION_REQUEST H (sn_handover_hdr H ue uif rrc c) s
        = ho_out (SendSN (SelectedCellID rrc) c x y h) s
      \<and> sn_msgType h = LTENR_MSG_DC_HO_SEC_CELL_ADDITION_REQUEST \<and> sn_ueID h = ue
      \<and> sn_SNID h = SNID rrc \<and> sn_TSNID h = c \<and> SNHandoverStartTime h = ho_time s"
    using ADDITION_REQUEST_sends [of H "sn_handover_hdr H ue uif rrc c" s]
    by (elim exE, intro exI, intro conjI) (assumption | simp add: sn_handover_hdr_def Let_def)+
  show ?thesis
  proof (cases "rep_sinr r0 + HandoverMargin g < b")
    case True
    then have "\<exists>r \<in> set report. con r \<and> rep_sinr r > rep_sinr r0 + HandoverMargin g" using r by auto
    moreover have "\<forall>r' \<in> set report. con r' \<longrightarrow> rep_sinr r' \<le> rep_sinr r" using B r(3) by simp
    ultimately show ?thesis using r(1,2) sent True unfolding run r(4) [symmetric]
      by (intro exI [of _ "fn_NetSim_LTENR_DC_HO_SN_ADDITION_REQUEST H (sn_handover_hdr H ue uif rrc (rep_cellID r)) s"])
        (simp add: bexI [of _ r])
  next
    case False
    then show ?thesis using B by (force simp: run)
  qed
qed

section \<open>The handshakes on the Xn interface\<close>

text \<open>The network hands the packet sent last to the receiver.\<close>

definition deliver_last :: "ho_state \<Rightarrow> ho_state result" where
  "deliver_last s = (if ho_trace s = [] then Inr s
     else case last (ho_trace s) of
       SendPacket _ _ _ _ h \<Rightarrow> fn_NetSim_LTENR_Handover_RECV (ho_msgType h) (Some h) s
     | _ \<Rightarrow> Inr s)"

lemma deliver_last_out [simp]:
  "deliver_last (ho_out (SendPacket a b x y h) s) = fn_NetSim_LTENR_Handover_RECV (ho_msgType h) (Some h)
     (ho_out (SendPacket a b x y h) s)"
  by (simp add: deliver_last_def ho_out_def)

text \<open>Two headers are for the same handover: they differ in their message at most.\<close>

definition same_handover :: "LTENR_HANDOVER_Hdr \<Rightarrow> LTENR_HANDOVER_Hdr \<Rightarrow> bool" where
  "same_handover h h' \<longleftrightarrow> h'\<lparr>ho_msg := ho_msg h, ho_msgType := ho_msgType h\<rparr> = h"

lemmas xn_messages =
  LTENR_HANDOVER_REQUEST_def LTENR_HANDOVER_REQUEST_ACK_def LTENR_HANDOVER_UE_CONTEXT_RELEASE_def
  LTENR_HANDOVER_UE_CONTEXT_RELEASE_ACK_def LTENR_HANDOVER_REQUEST_RECV_def LTENR_HANDOVER_REQUEST_ACK_RECV_def
  LTENR_HANDOVER_UE_CONTEXT_RELEASE_RECV_def LTENR_HANDOVER_UE_CONTEXT_RELEASE_ACK_RECV_def
  fn_NetSim_LTENR_Handover_RECV_def

text \<open>
  A handover request crosses from the serving to the target cell, its acknowledgement comes
  back, and the serving cell then commands the handover through NAS: delivering the two
  packets always succeeds, every header is for the handover that was requested, and the
  request names the target and the cell visited last.
\<close>

theorem xn_request_handshake:
  "\<exists>s' h1 h2 h3 rq. rbind (deliver_last (LTENR_HANDOVER_REQUEST h0 s)) deliver_last = Inr s'
    \<and> ho_trace s' = ho_trace s @ [
        SendPacket (serveringCellID h0) (targetCellID h0) (Xn (serveringCellID h0)) (Xn (targetCellID h0)) h1,
        SendPacket (targetCellID h0) (serveringCellID h0) (Xn (targetCellID h0)) (Xn (serveringCellID h0)) h2,
        NASHandoverCommand h3]
    \<and> ho_msg h1 = Some (HandoverRequest rq) \<and> rq_targetID rq = targetCellID h0
    \<and> rq_lastVisitedCellID rq = serveringCellID h0
    \<and> same_handover h0 h1 \<and> same_handover h0 h2 \<and> same_handover h0 h3 \<and> ho_msg h3 = None"
  by (simp add: xn_messages Let_def rbind_def deref_def same_handover_def) (simp add: ho_out_def)

text \<open>
  The path switch ends the handover: with an Xn interface the target cell releases the context
  at the serving cell, which acknowledges, and on the acknowledgement the target becomes the
  cell the detector remembers for the UE, with the time. A UE whose number is 1024 or more
  makes it access its tables out of bounds.
\<close>

theorem xn_release_handshake:
  assumes "fn_NetSim_LTENR_CORE_INTERFACE H (serveringCellID h0) nGC_INTERFACE_XN \<noteq> 0"
    and "length (lastServingCell s) = MAX_UE" and "length (lastHOTime s) = MAX_UE"
    and "run = rbind (deliver_last (fn_NetSim_LTENR_NAS_PATH_SWITCH_ACK_RECV H h0 s)) deliver_last"
  shows "if unat (UEID h0) < MAX_UE
    then \<exists>s' h1 h2 xs. run = Inr s'
      \<and> lastServingCell s' ! unat (UEID h0) = sint (targetCellID h0) \<and> lastHOTime s' ! unat (UEID h0) = ho_time s
      \<and> ho_trace s' = ho_trace s @ [
        SendPacket (targetCellID h0) (serveringCellID h0) (Xn (targetCellID h0)) (Xn (serveringCellID h0)) h1,
        SendPacket (serveringCellID h0) (targetCellID h0) (Xn (serveringCellID h0)) (Xn (targetCellID h0)) h2] @ xs
      \<and> same_handover h0 h1 \<and> same_handover h0 h2
    else run = Inl OutOfBounds"
  using assms(1-3)
  by (simp add: assms(4) fn_NetSim_LTENR_NAS_PATH_SWITCH_ACK_RECV_def xn_messages send_pingpong_event_def Let_def
      rbind_def deref_def same_handover_def) (simp add: ho_out_def)

section \<open>The ping-pong detector\<close>

text \<open>
  A run of the detector: completed handovers with their times. In a chain every UE starts from the
  cell its last handover led to (\<open>0\<close>: none yet) and goes to another one.
\<close>

fun pingpong_run :: "(real \<times> LTENR_HANDOVER_Hdr) list \<Rightarrow> ho_state \<Rightarrow> ho_state result" where
  "pingpong_run [] s = Inr s"
| "pingpong_run ((t, h) # hs) s = rbind (send_pingpong_event h (s\<lparr>ho_time := t\<rparr>)) (pingpong_run hs)"

fun handover_chain :: "(netsim_id \<Rightarrow> netsim_id) \<Rightarrow> (real \<times> LTENR_HANDOVER_Hdr) list \<Rightarrow> bool" where
  "handover_chain cell [] = True"
| "handover_chain cell ((t, h) # hs) =
     (serveringCellID h \<noteq> targetCellID h \<and> targetCellID h \<noteq> 0
      \<and> (cell (UEID h) = 0 \<or> cell (UEID h) = serveringCellID h)
      \<and> handover_chain (cell(UEID h := targetCellID h)) hs)"

definition detector_knows :: "(netsim_id \<Rightarrow> netsim_id) \<Rightarrow> ho_state \<Rightarrow> bool" where
  "detector_knows cell s \<longleftrightarrow> length (lastServingCell s) = MAX_UE \<and> length (lastHOTime s) = MAX_UE
     \<and> (\<forall>ue. unat ue < MAX_UE \<longrightarrow> lastServingCell s ! unat ue = sint (cell ue))"

lemma detector_step:
  assumes "detector_knows cell s" and "unat (UEID h) < MAX_UE"
    and "cell (UEID h) = 0 \<or> cell (UEID h) \<noteq> targetCellID h"
  shows "\<exists>s'. send_pingpong_event h (s\<lparr>ho_time := t\<rparr>) = Inr s' \<and> ho_trace s' = ho_trace s
    \<and> detector_knows (cell(UEID h := targetCellID h)) s'"
proof -
  have "lastServingCell s ! unat (UEID h) = sint (cell (UEID h))" using assms by (simp add: detector_knows_def)
  moreover have "sint (cell (UEID h)) = 0 \<longleftrightarrow> cell (UEID h) = 0" by (metis signed_0 signed_word_eqI)
  moreover have "sint (cell (UEID h)) = sint (targetCellID h) \<longleftrightarrow> cell (UEID h) = targetCellID h"
    by (metis signed_word_eqI)
  ultimately have "send_pingpong_event h (s\<lparr>ho_time := t\<rparr>)
      = Inr (s\<lparr>ho_time := t, lastServingCell := (lastServingCell s)[unat (UEID h) := sint (targetCellID h)],
              lastHOTime := (lastHOTime s)[unat (UEID h) := t]\<rparr>)"
    using assms(2,3) by (auto simp: send_pingpong_event_def Let_def)
  then show ?thesis using assms(1,2)
    by (auto simp: detector_knows_def nth_list_update word_unat_eq_iff)
qed

text \<open>
  C2. The detector never reports a ping-pong: whatever handovers follow each other, of any UEs and
  however fast a UE returns to the cell it came from, as long as each handover starts where the
  last one of its UE ended, the detector runs through and sends nothing.
\<close>

theorem pingpong_never_reported:
  assumes "detector_knows (\<lambda>_. 0) s" and "handover_chain (\<lambda>_. 0) hs"
    and "\<forall>(t, h) \<in> set hs. unat (UEID h) < MAX_UE"
  shows "\<exists>s'. pingpong_run hs s = Inr s' \<and> ho_trace s' = ho_trace s"
proof -
  have "\<exists>s'. pingpong_run hs s = Inr s' \<and> ho_trace s' = ho_trace s"
    if "detector_knows cell s" "handover_chain cell hs" "\<forall>(t, h) \<in> set hs. unat (UEID h) < MAX_UE" for cell
    using that
  proof (induction hs arbitrary: cell s)
    case (Cons x hs)
    obtain t h where x: "x = (t, h)" by (cases x)
    have "unat (UEID h) < MAX_UE" "cell (UEID h) = 0 \<or> cell (UEID h) \<noteq> targetCellID h"
      using Cons.prems x by auto
    from detector_step [OF Cons.prems(1) this, of t] obtain s1 where s1:
      "send_pingpong_event h (s\<lparr>ho_time := t\<rparr>) = Inr s1" "ho_trace s1 = ho_trace s"
      "detector_knows (cell(UEID h := targetCellID h)) s1" by blast
    have "handover_chain (cell(UEID h := targetCellID h)) hs" using Cons.prems(2) x by simp
    with Cons.IH [OF s1(3) this] Cons.prems(3) s1 x show ?case by simp
  qed simp
  then show ?thesis using assms by blast
qed

section \<open>Examples\<close>

definition ex_ue_rrc :: LTENR_UERRC where
  "ex_ue_rrc = \<lparr>ueRRCState = UERRC_CONNECTED, ueCMState = UE_CM_CONNECTED, SelectedCellID = 1, SelectedCellIF = 1, SelectedAMFID = 7, SelectedAMFIF = 1,
     isSNSconnected = False, SNID = 3, SNIF = 1, rrc_isAlternativePacket = False,
     isSecondaryAssociated = False, InteruptionInterval = 0, isMNHandoverComplete = False\<rparr>"

definition ex_gnb_rrc :: LTENR_GNBRRC where
  "ex_gnb_rrc = \<lparr>Conditional_HO_TTT_Matrix = [\<lparr>ttt_ueID = 9, ttt_ueIF = 1, gNB_HO_Trigger =
       [\<lparr>trg_gnbID = 2, trg_gnbIF = 1, TriggerTime = - 1\<rparr>, \<lparr>trg_gnbID = 3, trg_gnbIF = 1, TriggerTime = - 1\<rparr>]\<rparr>],
     InterruptionTime = 0, HandoverMargin = 3, TTT = 100\<rparr>"

definition ex_ho_state :: ho_state where
  "ex_ho_state = \<lparr>ho_time = 0, ho_ue_rrc = (\<lambda>x. if x = (9, 1) then Some ex_ue_rrc else None),
     ho_gnb_rrc = (\<lambda>x. if x = (1, 1) \<or> x = (3, 1) then Some ex_gnb_rrc else None),
     lastServingCell = replicate MAX_UE 0, lastHOTime = replicate MAX_UE 0, ho_trace = []\<rparr>"

definition ex_report :: "real \<Rightarrow> LTENR_RRC_UE_MEASUREMENT_REPORT list" where
  "ex_report x = [\<lparr>rep_cellID = 1, rep_cellIF = 1, rep_ueID = 9, rep_sinr = 10\<rparr>,
     \<lparr>rep_cellID = 2, rep_cellIF = 1, rep_ueID = 9, rep_sinr = x\<rparr>,
     \<lparr>rep_cellID = 3, rep_cellIF = 1, rep_ueID = 9, rep_sinr = 5\<rparr>]"

lemma ex_report_cells [simp]: "map rep_cellID (ex_report x) = [1, 2, 3]"
  by (simp add: ex_report_def)

lemma ex_report_cell_set: "rep_cellID ` set (ex_report x) = {1, 2, 3}"
  by (simp add: ex_report_def)

lemma ex_plain_ho [simp]:
  "ho_data (plain_ho dc) d i = (LTENR_PROTODATA_GET plain_core_env d i)\<lparr>isDCEnable := dc, series3GPP := 38,
     SecCellType := MMWAVE_CELL_TYPE, deviceType := if d = 9 then LTENR_DEVICETYPE_UE else LTENR_DEVICETYPE_GNB\<rparr>"
  by (simp add: plain_ho_def)

lemma ex_ho_lookups [simp]:
  "ho_ue_rrc ex_ho_state (9, 1) = Some ex_ue_rrc" "ho_gnb_rrc ex_ho_state (1, 1) = Some ex_gnb_rrc"
  "ho_gnb_rrc ex_ho_state (3, 1) = Some ex_gnb_rrc" "SNID ex_ue_rrc = 3" "SNIF ex_ue_rrc = 1"
  "HandoverMargin ex_gnb_rrc = 3" "TTT ex_gnb_rrc = 100" "ho_trace ex_ho_state = []"
  "length (lastServingCell ex_ho_state) = MAX_UE" "length (lastHOTime ex_ho_state) = MAX_UE"
  by (simp_all add: ex_ho_state_def ex_ue_rrc_def ex_gnb_rrc_def)

lemma measurement_never_hands_over_witness:
  "\<exists>s' xs. fn_NetSim_LTENR_RRC_UE_MEASUREMENT_RECV (plain_ho False) 1 1 9 1 (ex_report 20) ex_ho_state = Inr s'
    \<and> ho_trace s' = xs \<and> (\<forall>x \<in> set xs. harmless x)"
proof -
  obtain s' where s': "fn_NetSim_LTENR_RRC_UE_MEASUREMENT_RECV (plain_ho False) 1 1 9 1 (ex_report 20) ex_ho_state = Inr s'"
    using measurement_step [of ex_ho_state 1 1 ex_gnb_rrc "plain_ho False" 9 1 "ex_report 20"] by auto
  from measurement_never_hands_over [OF s'] s' show ?thesis by simp
qed

lemma ttt_counts_since_better_witness:
  "\<exists>s' g'. run_reports (plain_ho False) 1 1 9 1 [(10, ex_report 20), (20, ex_report 12), (30, ex_report 20), (40, ex_report 25)]
      ex_ho_state = Inr s' \<and> ho_gnb_rrc s' (1, 1) = Some g'
    \<and> ttt_find (Conditional_HO_TTT_Matrix g') 9 2 = 30"
proof -
  have "\<exists>s' g'. run_reports (plain_ho False) 1 1 9 1 [(10, ex_report 20), (20, ex_report 12), (30, ex_report 20), (40, ex_report 25)]
      ex_ho_state = Inr s' \<and> ho_gnb_rrc s' (1, 1) = Some g'
    \<and> HandoverMargin g' = HandoverMargin ex_gnb_rrc \<and> TTT g' = TTT ex_gnb_rrc
    \<and> ttt_find (Conditional_HO_TTT_Matrix g') 9 2 = since (map (\<lambda>(t, rs).
        (t, better (plain_ho False) (HandoverMargin ex_gnb_rrc) 1 9 1 2 rs))
        [(10, ex_report 20), (20, ex_report 12), (30, ex_report 20), (40, ex_report 25)])"
    by (rule ttt_counts_since_better)
      (simp_all add: ex_report_cell_set, simp_all add: ex_gnb_rrc_def)
  moreover have "better (plain_ho False) 3 1 9 1 2 (ex_report x) = (x - 10 > 3)" for x
    by (simp add: better_def ex_report_def serving_sinr_def report_considered_def)
  ultimately show ?thesis by (auto simp: since_def simp del: run_reports.simps)
qed

lemma ttt_detach_forgets_others_witness:
  "Conditional_HO_TTT_Matrix (fn_NetSim_LTENR_Conditional_HO_TTT_Matrix_Remove (plain_ho False) 5 1
     (fn_NetSim_LTENR_Conditional_HO_TTT_Matrix_Add (plain_ho False) 1 1 5 1 ex_gnb_rrc)) = []"
  using ttt_detach_forgets_others [OF plain_ho.handover_environment_axioms [of False], of ex_gnb_rrc 5 1
      "fn_NetSim_LTENR_Conditional_HO_TTT_Matrix_Add (plain_ho False) 1 1 5 1 ex_gnb_rrc" 1 1]
  by (auto simp: ex_gnb_rrc_def)

lemma ex_candidates: "sn_candidates (plain_ho True) 9 2 = {(1, 1), (2, 1), (3, 1)}"
  by (auto simp: sn_candidates_def sn_considered_def plain_ho_def)

lemma sn_selection_takes_best_witness:
  "\<exists>s' rif. fn_NetSim_LTENR_SEC_CELL_SelectionAddition (plain_ho True) 9 1 ex_ho_state = Inr s'
    \<and> ho_trace s' = [SecondaryCellAddition 9 2 1 1 2 rif]"
proof -
  have "2 = fn_NetSim_LTENR_SEC_INTEFACE_FOR_UE (pdcpE (plain_ho True)) 9 1"
    by (simp add: plain_ho_def plain_pdcp_env_def)
  from sn_selection_takes_best [OF ex_ho_lookups(1) _ _ this]
  show ?thesis
    by (auto simp: ex_candidates ex_ue_rrc_def) (auto simp: plain_ho_def INT_MIN_def)
qed

lemma sn_handover_to_best_witness:
  "\<exists>s' a b h. fn_NetSim_DC_HO_SN_PROCESSIONG (plain_ho True) 9 1 (ex_report 20) ex_ho_state = Inr s'
    \<and> s' = ho_out (SendSN 1 2 a b h) ex_ho_state \<and> sn_TSNID h = 2"
proof -
  have con: "sn_considered (plain_ho True) 9 1 a b" for a b by (simp add: sn_considered_def) (simp add: plain_ho_def)
  have "ex_report 20 ! 2 \<in> set (ex_report 20)" by (rule nth_mem) (simp add: ex_report_def)
  from sn_handover_to_best [OF ex_ho_lookups(1), where ?g = ex_gnb_rrc and ?con = "\<lambda>r. True" and ?H = "plain_ho True"
      and ?report = "ex_report 20" and ?r0.0 = "ex_report 20 ! 2"] this
  show ?thesis by (auto simp: con ex_report_def INT_MIN_def ex_ue_rrc_def) blast
qed

definition ex_ho_hdr :: LTENR_HANDOVER_Hdr where
  "ex_ho_hdr = \<lparr>ho_msgType = LTENR_MSG_NAS_HANDOVER_REQUEST, ho_msg = None, serveringCellID = 1, serveringCellIF = 1,
     targetCellID = 2, targetCellIF = 1, UEID = 9, UEIF = 1, AMFID = 7, AMFIF = 1, targetAMFID = 7, targetAMFIF = 1,
     associateSMFID = 6, HandoverStartTime = 0\<rparr>"

lemma xn_release_handshake_witness:
  "\<exists>s'. rbind (deliver_last (fn_NetSim_LTENR_NAS_PATH_SWITCH_ACK_RECV (plain_ho False) ex_ho_hdr ex_ho_state)) deliver_last
      = Inr s' \<and> lastServingCell s' ! 9 = 2
    \<and> rbind (deliver_last (fn_NetSim_LTENR_NAS_PATH_SWITCH_ACK_RECV (plain_ho False) (ex_ho_hdr\<lparr>UEID := 1024\<rparr>) ex_ho_state))
        deliver_last = Inl OutOfBounds"
proof -
  have xn: "fn_NetSim_LTENR_CORE_INTERFACE (plain_ho False) (serveringCellID ex_ho_hdr) nGC_INTERFACE_XN \<noteq> 0"
    "fn_NetSim_LTENR_CORE_INTERFACE (plain_ho False) (serveringCellID (ex_ho_hdr\<lparr>UEID := 1024\<rparr>)) nGC_INTERFACE_XN \<noteq> 0"
    by (simp_all add: plain_ho_def)
  show ?thesis
    using xn_release_handshake [OF xn(1) ex_ho_lookups(9,10) refl] xn_release_handshake [OF xn(2) ex_ho_lookups(9,10) refl]
    by (auto simp: ex_ho_hdr_def MAX_UE_def)
qed

lemma pingpong_never_reported_witness:
  "\<exists>s'. pingpong_run [(1, ex_ho_hdr), (2, ex_ho_hdr\<lparr>serveringCellID := 2, targetCellID := 1\<rparr>), (2.5, ex_ho_hdr)] ex_ho_state
      = Inr s' \<and> ho_trace s' = []"
proof -
  have "detector_knows (\<lambda>_. 0) ex_ho_state"
    by (auto simp: detector_knows_def ex_ho_state_def)
  from pingpong_never_reported [OF this, of "[(1, ex_ho_hdr), (2, ex_ho_hdr\<lparr>serveringCellID := 2, targetCellID := 1\<rparr>), (2.5, ex_ho_hdr)]"]
  show ?thesis by (simp add: ex_ho_hdr_def MAX_UE_def)
qed

end
