(* ===== verification/EPC.thy ===== *)
theory EPC
  imports PDCP_Props
begin

text \<open>
  The EPC (\<open>LTE_NR/LTENR_EPC.c\<close>): the register of the gNB each UE is attached to, and the
  interface a downlink packet leaves by, with the choice of the cell in dual connectivity
  (\<open>LTENR_NSA.c\<close>).
\<close>

section \<open>The home location register\<close>

record LTENR_EPC_HLR =
  hlr_ueId :: netsim_id
  hlr_ueIf :: netsim_id
  hlr_gnbId :: netsim_id
  hlr_gnbIf :: netsim_id

text \<open>The list \<open>hlr\<close> of the \<open>LTENR_EPC\<close> of each interface that has one.\<close>

type_synonym hlr_map = "netsim_id \<times> netsim_id \<Rightarrow> LTENR_EPC_HLR list option"

datatype epc_effect = MacOut netsim_id netsim_id | FreedAtEPC NetSim_PACKET

text \<open>\<open>access_buffer\<close> is \<open>DEVICE_ACCESSBUFFER\<close> of each interface, \<open>ep_packet\<close> the packet of the current event.\<close>

record epc_state =
  epc_hlr :: hlr_map
  epc_rrc :: "netsim_id \<times> netsim_id \<Rightarrow> LTENR_UERRC option"
  access_buffer :: "netsim_id \<times> netsim_id \<Rightarrow> NetSim_PACKET list"
  ep_packet :: "NetSim_PACKET option"
  ep_trace :: "epc_effect list"

text \<open>
  The code outside the repository: the list library at the type of the register, the topology
  (\<open>ltenr_protocol E d i\<close>: \<open>nLocalNetworkProtocol\<close> of the interface is one of LTE and LTE NR),
  and the packet functions of the kernel.
\<close>

record epc_env =
  epcP :: pdcp_env
  hlr_lib :: "LTENR_EPC_HLR list_lib"
  nNumOfInterface :: "netsim_id \<Rightarrow> u32"
  ltenr_protocol :: "netsim_id \<Rightarrow> netsim_id \<Rightarrow> bool"
  fn_NetSim_Stack_GetConnectedDevice :: "netsim_id \<Rightarrow> netsim_id \<Rightarrow> netsim_id \<times> netsim_id"
  get_first_dest_from_packet :: "NetSim_PACKET \<Rightarrow> netsim_id"
  isBroadcastPacket :: "NetSim_PACKET \<Rightarrow> bool"
  isMulticastPacket :: "NetSim_PACKET \<Rightarrow> bool"
  fn_NetSim_GetBufferStatus :: "NetSim_PACKET list \<Rightarrow> bool"
  fn_NetSim_Packet_AddPacketToList :: "NetSim_PACKET list \<Rightarrow> NetSim_PACKET \<Rightarrow> NetSim_PACKET list"

definition LTENR_EPC_ALLOC :: "netsim_id \<Rightarrow> netsim_id \<Rightarrow> hlr_map \<Rightarrow> hlr_map" where
  "LTENR_EPC_ALLOC d i m = m((d, i) \<mapsto> [])"

definition LTENR_EPC_ASSOCIATION ::
  "epc_env \<Rightarrow> netsim_id \<Rightarrow> netsim_id \<Rightarrow> netsim_id \<Rightarrow> netsim_id \<Rightarrow> netsim_id \<Rightarrow> netsim_id \<Rightarrow> hlr_map
     \<Rightarrow> hlr_map result" where
  "LTENR_EPC_ASSOCIATION E epcId epcIf gnbId gnbIf ueId ueIf m =
     rbind (deref (m (epcId, epcIf))) (\<lambda>hlr. Inr (m((epcId, epcIf) \<mapsto> list_add_last (hlr_lib E) hlr
       \<lparr>hlr_ueId = ueId, hlr_ueIf = ueIf, hlr_gnbId = gnbId, hlr_gnbIf = gnbIf\<rparr>)))"

definition interface_ids :: "u32 \<Rightarrow> netsim_id list" where
  "interface_ids n = map of_nat [1..<Suc (unat n)]"

text \<open>\<open>e0\<close> is what the two pointers refer to before the call.\<close>

definition LTENR_GNB_SETEPC ::
  "epc_env \<Rightarrow> netsim_id \<Rightarrow> netsim_id \<Rightarrow> netsim_id \<times> netsim_id \<Rightarrow> netsim_id \<times> netsim_id" where
  "LTENR_GNB_SETEPC E d i e0 =
     (let far = fn_NetSim_Stack_GetConnectedDevice E d
      in case find (\<lambda>j. j \<noteq> i \<and> fst (far j) \<noteq> 0 \<and> ltenr_protocol E (fst (far j)) (snd (far j)))
           (interface_ids (nNumOfInterface E d)) of
           None \<Rightarrow> e0 | Some j \<Rightarrow> far j)"

text \<open>The pointer to an entry is its position in the list.\<close>

definition LTENR_EPC_FindHLR :: "hlr_map \<Rightarrow> netsim_id \<Rightarrow> netsim_id \<Rightarrow> netsim_id \<Rightarrow> nat option result" where
  "LTENR_EPC_FindHLR m d i dest =
     rbind (deref (m (d, i))) (\<lambda>hlr. Inr (find_pos (\<lambda>h. hlr_ueId h = dest) hlr))"

definition LTENR_EPC_FindHLR_For_GNB ::
  "hlr_map \<Rightarrow> netsim_id \<Rightarrow> netsim_id \<Rightarrow> netsim_id \<Rightarrow> netsim_id \<Rightarrow> nat option result" where
  "LTENR_EPC_FindHLR_For_GNB m d i dest gnbID =
     rbind (deref (m (d, i))) (\<lambda>hlr. Inr (find_pos (\<lambda>h. hlr_ueId h = dest \<and> hlr_gnbId h = gnbID) hlr))"

text \<open>\<open>LTENR_EPC_HLR_REMOVE\<close>, a macro: the entry at a position is taken out; NULL faults.\<close>

definition LTENR_EPC_HLR_REMOVE ::
  "epc_env \<Rightarrow> netsim_id \<Rightarrow> netsim_id \<Rightarrow> nat option \<Rightarrow> hlr_map \<Rightarrow> hlr_map result" where
  "LTENR_EPC_HLR_REMOVE E d i h m =
     rbind (deref (m (d, i))) (\<lambda>hlr. rbind (deref h) (\<lambda>j. Inr (m((d, i) \<mapsto> list_free (hlr_lib E) hlr j))))"

text \<open>The loop of the three searches: the first interface the test accepts, 0 when there is none.\<close>

fun first_interface :: "(netsim_id \<Rightarrow> bool result) \<Rightarrow> netsim_id list \<Rightarrow> netsim_id result" where
  "first_interface test [] = Inr 0"
| "first_interface test (i # is) = rbind (test i) (\<lambda>b. if b then Inr i else first_interface test is)"

definition LTENR_EPC_HLR_FindOutInterface :: "epc_env \<Rightarrow> hlr_map \<Rightarrow> netsim_id \<Rightarrow> netsim_id \<Rightarrow> netsim_id result" where
  "LTENR_EPC_HLR_FindOutInterface E m d dest =
     first_interface (\<lambda>i. if ltenr_protocol E d i
         then rbind (LTENR_EPC_FindHLR m d i dest) (\<lambda>h. Inr (h \<noteq> None)) else Inr False)
       (interface_ids (nNumOfInterface E d))"

text \<open>Both searches look at the first entry of the UE on an interface only.\<close>

definition first_hlr_of_gnb :: "epc_env \<Rightarrow> hlr_map \<Rightarrow> netsim_id \<Rightarrow> netsim_id \<Rightarrow> netsim_id \<Rightarrow> netsim_id \<Rightarrow> bool result" where
  "first_hlr_of_gnb E m d dest gnbID i =
     (if ltenr_protocol E d i
      then rbind (LTENR_EPC_FindHLR m d i dest) (\<lambda>h.
           case h of None \<Rightarrow> Inr False
           | Some j \<Rightarrow> rbind (deref (m (d, i))) (\<lambda>hlr. Inr (hlr_gnbId (hlr ! j) = gnbID)))
      else Inr False)"

definition LTENR_NSA_EPC_HLR_FindOutInterface_FOR_GNB ::
  "epc_env \<Rightarrow> hlr_map \<Rightarrow> netsim_id \<Rightarrow> netsim_id \<Rightarrow> netsim_id \<Rightarrow> netsim_id result" where
  "LTENR_NSA_EPC_HLR_FindOutInterface_FOR_GNB E m d dest gnbID =
     first_interface (first_hlr_of_gnb E m d dest gnbID) (interface_ids (nNumOfInterface E d))"

section \<open>The choice of the cell\<close>

text \<open>
  \<open>!rrc->ueRRCState == UERRC_CONNECTED\<close> compares a truth value, 0 or 1, with 2: the early return
  is never taken.
\<close>

definition fn_NetSim_LTENR_NSA_Splitting_Alogrithm_For_EPC ::
  "epc_env \<Rightarrow> netsim_id \<Rightarrow> epc_state \<Rightarrow> (netsim_id \<times> epc_state) result" where
  "fn_NetSim_LTENR_NSA_Splitting_Alogrithm_For_EPC E dest s =
     (let i = fn_NetSim_LTENR_MASTER_INTEFACE_FOR_UE (epcP E) dest
                (fn_NetSim_Get_LTENR_INTERFACE_ID_FROM_DEVICE_ID (epcP E) dest)
      in rbind (deref (epc_rrc s (dest, i))) (\<lambda>rrc.
         let state = (case ueRRCState rrc of UERRC_IDLE \<Rightarrow> 0 | UERRC_INACTIVE \<Rightarrow> 1 | UERRC_CONNECTED \<Rightarrow> 2) :: int;
             negated = (if state = 0 then 1 else 0) :: int;
             data = LTENR_PROTODATA_GET (core (epcP E)) dest i;
             alternating = (\<lambda>b. s\<lparr>epc_rrc := (epc_rrc s)((dest, i) := Some (rrc\<lparr>rrc_isAlternativePacket := b\<rparr>))\<rparr>)
         in if negated = 2 then Inr (0, s)
            else if isDCEnable data \<and> NSA_MODE data = NSA_MODE_OPTION3A
            then rbind (deref (ep_packet s)) (\<lambda>packet.
              Inr (if nQOS packet = QOS_GBR then SelectedCellID rrc
                   else if SNID rrc \<noteq> 0 then SNID rrc else SelectedCellID rrc, s))
            else if isDCEnable data \<and> NSA_MODE data = NSA_MODE_OPTION3 then Inr (SelectedCellID rrc, s)
            else if \<not> fn_NetSim_LTENR_NSA_IS_OPTION_X_EXISTS (epcP E) dest i
            then (if rrc_isAlternativePacket rrc
                  then Inr (if SNID rrc \<noteq> 0 then SNID rrc else SelectedCellID rrc, alternating False)
                  else Inr (if SelectedCellID rrc \<noteq> 0 then SelectedCellID rrc else SNID rrc, alternating True))
            else Inr (if SNID rrc \<noteq> 0 then SNID rrc else SelectedCellID rrc, s)))"

definition LTENR_NSA_EPC_HLR_FindOutInterface ::
  "epc_env \<Rightarrow> netsim_id \<Rightarrow> netsim_id \<Rightarrow> epc_state \<Rightarrow> (netsim_id \<times> epc_state) result" where
  "LTENR_NSA_EPC_HLR_FindOutInterface E d dest s =
     rbind (fn_NetSim_LTENR_NSA_Splitting_Alogrithm_For_EPC E dest s) (\<lambda>(splitID, s1).
     rbind (first_interface (first_hlr_of_gnb E (epc_hlr s1) d dest splitID) (interface_ids (nNumOfInterface E d)))
       (\<lambda>i. Inr (i, s1)))"

section \<open>Downlink packets\<close>

definition epc_free :: "NetSim_PACKET \<Rightarrow> epc_state \<Rightarrow> epc_state" where
  "epc_free packet s = s\<lparr>ep_trace := ep_trace s @ [FreedAtEPC packet]\<rparr>"

definition LTENR_EPC_NetworkOut :: "epc_env \<Rightarrow> netsim_id \<Rightarrow> netsim_id \<Rightarrow> epc_state \<Rightarrow> epc_state result" where
  "LTENR_EPC_NetworkOut E d i s =
     rbind (deref (ep_packet s)) (\<lambda>packet.
     if isBroadcastPacket E packet \<or> isMulticastPacket E packet then Inr (epc_free packet s)
     else let dest = get_first_dest_from_packet E packet
     in rbind (LTENR_EPC_HLR_FindOutInterface E (epc_hlr s) d dest) (\<lambda>out0.
        let P = epcP E
        in rbind (if isDCEnable (LTENR_PROTODATA_GET (core P) d i) \<and> \<not> isLTENRControlPacket packet
                  \<and> (fn_NetSim_LTENR_NSA_IS_CORE_SPLIT_EXISTS P d i \<or> fn_NetSim_LTENR_NSA_IS_OPTION_X_EXISTS P d i)
               then LTENR_NSA_EPC_HLR_FindOutInterface E d dest s else Inr (out0, s)) (\<lambda>(outIn, s1).
           if outIn = 0 then Inr (epc_free packet s1)
           else let buf = access_buffer s1 (d, outIn);
                    s2 = (if \<not> fn_NetSim_GetBufferStatus E buf
                          then s1\<lparr>ep_trace := ep_trace s1 @ [MacOut d outIn]\<rparr> else s1)
                in Inr (s2\<lparr>access_buffer := (access_buffer s2)((d, outIn) :=
                        fn_NetSim_Packet_AddPacketToList E buf packet), ep_packet := None\<rparr>))))"

end
