(* ===== verification/Handover_Exec.thy ===== *)
theory Handover_Exec
  imports Handover EPC
begin

text \<open>
  The execution of a handover: what becomes of the entities of PDCP and RLC when a UE changes
  its cell (\<open>LTE_NR/LTENR_NAS.c\<close>) or its secondary cell (\<open>LTENR_SN_HandOver.c\<close>), and the
  association of the physical layer that goes with it (\<open>LTENR_PHY.c\<close>).
\<close>

section \<open>State\<close>

text \<open>
  The fields of \<open>LTENR_ASSOCIATEDUEPHYINFO\<close> and \<open>LTENR_UEPHY\<close> association uses; \<open>ue_phy\<close> is
  the pair \<open>gnBId\<close>, \<open>gnbIf\<close> of the UE.
\<close>

record LTENR_ASSOCIATEDUEPHYINFO =
  ai_ueId :: netsim_id
  ai_ueIf :: netsim_id
  ai_isAssociated :: bool

record phy_state =
  gnb_phy :: "netsim_id \<times> netsim_id \<Rightarrow> LTENR_ASSOCIATEDUEPHYINFO list option"
  ue_phy :: "netsim_id \<times> netsim_id \<Rightarrow> (netsim_id \<times> netsim_id) option"

text \<open>
  The calls handover makes to parts that are not modelled. The devices are named in the order
  of the source; \<open>CommandHandle t d i h\<close> is the event
  \<open>LTENR_SUBEVENT_GENERATE_HANDOVER_COMMAND_HANDLE\<close> at time \<open>t\<close> on interface \<open>i\<close> of \<open>d\<close>.
\<close>

datatype exec_effect =
    AssociateInfoRemove netsim_id netsim_id netsim_id netsim_id
  | AssociateInfoAdd netsim_id netsim_id netsim_id netsim_id
  | SetLayerCount netsim_id netsim_id netsim_id netsim_id
  | InitAMCInfo netsim_id netsim_id netsim_id netsim_id
  | FreeAMCInfo netsim_id netsim_id netsim_id netsim_id
  | HARQAssociation netsim_id netsim_id netsim_id netsim_id bool
  | RemoveDeviceFromLink netsim_id netsim_id netsim_id
  | AddDeviceToLink netsim_id netsim_id netsim_id
  | RRCReconfiguration netsim_id netsim_id netsim_id netsim_id
  | CorePathSwitch LTENR_HANDOVER_Hdr
  | NASPathSwitchRequest LTENR_HANDOVER_Hdr
  | CommandHandle real netsim_id netsim_id LTENR_HANDOVER_Hdr
  | RouteThroughCore netsim_id netsim_id netsim_id netsim_id
  | SNMessage netsim_id netsim_id "netsim_id \<times> LTENR_INTERFACE_TYPE" "netsim_id \<times> LTENR_INTERFACE_TYPE" LTENR_SN_HANDOVER_HDR

text \<open>
  \<open>x_event\<close> is the current event, with the calls of RLC; \<open>x_pdcp_event\<close> is the same event as PDCP
  sees it. The RRC data of the UEs are those of \<open>x_pdcp\<close>.
\<close>

record exec_state =
  x_event :: EVENTDETAILS
  x_pdcp_event :: PDCP_EVENT
  x_rlc :: rlc_state
  x_pdcp :: pdcp_state
  x_gnb_rrc :: "netsim_id \<times> netsim_id \<Rightarrow> LTENR_GNBRRC option"
  x_phy :: phy_state
  x_hlr :: hlr_map
  x_trace :: "exec_effect list"

record exec_env =
  hoE :: ho_env
  epcE :: epc_env
  phy_lib :: "LTENR_ASSOCIATEDUEPHYINFO list_lib"
  nLinkId :: "netsim_id \<Rightarrow> netsim_id \<Rightarrow> netsim_id"

abbreviation coreX :: "exec_env \<Rightarrow> core_env" where "coreX X \<equiv> core (pdcpE (hoE X))"

definition x_out :: "exec_effect \<Rightarrow> exec_state \<Rightarrow> exec_state" where
  "x_out x s = s\<lparr>x_trace := x_trace s @ [x]\<rparr>"

section \<open>Association of the physical layer\<close>

definition LTENR_ASSOCIATEDUEPHYINFO_FIND ::
  "LTENR_ASSOCIATEDUEPHYINFO list \<Rightarrow> netsim_id \<Rightarrow> netsim_id \<Rightarrow> nat option" where
  "LTENR_ASSOCIATEDUEPHYINFO_FIND infos ueId ueIf = find_pos (\<lambda>a. ai_ueId a = ueId \<and> ai_ueIf a = ueIf) infos"

text \<open>The list in which the entry of the UE is; a new entry is zeroed memory.\<close>

definition LTENR_ASSOCIATEDUEPHYINFO_GET ::
  "exec_env \<Rightarrow> netsim_id \<Rightarrow> netsim_id \<Rightarrow> LTENR_ASSOCIATEDUEPHYINFO list \<Rightarrow> LTENR_ASSOCIATEDUEPHYINFO list" where
  "LTENR_ASSOCIATEDUEPHYINFO_GET X ueId ueIf infos =
     (if LTENR_ASSOCIATEDUEPHYINFO_FIND infos ueId ueIf \<noteq> None then infos
      else list_add_last (phy_lib X) infos \<lparr>ai_ueId = ueId, ai_ueIf = ueIf, ai_isAssociated = False\<rparr>)"

definition set_associated ::
  "bool \<Rightarrow> netsim_id \<Rightarrow> netsim_id \<Rightarrow> LTENR_ASSOCIATEDUEPHYINFO list \<Rightarrow> LTENR_ASSOCIATEDUEPHYINFO list" where
  "set_associated b ueId ueIf infos =
     (case LTENR_ASSOCIATEDUEPHYINFO_FIND infos ueId ueIf of
        Some j \<Rightarrow> infos[j := (infos ! j)\<lparr>ai_isAssociated := b\<rparr>] | None \<Rightarrow> infos)"

definition x_ttt ::
  "(LTENR_GNBRRC \<Rightarrow> LTENR_GNBRRC) \<Rightarrow> netsim_id \<Rightarrow> netsim_id \<Rightarrow> exec_state \<Rightarrow> exec_state result" where
  "x_ttt f g gi s =
     rbind (deref (x_gnb_rrc s (g, gi))) (\<lambda>rrc. Inr (s\<lparr>x_gnb_rrc := (x_gnb_rrc s)((g, gi) \<mapsto> f rrc)\<rparr>))"

definition LTENR_PHY_associateUE ::
  "exec_env \<Rightarrow> netsim_id \<Rightarrow> netsim_id \<Rightarrow> netsim_id \<Rightarrow> netsim_id \<Rightarrow> exec_state \<Rightarrow> exec_state result" where
  "LTENR_PHY_associateUE X gnbId gnbIf ueId ueIf s =
     rbind (deref (gnb_phy (x_phy s) (gnbId, gnbIf))) (\<lambda>infos.
     let infos1 = set_associated True ueId ueIf (LTENR_ASSOCIATEDUEPHYINFO_GET X ueId ueIf infos);
         phy1 = (x_phy s)\<lparr>gnb_phy := (gnb_phy (x_phy s))((gnbId, gnbIf) \<mapsto> infos1)\<rparr>
     in rbind (deref (ue_phy phy1 (ueId, ueIf))) (\<lambda>old.
        let s1 = s\<lparr>x_phy := phy1\<lparr>ue_phy := (ue_phy phy1)((ueId, ueIf) \<mapsto> (gnbId, gnbIf))\<rparr>\<rparr>
        in rbind (x_ttt (fn_NetSim_LTENR_Conditional_HO_TTT_Matrix_Add (hoE X) gnbId gnbIf ueId ueIf) gnbId gnbIf s1) (\<lambda>s2.
           let s3 = x_out (HARQAssociation gnbId gnbIf ueId ueIf True)
                 (x_out (InitAMCInfo gnbId gnbIf ueId ueIf) (x_out (SetLayerCount gnbId gnbIf ueId ueIf) s2));
               epc = gnb_epc (hoE X) gnbId gnbIf
           in if fn_NetSim_LTENR_IS_S1_INTERFACE_EXISTS (hoE X) gnbId \<and> fst epc \<noteq> 0
              then rbind (LTENR_EPC_ASSOCIATION (epcE X) (fst epc) (snd epc) gnbId gnbIf ueId ueIf (x_hlr s3))
                     (\<lambda>m. Inr (s3\<lparr>x_hlr := m\<rparr>))
              else Inr s3)))"

definition LTENR_PHY_deassociateUE ::
  "exec_env \<Rightarrow> netsim_id \<Rightarrow> netsim_id \<Rightarrow> netsim_id \<Rightarrow> netsim_id \<Rightarrow> exec_state \<Rightarrow> exec_state result" where
  "LTENR_PHY_deassociateUE X gnbId gnbIf ueId ueIf s =
     rbind (deref (gnb_phy (x_phy s) (gnbId, gnbIf))) (\<lambda>infos.
     let phy1 = (x_phy s)\<lparr>gnb_phy := (gnb_phy (x_phy s))((gnbId, gnbIf) \<mapsto> set_associated False ueId ueIf infos)\<rparr>;
         s1 = (if LTENR_ASSOCIATEDUEPHYINFO_FIND infos ueId ueIf \<noteq> None
               then x_out (FreeAMCInfo gnbId gnbIf ueId ueIf)
                      (x_out (HARQAssociation gnbId gnbIf ueId ueIf False) (s\<lparr>x_phy := phy1\<rparr>))
               else s)
     in x_ttt (fn_NetSim_LTENR_Conditional_HO_TTT_Matrix_Remove (hoE X) ueId ueIf) gnbId gnbIf s1)"

definition LTENR_PHY_ASSOCIATION ::
  "exec_env \<Rightarrow> netsim_id \<Rightarrow> netsim_id \<Rightarrow> netsim_id \<Rightarrow> netsim_id \<Rightarrow> bool \<Rightarrow> exec_state \<Rightarrow> exec_state result" where
  "LTENR_PHY_ASSOCIATION X gnbId gnbIf ueId ueIf isAssociated s =
     (if isAssociated then LTENR_PHY_associateUE X gnbId gnbIf ueId ueIf s
      else LTENR_PHY_deassociateUE X gnbId gnbIf ueId ueIf s)"

section \<open>The buffers of PDCP\<close>

text \<open>
  A pointer to a PDCP entity: the interface, on the side of the gNB or of the UE, and the
  position in its chain.
\<close>

datatype pdcp_ref = GnbEntity netsim_id netsim_id nat | UeEntity netsim_id netsim_id nat

fun pdcp_var_of :: "pdcp_state \<Rightarrow> pdcp_ref \<Rightarrow> LTENR_PDCPVAR option" where
  "pdcp_var_of st (GnbEntity d i j) = gnb_pdcp st (d, i)"
| "pdcp_var_of st (UeEntity d i j) = ue_pdcp st (d, i)"

fun pdcp_pos :: "pdcp_ref \<Rightarrow> nat" where
  "pdcp_pos (GnbEntity d i j) = j"
| "pdcp_pos (UeEntity d i j) = j"

fun pdcp_var_put :: "pdcp_ref \<Rightarrow> LTENR_PDCPVAR \<Rightarrow> pdcp_state \<Rightarrow> pdcp_state" where
  "pdcp_var_put (GnbEntity d i j) v st = st\<lparr>gnb_pdcp := (gnb_pdcp st)((d, i) \<mapsto> v)\<rparr>"
| "pdcp_var_put (UeEntity d i j) v st = st\<lparr>ue_pdcp := (ue_pdcp st)((d, i) \<mapsto> v)\<rparr>"

definition pdcp_load :: "pdcp_state \<Rightarrow> pdcp_ref \<Rightarrow> LTENR_PDCPENTITY result" where
  "pdcp_load st r = rbind (deref (pdcp_var_of st r)) (\<lambda>v. Inr (pdcpEntity v ! pdcp_pos r))"

definition pdcp_store :: "pdcp_ref \<Rightarrow> LTENR_PDCPENTITY \<Rightarrow> pdcp_state \<Rightarrow> pdcp_state result" where
  "pdcp_store r e st =
     rbind (deref (pdcp_var_of st r)) (\<lambda>v.
     Inr (pdcp_var_put r (v\<lparr>pdcpEntity := (pdcpEntity v)[pdcp_pos r := e]\<rparr>) st))"

text \<open>
  What \<open>tar\<close> gets from \<open>ser\<close>. The packets of the transmission buffer change their transmitter
  (\<open>flag\<close> 0) or their receiver to the gNB of \<open>tar\<close>; a packet of this buffer has no successor.
  Timers and their flags are not taken over.
\<close>

definition readdress :: "int \<Rightarrow> netsim_id \<Rightarrow> NetSim_PACKET \<Rightarrow> NetSim_PACKET" where
  "readdress flag d packet = (if flag = 0 then packet\<lparr>nTransmitterId := d\<rparr> else packet\<lparr>nReceiverId := d\<rparr>)"

definition pdcp_take_over :: "int \<Rightarrow> LTENR_PDCPENTITY \<Rightarrow> LTENR_PDCPENTITY \<Rightarrow> LTENR_PDCPENTITY" where
  "pdcp_take_over flag ser tar =
     tar\<lparr>pe_transmissionBuffer := map (\<lambda>b. b\<lparr>bp_packet := readdress flag (pe_enbId tar) (bp_packet b)\<rparr>)
           (pe_transmissionBuffer ser),
         pe_noBuffers := pe_noBuffers ser,
         pe_receiveBuffer := pe_receiveBuffer ser,
         TX_NEXT := TX_NEXT ser, last_RECV_COUNT := last_RECV_COUNT ser, RX_DELIV := RX_DELIV ser,
         RX_NEXT := RX_NEXT ser, RX_REORD := RX_REORD ser\<rparr>"

definition pdcp_bereft :: "LTENR_PDCPENTITY \<Rightarrow> LTENR_PDCPENTITY" where
  "pdcp_bereft ser = ser\<lparr>pe_transmissionBuffer := [], pe_receiveBuffer := [], pe_noBuffers := True\<rparr>"

text \<open>A transmission buffer that is NULL is dereferenced.\<close>

definition fn_NetSim_LTENR_NAS_PDCP_BUFFER_TRANSFER ::
  "pdcp_ref option \<Rightarrow> pdcp_ref option \<Rightarrow> int \<Rightarrow> pdcp_state \<Rightarrow> pdcp_state result" where
  "fn_NetSim_LTENR_NAS_PDCP_BUFFER_TRANSFER ser tar flag st =
     (case (ser, tar) of
        (Some rs, Some rt) \<Rightarrow>
          rbind (pdcp_load st rs) (\<lambda>s.
          rbind (pdcp_load st rt) (\<lambda>t.
          if pe_noBuffers s then Inl NullDeref
          else rbind (pdcp_store rt (pdcp_take_over flag s t) st) (\<lambda>st1.
               rbind (pdcp_load st1 rs) (\<lambda>s1.
               pdcp_store rs (pdcp_bereft s1) st1))))
      | _ \<Rightarrow> Inr st)"

text \<open>The two lookups of a mode and the transfer, on the gNBs' side and on that of the UE.\<close>

definition pdcp_gnb_transfer ::
  "netsim_id \<Rightarrow> netsim_id \<Rightarrow> netsim_id \<Rightarrow> netsim_id \<Rightarrow> netsim_id \<Rightarrow> netsim_id \<Rightarrow> LTENR_RLCMODE
     \<Rightarrow> LTENR_RLCMODE \<Rightarrow> pdcp_state \<Rightarrow> pdcp_state result" where
  "pdcp_gnb_transfer d i r rin t tin smode tmode st =
     rbind (deref (gnb_pdcp st (d, i))) (\<lambda>serPDCPVar.
     rbind (deref (gnb_pdcp st (t, tin))) (\<lambda>tarPDCPVar.
     fn_NetSim_LTENR_NAS_PDCP_BUFFER_TRANSFER
       (map_option (GnbEntity d i) (LTENR_PDCP_FindEntity serPDCPVar d i r rin smode))
       (map_option (GnbEntity t tin) (LTENR_PDCP_FindEntity tarPDCPVar t tin r rin tmode)) 0 st))"

definition pdcp_ue_transfer ::
  "netsim_id \<Rightarrow> netsim_id \<Rightarrow> netsim_id \<Rightarrow> netsim_id \<Rightarrow> netsim_id \<Rightarrow> netsim_id \<Rightarrow> LTENR_RLCMODE
     \<Rightarrow> pdcp_state \<Rightarrow> pdcp_state result" where
  "pdcp_ue_transfer d i r rin t tin mode st =
     rbind (deref (ue_pdcp st (r, rin))) (\<lambda>uePDCPVar.
     fn_NetSim_LTENR_NAS_PDCP_BUFFER_TRANSFER
       (map_option (UeEntity r rin) (LTENR_PDCP_FindEntity uePDCPVar d i r rin mode))
       (map_option (UeEntity r rin) (LTENR_PDCP_FindEntity uePDCPVar t tin r rin mode)) 1 st)"

section \<open>The buffers of RLC\<close>

text \<open>A pointer to an RLC entity: its interface and its position in the list.\<close>

type_synonym rlc_ref = "netsim_id \<times> netsim_id \<times> nat"

definition rlc_load :: "core_env \<Rightarrow> rlc_state \<Rightarrow> rlc_ref \<Rightarrow> LTENR_RLCENTITY" where
  "rlc_load C st r = (case r of (d, i, j) \<Rightarrow> entity_at C st d i j)"

definition rlc_store :: "core_env \<Rightarrow> rlc_ref \<Rightarrow> LTENR_RLCENTITY \<Rightarrow> rlc_state \<Rightarrow> rlc_state" where
  "rlc_store C r e st = (case r of (d, i, j) \<Rightarrow> entity_put C st d i j e)"

definition rlc_find ::
  "core_env \<Rightarrow> rlc_state \<Rightarrow> netsim_id \<Rightarrow> netsim_id \<Rightarrow> netsim_id \<Rightarrow> netsim_id \<Rightarrow> LTENR_RLCMODE
     \<Rightarrow> bool \<Rightarrow> bool \<Rightarrow> rlc_ref option" where
  "rlc_find C st d i p pif mode tx rx =
     map_option (\<lambda>j. (d, i, j)) (LTENR_RLC_FINDENTITY C st d i p pif mode tx rx)"

definition readdress_received ::
  "int \<Rightarrow> LTENR_RLCENTITY \<Rightarrow> LTENR_RLC_RECEPTIONBUFFER list \<Rightarrow> LTENR_RLC_RECEPTIONBUFFER list" where
  "readdress_received flag tar bufs =
     map (\<lambda>b. b\<lparr>rb_packets := map (\<lambda>p. if flag = 0 then p\<lparr>nReceiverId := ent_d tar\<rparr>
                                    else p\<lparr>nTransmitterId := peerId tar\<rparr>) (rb_packets b)\<rparr>) bufs"

text \<open>The assignments to \<open>tar\<close>, the timers left aside.\<close>

definition rlc_take_over :: "int \<Rightarrow> LTENR_RLCENTITY \<Rightarrow> LTENR_RLCENTITY \<Rightarrow> LTENR_RLCENTITY" where
  "rlc_take_over flag ser tar =
     tar\<lparr>transmissionBuffer := transmissionBuffer ser,
         AM_TX_Next_Ack := AM_TX_Next_Ack ser, AM_TX_Next := AM_TX_Next ser, AM_POLL_SN := AM_POLL_SN ser,
         AM_TX_HighestSN := AM_TX_HighestSN ser, AM_PDU_WITHOUT_POLL := AM_PDU_WITHOUT_POLL ser,
         AM_BYTE_WITHOUT_POLL := AM_BYTE_WITHOUT_POLL ser, AM_RX_Next := AM_RX_Next ser,
         AM_RX_Next_Status_Trigger := AM_RX_Next_Status_Trigger ser,
         AM_RX_Highest_Status := AM_RX_Highest_Status ser, AM_RX_Next_Highest := AM_RX_Next_Highest ser,
         AM_receptionBuffer := readdress_received flag tar (AM_receptionBuffer ser),
         AM_isStatusReportDelayed := AM_isStatusReportDelayed ser,
         AM_isConstructStatusReortDelayed := AM_isConstructStatusReortDelayed ser,
         AM_recvdInfo := AM_recvdInfo ser,
         UM_TX_Next := UM_TX_Next ser, UM_RX_Timer_Trigger := UM_RX_Timer_Trigger ser,
         UM_RX_Next_Reassembly := UM_RX_Next_Reassembly ser, UM_RX_Next_Highest := UM_RX_Next_Highest ser,
         UM_receptionBuffer := readdress_received flag tar (UM_receptionBuffer ser),
         retransmissionBuffer := retransmissionBuffer ser, rlcMode := rlcMode ser,
         transmittedBuffer := transmittedBuffer ser, noBuffers := noBuffers ser,
         pollRetransmitTimerId := pollRetransmitTimerId ser,
         isPollRetransmitTimerStarted := isPollRetransmitTimerStarted ser,
         reassemblyTimerId := reassemblyTimerId ser, isReassemblyTimerStarted := isReassemblyTimerStarted ser,
         statusProhibitTimerId := statusProhibitTimerId ser,
         isStatusProhibitTimerStarted := isStatusProhibitTimerStarted ser,
         bufferStatus := bufferStatus ser\<rparr>"

text \<open>What is left of \<open>ser\<close>; the pointer \<open>AM.recvdInfo\<close> stays.\<close>

definition rlc_bereft :: "LTENR_RLCENTITY \<Rightarrow> LTENR_RLCENTITY" where
  "rlc_bereft ser = ser\<lparr>transmissionBuffer := [], retransmissionBuffer := [], transmittedBuffer := [],
     noBuffers := True, AM_receptionBuffer := [], UM_receptionBuffer := []\<rparr>"

text \<open>A running timer of \<open>ser\<close> is stopped, and that of \<open>tar\<close> started.\<close>

definition rlc_move_poll_timer ::
  "core_env \<Rightarrow> rlc_ref \<Rightarrow> rlc_ref \<Rightarrow> rlc_state \<times> EVENTDETAILS \<Rightarrow> rlc_state \<times> EVENTDETAILS" where
  "rlc_move_poll_timer C rs rt x =
     (case x of (st, s) \<Rightarrow>
      if isPollRetransmitTimerStarted (rlc_load C st rs)
      then let (e, s1) = LTENR_RLCAM_Stop_t_PollRetransmitTimer (rlc_load C st rs) s;
               st1 = rlc_store C rs e st;
               (e', s2) = LTENR_RLCAM_Start_t_PollRetransmitTimer (kernel C) (rlc_load C st1 rt) s1
           in (rlc_store C rt e' st1, s2)
      else (st, s))"

definition rlc_move_reassembly_timer ::
  "core_env \<Rightarrow> rlc_ref \<Rightarrow> rlc_ref \<Rightarrow> rlc_state \<times> EVENTDETAILS \<Rightarrow> rlc_state \<times> EVENTDETAILS" where
  "rlc_move_reassembly_timer C rs rt x =
     (case x of (st, s) \<Rightarrow>
      if isReassemblyTimerStarted (rlc_load C st rs)
      then let (e', s1) = LTENR_RLC_Start_t_ReassemblyTimer (kernel C) (rlc_load C st rt)
                 (emit (DeleteEvent (reassemblyTimerId (rlc_load C st rs))) s)
           in (rlc_store C rt e' st, s1)
      else (st, s))"

definition fn_NetSim_LTENR_NAS_RLC_BUFFER_TRANSFER ::
  "core_env \<Rightarrow> rlc_ref option \<Rightarrow> rlc_ref option \<Rightarrow> int \<Rightarrow> rlc_state \<times> EVENTDETAILS
     \<Rightarrow> rlc_state \<times> EVENTDETAILS" where
  "fn_NetSim_LTENR_NAS_RLC_BUFFER_TRANSFER C ser tar flag x =
     (case (ser, tar, x) of
        (Some rs, Some rt, (st, s)) \<Rightarrow>
          let st1 = rlc_store C rt (rlc_take_over flag (rlc_load C st rs) (rlc_load C st rt)) st;
              st2 = rlc_store C rs (rlc_bereft (rlc_load C st1 rs)) st1
          in rlc_move_reassembly_timer C rs rt (rlc_move_poll_timer C rs rt (st2, s))
      | _ \<Rightarrow> x)"

text \<open>Both functions go over the transmission and the retransmission buffer, and fault when these are NULL.\<close>

definition change_entries :: "(NetSim_PACKET \<Rightarrow> NetSim_PACKET) \<Rightarrow> LTENR_RLCENTITY \<Rightarrow> LTENR_RLCENTITY result" where
  "change_entries f e =
     (if noBuffers e then Inl NullDeref
      else let g = map (\<lambda>b. b\<lparr>data_packet := f (data_packet b)\<rparr>)
           in Inr (e\<lparr>transmissionBuffer := g (transmissionBuffer e),
                     retransmissionBuffer := g (retransmissionBuffer e)\<rparr>))"

definition rlc_change ::
  "core_env \<Rightarrow> (NetSim_PACKET \<Rightarrow> NetSim_PACKET) \<Rightarrow> rlc_ref option \<Rightarrow> rlc_state \<Rightarrow> rlc_state result" where
  "rlc_change C f entity st =
     (case entity of
        None \<Rightarrow> Inr st
      | Some r \<Rightarrow> rbind (change_entries f (rlc_load C st r)) (\<lambda>e. Inr (rlc_store C r e st)))"

definition fn_NetSim_LTENR_NAS_RLC_BUFFER_TRANSFER_CHANGE_TRANSMISSION_ID ::
  "core_env \<Rightarrow> rlc_ref option \<Rightarrow> netsim_id \<Rightarrow> rlc_state \<Rightarrow> rlc_state result" where
  "fn_NetSim_LTENR_NAS_RLC_BUFFER_TRANSFER_CHANGE_TRANSMISSION_ID C entity t =
     rlc_change C (\<lambda>p. p\<lparr>nTransmitterId := t\<rparr>) entity"

definition fn_NetSim_LTENR_NAS_RLC_BUFFER_TRANSFER_CHANGE_RECEIVER_ID ::
  "core_env \<Rightarrow> rlc_ref option \<Rightarrow> netsim_id \<Rightarrow> rlc_state \<Rightarrow> rlc_state result" where
  "fn_NetSim_LTENR_NAS_RLC_BUFFER_TRANSFER_CHANGE_RECEIVER_ID C entity t =
     rlc_change C (\<lambda>p. p\<lparr>nReceiverId := t\<rparr>) entity"

text \<open>The four lines for one kind of entity, in the two functions below.\<close>

definition rlc_ue_transfer ::
  "core_env \<Rightarrow> netsim_id \<Rightarrow> netsim_id \<Rightarrow> netsim_id \<Rightarrow> netsim_id \<Rightarrow> netsim_id \<Rightarrow> netsim_id
     \<Rightarrow> LTENR_RLCMODE \<times> bool \<times> bool \<Rightarrow> rlc_state \<times> EVENTDETAILS \<Rightarrow> (rlc_state \<times> EVENTDETAILS) result" where
  "rlc_ue_transfer C d i r rin t tin k x =
     (case k of (mode, tx, rx) \<Rightarrow>
      let ser = rlc_find C (fst x) r rin d i mode tx rx;
          tar = rlc_find C (fst x) r rin t tin mode tx rx;
          (st1, s1) = fn_NetSim_LTENR_NAS_RLC_BUFFER_TRANSFER C ser tar 1 x
      in rbind (fn_NetSim_LTENR_NAS_RLC_BUFFER_TRANSFER_CHANGE_RECEIVER_ID C tar t st1) (\<lambda>st2. Inr (st2, s1)))"

definition rlc_gnb_transfer ::
  "core_env \<Rightarrow> netsim_id \<Rightarrow> netsim_id \<Rightarrow> netsim_id \<Rightarrow> netsim_id \<Rightarrow> netsim_id \<Rightarrow> netsim_id
     \<Rightarrow> LTENR_RLCMODE \<times> bool \<times> bool \<Rightarrow> rlc_state \<times> EVENTDETAILS \<Rightarrow> (rlc_state \<times> EVENTDETAILS) result" where
  "rlc_gnb_transfer C d i r rin t tin k x =
     (case k of (mode, tx, rx) \<Rightarrow>
      let ser = rlc_find C (fst x) d i r rin mode tx rx;
          tar = rlc_find C (fst x) t tin r rin mode tx rx;
          (st1, s1) = fn_NetSim_LTENR_NAS_RLC_BUFFER_TRANSFER C ser tar 0 x
      in rbind (fn_NetSim_LTENR_NAS_RLC_BUFFER_TRANSFER_CHANGE_TRANSMISSION_ID C tar t st1) (\<lambda>st2. Inr (st2, s1)))"

definition fn_NetSim_LTENR_NAS_RLC_UE_BUFFER_TRANSFER ::
  "core_env \<Rightarrow> netsim_id \<Rightarrow> netsim_id \<Rightarrow> netsim_id \<Rightarrow> netsim_id \<Rightarrow> netsim_id \<Rightarrow> netsim_id
     \<Rightarrow> rlc_state \<times> EVENTDETAILS \<Rightarrow> (rlc_state \<times> EVENTDETAILS) result" where
  "fn_NetSim_LTENR_NAS_RLC_UE_BUFFER_TRANSFER C d i r rin t tin x =
     rbind (rlc_ue_transfer C d i r rin t tin (LTENR_RLCMODE_TM, True, False) x) (\<lambda>x1.
     rbind (rlc_ue_transfer C d i r rin t tin (LTENR_RLCMODE_TM, False, True) x1) (\<lambda>x2.
     rbind (rlc_ue_transfer C d i r rin t tin (LTENR_RLCMODE_UM, True, False) x2) (\<lambda>x3.
     rbind (rlc_ue_transfer C d i r rin t tin (LTENR_RLCMODE_UM, False, True) x3) (\<lambda>x4.
     rlc_ue_transfer C d i r rin t tin (LTENR_RLCMODE_AM, True, True) x4))))"

definition fn_NetSim_LTENR_NAS_RLC_GNB_BUFFER_TRANSFER ::
  "core_env \<Rightarrow> netsim_id \<Rightarrow> netsim_id \<Rightarrow> netsim_id \<Rightarrow> netsim_id \<Rightarrow> netsim_id \<Rightarrow> netsim_id
     \<Rightarrow> rlc_state \<times> EVENTDETAILS \<Rightarrow> (rlc_state \<times> EVENTDETAILS) result" where
  "fn_NetSim_LTENR_NAS_RLC_GNB_BUFFER_TRANSFER C d i r rin t tin x =
     rbind (rlc_gnb_transfer C d i r rin t tin (LTENR_RLCMODE_TM, True, False) x) (\<lambda>x1.
     rbind (rlc_gnb_transfer C d i r rin t tin (LTENR_RLCMODE_TM, False, True) x1) (\<lambda>x2.
     rbind (rlc_gnb_transfer C d i r rin t tin (LTENR_RLCMODE_UM, True, False) x2) (\<lambda>x3.
     rbind (rlc_gnb_transfer C d i r rin t tin (LTENR_RLCMODE_UM, False, True) x3) (\<lambda>x4.
     rlc_gnb_transfer C d i r rin t tin (LTENR_RLCMODE_AM, True, True) x4))))"

section \<open>The handover command\<close>

definition x_time :: "exec_state \<Rightarrow> real" where "x_time s = dEventTime (x_event s)"

definition x_uerrc :: "exec_state \<Rightarrow> netsim_id \<Rightarrow> netsim_id \<Rightarrow> LTENR_UERRC result" where
  "x_uerrc s d i = deref (ue_rrc (x_pdcp s) (d, i))"

definition x_uerrc_put :: "netsim_id \<Rightarrow> netsim_id \<Rightarrow> LTENR_UERRC \<Rightarrow> exec_state \<Rightarrow> exec_state" where
  "x_uerrc_put d i rrc s = s\<lparr>x_pdcp := (x_pdcp s)\<lparr>ue_rrc := (ue_rrc (x_pdcp s))((d, i) \<mapsto> rrc)\<rparr>\<rparr>"

text \<open>A write of one UE's RRC data through its pointer.\<close>

definition x_uerrc_upd ::
  "(LTENR_UERRC \<Rightarrow> LTENR_UERRC) \<Rightarrow> netsim_id \<Rightarrow> netsim_id \<Rightarrow> exec_state \<Rightarrow> exec_state result" where
  "x_uerrc_upd f d i s = rbind (x_uerrc s d i) (\<lambda>rrc. Inr (x_uerrc_put d i (f rrc) s))"

definition x_pdcp_do :: "(pdcp_state \<Rightarrow> pdcp_state result) \<Rightarrow> exec_state \<Rightarrow> exec_state result" where
  "x_pdcp_do f s = rbind (f (x_pdcp s)) (\<lambda>st. Inr (s\<lparr>x_pdcp := st\<rparr>))"

definition x_pdcp_association ::
  "netsim_id \<Rightarrow> netsim_id \<Rightarrow> netsim_id \<Rightarrow> netsim_id \<Rightarrow> bool \<Rightarrow> exec_state \<Rightarrow> exec_state result" where
  "x_pdcp_association g gi u ui b s =
     rbind (LTENR_PDCP_ASSOCIATION g gi u ui b (x_pdcp s) (x_pdcp_event s)) (\<lambda>(st, ev).
     Inr (s\<lparr>x_pdcp := st, x_pdcp_event := ev\<rparr>))"

definition x_rlc_do ::
  "(rlc_state \<times> EVENTDETAILS \<Rightarrow> (rlc_state \<times> EVENTDETAILS) result) \<Rightarrow> exec_state \<Rightarrow> exec_state result" where
  "x_rlc_do f s = rbind (f (x_rlc s, x_event s)) (\<lambda>(st, ev). Inr (s\<lparr>x_rlc := st, x_event := ev\<rparr>))"

definition x_rlc_association ::
  "exec_env \<Rightarrow> netsim_id \<Rightarrow> netsim_id \<Rightarrow> netsim_id \<Rightarrow> netsim_id \<Rightarrow> bool \<Rightarrow> exec_state \<Rightarrow> exec_state result" where
  "x_rlc_association X g gi u ui b s =
     rbind (LTENR_RLC_ASSOCIATION (coreX X) g gi u ui b (x_rlc s)) (\<lambda>st. Inr (s\<lparr>x_rlc := st\<rparr>))"

definition fn_NetSim_LTENR_NAS_HANDOVER_COMMAND_HANDLE ::
  "exec_env \<Rightarrow> LTENR_HANDOVER_Hdr \<Rightarrow> exec_state \<Rightarrow> exec_state result" where
  "fn_NetSim_LTENR_NAS_HANDOVER_COMMAND_HANDLE X hdr s =
     (let sif = fn_NetSim_LTENR_SEC_INTEFACE_FOR_UE (pdcpE (hoE X)) (UEID hdr) (UEIF hdr)
      in rbind (deref (x_gnb_rrc s (serveringCellID hdr, serveringCellIF hdr))) (\<lambda>gNBrrc.
         rbind (x_uerrc_upd (\<lambda>r. r\<lparr>isMNHandoverComplete := True, ueRRCState := UERRC_INACTIVE\<rparr>) (UEID hdr) (UEIF hdr) s) (\<lambda>s1.
         rbind (x_uerrc_upd (\<lambda>r. if isSecondaryAssociated r then r\<lparr>ueRRCState := UERRC_INACTIVE\<rparr> else r) (UEID hdr) sif s1) (\<lambda>s2.
         let Time_Diff = x_time s - HandoverStartTime hdr;
             Time_added = max (InterruptionTime gNBrrc - Time_Diff) 0
         in rbind (x_uerrc_upd (\<lambda>r. r\<lparr>InteruptionInterval := Time_added\<rparr>) (UEID hdr) (UEIF hdr) s2) (\<lambda>s3.
            Inr (x_out (CommandHandle (x_time s + Time_added) (nDeviceId (x_event s)) (nInterfaceId (x_event s)) hdr) s3))))))"

definition fn_NetSim_LTENR_NAS_HANDOVER_COMMAND_RECV ::
  "exec_env \<Rightarrow> LTENR_HANDOVER_Hdr \<Rightarrow> exec_state \<Rightarrow> exec_state result" where
  "fn_NetSim_LTENR_NAS_HANDOVER_COMMAND_RECV X hdr = fn_NetSim_LTENR_NAS_HANDOVER_COMMAND_HANDLE X hdr"

text \<open>The EPC forgets the old cell: the entry of the UE for it, and a second one when there is one.\<close>

definition epc_dissociation ::
  "epc_env \<Rightarrow> netsim_id \<Rightarrow> netsim_id \<Rightarrow> netsim_id \<Rightarrow> hlr_map \<Rightarrow> hlr_map result" where
  "epc_dissociation E epc ue gnb m =
     rbind (LTENR_NSA_EPC_HLR_FindOutInterface_FOR_GNB E m epc ue gnb) (\<lambda>epcIn.
     rbind (LTENR_EPC_FindHLR_For_GNB m epc epcIn ue gnb) (\<lambda>hlr.
     rbind (LTENR_EPC_HLR_REMOVE E epc epcIn hlr m) (\<lambda>m1.
     rbind (LTENR_EPC_FindHLR_For_GNB m1 epc epcIn ue gnb) (\<lambda>hlr1.
     if hlr1 \<noteq> None then LTENR_EPC_HLR_REMOVE E epc epcIn hlr1 m1 else Inr m1))))"

definition x_epc_dissociation ::
  "exec_env \<Rightarrow> netsim_id \<Rightarrow> netsim_id \<Rightarrow> netsim_id \<Rightarrow> exec_state \<Rightarrow> exec_state result" where
  "x_epc_dissociation X epc ue gnb s =
     rbind (epc_dissociation (epcE X) epc ue gnb (x_hlr s)) (\<lambda>m. Inr (s\<lparr>x_hlr := m\<rparr>))"

text \<open>The two calls that move the UE's interface from the link of one cell to that of another.\<close>

definition change_link ::
  "exec_env \<Rightarrow> netsim_id \<Rightarrow> netsim_id \<Rightarrow> netsim_id \<Rightarrow> netsim_id \<Rightarrow> netsim_id \<Rightarrow> netsim_id
     \<Rightarrow> exec_state \<Rightarrow> exec_state" where
  "change_link X r rin d i t tin s =
     x_out (AddDeviceToLink r rin (nLinkId X t tin)) (x_out (RemoveDeviceFromLink r rin (nLinkId X d i)) s)"

text \<open>The six transfers of PDCP buffers: the three modes of the gNBs, then those of the UE.\<close>

definition pdcp_transfers ::
  "netsim_id \<Rightarrow> netsim_id \<Rightarrow> netsim_id \<Rightarrow> netsim_id \<Rightarrow> netsim_id \<Rightarrow> netsim_id \<Rightarrow> pdcp_state
     \<Rightarrow> pdcp_state result" where
  "pdcp_transfers d i r rin t tin st =
     rbind (pdcp_gnb_transfer d i r rin t tin LTENR_RLCMODE_TM LTENR_RLCMODE_TM st) (\<lambda>st1.
     rbind (pdcp_gnb_transfer d i r rin t tin LTENR_RLCMODE_UM LTENR_RLCMODE_UM st1) (\<lambda>st2.
     rbind (pdcp_gnb_transfer d i r rin t tin LTENR_RLCMODE_AM LTENR_RLCMODE_AM st2) (\<lambda>st3.
     rbind (pdcp_ue_transfer d i r rin t tin LTENR_RLCMODE_TM st3) (\<lambda>st4.
     rbind (pdcp_ue_transfer d i r rin t tin LTENR_RLCMODE_UM st4) (\<lambda>st5.
     pdcp_ue_transfer d i r rin t tin LTENR_RLCMODE_AM st5)))))"

text \<open>The handover: the UE joins the target and its entities go there, then it leaves the old cell.\<close>

definition join_target :: "exec_env \<Rightarrow> LTENR_HANDOVER_Hdr \<Rightarrow> exec_state \<Rightarrow> exec_state result" where
  "join_target X hdr s =
     (let d = serveringCellID hdr; i = serveringCellIF hdr; r = UEID hdr; rin = UEIF hdr;
          t = targetCellID hdr; tin = targetCellIF hdr; C = coreX X;
          sif = fn_NetSim_LTENR_SEC_INTEFACE_FOR_UE (pdcpE (hoE X)) r rin
      in rbind (x_uerrc_upd (\<lambda>rrc. rrc\<lparr>ueRRCState := UERRC_CONNECTED\<rparr>) r sif s) (\<lambda>a1.
         rbind (x_uerrc_upd (\<lambda>rrc. rrc\<lparr>ueRRCState := UERRC_CONNECTED, ueCMState := UE_CM_CONNECTED\<rparr>) r rin a1) (\<lambda>a2.
         let a3 = x_out (AssociateInfoAdd t tin r rin) (x_out (AssociateInfoRemove d i r rin) a2)
         in rbind (LTENR_PHY_ASSOCIATION X t tin r rin True a3) (\<lambda>a4.
            rbind (x_pdcp_association t tin r rin True a4) (\<lambda>a5.
            rbind (x_rlc_association X t tin r rin True a5) (\<lambda>a6.
            rbind (x_pdcp_do (pdcp_transfers d i r rin t tin) a6) (\<lambda>a7.
            rbind (x_rlc_do (fn_NetSim_LTENR_NAS_RLC_GNB_BUFFER_TRANSFER C d i r rin t tin) a7) (\<lambda>a8.
            x_rlc_do (fn_NetSim_LTENR_NAS_RLC_UE_BUFFER_TRANSFER C d i r rin t tin) a8))))))))"

definition leave_source :: "exec_env \<Rightarrow> LTENR_HANDOVER_Hdr \<Rightarrow> exec_state \<Rightarrow> exec_state result" where
  "leave_source X hdr s =
     (let d = serveringCellID hdr; i = serveringCellIF hdr; r = UEID hdr; rin = UEIF hdr;
          t = targetCellID hdr; tin = targetCellIF hdr;
          s1 = fn_NetSim_LTENR_IS_S1_INTERFACE_EXISTS (hoE X) d
      in rbind (x_uerrc_upd (\<lambda>rrc. rrc\<lparr>SelectedCellID := t, SelectedCellIF := tin\<rparr>) r rin s) (\<lambda>b1.
         rbind (LTENR_PHY_ASSOCIATION X d i r rin False b1) (\<lambda>b2.
         rbind (x_pdcp_association d i r rin False b2) (\<lambda>b3.
         rbind (x_rlc_association X d i r rin False b3) (\<lambda>b4.
         rbind (if s1 then x_epc_dissociation X (AMFID hdr) r d b4 else Inr b4) (\<lambda>b5.
         let b6 = x_out (RRCReconfiguration r rin t tin) (change_link X r rin d i t tin b5)
         in Inr (if \<not> s1 then x_out (CorePathSwitch hdr) b6
                 else x_out (NASPathSwitchRequest hdr) b6)))))))"

definition fn_NetSim_LTENR_NAS_GENERATE_HANDOVER_COMMAND_HANDLE ::
  "exec_env \<Rightarrow> LTENR_HANDOVER_Hdr \<Rightarrow> exec_state \<Rightarrow> exec_state result" where
  "fn_NetSim_LTENR_NAS_GENERATE_HANDOVER_COMMAND_HANDLE X hdr s =
     rbind (join_target X hdr s) (leave_source X hdr)"

section \<open>The change of the secondary cell\<close>

text \<open>The message of all six functions names the same three devices.\<close>

definition sn_header :: "LTENR_MSGTYPE \<Rightarrow> LTENR_SN_HANDOVER_HDR \<Rightarrow> LTENR_SN_HANDOVER_HDR" where
  "sn_header mt hdr =
     hdr\<lparr>sn_msg := Some \<lparr>add_ueID = sn_ueID hdr, add_SNID = sn_SNID hdr, add_MNID = sn_MNID hdr,
                         add_cause = EstablishmentCause_mo_data\<rparr>,
         sn_msgType := mt\<rparr>"

definition sn_address :: "exec_env \<Rightarrow> LTENR_SN_HANDOVER_HDR \<Rightarrow> netsim_id \<Rightarrow> netsim_id \<times> LTENR_INTERFACE_TYPE" where
  "sn_address X hdr d =
     (d, if \<not> fn_NetSim_LTENR_NSA_IS_CORE_SPLIT_EXISTS (pdcpE (hoE X)) (sn_MNID hdr) (sn_MNIF hdr)
         then nGC_INTERFACE_XN
         else if fn_NetSim_LTENR_IS_S1_INTERFACE_EXISTS (hoE X) (sn_MNID hdr) then nGC_INTERFACE_LTE_S1
         else nGC_INTERFACE_N3)"

definition sn_send :: "exec_env \<Rightarrow> netsim_id \<Rightarrow> netsim_id \<Rightarrow> LTENR_SN_HANDOVER_HDR \<Rightarrow> exec_state \<Rightarrow> exec_state" where
  "sn_send X src dest hdr = x_out (SNMessage src dest (sn_address X hdr src) (sn_address X hdr dest) hdr)"

definition fn_NetSim_LTENR_DC_HO_SN_ADDITION_REQUEST_ACK :: "exec_env \<Rightarrow> LTENR_SN_HANDOVER_HDR \<Rightarrow> exec_state \<Rightarrow> exec_state" where
  "fn_NetSim_LTENR_DC_HO_SN_ADDITION_REQUEST_ACK X hdr =
     sn_send X (sn_TSNID hdr) (sn_MNID hdr) (sn_header LTENR_MSG_DC_HO_SEC_CELL_ADDITION_REQUEST_ACK hdr)"

definition fn_NetSim_LTENR_DC_HO_SN_RELEASE_REQUEST :: "exec_env \<Rightarrow> LTENR_SN_HANDOVER_HDR \<Rightarrow> exec_state \<Rightarrow> exec_state" where
  "fn_NetSim_LTENR_DC_HO_SN_RELEASE_REQUEST X hdr =
     sn_send X (sn_MNID hdr) (sn_SNID hdr) (sn_header LTENR_MSG_DC_HO_SEC_CELL_RELEASE_REQUEST hdr)"

text \<open>\<open>ueIF\<close> of the header is the interface for the secondary cell.\<close>

definition fn_NetSim_LTENR_DC_HO_SN_RELEASE_ACK ::
  "exec_env \<Rightarrow> LTENR_SN_HANDOVER_HDR \<Rightarrow> exec_state \<Rightarrow> exec_state result" where
  "fn_NetSim_LTENR_DC_HO_SN_RELEASE_ACK X hdr s =
     (let sif = fn_NetSim_LTENR_SEC_INTEFACE_FOR_UE (pdcpE (hoE X)) (sn_ueID hdr) (sn_ueIF hdr)
      in rbind (x_uerrc s (sn_ueID hdr) (sn_ueIF hdr)) (\<lambda>uerrc.
         rbind (x_uerrc_upd (\<lambda>r. (if \<not> isMNHandoverComplete uerrc then r\<lparr>ueRRCState := UERRC_INACTIVE\<rparr> else r)
                                 \<lparr>isSecondaryAssociated := True\<rparr>) (sn_ueID hdr) sif s) (\<lambda>s1.
         Inr (sn_send X (sn_SNID hdr) (sn_MNID hdr) (sn_header LTENR_MSG_DC_HO_SEC_CELL_RELEASE_REQUEST_ACK hdr) s1))))"

definition fn_NetSim_LTENR_DC_HO_UE_CONTEXT_RELEASE :: "exec_env \<Rightarrow> LTENR_SN_HANDOVER_HDR \<Rightarrow> exec_state \<Rightarrow> exec_state" where
  "fn_NetSim_LTENR_DC_HO_UE_CONTEXT_RELEASE X hdr =
     sn_send X (sn_MNID hdr) (sn_SNID hdr) (sn_header LTENR_MSG_DC_HO_SEC_CELL_UE_CONTEXT_RELEASE hdr)"

definition fn_NetSim_LTENR_DC_HO_UE_CONTEXT_RELEASE_ACK :: "exec_env \<Rightarrow> LTENR_SN_HANDOVER_HDR \<Rightarrow> exec_state \<Rightarrow> exec_state" where
  "fn_NetSim_LTENR_DC_HO_UE_CONTEXT_RELEASE_ACK X hdr =
     sn_send X (sn_SNID hdr) (sn_MNID hdr) (sn_header LTENR_MSG_DC_HO_SEC_CELL_UE_CONTEXT_RELEASE_ACK hdr)"

definition fn_NetSim_LTENR_DC_HO_SN_ADDITION_REQUEST_RECV :: "exec_env \<Rightarrow> LTENR_SN_HANDOVER_HDR \<Rightarrow> exec_state \<Rightarrow> exec_state" where
  "fn_NetSim_LTENR_DC_HO_SN_ADDITION_REQUEST_RECV X hdr =
     fn_NetSim_LTENR_DC_HO_SN_ADDITION_REQUEST_ACK X (hdr\<lparr>sn_msg := None\<rparr>)"

definition fn_NetSim_LTENR_DC_HO_SN_ADDITION_REQUEST_ACK_RECV :: "exec_env \<Rightarrow> LTENR_SN_HANDOVER_HDR \<Rightarrow> exec_state \<Rightarrow> exec_state" where
  "fn_NetSim_LTENR_DC_HO_SN_ADDITION_REQUEST_ACK_RECV X hdr =
     fn_NetSim_LTENR_DC_HO_SN_RELEASE_REQUEST X (hdr\<lparr>sn_msg := None\<rparr>)"

definition fn_NetSim_LTENR_DC_HO_SN_RELEASE_REQUEST_ACK_RECV :: "exec_env \<Rightarrow> LTENR_SN_HANDOVER_HDR \<Rightarrow> exec_state \<Rightarrow> exec_state" where
  "fn_NetSim_LTENR_DC_HO_SN_RELEASE_REQUEST_ACK_RECV X hdr =
     fn_NetSim_LTENR_DC_HO_UE_CONTEXT_RELEASE X (hdr\<lparr>sn_msg := None\<rparr>)"

definition fn_NetSim_LTENR_DC_HO_SN_UE_CONTEXT_RELEASE_RECV :: "exec_env \<Rightarrow> LTENR_SN_HANDOVER_HDR \<Rightarrow> exec_state \<Rightarrow> exec_state" where
  "fn_NetSim_LTENR_DC_HO_SN_UE_CONTEXT_RELEASE_RECV X hdr =
     fn_NetSim_LTENR_DC_HO_UE_CONTEXT_RELEASE_ACK X (hdr\<lparr>sn_msg := None\<rparr>)"

definition fn_NetSim_LTENR_DC_HO_SN_UE_CONTEXT_RELEASE_ACK_RECV :: "LTENR_SN_HANDOVER_HDR \<Rightarrow> exec_state \<Rightarrow> exec_state" where
  "fn_NetSim_LTENR_DC_HO_SN_UE_CONTEXT_RELEASE_ACK_RECV hdr s = s"

text \<open>The mode of the first entity of a chain: \<open>pdcpEntity->rlcMode\<close>.\<close>

definition first_mode :: "LTENR_PDCPVAR option \<Rightarrow> LTENR_RLCMODE result" where
  "first_mode v = rbind (deref v) (\<lambda>w. case pdcpEntity w of [] \<Rightarrow> Inl NullDeref | e # es \<Rightarrow> Inr (pe_rlcMode e))"

text \<open>The transfer on the gNBs' side and that on the UE's; the code has the two twice.\<close>

definition sn_pdcp_transfer ::
  "netsim_id \<Rightarrow> netsim_id \<Rightarrow> netsim_id \<Rightarrow> netsim_id \<Rightarrow> netsim_id \<Rightarrow> netsim_id \<Rightarrow> pdcp_state
     \<Rightarrow> pdcp_state result" where
  "sn_pdcp_transfer d i r rin t tin st =
     rbind (first_mode (gnb_pdcp st (d, i))) (\<lambda>smode.
     rbind (first_mode (gnb_pdcp st (t, tin))) (\<lambda>tmode.
     rbind (pdcp_gnb_transfer d i r rin t tin smode tmode st) (\<lambda>st1.
     rbind (first_mode (ue_pdcp st1 (r, rin))) (\<lambda>umode.
     pdcp_ue_transfer d i r rin t tin umode st1))))"

text \<open>
  \<open>RouteThroughCore ue ueIf old new\<close>: the address table of the UPF gets the new cell for the UE.
\<close>

definition fn_NetSim_LTENR_DC_HO_SN_RELEASE_RECV ::
  "exec_env \<Rightarrow> LTENR_SN_HANDOVER_HDR \<Rightarrow> exec_state \<Rightarrow> exec_state result" where
  "fn_NetSim_LTENR_DC_HO_SN_RELEASE_RECV X hdr s =
     (let d = sn_SNID hdr; i = sn_SNIF hdr; r = sn_ueID hdr; rin = sn_ueIF hdr;
          t = sn_TSNID hdr; tin = sn_TSNIF hdr; C = coreX X; P = pdcpE (hoE X);
          split = fn_NetSim_LTENR_NSA_IS_CORE_SPLIT_EXISTS P r rin \<or> fn_NetSim_LTENR_NSA_IS_OPTION_X_EXISTS P r rin;
          a3 = x_out (AssociateInfoAdd t tin r rin) (x_out (AssociateInfoRemove d i r rin) s)
      in rbind (LTENR_PHY_ASSOCIATION X t tin r rin True a3) (\<lambda>a4.
         rbind (x_rlc_association X t tin r rin True a4) (\<lambda>a5.
         rbind (if split
                then rbind (x_pdcp_association t tin r rin True a5) (\<lambda>c1.
                     rbind (x_pdcp_do (sn_pdcp_transfer d i r rin t tin) c1) (\<lambda>c2.
                     rbind (x_pdcp_do (sn_pdcp_transfer d i r rin t tin) c2) (\<lambda>c3.
                     x_pdcp_association d i r rin False c3)))
                else Inr a5) (\<lambda>a6.
         rbind (x_rlc_do (fn_NetSim_LTENR_NAS_RLC_GNB_BUFFER_TRANSFER C d i r rin t tin) a6) (\<lambda>a7.
         rbind (x_rlc_do (fn_NetSim_LTENR_NAS_RLC_UE_BUFFER_TRANSFER C d i r rin t tin) a7) (\<lambda>a8.
         rbind (x_uerrc_upd (\<lambda>rrc. rrc\<lparr>SNID := t, SNIF := tin\<rparr>) r
                  (fn_NetSim_LTENR_MASTER_INTEFACE_FOR_UE P r rin) a8) (\<lambda>a9.
         rbind (LTENR_PHY_ASSOCIATION X d i r rin False a9) (\<lambda>b1.
         rbind (x_rlc_association X d i r rin False b1) (\<lambda>b2.
         rbind (if split
                then if fn_NetSim_LTENR_IS_S1_INTERFACE_EXISTS (hoE X) d
                     then x_epc_dissociation X (sn_AMFID hdr) r d b2
                     else Inr (x_out (RouteThroughCore r rin d t) b2)
                else Inr b2) (\<lambda>b3.
         fn_NetSim_LTENR_DC_HO_SN_RELEASE_ACK X (hdr\<lparr>sn_msg := None\<rparr>) (change_link X r rin d i t tin b3)))))))))))"

text \<open>The dispatch of an arriving message, as in \<open>fn_NetSim_LTENR_Handover_RECV\<close>.\<close>

definition fn_NetSim_SN_HANDOVER_PACKET_HANDLER ::
  "exec_env \<Rightarrow> LTENR_MSGTYPE \<Rightarrow> LTENR_SN_HANDOVER_HDR option \<Rightarrow> exec_state \<Rightarrow> exec_state result" where
  "fn_NetSim_SN_HANDOVER_PACKET_HANDLER X ctype h s =
     (if ctype = LTENR_MSG_DC_HO_SEC_CELL_ADDITION_REQUEST
      then rbind (deref h) (\<lambda>hdr. Inr (fn_NetSim_LTENR_DC_HO_SN_ADDITION_REQUEST_RECV X hdr s))
      else if ctype = LTENR_MSG_DC_HO_SEC_CELL_ADDITION_REQUEST_ACK
      then rbind (deref h) (\<lambda>hdr. Inr (fn_NetSim_LTENR_DC_HO_SN_ADDITION_REQUEST_ACK_RECV X hdr s))
      else if ctype = LTENR_MSG_DC_HO_SEC_CELL_RELEASE_REQUEST
      then rbind (deref h) (\<lambda>hdr. fn_NetSim_LTENR_DC_HO_SN_RELEASE_RECV X hdr s)
      else if ctype = LTENR_MSG_DC_HO_SEC_CELL_RELEASE_REQUEST_ACK
      then rbind (deref h) (\<lambda>hdr. Inr (fn_NetSim_LTENR_DC_HO_SN_RELEASE_REQUEST_ACK_RECV X hdr s))
      else if ctype = LTENR_MSG_DC_HO_SEC_CELL_UE_CONTEXT_RELEASE
      then rbind (deref h) (\<lambda>hdr. Inr (fn_NetSim_LTENR_DC_HO_SN_UE_CONTEXT_RELEASE_RECV X hdr s))
      else if ctype = LTENR_MSG_DC_HO_SEC_CELL_UE_CONTEXT_RELEASE_ACK
      then rbind (deref h) (\<lambda>hdr. Inr (fn_NetSim_LTENR_DC_HO_SN_UE_CONTEXT_RELEASE_ACK_RECV hdr s))
      else Inr s)"

end
