(* ===== verification/Handover_Buffers.thy ===== *)
theory Handover_Buffers
  imports Handover_Exec RLC_Core_Traffic
begin

text \<open>
  What the transfer of buffers does, with the entities looked up by their key: the view of
  the entities as a map from keys, and how lookup, writing, association and release act on it.
\<close>

declare of_nat_unat [simp del]

section \<open>Lists whose elements have keys\<close>

definition view :: "('a \<Rightarrow> 'k) \<Rightarrow> 'a list \<Rightarrow> 'k \<Rightarrow> 'a option" where
  "view f xs k = find (\<lambda>x. f x = k) xs"

lemma view_simps [simp]:
  "view f [] = Map.empty"
  "view f (x # xs) = (view f xs)(f x \<mapsto> x)"
  by (auto simp: view_def fun_eq_iff)

lemma view_find_pos: "view f xs k = map_option (nth xs) (find_pos (\<lambda>x. f x = k) xs)"
  by (induction xs) (simp_all add: option.map_comp comp_def)

lemma view_None_iff: "view f xs k = None \<longleftrightarrow> k \<notin> f ` set xs"
  by (induction xs) auto

lemma view_SomeD: "view f xs k = Some x \<Longrightarrow> f x = k \<and> x \<in> set xs"
  by (induction xs) (auto split: if_splits)

lemma view_append: "view f (xs @ ys) = view f ys ++ view f xs"
  by (induction xs) (auto simp: fun_eq_iff map_add_def split: option.splits)

lemma view_filter: "view f (filter (\<lambda>x. f x \<notin> K) xs) = (view f xs) |` (- K)"
  by (induction xs) (auto simp: fun_eq_iff restrict_map_def)

lemma view_update:
  assumes "find_pos (\<lambda>x. f x = k) xs = Some j" and "f e = k"
  shows "view f (xs[j := e]) = (view f xs)(k \<mapsto> e)"
  using assms
proof (induction xs arbitrary: j)
  case (Cons x xs)
  show ?case
  proof (cases "f x = k")
    case True
    then show ?thesis using Cons.prems by auto
  next
    case False
    then obtain j' where "find_pos (\<lambda>x. f x = k) xs = Some j'" "j = Suc j'" using Cons.prems(1) by auto
    then show ?thesis using Cons.IH Cons.prems(2) False by (auto simp: fun_upd_twist)
  qed
qed simp

lemma view_map:
  "(\<And>n. f (g n) = h n) \<Longrightarrow> inj h \<Longrightarrow> view f (map g ns) (h n) = (if n \<in> set ns then Some (g n) else None)"
  by (induction ns) (auto simp: inj_eq)

section \<open>The RLC entities by key\<close>

type_synonym rlc_kind = "LTENR_RLCMODE \<times> bool \<times> bool"
type_synonym rlc_key = "netsim_id \<times> netsim_id \<times> netsim_id \<times> netsim_id \<times> rlc_kind"

definition rlc_view :: "core_env \<Rightarrow> rlc_state \<Rightarrow> rlc_key \<Rightarrow> LTENR_RLCENTITY option" where
  "rlc_view C st k = view entity_key (entity_list C st (fst k) (fst (snd k))) k"

definition rlc_at :: "core_env \<Rightarrow> rlc_state \<Rightarrow> rlc_key \<Rightarrow> rlc_ref option" where
  "rlc_at C st k = (case k of (d, i, p, pif, m, tx, rx) \<Rightarrow> rlc_find C st d i p pif m tx rx)"

lemma rlc_at_key: "rlc_find C st d i p pif m tx rx = rlc_at C st (d, i, p, pif, m, tx, rx)"
  by (simp add: rlc_at_def)

lemma rlc_at_view: "rlc_view C st k = map_option (rlc_load C st) (rlc_at C st k)"
  by (cases k) (simp add: rlc_view_def rlc_at_def rlc_find_def view_find_pos FINDENTITY_list option.map_comp
      comp_def rlc_load_def entity_at_def)

text \<open>What a write of an entity under its key leaves alone.\<close>

definition same_keys :: "core_env \<Rightarrow> rlc_state \<Rightarrow> rlc_state \<Rightarrow> bool" where
  "same_keys C st st' \<longleftrightarrow>
     (\<forall>d i. map entity_key (entity_list C st' d i) = map entity_key (entity_list C st d i)
        \<and> has_rlc C st' d i = has_rlc C st d i)
     \<and> (\<forall>x. (ue_rlc st' x = None) = (ue_rlc st x = None) \<and> (gnb_rlc st' x = None) = (gnb_rlc st x = None))"

lemma same_keys_refl [simp]: "same_keys C st st"
  by (simp add: same_keys_def)

lemma same_keys_trans: "same_keys C st st' \<Longrightarrow> same_keys C st' st'' \<Longrightarrow> same_keys C st st''"
  by (simp add: same_keys_def)

lemma same_keys_at: "same_keys C st st' \<Longrightarrow> rlc_at C st' k = rlc_at C st k"
  by (cases k) (simp add: rlc_at_def rlc_find_def FINDENTITY_keys same_keys_def)

lemma entity_of_key: "entity_key e = k \<Longrightarrow> ent_d e = fst k \<and> ent_in e = fst (snd k)"
  by (auto simp: entity_key_def)

lemma rlc_wf_keys:
  "rlc_wf C st \<longleftrightarrow> (\<forall>d i. distinct (map entity_key (entity_list C st d i))
     \<and> (\<forall>k \<in> set (map entity_key (entity_list C st d i)). fst k = d \<and> fst (snd k) = i))"
  by (auto simp: rlc_wf_def entity_key_def)

lemma same_keys_wf: "same_keys C st st' \<Longrightarrow> rlc_wf C st \<Longrightarrow> rlc_wf C st'"
  unfolding rlc_wf_keys same_keys_def by metis

lemma rlc_store_view:
  assumes "rlc_at C st k = Some r" and "entity_key e = k"
  shows "rlc_view C (rlc_store C r e st) = (rlc_view C st)(k \<mapsto> e)" and "same_keys C st (rlc_store C r e st)"
proof -
  obtain d i p pif m tx rx where k: "k = (d, i, p, pif, m, tx, rx)" by (cases k)
  from assms(1) obtain j where j: "LTENR_RLC_FINDENTITY C st d i p pif m tx rx = Some j" and r: "r = (d, i, j)"
    by (auto simp: k rlc_at_def rlc_find_def)
  note D = FINDENTITY_SomeD [OF j]
  have put: "rlc_store C r e st = entity_put C st d i j e" by (simp add: r rlc_store_def)
  have "view entity_key ((entity_list C st d i)[j := e]) = (view entity_key (entity_list C st d i))(k \<mapsto> e)"
    using j assms(2) unfolding FINDENTITY_list k by (rule view_update)
  then show "rlc_view C (rlc_store C r e st) = (rlc_view C st)(k \<mapsto> e)"
    unfolding put by (auto simp: fun_eq_iff rlc_view_def entity_list_put [OF D(2)] k)
  have "entity_key e = entity_key (entity_at C st d i j)" using D(3) assms(2) k by simp
  from entity_key_put [OF this] show "same_keys C st (rlc_store C r e st)"
    unfolding put by (simp add: same_keys_def entity_put_with)
qed

section \<open>One transfer of RLC buffers\<close>

text \<open>
  What the transfer and the change of addresses make of the entity \<open>tar\<close>: the timers that ran
  at \<open>ser\<close> are started anew. Beside it the event with the calls.
\<close>

definition handed_over ::
  "rlc_env \<Rightarrow> int \<Rightarrow> (NetSim_PACKET \<Rightarrow> NetSim_PACKET) \<Rightarrow> LTENR_RLCENTITY \<Rightarrow> LTENR_RLCENTITY
     \<Rightarrow> EVENTDETAILS \<Rightarrow> LTENR_RLCENTITY \<times> EVENTDETAILS" where
  "handed_over E flag f ser tar s =
     (let e = rlc_take_over flag ser tar;
          (e1, s1) = (if isPollRetransmitTimerStarted ser
            then LTENR_RLCAM_Start_t_PollRetransmitTimer E e (emit (DeleteEvent (pollRetransmitTimerId ser)) s)
            else (e, s));
          (e2, s2) = (if isReassemblyTimerStarted ser
            then LTENR_RLC_Start_t_ReassemblyTimer E e1 (emit (DeleteEvent (reassemblyTimerId ser)) s1)
            else (e1, s1));
          g = map (\<lambda>b. b\<lparr>data_packet := f (data_packet b)\<rparr>)
      in (e2\<lparr>transmissionBuffer := g (transmissionBuffer ser), retransmissionBuffer := g (retransmissionBuffer ser)\<rparr>, s2))"

definition left_behind :: "LTENR_RLCENTITY \<Rightarrow> LTENR_RLCENTITY" where
  "left_behind ser = (rlc_bereft ser)\<lparr>isPollRetransmitTimerStarted := False\<rparr>"

lemma entity_key_moved [simp]:
  "entity_key (rlc_bereft e) = entity_key e"
  "entity_key (e\<lparr>isPollRetransmitTimerStarted := b\<rparr>) = entity_key e"
  "entity_key (fst (LTENR_RLCAM_Stop_t_PollRetransmitTimer e s)) = entity_key e"
  "entity_key (fst (LTENR_RLCAM_Start_t_PollRetransmitTimer E e s)) = entity_key e"
  "entity_key (fst (LTENR_RLC_Start_t_ReassemblyTimer E e s)) = entity_key e"
  "entity_key (e\<lparr>transmissionBuffer := a, retransmissionBuffer := b'\<rparr>) = entity_key e"
  "entity_key (left_behind e) = entity_key e"
  "rlcMode ser = rlcMode tar \<Longrightarrow> entity_key (rlc_take_over flag ser tar) = entity_key tar"
  by (simp_all add: entity_key_def rlc_bereft_def timer_defs Let_def left_behind_def rlc_take_over_def)

lemma bereft_timers [simp]:
  "isPollRetransmitTimerStarted (rlc_bereft e) = isPollRetransmitTimerStarted e"
  "pollRetransmitTimerId (rlc_bereft e) = pollRetransmitTimerId e"
  "isReassemblyTimerStarted (left_behind e) = isReassemblyTimerStarted e"
  "reassemblyTimerId (left_behind e) = reassemblyTimerId e"
  by (simp_all add: rlc_bereft_def left_behind_def)

text \<open>The state \<open>st\<close> differs from \<open>st0\<close> in the two entities alone, which are \<open>a\<close> and \<open>b\<close>.\<close>

definition pair_at ::
  "core_env \<Rightarrow> rlc_state \<Rightarrow> rlc_key \<Rightarrow> rlc_key \<Rightarrow> rlc_state \<Rightarrow> LTENR_RLCENTITY \<Rightarrow> LTENR_RLCENTITY \<Rightarrow> bool" where
  "pair_at C st0 ks kt st a b \<longleftrightarrow>
     ks \<noteq> kt \<and> entity_key a = ks \<and> entity_key b = kt \<and> same_keys C st0 st
     \<and> rlc_view C st = (rlc_view C st0)(ks \<mapsto> a, kt \<mapsto> b)"

lemma pair_at_start:
  assumes "rlc_view C st ks = Some a" and "rlc_view C st kt = Some b" and "ks \<noteq> kt"
  shows "pair_at C st ks kt st a b" and "\<exists>rs. rlc_at C st ks = Some rs" and "\<exists>rt. rlc_at C st kt = Some rt"
proof -
  have "entity_key a = ks" "entity_key b = kt"
    using assms(1,2) by (auto simp: rlc_view_def dest: view_SomeD)
  moreover have "rlc_view C st = (rlc_view C st)(ks \<mapsto> a, kt \<mapsto> b)"
    using assms(1,2) by (auto simp: fun_eq_iff)
  ultimately show "pair_at C st ks kt st a b" using assms(3) by (simp add: pair_at_def)
  show "\<exists>rs. rlc_at C st ks = Some rs" "\<exists>rt. rlc_at C st kt = Some rt"
    using assms(1,2) by (auto simp: rlc_at_view)
qed

lemma pair_at_load:
  assumes "pair_at C st0 ks kt st a b" and "rlc_at C st0 ks = Some rs" and "rlc_at C st0 kt = Some rt"
  shows "rlc_load C st rs = a" and "rlc_load C st rt = b"
proof -
  have at: "rlc_at C st k = rlc_at C st0 k" for k
    using assms(1) same_keys_at by (simp add: pair_at_def)
  have "rlc_view C st ks = Some a" "rlc_view C st kt = Some b" using assms(1) by (simp_all add: pair_at_def)
  then show "rlc_load C st rs = a" "rlc_load C st rt = b" using assms(2,3) by (simp_all add: rlc_at_view at)
qed

lemma pair_at_store:
  assumes "pair_at C st0 ks kt st a b" and "rlc_at C st0 ks = Some rs" and "rlc_at C st0 kt = Some rt"
  shows "entity_key e = ks \<Longrightarrow> pair_at C st0 ks kt (rlc_store C rs e st) e b"
    and "entity_key e = kt \<Longrightarrow> pair_at C st0 ks kt (rlc_store C rt e st) a e"
proof -
  have at: "rlc_at C st k = rlc_at C st0 k" for k
    using assms(1) same_keys_at by (simp add: pair_at_def)
  show "pair_at C st0 ks kt (rlc_store C rs e st) e b" if "entity_key e = ks"
    using rlc_store_view [of C st ks rs e] that assms(1,2) at same_keys_trans
    by (auto simp: pair_at_def fun_upd_twist)
  show "pair_at C st0 ks kt (rlc_store C rt e st) a e" if "entity_key e = kt"
    using rlc_store_view [of C st kt rt e] that assms(1,3) at same_keys_trans
    by (auto simp: pair_at_def)
qed

lemma move_timers:
  assumes "pair_at C st0 ks kt st a b" and "rlc_at C st0 ks = Some rs" and "rlc_at C st0 kt = Some rt"
  shows "\<exists>st'. rlc_move_poll_timer C rs rt (st, s) = (st', snd (if isPollRetransmitTimerStarted a
        then LTENR_RLCAM_Start_t_PollRetransmitTimer (kernel C) b (emit (DeleteEvent (pollRetransmitTimerId a)) s)
        else (b, s)))
      \<and> pair_at C st0 ks kt st' (a\<lparr>isPollRetransmitTimerStarted := False\<rparr>) (fst (if isPollRetransmitTimerStarted a
        then LTENR_RLCAM_Start_t_PollRetransmitTimer (kernel C) b (emit (DeleteEvent (pollRetransmitTimerId a)) s)
        else (b, s)))" (is ?poll)
    and "\<exists>st'. rlc_move_reassembly_timer C rs rt (st, s) = (st', snd (if isReassemblyTimerStarted a
        then LTENR_RLC_Start_t_ReassemblyTimer (kernel C) b (emit (DeleteEvent (reassemblyTimerId a)) s)
        else (b, s)))
      \<and> pair_at C st0 ks kt st' a (fst (if isReassemblyTimerStarted a
        then LTENR_RLC_Start_t_ReassemblyTimer (kernel C) b (emit (DeleteEvent (reassemblyTimerId a)) s)
        else (b, s)))" (is ?reassembly)
proof -
  note load = pair_at_load [OF assms]
  have key: "entity_key a = ks" "entity_key b = kt" using assms(1) by (simp_all add: pair_at_def)
  show ?poll
  proof (cases "isPollRetransmitTimerStarted a")
    case True
    define e where "e = a\<lparr>isPollRetransmitTimerStarted := False\<rparr>"
    have "pair_at C st0 ks kt (rlc_store C rs e st) e b"
      using pair_at_store(1) [OF assms] key by (simp add: e_def)
    note p = pair_at_load(2) [OF this assms(2,3)] pair_at_store(2) [OF this assms(2,3)]
    show ?thesis
      using True key p
      by (simp add: rlc_move_poll_timer_def load LTENR_RLCAM_Stop_t_PollRetransmitTimer_def e_def [symmetric]
          case_prod_unfold Let_def)
  next
    case False
    then have "pair_at C st0 ks kt st (a\<lparr>isPollRetransmitTimerStarted := False\<rparr>) b"
      using assms(1) by (cases a) simp
    then show ?thesis using False by (simp add: rlc_move_poll_timer_def load)
  qed
  show ?reassembly
    using assms(1) key pair_at_store(2) [OF assms]
    by (simp add: rlc_move_reassembly_timer_def load case_prod_unfold Let_def)
qed

text \<open>The four lines for one kind of entity.\<close>

definition transfer_lines ::
  "core_env \<Rightarrow> int \<Rightarrow> (NetSim_PACKET \<Rightarrow> NetSim_PACKET) \<Rightarrow> rlc_key \<Rightarrow> rlc_key \<Rightarrow> rlc_state \<times> EVENTDETAILS
     \<Rightarrow> (rlc_state \<times> EVENTDETAILS) result" where
  "transfer_lines C flag f ks kt x =
     (let (st1, s1) = fn_NetSim_LTENR_NAS_RLC_BUFFER_TRANSFER C (rlc_at C (fst x) ks) (rlc_at C (fst x) kt) flag x
      in rbind (rlc_change C f (rlc_at C (fst x) kt) st1) (\<lambda>st2. Inr (st2, s1)))"

lemma transfer_lines_eq:
  "rlc_gnb_transfer C d i r rin t tin k = transfer_lines C 0 (\<lambda>p. p\<lparr>nTransmitterId := t\<rparr>) (d, i, r, rin, k) (t, tin, r, rin, k)"
  "rlc_ue_transfer C d i r rin t tin k = transfer_lines C 1 (\<lambda>p. p\<lparr>nReceiverId := t\<rparr>) (r, rin, d, i, k) (r, rin, t, tin, k)"
  by (cases k; simp add: fun_eq_iff rlc_gnb_transfer_def rlc_ue_transfer_def transfer_lines_def rlc_at_key Let_def
      fn_NetSim_LTENR_NAS_RLC_BUFFER_TRANSFER_CHANGE_TRANSMISSION_ID_def
      fn_NetSim_LTENR_NAS_RLC_BUFFER_TRANSFER_CHANGE_RECEIVER_ID_def)+

lemma transfer_one:
  assumes "rlc_view C st ks = Some ser" and "rlc_view C st kt = Some tar" and "ks \<noteq> kt"
    and "rlcMode ser = rlcMode tar" and "\<not> noBuffers ser"
    and new_def: "new = handed_over (kernel C) flag f ser tar s"
  shows "\<exists>st'. transfer_lines C flag f ks kt (st, s) = Inr (st', snd new) \<and> same_keys C st st'
    \<and> rlc_view C st' = (rlc_view C st)(ks \<mapsto> left_behind ser, kt \<mapsto> fst new)"
proof -
  note start = pair_at_start [OF assms(1-3)]
  from start(2,3) obtain rs rt where at: "rlc_at C st ks = Some rs" "rlc_at C st kt = Some rt" by blast
  note load = pair_at_load [OF _ at] and store = pair_at_store [OF _ at]
  have key: "entity_key ser = ks" "entity_key tar = kt" using start(1) by (simp_all add: pair_at_def)
  let ?b = "rlc_take_over flag ser tar"
  define st1 where "st1 = rlc_store C rt ?b st"
  have p1: "pair_at C st ks kt st1 ser ?b"
    unfolding st1_def by (rule store(2) [OF start(1)]) (simp add: key assms(4))
  define st2 where "st2 = rlc_store C rs (rlc_bereft ser) st1"
  have p2: "pair_at C st ks kt st2 (rlc_bereft ser) ?b"
    unfolding st2_def by (rule store(1) [OF p1]) (simp add: key)
  define n3 where "n3 = (if isPollRetransmitTimerStarted ser
        then LTENR_RLCAM_Start_t_PollRetransmitTimer (kernel C) ?b (emit (DeleteEvent (pollRetransmitTimerId ser)) s)
        else (?b, s))"
  obtain st3 where m3: "rlc_move_poll_timer C rs rt (st2, s) = (st3, snd n3)"
    and p3: "pair_at C st ks kt st3 (left_behind ser) (fst n3)"
    using move_timers(1) [OF p2 at, of s] unfolding left_behind_def bereft_timers n3_def by blast
  define n4 where "n4 = (if isReassemblyTimerStarted ser
        then LTENR_RLC_Start_t_ReassemblyTimer (kernel C) (fst n3) (emit (DeleteEvent (reassemblyTimerId ser)) (snd n3))
        else (fst n3, snd n3))"
  obtain st4 where m4: "rlc_move_reassembly_timer C rs rt (st3, snd n3) = (st4, snd n4)"
    and p4: "pair_at C st ks kt st4 (left_behind ser) (fst n4)"
    using move_timers(2) [OF p3 at, of "snd n3"] unfolding bereft_timers n4_def by blast
  have buffers: "transmissionBuffer (fst n4) = transmissionBuffer ser"
    "retransmissionBuffer (fst n4) = retransmissionBuffer ser" "noBuffers (fst n4) = noBuffers ser"
    by (auto simp: n3_def n4_def timer_defs Let_def rlc_take_over_def)
  have new: "new = ((fst n4)\<lparr>transmissionBuffer := map (\<lambda>b. b\<lparr>data_packet := f (data_packet b)\<rparr>) (transmissionBuffer ser),
      retransmissionBuffer := map (\<lambda>b. b\<lparr>data_packet := f (data_packet b)\<rparr>) (retransmissionBuffer ser)\<rparr>, snd n4)"
    unfolding new_def handed_over_def Let_def n3_def [symmetric] by (simp add: case_prod_unfold n4_def)
  have "change_entries f (fst n4) = Inr (fst new)"
    using assms(5) buffers by (simp add: change_entries_def new Let_def)
  moreover have "pair_at C st ks kt (rlc_store C rt (fst new) st4) (left_behind ser) (fst new)"
    using p4 by (intro store(2) [OF p4]) (simp add: pair_at_def new)
  moreover have "fn_NetSim_LTENR_NAS_RLC_BUFFER_TRANSFER C (Some rs) (Some rt) flag (st, s) = (st4, snd n4)"
    by (simp add: fn_NetSim_LTENR_NAS_RLC_BUFFER_TRANSFER_def load [OF start(1)] load [OF p1]
        st1_def [symmetric] st2_def [symmetric] m3 m4)
  ultimately show ?thesis
    using load(2) [OF p4] by (auto simp: transfer_lines_def at rlc_change_def new pair_at_def)
qed

section \<open>All the entities of a pair\<close>

text \<open>What the new entity of the target is, the numbers of its timer events apart.\<close>

definition moved ::
  "int \<Rightarrow> (NetSim_PACKET \<Rightarrow> NetSim_PACKET) \<Rightarrow> LTENR_RLCENTITY \<Rightarrow> LTENR_RLCENTITY \<Rightarrow> LTENR_RLCENTITY" where
  "moved flag f ser tar =
     (let g = map (\<lambda>b. b\<lparr>data_packet := f (data_packet b)\<rparr>)
      in (rlc_take_over flag ser tar)\<lparr>transmissionBuffer := g (transmissionBuffer ser),
           retransmissionBuffer := g (retransmissionBuffer ser)\<rparr>)"

text \<open>The timers that ran at \<open>ser\<close> are deleted and set for their whole duration at \<open>e\<close>.\<close>

definition moved_timers :: "rlc_env \<Rightarrow> real \<Rightarrow> LTENR_RLCENTITY \<Rightarrow> LTENR_RLCENTITY \<Rightarrow> effect list" where
  "moved_timers E now ser e =
     (let ev = (\<lambda>t sub. \<lparr>te_time = now + t, te_deviceId = ent_d e, te_deviceType = DEVICE_TYPE E (ent_d e),
                te_interfaceId = ent_in e, te_subevent = sub\<rparr>)
      in (if isPollRetransmitTimerStarted ser
          then [DeleteEvent (pollRetransmitTimerId ser),
                AddEvent (ev (t_PollRetransmit e) LTENR_SUBEVNT_RLC_TPOLLRETRANSMITTIMER) (pollRetransmitTimerId e)]
          else [])
         @ (if isReassemblyTimerStarted ser
            then [DeleteEvent (reassemblyTimerId ser),
                  AddEvent (ev (t_Reassembly e) LTENR_SUBEVNT_RLC_TREASSEMBLYTIMER) (reassemblyTimerId e)]
            else []))"

definition same_but_timers :: "LTENR_RLCENTITY \<Rightarrow> LTENR_RLCENTITY \<Rightarrow> bool" where
  "same_but_timers e e' \<longleftrightarrow> e = e'\<lparr>pollRetransmitTimerId := pollRetransmitTimerId e, reassemblyTimerId := reassemblyTimerId e\<rparr>"

lemma handed_over_moved:
  "same_but_timers (fst (handed_over E flag f ser tar s)) (moved flag f ser tar)"
  "snd (handed_over E flag f ser tar s)
     = s\<lparr>trace := trace s @ moved_timers E (dEventTime s) ser (fst (handed_over E flag f ser tar s))\<rparr>"
  by (cases "isPollRetransmitTimerStarted ser"; cases "isReassemblyTimerStarted ser";
      simp add: handed_over_def moved_def same_but_timers_def moved_timers_def timer_defs Let_def
        rlc_take_over_def emit_def)+

text \<open>
  The transfers for the kinds \<open>ks\<close>, from the entities with the keys \<open>S\<close> to those with the keys
  \<open>T\<close>. The new entities are \<open>new\<close>.
\<close>

definition all_moved ::
  "core_env \<Rightarrow> int \<Rightarrow> (NetSim_PACKET \<Rightarrow> NetSim_PACKET) \<Rightarrow> (rlc_kind \<Rightarrow> rlc_key) \<Rightarrow> (rlc_kind \<Rightarrow> rlc_key)
     \<Rightarrow> rlc_kind list \<Rightarrow> rlc_state \<times> EVENTDETAILS \<Rightarrow> rlc_state \<times> EVENTDETAILS \<Rightarrow> bool" where
  "all_moved C flag f S T ks x x' \<longleftrightarrow>
     same_keys C (fst x) (fst x') \<and> (\<exists>new.
       (\<forall>k \<in> set ks. \<exists>ser tar. rlc_view C (fst x) (S k) = Some ser \<and> rlc_view C (fst x) (T k) = Some tar
          \<and> rlc_view C (fst x') (S k) = Some (left_behind ser) \<and> rlc_view C (fst x') (T k) = Some (new k)
          \<and> same_but_timers (new k) (moved flag f ser tar))
       \<and> (\<forall>key. key \<notin> S ` set ks \<union> T ` set ks \<longrightarrow> rlc_view C (fst x') key = rlc_view C (fst x) key)
       \<and> snd x' = (snd x)\<lparr>trace := trace (snd x) @
            concat (map (\<lambda>k. moved_timers (kernel C) (dEventTime (snd x)) (the (rlc_view C (fst x) (S k))) (new k)) ks)\<rparr>)"

definition movable :: "core_env \<Rightarrow> (rlc_kind \<Rightarrow> rlc_key) \<Rightarrow> (rlc_kind \<Rightarrow> rlc_key) \<Rightarrow> rlc_kind list \<Rightarrow> rlc_state \<Rightarrow> bool" where
  "movable C S T ks st \<longleftrightarrow> (\<forall>k \<in> set ks. \<exists>ser tar. rlc_view C st (S k) = Some ser \<and> rlc_view C st (T k) = Some tar
     \<and> rlcMode ser = rlcMode tar \<and> \<not> noBuffers ser)"

lemma transfer_all:
  assumes "movable C S T ks st" and "distinct ks" and "inj S" and "inj T" and "range S \<inter> range T = {}"
  shows "\<exists>x'. fold_result (\<lambda>k. transfer_lines C flag f (S k) (T k)) ks (st, s) = Inr x'
    \<and> all_moved C flag f S T ks (st, s) x'"
  using assms(1,2)
proof (induction ks arbitrary: st s)
  case Nil
  then show ?case by (simp add: all_moved_def)
next
  case (Cons k ks)
  have ne: "S k1 \<noteq> T k2" "S k1 = S k2 \<longleftrightarrow> k1 = k2" "T k1 = T k2 \<longleftrightarrow> k1 = k2" for k1 k2
    using assms(3-5) by (auto simp: inj_eq)
  have ne': "T k2 \<noteq> S k1" for k1 k2 using ne(1) [of k1 k2] by (rule not_sym)
  obtain ser tar where st: "rlc_view C st (S k) = Some ser" "rlc_view C st (T k) = Some tar"
    "rlcMode ser = rlcMode tar" "\<not> noBuffers ser" using Cons.prems(1) by (auto simp: movable_def)
  let ?n = "handed_over (kernel C) flag f ser tar s"
  note h = handed_over_moved [of "kernel C" flag f ser tar s]
  from transfer_one [OF st(1,2) ne(1) st(3,4) refl, of flag f s] obtain st1
    where run: "transfer_lines C flag f (S k) (T k) (st, s) = Inr (st1, snd ?n)" and same: "same_keys C st st1"
      and v1: "rlc_view C st1 = (rlc_view C st)(S k \<mapsto> left_behind ser, T k \<mapsto> fst ?n)" by blast
  have "k' \<noteq> k" if "k' \<in> set ks" for k' using that Cons.prems(2) by auto
  then have old: "rlc_view C st1 (S k') = rlc_view C st (S k')" "rlc_view C st1 (T k') = rlc_view C st (T k')"
    if "k' \<in> set ks" for k'
    using that \<open>\<And>k'. k' \<in> set ks \<Longrightarrow> k' \<noteq> k\<close> by (simp_all add: v1 ne ne')
  have "movable C S T ks st1" using Cons.prems(1) old by (auto simp: movable_def)
  from Cons.IH [OF this, of "snd ?n"] Cons.prems(2) obtain x'
    where run': "fold_result (\<lambda>k. transfer_lines C flag f (S k) (T k)) ks (st1, snd ?n) = Inr x'"
      and m: "all_moved C flag f S T ks (st1, snd ?n) x'" by auto
  from m obtain new where m1: "same_keys C st1 (fst x')"
    and m2: "\<forall>k \<in> set ks. \<exists>ser tar. rlc_view C st1 (S k) = Some ser \<and> rlc_view C st1 (T k) = Some tar
          \<and> rlc_view C (fst x') (S k) = Some (left_behind ser) \<and> rlc_view C (fst x') (T k) = Some (new k)
          \<and> same_but_timers (new k) (moved flag f ser tar)"
    and m3: "\<forall>key. key \<notin> S ` set ks \<union> T ` set ks \<longrightarrow> rlc_view C (fst x') key = rlc_view C st1 key"
    and m4: "snd x' = (snd ?n)\<lparr>trace := trace (snd ?n) @
            concat (map (\<lambda>k. moved_timers (kernel C) (dEventTime (snd ?n)) (the (rlc_view C st1 (S k))) (new k)) ks)\<rparr>"
    unfolding all_moved_def fst_conv snd_conv by blast
  have "k \<notin> set ks" using Cons.prems(2) by simp
  then have k: "S k \<notin> S ` set ks \<union> T ` set ks" "T k \<notin> S ` set ks \<union> T ` set ks"
    by (auto simp: ne ne')
  have vk: "rlc_view C (fst x') (S k) = Some (left_behind ser)" "rlc_view C (fst x') (T k) = Some (fst ?n)"
    using m3 [rule_format, OF k(1)] m3 [rule_format, OF k(2)] by (simp_all add: v1 ne)
  define new' where "new' = new(k := fst ?n)"
  have new': "new' k = fst ?n" "k' \<in> set ks \<Longrightarrow> new' k' = new k'" for k'
    using \<open>k \<notin> set ks\<close> by (auto simp: new'_def)
  have "\<forall>k' \<in> set (k # ks). \<exists>ser tar. rlc_view C st (S k') = Some ser \<and> rlc_view C st (T k') = Some tar
          \<and> rlc_view C (fst x') (S k') = Some (left_behind ser) \<and> rlc_view C (fst x') (T k') = Some (new' k')
          \<and> same_but_timers (new' k') (moved flag f ser tar)"
    using m2 old new' vk st(1,2) h(1) by simp
  moreover have "\<forall>key. key \<notin> S ` set (k # ks) \<union> T ` set (k # ks) \<longrightarrow> rlc_view C (fst x') key = rlc_view C st key"
  proof (intro allI impI)
    fix key assume key: "key \<notin> S ` set (k # ks) \<union> T ` set (k # ks)"
    then have "rlc_view C (fst x') key = rlc_view C st1 key" by (intro m3 [rule_format]) simp
    with key show "rlc_view C (fst x') key = rlc_view C st key" by (auto simp: v1)
  qed
  moreover have "map (\<lambda>k. moved_timers (kernel C) (dEventTime s) (the (rlc_view C st1 (S k))) (new k)) ks
      = map (\<lambda>k. moved_timers (kernel C) (dEventTime s) (the (rlc_view C st (S k))) (new' k)) ks"
    using old new' by simp
  then have "snd x' = s\<lparr>trace := trace s @
            concat (map (\<lambda>k. moved_timers (kernel C) (dEventTime s) (the (rlc_view C st (S k))) (new' k)) (k # ks))\<rparr>"
    unfolding m4 h(2) using st(1) new'(1) by (simp del: map_eq_conv)
  ultimately have "all_moved C flag f S T (k # ks) (st, s) x'"
    unfolding all_moved_def fst_conv snd_conv using same_keys_trans [OF same m1] by blast
  with run run' show ?case by auto
qed

section \<open>Association and release of the RLC entities\<close>

text \<open>The entity association leaves under a key: the one that was there, or a new one.\<close>

definition entity_or_new :: "core_env \<Rightarrow> rlc_state \<Rightarrow> rlc_key \<Rightarrow> LTENR_RLCENTITY" where
  "entity_or_new C st key = (case rlc_view C st key of Some e \<Rightarrow> e
     | None \<Rightarrow> (case key of (d, i, p, pif, k) \<Rightarrow> new_entity C d i p pif k))"

abbreviation pair_key :: "netsim_id \<Rightarrow> netsim_id \<Rightarrow> netsim_id \<Rightarrow> netsim_id \<Rightarrow> rlc_kind \<Rightarrow> rlc_key" where
  "pair_key d i p pif \<equiv> \<lambda>k. (d, i, p, pif, k)"

definition both_keys :: "netsim_id \<Rightarrow> netsim_id \<Rightarrow> netsim_id \<Rightarrow> netsim_id \<Rightarrow> rlc_key set" where
  "both_keys g gi u ui = pair_key g gi u ui ` set entity_kinds \<union> pair_key u ui g gi ` set entity_kinds"

lemma pair_readyI: "same_keys C st st' \<Longrightarrow> pair_ready C st g gi u ui \<Longrightarrow> pair_ready C st' g gi u ui"
  using same_keys_wf by (auto simp: pair_ready_def same_keys_def)

lemma rlc_view_with:
  "has_rlc C st d i \<Longrightarrow> rlc_view C (with_entities C st d i es) key
     = (if fst key = d \<and> fst (snd key) = i then view entity_key es key else rlc_view C st key)"
  by (simp add: rlc_view_def)

context core_environment
begin

lemma establish_view:
  assumes "has_rlc C st d i"
  shows "rlc_view C (establish_kinds C d i p pif entity_kinds st) key
    = (if key \<in> pair_key d i p pif ` set entity_kinds then Some (entity_or_new C st key) else rlc_view C st key)"
proof -
  let ?new = "map (new_entity C d i p pif) (missing_kinds st d i p pif entity_kinds)"
  have key: "view entity_key ?new (d, i, p, pif, k)
      = (if k \<in> set (missing_kinds st d i p pif entity_kinds) then Some (new_entity C d i p pif k) else None)" for k
    by (rule view_map) (auto simp: new_entity_key' inj_def)
  have missing: "k \<in> set (missing_kinds st d i p pif entity_kinds) \<longleftrightarrow> rlc_view C st (d, i, p, pif, k) = None"
    if "k \<in> set entity_kinds" for k
    using that by (auto simp: missing_kinds_def rlc_view_def view_None_iff)
  have new: "view entity_key ?new key = (if key \<in> pair_key d i p pif ` set entity_kinds \<and> rlc_view C st key = None
      then Some (entity_or_new C st key) else None)"
  proof (cases "key \<in> pair_key d i p pif ` set entity_kinds")
    case True
    then obtain k where k: "key = (d, i, p, pif, k)" "k \<in> set entity_kinds" by blast
    show ?thesis using missing [OF k(2)] k(2) unfolding k(1) key by (simp add: entity_or_new_def)
  next
    case False
    then have "view entity_key ?new key = None"
      by (auto simp: view_None_iff missing_kinds_def new_entity_key')
    with False show ?thesis by simp
  qed
  show ?thesis
  proof (cases "fst key = d \<and> fst (snd key) = i")
    case True
    then have "view entity_key (entity_list C st d i) key = rlc_view C st key" by (simp add: rlc_view_def)
    then show ?thesis
      unfolding establish_kinds_eq [OF distinct_entity_kinds] rlc_view_with [OF assms] view_append
      using True by (cases "rlc_view C st key") (simp_all add: map_add_def new entity_or_new_def)
  next
    case False
    then have "key \<notin> pair_key d i p pif ` set entity_kinds" by auto
    then show ?thesis
      unfolding establish_kinds_eq [OF distinct_entity_kinds] rlc_view_with [OF assms] using False by auto
  qed
qed

lemma establish_slots:
  "has_rlc C (establish_kinds C d i p pif entity_kinds st) d' i' = has_rlc C st d' i'"
  "(ue_rlc (establish_kinds C d i p pif entity_kinds st) x = None) = (ue_rlc st x = None)"
  "(gnb_rlc (establish_kinds C d i p pif entity_kinds st) x = None) = (gnb_rlc st x = None)"
  unfolding establish_kinds_eq [OF distinct_entity_kinds] by simp_all

lemma release_view:
  assumes "rlc_wf C st" and "has_rlc C st d i"
    and "\<forall>k \<in> set entity_kinds. rlc_view C st (d, i, p, pif, k) \<noteq> None"
  shows "\<exists>st'. release_kinds C d i p pif entity_kinds st = Inr st'
    \<and> rlc_view C st' = (rlc_view C st) |` (- pair_key d i p pif ` set entity_kinds)
    \<and> rlc_wf C st' \<and> has_rlc C st' = has_rlc C st"
proof -
  let ?K = "pair_key d i p pif ` set entity_kinds"
  let ?es = "filter (\<lambda>e. entity_key e \<notin> ?K) (entity_list C st d i)"
  have "\<forall>k \<in> set entity_kinds. (d, i, p, pif, k) \<in> entity_key ` set (entity_list C st d i)"
    using assms(3) by (simp add: rlc_view_def view_None_iff)
  note run = release_kinds_eq [OF assms(1,2) distinct_entity_kinds this]
  have "rlc_view C (with_entities C st d i ?es) = (rlc_view C st) |` (- ?K)"
  proof
    fix key
    have "key \<notin> ?K" if "\<not> (fst key = d \<and> fst (snd key) = i)" using that by auto
    then show "rlc_view C (with_entities C st d i ?es) key = ((rlc_view C st) |` (- ?K)) key"
      unfolding rlc_view_with [OF assms(2)] view_filter by (simp add: rlc_view_def restrict_map_def)
  qed
  moreover have "rlc_wf C (with_entities C st d i ?es)"
    using rlc_wf_list [OF assms(1)] by (intro rlc_wf_with assms(1) distinct_map_filter) auto
  ultimately show ?thesis using run by (auto simp: fun_eq_iff)
qed

lemma association_view:
  assumes "pair_ready C st g gi u ui"
  shows "\<exists>st'. LTENR_RLC_ASSOCIATION C g gi u ui True st = Inr st' \<and> pair_ready C st' g gi u ui
    \<and> (\<forall>key. rlc_view C st' key = (if key \<in> both_keys g gi u ui then Some (entity_or_new C st key) else rlc_view C st key))
    \<and> (\<forall>d i. has_rlc C st' d i = has_rlc C st d i)
    \<and> (\<forall>x. (ue_rlc st' x = None) = (ue_rlc st x = None) \<and> (gnb_rlc st' x = None) = (gnb_rlc st x = None))"
proof -
  note r = pair_readyD [OF assms]
  let ?st1 = "establish_kinds C g gi u ui entity_kinds st"
  let ?st2 = "establish_kinds C u ui g gi entity_kinds ?st1"
  have h: "has_rlc C ?st1 u ui" using r(3) by (simp add: establish_slots)
  have "key \<notin> pair_key g gi u ui ` set entity_kinds" if "key \<in> pair_key u ui g gi ` set entity_kinds" for key
    using that r(4) by auto
  then have "rlc_view C ?st2 key = (if key \<in> both_keys g gi u ui then Some (entity_or_new C st key) else rlc_view C st key)"
    for key
    unfolding establish_view [OF h] by (auto simp: establish_view [OF r(2)] both_keys_def entity_or_new_def)
  moreover have "pair_ready C ?st2 g gi u ui"
    using assms establish_kinds_wf [OF establish_kinds_wf [OF r(1) distinct_entity_kinds] distinct_entity_kinds]
    by (simp add: pair_ready_def establish_slots)
  ultimately show ?thesis
    using association_result(1) [OF assms] by (intro exI [of _ ?st2]) (simp add: establish_slots)
qed

lemma release_association_view:
  assumes "pair_ready C st g gi u ui" and "\<forall>key \<in> both_keys g gi u ui. rlc_view C st key \<noteq> None"
  shows "\<exists>st'. LTENR_RLC_ASSOCIATION C g gi u ui False st = Inr st' \<and> rlc_wf C st'
    \<and> rlc_view C st' = (rlc_view C st) |` (- both_keys g gi u ui)"
proof -
  note r = pair_readyD [OF assms(1)]
  have "\<forall>k \<in> set entity_kinds. rlc_view C st (g, gi, u, ui, k) \<noteq> None"
    using assms(2) by (simp add: both_keys_def ball_Un)
  from release_view [OF r(1,2) this] obtain st1
    where st1: "release_kinds C g gi u ui entity_kinds st = Inr st1"
      "rlc_view C st1 = (rlc_view C st) |` (- pair_key g gi u ui ` set entity_kinds)"
      "rlc_wf C st1" "has_rlc C st1 = has_rlc C st" by blast
  have "\<forall>k \<in> set entity_kinds. rlc_view C st1 (u, ui, g, gi, k) \<noteq> None"
    using assms(2) r(4) by (auto simp: both_keys_def ball_Un st1(2) restrict_map_def)
  from release_view [OF st1(3) _ this] r(3) st1(4) obtain st2
    where st2: "release_kinds C u ui g gi entity_kinds st1 = Inr st2"
      "rlc_view C st2 = (rlc_view C st1) |` (- pair_key u ui g gi ` set entity_kinds)" "rlc_wf C st2" by auto
  have "rlc_view C st2 = (rlc_view C st) |` (- both_keys g gi u ui)"
    unfolding st2(2) st1(2) both_keys_def by (auto simp: fun_eq_iff restrict_map_def)
  with st1(1) st2(1,3) show ?thesis unfolding association_result(2) [OF assms(1)] by auto
qed

end

section \<open>The handover of the RLC entities\<close>

text \<open>
  From the state and event \<open>x\<close> to \<open>x'\<close> the entities of the UE \<open>(r, rin)\<close> and the cell \<open>(d, i)\<close>
  for each other became those of the UE and the cell \<open>(t, tin)\<close>, with all they held, and
  nothing else changed.
\<close>

definition rlc_handed_over ::
  "core_env \<Rightarrow> netsim_id \<Rightarrow> netsim_id \<Rightarrow> netsim_id \<Rightarrow> netsim_id \<Rightarrow> netsim_id \<Rightarrow> netsim_id
     \<Rightarrow> rlc_state \<times> EVENTDETAILS \<Rightarrow> rlc_state \<times> EVENTDETAILS \<Rightarrow> bool" where
  "rlc_handed_over C d i r rin t tin x x' \<longleftrightarrow> (\<exists>gnew unew.
     (\<forall>k \<in> set entity_kinds. \<exists>gser user.
        rlc_view C (fst x) (d, i, r, rin, k) = Some gser \<and> rlc_view C (fst x) (r, rin, d, i, k) = Some user
        \<and> rlc_view C (fst x') (t, tin, r, rin, k) = Some (gnew k)
        \<and> same_but_timers (gnew k) (moved 0 (\<lambda>p. p\<lparr>nTransmitterId := t\<rparr>) gser (entity_or_new C (fst x) (t, tin, r, rin, k)))
        \<and> rlc_view C (fst x') (r, rin, t, tin, k) = Some (unew k)
        \<and> same_but_timers (unew k) (moved 1 (\<lambda>p. p\<lparr>nReceiverId := t\<rparr>) user (entity_or_new C (fst x) (r, rin, t, tin, k))))
     \<and> (\<forall>key \<in> both_keys d i r rin. rlc_view C (fst x') key = None)
     \<and> (\<forall>key. key \<notin> both_keys d i r rin \<union> both_keys t tin r rin \<longrightarrow> rlc_view C (fst x') key = rlc_view C (fst x) key)
     \<and> snd x' = (snd x)\<lparr>trace := trace (snd x)
          @ concat (map (\<lambda>k. moved_timers (kernel C) (dEventTime (snd x)) (the (rlc_view C (fst x) (d, i, r, rin, k))) (gnew k)) entity_kinds)
          @ concat (map (\<lambda>k. moved_timers (kernel C) (dEventTime (snd x)) (the (rlc_view C (fst x) (r, rin, d, i, k))) (unew k)) entity_kinds)\<rparr>)"

lemma rlc_view_key: "rlc_view C st key = Some e \<Longrightarrow> entity_key e = key"
  by (auto simp: rlc_view_def dest: view_SomeD)

lemma rlc_view_mode: "rlc_view C st (d, i, p, pif, m, tx, rx) = Some e \<Longrightarrow> rlcMode e = m"
  by (auto dest!: rlc_view_key simp: entity_key_def)

lemma fold_result_steps:
  "fold_result body [] = Inr" "fold_result body (k # ks) = (\<lambda>x. rbind (body k x) (fold_result body ks))"
  "rbind m Inr = m"
  by (simp_all add: fun_eq_iff) (cases m; simp)

lemma rbind_assoc: "rbind (rbind m f) g = rbind m (\<lambda>x. rbind (f x) g)"
  by (cases m) simp_all

lemma buffer_transfer_kinds:
  "fn_NetSim_LTENR_NAS_RLC_GNB_BUFFER_TRANSFER C d i r rin t tin
     = fold_result (\<lambda>k. transfer_lines C 0 (\<lambda>p. p\<lparr>nTransmitterId := t\<rparr>) (pair_key d i r rin k) (pair_key t tin r rin k)) entity_kinds"
  "fn_NetSim_LTENR_NAS_RLC_UE_BUFFER_TRANSFER C d i r rin t tin
     = fold_result (\<lambda>k. transfer_lines C 1 (\<lambda>p. p\<lparr>nReceiverId := t\<rparr>) (pair_key r rin d i k) (pair_key r rin t tin k)) entity_kinds"
  by (simp_all add: fun_eq_iff entity_kinds_def fold_result_steps transfer_lines_eq del: fold_result.simps
      add: fn_NetSim_LTENR_NAS_RLC_GNB_BUFFER_TRANSFER_def fn_NetSim_LTENR_NAS_RLC_UE_BUFFER_TRANSFER_def)

lemma movableI:
  assumes "\<And>k. k \<in> set entity_kinds \<Longrightarrow> \<exists>ser tar. rlc_view C st (pair_key a b c e k) = Some ser
    \<and> rlc_view C st (pair_key a' b' c' e' k) = Some tar \<and> \<not> noBuffers ser"
  shows "movable C (pair_key a b c e) (pair_key a' b' c' e') entity_kinds st"
  unfolding movable_def
proof
  fix k assume "k \<in> set entity_kinds"
  from assms [OF this] obtain ser tar where "rlc_view C st (pair_key a b c e k) = Some ser"
    "rlc_view C st (pair_key a' b' c' e' k) = Some tar" "\<not> noBuffers ser" by blast
  moreover from this have "rlcMode ser = fst k" "rlcMode tar = fst k"
    by (cases k; auto dest: rlc_view_mode)+
  ultimately show "\<exists>ser tar. rlc_view C st (pair_key a b c e k) = Some ser \<and> rlc_view C st (pair_key a' b' c' e' k) = Some tar
      \<and> rlcMode ser = rlcMode tar \<and> \<not> noBuffers ser" by auto
qed

lemma inj_pair_key: "inj (pair_key d i p pif)"
  by (simp add: inj_def)

lemma range_pair_key:
  "(a, b, c, e) \<noteq> (a', b', c', e') \<Longrightarrow> range (pair_key a b c e) \<inter> range (pair_key a' b' c' e') = {}"
  by auto

lemma both_keysI [simp]:
  "k \<in> set entity_kinds \<Longrightarrow> (g, gi, u, ui, k) \<in> both_keys g gi u ui"
  "k \<in> set entity_kinds \<Longrightarrow> (u, ui, g, gi, k) \<in> both_keys g gi u ui"
  by (auto simp: both_keys_def)

lemma both_keys_sides:
  "(a, b, c, e, k) \<in> both_keys g gi u ui \<longleftrightarrow>
     k \<in> set entity_kinds \<and> ((a, b, c, e) = (g, gi, u, ui) \<or> (a, b, c, e) = (u, ui, g, gi))"
  by (auto simp: both_keys_def)

lemma pair_ready_slots:
  assumes "pair_ready C st g gi u ui" and "rlc_wf C st'"
    and "\<forall>x. (ue_rlc st' x = None) = (ue_rlc st x = None) \<and> (gnb_rlc st' x = None) = (gnb_rlc st x = None)"
  shows "pair_ready C st' g gi u ui"
  using assms by (simp add: pair_ready_def)

context core_environment
begin

lemma rlc_handover:
  assumes ready: "pair_ready C st d i r rin" "pair_ready C st t tin r rin" and "(d, i) \<noteq> (t, tin)"
    and there: "\<forall>key \<in> both_keys d i r rin. \<exists>e. rlc_view C st key = Some e \<and> \<not> noBuffers e"
  shows "\<exists>st1 x2 x3 st4. LTENR_RLC_ASSOCIATION C t tin r rin True st = Inr st1
    \<and> fn_NetSim_LTENR_NAS_RLC_GNB_BUFFER_TRANSFER C d i r rin t tin (st1, s) = Inr x2
    \<and> fn_NetSim_LTENR_NAS_RLC_UE_BUFFER_TRANSFER C d i r rin t tin x2 = Inr x3
    \<and> LTENR_RLC_ASSOCIATION C d i r rin False (fst x3) = Inr st4
    \<and> rlc_handed_over C d i r rin t tin (st, s) (st4, snd x3)"
proof -
  note ne = pair_readyD(4) [OF ready(1)] pair_readyD(4) [OF ready(2)] assms(3)
  let ?S = "pair_key d i r rin" and ?T = "pair_key t tin r rin"
  let ?S' = "pair_key r rin d i" and ?T' = "pair_key r rin t tin"
  note range = range_pair_key inj_pair_key
  from association_view [OF ready(2)] obtain st1
    where run1: "LTENR_RLC_ASSOCIATION C t tin r rin True st = Inr st1" and p1: "pair_ready C st1 t tin r rin"
      and v1: "\<And>key. rlc_view C st1 key = (if key \<in> both_keys t tin r rin then Some (entity_or_new C st key) else rlc_view C st key)"
      and slots: "\<forall>x. (ue_rlc st1 x = None) = (ue_rlc st x = None) \<and> (gnb_rlc st1 x = None) = (gnb_rlc st x = None)"
    by blast
  have p1': "pair_ready C st1 d i r rin"
    by (rule pair_ready_slots [OF ready(1) pair_readyD(1) [OF p1] slots])
  have old1: "rlc_view C st1 (?S k) = rlc_view C st (?S k)" "rlc_view C st1 (?S' k) = rlc_view C st (?S' k)" for k
    using ne by (auto simp: v1 both_keys_sides)
  have new1: "rlc_view C st1 (?T k) = Some (entity_or_new C st (?T k))"
      "rlc_view C st1 (?T' k) = Some (entity_or_new C st (?T' k))" if "k \<in> set entity_kinds" for k
    using that by (simp_all add: v1)
  have "movable C ?S ?T entity_kinds st1"
    using there by (intro movableI) (auto simp: old1 new1)
  from transfer_all [OF this distinct_entity_kinds range(2,2) range(1), of 0 "\<lambda>p. p\<lparr>nTransmitterId := t\<rparr>" s] ne
  obtain x2 where run2: "fn_NetSim_LTENR_NAS_RLC_GNB_BUFFER_TRANSFER C d i r rin t tin (st1, s) = Inr x2"
    and m2: "all_moved C 0 (\<lambda>p. p\<lparr>nTransmitterId := t\<rparr>) ?S ?T entity_kinds (st1, s) x2"
    unfolding buffer_transfer_kinds by auto
  obtain gnew where same2: "same_keys C st1 (fst x2)"
    and g: "\<forall>k \<in> set entity_kinds. \<exists>ser tar. rlc_view C st1 (?S k) = Some ser \<and> rlc_view C st1 (?T k) = Some tar
          \<and> rlc_view C (fst x2) (?S k) = Some (left_behind ser) \<and> rlc_view C (fst x2) (?T k) = Some (gnew k)
          \<and> same_but_timers (gnew k) (moved 0 (\<lambda>p. p\<lparr>nTransmitterId := t\<rparr>) ser tar)"
    and o2: "\<And>key. key \<notin> ?S ` set entity_kinds \<union> ?T ` set entity_kinds \<Longrightarrow> rlc_view C (fst x2) key = rlc_view C st1 key"
    and ev2: "snd x2 = s\<lparr>trace := trace s @ concat (map (\<lambda>k. moved_timers (kernel C) (dEventTime s) (the (rlc_view C st1 (?S k))) (gnew k)) entity_kinds)\<rparr>"
    using m2 unfolding all_moved_def fst_conv snd_conv by blast
  have ue: "rlc_view C (fst x2) (?S' k) = rlc_view C st1 (?S' k)" "rlc_view C (fst x2) (?T' k) = rlc_view C st1 (?T' k)" for k
    using ne by (intro o2; auto)+
  have "movable C ?S' ?T' entity_kinds (fst x2)"
    using there by (intro movableI) (auto simp: ue old1 new1)
  from transfer_all [OF this distinct_entity_kinds range(2,2) range(1), of 1 "\<lambda>p. p\<lparr>nReceiverId := t\<rparr>" "snd x2"] ne
  obtain x3 where run3: "fn_NetSim_LTENR_NAS_RLC_UE_BUFFER_TRANSFER C d i r rin t tin x2 = Inr x3"
    and m3: "all_moved C 1 (\<lambda>p. p\<lparr>nReceiverId := t\<rparr>) ?S' ?T' entity_kinds x2 x3"
    unfolding buffer_transfer_kinds by auto
  obtain unew where same3: "same_keys C (fst x2) (fst x3)"
    and u: "\<forall>k \<in> set entity_kinds. \<exists>ser tar. rlc_view C (fst x2) (?S' k) = Some ser \<and> rlc_view C (fst x2) (?T' k) = Some tar
          \<and> rlc_view C (fst x3) (?S' k) = Some (left_behind ser) \<and> rlc_view C (fst x3) (?T' k) = Some (unew k)
          \<and> same_but_timers (unew k) (moved 1 (\<lambda>p. p\<lparr>nReceiverId := t\<rparr>) ser tar)"
    and o3: "\<And>key. key \<notin> ?S' ` set entity_kinds \<union> ?T' ` set entity_kinds \<Longrightarrow> rlc_view C (fst x3) key = rlc_view C (fst x2) key"
    and ev3: "snd x3 = (snd x2)\<lparr>trace := trace (snd x2) @ concat (map (\<lambda>k. moved_timers (kernel C) (dEventTime (snd x2)) (the (rlc_view C (fst x2) (?S' k))) (unew k)) entity_kinds)\<rparr>"
    using m3 unfolding all_moved_def by blast
  have p3: "pair_ready C (fst x3) d i r rin"
    by (rule pair_readyI [OF same_keys_trans [OF same2 same3] p1'])
  have gnb3: "rlc_view C (fst x3) (?S k) = rlc_view C (fst x2) (?S k)" "rlc_view C (fst x3) (?T k) = rlc_view C (fst x2) (?T k)" for k
    using ne by (intro o3; auto)+
  have "\<forall>key \<in> both_keys d i r rin. rlc_view C (fst x3) key \<noteq> None"
    using g u unfolding both_keys_def by (fastforce simp: gnb3)
  from release_association_view [OF p3 this] obtain st4
    where run4: "LTENR_RLC_ASSOCIATION C d i r rin False (fst x3) = Inr st4"
      and v4: "rlc_view C st4 = (rlc_view C (fst x3)) |` (- both_keys d i r rin)" by blast
  have kept: "rlc_view C st4 (?T k) = rlc_view C (fst x2) (?T k)" "rlc_view C st4 (?T' k) = rlc_view C (fst x3) (?T' k)" for k
    using ne by (auto simp: v4 restrict_map_def both_keys_sides gnb3)
  have "rlc_view C st4 key = rlc_view C st key" if "key \<notin> both_keys d i r rin \<union> both_keys t tin r rin" for key
  proof -
    have "rlc_view C st4 key = rlc_view C (fst x3) key" using that by (simp add: v4)
    also have "\<dots> = rlc_view C (fst x2) key" using that by (intro o3) (auto simp: both_keys_def)
    also have "\<dots> = rlc_view C st1 key" using that by (intro o2) (auto simp: both_keys_def)
    also have "\<dots> = rlc_view C st key" using that by (simp add: v1)
    finally show ?thesis .
  qed
  moreover have "rlc_view C st4 key = None" if "key \<in> both_keys d i r rin" for key
    using that by (simp add: v4)
  moreover have "\<exists>gser user. rlc_view C st (?S k) = Some gser \<and> rlc_view C st (?S' k) = Some user
        \<and> rlc_view C st4 (?T k) = Some (gnew k)
        \<and> same_but_timers (gnew k) (moved 0 (\<lambda>p. p\<lparr>nTransmitterId := t\<rparr>) gser (entity_or_new C st (?T k)))
        \<and> rlc_view C st4 (?T' k) = Some (unew k)
        \<and> same_but_timers (unew k) (moved 1 (\<lambda>p. p\<lparr>nReceiverId := t\<rparr>) user (entity_or_new C st (?T' k)))"
    if k: "k \<in> set entity_kinds" for k
    using bspec [OF g k] bspec [OF u k] by (auto simp: kept ue old1 new1 [OF k])
  moreover have "snd x3 = s\<lparr>trace := trace s
      @ concat (map (\<lambda>k. moved_timers (kernel C) (dEventTime s) (the (rlc_view C st (?S k))) (gnew k)) entity_kinds)
      @ concat (map (\<lambda>k. moved_timers (kernel C) (dEventTime s) (the (rlc_view C st (?S' k))) (unew k)) entity_kinds)\<rparr>"
    unfolding ev3 ev2 by (simp add: ue old1)
  ultimately have "rlc_handed_over C d i r rin t tin (st, s) (st4, snd x3)"
    unfolding rlc_handed_over_def fst_conv snd_conv by blast
  with run1 run2 run3 run4 show ?thesis by blast
qed

end

end
