(* ===== verification/Handover_PDCP.thy ===== *)
theory Handover_PDCP
  imports Handover_Buffers
begin

text \<open>
  The handover of the PDCP entities, with the entities of all interfaces looked up by where
  they are and by their key.
\<close>

declare of_nat_unat [simp del]

section \<open>The PDCP entities by key\<close>

type_synonym pdcp_key = "netsim_id \<times> netsim_id \<times> netsim_id \<times> netsim_id \<times> LTENR_RLCMODE"

definition pdcp_key :: "LTENR_PDCPENTITY \<Rightarrow> pdcp_key" where
  "pdcp_key e = (pe_enbId e, pe_enbIf e, pe_ueId e, pe_ueIf e, pe_rlcMode e)"

lemma FindEntity_key:
  "LTENR_PDCP_FindEntity v g gi u ui m = find_pos (\<lambda>e. pdcp_key e = (g, gi, u, ui, m)) (pdcpEntity v)"
  by (simp add: LTENR_PDCP_FindEntity_def pdcp_key_def)

text \<open>A place: the side of the gNBs or that of the UEs, the interface, and the key.\<close>

datatype pdcp_side = AtGnb | AtUe

type_synonym pdcp_place = "pdcp_side \<times> (netsim_id \<times> netsim_id) \<times> pdcp_key"

definition pdcp_vars :: "pdcp_state \<Rightarrow> pdcp_side \<Rightarrow> netsim_id \<times> netsim_id \<Rightarrow> LTENR_PDCPVAR option" where
  "pdcp_vars st a = (case a of AtGnb \<Rightarrow> gnb_pdcp st | AtUe \<Rightarrow> ue_pdcp st)"

definition pdcp_map :: "pdcp_state \<Rightarrow> pdcp_place \<Rightarrow> LTENR_PDCPENTITY option" where
  "pdcp_map st p = (case p of (a, x, k) \<Rightarrow>
     (case pdcp_vars st a x of None \<Rightarrow> None | Some v \<Rightarrow> view pdcp_key (pdcpEntity v) k))"

definition set_var :: "pdcp_side \<Rightarrow> netsim_id \<times> netsim_id \<Rightarrow> LTENR_PDCPVAR \<Rightarrow> pdcp_state \<Rightarrow> pdcp_state" where
  "set_var a x v st = (case a of AtGnb \<Rightarrow> st\<lparr>gnb_pdcp := (gnb_pdcp st)(x \<mapsto> v)\<rparr>
     | AtUe \<Rightarrow> st\<lparr>ue_pdcp := (ue_pdcp st)(x \<mapsto> v)\<rparr>)"

definition pdcp_wf :: "pdcp_state \<Rightarrow> bool" where
  "pdcp_wf st \<longleftrightarrow> (\<forall>a x v. pdcp_vars st a x = Some v \<longrightarrow> distinct (map pdcp_key (pdcpEntity v)))"

lemma pdcp_wfD: "pdcp_wf st \<Longrightarrow> pdcp_vars st a x = Some v \<Longrightarrow> distinct (map pdcp_key (pdcpEntity v))"
  unfolding pdcp_wf_def by blast

text \<open>The two states have the same interfaces, with the same configuration, and the same RRC data.\<close>

definition same_config :: "pdcp_state \<Rightarrow> pdcp_state \<Rightarrow> bool" where
  "same_config st st' \<longleftrightarrow> ue_rrc st' = ue_rrc st
     \<and> (\<forall>a x. map_option (\<lambda>v. v\<lparr>pdcpEntity := []\<rparr>) (pdcp_vars st' a x) = map_option (\<lambda>v. v\<lparr>pdcpEntity := []\<rparr>) (pdcp_vars st a x))"

lemma same_config_refl [simp]: "same_config st st"
  by (simp add: same_config_def)

lemma same_config_trans: "same_config st st' \<Longrightarrow> same_config st' st'' \<Longrightarrow> same_config st st''"
  by (simp add: same_config_def)

lemma same_config_var:
  assumes "same_config st st'" and "pdcp_vars st a x = Some v"
  shows "\<exists>es. pdcp_vars st' a x = Some (v\<lparr>pdcpEntity := es\<rparr>)"
proof -
  have "map_option (\<lambda>v. v\<lparr>pdcpEntity := []\<rparr>) (pdcp_vars st' a x) = Some (v\<lparr>pdcpEntity := []\<rparr>)"
    using assms unfolding same_config_def by (metis option.simps(9))
  then obtain v' where v': "pdcp_vars st' a x = Some v'" "v'\<lparr>pdcpEntity := []\<rparr> = v\<lparr>pdcpEntity := []\<rparr>" by auto
  have "v' = (v'\<lparr>pdcpEntity := []\<rparr>)\<lparr>pdcpEntity := pdcpEntity v'\<rparr>" by simp
  also have "\<dots> = v\<lparr>pdcpEntity := pdcpEntity v'\<rparr>" unfolding v'(2) by simp
  finally show ?thesis using v'(1) by metis
qed

lemma set_var_vars [simp]: "pdcp_vars (set_var a x v st) a' x' = (if a' = a \<and> x' = x then Some v else pdcp_vars st a' x')"
  by (auto simp: pdcp_vars_def set_var_def split: pdcp_side.splits)

lemma set_var_rrc [simp]: "ue_rrc (set_var a x v st) = ue_rrc st"
  by (simp add: set_var_def split: pdcp_side.splits)

text \<open>A write of the chain of one interface, with what it has to keep.\<close>

lemma set_chain:
  assumes "pdcp_vars st a x = Some v" and "pdcp_wf st" and "distinct (map pdcp_key es)"
    and "view pdcp_key es = m"
  shows "pdcp_wf (set_var a x (v\<lparr>pdcpEntity := es\<rparr>) st)"
    and "same_config st (set_var a x (v\<lparr>pdcpEntity := es\<rparr>) st)"
    and "pdcp_map (set_var a x (v\<lparr>pdcpEntity := es\<rparr>) st) (b, y, k)
      = (if b = a \<and> y = x then m k else pdcp_map st (b, y, k))"
  using assms by (auto simp: pdcp_wf_def same_config_def pdcp_map_def)

lemma pdcp_map_vars: "pdcp_vars st a x = Some v \<Longrightarrow> pdcp_map st (a, x, k) = view pdcp_key (pdcpEntity v) k"
  by (simp add: pdcp_map_def)

section \<open>Association and release of the PDCP entities\<close>

definition pdcp_entity_or_new :: "pdcp_state \<Rightarrow> pdcp_place \<Rightarrow> LTENR_PDCPENTITY" where
  "pdcp_entity_or_new st p = (case pdcp_map st p of Some e \<Rightarrow> e
     | None \<Rightarrow> (case p of (a, x, (g, gi, u, ui, m)) \<Rightarrow> new_pdcp_entity (the (pdcp_vars st a x)) g gi u ui m))"

lemma new_pdcp_key [simp]: "pdcp_key (new_pdcp_entity v g gi u ui m) = (g, gi, u, ui, m)"
  by (simp add: pdcp_key_def)

lemma pdcp_entity_or_new_key: "pdcp_key (pdcp_entity_or_new st p) = snd (snd p)"
  by (cases p) (auto simp: pdcp_entity_or_new_def pdcp_map_def split: option.splits dest: view_SomeD)

text \<open>One side of one mode of an association.\<close>

lemma add_entity:
  assumes "pdcp_vars st a x = Some v" and "pdcp_wf st"
    and "LTENR_PDCP_FindEntity v g gi u ui m = None"
  defines "st' \<equiv> set_var a x (LTENR_PDCP_AddEntity v (new_pdcp_entity v g gi u ui m)) st"
  shows "pdcp_wf st'" and "same_config st st'"
    and "pdcp_map st' = (pdcp_map st)((a, x, (g, gi, u, ui, m)) \<mapsto> pdcp_entity_or_new st (a, x, (g, gi, u, ui, m)))"
proof -
  let ?n = "new_pdcp_entity v g gi u ui m" and ?k = "(g, gi, u, ui, m)"
  have none: "view pdcp_key (pdcpEntity v) ?k = None" using assms(3) by (simp add: view_find_pos FindEntity_key)
  then have d: "distinct (map pdcp_key (pdcpEntity v @ [?n]))"
    using pdcp_wfD [OF assms(2,1)] by (simp add: view_None_iff)
  have st': "st' = set_var a x (v\<lparr>pdcpEntity := pdcpEntity v @ [?n]\<rparr>) st"
    by (simp add: st'_def LTENR_PDCP_AddEntity_def)
  have "view pdcp_key (pdcpEntity v @ [?n]) = (view pdcp_key (pdcpEntity v))(?k \<mapsto> ?n)"
    using none by (auto simp: view_append fun_eq_iff map_add_def split: option.splits)
  note chain = set_chain [OF assms(1,2) d this]
  show "pdcp_wf st'" "same_config st st'" unfolding st' by (rule chain)+
  have new: "pdcp_entity_or_new st (a, x, ?k) = ?n"
    using none assms(1) by (simp add: pdcp_entity_or_new_def pdcp_map_vars)
  show "pdcp_map st' = (pdcp_map st)((a, x, ?k) \<mapsto> pdcp_entity_or_new st (a, x, ?k))"
    unfolding st' new
  proof
    fix p :: pdcp_place
    obtain b y k where p: "p = (b, y, k)" by (cases p)
    show "pdcp_map (set_var a x (v\<lparr>pdcpEntity := pdcpEntity v @ [?n]\<rparr>) st) p = ((pdcp_map st)((a, x, ?k) \<mapsto> ?n)) p"
      unfolding p chain(3) using pdcp_map_vars [OF assms(1)] by auto
  qed
qed

lemma new_pdcp_entity_config [simp]: "new_pdcp_entity (v\<lparr>pdcpEntity := es\<rparr>) = new_pdcp_entity v"
  by (simp add: new_pdcp_entity_def fun_eq_iff)

lemma entity_or_new_config:
  assumes "same_config st st'" and "pdcp_map st' (a, x, k) = pdcp_map st (a, x, k)" and "pdcp_vars st a x \<noteq> None"
  shows "pdcp_entity_or_new st' (a, x, k) = pdcp_entity_or_new st (a, x, k)"
proof -
  from assms(3) obtain v where "pdcp_vars st a x = Some v" by blast
  with same_config_var [OF assms(1) this] show ?thesis
    using assms(2) by (auto simp: pdcp_entity_or_new_def split: option.splits)
qed

definition find_or_add ::
  "pdcp_side \<Rightarrow> netsim_id \<times> netsim_id \<Rightarrow> pdcp_key \<Rightarrow> pdcp_state \<Rightarrow> pdcp_state result" where
  "find_or_add a x k st = (case k of (g, gi, u, ui, m) \<Rightarrow>
     rbind (deref (pdcp_vars st a x)) (\<lambda>v.
     if LTENR_PDCP_FindEntity v g gi u ui m = None
     then Inr (set_var a x (LTENR_PDCP_AddEntity v (new_pdcp_entity v g gi u ui m)) st) else Inr st))"

lemma pdcp_associate_sides:
  "pdcp_associate g gi u ui m st
     = rbind (find_or_add AtGnb (g, gi) (g, gi, u, ui, m) st) (find_or_add AtUe (u, ui) (g, gi, u, ui, m))"
  by (cases "gnb_pdcp st (g, gi)")
     (auto simp: pdcp_associate_def find_or_add_def pdcp_vars_def set_var_def new_pdcp_entity_def Let_def rbind_def
      LTENR_GNBPDCP_CreatePDCPEntityForUE_def LTENR_UEPDCP_CreatePDCPEntity_def split: option.splits sum.splits)

lemma find_or_add_map:
  assumes "pdcp_vars st a x \<noteq> None" and "pdcp_wf st"
  shows "\<exists>st'. find_or_add a x k st = Inr st' \<and> pdcp_wf st' \<and> same_config st st'
    \<and> pdcp_map st' = (pdcp_map st)((a, x, k) \<mapsto> pdcp_entity_or_new st (a, x, k))"
proof -
  obtain g gi u ui m where k: "k = (g, gi, u, ui, m)" by (cases k)
  from assms(1) obtain v where v: "pdcp_vars st a x = Some v" by blast
  show ?thesis
  proof (cases "LTENR_PDCP_FindEntity v g gi u ui m")
    case None
    from add_entity [OF v assms(2) None] show ?thesis by (simp add: find_or_add_def k v None)
  next
    case (Some j)
    then have "pdcp_map st (a, x, k) = Some (pdcpEntity v ! j)"
      by (simp add: pdcp_map_vars [OF v] view_find_pos FindEntity_key k)
    then have "pdcp_map st = (pdcp_map st)((a, x, k) \<mapsto> pdcp_entity_or_new st (a, x, k))"
      by (auto simp: pdcp_entity_or_new_def fun_eq_iff)
    then show ?thesis using assms(2) by (simp add: find_or_add_def k v Some)
  qed
qed

definition mode_places :: "netsim_id \<Rightarrow> netsim_id \<Rightarrow> netsim_id \<Rightarrow> netsim_id \<Rightarrow> LTENR_RLCMODE \<Rightarrow> pdcp_place set" where
  "mode_places g gi u ui m = {(AtGnb, (g, gi), (g, gi, u, ui, m)), (AtUe, (u, ui), (g, gi, u, ui, m))}"

definition vars_ready :: "pdcp_state \<Rightarrow> netsim_id \<Rightarrow> netsim_id \<Rightarrow> netsim_id \<Rightarrow> netsim_id \<Rightarrow> bool" where
  "vars_ready st g gi u ui \<longleftrightarrow> gnb_pdcp st (g, gi) \<noteq> None \<and> ue_pdcp st (u, ui) \<noteq> None \<and> pdcp_wf st"

lemma vars_ready_config:
  assumes "vars_ready st g gi u ui" and "same_config st st'" and "pdcp_wf st'"
  shows "vars_ready st' g gi u ui"
proof -
  from assms(1) obtain v w where "pdcp_vars st AtGnb (g, gi) = Some v" "pdcp_vars st AtUe (u, ui) = Some w"
    by (auto simp: vars_ready_def pdcp_vars_def)
  from this [THEN same_config_var [OF assms(2)]] assms(3) show ?thesis
    by (auto simp: vars_ready_def pdcp_vars_def)
qed

lemma associate_map:
  assumes "vars_ready st g gi u ui"
  shows "\<exists>st'. pdcp_associate g gi u ui m st = Inr st' \<and> pdcp_wf st' \<and> same_config st st'
    \<and> (\<forall>p. pdcp_map st' p = (if p \<in> mode_places g gi u ui m then Some (pdcp_entity_or_new st p) else pdcp_map st p))"
proof -
  let ?k = "(g, gi, u, ui, m)"
  let ?pg = "(AtGnb, (g, gi), ?k)" and ?pu = "(AtUe, (u, ui), ?k)"
  have vars: "pdcp_vars st AtGnb (g, gi) \<noteq> None" "pdcp_vars st AtUe (u, ui) \<noteq> None" "pdcp_wf st"
    using assms by (simp_all add: vars_ready_def pdcp_vars_def)
  from find_or_add_map [OF vars(1,3), of ?k] obtain st1
    where st1: "find_or_add AtGnb (g, gi) ?k st = Inr st1" "pdcp_wf st1" "same_config st st1"
      "pdcp_map st1 = (pdcp_map st)(?pg \<mapsto> pdcp_entity_or_new st ?pg)" by blast
  have "pdcp_vars st1 AtUe (u, ui) \<noteq> None" using same_config_var [OF st1(3)] vars(2) by force
  from find_or_add_map [OF this st1(2), of ?k] obtain st2
    where st2: "find_or_add AtUe (u, ui) ?k st1 = Inr st2" "pdcp_wf st2" "same_config st1 st2"
      "pdcp_map st2 = (pdcp_map st1)(?pu \<mapsto> pdcp_entity_or_new st1 ?pu)" by blast
  have "pdcp_entity_or_new st1 ?pu = pdcp_entity_or_new st ?pu"
    by (rule entity_or_new_config [OF st1(3) _ vars(2)]) (simp add: st1(4))
  then have "pdcp_map st2 p = (if p \<in> mode_places g gi u ui m then Some (pdcp_entity_or_new st p) else pdcp_map st p)" for p
    unfolding st2(4) st1(4) by (auto simp: mode_places_def)
  moreover have "pdcp_associate g gi u ui m st = Inr st2" by (simp add: pdcp_associate_sides st1(1) st2(1))
  ultimately show ?thesis using st2(2) same_config_trans [OF st1(3) st2(3)] by blast
qed

definition all_modes :: "LTENR_RLCMODE list" where
  "all_modes = [LTENR_RLCMODE_TM, LTENR_RLCMODE_UM, LTENR_RLCMODE_AM]"

lemma associate_modes:
  assumes "vars_ready st g gi u ui" and "distinct ms"
  shows "\<exists>st'. fold_result (pdcp_associate g gi u ui) ms st = Inr st' \<and> pdcp_wf st' \<and> same_config st st'
    \<and> (\<forall>p. pdcp_map st' p = (if p \<in> (\<Union>m \<in> set ms. mode_places g gi u ui m)
         then Some (pdcp_entity_or_new st p) else pdcp_map st p))"
  using assms
proof (induction ms arbitrary: st)
  case Nil
  then show ?case by (simp add: vars_ready_def)
next
  case (Cons m ms)
  from associate_map [OF Cons.prems(1), of m] obtain st1
    where st1: "pdcp_associate g gi u ui m st = Inr st1" "pdcp_wf st1" "same_config st st1"
      "\<And>p. pdcp_map st1 p = (if p \<in> mode_places g gi u ui m then Some (pdcp_entity_or_new st p) else pdcp_map st p)"
    by blast
  from Cons.IH [OF vars_ready_config [OF Cons.prems(1) st1(3,2)]] Cons.prems(2) obtain st2
    where st2: "fold_result (pdcp_associate g gi u ui) ms st1 = Inr st2" "pdcp_wf st2" "same_config st1 st2"
      "\<And>p. pdcp_map st2 p = (if p \<in> (\<Union>m \<in> set ms. mode_places g gi u ui m)
         then Some (pdcp_entity_or_new st1 p) else pdcp_map st1 p)" by auto
  have vars: "pdcp_vars st AtGnb (g, gi) \<noteq> None" "pdcp_vars st AtUe (u, ui) \<noteq> None"
    using Cons.prems(1) by (simp_all add: vars_ready_def pdcp_vars_def)
  have same: "pdcp_entity_or_new st1 p = pdcp_entity_or_new st p" if "p \<in> mode_places g gi u ui m'" "m' \<in> set ms" for p m'
  proof -
    have "m' \<noteq> m" using that(2) Cons.prems(2) by auto
    then have same: "pdcp_map st1 p = pdcp_map st p" using that(1) by (auto simp: st1(4) mode_places_def)
    have "p = (AtGnb, (g, gi), (g, gi, u, ui, m')) \<or> p = (AtUe, (u, ui), (g, gi, u, ui, m'))"
      using that(1) by (simp add: mode_places_def)
    then show ?thesis using entity_or_new_config [OF st1(3)] same vars by blast
  qed
  have "pdcp_map st2 p = (if p \<in> (\<Union>m \<in> set (m # ms). mode_places g gi u ui m)
         then Some (pdcp_entity_or_new st p) else pdcp_map st p)" for p
    using same [of p] st2(4) [of p] st1(4) [of p] by (cases "p \<in> (\<Union>m \<in> set ms. mode_places g gi u ui m)") auto
  with st1(1) st2(1,2) same_config_trans [OF st1(3) st2(3)] show ?case by auto
qed

text \<open>The calls when an entity is removed.\<close>

definition pdcp_released :: "LTENR_PDCPENTITY \<Rightarrow> pdcp_effect list" where
  "pdcp_released e = [StopTimer (discardTimerId e), StopTimer (t_ReorderingEventId e), WriteAfterFree, WriteAfterFree]"

lemma remove_entity:
  assumes "pdcp_vars st a x = Some v" and "pdcp_wf st" and "pdcp_map st (a, x, (g, gi, u, ui, m)) = Some e"
  shows "LTENR_PDCP_RemoveEntity v (LTENR_PDCP_FindEntity v g gi u ui m) s
    = (v\<lparr>pdcpEntity := filter (\<lambda>e. pdcp_key e \<notin> {(g, gi, u, ui, m)}) (pdcpEntity v)\<rparr>,
       s\<lparr>pv_trace := pv_trace s @ pdcp_released e\<rparr>)"
proof -
  have "view pdcp_key (pdcpEntity v) (g, gi, u, ui, m) = Some e" using assms(3) by (simp add: pdcp_map_vars [OF assms(1)])
  then obtain j where j: "find_pos (\<lambda>e. pdcp_key e = (g, gi, u, ui, m)) (pdcpEntity v) = Some j" and e: "pdcpEntity v ! j = e"
    by (auto simp: view_find_pos)
  have "remove_at j (pdcpEntity v) = filter (\<lambda>e. pdcp_key e \<noteq> (g, gi, u, ui, m)) (pdcpEntity v)"
    by (rule remove_at_find_pos [OF j pdcp_wfD [OF assms(2,1)]])
  then show ?thesis using find_pos_SomeD [OF j]
    by (simp add: LTENR_PDCP_RemoveEntity_def FindEntity_key j e LTENR_PDCP_FreeEntity_def out_def pdcp_released_def)
qed

lemma remove_side:
  assumes "pdcp_vars st a x = Some v" and "pdcp_wf st"
    and st': "st' = set_var a x (v\<lparr>pdcpEntity := filter (\<lambda>e. pdcp_key e \<notin> {k}) (pdcpEntity v)\<rparr>) st"
  shows "pdcp_wf st'" and "same_config st st'" and "pdcp_map st' = (pdcp_map st)((a, x, k) := None)"
proof -
  let ?es = "filter (\<lambda>e. pdcp_key e \<notin> {k}) (pdcpEntity v)"
  have d: "distinct (map pdcp_key ?es)" using pdcp_wfD [OF assms(2,1)] by (rule distinct_map_filter)
  note chain = set_chain [OF assms(1,2) d view_filter, folded st']
  show "pdcp_wf st'" "same_config st st'" by (rule chain)+
  show "pdcp_map st' = (pdcp_map st)((a, x, k) := None)"
  proof
    fix p :: pdcp_place
    obtain b y k' where p: "p = (b, y, k')" by (cases p)
    show "pdcp_map st' p = ((pdcp_map st)((a, x, k) := None)) p"
      unfolding p chain(3) using pdcp_map_vars [OF assms(1)] by (auto simp: restrict_map_def)
  qed
qed

lemma release_map:
  assumes "vars_ready st g gi u ui"
    and "pdcp_map st (AtGnb, (g, gi), (g, gi, u, ui, m)) = Some e" and "pdcp_map st (AtUe, (u, ui), (g, gi, u, ui, m)) = Some e'"
  shows "\<exists>st'. pdcp_release g gi u ui m (st, s) = Inr (st', s\<lparr>pv_trace := pv_trace s @ pdcp_released e @ pdcp_released e'\<rparr>)
    \<and> pdcp_wf st' \<and> same_config st st' \<and> pdcp_map st' = (pdcp_map st) |` (- mode_places g gi u ui m)"
proof -
  let ?k = "(g, gi, u, ui, m)"
  from assms(1) obtain v w where v: "pdcp_vars st AtGnb (g, gi) = Some v" and w: "pdcp_vars st AtUe (u, ui) = Some w"
    and wf: "pdcp_wf st" by (auto simp: vars_ready_def pdcp_vars_def)
  define st1 where "st1 = set_var AtGnb (g, gi) (v\<lparr>pdcpEntity := filter (\<lambda>e. pdcp_key e \<notin> {?k}) (pdcpEntity v)\<rparr>) st"
  note r1 = remove_side [OF v wf st1_def]
  have w1: "pdcp_vars st1 AtUe (u, ui) = Some w" using w by (simp add: st1_def)
  define st2 where "st2 = set_var AtUe (u, ui) (w\<lparr>pdcpEntity := filter (\<lambda>e. pdcp_key e \<notin> {?k}) (pdcpEntity w)\<rparr>) st1"
  note r2 = remove_side [OF w1 r1(1) st2_def]
  have e': "pdcp_map st1 (AtUe, (u, ui), ?k) = Some e'" using assms(3) by (simp add: r1(3))
  have "pdcp_release g gi u ui m (st, s) = Inr (st2, s\<lparr>pv_trace := pv_trace s @ pdcp_released e @ pdcp_released e'\<rparr>)"
    using v w1 unfolding pdcp_release_def
    by (simp add: pdcp_vars_def remove_entity [OF v wf assms(2)] remove_entity [OF w1 r1(1) e'] st1_def [symmetric]
        st2_def set_var_def [of AtUe] st1_def set_var_def [of AtGnb])
  moreover have "pdcp_map st2 = (pdcp_map st) |` (- mode_places g gi u ui m)"
    unfolding r2(3) r1(3) by (auto simp: fun_eq_iff mode_places_def restrict_map_def)
  ultimately show ?thesis using r2(1) same_config_trans [OF r1(2) r2(2)] by blast
qed

definition all_released :: "pdcp_state \<Rightarrow> netsim_id \<Rightarrow> netsim_id \<Rightarrow> netsim_id \<Rightarrow> netsim_id \<Rightarrow> LTENR_RLCMODE list \<Rightarrow> pdcp_effect list" where
  "all_released st g gi u ui ms = concat (map (\<lambda>m.
     pdcp_released (the (pdcp_map st (AtGnb, (g, gi), (g, gi, u, ui, m))))
     @ pdcp_released (the (pdcp_map st (AtUe, (u, ui), (g, gi, u, ui, m))))) ms)"

lemma release_modes:
  assumes "vars_ready st g gi u ui" and "distinct ms"
    and "\<forall>m \<in> set ms. \<forall>p \<in> mode_places g gi u ui m. pdcp_map st p \<noteq> None"
  shows "\<exists>st'. fold_result (pdcp_release g gi u ui) ms (st, s)
      = Inr (st', s\<lparr>pv_trace := pv_trace s @ all_released st g gi u ui ms\<rparr>)
    \<and> pdcp_wf st' \<and> same_config st st' \<and> pdcp_map st' = (pdcp_map st) |` (- (\<Union>m \<in> set ms. mode_places g gi u ui m))"
  using assms
proof (induction ms arbitrary: st s)
  case Nil
  then show ?case by (simp add: vars_ready_def all_released_def)
next
  case (Cons m ms)
  from Cons.prems(3) obtain e e' where e: "pdcp_map st (AtGnb, (g, gi), (g, gi, u, ui, m)) = Some e"
    and e': "pdcp_map st (AtUe, (u, ui), (g, gi, u, ui, m)) = Some e'" by (auto simp: mode_places_def)
  from release_map [OF Cons.prems(1) e e', of s] obtain st1
    where st1: "pdcp_release g gi u ui m (st, s) = Inr (st1, s\<lparr>pv_trace := pv_trace s @ pdcp_released e @ pdcp_released e'\<rparr>)"
      "pdcp_wf st1" "same_config st st1" "pdcp_map st1 = (pdcp_map st) |` (- mode_places g gi u ui m)" by blast
  have other: "pdcp_map st1 p = pdcp_map st p" if "m' \<in> set ms" "p \<in> mode_places g gi u ui m'" for m' p
    using that Cons.prems(2) by (auto simp: st1(4) restrict_map_def mode_places_def)
  then have "\<forall>m \<in> set ms. \<forall>p \<in> mode_places g gi u ui m. pdcp_map st1 p \<noteq> None"
    using Cons.prems(3) by simp
  from Cons.IH [OF vars_ready_config [OF Cons.prems(1) st1(3,2)] _ this,
      of "s\<lparr>pv_trace := pv_trace s @ pdcp_released e @ pdcp_released e'\<rparr>"] Cons.prems(2) obtain st2
    where st2: "fold_result (pdcp_release g gi u ui) ms (st1, s\<lparr>pv_trace := pv_trace s @ pdcp_released e @ pdcp_released e'\<rparr>)
        = Inr (st2, s\<lparr>pv_trace := (pv_trace s @ pdcp_released e @ pdcp_released e') @ all_released st1 g gi u ui ms\<rparr>)"
      "pdcp_wf st2" "same_config st1 st2"
      "pdcp_map st2 = (pdcp_map st1) |` (- (\<Union>m \<in> set ms. mode_places g gi u ui m))"
    by auto
  have "all_released st1 g gi u ui ms = all_released st g gi u ui ms"
    using other unfolding all_released_def by (intro arg_cong [of _ _ concat] map_cong) (simp_all add: mode_places_def)
  then have "all_released st g gi u ui (m # ms) = pdcp_released e @ pdcp_released e' @ all_released st1 g gi u ui ms"
    by (simp add: all_released_def e e')
  moreover have "pdcp_map st2 = (pdcp_map st) |` (- (\<Union>m \<in> set (m # ms). mode_places g gi u ui m))"
    unfolding st2(4) st1(4) by (simp add: Int_commute)
  ultimately show ?case using st1(1) st2(1,2) same_config_trans [OF st1(3) st2(3)] by simp
qed

section \<open>The transfer of the PDCP buffers\<close>

definition ref_of :: "pdcp_side \<Rightarrow> netsim_id \<times> netsim_id \<Rightarrow> nat \<Rightarrow> pdcp_ref" where
  "ref_of a x j = (case a of AtGnb \<Rightarrow> GnbEntity (fst x) (snd x) j | AtUe \<Rightarrow> UeEntity (fst x) (snd x) j)"

definition pdcp_at :: "pdcp_state \<Rightarrow> pdcp_place \<Rightarrow> pdcp_ref option" where
  "pdcp_at st p = (case p of (a, x, k) \<Rightarrow> (case pdcp_vars st a x of None \<Rightarrow> None
     | Some v \<Rightarrow> map_option (ref_of a x) (find_pos (\<lambda>e. pdcp_key e = k) (pdcpEntity v))))"

lemma ref_of_simps [simp]:
  "pdcp_var_of st (ref_of a x j) = pdcp_vars st a x" "pdcp_pos (ref_of a x j) = j"
  "pdcp_var_put (ref_of a x j) v st = set_var a x v st"
  by (cases a; cases x; simp add: ref_of_def pdcp_vars_def set_var_def)+

lemma pdcp_at_load:
  assumes "pdcp_map st p = Some e"
  shows "\<exists>r. pdcp_at st p = Some r \<and> pdcp_load st r = Inr e"
  using assms by (cases p) (auto simp: pdcp_map_def pdcp_at_def view_find_pos pdcp_load_def split: option.splits)

text \<open>The keys of the chain of an interface; a write under its key leaves them.\<close>

definition chain_keys :: "pdcp_state \<Rightarrow> pdcp_side \<Rightarrow> netsim_id \<times> netsim_id \<Rightarrow> pdcp_key list option" where
  "chain_keys st a x = map_option (\<lambda>v. map pdcp_key (pdcpEntity v)) (pdcp_vars st a x)"

lemma chain_keys_at:
  assumes "chain_keys st' = chain_keys st"
  shows "pdcp_at st' p = pdcp_at st p"
proof -
  obtain a x k where p: "p = (a, x, k)" by (cases p)
  have "chain_keys st' a x = chain_keys st a x" by (simp add: assms)
  then show ?thesis
    by (cases "pdcp_vars st a x"; cases "pdcp_vars st' a x")
      (simp_all add: p chain_keys_def pdcp_at_def find_pos_map [of pdcp_key])
qed

lemma pdcp_at_store:
  assumes "pdcp_at st p = Some r" and "pdcp_wf st" and "pdcp_key e = snd (snd p)"
  shows "\<exists>st'. pdcp_store r e st = Inr st' \<and> pdcp_wf st' \<and> same_config st st'
    \<and> pdcp_map st' = (pdcp_map st)(p \<mapsto> e) \<and> chain_keys st' = chain_keys st"
proof -
  obtain a x k where p: "p = (a, x, k)" by (cases p)
  from assms(1) obtain v j where v: "pdcp_vars st a x = Some v" and r: "r = ref_of a x j"
    and j: "find_pos (\<lambda>e. pdcp_key e = k) (pdcpEntity v) = Some j"
    by (auto simp: pdcp_at_def p split: option.splits)
  let ?es = "(pdcpEntity v)[j := e]"
  have key: "pdcp_key (pdcpEntity v ! j) = pdcp_key e" "pdcp_key e = k"
    using find_pos_SomeD [OF j] assms(3) by (simp_all add: p)
  then have keys: "map pdcp_key ?es = map pdcp_key (pdcpEntity v)"
    using find_pos_SomeD [OF j] by (metis list_update_id map_update)
  then have d: "distinct (map pdcp_key ?es)" using pdcp_wfD [OF assms(2) v] by simp
  note chain = set_chain [OF v assms(2) d view_update [OF j key(2)]]
  let ?st = "set_var a x (v\<lparr>pdcpEntity := ?es\<rparr>) st"
  have "chain_keys ?st = chain_keys st" using v keys by (auto simp: chain_keys_def fun_eq_iff)
  moreover have "pdcp_map ?st q = ((pdcp_map st)(p \<mapsto> e)) q" for q
    using pdcp_map_vars [OF v] by (cases q) (auto simp: chain(3) p)
  moreover have "pdcp_store r e st = Inr ?st" by (simp add: pdcp_store_def r v)
  ultimately show ?thesis using chain(1,2) by blast
qed

lemma transfer_keys [simp]:
  "pdcp_key (pdcp_take_over flag s e) = pdcp_key e" "pdcp_key (pdcp_bereft e) = pdcp_key e"
  by (simp_all add: pdcp_key_def pdcp_take_over_def pdcp_bereft_def)

lemma pdcp_map_key: "pdcp_map st p = Some e \<Longrightarrow> pdcp_key e = snd (snd p)"
  by (cases p) (auto simp: pdcp_map_def dest: view_SomeD split: option.splits)

lemma pdcp_transfer_one:
  assumes "pdcp_map st ps = Some s" and "pdcp_map st pt = Some t" and "ps \<noteq> pt" and "\<not> pe_noBuffers s" and "pdcp_wf st"
  shows "\<exists>st'. fn_NetSim_LTENR_NAS_PDCP_BUFFER_TRANSFER (pdcp_at st ps) (pdcp_at st pt) flag st = Inr st'
    \<and> pdcp_wf st' \<and> same_config st st'
    \<and> pdcp_map st' = (pdcp_map st)(pt \<mapsto> pdcp_take_over flag s t, ps \<mapsto> pdcp_bereft s)
    \<and> chain_keys st' = chain_keys st"
proof -
  from pdcp_at_load [OF assms(1)] pdcp_at_load [OF assms(2)] obtain rs rt
    where rs: "pdcp_at st ps = Some rs" "pdcp_load st rs = Inr s"
      and rt: "pdcp_at st pt = Some rt" "pdcp_load st rt = Inr t" by blast
  have kt: "pdcp_key (pdcp_take_over flag s t) = snd (snd pt)" and ks: "pdcp_key (pdcp_bereft s) = snd (snd ps)"
    using pdcp_map_key [OF assms(1)] pdcp_map_key [OF assms(2)] by simp_all
  from pdcp_at_store [OF rt(1) assms(5) kt] obtain st1
    where st1: "pdcp_store rt (pdcp_take_over flag s t) st = Inr st1" "pdcp_wf st1" "same_config st st1"
      "pdcp_map st1 = (pdcp_map st)(pt \<mapsto> pdcp_take_over flag s t)" "chain_keys st1 = chain_keys st" by blast
  have "pdcp_map st1 ps = Some s" using assms(1,3) by (simp add: st1(4))
  from pdcp_at_load [OF this] rs(1) chain_keys_at [OF st1(5)] have load1: "pdcp_load st1 rs = Inr s" by simp
  have "pdcp_at st1 ps = Some rs" using rs(1) chain_keys_at [OF st1(5)] by simp
  from pdcp_at_store [OF this st1(2) ks] obtain st2
    where st2: "pdcp_store rs (pdcp_bereft s) st1 = Inr st2" "pdcp_wf st2" "same_config st1 st2"
      "pdcp_map st2 = (pdcp_map st1)(ps \<mapsto> pdcp_bereft s)" "chain_keys st2 = chain_keys st1" by blast
  have "fn_NetSim_LTENR_NAS_PDCP_BUFFER_TRANSFER (pdcp_at st ps) (pdcp_at st pt) flag st = Inr st2"
    using assms(4) by (simp add: fn_NetSim_LTENR_NAS_PDCP_BUFFER_TRANSFER_def rs rt st1(1) load1 st2(1))
  then show ?thesis using st2(2,4,5) st1(4,5) same_config_trans [OF st1(3) st2(3)] by metis
qed

text \<open>The entity of one side for a cell and a UE.\<close>

definition place_of :: "netsim_id \<Rightarrow> netsim_id \<Rightarrow> netsim_id \<Rightarrow> netsim_id \<Rightarrow> pdcp_side \<times> LTENR_RLCMODE \<Rightarrow> pdcp_place" where
  "place_of g gi u ui j = (case j of (a, m) \<Rightarrow> (a, (case a of AtGnb \<Rightarrow> (g, gi) | AtUe \<Rightarrow> (u, ui)), (g, gi, u, ui, m)))"

definition side_flag :: "pdcp_side \<Rightarrow> int" where
  "side_flag a = (case a of AtGnb \<Rightarrow> 0 | AtUe \<Rightarrow> 1)"

definition side_transfer ::
  "netsim_id \<Rightarrow> netsim_id \<Rightarrow> netsim_id \<Rightarrow> netsim_id \<Rightarrow> netsim_id \<Rightarrow> netsim_id \<Rightarrow> pdcp_side \<times> LTENR_RLCMODE
     \<Rightarrow> pdcp_state \<Rightarrow> pdcp_state result" where
  "side_transfer d i r rin t tin j st = (case j of
     (AtGnb, m) \<Rightarrow> pdcp_gnb_transfer d i r rin t tin m m st | (AtUe, m) \<Rightarrow> pdcp_ue_transfer d i r rin t tin m st)"

definition all_sides :: "(pdcp_side \<times> LTENR_RLCMODE) list" where
  "all_sides = map (Pair AtGnb) all_modes @ map (Pair AtUe) all_modes"

lemma pdcp_transfers_sides: "pdcp_transfers d i r rin t tin = fold_result (side_transfer d i r rin t tin) all_sides"
  by (simp add: fun_eq_iff pdcp_transfers_def all_sides_def all_modes_def side_transfer_def
      fold_result_steps del: fold_result.simps)

lemma place_of_inj: "inj (place_of g gi u ui)"
  by (auto simp: inj_def place_of_def)

lemma place_of_ne: "(g, gi) \<noteq> (g', gi') \<Longrightarrow> place_of g gi u ui j \<noteq> place_of g' gi' u ui j'"
  by (auto simp: place_of_def split: prod.splits)

lemma transfer_places:
  assumes "pdcp_map st (place_of d i r rin (a, m)) \<noteq> None" and "pdcp_map st (place_of t tin r rin (a, m')) \<noteq> None"
  shows "a = AtGnb \<Longrightarrow> pdcp_gnb_transfer d i r rin t tin m m' st = fn_NetSim_LTENR_NAS_PDCP_BUFFER_TRANSFER
      (pdcp_at st (place_of d i r rin (a, m))) (pdcp_at st (place_of t tin r rin (a, m'))) 0 st"
    and "a = AtUe \<Longrightarrow> m' = m \<Longrightarrow> pdcp_ue_transfer d i r rin t tin m st = fn_NetSim_LTENR_NAS_PDCP_BUFFER_TRANSFER
      (pdcp_at st (place_of d i r rin (a, m))) (pdcp_at st (place_of t tin r rin (a, m))) 1 st"
proof -
  have "GnbEntity g gi = ref_of AtGnb (g, gi)" "UeEntity g gi = ref_of AtUe (g, gi)" for g gi
    by (simp_all add: ref_of_def fun_eq_iff)
  then show "a = AtGnb \<Longrightarrow> pdcp_gnb_transfer d i r rin t tin m m' st = fn_NetSim_LTENR_NAS_PDCP_BUFFER_TRANSFER
      (pdcp_at st (place_of d i r rin (a, m))) (pdcp_at st (place_of t tin r rin (a, m'))) 0 st"
    and "a = AtUe \<Longrightarrow> m' = m \<Longrightarrow> pdcp_ue_transfer d i r rin t tin m st = fn_NetSim_LTENR_NAS_PDCP_BUFFER_TRANSFER
      (pdcp_at st (place_of d i r rin (a, m))) (pdcp_at st (place_of t tin r rin (a, m))) 1 st"
    using assms by (auto simp: place_of_def pdcp_map_def pdcp_at_def pdcp_vars_def pdcp_gnb_transfer_def
        pdcp_ue_transfer_def FindEntity_key split: option.splits)
qed

lemma side_transfer_places:
  assumes "pdcp_map st (place_of d i r rin j) \<noteq> None" and "pdcp_map st (place_of t tin r rin j) \<noteq> None"
  shows "side_transfer d i r rin t tin j st = fn_NetSim_LTENR_NAS_PDCP_BUFFER_TRANSFER
    (pdcp_at st (place_of d i r rin j)) (pdcp_at st (place_of t tin r rin j)) (side_flag (fst j)) st"
  using transfer_places [of st d i r rin "fst j" "snd j" t tin "snd j"] assms
  by (cases j; cases "fst j") (simp_all add: side_transfer_def side_flag_def)

lemma side_transfer_map:
  assumes "pdcp_map st (place_of d i r rin j) = Some s" and "\<not> pe_noBuffers s"
    and "pdcp_map st (place_of t tin r rin j) = Some e" and "(d, i) \<noteq> (t, tin)" and "pdcp_wf st"
  shows "\<exists>st'. side_transfer d i r rin t tin j st = Inr st' \<and> pdcp_wf st' \<and> same_config st st'
    \<and> pdcp_map st' = (pdcp_map st)(place_of t tin r rin j \<mapsto> pdcp_take_over (side_flag (fst j)) s e,
        place_of d i r rin j \<mapsto> pdcp_bereft s)"
  using pdcp_transfer_one [OF assms(1,3) place_of_ne [OF assms(4)] assms(2,5), of "side_flag (fst j)"] assms
  by (simp add: side_transfer_places) blast

text \<open>All six transfers.\<close>

lemma sides_transfer_map:
  assumes "\<forall>j \<in> set js. \<exists>s e. pdcp_map st (place_of d i r rin j) = Some s \<and> \<not> pe_noBuffers s
      \<and> pdcp_map st (place_of t tin r rin j) = Some e"
    and "distinct js" and "(d, i) \<noteq> (t, tin)" and "pdcp_wf st"
  shows "\<exists>st'. fold_result (side_transfer d i r rin t tin) js st = Inr st' \<and> pdcp_wf st' \<and> same_config st st'
    \<and> (\<forall>j \<in> set js. pdcp_map st' (place_of d i r rin j) = map_option pdcp_bereft (pdcp_map st (place_of d i r rin j))
        \<and> pdcp_map st' (place_of t tin r rin j) = Some (pdcp_take_over (side_flag (fst j))
             (the (pdcp_map st (place_of d i r rin j))) (the (pdcp_map st (place_of t tin r rin j)))))
    \<and> (\<forall>p. p \<notin> place_of d i r rin ` set js \<union> place_of t tin r rin ` set js \<longrightarrow> pdcp_map st' p = pdcp_map st p)"
  using assms
proof (induction js arbitrary: st)
  case (Cons j js)
  let ?S = "place_of d i r rin" and ?T = "place_of t tin r rin"
  from Cons.prems(1) obtain s e where s: "pdcp_map st (?S j) = Some s" "\<not> pe_noBuffers s" and e: "pdcp_map st (?T j) = Some e"
    by auto
  from side_transfer_map [OF s e Cons.prems(3,4)] obtain st1
    where st1: "side_transfer d i r rin t tin j st = Inr st1" "pdcp_wf st1" "same_config st st1"
      "pdcp_map st1 = (pdcp_map st)(?T j \<mapsto> pdcp_take_over (side_flag (fst j)) s e, ?S j \<mapsto> pdcp_bereft s)" by blast
  have ne: "?S j1 \<noteq> ?T j2" for j1 j2 using place_of_ne [OF Cons.prems(3)] .
  have inj: "(?S j1 = ?S j2) = (j1 = j2)" "(?T j1 = ?T j2) = (j1 = j2)" for j1 j2
    using place_of_inj by (simp_all add: inj_eq)
  have other: "pdcp_map st1 (?S j') = pdcp_map st (?S j')" "pdcp_map st1 (?T j') = pdcp_map st (?T j')" if "j' \<in> set js" for j'
    using that Cons.prems(2) by (auto simp: st1(4) inj ne ne [symmetric])
  have "\<forall>j \<in> set js. \<exists>s e. pdcp_map st1 (?S j) = Some s \<and> \<not> pe_noBuffers s \<and> pdcp_map st1 (?T j) = Some e"
    using Cons.prems(1) other by simp
  from Cons.IH [OF this _ Cons.prems(3) st1(2)] Cons.prems(2) obtain st2
    where st2: "fold_result (side_transfer d i r rin t tin) js st1 = Inr st2" "pdcp_wf st2" "same_config st1 st2"
      and mv: "\<forall>j \<in> set js. pdcp_map st2 (?S j) = map_option pdcp_bereft (pdcp_map st1 (?S j))
        \<and> pdcp_map st2 (?T j) = Some (pdcp_take_over (side_flag (fst j)) (the (pdcp_map st1 (?S j))) (the (pdcp_map st1 (?T j))))"
      and rest: "\<And>p. p \<notin> ?S ` set js \<union> ?T ` set js \<Longrightarrow> pdcp_map st2 p = pdcp_map st1 p" by auto
  have j: "pdcp_map st2 (?S j) = Some (pdcp_bereft s)" "pdcp_map st2 (?T j) = Some (pdcp_take_over (side_flag (fst j)) s e)"
    using Cons.prems(2) rest [of "?S j"] rest [of "?T j"] by (auto simp: st1(4) inj ne ne [symmetric] image_iff)
  have "pdcp_map st2 p = pdcp_map st p" if "p \<notin> ?S ` set (j # js) \<union> ?T ` set (j # js)" for p
    using that rest [of p] by (simp add: st1(4))
  moreover have "\<forall>j \<in> set (j # js). pdcp_map st2 (?S j) = map_option pdcp_bereft (pdcp_map st (?S j))
        \<and> pdcp_map st2 (?T j) = Some (pdcp_take_over (side_flag (fst j)) (the (pdcp_map st (?S j))) (the (pdcp_map st (?T j))))"
    using mv other by (simp add: j s e)
  ultimately show ?case using st1(1) st2(1,2) same_config_trans [OF st1(3) st2(3)] by simp
qed simp

section \<open>The handover of the PDCP entities\<close>

lemma pdcp_association_modes:
  assumes "gnb_pdcp st (g, gi) \<noteq> None" and "ue_pdcp st (u, ui) \<noteq> None"
  shows "LTENR_PDCP_ASSOCIATION g gi u ui True st s
      = rbind (fold_result (pdcp_associate g gi u ui) all_modes st) (\<lambda>st'. Inr (st', s))"
    and "LTENR_PDCP_ASSOCIATION g gi u ui False st s = fold_result (pdcp_release g gi u ui) all_modes (st, s)"
  using assms by (auto simp: LTENR_PDCP_ASSOCIATION_def all_modes_def fold_result_steps rbind_assoc simp del: fold_result.simps)

definition pdcp_places :: "netsim_id \<Rightarrow> netsim_id \<Rightarrow> netsim_id \<Rightarrow> netsim_id \<Rightarrow> pdcp_place set" where
  "pdcp_places g gi u ui = place_of g gi u ui ` set all_sides"

lemma pdcp_places_modes: "(\<Union>m \<in> set all_modes. mode_places g gi u ui m) = pdcp_places g gi u ui"
  by (auto simp: pdcp_places_def all_sides_def all_modes_def mode_places_def place_of_def)

text \<open>
  The entities of the UE \<open>(r, rin)\<close> and the cell \<open>(d, i)\<close>, at both, became those of the UE and the
  cell \<open>(t, tin)\<close>, with the buffers, the counters and the receive window. The timers of the old
  entities are cancelled.
\<close>

definition pdcp_handed_over ::
  "netsim_id \<Rightarrow> netsim_id \<Rightarrow> netsim_id \<Rightarrow> netsim_id \<Rightarrow> netsim_id \<Rightarrow> netsim_id \<Rightarrow> pdcp_state \<Rightarrow> pdcp_state \<Rightarrow> bool" where
  "pdcp_handed_over d i r rin t tin st st' \<longleftrightarrow>
     (\<forall>j \<in> set all_sides. \<exists>ser. pdcp_map st (place_of d i r rin j) = Some ser
        \<and> pdcp_map st' (place_of t tin r rin j)
            = Some (pdcp_take_over (side_flag (fst j)) ser (pdcp_entity_or_new st (place_of t tin r rin j))))
     \<and> (\<forall>p \<in> pdcp_places d i r rin. pdcp_map st' p = None)
     \<and> (\<forall>p. p \<notin> pdcp_places d i r rin \<union> pdcp_places t tin r rin \<longrightarrow> pdcp_map st' p = pdcp_map st p)"

lemma released_bereft [simp]: "pdcp_released (pdcp_bereft e) = pdcp_released e"
  by (simp add: pdcp_released_def pdcp_bereft_def)

lemma rrc_update_map [simp]:
  "pdcp_vars (st\<lparr>ue_rrc := q\<rparr>) = pdcp_vars st" "pdcp_map (st\<lparr>ue_rrc := q\<rparr>) = pdcp_map st"
  "pdcp_wf (st\<lparr>ue_rrc := q\<rparr>) = pdcp_wf st" "vars_ready (st\<lparr>ue_rrc := q\<rparr>) g gi u ui = vars_ready st g gi u ui"
  by (auto simp: pdcp_vars_def pdcp_map_def pdcp_wf_def vars_ready_def fun_eq_iff split: pdcp_side.splits)

lemma pdcp_handover:
  assumes ready: "vars_ready st d i r rin" "vars_ready st t tin r rin" and ne: "(d, i) \<noteq> (t, tin)"
    and there: "\<forall>p \<in> pdcp_places d i r rin. \<exists>e. pdcp_map st p = Some e \<and> \<not> pe_noBuffers e"
  shows "\<exists>st1 st2. LTENR_PDCP_ASSOCIATION t tin r rin True st s = Inr (st1, s) \<and> same_config st st1
    \<and> pdcp_transfers d i r rin t tin st1 = Inr st2 \<and> same_config st st2
    \<and> (\<forall>q s. \<exists>st3. LTENR_PDCP_ASSOCIATION d i r rin False (st2\<lparr>ue_rrc := q\<rparr>) s
           = Inr (st3, s\<lparr>pv_trace := pv_trace s @ all_released st d i r rin all_modes\<rparr>)
        \<and> same_config (st2\<lparr>ue_rrc := q\<rparr>) st3 \<and> pdcp_handed_over d i r rin t tin st st3)"
proof -
  let ?S = "place_of d i r rin" and ?T = "place_of t tin r rin"
  have modes: "distinct all_modes" "distinct all_sides" by (simp_all add: all_modes_def all_sides_def)
  have var: "gnb_pdcp st (g, gi) \<noteq> None" "ue_pdcp st (u, ui) \<noteq> None" if "vars_ready st g gi u ui" for st g gi u ui
    using that by (simp_all add: vars_ready_def)
  from associate_modes [OF ready(2) modes(1)] obtain st1
    where run1: "fold_result (pdcp_associate t tin r rin) all_modes st = Inr st1" and wf1: "pdcp_wf st1" and c1: "same_config st st1"
      and m1: "\<And>p. pdcp_map st1 p = (if p \<in> pdcp_places t tin r rin then Some (pdcp_entity_or_new st p) else pdcp_map st p)"
    unfolding pdcp_places_modes by blast
  have S1: "pdcp_map st1 (?S j) = pdcp_map st (?S j)" for j
    using place_of_ne [OF ne, of r rin j] by (simp add: m1 pdcp_places_def image_iff)
  have T1: "pdcp_map st1 (?T j) = Some (pdcp_entity_or_new st (?T j))" if "j \<in> set all_sides" for j
    using that by (simp add: m1 pdcp_places_def)
  have "\<forall>j \<in> set all_sides. \<exists>s e. pdcp_map st1 (?S j) = Some s \<and> \<not> pe_noBuffers s \<and> pdcp_map st1 (?T j) = Some e"
    using there by (simp add: S1 T1 pdcp_places_def)
  from sides_transfer_map [OF this modes(2) ne wf1] obtain st2
    where run2: "pdcp_transfers d i r rin t tin st1 = Inr st2" and wf2: "pdcp_wf st2" and c2: "same_config st1 st2"
      and m2: "\<forall>j \<in> set all_sides. pdcp_map st2 (?S j) = map_option pdcp_bereft (pdcp_map st1 (?S j))
        \<and> pdcp_map st2 (?T j) = Some (pdcp_take_over (side_flag (fst j)) (the (pdcp_map st1 (?S j))) (the (pdcp_map st1 (?T j))))"
      and o2: "\<And>p. p \<notin> pdcp_places d i r rin \<union> pdcp_places t tin r rin \<Longrightarrow> pdcp_map st2 p = pdcp_map st1 p"
    unfolding pdcp_transfers_sides pdcp_places_def by blast
  have S2: "pdcp_map st2 p = map_option pdcp_bereft (pdcp_map st p)" if "p \<in> pdcp_places d i r rin" for p
    using that m2 by (auto simp: S1 pdcp_places_def)
  note c = same_config_trans [OF c1 c2]
  have "\<exists>st3. LTENR_PDCP_ASSOCIATION d i r rin False (st2\<lparr>ue_rrc := q\<rparr>) s
           = Inr (st3, s\<lparr>pv_trace := pv_trace s @ all_released st d i r rin all_modes\<rparr>)
        \<and> same_config (st2\<lparr>ue_rrc := q\<rparr>) st3 \<and> pdcp_handed_over d i r rin t tin st st3" for q s
  proof -
    have r2: "vars_ready (st2\<lparr>ue_rrc := q\<rparr>) d i r rin" using vars_ready_config [OF ready(1) c wf2] by simp
    have "\<forall>m \<in> set all_modes. \<forall>p \<in> mode_places d i r rin m. pdcp_map (st2\<lparr>ue_rrc := q\<rparr>) p \<noteq> None"
    proof (intro ballI)
      fix m p assume "m \<in> set all_modes" "p \<in> mode_places d i r rin m"
      then have "p \<in> pdcp_places d i r rin" using pdcp_places_modes [of d i r rin] by blast
      then show "pdcp_map (st2\<lparr>ue_rrc := q\<rparr>) p \<noteq> None" using there S2 by fastforce
    qed
    from release_modes [OF r2 modes(1) this, of s] obtain st3
      where run3: "fold_result (pdcp_release d i r rin) all_modes (st2\<lparr>ue_rrc := q\<rparr>, s)
          = Inr (st3, s\<lparr>pv_trace := pv_trace s @ all_released (st2\<lparr>ue_rrc := q\<rparr>) d i r rin all_modes\<rparr>)"
        and c3: "same_config (st2\<lparr>ue_rrc := q\<rparr>) st3"
        and m3: "pdcp_map st3 = pdcp_map st2 |` (- pdcp_places d i r rin)"
      unfolding pdcp_places_modes by auto
    have rel: "pdcp_released (the (pdcp_map st2 (?S j))) = pdcp_released (the (pdcp_map st (?S j)))" if "j \<in> set all_sides" for j
      using there S2 that by (fastforce simp: pdcp_places_def)
    have "all_released (st2\<lparr>ue_rrc := q\<rparr>) d i r rin all_modes = all_released st d i r rin all_modes"
      using rel [of "(AtGnb, _)"] rel [of "(AtUe, _)"] unfolding all_released_def
      by (intro arg_cong [of _ _ concat] map_cong) (simp_all add: all_sides_def place_of_def)
    moreover have "pdcp_map st3 (?T j) = Some (pdcp_take_over (side_flag (fst j)) (the (pdcp_map st (?S j)))
        (pdcp_entity_or_new st (?T j)))" if "j \<in> set all_sides" for j
      using bspec [OF m2 that] place_of_ne [OF ne [symmetric], of r rin j]
      by (simp add: m3 restrict_map_def pdcp_places_def image_iff S1 T1 [OF that])
    then have "pdcp_handed_over d i r rin t tin st st3"
      using there o2 unfolding pdcp_handed_over_def by (fastforce simp: m3 m1 pdcp_places_def)
    ultimately show ?thesis using ready c3 run3 by (auto simp: pdcp_association_modes [OF var [OF r2]])
  qed
  then show ?thesis using run1 run2 c1 c by (auto simp: pdcp_association_modes [OF var [OF ready(2)]])
qed

section \<open>The life of an entity\<close>

text \<open>
  The states of an entity and of the events of its device: from association, through steps, until a
  handover, when a new entity takes over what it holds and goes on. A device that has not started a
  reordering timer yet is the start.
\<close>

inductive pdcp_life :: "pdcp_env \<Rightarrow> bool \<Rightarrow> LTENR_PDCPENTITY \<times> PDCP_EVENT \<Rightarrow> bool" for P where
  associated: "no_reordering (pv_trace s) \<Longrightarrow> pdcp_life P False (new_pdcp_entity v g gi u ui m, s)"
| goes_on: "pdcp_life P h x \<Longrightarrow> pdcp_step P x y \<Longrightarrow> pdcp_life P h y"
| handed: "pdcp_life P h (ser, s) \<Longrightarrow> pdcp_life P True (pdcp_take_over flag ser (new_pdcp_entity v g gi u ui m), s)"

lemma life_inv:
  assumes "pdcp_environment P" and "pdcp_life P h x"
  shows "pdcp_inv h x"
  using assms(2)
proof (induction rule: pdcp_life.induct)
  case (associated s v g gi u ui m)
  then show ?case by (simp add: pdcp_inv_def nothing_waits_def new_pdcp_entity_def LTENR_PDCP_CreateNewEntity_def)
next
  case (goes_on h x y)
  then show ?case using pdcp_environment.step_keeps_inv [OF assms(1)] by blast
next
  case (handed h ser s flag v g gi u ui m)
  then show ?case
    by (simp add: pdcp_inv_def nothing_waits_def pdcp_take_over_def new_pdcp_entity_def LTENR_PDCP_CreateNewEntity_def)
qed

text \<open>
  C21. An entity from its association on, with whatever discard time and reordering time it is
  configured, and through handovers that move what it holds to the entity association has made at
  the target: no received SDU ever waits in it, \<open>RX_REORD\<close> stays 0 and no reordering timer is ever
  started. When its discard timer runs, SDUs wait, and the handler returns when it fires. Until the
  first handover the converse holds too: while SDUs wait the timer runs.
\<close>

theorem pdcp_run_invariant:
  assumes "pdcp_environment P" and "pdcp_life P h (e, s)"
  shows "pe_receiveBuffer e = [] \<and> RX_REORD e = 0 \<and> \<not> isT_ReorderingRunning e
    \<and> (\<forall>ev tid. StartTimer ev tid \<in> set (pv_trace s) \<longrightarrow> pt_subevent ev \<noteq> LTENR_SUBEVENT_PDCP_TREORDERINGTIMER)
    \<and> (isDiscardTimerStarted e \<longrightarrow> pe_transmissionBuffer e \<noteq> [] \<and> (\<exists>y. LTENR_PDCP_HANDLE_DISCARD_TIMER P e s = Inr y))
    \<and> (\<not> h \<and> pe_transmissionBuffer e \<noteq> [] \<longrightarrow> isDiscardTimerStarted e)"
proof -
  have inv: "pdcp_inv h (e, s)" by (rule life_inv [OF assms])
  then have "isDiscardTimerStarted e \<Longrightarrow> \<exists>y. LTENR_PDCP_HANDLE_DISCARD_TIMER P e s = Inr y"
    using pdcp_environment.HANDLE_DISCARD [OF assms(1), of e s] by (auto simp: pdcp_inv_def)
  then show ?thesis
    using inv by (auto simp: pdcp_inv_def nothing_waits_def no_reordering_def)
qed

text \<open>A PDU with a gap before it comes in, and then the UE is handed over.\<close>

definition ex_life_var :: LTENR_PDCPVAR where
  "ex_life_var = \<lparr>isoutOfOrderDelivery = False, isHdrCompression = False, discardDelayTimer = 100, pv_t_Reordering = 50,
     TotalPDSCHBytes = 0, TotalPUSCHBytes = 0, pdcpEntity = []\<rparr>"

theorem pdcp_run_invariant_witness:
  "\<exists>e s. pdcp_life plain_pdcp_env True (e, s) \<and> RX_DELIV e = count_of 9 \<and> discardDelayTime e = 100 * MILLISECOND
    \<and> pe_receiveBuffer e = [] \<and> RX_REORD e = 0"
proof -
  let ?e = "new_pdcp_entity ex_life_var 1 1 2 1 LTENR_RLCMODE_UM" and ?k = "(9, PDCP_Props.ex_sdu 9)"
  let ?s = "goes_up plain_pdcp_env (pdu plain_pdcp_env ?k) PDCP_Props.ex_event"
  let ?ser = "received_at (count_of 9) ?e"
  have r: "pdcp_receive plain_pdcp_env False ?e (pdu plain_pdcp_env ?k) PDCP_Props.ex_event = Inr (?ser, ?s)"
    using plain_pdcp.receive_pdu [of ?k ?e 0 False PDCP_Props.ex_event] plain_pdcp.count_of_le [of 0 9]
    by (simp add: nothing_waits_def new_pdcp_entity_def LTENR_PDCP_CreateNewEntity_def max_sdus_def)
  have a: "pdcp_life plain_pdcp_env False (?e, PDCP_Props.ex_event)"
    by (rule pdcp_life.associated) (simp add: PDCP_Props.ex_event_def)
  have "pdcp_life plain_pdcp_env False (?ser, ?s)"
    by (rule pdcp_life.goes_on [OF a pdcp_step.receives [OF r]])
  then have l: "pdcp_life plain_pdcp_env True (pdcp_take_over 1 ?ser (new_pdcp_entity ex_life_var 3 1 2 1 LTENR_RLCMODE_UM), ?s)"
    by (rule pdcp_life.handed)
  moreover have "RX_DELIV (pdcp_take_over 1 ?ser (new_pdcp_entity ex_life_var 3 1 2 1 LTENR_RLCMODE_UM)) = count_of 9"
    "discardDelayTime (pdcp_take_over 1 ?ser (new_pdcp_entity ex_life_var 3 1 2 1 LTENR_RLCMODE_UM)) = 100 * MILLISECOND"
    by (simp_all add: pdcp_take_over_def received_at_def new_pdcp_entity_def ex_life_var_def)
  ultimately show ?thesis using pdcp_run_invariant [OF plain_pdcp.pdcp_environment_axioms l] by blast
qed

end
