(* ===== verification/Handover_Exec_Props.thy ===== *)
theory Handover_Exec_Props
  imports Handover_PDCP Handover_Props
begin

text \<open>
  What a handover does, from the handover command to the switch of the path: the state of the UE,
  the association at the physical layer, and the entities of PDCP and RLC, which go over to the
  new cell.
\<close>

section \<open>Association of the physical layer\<close>

text \<open>The cell considers the UE as associated.\<close>

definition phy_associated :: "phy_state \<Rightarrow> netsim_id \<times> netsim_id \<Rightarrow> netsim_id \<times> netsim_id \<Rightarrow> bool" where
  "phy_associated phy g u = (case gnb_phy phy g of None \<Rightarrow> False
     | Some infos \<Rightarrow> (case LTENR_ASSOCIATEDUEPHYINFO_FIND infos (fst u) (snd u) of None \<Rightarrow> False
         | Some j \<Rightarrow> ai_isAssociated (infos ! j)))"

lemma set_associated_sets:
  assumes "LTENR_ASSOCIATEDUEPHYINFO_FIND infos u ui = Some j"
  shows "set_associated b u ui infos = infos[j := (infos ! j)\<lparr>ai_isAssociated := b\<rparr>]" and "j < length infos"
  using assms find_pos_SomeD by (auto simp: set_associated_def LTENR_ASSOCIATEDUEPHYINFO_FIND_def)

lemma set_associated_find:
  "LTENR_ASSOCIATEDUEPHYINFO_FIND (set_associated b u ui infos) v vi = LTENR_ASSOCIATEDUEPHYINFO_FIND infos v vi"
proof (cases "LTENR_ASSOCIATEDUEPHYINFO_FIND infos u ui")
  case (Some j)
  let ?key = "\<lambda>a. (ai_ueId a, ai_ueIf a)"
  have find: "LTENR_ASSOCIATEDUEPHYINFO_FIND xs v vi = find_pos (\<lambda>y. y = (v, vi)) (map ?key xs)" for xs v vi
    by (simp add: LTENR_ASSOCIATEDUEPHYINFO_FIND_def flip: find_pos_map)
  have "map ?key (infos[j := (infos ! j)\<lparr>ai_isAssociated := b\<rparr>]) = map ?key infos"
    using set_associated_sets(2) [OF Some] by (simp add: map_update list_update_same_conv)
  then show ?thesis unfolding find set_associated_sets(1) [OF Some] by simp
qed (simp add: set_associated_def)

text \<open>The calls to the parts that are not modelled.\<close>

definition associate_calls :: "netsim_id \<Rightarrow> netsim_id \<Rightarrow> netsim_id \<Rightarrow> netsim_id \<Rightarrow> exec_effect list" where
  "associate_calls g gi u ui = [SetLayerCount g gi u ui, InitAMCInfo g gi u ui, HARQAssociation g gi u ui True]"

definition deassociate_calls :: "netsim_id \<Rightarrow> netsim_id \<Rightarrow> netsim_id \<Rightarrow> netsim_id \<Rightarrow> exec_effect list" where
  "deassociate_calls g gi u ui = [HARQAssociation g gi u ui False, FreeAMCInfo g gi u ui]"

text \<open>The cell, the UE and the RRC data the association reads are there.\<close>

definition phy_ready :: "exec_state \<Rightarrow> netsim_id \<Rightarrow> netsim_id \<Rightarrow> netsim_id \<Rightarrow> netsim_id \<Rightarrow> bool" where
  "phy_ready s g gi u ui \<longleftrightarrow> gnb_phy (x_phy s) (g, gi) \<noteq> None \<and> ue_phy (x_phy s) (u, ui) \<noteq> None
     \<and> x_gnb_rrc s (g, gi) \<noteq> None"

lemma phy_associate:
  assumes "list_library (phy_lib X)" and "phy_ready s g gi u ui"
    and "\<not> fn_NetSim_LTENR_IS_S1_INTERFACE_EXISTS (hoE X) g"
  shows "\<exists>phy rrcs. LTENR_PHY_ASSOCIATION X g gi u ui True s
      = Inr (s\<lparr>x_phy := phy, x_gnb_rrc := rrcs, x_trace := x_trace s @ associate_calls g gi u ui\<rparr>)
    \<and> ue_phy phy = (ue_phy (x_phy s))((u, ui) \<mapsto> (g, gi))
    \<and> (\<forall>x. (gnb_phy phy x = None) = (gnb_phy (x_phy s) x = None)) \<and> (\<forall>x. (rrcs x = None) = (x_gnb_rrc s x = None))
    \<and> phy_associated phy (g, gi) (u, ui) \<and> (\<forall>g' u'. g' \<noteq> (g, gi) \<longrightarrow> phy_associated phy g' u' = phy_associated (x_phy s) g' u')"
proof -
  from assms(2) obtain infos old rrc where there: "gnb_phy (x_phy s) (g, gi) = Some infos"
      "ue_phy (x_phy s) (u, ui) = Some old" "x_gnb_rrc s (g, gi) = Some rrc" by (auto simp: phy_ready_def)
  let ?get = "LTENR_ASSOCIATEDUEPHYINFO_GET X u ui infos"
  let ?infos = "set_associated True u ui ?get"
  let ?phy = "(x_phy s)\<lparr>gnb_phy := (gnb_phy (x_phy s))((g, gi) \<mapsto> ?infos), ue_phy := (ue_phy (x_phy s))((u, ui) \<mapsto> (g, gi))\<rparr>"
  let ?rrcs = "(x_gnb_rrc s)((g, gi) \<mapsto> fn_NetSim_LTENR_Conditional_HO_TTT_Matrix_Add (hoE X) g gi u ui rrc)"
  have run: "LTENR_PHY_ASSOCIATION X g gi u ui True s
      = Inr (s\<lparr>x_phy := ?phy, x_gnb_rrc := ?rrcs, x_trace := x_trace s @ associate_calls g gi u ui\<rparr>)"
    using there assms(3)
    by (simp add: LTENR_PHY_ASSOCIATION_def LTENR_PHY_associateUE_def x_ttt_def x_out_def Let_def associate_calls_def)
  have "LTENR_ASSOCIATEDUEPHYINFO_FIND ?get u ui \<noteq> None"
    by (auto simp: LTENR_ASSOCIATEDUEPHYINFO_GET_def list_library.add_last_law [OF assms(1)]
        LTENR_ASSOCIATEDUEPHYINFO_FIND_def find_pos_append split: option.splits)
  then obtain j where j: "LTENR_ASSOCIATEDUEPHYINFO_FIND ?get u ui = Some j" by blast
  then have "LTENR_ASSOCIATEDUEPHYINFO_FIND ?infos u ui = Some j" by (simp add: set_associated_find)
  then have "phy_associated ?phy (g, gi) (u, ui)"
    using set_associated_sets [OF j] by (simp add: phy_associated_def)
  moreover have "phy_associated ?phy g' u' = phy_associated (x_phy s) g' u'" if "g' \<noteq> (g, gi)" for g' u'
    using that by (simp add: phy_associated_def)
  ultimately show ?thesis using run there
    by (intro exI [of _ ?phy] exI [of _ ?rrcs]) (simp add: phy_ready_def)
qed

lemma phy_deassociate:
  assumes "phy_ready s g gi u ui"
  shows "\<exists>phy rrcs calls. LTENR_PHY_ASSOCIATION X g gi u ui False s
      = Inr (s\<lparr>x_phy := phy, x_gnb_rrc := rrcs, x_trace := x_trace s @ calls\<rparr>)
    \<and> calls = (if LTENR_ASSOCIATEDUEPHYINFO_FIND (the (gnb_phy (x_phy s) (g, gi))) u ui = None then [] else deassociate_calls g gi u ui)
    \<and> ue_phy phy = ue_phy (x_phy s)
    \<and> (\<forall>x. (gnb_phy phy x = None) = (gnb_phy (x_phy s) x = None)) \<and> (\<forall>x. (rrcs x = None) = (x_gnb_rrc s x = None))
    \<and> \<not> phy_associated phy (g, gi) (u, ui) \<and> (\<forall>g' u'. g' \<noteq> (g, gi) \<longrightarrow> phy_associated phy g' u' = phy_associated (x_phy s) g' u')"
proof -
  from assms obtain infos rrc where there: "gnb_phy (x_phy s) (g, gi) = Some infos" "x_gnb_rrc s (g, gi) = Some rrc"
    by (auto simp: phy_ready_def)
  let ?rrcs = "(x_gnb_rrc s)((g, gi) \<mapsto> fn_NetSim_LTENR_Conditional_HO_TTT_Matrix_Remove (hoE X) u ui rrc)"
  let ?found = "LTENR_ASSOCIATEDUEPHYINFO_FIND infos u ui"
  let ?phy = "if ?found = None then x_phy s
    else (x_phy s)\<lparr>gnb_phy := (gnb_phy (x_phy s))((g, gi) \<mapsto> set_associated False u ui infos)\<rparr>"
  have run: "LTENR_PHY_ASSOCIATION X g gi u ui False s
      = Inr (s\<lparr>x_phy := ?phy, x_gnb_rrc := ?rrcs, x_trace := x_trace s @ (if ?found = None then [] else deassociate_calls g gi u ui)\<rparr>)"
    using there
    by (simp add: LTENR_PHY_ASSOCIATION_def LTENR_PHY_deassociateUE_def x_ttt_def x_out_def Let_def deassociate_calls_def)
  have "\<not> phy_associated ?phy (g, gi) (u, ui)"
  proof (cases ?found)
    case (Some j)
    then have "LTENR_ASSOCIATEDUEPHYINFO_FIND (set_associated False u ui infos) u ui = Some j" by (simp add: set_associated_find)
    then show ?thesis using Some set_associated_sets [OF Some] by (simp add: phy_associated_def)
  qed (simp add: phy_associated_def there)
  then show ?thesis using run there
    by (intro exI [of _ ?phy] exI [of _ ?rrcs] exI [of _ "if ?found = None then [] else deassociate_calls g gi u ui"])
      (simp add: phy_associated_def)
qed

section \<open>The handover\<close>

lemma x_uerrc_upd_run:
  "ue_rrc (x_pdcp s) (d, i) = Some rrc \<Longrightarrow> x_uerrc_upd f d i s
     = Inr (s\<lparr>x_pdcp := (x_pdcp s)\<lparr>ue_rrc := (ue_rrc (x_pdcp s))((d, i) \<mapsto> f rrc)\<rparr>\<rparr>)"
  by (simp add: x_uerrc_upd_def x_uerrc_def x_uerrc_put_def)

text \<open>
  The UE is associated with the serving cell, with all buffers allocated, and the target cell is
  there; both cells belong to a 5G core.
\<close>

definition handover_ready :: "exec_env \<Rightarrow> LTENR_HANDOVER_Hdr \<Rightarrow> exec_state \<Rightarrow> bool" where
  "handover_ready X hdr s \<longleftrightarrow>
     (let d = serveringCellID hdr; i = serveringCellIF hdr; r = UEID hdr; rin = UEIF hdr;
          t = targetCellID hdr; tin = targetCellIF hdr; C = coreX X;
          sif = fn_NetSim_LTENR_SEC_INTEFACE_FOR_UE (pdcpE (hoE X)) r rin
      in core_environment C \<and> list_library (phy_lib X) \<and> (d, i) \<noteq> (t, tin)
       \<and> pair_ready C (x_rlc s) d i r rin \<and> pair_ready C (x_rlc s) t tin r rin
       \<and> (\<forall>key \<in> both_keys d i r rin. \<exists>e. rlc_view C (x_rlc s) key = Some e \<and> \<not> noBuffers e)
       \<and> vars_ready (x_pdcp s) d i r rin \<and> vars_ready (x_pdcp s) t tin r rin
       \<and> (\<forall>p \<in> pdcp_places d i r rin. \<exists>e. pdcp_map (x_pdcp s) p = Some e \<and> \<not> pe_noBuffers e)
       \<and> phy_ready s d i r rin \<and> phy_ready s t tin r rin
       \<and> ue_rrc (x_pdcp s) (r, rin) \<noteq> None \<and> ue_rrc (x_pdcp s) (r, sif) \<noteq> None
       \<and> \<not> fn_NetSim_LTENR_IS_S1_INTERFACE_EXISTS (hoE X) d \<and> \<not> fn_NetSim_LTENR_IS_S1_INTERFACE_EXISTS (hoE X) t)"

lemma same_config_rrc: "same_config st st' \<Longrightarrow> ue_rrc st' = ue_rrc st"
  by (simp add: same_config_def)

lemma entity_or_new_rrc [simp]: "pdcp_entity_or_new (st\<lparr>ue_rrc := q\<rparr>) = pdcp_entity_or_new st"
  by (auto simp: pdcp_entity_or_new_def fun_eq_iff split: option.splits)

lemma handed_over_rrc [simp]:
  "pdcp_handed_over d i r rin t tin (st\<lparr>ue_rrc := q\<rparr>) st' = pdcp_handed_over d i r rin t tin st st'"
  by (simp add: pdcp_handed_over_def)

definition connected_rrc :: "LTENR_UERRC \<Rightarrow> LTENR_UERRC" where
  "connected_rrc rrc = rrc\<lparr>ueRRCState := UERRC_CONNECTED, ueCMState := UE_CM_CONNECTED\<rparr>"

definition command_rrc :: "netsim_id \<Rightarrow> netsim_id \<Rightarrow> LTENR_UERRC \<Rightarrow> LTENR_UERRC" where
  "command_rrc t tin rrc = (connected_rrc rrc)\<lparr>SelectedCellID := t, SelectedCellIF := tin\<rparr>"

text \<open>The old cell's entities can still be released, and the new ones are then all that is left.\<close>

definition releasable ::
  "core_env \<Rightarrow> netsim_id \<Rightarrow> netsim_id \<Rightarrow> netsim_id \<Rightarrow> netsim_id \<Rightarrow> netsim_id \<Rightarrow> netsim_id
     \<Rightarrow> exec_state \<Rightarrow> exec_state \<Rightarrow> bool" where
  "releasable C d i r rin t tin s a \<longleftrightarrow>
     (\<exists>rl. LTENR_RLC_ASSOCIATION C d i r rin False (x_rlc a) = Inr rl
        \<and> rlc_handed_over C d i r rin t tin (x_rlc s, x_event s) (rl, x_event a))
     \<and> (\<forall>q ev. \<exists>st. LTENR_PDCP_ASSOCIATION d i r rin False ((x_pdcp a)\<lparr>ue_rrc := q\<rparr>) ev
           = Inr (st, ev\<lparr>pv_trace := pv_trace ev @ all_released (x_pdcp s) d i r rin all_modes\<rparr>)
        \<and> ue_rrc st = q \<and> pdcp_handed_over d i r rin t tin (x_pdcp s) st)"

lemma join_target_rrc:
  assumes "ue_rrc (x_pdcp s) (r, rin) \<noteq> None" and "ue_rrc (x_pdcp s) (r, sif) = Some n"
    and q1: "q1 = (ue_rrc (x_pdcp s))((r, sif) \<mapsto> n\<lparr>ueRRCState := UERRC_CONNECTED\<rparr>,
      (r, rin) \<mapsto> connected_rrc (the (ue_rrc (x_pdcp s) (r, rin))))"
  shows "rbind (x_uerrc_upd (\<lambda>rrc. rrc\<lparr>ueRRCState := UERRC_CONNECTED\<rparr>) r sif s)
      (x_uerrc_upd (\<lambda>rrc. rrc\<lparr>ueRRCState := UERRC_CONNECTED, ueCMState := UE_CM_CONNECTED\<rparr>) r rin)
    = Inr (s\<lparr>x_pdcp := (x_pdcp s)\<lparr>ue_rrc := q1\<rparr>\<rparr>)"
proof -
  from assms(1) obtain m where m: "ue_rrc (x_pdcp s) (r, rin) = Some m" by blast
  show ?thesis
  proof (cases "rin = sif")
    case True
    then show ?thesis using m assms(2) by (simp add: x_uerrc_upd_run q1 connected_rrc_def)
  next
    case False
    then show ?thesis using m assms(2) by (simp add: x_uerrc_upd_run q1 connected_rrc_def fun_upd_twist)
  qed
qed

lemma join_target_run:
  assumes ready: "handover_ready X hdr s"
    and hdr: "d = serveringCellID hdr" "i = serveringCellIF hdr" "r = UEID hdr" "rin = UEIF hdr"
      "t = targetCellID hdr" "tin = targetCellIF hdr"
    and sif: "sif = fn_NetSim_LTENR_SEC_INTEFACE_FOR_UE (pdcpE (hoE X)) r rin"
  shows "\<exists>a. join_target X hdr s = Inr a \<and> releasable (coreX X) d i r rin t tin s a
    \<and> x_pdcp_event a = x_pdcp_event s \<and> x_hlr a = x_hlr s
    \<and> ue_rrc (x_pdcp a) = (ue_rrc (x_pdcp s))((r, sif) \<mapsto> (the (ue_rrc (x_pdcp s) (r, sif)))\<lparr>ueRRCState := UERRC_CONNECTED\<rparr>,
         (r, rin) \<mapsto> connected_rrc (the (ue_rrc (x_pdcp s) (r, rin))))
    \<and> phy_ready a d i r rin \<and> ue_phy (x_phy a) = (ue_phy (x_phy s))((r, rin) \<mapsto> (t, tin))
    \<and> phy_associated (x_phy a) (t, tin) (r, rin)
    \<and> x_trace a = x_trace s @ [AssociateInfoRemove d i r rin, AssociateInfoAdd t tin r rin] @ associate_calls t tin r rin"
proof -
  let ?C = "coreX X" and ?st = "x_pdcp s"
  have r: "core_environment ?C" "list_library (phy_lib X)" "(d, i) \<noteq> (t, tin)"
    "pair_ready ?C (x_rlc s) d i r rin" "pair_ready ?C (x_rlc s) t tin r rin"
    "\<forall>key \<in> both_keys d i r rin. \<exists>e. rlc_view ?C (x_rlc s) key = Some e \<and> \<not> noBuffers e"
    "phy_ready s d i r rin" "phy_ready s t tin r rin" "\<not> fn_NetSim_LTENR_IS_S1_INTERFACE_EXISTS (hoE X) t"
    using ready unfolding handover_ready_def Let_def hdr sif by blast+
  have p: "vars_ready ?st d i r rin" "vars_ready ?st t tin r rin"
    "\<forall>p \<in> pdcp_places d i r rin. \<exists>e. pdcp_map ?st p = Some e \<and> \<not> pe_noBuffers e"
    "ue_rrc ?st (r, rin) \<noteq> None" "ue_rrc ?st (r, sif) \<noteq> None"
    using ready unfolding handover_ready_def Let_def hdr sif by blast+
  define q1 where "q1 = (ue_rrc ?st)((r, sif) \<mapsto> (the (ue_rrc ?st (r, sif)))\<lparr>ueRRCState := UERRC_CONNECTED\<rparr>,
      (r, rin) \<mapsto> connected_rrc (the (ue_rrc ?st (r, rin))))"
  define a3 where "a3 = s\<lparr>x_pdcp := ?st\<lparr>ue_rrc := q1\<rparr>,
    x_trace := x_trace s @ [AssociateInfoRemove d i r rin, AssociateInfoAdd t tin r rin]\<rparr>"
  have a3: "x_phy a3 = x_phy s" "x_gnb_rrc a3 = x_gnb_rrc s" "phy_ready a3 t tin r rin"
    using r(8) by (simp_all add: a3_def phy_ready_def)
  from phy_associate [OF r(2) a3(3) r(9)] obtain phy rrcs
    where phy: "LTENR_PHY_ASSOCIATION X t tin r rin True a3
        = Inr (a3\<lparr>x_phy := phy, x_gnb_rrc := rrcs, x_trace := x_trace a3 @ associate_calls t tin r rin\<rparr>)"
      "ue_phy phy = (ue_phy (x_phy s))((r, rin) \<mapsto> (t, tin))" "phy_associated phy (t, tin) (r, rin)"
      "\<forall>x. (gnb_phy phy x = None) = (gnb_phy (x_phy s) x = None)" "\<forall>x. (rrcs x = None) = (x_gnb_rrc s x = None)"
    unfolding a3 by blast
  from pdcp_handover [of "?st\<lparr>ue_rrc := q1\<rparr>" d i r rin t tin "x_pdcp_event s"] p(1-3) r(3) obtain st1 st2
    where pd: "LTENR_PDCP_ASSOCIATION t tin r rin True (?st\<lparr>ue_rrc := q1\<rparr>) (x_pdcp_event s) = Inr (st1, x_pdcp_event s)"
      "pdcp_transfers d i r rin t tin st1 = Inr st2" "ue_rrc st2 = q1"
      and rel: "\<forall>q s'. \<exists>st3. LTENR_PDCP_ASSOCIATION d i r rin False (st2\<lparr>ue_rrc := q\<rparr>) s'
           = Inr (st3, s'\<lparr>pv_trace := pv_trace s' @ all_released ?st d i r rin all_modes\<rparr>)
        \<and> same_config (st2\<lparr>ue_rrc := q\<rparr>) st3 \<and> pdcp_handed_over d i r rin t tin ?st st3"
    by (auto simp: all_released_def dest: same_config_rrc)
  from core_environment.rlc_handover [OF r(1,4,5,3,6), of "x_event s"] obtain rl1 y2 e2 y3 e3 rl4
    where rlc: "LTENR_RLC_ASSOCIATION ?C t tin r rin True (x_rlc s) = Inr rl1"
      "fn_NetSim_LTENR_NAS_RLC_GNB_BUFFER_TRANSFER ?C d i r rin t tin (rl1, x_event s) = Inr (y2, e2)"
      "fn_NetSim_LTENR_NAS_RLC_UE_BUFFER_TRANSFER ?C d i r rin t tin (y2, e2) = Inr (y3, e3)"
      and rl4: "LTENR_RLC_ASSOCIATION ?C d i r rin False y3 = Inr rl4"
      "rlc_handed_over ?C d i r rin t tin (x_rlc s, x_event s) (rl4, e3)" by (metis prod.exhaust_sel)
  define a4 where "a4 = a3\<lparr>x_phy := phy, x_gnb_rrc := rrcs, x_trace := x_trace a3 @ associate_calls t tin r rin\<rparr>"
  define a9 where "a9 = a4\<lparr>x_pdcp := st2, x_rlc := y3, x_event := e3\<rparr>"
  obtain n where n: "ue_rrc ?st (r, sif) = Some n" using p(5) by blast
  have u1: "rbind (x_uerrc_upd (\<lambda>rrc. rrc\<lparr>ueRRCState := UERRC_CONNECTED\<rparr>) r sif s) (\<lambda>a.
      rbind (x_uerrc_upd (\<lambda>rrc. rrc\<lparr>ueRRCState := UERRC_CONNECTED, ueCMState := UE_CM_CONNECTED\<rparr>) r rin a) f)
    = f (s\<lparr>x_pdcp := ?st\<lparr>ue_rrc := q1\<rparr>\<rparr>)" for f :: "exec_state \<Rightarrow> exec_state result"
    using join_target_rrc [OF p(4) n, of q1] by (simp add: q1_def n flip: rbind_assoc)
  have u2: "x_out (AssociateInfoAdd t tin r rin) (x_out (AssociateInfoRemove d i r rin) (s\<lparr>x_pdcp := ?st\<lparr>ue_rrc := q1\<rparr>\<rparr>)) = a3"
    by (simp add: x_out_def a3_def)
  have "join_target X hdr s = Inr a9"
    unfolding join_target_def Let_def hdr [symmetric] sif [symmetric] u1 u2
    using phy(1) pd(1,2) rlc
    by (simp add: x_pdcp_association_def x_rlc_association_def x_pdcp_do_def x_rlc_do_def a3_def a4_def a9_def)
  moreover have "releasable ?C d i r rin t tin s a9"
    using rl4 rel unfolding releasable_def a9_def by (fastforce dest: same_config_rrc)
  moreover have "phy_ready a9 d i r rin"
    using r(7) phy(2,4,5) by (simp add: phy_ready_def a9_def a4_def)
  moreover have "x_pdcp_event a9 = x_pdcp_event s" "x_hlr a9 = x_hlr s" "ue_rrc (x_pdcp a9) = q1" "x_phy a9 = phy"
    "x_trace a9 = x_trace s @ [AssociateInfoRemove d i r rin, AssociateInfoAdd t tin r rin] @ associate_calls t tin r rin"
    by (simp_all add: a9_def a4_def a3_def pd(3))
  ultimately show ?thesis using phy(2,3) by (auto simp: q1_def intro!: exI [of _ a9])
qed

lemma leave_source_run:
  assumes a: "releasable (coreX X) d i r rin t tin s a" "phy_ready a d i r rin" "ue_rrc (x_pdcp a) (r, rin) = Some m"
    and hdr: "d = serveringCellID hdr" "i = serveringCellIF hdr" "r = UEID hdr" "rin = UEIF hdr"
      "t = targetCellID hdr" "tin = targetCellIF hdr"
    and s1: "\<not> fn_NetSim_LTENR_IS_S1_INTERFACE_EXISTS (hoE X) d"
  shows "\<exists>s'. leave_source X hdr a = Inr s'
    \<and> rlc_handed_over (coreX X) d i r rin t tin (x_rlc s, x_event s) (x_rlc s', x_event s')
    \<and> pdcp_handed_over d i r rin t tin (x_pdcp s) (x_pdcp s')
    \<and> x_pdcp_event s' = (x_pdcp_event a)\<lparr>pv_trace := pv_trace (x_pdcp_event a) @ all_released (x_pdcp s) d i r rin all_modes\<rparr>
    \<and> ue_rrc (x_pdcp s') = (ue_rrc (x_pdcp a))((r, rin) \<mapsto> m\<lparr>SelectedCellID := t, SelectedCellIF := tin\<rparr>)
    \<and> ue_phy (x_phy s') = ue_phy (x_phy a) \<and> \<not> phy_associated (x_phy s') (d, i) (r, rin)
    \<and> (\<forall>g u. g \<noteq> (d, i) \<longrightarrow> phy_associated (x_phy s') g u = phy_associated (x_phy a) g u)
    \<and> x_hlr s' = x_hlr a
    \<and> (\<exists>freed. set freed \<subseteq> set (deassociate_calls d i r rin)
        \<and> x_trace s' = x_trace a @ freed @ [RemoveDeviceFromLink r rin (nLinkId X d i),
            AddDeviceToLink r rin (nLinkId X t tin), RRCReconfiguration r rin t tin, CorePathSwitch hdr])"
proof -
  let ?q = "(ue_rrc (x_pdcp a))((r, rin) \<mapsto> m\<lparr>SelectedCellID := t, SelectedCellIF := tin\<rparr>)"
  define b1 where "b1 = a\<lparr>x_pdcp := (x_pdcp a)\<lparr>ue_rrc := ?q\<rparr>\<rparr>"
  have b1: "x_phy b1 = x_phy a" "phy_ready b1 d i r rin" using a(2) by (simp_all add: b1_def phy_ready_def)
  from phy_deassociate [OF b1(2), of X] obtain phy rrcs calls
    where phy: "LTENR_PHY_ASSOCIATION X d i r rin False b1
        = Inr (b1\<lparr>x_phy := phy, x_gnb_rrc := rrcs, x_trace := x_trace b1 @ calls\<rparr>)"
      "ue_phy phy = ue_phy (x_phy a)" "\<not> phy_associated phy (d, i) (r, rin)"
      "\<forall>g u. g \<noteq> (d, i) \<longrightarrow> phy_associated phy g u = phy_associated (x_phy a) g u"
      "set calls \<subseteq> set (deassociate_calls d i r rin)"
    unfolding b1(1) by auto
  obtain st where pd: "LTENR_PDCP_ASSOCIATION d i r rin False ((x_pdcp a)\<lparr>ue_rrc := ?q\<rparr>) (x_pdcp_event a)
      = Inr (st, (x_pdcp_event a)\<lparr>pv_trace := pv_trace (x_pdcp_event a) @ all_released (x_pdcp s) d i r rin all_modes\<rparr>)"
    "ue_rrc st = ?q" "pdcp_handed_over d i r rin t tin (x_pdcp s) st"
    using a(1) unfolding releasable_def by blast
  obtain rl where rl: "LTENR_RLC_ASSOCIATION (coreX X) d i r rin False (x_rlc a) = Inr rl"
    "rlc_handed_over (coreX X) d i r rin t tin (x_rlc s, x_event s) (rl, x_event a)"
    using a(1) unfolding releasable_def by blast
  define b4 where "b4 = b1\<lparr>x_phy := phy, x_gnb_rrc := rrcs, x_trace := x_trace b1 @ calls, x_pdcp := st,
      x_pdcp_event := (x_pdcp_event a)\<lparr>pv_trace := pv_trace (x_pdcp_event a) @ all_released (x_pdcp s) d i r rin all_modes\<rparr>,
      x_rlc := rl\<rparr>"
  define b7 where "b7 = x_out (CorePathSwitch hdr) (x_out (RRCReconfiguration r rin t tin) (change_link X r rin d i t tin b4))"
  have "x_uerrc_upd (\<lambda>rrc. rrc\<lparr>SelectedCellID := t, SelectedCellIF := tin\<rparr>) r rin a = Inr b1"
    by (simp add: x_uerrc_upd_run [OF a(3)] b1_def)
  then have "leave_source X hdr a = Inr b7"
    unfolding leave_source_def Let_def hdr [symmetric] using phy(1) pd(1) rl(1) s1
    by (simp add: x_pdcp_association_def x_rlc_association_def b4_def b1_def b7_def)
  moreover have "x_rlc b7 = rl" "x_event b7 = x_event a" "x_pdcp b7 = st" "x_phy b7 = phy" "x_hlr b7 = x_hlr a"
    "x_pdcp_event b7 = (x_pdcp_event a)\<lparr>pv_trace := pv_trace (x_pdcp_event a) @ all_released (x_pdcp s) d i r rin all_modes\<rparr>"
    "x_trace b7 = x_trace a @ calls @ [RemoveDeviceFromLink r rin (nLinkId X d i),
            AddDeviceToLink r rin (nLinkId X t tin), RRCReconfiguration r rin t tin, CorePathSwitch hdr]"
    by (simp_all add: b7_def change_link_def x_out_def b4_def b1_def)
  ultimately show ?thesis using phy(2-5) pd(2,3) rl(2) by (intro exI [of _ b7]) auto
qed

lemma handover_run:
  assumes ready: "handover_ready X hdr s"
    and hdr: "d = serveringCellID hdr" "i = serveringCellIF hdr" "r = UEID hdr" "rin = UEIF hdr"
      "t = targetCellID hdr" "tin = targetCellIF hdr"
    and sif: "sif = fn_NetSim_LTENR_SEC_INTEFACE_FOR_UE (pdcpE (hoE X)) r rin"
  shows "\<exists>s'. fn_NetSim_LTENR_NAS_GENERATE_HANDOVER_COMMAND_HANDLE X hdr s = Inr s'
    \<and> rlc_handed_over (coreX X) d i r rin t tin (x_rlc s, x_event s) (x_rlc s', x_event s')
    \<and> pdcp_handed_over d i r rin t tin (x_pdcp s) (x_pdcp s')
    \<and> x_pdcp_event s' = (x_pdcp_event s)\<lparr>pv_trace := pv_trace (x_pdcp_event s) @ all_released (x_pdcp s) d i r rin all_modes\<rparr>
    \<and> ue_rrc (x_pdcp s') = (ue_rrc (x_pdcp s))
         ((r, sif) \<mapsto> (the (ue_rrc (x_pdcp s) (r, sif)))\<lparr>ueRRCState := UERRC_CONNECTED\<rparr>,
          (r, rin) \<mapsto> command_rrc t tin (the (ue_rrc (x_pdcp s) (r, rin))))
    \<and> ue_phy (x_phy s') = (ue_phy (x_phy s))((r, rin) \<mapsto> (t, tin))
    \<and> phy_associated (x_phy s') (t, tin) (r, rin) \<and> \<not> phy_associated (x_phy s') (d, i) (r, rin)
    \<and> x_hlr s' = x_hlr s
    \<and> (\<exists>freed. set freed \<subseteq> set (deassociate_calls d i r rin)
        \<and> x_trace s' = x_trace s @ [AssociateInfoRemove d i r rin, AssociateInfoAdd t tin r rin]
         @ associate_calls t tin r rin @ freed @ [RemoveDeviceFromLink r rin (nLinkId X d i),
            AddDeviceToLink r rin (nLinkId X t tin), RRCReconfiguration r rin t tin, CorePathSwitch hdr])"
proof -
  from join_target_run [OF assms] obtain a where run: "join_target X hdr s = Inr a"
    and a: "releasable (coreX X) d i r rin t tin s a" "phy_ready a d i r rin" "phy_associated (x_phy a) (t, tin) (r, rin)"
      "x_pdcp_event a = x_pdcp_event s" "x_hlr a = x_hlr s" "ue_phy (x_phy a) = (ue_phy (x_phy s))((r, rin) \<mapsto> (t, tin))"
      "ue_rrc (x_pdcp a) = (ue_rrc (x_pdcp s))((r, sif) \<mapsto> (the (ue_rrc (x_pdcp s) (r, sif)))\<lparr>ueRRCState := UERRC_CONNECTED\<rparr>,
         (r, rin) \<mapsto> connected_rrc (the (ue_rrc (x_pdcp s) (r, rin))))"
      "x_trace a = x_trace s @ [AssociateInfoRemove d i r rin, AssociateInfoAdd t tin r rin] @ associate_calls t tin r rin"
    by blast
  have s1: "\<not> fn_NetSim_LTENR_IS_S1_INTERFACE_EXISTS (hoE X) d" and ne: "(d, i) \<noteq> (t, tin)"
    using ready unfolding handover_ready_def Let_def hdr by blast+
  have "ue_rrc (x_pdcp a) (r, rin) = Some (connected_rrc (the (ue_rrc (x_pdcp s) (r, rin))))" by (simp add: a(7))
  from leave_source_run [OF a(1,2) this hdr s1] ne show ?thesis
    unfolding fn_NetSim_LTENR_NAS_GENERATE_HANDOVER_COMMAND_HANDLE_def run rbind_simps
    by (auto simp: a command_rrc_def)
qed

section \<open>What a handover does\<close>

text \<open>
  What a handover is to keep, written out field by field. Packets change their gNB to the target
  \<open>t\<close>: at the cell (\<open>cell\<close>) it is the transmitter of what waits to be sent and the receiver of
  what was received, at the UE the other way round.
\<close>

definition readdressed_out :: "bool \<Rightarrow> netsim_id \<Rightarrow> NetSim_PACKET \<Rightarrow> NetSim_PACKET" where
  "readdressed_out cell t p = (if cell then p\<lparr>nTransmitterId := t\<rparr> else p\<lparr>nReceiverId := t\<rparr>)"

definition readdressed_in :: "bool \<Rightarrow> netsim_id \<Rightarrow> NetSim_PACKET \<Rightarrow> NetSim_PACKET" where
  "readdressed_in cell t p = (if cell then p\<lparr>nReceiverId := t\<rparr> else p\<lparr>nTransmitterId := t\<rparr>)"

text \<open>
  The entity \<open>e\<close> of the target holds what the entity \<open>ser\<close> of the serving cell held, under the
  address and with the configuration of \<open>tar\<close>, the entity the target has from the association.
\<close>

definition rlc_carries ::
  "bool \<Rightarrow> netsim_id \<Rightarrow> LTENR_RLCENTITY \<Rightarrow> LTENR_RLCENTITY \<Rightarrow> LTENR_RLCENTITY \<Rightarrow> bool" where
  "rlc_carries cell t ser tar e \<longleftrightarrow>
     transmissionBuffer e = map (\<lambda>b. b\<lparr>data_packet := readdressed_out cell t (data_packet b)\<rparr>) (transmissionBuffer ser)
     \<and> retransmissionBuffer e
         = map (\<lambda>b. b\<lparr>data_packet := readdressed_out cell t (data_packet b)\<rparr>) (retransmissionBuffer ser)
     \<and> transmittedBuffer e = transmittedBuffer ser \<and> noBuffers e = noBuffers ser
     \<and> AM_receptionBuffer e = map (\<lambda>b. b\<lparr>rb_packets := map (readdressed_in cell t) (rb_packets b)\<rparr>) (AM_receptionBuffer ser)
     \<and> UM_receptionBuffer e = map (\<lambda>b. b\<lparr>rb_packets := map (readdressed_in cell t) (rb_packets b)\<rparr>) (UM_receptionBuffer ser)
     \<and> AM_recvdInfo e = AM_recvdInfo ser \<and> bufferStatus e = bufferStatus ser
     \<and> AM_TX_Next_Ack e = AM_TX_Next_Ack ser \<and> AM_TX_Next e = AM_TX_Next ser
     \<and> AM_TX_HighestSN e = AM_TX_HighestSN ser \<and> AM_POLL_SN e = AM_POLL_SN ser
     \<and> AM_PDU_WITHOUT_POLL e = AM_PDU_WITHOUT_POLL ser \<and> AM_BYTE_WITHOUT_POLL e = AM_BYTE_WITHOUT_POLL ser
     \<and> AM_RX_Next e = AM_RX_Next ser \<and> AM_RX_Next_Highest e = AM_RX_Next_Highest ser
     \<and> AM_RX_Highest_Status e = AM_RX_Highest_Status ser
     \<and> AM_RX_Next_Status_Trigger e = AM_RX_Next_Status_Trigger ser
     \<and> AM_isStatusReportDelayed e = AM_isStatusReportDelayed ser
     \<and> AM_isConstructStatusReortDelayed e = AM_isConstructStatusReortDelayed ser
     \<and> UM_TX_Next e = UM_TX_Next ser \<and> UM_RX_Timer_Trigger e = UM_RX_Timer_Trigger ser
     \<and> UM_RX_Next_Reassembly e = UM_RX_Next_Reassembly ser \<and> UM_RX_Next_Highest e = UM_RX_Next_Highest ser
     \<and> isPollRetransmitTimerStarted e = isPollRetransmitTimerStarted ser
     \<and> isReassemblyTimerStarted e = isReassemblyTimerStarted ser
     \<and> isStatusProhibitTimerStarted e = isStatusProhibitTimerStarted ser
     \<and> entity_key e = entity_key tar
     \<and> t_PollRetransmit e = t_PollRetransmit tar \<and> t_Reassembly e = t_Reassembly tar
     \<and> t_StatusProhibit e = t_StatusProhibit tar \<and> maxRetxThreshold e = maxRetxThreshold tar
     \<and> pollPDU e = pollPDU tar \<and> pollByte e = pollByte tar"

definition pdcp_carries ::
  "bool \<Rightarrow> netsim_id \<Rightarrow> LTENR_PDCPENTITY \<Rightarrow> LTENR_PDCPENTITY \<Rightarrow> LTENR_PDCPENTITY \<Rightarrow> bool" where
  "pdcp_carries cell t ser tar e \<longleftrightarrow>
     pe_transmissionBuffer e
       = map (\<lambda>b. b\<lparr>bp_packet := readdressed_out cell t (bp_packet b)\<rparr>) (pe_transmissionBuffer ser)
     \<and> pe_receiveBuffer e = pe_receiveBuffer ser \<and> pe_noBuffers e = pe_noBuffers ser
     \<and> TX_NEXT e = TX_NEXT ser \<and> RX_NEXT e = RX_NEXT ser \<and> RX_DELIV e = RX_DELIV ser
     \<and> RX_REORD e = RX_REORD ser \<and> last_RECV_COUNT e = last_RECV_COUNT ser
     \<and> pdcp_key e = pdcp_key tar \<and> pe_isControlPacket e = pe_isControlPacket tar
     \<and> pe_isAlternativePacket e = pe_isAlternativePacket tar
     \<and> discardDelayTime e = discardDelayTime tar \<and> t_Reordering e = t_Reordering tar
     \<and> isDiscardTimerStarted e = isDiscardTimerStarted tar \<and> discardTimerId e = discardTimerId tar
     \<and> isT_ReorderingRunning e = isT_ReorderingRunning tar \<and> t_ReorderingEventId e = t_ReorderingEventId tar"

lemma moved_carries:
  assumes "same_but_timers e (moved flag f ser tar)" and "f = readdressed_out (flag = 0) t" and "rlcMode ser = rlcMode tar"
    and "t = (if flag = 0 then ent_d tar else peerId tar)"
  shows "rlc_carries (flag = 0) t ser tar e"
proof -
  have "readdressed_in (flag = 0) t = (\<lambda>p. if flag = 0 then p\<lparr>nReceiverId := ent_d tar\<rparr> else p\<lparr>nTransmitterId := peerId tar\<rparr>)"
    using assms(4) by (auto simp: fun_eq_iff readdressed_in_def)
  moreover have "e = (moved flag f ser tar)\<lparr>pollRetransmitTimerId := pollRetransmitTimerId e,
      reassemblyTimerId := reassemblyTimerId e\<rparr>"
    using assms(1) by (simp add: same_but_timers_def)
  then obtain i j where e: "e = (moved flag f ser tar)\<lparr>pollRetransmitTimerId := i, reassemblyTimerId := j\<rparr>" by blast
  ultimately show ?thesis
    unfolding e using assms(2,3)
    by (simp add: rlc_carries_def moved_def Let_def rlc_take_over_def readdress_received_def entity_key_def)
qed

lemma pdcp_take_over_carries:
  assumes "pe_enbId tar = t"
  shows "pdcp_carries (a = AtGnb) t ser tar (pdcp_take_over (side_flag a) ser tar)"
  using assms by (cases a) (simp_all add: pdcp_carries_def pdcp_take_over_def readdressed_out_def readdress_def
      side_flag_def pdcp_key_def cong: map_cong)

text \<open>
  From the state and event \<open>x\<close> to \<open>x'\<close> the entities of the UE \<open>(r, rin)\<close> and the cell \<open>(d, i)\<close>
  for each other became those of the UE and the cell \<open>(t, tin)\<close>, with all they held; the timers
  that ran were deleted and started for the new entities, and nothing else changed.
\<close>

definition rlc_entities_moved ::
  "core_env \<Rightarrow> netsim_id \<Rightarrow> netsim_id \<Rightarrow> netsim_id \<Rightarrow> netsim_id \<Rightarrow> netsim_id \<Rightarrow> netsim_id
     \<Rightarrow> rlc_state \<times> EVENTDETAILS \<Rightarrow> rlc_state \<times> EVENTDETAILS \<Rightarrow> bool" where
  "rlc_entities_moved C d i r rin t tin x x' \<longleftrightarrow> (\<exists>gnew unew.
     (\<forall>k \<in> set entity_kinds. \<exists>gser user.
        rlc_view C (fst x) (d, i, r, rin, k) = Some gser \<and> rlc_view C (fst x) (r, rin, d, i, k) = Some user
        \<and> rlc_view C (fst x') (t, tin, r, rin, k) = Some (gnew k)
        \<and> rlc_carries True t gser (entity_or_new C (fst x) (t, tin, r, rin, k)) (gnew k)
        \<and> rlc_view C (fst x') (r, rin, t, tin, k) = Some (unew k)
        \<and> rlc_carries False t user (entity_or_new C (fst x) (r, rin, t, tin, k)) (unew k))
     \<and> (\<forall>key \<in> both_keys d i r rin. rlc_view C (fst x') key = None)
     \<and> (\<forall>key. key \<notin> both_keys d i r rin \<union> both_keys t tin r rin \<longrightarrow> rlc_view C (fst x') key = rlc_view C (fst x) key)
     \<and> snd x' = (snd x)\<lparr>trace := trace (snd x)
          @ concat (map (\<lambda>k. moved_timers (kernel C) (dEventTime (snd x)) (the (rlc_view C (fst x) (d, i, r, rin, k))) (gnew k)) entity_kinds)
          @ concat (map (\<lambda>k. moved_timers (kernel C) (dEventTime (snd x)) (the (rlc_view C (fst x) (r, rin, d, i, k))) (unew k)) entity_kinds)\<rparr>)"

definition pdcp_entities_moved ::
  "netsim_id \<Rightarrow> netsim_id \<Rightarrow> netsim_id \<Rightarrow> netsim_id \<Rightarrow> netsim_id \<Rightarrow> netsim_id \<Rightarrow> pdcp_state \<Rightarrow> pdcp_state \<Rightarrow> bool" where
  "pdcp_entities_moved d i r rin t tin st st' \<longleftrightarrow>
     (\<forall>j \<in> set all_sides. \<exists>ser e. pdcp_map st (place_of d i r rin j) = Some ser
        \<and> pdcp_map st' (place_of t tin r rin j) = Some e
        \<and> pdcp_carries (fst j = AtGnb) t ser (pdcp_entity_or_new st (place_of t tin r rin j)) e)
     \<and> (\<forall>p \<in> pdcp_places d i r rin. pdcp_map st' p = None)
     \<and> (\<forall>p. p \<notin> pdcp_places d i r rin \<union> pdcp_places t tin r rin \<longrightarrow> pdcp_map st' p = pdcp_map st p)"

lemma entity_or_new_key: "entity_key (entity_or_new C st key) = key"
  by (cases key) (auto simp: entity_or_new_def new_entity_key' split: option.splits dest: rlc_view_key)

lemma rlc_handed_over_moved:
  assumes "rlc_handed_over C d i r rin t tin x x'"
  shows "rlc_entities_moved C d i r rin t tin x x'"
proof -
  have out: "(\<lambda>p. p\<lparr>nTransmitterId := t\<rparr>) = readdressed_out (0 = (0::int)) t"
    "(\<lambda>p. p\<lparr>nReceiverId := t\<rparr>) = readdressed_out ((1::int) = 0) t"
    by (simp_all add: fun_eq_iff readdressed_out_def)
  have fields: "ent_d e = fst key \<and> peerId e = fst (snd (snd key)) \<and> rlcMode e = fst (snd (snd (snd (snd key))))"
    if "entity_key e = key" for e key
    using that by (auto simp: entity_key_def)
  have g: "rlc_carries True t gser (entity_or_new C (fst x) (t, tin, r, rin, k)) e"
    if "rlc_view C (fst x) (d, i, r, rin, k) = Some gser"
      and "same_but_timers e (moved 0 (\<lambda>p. p\<lparr>nTransmitterId := t\<rparr>) gser (entity_or_new C (fst x) (t, tin, r, rin, k)))" for k gser e
    using moved_carries [OF that(2) out(1)] fields [OF rlc_view_key [OF that(1)]] fields [OF entity_or_new_key] by simp
  have u: "rlc_carries False t user (entity_or_new C (fst x) (r, rin, t, tin, k)) e"
    if "rlc_view C (fst x) (r, rin, d, i, k) = Some user"
      and "same_but_timers e (moved 1 (\<lambda>p. p\<lparr>nReceiverId := t\<rparr>) user (entity_or_new C (fst x) (r, rin, t, tin, k)))" for k user e
    using moved_carries [OF that(2) out(2)] fields [OF rlc_view_key [OF that(1)]] fields [OF entity_or_new_key] by simp
  show ?thesis
    using assms unfolding rlc_handed_over_def rlc_entities_moved_def
    by (elim exE conjE, intro exI conjI; (assumption | (fast intro: g u)))
qed

lemma pdcp_handed_over_moved:
  assumes "pdcp_handed_over d i r rin t tin st st'"
  shows "pdcp_entities_moved d i r rin t tin st st'"
proof -
  have "pe_enbId (pdcp_entity_or_new st (place_of t tin r rin j)) = t" for j
    using pdcp_entity_or_new_key [of st "place_of t tin r rin j"] by (cases j) (auto simp: pdcp_key_def place_of_def)
  then show ?thesis
    using assms pdcp_take_over_carries unfolding pdcp_handed_over_def pdcp_entities_moved_def by blast
qed

text \<open>
  C3. A handover moves the RLC entities. When the UE is associated with the serving cell and the
  target cell is there, the handler of the handover command succeeds; the five entities the target
  and the UE then have for each other hold the buffers, the counters, the receive window, the
  records of received segments and the buffer status of those the serving cell and the UE had,
  with the packets readdressed to the target; the timers that ran are deleted and set anew; the
  old entities are gone, and those of all other devices are as before.
\<close>

theorem handover_moves_rlc:
  assumes "handover_ready X hdr s"
  shows "\<exists>s'. fn_NetSim_LTENR_NAS_GENERATE_HANDOVER_COMMAND_HANDLE X hdr s = Inr s'
    \<and> rlc_entities_moved (coreX X) (serveringCellID hdr) (serveringCellIF hdr) (UEID hdr) (UEIF hdr)
        (targetCellID hdr) (targetCellIF hdr) (x_rlc s, x_event s) (x_rlc s', x_event s')"
  using handover_run [OF assms refl refl refl refl refl refl refl] rlc_handed_over_moved by blast

text \<open>
  C5. A handover moves the PDCP entities: those of the target and the UE get the transmission
  buffers, with the gNB of the packets changed, the receive buffers, the numbers of both
  directions and the receive window of those of the serving cell, and keep the configuration and
  the timers they have from the association; the entities of the serving cell are removed with
  their two timers cancelled; no other entity changes.
\<close>

theorem handover_moves_pdcp:
  assumes "handover_ready X hdr s"
  shows "\<exists>s'. fn_NetSim_LTENR_NAS_GENERATE_HANDOVER_COMMAND_HANDLE X hdr s = Inr s'
    \<and> pdcp_entities_moved (serveringCellID hdr) (serveringCellIF hdr) (UEID hdr) (UEIF hdr)
        (targetCellID hdr) (targetCellIF hdr) (x_pdcp s) (x_pdcp s')
    \<and> x_pdcp_event s' = (x_pdcp_event s)\<lparr>pv_trace := pv_trace (x_pdcp_event s)
        @ all_released (x_pdcp s) (serveringCellID hdr) (serveringCellIF hdr) (UEID hdr) (UEIF hdr) all_modes\<rparr>"
  using handover_run [OF assms refl refl refl refl refl refl refl] pdcp_handed_over_moved by blast

text \<open>
  C4. The handover command interrupts the UE and then connects it to the target. On the command
  the UE becomes inactive, and the handler is set for the start of the handover plus the
  interruption time, or for now when this has passed. When it is called the UE becomes connected
  to the target, which then has it as associated, while the serving cell does not; in between the
  link of the UE is changed, and the core is told last.
\<close>

theorem handover_command_connects:
  assumes ready: "handover_ready X hdr s"
    and hdr: "d = serveringCellID hdr" "i = serveringCellIF hdr" "r = UEID hdr" "rin = UEIF hdr"
      "t = targetCellID hdr" "tin = targetCellIF hdr"
    and rrc: "x_gnb_rrc s (d, i) = Some gnb"
  shows "\<exists>s1 s' m T freed. fn_NetSim_LTENR_NAS_HANDOVER_COMMAND_RECV X hdr s = Inr s1
    \<and> T = max (x_time s) (HandoverStartTime hdr + InterruptionTime gnb)
    \<and> x_trace s1 = x_trace s @ [CommandHandle T (nDeviceId (x_event s)) (nInterfaceId (x_event s)) hdr]
    \<and> ue_rrc (x_pdcp s1) (r, rin) = Some m \<and> ueRRCState m = UERRC_INACTIVE
    \<and> fn_NetSim_LTENR_NAS_GENERATE_HANDOVER_COMMAND_HANDLE X hdr
        (s1\<lparr>x_event := (x_event s1)\<lparr>dEventTime := T\<rparr>\<rparr>) = Inr s'
    \<and> ue_rrc (x_pdcp s') (r, rin) = Some (command_rrc t tin m)
    \<and> ue_phy (x_phy s') (r, rin) = Some (t, tin)
    \<and> phy_associated (x_phy s') (t, tin) (r, rin) \<and> \<not> phy_associated (x_phy s') (d, i) (r, rin)
    \<and> x_trace s' = x_trace s1 @ [AssociateInfoRemove d i r rin, AssociateInfoAdd t tin r rin]
         @ associate_calls t tin r rin @ freed @ [RemoveDeviceFromLink r rin (nLinkId X d i),
            AddDeviceToLink r rin (nLinkId X t tin), RRCReconfiguration r rin t tin, CorePathSwitch hdr]"
proof -
  define sif where "sif = fn_NetSim_LTENR_SEC_INTEFACE_FOR_UE (pdcpE (hoE X)) r rin"
  have "ue_rrc (x_pdcp s) (r, rin) \<noteq> None" "ue_rrc (x_pdcp s) (r, sif) \<noteq> None"
    using ready unfolding handover_ready_def Let_def hdr sif_def by blast+
  then obtain u v where uv: "ue_rrc (x_pdcp s) (r, rin) = Some u" "ue_rrc (x_pdcp s) (r, sif) = Some v" by blast
  let ?T = "max (x_time s) (HandoverStartTime hdr + InterruptionTime gnb)"
  have T: "x_time s + max (InterruptionTime gnb - (x_time s - HandoverStartTime hdr)) 0 = ?T"
    by (simp add: max_def)
  have "\<exists>s1 m. fn_NetSim_LTENR_NAS_HANDOVER_COMMAND_RECV X hdr s = Inr s1
    \<and> x_trace s1 = x_trace s @ [CommandHandle ?T (nDeviceId (x_event s)) (nInterfaceId (x_event s)) hdr]
    \<and> ue_rrc (x_pdcp s1) (r, rin) = Some m \<and> ueRRCState m = UERRC_INACTIVE \<and> ue_rrc (x_pdcp s1) (r, sif) \<noteq> None
    \<and> (\<exists>q. s1 = s\<lparr>x_pdcp := (x_pdcp s)\<lparr>ue_rrc := q\<rparr>, x_trace := x_trace s1\<rparr>)"
    using uv rrc T
    by (cases "sif = rin")
      (auto simp: fn_NetSim_LTENR_NAS_HANDOVER_COMMAND_RECV_def fn_NetSim_LTENR_NAS_HANDOVER_COMMAND_HANDLE_def
        x_uerrc_upd_def x_uerrc_def x_uerrc_put_def x_out_def Let_def hdr sif_def)
  then obtain s1 m q where s1: "fn_NetSim_LTENR_NAS_HANDOVER_COMMAND_RECV X hdr s = Inr s1"
      "x_trace s1 = x_trace s @ [CommandHandle ?T (nDeviceId (x_event s)) (nInterfaceId (x_event s)) hdr]"
      "ue_rrc (x_pdcp s1) (r, rin) = Some m" "ueRRCState m = UERRC_INACTIVE" "ue_rrc (x_pdcp s1) (r, sif) \<noteq> None"
    and eq: "s1 = s\<lparr>x_pdcp := (x_pdcp s)\<lparr>ue_rrc := q\<rparr>, x_trace := x_trace s1\<rparr>" by blast
  let ?s2 = "s1\<lparr>x_event := (x_event s1)\<lparr>dEventTime := ?T\<rparr>\<rparr>"
  have "x_rlc s1 = x_rlc s" "x_phy s1 = x_phy s" "x_gnb_rrc s1 = x_gnb_rrc s" "x_pdcp s1 = (x_pdcp s)\<lparr>ue_rrc := q\<rparr>"
    by (subst eq; simp)+
  moreover from this(4) have "q (r, rin) \<noteq> None" "q (r, sif) \<noteq> None" using s1(3,5) by simp_all
  ultimately have "handover_ready X hdr ?s2"
    using ready unfolding handover_ready_def Let_def sif_def hdr by (simp add: phy_ready_def)
  from handover_run [OF this hdr refl] s1 show ?thesis by fastforce
qed

lemma rlc_view_find:
  "LTENR_RLC_FINDENTITY C st d i p pif m tx rx = None \<longleftrightarrow> rlc_view C st (d, i, p, pif, m, tx, rx) = None"
  by (simp add: rlc_view_def FINDENTITY_list view_find_pos)

lemma rlc_handed_over_gone:
  assumes "rlc_handed_over C d i r rin t tin (st, ev) (st', ev')"
  shows "key \<in> both_keys d i r rin \<Longrightarrow> rlc_view C st' key = None"
    and "key \<notin> both_keys d i r rin \<union> both_keys t tin r rin \<Longrightarrow> rlc_view C st' key = rlc_view C st key"
  using assms unfolding rlc_handed_over_def fst_conv by blast+

lemma rlc_handed_over_new:
  assumes "rlc_handed_over C d i r rin t tin (st, ev) (st', ev')" and "k \<in> set entity_kinds"
    and "rlc_view C st (d, i, r, rin, k) = Some ser"
  shows "\<exists>e. rlc_view C st' (t, tin, r, rin, k) = Some e
    \<and> same_but_timers e (moved 0 (\<lambda>p. p\<lparr>nTransmitterId := t\<rparr>) ser (entity_or_new C st (t, tin, r, rin, k)))"
proof -
  from assms(1) obtain gnew where "\<forall>k \<in> set entity_kinds. \<exists>gser.
      rlc_view C st (d, i, r, rin, k) = Some gser \<and> rlc_view C st' (t, tin, r, rin, k) = Some (gnew k)
      \<and> same_but_timers (gnew k) (moved 0 (\<lambda>p. p\<lparr>nTransmitterId := t\<rparr>) gser (entity_or_new C st (t, tin, r, rin, k)))"
    unfolding rlc_handed_over_def fst_conv by blast
  from bspec [OF this assms(2)] assms(3) show ?thesis by auto
qed

lemma same_but_timers_buffers:
  assumes "same_but_timers e e'"
  shows "transmittedBuffer e = transmittedBuffer e'" "transmissionBuffer e = transmissionBuffer e'"
    "retransmissionBuffer e = retransmissionBuffer e'"
  using assms by (cases e; cases e'; simp add: same_but_timers_def)+

abbreviation "am_kind \<equiv> (LTENR_RLCMODE_AM, True, True)"

text \<open>
  C6. The PDUs that wait for an acknowledgement when a handover comes are lost. The new entity of
  the target has them, but unlike those of the other two buffers they still name the serving cell
  as their transmitter; and a PDU of the serving cell that arrives at the UE after the handover
  changes nothing there: it is neither delivered nor reported as missing, and not freed.
\<close>

theorem handover_strands_unacknowledged:
  assumes ready: "handover_ready X hdr s"
    and hdr: "d = serveringCellID hdr" "i = serveringCellIF hdr" "r = UEID hdr" "rin = UEIF hdr"
      "t = targetCellID hdr" "tin = targetCellIF hdr"
    and ser: "rlc_view (coreX X) (x_rlc s) (d, i, r, rin, am_kind) = Some ser"
    and only: "d \<noteq> t" "\<forall>pif. pif \<noteq> i \<longrightarrow> rlc_view (coreX X) (x_rlc s) (r, rin, d, pif, am_kind) = None"
  shows "\<exists>s' e. fn_NetSim_LTENR_NAS_GENERATE_HANDOVER_COMMAND_HANDLE X hdr s = Inr s'
    \<and> rlc_view (coreX X) (x_rlc s') (t, tin, r, rin, am_kind) = Some e
    \<and> transmittedBuffer e = transmittedBuffer ser
    \<and> (\<forall>b \<in> set (transmissionBuffer e @ retransmissionBuffer e). nTransmitterId (data_packet b) = t)
    \<and> (\<forall>ev p. nDeviceId ev = r \<and> nInterfaceId ev = rin \<and> pPacket ev = Some p \<and> nTransmitterId p = d
        \<longrightarrow> LTENR_RLC_AM_RECEIVE_PDU (coreX X) (x_rlc s') ev = Inr (x_rlc s', ev))"
proof -
  from handover_run [OF ready hdr refl] obtain s'
    where run: "fn_NetSim_LTENR_NAS_GENERATE_HANDOVER_COMMAND_HANDLE X hdr s = Inr s'"
      and over: "rlc_handed_over (coreX X) d i r rin t tin (x_rlc s, x_event s) (x_rlc s', x_event s')" by blast
  have kind: "am_kind \<in> set entity_kinds" by (simp add: entity_kinds_def)
  from rlc_handed_over_new [OF over kind ser] obtain e where e: "rlc_view (coreX X) (x_rlc s') (t, tin, r, rin, am_kind) = Some e"
    "same_but_timers e (moved 0 (\<lambda>p. p\<lparr>nTransmitterId := t\<rparr>) ser (entity_or_new (coreX X) (x_rlc s) (t, tin, r, rin, am_kind)))"
    by blast
  have ne: "(r, rin) \<noteq> (d, i)"
    using ready unfolding handover_ready_def Let_def hdr by (auto simp: pair_ready_def isGNB_def isUE_def)
  have "rlc_view (coreX X) (x_rlc s') (r, rin, d, pif, am_kind) = None" for pif
  proof (cases "pif = i")
    case True
    then have "(r, rin, d, pif, am_kind) \<in> both_keys d i r rin" using kind by simp
    then show ?thesis by (rule rlc_handed_over_gone(1) [OF over])
  next
    case False
    then have "(r, rin, d, pif, am_kind) \<notin> both_keys d i r rin \<union> both_keys t tin r rin"
      using only(1) ne unfolding Un_iff both_keys_sides by auto
    from rlc_handed_over_gone(2) [OF over this] show ?thesis using only(2) False by simp
  qed
  then have "LTENR_RLC_AM_RECEIVE_PDU (coreX X) (x_rlc s') ev = Inr (x_rlc s', ev)"
    if "nDeviceId ev = r" "nInterfaceId ev = rin" "pPacket ev = Some p" "nTransmitterId p = d" for ev p
    using that by (simp add: LTENR_RLC_AM_RECEIVE_PDU_def Let_def flip: rlc_view_find)
  moreover have "transmittedBuffer e = transmittedBuffer ser"
    "\<forall>b \<in> set (transmissionBuffer e @ retransmissionBuffer e). nTransmitterId (data_packet b) = t"
    by (simp_all add: same_but_timers_buffers [OF e(2)] moved_def rlc_take_over_def Let_def ball_Un)
  ultimately show ?thesis using run e(1) by blast
qed

section \<open>An example\<close>

text \<open>UE 9 at cell 1, with one PDU that waits for its acknowledgement; cell 2 is the target.\<close>

definition ex_env :: exec_env where
  "ex_env = \<lparr>hoE = plain_ho False,
     epcE = \<lparr>epcP = plain_pdcp_env, hlr_lib = plain_list_lib, nNumOfInterface = (\<lambda>_. 2), ltenr_protocol = (\<lambda>_ _. True),
       fn_NetSim_Stack_GetConnectedDevice = (\<lambda>d i. (8, 1)), get_first_dest_from_packet = nReceiverId,
       isBroadcastPacket = (\<lambda>_. False), isMulticastPacket = (\<lambda>_. False), fn_NetSim_GetBufferStatus = (\<lambda>b. b \<noteq> []),
       fn_NetSim_Packet_AddPacketToList = (\<lambda>b p. b @ [p])\<rparr>,
     phy_lib = plain_list_lib, nLinkId = (\<lambda>d i. d)\<rparr>"

definition ex_rlc0 :: rlc_state where
  "ex_rlc0 = (let v = Some \<lparr>t_reassembly = 5000, rlcEntities = []\<rparr> in
     \<lparr>ue_rlc = (\<lambda>x. if x = (9, 1) then v else None), gnb_rlc = (\<lambda>x. if x \<in> {(1, 1), (2, 1)} then v else None)\<rparr>)"

definition ex_waiting :: LTENR_RLCBUFFER_DATA where
  "ex_waiting = data_of ex_store 1"

definition ex_rlc :: rlc_state where
  "ex_rlc = (case LTENR_RLC_ASSOCIATION (coreX ex_env) 1 1 9 1 True ex_rlc0 of Inr st \<Rightarrow>
     (case rlc_at (coreX ex_env) st (1, 1, 9, 1, am_kind) of Some x \<Rightarrow>
        rlc_store (coreX ex_env) x ((rlc_load (coreX ex_env) st x)\<lparr>transmittedBuffer := [ex_waiting]\<rparr>) st))"

definition ex_pdcp0 :: pdcp_state where
  "ex_pdcp0 = (let v = Some (pdcp_new_var (LTENR_PROTODATA_GET plain_core_env 1 1)) in
     \<lparr>ue_pdcp = (\<lambda>x. if x = (9, 1) then v else None), gnb_pdcp = (\<lambda>x. if x \<in> {(1, 1), (2, 1)} then v else None),
      ue_rrc = (\<lambda>x. if x \<in> {(9, 1), (9, 2)} then Some ex_ue_rrc else None)\<rparr>)"

definition ex_exec :: exec_state where
  "ex_exec = \<lparr>x_event = RLC_AM_Rx_Props.ex_event, x_pdcp_event = PDCP_Props.ex_event, x_rlc = ex_rlc,
     x_pdcp = (case LTENR_PDCP_ASSOCIATION 1 1 9 1 True ex_pdcp0 PDCP_Props.ex_event of Inr (st, s) \<Rightarrow> st),
     x_gnb_rrc = (\<lambda>x. Some ex_gnb_rrc),
     x_phy = \<lparr>gnb_phy = (\<lambda>x. if x = (1, 1) then Some [\<lparr>ai_ueId = 9, ai_ueIf = 1, ai_isAssociated = True\<rparr>] else Some []),
       ue_phy = (\<lambda>x. if x = (9, 1) then Some (1, 1) else None)\<rparr>,
     x_hlr = (\<lambda>x. None), x_trace = []\<rparr>"

lemma ex_env_core: "core_environment (coreX ex_env)"
  using plain_core.core_environment_axioms
  by (simp add: core_environment_def ex_env_def plain_ho_def plain_core_env_def)

lemma ex_env_list: "list_library (phy_lib ex_env)"
  using plain.list_library_axioms by (simp add: ex_env_def)

lemma ex_env_sides: "isGNB (coreX ex_env) 1 1" "isGNB (coreX ex_env) 2 1" "isUE (coreX ex_env) 9 1"
  by (simp_all add: ex_env_def isGNB_def isUE_def)

lemma ex_rlc0_view: "rlc_view (coreX ex_env) ex_rlc0 key = None"
  by (cases key) (auto simp: rlc_view_def entity_list_def LTENR_RLC_GET_def ex_rlc0_def Let_def view_None_iff split: if_splits)

lemma ex_rlc0_ready: "pair_ready (coreX ex_env) ex_rlc0 1 1 9 1" "pair_ready (coreX ex_env) ex_rlc0 2 1 9 1"
proof -
  have "rlc_wf (coreX ex_env) ex_rlc0"
    by (auto simp: rlc_wf_def entity_list_def LTENR_RLC_GET_def ex_rlc0_def Let_def)
  then show "pair_ready (coreX ex_env) ex_rlc0 1 1 9 1" "pair_ready (coreX ex_env) ex_rlc0 2 1 9 1"
    using ex_env_sides by (simp_all add: pair_ready_def ex_rlc0_def Let_def)
qed

lemma new_entity_buffers [simp]: "noBuffers (new_entity C d i p pif k) = False"
  by (cases k) (simp add: new_entity_def Let_def)

lemma ex_rlc_facts:
  "pair_ready (coreX ex_env) ex_rlc 1 1 9 1" "pair_ready (coreX ex_env) ex_rlc 2 1 9 1"
  "\<forall>key \<in> both_keys 1 1 9 1. \<exists>e. rlc_view (coreX ex_env) ex_rlc key = Some e \<and> \<not> noBuffers e"
  "\<exists>e. rlc_view (coreX ex_env) ex_rlc (1, 1, 9, 1, am_kind) = Some e \<and> transmittedBuffer e = [ex_waiting]"
  "\<And>key. key \<notin> both_keys 1 1 9 1 \<Longrightarrow> rlc_view (coreX ex_env) ex_rlc key = None"
proof -
  let ?C = "coreX ex_env" and ?k = "(1, 1, 9, 1, am_kind)"
  from core_environment.association_view [OF ex_env_core ex_rlc0_ready(1)] obtain st
    where run: "LTENR_RLC_ASSOCIATION ?C 1 1 9 1 True ex_rlc0 = Inr st" and ready: "pair_ready ?C st 1 1 9 1"
      and view: "\<And>key. rlc_view ?C st key = (if key \<in> both_keys 1 1 9 1 then Some (entity_or_new ?C ex_rlc0 key) else None)"
      and slots: "\<forall>x. (ue_rlc st x = None) = (ue_rlc ex_rlc0 x = None) \<and> (gnb_rlc st x = None) = (gnb_rlc ex_rlc0 x = None)"
    unfolding ex_rlc0_view by blast
  have k: "?k \<in> both_keys 1 1 9 1" by (simp add: entity_kinds_def)
  then obtain x where x: "rlc_at ?C st ?k = Some x" using view [of ?k] by (auto simp: rlc_at_view)
  define e where "e = (rlc_load ?C st x)\<lparr>transmittedBuffer := [ex_waiting]\<rparr>"
  have load: "rlc_view ?C st ?k = Some (rlc_load ?C st x)" by (simp add: rlc_at_view x)
  then have key: "entity_key e = ?k" using rlc_view_key [OF load] by (simp add: e_def entity_key_def)
  have eq: "ex_rlc = rlc_store ?C x e st" by (simp add: ex_rlc_def run x e_def)
  note stored = rlc_store_view [OF x key, folded eq]
  show 1: "pair_ready ?C ex_rlc 1 1 9 1" by (rule pair_readyI [OF stored(2) ready])
  show "pair_ready ?C ex_rlc 2 1 9 1"
    using stored(2) slots by (intro pair_ready_slots [OF ex_rlc0_ready(2) pair_readyD(1) [OF 1]]) (simp add: same_keys_def)
  have buffers: "noBuffers (entity_or_new ?C ex_rlc0 key) = False" for key
    by (cases key) (simp add: entity_or_new_def ex_rlc0_view)
  moreover have "rlc_load ?C st x = entity_or_new ?C ex_rlc0 ?k" using load view [of ?k] k by simp
  then have "noBuffers e = False" by (simp add: e_def buffers)
  ultimately show "\<forall>key \<in> both_keys 1 1 9 1. \<exists>e. rlc_view ?C ex_rlc key = Some e \<and> \<not> noBuffers e"
    by (simp add: stored(1) view)
  show "\<exists>e. rlc_view ?C ex_rlc ?k = Some e \<and> transmittedBuffer e = [ex_waiting]"
    by (simp add: stored(1) e_def)
  show "rlc_view ?C ex_rlc key = None" if "key \<notin> both_keys 1 1 9 1" for key
    using that k by (auto simp: stored(1) view)
qed

lemma ex_pdcp0_view: "pdcp_map ex_pdcp0 p = None"
  by (cases p) (auto simp: pdcp_map_def pdcp_vars_def ex_pdcp0_def pdcp_new_var_def Let_def split: pdcp_side.splits)

lemma ex_pdcp0_ready: "vars_ready ex_pdcp0 1 1 9 1" "vars_ready ex_pdcp0 2 1 9 1"
proof -
  have "pdcp_wf ex_pdcp0"
    by (auto simp: pdcp_wf_def pdcp_vars_def ex_pdcp0_def pdcp_new_var_def Let_def split: pdcp_side.splits if_splits)
  then show "vars_ready ex_pdcp0 1 1 9 1" "vars_ready ex_pdcp0 2 1 9 1"
    by (simp_all add: vars_ready_def) (simp_all add: ex_pdcp0_def Let_def)
qed

lemma new_pdcp_entity_buffers: "pe_noBuffers (pdcp_entity_or_new ex_pdcp0 p) = False"
  by (cases p) (simp add: pdcp_entity_or_new_def ex_pdcp0_view new_pdcp_entity_def LTENR_PDCP_CreateNewEntity_def)

lemma ex_pdcp_facts:
  "vars_ready (x_pdcp ex_exec) 1 1 9 1" "vars_ready (x_pdcp ex_exec) 2 1 9 1"
  "\<forall>p \<in> pdcp_places 1 1 9 1. \<exists>e. pdcp_map (x_pdcp ex_exec) p = Some e \<and> \<not> pe_noBuffers e"
  "ue_rrc (x_pdcp ex_exec) = ue_rrc ex_pdcp0"
proof -
  from associate_modes [OF ex_pdcp0_ready(1), of all_modes] obtain st
    where st: "fold_result (pdcp_associate 1 1 9 1) all_modes ex_pdcp0 = Inr st" "pdcp_wf st" "same_config ex_pdcp0 st"
      "\<And>p. pdcp_map st p = (if p \<in> pdcp_places 1 1 9 1 then Some (pdcp_entity_or_new ex_pdcp0 p) else pdcp_map ex_pdcp0 p)"
    unfolding pdcp_places_modes by (auto simp: all_modes_def)
  have "LTENR_PDCP_ASSOCIATION 1 1 9 1 True ex_pdcp0 ev = Inr (st, ev)" for ev
    using pdcp_association_modes(1) [of ex_pdcp0 1 1 9 1 ev] ex_pdcp0_ready(1) st(1) by (simp add: vars_ready_def)
  then have eq: "x_pdcp ex_exec = st" by (simp add: ex_exec_def)
  show "vars_ready (x_pdcp ex_exec) 1 1 9 1" "vars_ready (x_pdcp ex_exec) 2 1 9 1"
    unfolding eq by (rule vars_ready_config [OF _ st(3,2)], rule ex_pdcp0_ready)+
  show "\<forall>p \<in> pdcp_places 1 1 9 1. \<exists>e. pdcp_map (x_pdcp ex_exec) p = Some e \<and> \<not> pe_noBuffers e"
    unfolding eq by (simp add: st(4) new_pdcp_entity_buffers)
  show "ue_rrc (x_pdcp ex_exec) = ue_rrc ex_pdcp0" unfolding eq by (rule same_config_rrc [OF st(3)])
qed

lemma ex_hdr_fields [simp]:
  "serveringCellID ex_ho_hdr = 1" "serveringCellIF ex_ho_hdr = 1" "UEID ex_ho_hdr = 9" "UEIF ex_ho_hdr = 1"
  "targetCellID ex_ho_hdr = 2" "targetCellIF ex_ho_hdr = 1" "HandoverStartTime ex_ho_hdr = 0"
  by (simp_all add: ex_ho_hdr_def)

lemma ex_ready: "handover_ready ex_env ex_ho_hdr ex_exec"
proof -
  have "fn_NetSim_LTENR_SEC_INTEFACE_FOR_UE (pdcpE (hoE ex_env)) 9 1 = 2"
    "\<not> fn_NetSim_LTENR_IS_S1_INTERFACE_EXISTS (hoE ex_env) 1" "\<not> fn_NetSim_LTENR_IS_S1_INTERFACE_EXISTS (hoE ex_env) 2"
    by (simp_all add: ex_env_def plain_ho_def plain_pdcp_env_def)
  moreover have "phy_ready ex_exec 1 1 9 1" "phy_ready ex_exec 2 1 9 1" "x_rlc ex_exec = ex_rlc"
    by (simp_all add: phy_ready_def ex_exec_def)
  moreover have "ue_rrc ex_pdcp0 (9, 1) \<noteq> None" "ue_rrc ex_pdcp0 (9, 2) \<noteq> None" by (simp_all add: ex_pdcp0_def Let_def)
  ultimately show ?thesis
    using ex_env_core ex_env_list ex_rlc_facts(1-3) ex_pdcp_facts
    unfolding handover_ready_def Let_def ex_hdr_fields by simp
qed

lemma handover_moves_rlc_witness:
  "\<exists>s'. fn_NetSim_LTENR_NAS_GENERATE_HANDOVER_COMMAND_HANDLE ex_env ex_ho_hdr ex_exec = Inr s'
    \<and> (\<exists>e. rlc_view (coreX ex_env) (x_rlc s') (2, 1, 9, 1, am_kind) = Some e \<and> transmittedBuffer e = [ex_waiting])"
proof -
  from handover_moves_rlc [OF ex_ready] obtain s'
    where run: "fn_NetSim_LTENR_NAS_GENERATE_HANDOVER_COMMAND_HANDLE ex_env ex_ho_hdr ex_exec = Inr s'"
      and over: "rlc_entities_moved (coreX ex_env) 1 1 9 1 2 1 (ex_rlc, x_event ex_exec) (x_rlc s', x_event s')"
    by (auto simp: ex_exec_def)
  obtain ser where ser: "rlc_view (coreX ex_env) ex_rlc (1, 1, 9, 1, am_kind) = Some ser" "transmittedBuffer ser = [ex_waiting]"
    using ex_rlc_facts(4) by blast
  have "am_kind \<in> set entity_kinds" by (simp add: entity_kinds_def)
  with over obtain e gser where "rlc_view (coreX ex_env) ex_rlc (1, 1, 9, 1, am_kind) = Some gser"
    "rlc_view (coreX ex_env) (x_rlc s') (2, 1, 9, 1, am_kind) = Some e"
    "rlc_carries True 2 gser (entity_or_new (coreX ex_env) ex_rlc (2, 1, 9, 1, am_kind)) e"
    unfolding rlc_entities_moved_def fst_conv by blast
  with ser run show ?thesis by (auto simp: rlc_carries_def)
qed

lemma handover_moves_pdcp_witness:
  "\<exists>s' e. fn_NetSim_LTENR_NAS_GENERATE_HANDOVER_COMMAND_HANDLE ex_env ex_ho_hdr ex_exec = Inr s'
    \<and> pdcp_map (x_pdcp s') (place_of 2 1 9 1 (AtUe, LTENR_RLCMODE_AM)) = Some e
    \<and> pdcp_map (x_pdcp s') (place_of 1 1 9 1 (AtUe, LTENR_RLCMODE_AM)) = None"
proof -
  from handover_moves_pdcp [OF ex_ready] obtain s'
    where run: "fn_NetSim_LTENR_NAS_GENERATE_HANDOVER_COMMAND_HANDLE ex_env ex_ho_hdr ex_exec = Inr s'"
      and over: "pdcp_entities_moved 1 1 9 1 2 1 (x_pdcp ex_exec) (x_pdcp s')" by auto
  have j: "(AtUe, LTENR_RLCMODE_AM) \<in> set all_sides" by (simp add: all_sides_def all_modes_def)
  then have "place_of 1 1 9 1 (AtUe, LTENR_RLCMODE_AM) \<in> pdcp_places 1 1 9 1" by (simp add: pdcp_places_def)
  with over j run show ?thesis unfolding pdcp_entities_moved_def by blast
qed

lemma handover_command_connects_witness:
  "\<exists>s1 s' m. fn_NetSim_LTENR_NAS_HANDOVER_COMMAND_RECV ex_env ex_ho_hdr ex_exec = Inr s1
    \<and> ue_rrc (x_pdcp s1) (9, 1) = Some m \<and> ueRRCState m = UERRC_INACTIVE
    \<and> fn_NetSim_LTENR_NAS_GENERATE_HANDOVER_COMMAND_HANDLE ex_env ex_ho_hdr (s1\<lparr>x_event := (x_event s1)\<lparr>dEventTime := 0\<rparr>\<rparr>) = Inr s'
    \<and> ue_rrc (x_pdcp s') (9, 1) = Some (command_rrc 2 1 m)"
proof -
  have "x_gnb_rrc ex_exec (serveringCellID ex_ho_hdr, serveringCellIF ex_ho_hdr) = Some ex_gnb_rrc"
    "x_time ex_exec = 0" "InterruptionTime ex_gnb_rrc = 0"
    by (simp_all add: ex_exec_def x_time_def RLC_AM_Rx_Props.ex_event_def ex_gnb_rrc_def)
  from handover_command_connects [OF ex_ready refl refl refl refl refl refl this(1)] this(2,3) show ?thesis
    by (auto simp: ex_hdr_fields)
qed

lemma handover_strands_unacknowledged_witness:
  "\<exists>s' e. fn_NetSim_LTENR_NAS_GENERATE_HANDOVER_COMMAND_HANDLE ex_env ex_ho_hdr ex_exec = Inr s'
    \<and> rlc_view (coreX ex_env) (x_rlc s') (2, 1, 9, 1, am_kind) = Some e
    \<and> transmittedBuffer e = [ex_waiting] \<and> nTransmitterId (data_packet ex_waiting) = 1
    \<and> (\<forall>ev. nDeviceId ev = 9 \<and> nInterfaceId ev = 1 \<and> pPacket ev = Some (data_packet ex_waiting)
        \<longrightarrow> LTENR_RLC_AM_RECEIVE_PDU (coreX ex_env) (x_rlc s') ev = Inr (x_rlc s', ev))"
proof -
  obtain ser where ser: "rlc_view (coreX ex_env) (x_rlc ex_exec) (1, 1, 9, 1, am_kind) = Some ser"
      "transmittedBuffer ser = [ex_waiting]"
    using ex_rlc_facts(4) by (auto simp: ex_exec_def)
  have "(9, 1, 1, pif, am_kind) \<notin> both_keys 1 1 9 1" if "pif \<noteq> 1" for pif
    using that unfolding both_keys_sides by simp
  then have "rlc_view (coreX ex_env) (x_rlc ex_exec) (9, 1, 1, pif, am_kind) = None" if "pif \<noteq> 1" for pif
    using that ex_rlc_facts(5) by (simp add: ex_exec_def)
  moreover have "nTransmitterId (data_packet ex_waiting) = 1"
    by (simp add: ex_waiting_def data_of_def ex_store_def ex_node_def ex_packet_def plain_pkt_defs node_data_def LTENR_RLCBUFFER_DATA.defs)
  ultimately show ?thesis
    using handover_strands_unacknowledged [OF ex_ready refl refl refl refl refl refl, of ser] ser by auto
qed

end
