(* ===== verification/SN_Handover_Props.thy ===== *)
theory SN_Handover_Props
  imports Handover_Exec_Props
begin

text \<open>
  The change of the secondary cell when the secondary cell has PDCP entities of its own: it never
  comes to its end.
\<close>

section \<open>The PDCP transfer of the change\<close>

lemma first_mode_keys:
  "first_mode (pdcp_vars st a x) = (case chain_keys st a x of Some (k # ks) \<Rightarrow> Inr (snd (snd (snd (snd k)))) | _ \<Rightarrow> Inl NullDeref)"
  by (auto simp: chain_keys_def first_mode_def pdcp_key_def split: option.splits list.splits)

lemma vars_side: "gnb_pdcp st = pdcp_vars st AtGnb" "ue_pdcp st = pdcp_vars st AtUe"
  by (simp_all add: pdcp_vars_def fun_eq_iff)

lemma chain_not_empty:
  assumes "pdcp_map st (a, x, k) \<noteq> None"
  shows "\<exists>m. first_mode (pdcp_vars st a x) = Inr m"
  using assms by (cases "pdcp_vars st a x"; cases "pdcpEntity (the (pdcp_vars st a x))")
    (auto simp: pdcp_map_def first_mode_def)

text \<open>All modes are there for a cell and the UE, at both.\<close>

definition all_there :: "pdcp_state \<Rightarrow> netsim_id \<Rightarrow> netsim_id \<Rightarrow> netsim_id \<Rightarrow> netsim_id \<Rightarrow> bool" where
  "all_there st g gi u ui \<longleftrightarrow> (\<forall>j. pdcp_map st (place_of g gi u ui j) \<noteq> None)"

lemma all_sides_all: "j \<in> set all_sides"
proof -
  obtain a m where j: "j = (a, m)" by (cases j)
  show ?thesis by (cases a; cases m) (simp_all add: j all_sides_def all_modes_def)
qed

lemma first_mode_found:
  assumes "all_there st g gi u ui"
  shows "\<exists>m. first_mode (gnb_pdcp st (g, gi)) = Inr m" and "\<exists>m. first_mode (ue_pdcp st (u, ui)) = Inr m"
proof -
  have "pdcp_map st (AtGnb, (g, gi), (g, gi, u, ui, LTENR_RLCMODE_AM)) \<noteq> None"
    "pdcp_map st (AtUe, (u, ui), (g, gi, u, ui, LTENR_RLCMODE_AM)) \<noteq> None"
    using assms [unfolded all_there_def, rule_format, of "(AtGnb, LTENR_RLCMODE_AM)"]
      assms [unfolded all_there_def, rule_format, of "(AtUe, LTENR_RLCMODE_AM)"]
    by (simp_all add: place_of_def)
  then show "\<exists>m. first_mode (gnb_pdcp st (g, gi)) = Inr m" "\<exists>m. first_mode (ue_pdcp st (u, ui)) = Inr m"
    unfolding vars_side by (blast intro: chain_not_empty)+
qed

lemma transfer_bereft:
  assumes "pdcp_map st ps = Some s" and "pe_noBuffers s" and "pdcp_map st pt \<noteq> None"
  shows "fn_NetSim_LTENR_NAS_PDCP_BUFFER_TRANSFER (pdcp_at st ps) (pdcp_at st pt) flag st = Inl NullDeref"
proof -
  from assms(3) obtain e where "pdcp_map st pt = Some e" by blast
  from pdcp_at_load [OF this] pdcp_at_load [OF assms(1)] assms(2) show ?thesis
    by (auto simp: fn_NetSim_LTENR_NAS_PDCP_BUFFER_TRANSFER_def)
qed

text \<open>
  The first transfer empties the entity of the gNB; the second finds the same entity and
  dereferences its buffer.
\<close>

lemma sn_transfer_twice:
  assumes there: "all_there st d i r rin" "all_there st t tin r rin" and ne: "(d, i) \<noteq> (t, tin)" and wf: "pdcp_wf st"
    and buffers: "\<forall>j e. pdcp_map st (place_of d i r rin j) = Some e \<longrightarrow> \<not> pe_noBuffers e"
  shows "rbind (sn_pdcp_transfer d i r rin t tin st) (sn_pdcp_transfer d i r rin t tin) = Inl NullDeref"
proof -
  obtain sm where sm: "first_mode (gnb_pdcp st (d, i)) = Inr sm" using first_mode_found(1) [OF there(1)] by blast
  obtain tm where tm: "first_mode (gnb_pdcp st (t, tin)) = Inr tm" using first_mode_found(1) [OF there(2)] by blast
  obtain um where um: "first_mode (ue_pdcp st (r, rin)) = Inr um" using first_mode_found(2) [OF there(1)] by blast
  let ?S = "place_of d i r rin" and ?T = "place_of t tin r rin"
  have at: "pdcp_map st (?S j) \<noteq> None" "pdcp_map st (?T j) \<noteq> None" for j
    using there unfolding all_there_def by blast+
  then obtain s e where s: "pdcp_map st (?S (AtGnb, sm)) = Some s" and e: "pdcp_map st (?T (AtGnb, tm)) = Some e" by blast
  have "\<not> pe_noBuffers s" using buffers s by blast
  from pdcp_transfer_one [OF s e place_of_ne [OF ne] this wf, of 0] obtain st1
    where st1: "pdcp_gnb_transfer d i r rin t tin sm tm st = Inr st1" "pdcp_wf st1" "chain_keys st1 = chain_keys st"
      "pdcp_map st1 = (pdcp_map st)(?T (AtGnb, tm) \<mapsto> pdcp_take_over 0 s e, ?S (AtGnb, sm) \<mapsto> pdcp_bereft s)"
    using transfer_places(1) [OF at] by metis
  have um1: "first_mode (ue_pdcp st1 (r, rin)) = Inr um"
    using um unfolding vars_side first_mode_keys st1(3) .
  have ue: "pdcp_map st1 (?S (AtUe, um)) = pdcp_map st (?S (AtUe, um))" "pdcp_map st1 (?T (AtUe, um)) = pdcp_map st (?T (AtUe, um))"
    by (simp_all add: st1(4) place_of_def)
  have "pdcp_map st1 (?S (AtUe, um)) \<noteq> None" "pdcp_map st1 (?T (AtUe, um)) \<noteq> None" unfolding ue by (rule at)+
  then obtain s' e' where s': "pdcp_map st1 (?S (AtUe, um)) = Some s'" and e': "pdcp_map st1 (?T (AtUe, um)) = Some e'"
    by blast
  have "\<not> pe_noBuffers s'" using buffers s' ue(1) by metis
  from pdcp_transfer_one [OF s' e' place_of_ne [OF ne] this st1(2), of 1] obtain st2
    where st2: "pdcp_ue_transfer d i r rin t tin um st1 = Inr st2" "chain_keys st2 = chain_keys st1"
      "pdcp_map st2 = (pdcp_map st1)(?T (AtUe, um) \<mapsto> pdcp_take_over 1 s' e', ?S (AtUe, um) \<mapsto> pdcp_bereft s')"
    using transfer_places(2) [of st1 d i r rin AtUe um t tin um, OF _ _ refl refl] s' e' by (metis option.distinct(1))
  have first: "sn_pdcp_transfer d i r rin t tin st = Inr st2"
    by (simp add: sn_pdcp_transfer_def sm tm st1(1) um1 st2(1))
  have modes: "first_mode (gnb_pdcp st2 (d, i)) = Inr sm" "first_mode (gnb_pdcp st2 (t, tin)) = Inr tm"
    using sm tm unfolding vars_side first_mode_keys st2(2) st1(3) .
  have S1: "pdcp_map st1 (?S (AtGnb, sm)) = Some (pdcp_bereft s)" by (simp add: st1(4))
  have T1: "pdcp_map st1 (?T (AtGnb, tm)) \<noteq> None" by (simp add: st1(4))
  have S2: "pdcp_map st2 (?S (AtGnb, sm)) = Some (pdcp_bereft s)"
    unfolding st2(3) using S1 by (simp add: place_of_def)
  have T2: "pdcp_map st2 (?T (AtGnb, tm)) \<noteq> None"
    unfolding st2(3) using T1 by (simp add: place_of_def)
  have S2': "pdcp_map st2 (?S (AtGnb, sm)) \<noteq> None" unfolding S2 by simp
  have "pe_noBuffers (pdcp_bereft s)" by (simp add: pdcp_bereft_def)
  note twice = transfer_bereft [OF S2 this T2]
  have "pdcp_gnb_transfer d i r rin t tin sm tm st2 = Inl NullDeref"
    unfolding transfer_places(1) [OF S2' T2 refl] by (rule twice)
  then have "sn_pdcp_transfer d i r rin t tin st2 = Inl NullDeref" unfolding sn_pdcp_transfer_def modes by simp
  then show ?thesis by (simp add: first)
qed

section \<open>The change\<close>

text \<open>
  C7. When the secondary cell has PDCP entities of its own, in a split at the core or an X
  option, the release of the old secondary cell never returns: the transfer of the PDCP entities
  is written twice, and its second run dereferences the buffer that the first has taken from the
  old cell's entity.
\<close>

theorem sn_change_split_faults:
  assumes hdr: "d = sn_SNID hdr" "i = sn_SNIF hdr" "r = sn_ueID hdr" "rin = sn_ueIF hdr" "t = sn_TSNID hdr" "tin = sn_TSNIF hdr"
    and split: "fn_NetSim_LTENR_NSA_IS_CORE_SPLIT_EXISTS (pdcpE (hoE X)) r rin \<or> fn_NetSim_LTENR_NSA_IS_OPTION_X_EXISTS (pdcpE (hoE X)) r rin"
    and ready: "vars_ready (x_pdcp s) d i r rin" "vars_ready (x_pdcp s) t tin r rin" "(d, i) \<noteq> (t, tin)"
      "core_environment (coreX X)" "list_library (phy_lib X)" "pair_ready (coreX X) (x_rlc s) t tin r rin" "phy_ready s t tin r rin"
      "\<not> fn_NetSim_LTENR_IS_S1_INTERFACE_EXISTS (hoE X) t"
    and there: "\<forall>p \<in> pdcp_places d i r rin. \<exists>e. pdcp_map (x_pdcp s) p = Some e \<and> \<not> pe_noBuffers e"
  shows "fn_NetSim_LTENR_DC_HO_SN_RELEASE_RECV X hdr s = Inl NullDeref"
proof -
  let ?a3 = "x_out (AssociateInfoAdd t tin r rin) (x_out (AssociateInfoRemove d i r rin) s)"
  have "phy_ready ?a3 t tin r rin" using ready(7) by (simp add: phy_ready_def x_out_def)
  from phy_associate [OF ready(5) this ready(8)] obtain phy rrcs calls
    where a4: "LTENR_PHY_ASSOCIATION X t tin r rin True ?a3 = Inr (?a3\<lparr>x_phy := phy, x_gnb_rrc := rrcs, x_trace := calls\<rparr>)" by blast
  from core_environment.association_view [OF ready(4,6)] obtain rl
    where rl: "LTENR_RLC_ASSOCIATION (coreX X) t tin r rin True (x_rlc s) = Inr rl" by blast
  define a5 where "a5 = ?a3\<lparr>x_phy := phy, x_gnb_rrc := rrcs, x_trace := calls, x_rlc := rl\<rparr>"
  have run: "rbind (LTENR_PHY_ASSOCIATION X t tin r rin True ?a3) (\<lambda>a4. rbind (x_rlc_association X t tin r rin True a4) f) = f a5"
    for f :: "exec_state \<Rightarrow> exec_state result"
    unfolding a4 using rl by (simp add: x_rlc_association_def a5_def x_out_def)
  have a5: "x_pdcp a5 = x_pdcp s" by (simp add: a5_def x_out_def)
  have modes: "distinct all_modes" by (simp add: all_modes_def)
  from associate_modes [OF ready(2) modes] obtain st1
    where st1: "fold_result (pdcp_associate t tin r rin) all_modes (x_pdcp s) = Inr st1" "pdcp_wf st1"
      "\<And>p. pdcp_map st1 p = (if p \<in> pdcp_places t tin r rin then Some (pdcp_entity_or_new (x_pdcp s) p) else pdcp_map (x_pdcp s) p)"
    unfolding pdcp_places_modes by blast
  have vars: "gnb_pdcp (x_pdcp s) (t, tin) \<noteq> None" "ue_pdcp (x_pdcp s) (r, rin) \<noteq> None" using ready(2) by (simp_all add: vars_ready_def)
  from pdcp_association_modes(1) [OF vars, of "x_pdcp_event a5"] st1(1)
  have assoc: "x_pdcp_association t tin r rin True a5 = Inr (a5\<lparr>x_pdcp := st1\<rparr>)"
    by (simp add: x_pdcp_association_def a5)
  have old: "pdcp_map st1 (place_of d i r rin j) = pdcp_map (x_pdcp s) (place_of d i r rin j)" for j
    using place_of_ne [OF ready(3), of r rin j] by (simp add: st1(3) pdcp_places_def image_iff)
  have in_places: "place_of g gi r rin j \<in> pdcp_places g gi r rin" for g gi j
    using all_sides_all [of j] by (simp add: pdcp_places_def)
  have "all_there st1 d i r rin" "all_there st1 t tin r rin"
    using there in_places by (auto simp: all_there_def old st1(3)) 
  moreover have "\<forall>j e. pdcp_map st1 (place_of d i r rin j) = Some e \<longrightarrow> \<not> pe_noBuffers e"
  proof (intro allI impI)
    fix j e assume "pdcp_map st1 (place_of d i r rin j) = Some e"
    then show "\<not> pe_noBuffers e" using there in_places [of d i j] unfolding old by fastforce
  qed
  ultimately have "rbind (sn_pdcp_transfer d i r rin t tin st1) (sn_pdcp_transfer d i r rin t tin) = Inl NullDeref"
    by (intro sn_transfer_twice ready(3) st1(2))
  then have "rbind (x_pdcp_do (sn_pdcp_transfer d i r rin t tin) (a5\<lparr>x_pdcp := st1\<rparr>)) (\<lambda>c2.
      rbind (x_pdcp_do (sn_pdcp_transfer d i r rin t tin) c2) f) = Inl NullDeref" for f :: "exec_state \<Rightarrow> exec_state result"
    by (cases "sn_pdcp_transfer d i r rin t tin st1") (simp_all add: x_pdcp_do_def)
  then show ?thesis
    unfolding fn_NetSim_LTENR_DC_HO_SN_RELEASE_RECV_def Let_def hdr [symmetric] if_P [OF split] run by (simp add: assoc)
qed

text \<open>UE 9 leaves secondary cell 1 for cell 2, with a split at the core.\<close>

definition ex_split_env :: exec_env where
  "ex_split_env = ex_env\<lparr>hoE := (plain_ho False)\<lparr>pdcpE := (pdcpE (plain_ho False))
     \<lparr>fn_NetSim_LTENR_NSA_IS_CORE_SPLIT_EXISTS := (\<lambda>d i. True)\<rparr>\<rparr>\<rparr>"

definition ex_sn_hdr :: LTENR_SN_HANDOVER_HDR where
  "ex_sn_hdr = \<lparr>sn_msgType = LTENR_MSG_DC_HO_SEC_CELL_RELEASE_REQUEST, sn_msg = None, sn_ueID = 9, sn_ueIF = 1,
     sn_MNID = 3, sn_MNIF = 1, sn_SNID = 1, sn_SNIF = 1, sn_TSNID = 2, sn_TSNIF = 1, sn_AMFID = 7, sn_AMFIF = 1,
     sn_targetAMFID = 7, sn_targetAMFIF = 1, sn_associateSMFID = 6, SNHandoverStartTime = 0\<rparr>"

lemma sn_change_split_faults_witness:
  "fn_NetSim_LTENR_DC_HO_SN_RELEASE_RECV ex_split_env ex_sn_hdr ex_exec = Inl NullDeref"
proof -
  have env: "coreX ex_split_env = coreX ex_env" "phy_lib ex_split_env = phy_lib ex_env"
    "\<not> fn_NetSim_LTENR_IS_S1_INTERFACE_EXISTS (hoE ex_split_env) 2"
    "fn_NetSim_LTENR_NSA_IS_CORE_SPLIT_EXISTS (pdcpE (hoE ex_split_env)) 9 1"
    by (simp_all add: ex_split_env_def ex_env_def plain_ho_def)
  have "phy_ready ex_exec 2 1 9 1" "x_rlc ex_exec = ex_rlc" by (simp_all add: phy_ready_def ex_exec_def)
  then show ?thesis
    using sn_change_split_faults [OF refl refl refl refl refl refl, of ex_split_env ex_sn_hdr ex_exec] ex_pdcp_facts(1-3)
      env ex_env_core ex_env_list ex_rlc_facts(2)
    by (simp add: ex_sn_hdr_def)
qed

end
