(* ===== verification/EPC_Props.thy ===== *)
theory EPC_Props
  imports Handover_Exec_Props
begin

text \<open>
  What holds of the register of the EPC: which interface a downlink packet leaves by, and what a
  handover makes of it.
\<close>

section \<open>The entries of a UE\<close>

definition ue_entries :: "hlr_map \<Rightarrow> netsim_id \<Rightarrow> netsim_id \<Rightarrow> netsim_id \<Rightarrow> LTENR_EPC_HLR list" where
  "ue_entries m epc x ue = (case m (epc, x) of None \<Rightarrow> [] | Some hlr \<Rightarrow> filter (\<lambda>h. hlr_ueId h = ue) hlr)"

definition epc_interfaces :: "epc_env \<Rightarrow> netsim_id \<Rightarrow> netsim_id list" where
  "epc_interfaces E epc = filter (ltenr_protocol E epc) (interface_ids (nNumOfInterface E epc))"

definition epc_started :: "epc_env \<Rightarrow> netsim_id \<Rightarrow> hlr_map \<Rightarrow> bool" where
  "epc_started E epc m \<longleftrightarrow> (\<forall>x \<in> set (epc_interfaces E epc). m (epc, x) \<noteq> None)"

lemma find_pos_head: "filter P xs = (case find_pos P xs of None \<Rightarrow> [] | Some j \<Rightarrow> xs ! j # filter P (drop (Suc j) xs))"
  by (induction xs) (auto split: option.splits)

lemma first_interface_find:
  "(\<And>x. x \<in> set xs \<Longrightarrow> test x = Inr (P x)) \<Longrightarrow> first_interface test xs = Inr (case find P xs of None \<Rightarrow> 0 | Some x \<Rightarrow> x)"
  by (induction xs) auto

lemma find_filter: "find P (filter Q xs) = find (\<lambda>x. Q x \<and> P x) xs"
  by (induction xs) auto

text \<open>The searches in terms of the entries of the UE.\<close>

lemma FindOutInterface_entries:
  assumes "epc_started E epc m"
  shows "LTENR_EPC_HLR_FindOutInterface E m epc ue
    = Inr (case find (\<lambda>x. ue_entries m epc x ue \<noteq> []) (epc_interfaces E epc) of None \<Rightarrow> 0 | Some x \<Rightarrow> x)"
  unfolding LTENR_EPC_HLR_FindOutInterface_def epc_interfaces_def find_filter
  by (rule first_interface_find)
    (use assms in \<open>auto simp: epc_started_def epc_interfaces_def ue_entries_def LTENR_EPC_FindHLR_def find_pos_None_iff
      filter_empty_conv simp flip: not_None_eq\<close>)

lemma FindOutInterface_FOR_GNB_entries:
  assumes "epc_started E epc m"
  shows "LTENR_NSA_EPC_HLR_FindOutInterface_FOR_GNB E m epc ue g
    = Inr (case find (\<lambda>x. case ue_entries m epc x ue of [] \<Rightarrow> False | h # hs \<Rightarrow> hlr_gnbId h = g) (epc_interfaces E epc)
           of None \<Rightarrow> 0 | Some x \<Rightarrow> x)"
  unfolding LTENR_NSA_EPC_HLR_FindOutInterface_FOR_GNB_def epc_interfaces_def find_filter
proof (rule first_interface_find)
  fix x assume x: "x \<in> set (interface_ids (nNumOfInterface E epc))"
  show "first_hlr_of_gnb E m epc ue g x
    = Inr (ltenr_protocol E epc x \<and> (case ue_entries m epc x ue of [] \<Rightarrow> False | h # hs \<Rightarrow> hlr_gnbId h = g))"
  proof (cases "ltenr_protocol E epc x")
    case True
    with x assms obtain hlr where hlr: "m (epc, x) = Some hlr" by (auto simp: epc_started_def epc_interfaces_def)
    show ?thesis using True hlr find_pos_head [of "\<lambda>h. hlr_ueId h = ue" hlr]
      by (auto simp: first_hlr_of_gnb_def LTENR_EPC_FindHLR_def ue_entries_def split: option.splits)
  qed (simp add: first_hlr_of_gnb_def)
qed

lemma find_only: "x \<in> set xs \<Longrightarrow> (\<And>y. P y \<longleftrightarrow> y = x) \<Longrightarrow> find P xs = Some x"
  by (induction xs) auto

section \<open>What a handover makes of the register\<close>

lemma filter_remove_first:
  assumes "filter R xs = y # ys" and "Q y" and "\<And>x. Q x \<Longrightarrow> R x"
  shows "\<exists>p. find_pos Q xs = Some p \<and> p < length xs \<and> filter R (remove_at p xs) = ys"
  using assms(1)
proof (induction xs)
  case (Cons x xs)
  show ?case
  proof (cases "Q x")
    case True
    then show ?thesis using Cons.prems assms(3) by (auto simp: remove_at_def)
  next
    case False
    then have "\<not> R x" using Cons.prems assms(2) by auto
    with Cons.prems have "filter R xs = y # ys" by simp
    from Cons.IH [OF this] obtain p where "find_pos Q xs = Some p" "p < length xs" "filter R (remove_at p xs) = ys" by blast
    then show ?thesis using False \<open>\<not> R x\<close> by (auto simp: remove_at_def)
  qed
qed simp

definition entry_for :: "netsim_id \<Rightarrow> netsim_id \<Rightarrow> netsim_id \<Rightarrow> netsim_id \<Rightarrow> LTENR_EPC_HLR" where
  "entry_for ue uif g gi = \<lparr>hlr_ueId = ue, hlr_ueIf = uif, hlr_gnbId = g, hlr_gnbIf = gi\<rparr>"

lemma epc_association_entries:
  assumes "list_library (hlr_lib E)" and "m (epc, j) \<noteq> None"
  shows "\<exists>m'. LTENR_EPC_ASSOCIATION E epc j g gi ue uif m = Inr m'
    \<and> (\<forall>x. ue_entries m' epc x ue = ue_entries m epc x ue @ (if x = j then [entry_for ue uif g gi] else []))
    \<and> (\<forall>y. (m' y = None) = (m y = None))"
  using assms by (auto simp: LTENR_EPC_ASSOCIATION_def list_library.add_last_law ue_entries_def entry_for_def)

text \<open>The first entry of the UE, when it is for the cell, is found and taken out.\<close>

lemma hlr_remove_entries:
  assumes "list_library (hlr_lib E)" and "ue_entries m epc i ue = h # hs" and "hlr_gnbId h = g"
  shows "\<exists>p m'. LTENR_EPC_FindHLR_For_GNB m epc i ue g = Inr (Some p)
    \<and> LTENR_EPC_HLR_REMOVE E epc i (Some p) m = Inr m'
    \<and> (\<forall>x. ue_entries m' epc x ue = (if x = i then hs else ue_entries m epc x ue))
    \<and> (\<forall>y. (m' y = None) = (m y = None))"
proof -
  from assms(2) obtain hlr where hlr: "m (epc, i) = Some hlr" "filter (\<lambda>h. hlr_ueId h = ue) hlr = h # hs"
    by (auto simp: ue_entries_def split: option.splits)
  have "h \<in> set (filter (\<lambda>h. hlr_ueId h = ue) hlr)" using hlr(2) by simp
  then have "hlr_ueId h = ue" by simp
  with assms(3) have h: "hlr_ueId h = ue \<and> hlr_gnbId h = g" by simp
  from filter_remove_first [OF hlr(2), of "\<lambda>h. hlr_ueId h = ue \<and> hlr_gnbId h = g"] h obtain p
    where p: "find_pos (\<lambda>h. hlr_ueId h = ue \<and> hlr_gnbId h = g) hlr = Some p" "p < length hlr"
      "filter (\<lambda>h. hlr_ueId h = ue) (remove_at p hlr) = hs" by auto
  show ?thesis
    using hlr(1) p list_library.free_law [OF assms(1) p(2)]
    by (auto simp: LTENR_EPC_FindHLR_For_GNB_def LTENR_EPC_HLR_REMOVE_def ue_entries_def)
qed

lemma no_entry_for:
  assumes "m (epc, i) \<noteq> None" and "\<forall>h \<in> set (ue_entries m epc i ue). hlr_gnbId h \<noteq> g"
  shows "LTENR_EPC_FindHLR_For_GNB m epc i ue g = Inr None"
  using assms by (auto simp: LTENR_EPC_FindHLR_For_GNB_def ue_entries_def find_pos_None_iff)

text \<open>The dissociation takes out two entries of the old cell, or the one there is.\<close>

lemma epc_dissociation_entries:
  assumes lib: "list_library (hlr_lib E)" and started: "epc_started E epc m" and i: "i \<in> set (epc_interfaces E epc)"
    and old: "ue_entries m epc i ue = old @ new" "old \<noteq> []" "\<forall>h \<in> set old. hlr_gnbId h = d"
    and other: "\<forall>h \<in> set new. hlr_gnbId h \<noteq> d" "\<forall>x. x \<noteq> i \<longrightarrow> (\<forall>h \<in> set (ue_entries m epc x ue). hlr_gnbId h \<noteq> d)"
  shows "\<exists>m'. epc_dissociation E epc ue d m = Inr m'
    \<and> (\<forall>x. ue_entries m' epc x ue = (if x = i then drop 2 old @ new else ue_entries m epc x ue))
    \<and> (\<forall>y. (m' y = None) = (m y = None))"
proof -
  obtain h hs where h: "old = h # hs" "hlr_gnbId h = d" using old(2,3) by (cases old) auto
  have "(case ue_entries m epc x ue of [] \<Rightarrow> False | h # hs \<Rightarrow> hlr_gnbId h = d) \<longleftrightarrow> x = i" for x
    using other(2) h old(1) by (cases "x = i") (auto split: list.splits)
  then have out: "LTENR_NSA_EPC_HLR_FindOutInterface_FOR_GNB E m epc ue d = Inr i"
    unfolding FindOutInterface_FOR_GNB_entries [OF started] by (simp add: find_only [OF i])
  from hlr_remove_entries [OF lib _ h(2), of m epc i ue "hs @ new"] old(1) h(1) obtain p m1
    where r1: "LTENR_EPC_FindHLR_For_GNB m epc i ue d = Inr (Some p)" "LTENR_EPC_HLR_REMOVE E epc i (Some p) m = Inr m1"
      "\<And>x. ue_entries m1 epc x ue = (if x = i then hs @ new else ue_entries m epc x ue)" "\<forall>y. (m1 y = None) = (m y = None)"
    by auto
  have m1: "m1 (epc, i) \<noteq> None" using started i r1(4) by (simp add: epc_started_def)
  show ?thesis
  proof (cases hs)
    case Nil
    then have "LTENR_EPC_FindHLR_For_GNB m1 epc i ue d = Inr None"
      using other(1) by (intro no_entry_for [where m = m1, OF m1]) (simp add: r1(3))
    then show ?thesis using out r1 Nil h by (simp add: epc_dissociation_def)
  next
    case (Cons h' hs')
    then have "hlr_gnbId h' = d" using old(3) h by simp
    from hlr_remove_entries [OF lib _ this, of m1 epc i ue "hs' @ new"] Cons obtain p' m2
      where "LTENR_EPC_FindHLR_For_GNB m1 epc i ue d = Inr (Some p')" "LTENR_EPC_HLR_REMOVE E epc i (Some p') m1 = Inr m2"
        "\<And>x. ue_entries m2 epc x ue = (if x = i then hs' @ new else ue_entries m1 epc x ue)" "\<forall>y. (m2 y = None) = (m1 y = None)"
      by (auto simp: r1(3))
    then show ?thesis using out r1 Cons h by (simp add: epc_dissociation_def)
  qed
qed

text \<open>
  C15. A handover in an EPC network turns the downlink to the new cell. When the register has the
  UE only for the old cell, in one or two entries, then after the association of the target and
  the dissociation of the old cell it has one entry, for the target, and packets leave by the
  interface of the target. Of three entries or more (every set-up of the RRC connection adds one)
  some stay, and the old cell keeps its place in the register.
\<close>

theorem epc_reroutes:
  assumes lib: "list_library (hlr_lib E)" and started: "epc_started E epc m" and ne: "d \<noteq> t"
    and ij: "i \<in> set (epc_interfaces E epc)" "j \<in> set (epc_interfaces E epc)"
    and old: "ue_entries m epc i ue \<noteq> []" "\<forall>h \<in> set (ue_entries m epc i ue). hlr_gnbId h = d"
      "\<forall>x. x \<noteq> i \<longrightarrow> ue_entries m epc x ue = []"
  shows "\<exists>m'. rbind (LTENR_EPC_ASSOCIATION E epc j t tin ue uif m) (epc_dissociation E epc ue d) = Inr m'
    \<and> (if length (ue_entries m epc i ue) \<le> 2
       then (\<forall>x. ue_entries m' epc x ue = (if x = j then [entry_for ue uif t tin] else []))
         \<and> LTENR_EPC_HLR_FindOutInterface E m' epc ue = Inr j
       else \<exists>h \<in> set (ue_entries m' epc i ue). hlr_gnbId h = d)"
proof -
  let ?old = "ue_entries m epc i ue" and ?e = "entry_for ue uif t tin"
  have "m (epc, j) \<noteq> None" using started ij(2) by (simp add: epc_started_def)
  from epc_association_entries [of E m epc j, OF lib this] obtain m1
    where m1: "LTENR_EPC_ASSOCIATION E epc j t tin ue uif m = Inr m1"
      "\<And>x. ue_entries m1 epc x ue = ue_entries m epc x ue @ (if x = j then [?e] else [])"
      "\<forall>y. (m1 y = None) = (m y = None)" by blast
  have s1: "epc_started E epc m1" using started m1(3) by (simp add: epc_started_def)
  have "hlr_gnbId ?e \<noteq> d" using ne by (simp add: entry_for_def)
  with epc_dissociation_entries [OF lib s1 ij(1) m1(2) old(1,2)] old(3) obtain m2
    where m2: "epc_dissociation E epc ue d m1 = Inr m2"
      "\<And>x. ue_entries m2 epc x ue = (if x = i then drop 2 ?old @ (if i = j then [?e] else []) else ue_entries m1 epc x ue)"
      "\<forall>y. (m2 y = None) = (m1 y = None)" by (auto simp: m1(2))
  have s2: "epc_started E epc m2" using s1 m2(3) by (simp add: epc_started_def)
  show ?thesis
  proof (cases "length ?old \<le> 2")
    case True
    then have e: "ue_entries m2 epc x ue = (if x = j then [?e] else [])" for x
      using old(3) by (simp add: m2(2) m1(2))
    then have "LTENR_EPC_HLR_FindOutInterface E m2 epc ue = Inr j"
      unfolding FindOutInterface_entries [OF s2] by (simp add: find_only [OF ij(2)])
    with e True show ?thesis by (simp add: m1(1) m2(1))
  next
    case False
    then have "drop 2 ?old \<noteq> []" by simp
    then have "hd (drop 2 ?old) \<in> set (drop 2 ?old)" by (rule hd_in_set)
    moreover from this have "hlr_gnbId (hd (drop 2 ?old)) = d" using old(2) in_set_dropD by metis
    ultimately show ?thesis using False by (auto simp: m1(1) m2(1) m2(2))
  qed
qed

section \<open>Downlink packets in dual connectivity\<close>

text \<open>The cell a packet for a UE with a master and a secondary cell goes to.\<close>

definition split_cell :: "LTENR_PROTODATA \<Rightarrow> bool \<Rightarrow> LTENR_UERRC \<Rightarrow> NetSim_PACKET \<Rightarrow> netsim_id" where
  "split_cell data x rrc packet =
     (if isDCEnable data \<and> NSA_MODE data = NSA_MODE_OPTION3A
      then if nQOS packet = QOS_GBR then SelectedCellID rrc else SNID rrc
      else if isDCEnable data \<and> NSA_MODE data = NSA_MODE_OPTION3 then SelectedCellID rrc
      else if x \<or> rrc_isAlternativePacket rrc then SNID rrc else SelectedCellID rrc)"

definition split_alternates :: "LTENR_PROTODATA \<Rightarrow> bool \<Rightarrow> bool" where
  "split_alternates data x \<longleftrightarrow> \<not> (isDCEnable data \<and> NSA_MODE data \<in> {NSA_MODE_OPTION3A, NSA_MODE_OPTION3}) \<and> \<not> x"

text \<open>
  In dual connectivity with a split at the EPC, a downlink packet is queued at the interface
  of the cell the mode prescribes and nowhere else: in option 3A the master cell when it has a
  guaranteed bit rate and else the secondary cell, in option 3 the master cell, in an X option the
  secondary cell, and in the other modes both in turn, from one packet to the next. The MAC layer
  is called exactly when the queue was empty.
\<close>

theorem epc_split_routes:
  assumes packet: "ep_packet s = Some p" "\<not> isBroadcastPacket E p" "\<not> isMulticastPacket E p" "\<not> isLTENRControlPacket p"
    and dest: "ue = get_first_dest_from_packet E p"
      "mi = fn_NetSim_LTENR_MASTER_INTEFACE_FOR_UE (epcP E) ue (fn_NetSim_Get_LTENR_INTERFACE_ID_FROM_DEVICE_ID (epcP E) ue)"
    and split: "isDCEnable (LTENR_PROTODATA_GET (core (epcP E)) d i)"
      "fn_NetSim_LTENR_NSA_IS_CORE_SPLIT_EXISTS (epcP E) d i \<or> fn_NetSim_LTENR_NSA_IS_OPTION_X_EXISTS (epcP E) d i"
    and data: "data = LTENR_PROTODATA_GET (core (epcP E)) ue mi" "x = fn_NetSim_LTENR_NSA_IS_OPTION_X_EXISTS (epcP E) ue mi"
    and rrc: "epc_rrc s (ue, mi) = Some rrc" "SelectedCellID rrc \<noteq> 0" "SNID rrc \<noteq> 0"
    and started: "epc_started E d (epc_hlr s)"
    and out: "j \<in> set (epc_interfaces E d)" "\<forall>y. (\<exists>h hs. ue_entries (epc_hlr s) d y ue = h # hs
        \<and> hlr_gnbId h = split_cell data x rrc p) \<longleftrightarrow> y = j" "j \<noteq> 0"
  shows "\<exists>s'. LTENR_EPC_NetworkOut E d i s = Inr s'
    \<and> access_buffer s' = (access_buffer s)((d, j) := fn_NetSim_Packet_AddPacketToList E (access_buffer s (d, j)) p)
    \<and> ep_trace s' = ep_trace s @ (if fn_NetSim_GetBufferStatus E (access_buffer s (d, j)) then [] else [MacOut d j])
    \<and> epc_rrc s' = (if split_alternates data x
         then (epc_rrc s)((ue, mi) \<mapsto> rrc\<lparr>rrc_isAlternativePacket := \<not> rrc_isAlternativePacket rrc\<rparr>) else epc_rrc s)
    \<and> epc_hlr s' = epc_hlr s \<and> ep_packet s' = None"
proof -
  define s1 where "s1 = (if split_alternates data x
    then s\<lparr>epc_rrc := (epc_rrc s)((ue, mi) \<mapsto> rrc\<lparr>rrc_isAlternativePacket := \<not> rrc_isAlternativePacket rrc\<rparr>)\<rparr> else s)"
  have s1: "access_buffer s1 = access_buffer s" "ep_trace s1 = ep_trace s" "epc_hlr s1 = epc_hlr s"
    "epc_rrc s1 = (if split_alternates data x
       then (epc_rrc s)((ue, mi) \<mapsto> rrc\<lparr>rrc_isAlternativePacket := \<not> rrc_isAlternativePacket rrc\<rparr>) else epc_rrc s)"
    by (simp_all add: s1_def)
  have choice: "fn_NetSim_LTENR_NSA_Splitting_Alogrithm_For_EPC E ue s = Inr (split_cell data x rrc p, s1)"
    using packet(1) rrc
    unfolding fn_NetSim_LTENR_NSA_Splitting_Alogrithm_For_EPC_def Let_def dest(2) [symmetric] data [symmetric]
    by (auto simp: split_cell_def split_alternates_def s1_def split: LTENR_UE_RRCSTATE.splits)
  have "(case ue_entries (epc_hlr s) d y ue of [] \<Rightarrow> False | h # hs \<Rightarrow> hlr_gnbId h = split_cell data x rrc p) \<longleftrightarrow> y = j" for y
    using out(2) [rule_format, of y] by (cases "ue_entries (epc_hlr s) d y ue") auto
  then have "LTENR_NSA_EPC_HLR_FindOutInterface_FOR_GNB E (epc_hlr s) d ue (split_cell data x rrc p) = Inr j"
    unfolding FindOutInterface_FOR_GNB_entries [OF started] by (simp add: find_only [OF out(1)])
  then have found: "LTENR_NSA_EPC_HLR_FindOutInterface E d ue s = Inr (j, s1)"
    unfolding LTENR_NSA_EPC_HLR_FindOutInterface_def choice
    by (simp add: s1(3) LTENR_NSA_EPC_HLR_FindOutInterface_FOR_GNB_def)
  obtain o0 where "LTENR_EPC_HLR_FindOutInterface E (epc_hlr s) d ue = Inr o0"
    unfolding FindOutInterface_entries [OF started] by blast
  then have "LTENR_EPC_NetworkOut E d i s
    = (let buf = access_buffer s1 (d, j); s2 = (if \<not> fn_NetSim_GetBufferStatus E buf then s1\<lparr>ep_trace := ep_trace s1 @ [MacOut d j]\<rparr> else s1)
       in Inr (s2\<lparr>access_buffer := (access_buffer s2)((d, j) := fn_NetSim_Packet_AddPacketToList E buf p), ep_packet := None\<rparr>))"
    using packet out(3) by (simp add: LTENR_EPC_NetworkOut_def dest(1) [symmetric] found split)
  then show ?thesis by (simp add: Let_def s1)
qed

section \<open>Examples\<close>

lemma ex_epc_interfaces: "epc_interfaces (epcE ex_env) 8 = [1, 2]"
  by (simp add: epc_interfaces_def ex_env_def interface_ids_def upt_rec)

definition ex_hlr :: hlr_map where
  "ex_hlr = [(8, 1) \<mapsto> [entry_for 9 1 1 1], (8, 2) \<mapsto> []]"

lemma epc_reroutes_witness:
  "\<exists>m'. rbind (LTENR_EPC_ASSOCIATION (epcE ex_env) 8 2 2 1 9 1 ex_hlr) (epc_dissociation (epcE ex_env) 8 9 1) = Inr m'
    \<and> ue_entries m' 8 1 9 = [] \<and> LTENR_EPC_HLR_FindOutInterface (epcE ex_env) m' 8 9 = Inr 2"
proof -
  have lib: "list_library (hlr_lib (epcE ex_env))" using plain.list_library_axioms by (simp add: ex_env_def)
  have e: "ue_entries ex_hlr 8 x 9 = (if x = 1 then [entry_for 9 1 1 1] else [])" for x
    by (auto simp: ue_entries_def ex_hlr_def entry_for_def)
  have "epc_started (epcE ex_env) 8 ex_hlr" by (simp add: epc_started_def ex_epc_interfaces ex_hlr_def)
  from epc_reroutes [OF lib this, of 1 2 1 2 9 1 1] show ?thesis
    by (simp add: e ex_epc_interfaces) (auto simp: entry_for_def)
qed

definition ex_split_epc :: epc_env where
  "ex_split_epc = (epcE ex_env)\<lparr>epcP := (pdcpE (plain_ho True))\<lparr>fn_NetSim_LTENR_NSA_IS_CORE_SPLIT_EXISTS := (\<lambda>d i. True)\<rparr>\<rparr>"

definition ex_epc :: epc_state where
  "ex_epc = \<lparr>epc_hlr = [(8, 1) \<mapsto> [entry_for 2 1 1 1], (8, 2) \<mapsto> [entry_for 2 1 3 1]],
     epc_rrc = [(2, 1) \<mapsto> ex_rrc], access_buffer = (\<lambda>x. []), ep_packet = Some (ex_sdu 0), ep_trace = []\<rparr>"

lemma epc_split_routes_witness:
  "\<exists>s'. LTENR_EPC_NetworkOut ex_split_epc 8 1 ex_epc = Inr s'
    \<and> access_buffer s' (8, 1) = [ex_sdu 0] \<and> access_buffer s' (8, 2) = [] \<and> ep_trace s' = [MacOut 8 1]"
proof -
  let ?E = ex_split_epc and ?s = ex_epc
  have ifs: "epc_interfaces ?E 8 = [1, 2]"
    using ex_epc_interfaces by (simp add: epc_interfaces_def ex_split_epc_def)
  have e: "ue_entries (epc_hlr ?s) 8 y 2 = (if y = 1 then [entry_for 2 1 1 1] else if y = 2 then [entry_for 2 1 3 1] else [])" for y
    by (auto simp: ue_entries_def ex_epc_def entry_for_def)
  have started: "epc_started ?E 8 (epc_hlr ?s)" by (simp add: epc_started_def ifs ex_epc_def)
  have "\<exists>s'. LTENR_EPC_NetworkOut ?E 8 1 ?s = Inr s'
    \<and> access_buffer s' = (access_buffer ?s)((8, 1) := fn_NetSim_Packet_AddPacketToList ?E (access_buffer ?s (8, 1)) (ex_sdu 0))
    \<and> ep_trace s' = ep_trace ?s @ (if fn_NetSim_GetBufferStatus ?E (access_buffer ?s (8, 1)) then [] else [MacOut 8 1])
    \<and> epc_rrc s' = (if split_alternates (LTENR_PROTODATA_GET (core (epcP ?E)) 2 1) False
         then (epc_rrc ?s)((2, 1) \<mapsto> ex_rrc\<lparr>rrc_isAlternativePacket := \<not> rrc_isAlternativePacket ex_rrc\<rparr>) else epc_rrc ?s)
    \<and> epc_hlr s' = epc_hlr ?s \<and> ep_packet s' = None"
  proof (rule epc_split_routes [OF _ _ _ _ _ _ _ _ refl _ _ _ _ started])
    show "\<forall>y. (\<exists>h hs. ue_entries (epc_hlr ?s) 8 y 2 = h # hs
        \<and> hlr_gnbId h = split_cell (LTENR_PROTODATA_GET (core (epcP ?E)) 2 1) False ex_rrc (ex_sdu 0)) \<longleftrightarrow> y = 1"
      by (auto simp: e split_cell_def ex_split_epc_def ex_env_def ex_rrc_def plain_ho_def plain_core_env_def entry_for_def)
  qed (simp_all add: ifs, simp_all add: ex_split_epc_def ex_env_def ex_epc_def ex_rrc_def plain_ho_def plain_pdcp_env_def,
       simp_all add: ex_sdu_def isLTENRControlPacket_def plain_pkt_defs)
  then show ?thesis by (auto simp: ex_split_epc_def ex_env_def ex_epc_def)
qed

end
