(* ===== verification/MAC_Tables.thy ===== *)
theory MAC_Tables
  imports NetSim_Prelude
begin

text \<open>
  Adaptive modulation and coding (\<open>LTE_NR/LTENR_AMCTable.h\<close>, \<open>LTENR_AMCTable.c\<close>): the tables of
  3GPP 38.214, the choice of a table by its name, the choice of an entry by spectral efficiency,
  and the size of a transport block.
\<close>

section \<open>Arrays and wide integers\<close>

text \<open>Reading an array: an index outside it is a fault.\<close>

definition arr_get :: "'a list \<Rightarrow> nat \<Rightarrow> 'a result" where
  "arr_get xs i = (if i < length xs then Inr (xs ! i) else Inl OutOfBounds)"

lemma arr_get_Inr [simp]: "arr_get xs i = Inr x \<longleftrightarrow> i < length xs \<and> x = xs ! i"
  by (auto simp: arr_get_def)

text \<open>The cast \<open>(UINT64)x\<close> of a double.\<close>

definition UINT64_of_double :: "real \<Rightarrow> u64" where
  "UINT64_of_double x = word_of_int \<lfloor>x\<rfloor>"

section \<open>The tables\<close>

datatype PHY_MODULATION =
    Modulation_Zero | Modulation_DBPSK | Modulation_DQPSK | Modulation_CCK5_5 | Modulation_CCK11
  | Modulation_BPSK | Modulation_QPSK | Modulation_8_QAM | Modulation_16_QAM | Modulation_32_QAM
  | Modulation_64_QAM | Modulation_128_QAM | Modulation_256_QAM | Modulation_GMSK | Modulation_FSK
  | Modulation_8PSK | Modulation_16APSK | Modulation_32APSK | Modulation_LAST

record LTENR_CQITable =
  CQIIndex :: u32
  cqi_modulation :: PHY_MODULATION
  cqi_codeRate :: u32
  efficiency :: real

record LTENR_MCSINDEXTABLE =
  mcsIndex :: int
  modulationOrder :: int
  mcs_modulation :: PHY_MODULATION
  codeRate :: real
  spectralEfficiency :: real

text \<open>An initializer \<open>{...}\<close> of the source.\<close>

definition cqi_entry :: "u32 \<Rightarrow> PHY_MODULATION \<Rightarrow> u32 \<Rightarrow> real \<Rightarrow> LTENR_CQITable" where
  "cqi_entry i m r e = \<lparr>CQIIndex = i, cqi_modulation = m, cqi_codeRate = r, efficiency = e\<rparr>"

definition mcs_entry :: "int \<Rightarrow> int \<Rightarrow> PHY_MODULATION \<Rightarrow> real \<Rightarrow> real \<Rightarrow> LTENR_MCSINDEXTABLE" where
  "mcs_entry i q m r e = \<lparr>mcsIndex = i, modulationOrder = q, mcs_modulation = m, codeRate = r, spectralEfficiency = e\<rparr>"

definition CQITable1 :: "LTENR_CQITable list" where
  "CQITable1 =
    [cqi_entry 0 Modulation_Zero 0 0,
     cqi_entry 1 Modulation_QPSK 78 0.1523,
     cqi_entry 2 Modulation_QPSK 120 0.2344,
     cqi_entry 3 Modulation_QPSK 193 0.3770,
     cqi_entry 4 Modulation_QPSK 308 0.6016,
     cqi_entry 5 Modulation_QPSK 449 0.8770,
     cqi_entry 6 Modulation_QPSK 602 1.1758,
     cqi_entry 7 Modulation_16_QAM 378 1.4766,
     cqi_entry 8 Modulation_16_QAM 490 1.9141,
     cqi_entry 9 Modulation_16_QAM 616 2.4063,
     cqi_entry 10 Modulation_64_QAM 466 2.7305,
     cqi_entry 11 Modulation_64_QAM 567 3.3223,
     cqi_entry 12 Modulation_64_QAM 666 3.9023,
     cqi_entry 13 Modulation_64_QAM 772 4.5234,
     cqi_entry 14 Modulation_64_QAM 873 5.1152,
     cqi_entry 15 Modulation_64_QAM 948 5.5547]"

definition CQITable2 :: "LTENR_CQITable list" where
  "CQITable2 =
    [cqi_entry 0 Modulation_Zero 0 0,
     cqi_entry 1 Modulation_QPSK 78 0.1523,
     cqi_entry 2 Modulation_QPSK 193 0.3770,
     cqi_entry 3 Modulation_QPSK 449 0.8770,
     cqi_entry 4 Modulation_16_QAM 378 1.4766,
     cqi_entry 5 Modulation_16_QAM 490 1.9141,
     cqi_entry 6 Modulation_16_QAM 616 2.4063,
     cqi_entry 7 Modulation_64_QAM 466 2.7305,
     cqi_entry 8 Modulation_64_QAM 567 3.3223,
     cqi_entry 9 Modulation_64_QAM 666 3.9023,
     cqi_entry 10 Modulation_64_QAM 772 4.5234,
     cqi_entry 11 Modulation_64_QAM 873 5.1152,
     cqi_entry 12 Modulation_256_QAM 711 5.5547,
     cqi_entry 13 Modulation_256_QAM 797 6.2266,
     cqi_entry 14 Modulation_256_QAM 885 6.9141,
     cqi_entry 15 Modulation_256_QAM 948 7.4063]"

definition CQITable3 :: "LTENR_CQITable list" where
  "CQITable3 =
    [cqi_entry 0 Modulation_Zero 0 0,
     cqi_entry 1 Modulation_QPSK 30 0.0586,
     cqi_entry 2 Modulation_QPSK 50 0.0977,
     cqi_entry 3 Modulation_QPSK 78 0.1523,
     cqi_entry 4 Modulation_QPSK 120 0.2344,
     cqi_entry 5 Modulation_QPSK 193 0.3770,
     cqi_entry 6 Modulation_QPSK 308 0.6016,
     cqi_entry 7 Modulation_QPSK 449 0.8770,
     cqi_entry 8 Modulation_QPSK 602 1.1758,
     cqi_entry 9 Modulation_16_QAM 378 1.4766,
     cqi_entry 10 Modulation_16_QAM 490 1.9141,
     cqi_entry 11 Modulation_16_QAM 616 2.4063,
     cqi_entry 12 Modulation_64_QAM 466 2.7305,
     cqi_entry 13 Modulation_64_QAM 567 3.3223,
     cqi_entry 14 Modulation_64_QAM 666 3.9023,
     cqi_entry 15 Modulation_64_QAM 772 4.5234]"

definition PDSCHMCSIndexTable1 :: "LTENR_MCSINDEXTABLE list" where
  "PDSCHMCSIndexTable1 =
    [mcs_entry 0 2 Modulation_QPSK 120 0.2344,
     mcs_entry 1 2 Modulation_QPSK 157 0.3066,
     mcs_entry 2 2 Modulation_QPSK 193 0.3770,
     mcs_entry 3 2 Modulation_QPSK 251 0.4902,
     mcs_entry 4 2 Modulation_QPSK 308 0.6016,
     mcs_entry 5 2 Modulation_QPSK 379 0.7402,
     mcs_entry 6 2 Modulation_QPSK 449 0.8770,
     mcs_entry 7 2 Modulation_QPSK 526 1.0273,
     mcs_entry 8 2 Modulation_QPSK 602 1.1758,
     mcs_entry 9 2 Modulation_QPSK 679 1.3262,
     mcs_entry 10 4 Modulation_16_QAM 340 1.3281,
     mcs_entry 11 4 Modulation_16_QAM 378 1.4766,
     mcs_entry 12 4 Modulation_16_QAM 434 1.6953,
     mcs_entry 13 4 Modulation_16_QAM 490 1.9141,
     mcs_entry 14 4 Modulation_16_QAM 553 2.1602,
     mcs_entry 15 4 Modulation_16_QAM 616 2.4063,
     mcs_entry 16 4 Modulation_16_QAM 658 2.5703,
     mcs_entry 17 6 Modulation_64_QAM 438 2.5664,
     mcs_entry 18 6 Modulation_64_QAM 466 2.7305,
     mcs_entry 19 6 Modulation_64_QAM 517 3.0293,
     mcs_entry 20 6 Modulation_64_QAM 567 3.3223,
     mcs_entry 21 6 Modulation_64_QAM 616 3.6094,
     mcs_entry 22 6 Modulation_64_QAM 666 3.9023,
     mcs_entry 23 6 Modulation_64_QAM 719 4.2129,
     mcs_entry 24 6 Modulation_64_QAM 772 4.5234,
     mcs_entry 25 6 Modulation_64_QAM 822 4.8164,
     mcs_entry 26 6 Modulation_64_QAM 873 5.1152,
     mcs_entry 27 6 Modulation_64_QAM 910 5.3320,
     mcs_entry 28 6 Modulation_64_QAM 948 5.5547,
     mcs_entry 29 2 Modulation_Zero 0 0.0,
     mcs_entry 30 4 Modulation_Zero 0 0.0,
     mcs_entry 31 6 Modulation_Zero 0 0.0]"

definition PDSCHMCSIndexTable2 :: "LTENR_MCSINDEXTABLE list" where
  "PDSCHMCSIndexTable2 =
    [mcs_entry 0 2 Modulation_QPSK 120 0.2344,
     mcs_entry 1 2 Modulation_QPSK 193 0.3770,
     mcs_entry 2 2 Modulation_QPSK 308 0.6016,
     mcs_entry 3 2 Modulation_QPSK 449 0.8770,
     mcs_entry 4 2 Modulation_QPSK 602 1.1758,
     mcs_entry 5 4 Modulation_16_QAM 378 1.4766,
     mcs_entry 6 4 Modulation_16_QAM 434 1.6953,
     mcs_entry 7 4 Modulation_16_QAM 490 1.9141,
     mcs_entry 8 4 Modulation_16_QAM 553 2.1602,
     mcs_entry 9 4 Modulation_16_QAM 616 2.4063,
     mcs_entry 10 4 Modulation_16_QAM 658 2.5703,
     mcs_entry 11 6 Modulation_64_QAM 466 2.7305,
     mcs_entry 12 6 Modulation_64_QAM 517 3.0293,
     mcs_entry 13 6 Modulation_64_QAM 567 3.3223,
     mcs_entry 14 6 Modulation_64_QAM 616 3.6094,
     mcs_entry 15 6 Modulation_64_QAM 666 3.9023,
     mcs_entry 16 6 Modulation_64_QAM 719 4.2129,
     mcs_entry 17 6 Modulation_64_QAM 772 4.5234,
     mcs_entry 18 6 Modulation_64_QAM 822 4.8164,
     mcs_entry 19 6 Modulation_64_QAM 873 5.1152,
     mcs_entry 20 8 Modulation_256_QAM 682.5 5.3320,
     mcs_entry 21 8 Modulation_256_QAM 711 5.5547,
     mcs_entry 22 8 Modulation_256_QAM 754 5.8906,
     mcs_entry 23 8 Modulation_256_QAM 797 6.2266,
     mcs_entry 24 8 Modulation_256_QAM 841 6.5703,
     mcs_entry 25 8 Modulation_256_QAM 885 6.9141,
     mcs_entry 26 8 Modulation_256_QAM 916.5 7.1602,
     mcs_entry 27 8 Modulation_256_QAM 948 7.4063,
     mcs_entry 28 2 Modulation_Zero 0 0.0,
     mcs_entry 29 4 Modulation_Zero 0 0.0,
     mcs_entry 30 6 Modulation_Zero 0 0.0,
     mcs_entry 31 8 Modulation_Zero 0 0.0]"

definition PDSCHMCSIndexTable3 :: "LTENR_MCSINDEXTABLE list" where
  "PDSCHMCSIndexTable3 =
    [mcs_entry 0 2 Modulation_QPSK 30 0.0586,
     mcs_entry 1 2 Modulation_QPSK 40 0.0781,
     mcs_entry 2 2 Modulation_QPSK 50 0.0977,
     mcs_entry 3 2 Modulation_QPSK 64 0.1250,
     mcs_entry 4 2 Modulation_QPSK 78 0.1523,
     mcs_entry 5 2 Modulation_QPSK 99 0.1934,
     mcs_entry 6 2 Modulation_QPSK 120 0.2344,
     mcs_entry 7 2 Modulation_QPSK 157 0.3066,
     mcs_entry 8 2 Modulation_QPSK 193 0.3770,
     mcs_entry 9 2 Modulation_QPSK 251 0.4902,
     mcs_entry 10 2 Modulation_QPSK 308 0.6016,
     mcs_entry 11 2 Modulation_QPSK 379 0.7402,
     mcs_entry 12 2 Modulation_QPSK 449 0.8770,
     mcs_entry 13 2 Modulation_QPSK 526 1.0273,
     mcs_entry 14 2 Modulation_QPSK 602 1.1758,
     mcs_entry 15 4 Modulation_16_QAM 340 1.3281,
     mcs_entry 16 4 Modulation_16_QAM 378 1.4766,
     mcs_entry 17 4 Modulation_16_QAM 434 1.6953,
     mcs_entry 18 4 Modulation_16_QAM 490 1.9141,
     mcs_entry 19 4 Modulation_16_QAM 553 2.1602,
     mcs_entry 20 4 Modulation_16_QAM 616 2.4063,
     mcs_entry 21 6 Modulation_64_QAM 438 2.5664,
     mcs_entry 22 6 Modulation_64_QAM 466 2.7305,
     mcs_entry 23 6 Modulation_64_QAM 517 3.0293,
     mcs_entry 24 6 Modulation_64_QAM 567 3.3223,
     mcs_entry 25 6 Modulation_64_QAM 616 3.6094,
     mcs_entry 26 6 Modulation_64_QAM 666 3.9023,
     mcs_entry 27 6 Modulation_64_QAM 719 4.2129,
     mcs_entry 28 6 Modulation_64_QAM 772 4.5234,
     mcs_entry 29 2 Modulation_Zero 0 0.0,
     mcs_entry 30 4 Modulation_Zero 0 0.0,
     mcs_entry 31 6 Modulation_Zero 0 0.0]"

definition PUSCHMCSIndexTable1 :: "LTENR_MCSINDEXTABLE list" where
  "PUSCHMCSIndexTable1 =
    [mcs_entry 0 2 Modulation_QPSK 120 0.2344,
     mcs_entry 1 2 Modulation_QPSK 157 0.3066,
     mcs_entry 2 2 Modulation_QPSK 193 0.3770,
     mcs_entry 3 2 Modulation_QPSK 251 0.4902,
     mcs_entry 4 2 Modulation_QPSK 308 0.6016,
     mcs_entry 5 2 Modulation_QPSK 379 0.7402,
     mcs_entry 6 2 Modulation_QPSK 449 0.8770,
     mcs_entry 7 2 Modulation_QPSK 526 1.0273,
     mcs_entry 8 2 Modulation_QPSK 602 1.1758,
     mcs_entry 9 2 Modulation_QPSK 679 1.3262,
     mcs_entry 10 4 Modulation_16_QAM 340 1.3281,
     mcs_entry 11 4 Modulation_16_QAM 378 1.4766,
     mcs_entry 12 4 Modulation_16_QAM 434 1.6953,
     mcs_entry 13 4 Modulation_16_QAM 490 1.9141,
     mcs_entry 14 4 Modulation_16_QAM 553 2.1602,
     mcs_entry 15 4 Modulation_16_QAM 616 2.4063,
     mcs_entry 16 4 Modulation_16_QAM 658 2.5703,
     mcs_entry 17 6 Modulation_64_QAM 466 2.7305,
     mcs_entry 18 6 Modulation_64_QAM 517 3.0293,
     mcs_entry 19 6 Modulation_64_QAM 567 3.3223,
     mcs_entry 20 6 Modulation_64_QAM 616 3.6094,
     mcs_entry 21 6 Modulation_64_QAM 666 3.9023,
     mcs_entry 22 6 Modulation_64_QAM 719 4.2129,
     mcs_entry 23 6 Modulation_64_QAM 772 4.5234,
     mcs_entry 24 6 Modulation_64_QAM 822 4.8164,
     mcs_entry 25 6 Modulation_64_QAM 873 5.1152,
     mcs_entry 26 6 Modulation_64_QAM 910 5.3320,
     mcs_entry 27 6 Modulation_64_QAM 948 5.5547,
     mcs_entry 28 2 Modulation_Zero 0 0.0,
     mcs_entry 29 2 Modulation_Zero 0 0.0,
     mcs_entry 30 4 Modulation_Zero 0 0.0,
     mcs_entry 31 6 Modulation_Zero 0 0.0]"

definition PUSCHMCSIndexTable2 :: "LTENR_MCSINDEXTABLE list" where
  "PUSCHMCSIndexTable2 =
    [mcs_entry 0 2 Modulation_QPSK 30 0.0586,
     mcs_entry 1 2 Modulation_QPSK 40 0.0781,
     mcs_entry 2 2 Modulation_QPSK 50 0.0977,
     mcs_entry 3 2 Modulation_QPSK 64 0.1250,
     mcs_entry 4 2 Modulation_QPSK 78 0.1523,
     mcs_entry 5 2 Modulation_QPSK 99 0.1934,
     mcs_entry 6 2 Modulation_QPSK 120 0.2344,
     mcs_entry 7 2 Modulation_QPSK 157 0.3066,
     mcs_entry 8 2 Modulation_QPSK 193 0.3770,
     mcs_entry 9 2 Modulation_QPSK 251 0.4902,
     mcs_entry 10 2 Modulation_QPSK 308 0.6016,
     mcs_entry 11 2 Modulation_QPSK 379 0.7402,
     mcs_entry 12 2 Modulation_QPSK 449 0.8770,
     mcs_entry 13 2 Modulation_QPSK 526 1.0273,
     mcs_entry 14 2 Modulation_QPSK 602 1.1758,
     mcs_entry 15 2 Modulation_QPSK 679 1.3262,
     mcs_entry 16 4 Modulation_16_QAM 378 1.4766,
     mcs_entry 17 4 Modulation_16_QAM 434 1.6953,
     mcs_entry 18 4 Modulation_16_QAM 490 1.9141,
     mcs_entry 19 4 Modulation_16_QAM 553 2.1602,
     mcs_entry 20 4 Modulation_16_QAM 616 2.4063,
     mcs_entry 21 6 Modulation_16_QAM 658 2.5703,
     mcs_entry 22 6 Modulation_16_QAM 699 2.7305,
     mcs_entry 23 6 Modulation_16_QAM 772 3.0156,
     mcs_entry 24 6 Modulation_64_QAM 567 3.3223,
     mcs_entry 25 6 Modulation_64_QAM 616 3.6094,
     mcs_entry 26 6 Modulation_64_QAM 666 3.9023,
     mcs_entry 27 6 Modulation_64_QAM 772 4.5234,
     mcs_entry 28 2 Modulation_Zero 0 0.0,
     mcs_entry 29 2 Modulation_Zero 0 0.0,
     mcs_entry 30 4 Modulation_Zero 0 0.0,
     mcs_entry 31 6 Modulation_Zero 0 0.0]"

definition TBSTableForNinfoLess3824 :: "(u32 \<times> u32) list" where
  "TBSTableForNinfoLess3824 =
    [(1, 24), (2, 32), (3, 40), (4, 48), (5, 56), (6, 64), (7, 72), (8, 80), (9, 88),
     (10, 96), (11, 104), (12, 112), (13, 120), (14, 128), (15, 136), (16, 144), (17, 152),
     (18, 160), (19, 168), (20, 176), (21, 184), (22, 192), (23, 208), (24, 224), (25, 240),
     (26, 256), (27, 272), (28, 288), (29, 304), (30, 320), (31, 336), (32, 352), (33, 368),
     (34, 384), (35, 408), (36, 432), (37, 456), (38, 480), (39, 504), (40, 528), (41, 552),
     (42, 576), (43, 608), (44, 640), (45, 672), (46, 704), (47, 736), (48, 768), (49, 808),
     (50, 848), (51, 888), (52, 928), (53, 984), (54, 1032), (55, 1064), (56, 1128),
     (57, 1160), (58, 1192), (59, 1224), (60, 1256), (61, 1288), (62, 1320), (63, 1352),
     (64, 1416), (65, 1480), (66, 1544), (67, 1608), (68, 1672), (69, 1736), (70, 1800),
     (71, 1864), (72, 1928), (73, 2024), (74, 2088), (75, 2152), (76, 2216), (77, 2280),
     (78, 2408), (79, 2472), (80, 2536), (81, 2600), (82, 2664), (83, 2728), (84, 2792),
     (85, 2856), (86, 2976), (87, 3104), (88, 3240), (89, 3368), (90, 3496), (91, 3624),
     (92, 3752), (93, 3824)]"

section \<open>Choosing a table\<close>

text \<open>
  The names come from the configuration and are compared with \<open>_stricmp\<close>, that is without case.
  \<open>lower\<close> is its folding of the letters A to Z.
\<close>

definition lower_char :: "char \<Rightarrow> char" where
  "lower_char c = (if 65 \<le> (of_char c :: nat) \<and> (of_char c :: nat) \<le> 90 then char_of ((of_char c :: nat) + 32) else c)"

definition stricmp_eq :: "string \<Rightarrow> string \<Rightarrow> bool" where
  "stricmp_eq a b \<longleftrightarrow> map lower_char a = map lower_char b"

text \<open>The table and its number; an unknown name gives NULL.\<close>

definition LTENR_GetCQITableFromStr :: "string \<Rightarrow> LTENR_CQITable list option \<times> u32" where
  "LTENR_GetCQITableFromStr table =
     (if stricmp_eq table ''TABLE1'' then (Some CQITable1, 1)
      else if stricmp_eq table ''TABLE2'' then (Some CQITable2, 2)
      else if stricmp_eq table ''TABLE3'' then (Some CQITable3, 3)
      else (None, 1))"

definition LTENR_PDSCH_GetMCSIndexTableFromStr :: "string \<Rightarrow> LTENR_MCSINDEXTABLE list" where
  "LTENR_PDSCH_GetMCSIndexTableFromStr table =
     (if stricmp_eq table ''QAM64'' then PDSCHMCSIndexTable1
      else if stricmp_eq table ''QAM256'' then PDSCHMCSIndexTable2
      else if stricmp_eq table ''QAM64LOWSE'' then PDSCHMCSIndexTable3
      else PDSCHMCSIndexTable1)"

definition LTENR_PUSCH_GetMCSIndexTableFromStr :: "string \<Rightarrow> bool \<Rightarrow> LTENR_MCSINDEXTABLE list" where
  "LTENR_PUSCH_GetMCSIndexTableFromStr table isTransformPrecoding =
     (if \<not> isTransformPrecoding then LTENR_PDSCH_GetMCSIndexTableFromStr table
      else if stricmp_eq table ''QAM64'' then PUSCHMCSIndexTable1
      else if stricmp_eq table ''QAM256'' then PUSCHMCSIndexTable2
      else if stricmp_eq table ''QAM64LOWSE'' then PUSCHMCSIndexTable2
      else PUSCHMCSIndexTable1)"

section \<open>Choosing an entry\<close>

definition LTENR_MAX_CQI :: nat where "LTENR_MAX_CQI = 15"

definition LTENR_MAX_MCS :: nat where "LTENR_MAX_MCS = 32"

text \<open>The loop counts down from the argument to 1.\<close>

fun cqi_search :: "LTENR_CQITable list \<Rightarrow> real \<Rightarrow> nat \<Rightarrow> LTENR_CQITable result" where
  "cqi_search table eff 0 = arr_get table 0"
| "cqi_search table eff (Suc i) =
     rbind (arr_get table (Suc i)) (\<lambda>e. if efficiency e \<le> eff then Inr e else cqi_search table eff i)"

definition LTENR_GetCQITableFromSpectralEfficiency :: "LTENR_CQITable list option \<Rightarrow> real \<Rightarrow> LTENR_CQITable result" where
  "LTENR_GetCQITableFromSpectralEfficiency table eff =
     rbind (deref table) (\<lambda>t. cqi_search t eff LTENR_MAX_CQI)"

text \<open>The loop from \<open>i\<close> with \<open>n\<close> turns left; \<open>table[i - 1]\<close> is outside the table for \<open>i = 0\<close>.\<close>

definition before :: "'a list \<Rightarrow> nat \<Rightarrow> 'a result" where
  "before table i = (if i = 0 then Inl OutOfBounds else arr_get table (i - 1))"

fun mcs_search :: "LTENR_MCSINDEXTABLE list \<Rightarrow> real \<Rightarrow> nat \<Rightarrow> nat \<Rightarrow> LTENR_MCSINDEXTABLE result" where
  "mcs_search table eff i 0 = before table i"
| "mcs_search table eff i (Suc n) =
     rbind (arr_get table i) (\<lambda>e.
     if mcs_modulation e = Modulation_Zero then before table i
     else if eff \<le> spectralEfficiency e then Inr e
     else mcs_search table eff (Suc i) n)"

definition LTENR_GetMCSIndexTableFromSpectralEfficiency :: "LTENR_MCSINDEXTABLE list \<Rightarrow> real \<Rightarrow> LTENR_MCSINDEXTABLE result" where
  "LTENR_GetMCSIndexTableFromSpectralEfficiency table eff =
     (if eff < 0 then arr_get table 0 else mcs_search table eff 0 LTENR_MAX_MCS)"

section \<open>The size of a transport block\<close>

text \<open>
  \<open>(int)floor(log2(x))\<close>: the logarithm of a number that is not positive is infinite or not a number.
\<close>

definition floor_log2 :: "real \<Rightarrow> int result" where
  "floor_log2 x = (if x \<le> 0 then Inl BadConversion else Inr \<lfloor>log 2 x\<rfloor>)"

fun tbs_search :: "(u32 \<times> u32) list \<Rightarrow> real \<Rightarrow> u32 \<Rightarrow> u32" where
  "tbs_search [] x z = z"
| "tbs_search ((i, tbs) # t) x z = (if x \<le> double_of_UINT tbs then tbs else tbs_search t x z)"

text \<open>\<open>(UINT64)pow(2, n)\<close>.\<close>

definition pow2n :: "int \<Rightarrow> real" where
  "pow2n n = real (unat (UINT64_of_double (2 powr of_int n)))"

definition LTENR_calculateTBSSize_step3 :: "real \<Rightarrow> u64 result" where
  "LTENR_calculateTBSSize_step3 Ninfo =
     rbind (floor_log2 Ninfo) (\<lambda>l.
     let p = pow2n (max 3 (l - 6));
         Ninfo' = max 24 (p * of_int \<lfloor>Ninfo / p\<rfloor>)
     in Inr (ucast (tbs_search TBSTableForNinfoLess3824 Ninfo' (snd (last TBSTableForNinfoLess3824)))))"

definition LTENR_calculateTBSSize_step4 :: "real \<Rightarrow> real \<Rightarrow> u64 result" where
  "LTENR_calculateTBSSize_step4 Ninfo R =
     rbind (floor_log2 (Ninfo - 24)) (\<lambda>l.
     let p = pow2n (l - 5);
         Ninfo' = max 3840 (p * of_int \<lceil>(Ninfo - 24) / p\<rceil>);
         blocks = (\<lambda>C. 8 * C * UINT64_of_double (of_int \<lceil>(Ninfo' + 24) / real (unat (8 * C))\<rceil>) - 24)
     in Inr (if R \<le> 1 / 4 then blocks (UINT64_of_double (of_int \<lceil>(Ninfo' + 24) / 3816\<rceil>))
             else if Ninfo' > 8424 then blocks (UINT64_of_double (of_int \<lceil>(Ninfo' + 24) / 8424\<rceil>))
             else 8 * UINT64_of_double (of_int \<lceil>(Ninfo' + 24) / 8\<rceil>) - 24))"

text \<open>
  \<open>numSubcarrierPerPRB\<close> and \<open>symbolPerSlot\<close> are 8 bits wide and multiplied as \<open>int\<close>;
  \<open>NUM_OF_RE_IN_DMRS\<close> is 0.
\<close>

record tbs_config =
  numSubcarrierPerPRB :: u8
  symbolPerSlot :: u8
  xOverhead :: u32

definition LTENR_calculateTBSSize :: "tbs_config \<Rightarrow> u32 \<Rightarrow> LTENR_MCSINDEXTABLE \<Rightarrow> u64 result" where
  "LTENR_calculateTBSSize c allocatedPRB mcsTable =
     (let Nre' = ucast (numSubcarrierPerPRB c) * ucast (symbolPerSlot c) - xOverhead c;
          Nre = min 156 Nre' * allocatedPRB;
          R = codeRate mcsTable / 1024;
          Ninfo = double_of_UINT Nre * R * of_int (modulationOrder mcsTable)
      in if Ninfo \<le> 3824 then LTENR_calculateTBSSize_step3 Ninfo
         else LTENR_calculateTBSSize_step4 Ninfo R)"

end
