(* ===== verification/MAC_CodeBlocks.thy ===== *)
theory MAC_CodeBlocks
  imports MAC_Tables
begin

text \<open>
  Code block segmentation (\<open>LTE_NR/LTENR_CodeBlockSegmentation.c\<close>, the table of
  \<open>LTENR_Multiplexing.h\<close>): how a transport block is cut into code blocks, and what the sizes
  are.
\<close>

declare of_nat_unat [simp del]

section \<open>The segmentation\<close>

text \<open>The field \<open>LiftingSize\<close> of the entries; the code does not read the field \<open>Index\<close>.\<close>

definition LDPCLiftingSizeTable :: "nat list" where
  "LDPCLiftingSizeTable =
    [2, 3, 4, 5, 6, 7, 8, 9, 10, 11, 12, 13, 14, 15, 16, 18, 20, 22, 24, 26, 28, 30, 32, 36, 40, 44, 48,
     52, 56, 60, 64, 72, 80, 88, 96, 104, 112, 120, 128, 144, 160, 176, 192, 208, 224, 240, 256, 288,
     320, 352, 384]"

definition LTENR_Mutiplexer_LDPC_SelectBaseGraph :: "real \<Rightarrow> real \<Rightarrow> int" where
  "LTENR_Mutiplexer_LDPC_SelectBaseGraph TBS R =
     (if TBS \<le> 292 \<or> TBS \<le> 3824 \<and> R \<le> 0.67 \<or> R \<le> 0.25 then 2 else 1)"

text \<open>The largest code block, and the number of information columns.\<close>

definition cbs_Kcb :: "int \<Rightarrow> u32" where
  "cbs_Kcb LDPCG = (if LDPCG = 1 then 8448 else 3840)"

definition cbs_Kb :: "int \<Rightarrow> u32 \<Rightarrow> real" where
  "cbs_Kb LDPCG TBS =
     (if LDPCG = 1 then 22 else if TBS > 640 then 10 else if TBS > 560 then 9 else if TBS > 192 then 8 else 6)"

text \<open>The number of code blocks, and the size of the transport block with their checksums.\<close>

definition cbs_split :: "int \<Rightarrow> u32 \<Rightarrow> u32 \<times> u32" where
  "cbs_split LDPCG TBS =
     (if TBS > cbs_Kcb LDPCG
      then let C = UINT_of_double (of_int \<lceil>double_of_UINT TBS / double_of_UINT (cbs_Kcb LDPCG - 24)\<rceil>)
           in (C, TBS + C * 24)
      else (1, TBS))"

text \<open>The loop over the table of lifting sizes; 384 is what \<open>Zc\<close> starts with.\<close>

fun cbs_Zc :: "nat list \<Rightarrow> real \<Rightarrow> real \<Rightarrow> real" where
  "cbs_Zc [] Kb K = 384"
| "cbs_Zc (z # zs) Kb K = (if Kb * real z > K then real z else cbs_Zc zs Kb K)"

text \<open>The results \<open>*C\<close>, \<open>*cbs\<close> and \<open>*cbs_\<close>.\<close>

definition LTENR_Multiplexer_ComputeCodeBlockSize :: "int \<Rightarrow> u32 \<Rightarrow> u32 \<times> u32 \<times> u32" where
  "LTENR_Multiplexer_ComputeCodeBlockSize LDPCG TBS =
     (let (C, B) = cbs_split LDPCG TBS;
          K' = of_int \<lceil>double_of_UINT B / (8 * double_of_UINT C)\<rceil> * 8;
          Zc = cbs_Zc LDPCLiftingSizeTable (cbs_Kb LDPCG TBS) K';
          K = (if LDPCG = 1 then 22 else 10) * Zc
      in (C, UINT_of_double K, UINT_of_double K'))"

section \<open>The lifting size\<close>

text \<open>
  The reference: the least lifting size for which the information columns hold more than a code
  block, or the largest lifting size when there is none.
\<close>

definition least_lifting_size :: "real \<Rightarrow> real \<Rightarrow> nat" where
  "least_lifting_size Kb K =
     (let fits = {z \<in> set LDPCLiftingSizeTable. K < Kb * real z}
      in if fits = {} then 384 else Min fits)"

lemma cbs_Zc_Min:
  "sorted zs \<Longrightarrow> cbs_Zc zs Kb K
     = real (let fits = {z \<in> set zs. K < Kb * real z} in if fits = {} then 384 else Min fits)"
proof (induction zs)
  case (Cons z zs)
  show ?case
  proof (cases "K < Kb * real z")
    case True
    then have "Min {y \<in> set (z # zs). K < Kb * real y} = z"
      using Cons.prems by (intro Min_eqI) auto
    with True show ?thesis by (auto simp: Let_def)
  next
    case False
    then have "{y \<in> set (z # zs). K < Kb * real y} = {y \<in> set zs. K < Kb * real y}" by auto
    with False Cons show ?thesis by simp
  qed
qed simp

lemma sorted_lifting_sizes: "sorted LDPCLiftingSizeTable"
  by (simp add: LDPCLiftingSizeTable_def)

lemma cbs_Zc_least: "cbs_Zc LDPCLiftingSizeTable Kb K = real (least_lifting_size Kb K)"
  unfolding least_lifting_size_def by (rule cbs_Zc_Min [OF sorted_lifting_sizes])

lemma lifting_size_in_table: "least_lifting_size Kb K \<in> set LDPCLiftingSizeTable"
proof -
  have "384 \<in> set LDPCLiftingSizeTable" by (simp add: LDPCLiftingSizeTable_def)
  moreover have "Min {z \<in> set LDPCLiftingSizeTable. K < Kb * real z} \<in> {z \<in> set LDPCLiftingSizeTable. K < Kb * real z}"
    if "{z \<in> set LDPCLiftingSizeTable. K < Kb * real z} \<noteq> {}"
    using that by (intro Min_in) auto
  ultimately show ?thesis by (auto simp: least_lifting_size_def Let_def)
qed

lemma lifting_size_le: "least_lifting_size Kb K \<le> 384"
proof -
  have "\<forall>z \<in> set LDPCLiftingSizeTable. z \<le> 384" by (simp add: LDPCLiftingSizeTable_def)
  then show ?thesis using lifting_size_in_table by blast
qed

lemma lifting_size_holds:
  "0 \<le> Kb \<Longrightarrow> K \<le> Kb * 384 \<Longrightarrow> K \<le> Kb * real (least_lifting_size Kb K)"
proof -
  assume a: "0 \<le> Kb" "K \<le> Kb * 384"
  have "K < Kb * real (Min {z \<in> set LDPCLiftingSizeTable. K < Kb * real z})"
    if "{z \<in> set LDPCLiftingSizeTable. K < Kb * real z} \<noteq> {}"
    using that Min_in [of "{z \<in> set LDPCLiftingSizeTable. K < Kb * real z}"] by auto
  with a show ?thesis by (simp add: least_lifting_size_def Let_def less_imp_le)
qed

section \<open>The sizes\<close>

text \<open>The number of code blocks and the bits they carry, as natural numbers.\<close>

definition cbs_payload :: "nat \<Rightarrow> nat \<Rightarrow> nat" where
  "cbs_payload n C = n + (if C = 1 then 0 else 24 * C)"

text \<open>Division rounded up.\<close>

definition div_up :: "nat \<Rightarrow> nat \<Rightarrow> nat" where
  "div_up n d = (n + d - 1) div d"

lemma div_up_bounds:
  assumes "0 < d"
  shows "n \<le> div_up n d * d" and "div_up n d * d < n + d"
proof -
  have "n + d - 1 = div_up n d * d + (n + d - 1) mod d" by (simp only: div_up_def div_mult_mod_eq)
  moreover have "(n + d - 1) mod d < d" using assms by simp
  ultimately show "n \<le> div_up n d * d" "div_up n d * d < n + d" using assms by linarith+
qed

lemma ceiling_div_nat: "0 < d \<Longrightarrow> \<lceil>real n / real d\<rceil> = int (div_up n d)"
proof -
  assume d: "0 < d"
  have "real n \<le> real (div_up n d * d)" "real (div_up n d * d) < real (n + d)"
    using div_up_bounds [OF d, of n] by (simp_all only: of_nat_le_iff of_nat_less_iff)
  then have "real n / real d \<le> real (div_up n d)" "real (div_up n d) - 1 < real n / real d"
    using d by (simp_all add: field_simps)
  then show ?thesis by (intro ceiling_unique) auto
qed

lemma unat_UINT_of_nat: "n < 2 ^ 32 \<Longrightarrow> unat (UINT_of_double (real n)) = n"
  by (simp add: unat_of_nat)

lemma unat_cbs_Kcb: "unat (cbs_Kcb g) = (if g = 1 then 8448 else 3840)"
  "unat (cbs_Kcb g - 24) = (if g = 1 then 8424 else 3816)"
  by (simp_all add: cbs_Kcb_def)

lemma cbs_split_spec:
  assumes "unat TBS < 2 ^ 31" and "cbs_split g TBS = (C, B)"
  defines "k \<equiv> (if g = 1 then 8448 else 3840 :: nat)"
  shows "0 < unat C" and "unat C < 2 ^ 20" and "unat C = 1 \<longleftrightarrow> unat TBS \<le> k"
    and "unat B = cbs_payload (unat TBS) (unat C)"
    and "unat B \<le> unat C * k" and "1 < unat C \<Longrightarrow> (unat C - 1) * (k - 24) < unat TBS"
proof -
  let ?n = "unat TBS" and ?d = "k - 24"
  have d: "0 < ?d" "k = ?d + 24" "3816 \<le> ?d" by (simp_all add: k_def)
  define q where "q = div_up ?n ?d"
  have q: "?n \<le> q * ?d" "q * ?d < ?n + ?d"
    unfolding q_def using div_up_bounds [OF d(1)] by blast+
  have q1: "1 < q" if "k < ?n"
    using q(1) that d by (cases q; cases "q - 1") auto
  have "q \<le> (2 ^ 31 + ?d - 1) div 3816"
    unfolding q_def div_up_def using assms(1) d(3) by (intro order.trans [OF div_le_mono div_le_mono2]) auto
  then have q20: "q < 2 ^ 20" using d by (simp add: k_def split: if_splits)
  have split: "(C, B) = (if k < ?n then (of_nat q, TBS + of_nat q * 24) else (1, TBS))"
    using assms(2) ceiling_div_nat [OF d(1), of ?n]
    by (auto simp: cbs_split_def Let_def word_less_nat_alt unat_cbs_Kcb k_def q_def split: if_splits)
  have u: "unat (of_nat q :: u32) = q" using q20 by (simp add: unat_of_nat)
  show "0 < unat C" "unat C < 2 ^ 20" "unat C = 1 \<longleftrightarrow> unat TBS \<le> k"
    using split u q1 q20 by (auto split: if_splits)
  have B: "unat (TBS + of_nat q * 24) = ?n + 24 * q"
  proof -
    have "unat (of_nat q * 24 :: u32) = 24 * q"
      using q20 by (simp add: unat_word_ariths u)
    then show ?thesis using assms(1) q20 by (simp add: unat_word_ariths)
  qed
  show "unat B = cbs_payload (unat TBS) (unat C)" "unat B \<le> unat C * k"
    using split u q1 q B d(2) by (auto simp: cbs_payload_def algebra_simps split: if_splits)
  show "1 < unat C \<Longrightarrow> (unat C - 1) * (k - 24) < unat TBS"
    using split u q(2) by (auto simp: diff_mult_distrib split: if_splits)
qed

lemma ceiling_eighth: "0 < C \<Longrightarrow> of_int \<lceil>real B / (8 * real C)\<rceil> * 8 = real (8 * div_up B (8 * C))"
  using ceiling_div_nat [of "8 * C" B] by simp

lemma div_up_le: "0 < d \<Longrightarrow> n \<le> d * m \<Longrightarrow> div_up n d \<le> m"
  using div_up_bounds(2) [of d n] by (metis add.commute add_le_cancel_left less_Suc_eq_le linorder_not_less
      mult.commute mult_Suc mult_le_mono1 not_less_eq_eq order.strict_trans2)

lemma code_block_bits:
  assumes "unat TBS < 2 ^ 31" and "LTENR_Multiplexer_ComputeCodeBlockSize g TBS = (C, K, K')"
  shows "unat K' = 8 * div_up (cbs_payload (unat TBS) (unat C)) (8 * unat C)"
    and "unat K' \<le> (if g = 1 then 8448 else 3840)"
    and "unat K = (if g = 1 then 22 else 10) * least_lifting_size (cbs_Kb g TBS) (real (unat K'))"
proof -
  obtain B where B: "cbs_split g TBS = (C, B)" by (cases "cbs_split g TBS") (use assms(2) in \<open>auto simp: LTENR_Multiplexer_ComputeCodeBlockSize_def Let_def\<close>)
  note spec = cbs_split_spec [OF assms(1) B]
  define k where "k = 8 * div_up (unat B) (8 * unat C)"
  have "div_up (unat B) (8 * unat C) \<le> (if g = 1 then 1056 else 480)"
    using spec(1,5) by (intro div_up_le) (auto split: if_splits)
  then have k: "k \<le> (if g = 1 then 8448 else 3840)" by (auto simp: k_def split: if_splits)
  have e: "C = C" "K = UINT_of_double ((if g = 1 then 22 else 10) * cbs_Zc LDPCLiftingSizeTable (cbs_Kb g TBS) (real k))"
    "K' = UINT_of_double (real k)"
    using assms(2) B ceiling_eighth [OF spec(1), of "unat B"]
    by (auto simp: LTENR_Multiplexer_ComputeCodeBlockSize_def Let_def k_def ac_simps)
  have uk: "unat K' = k" unfolding e(3) using k by (subst unat_UINT_of_nat) (auto split: if_splits)
  then show "unat K' = 8 * div_up (cbs_payload (unat TBS) (unat C)) (8 * unat C)"
    "unat K' \<le> (if g = 1 then 8448 else 3840)"
    using k by (simp_all add: k_def spec(4))
  have "(if g = 1 then 22 else 10) * cbs_Zc LDPCLiftingSizeTable (cbs_Kb g TBS) (real k)
      = real ((if g = 1 then 22 else 10) * least_lifting_size (cbs_Kb g TBS) (real k))"
    by (simp add: cbs_Zc_least)
  moreover have "(if g = 1 then 22 else 10) * least_lifting_size (cbs_Kb g TBS) (real k) < 2 ^ 32"
    using lifting_size_le [of "cbs_Kb g TBS" "real k"] by auto
  ultimately show "unat K = (if g = 1 then 22 else 10) * least_lifting_size (cbs_Kb g TBS) (real (unat K'))"
    unfolding e(2) uk by (simp only: unat_UINT_of_nat)
qed

lemma cbs_Kb_le: "0 < cbs_Kb g TBS" "cbs_Kb g TBS \<le> (if g = 1 then 22 else 10)" "6 \<le> cbs_Kb g TBS"
  "g \<noteq> 1 \<Longrightarrow> 640 < unat TBS \<Longrightarrow> cbs_Kb g TBS = 10" "cbs_Kb 1 TBS = 22"
  by (auto simp: cbs_Kb_def word_less_nat_alt)

lemma code_block_fits_columns:
  assumes "unat TBS < 2 ^ 31" and "LTENR_Multiplexer_ComputeCodeBlockSize g TBS = (C, K, K')"
  shows "real (unat K') \<le> cbs_Kb g TBS * 384"
proof (cases "g = 1 \<or> 640 < unat TBS")
  case True
  then show ?thesis using code_block_bits(2) [OF assms] cbs_Kb_le(4,5) by (auto split: if_splits)
next
  case False
  obtain B where B: "cbs_split g TBS = (C, B)"
    by (cases "cbs_split g TBS") (use assms(2) in \<open>auto simp: LTENR_Multiplexer_ComputeCodeBlockSize_def Let_def\<close>)
  have "unat C = 1" using cbs_split_spec(3) [OF assms(1) B] False by auto
  moreover have "div_up (unat TBS) 8 \<le> 80" using False by (intro div_up_le) auto
  ultimately have "unat K' \<le> 640" by (simp add: code_block_bits(1) [OF assms] cbs_payload_def)
  then have "real (unat K') \<le> 6 * 384" by simp
  also have "\<dots> \<le> cbs_Kb g TBS * 384" using cbs_Kb_le(3) by simp
  finally show ?thesis .
qed

text \<open>
  C25. The code blocks of a transport block hold it with a checksum of 24 bits each, when there is
  more than one, and less than a byte of padding each; they are whole bytes and no larger than
  their base graph allows, one block fewer would not do, and the encoder's block
  holds a code block.
\<close>

theorem code_blocks_hold_transport_block:
  assumes "unat TBS < 2 ^ 31" and "g = 1 \<or> g = 2"
    and "LTENR_Multiplexer_ComputeCodeBlockSize g TBS = (C, cbs, cbs')"
  shows "cbs_payload (unat TBS) (unat C) \<le> unat C * unat cbs'
    \<and> unat C * unat cbs' < cbs_payload (unat TBS) (unat C) + 8 * unat C
    \<and> 8 dvd unat cbs' \<and> unat cbs' \<le> unat (cbs_Kcb g) \<and> unat cbs' \<le> unat cbs
    \<and> (1 < unat C \<longrightarrow> (unat C - 1) * (unat (cbs_Kcb g) - 24) < unat TBS)"
proof -
  obtain B where B: "cbs_split g TBS = (C, B)" by (cases "cbs_split g TBS") (use assms(3) in \<open>auto simp: LTENR_Multiplexer_ComputeCodeBlockSize_def Let_def\<close>)
  note spec = cbs_split_spec [OF assms(1) B] and bits = code_block_bits [OF assms(1,3)]
  let ?P = "cbs_payload (unat TBS) (unat C)" and ?d = "8 * unat C"
  have "?P \<le> div_up ?P ?d * ?d" "div_up ?P ?d * ?d < ?P + ?d"
    using div_up_bounds [of ?d ?P] spec(1) by simp_all
  then have P: "?P \<le> unat C * unat cbs'" "unat C * unat cbs' < ?P + ?d"
    by (simp_all add: bits(1) mult.assoc mult.commute mult.left_commute)
  let ?z = "least_lifting_size (cbs_Kb g TBS) (real (unat cbs'))"
  have "real (unat cbs') \<le> cbs_Kb g TBS * real ?z"
    using cbs_Kb_le(1) by (intro lifting_size_holds code_block_fits_columns [OF assms(1,3)]) (simp add: less_imp_le)
  also have "\<dots> \<le> (if g = 1 then 22 else 10) * real ?z"
    by (intro mult_right_mono cbs_Kb_le(2)) simp
  also have "\<dots> = real (unat cbs)" by (simp add: bits(3))
  finally have "unat cbs' \<le> unat cbs" by simp
  with P bits spec(6) show ?thesis by (auto simp: unat_cbs_Kcb)
qed

text \<open>
  C27. The loop over the table finds the least lifting size for which the information columns hold
  strictly more than a code block, or the largest lifting size. The size the comment at the table asks for,
  the least one that holds the code block, is smaller exactly when a lifting size other than the
  largest fits exactly.
\<close>

theorem lifting_size_search:
  assumes "unat TBS < 2 ^ 31" and "LTENR_Multiplexer_ComputeCodeBlockSize g TBS = (C, cbs, cbs')"
  defines "Kb \<equiv> cbs_Kb g TBS" and "K \<equiv> real (unat cbs')"
  shows "unat cbs = (if g = 1 then 22 else 10) * least_lifting_size Kb K
    \<and> ((\<exists>y \<in> set LDPCLiftingSizeTable. K \<le> Kb * real y \<and> y < least_lifting_size Kb K)
       \<longleftrightarrow> (\<exists>y \<in> set LDPCLiftingSizeTable. K = Kb * real y \<and> y < 384))"
proof -
  let ?fits = "{z \<in> set LDPCLiftingSizeTable. K < Kb * real z}"
  have z: "least_lifting_size Kb K = (if ?fits = {} then 384 else Min ?fits)"
    by (simp add: least_lifting_size_def Let_def)
  have le: "\<forall>y \<in> set LDPCLiftingSizeTable. y \<le> 384" by (simp add: LDPCLiftingSizeTable_def)
  have least: "least_lifting_size Kb K \<le> y" if "y \<in> set LDPCLiftingSizeTable" "K < Kb * real y" for y
    using that z by (auto intro: Min_le)
  have "y < least_lifting_size Kb K" if "K = Kb * real y" "y < 384" for y
  proof (cases "?fits = {}")
    case False
    then have "Min ?fits \<in> ?fits" by (intro Min_in) auto
    moreover have "0 < Kb" using cbs_Kb_le(1) by (simp add: Kb_def)
    ultimately show ?thesis using False that z by auto
  qed (use that z in auto)
  moreover have "K = Kb * real y \<and> y < 384"
    if "y \<in> set LDPCLiftingSizeTable" "K \<le> Kb * real y" "y < least_lifting_size Kb K" for y
    using that least [of y] lifting_size_le [of Kb K] by linarith
  ultimately have "(\<exists>y \<in> set LDPCLiftingSizeTable. K \<le> Kb * real y \<and> y < least_lifting_size Kb K)
       \<longleftrightarrow> (\<exists>y \<in> set LDPCLiftingSizeTable. K = Kb * real y \<and> y < 384)"
    by (metis order.refl)
  with code_block_bits(3) [OF assms(1,2)] show ?thesis by (simp add: Kb_def K_def)
qed

text \<open>48 bits on base graph 2: six columns of 8 would hold them, the code takes nine.\<close>

lemma small_block: "LTENR_Multiplexer_ComputeCodeBlockSize 2 48 = (1, 90, 48)"
  by (simp add: LTENR_Multiplexer_ComputeCodeBlockSize_def cbs_split_def cbs_Kcb_def cbs_Kb_def
      LDPCLiftingSizeTable_def UINT_of_double_def)

lemma large_block: "LTENR_Multiplexer_ComputeCodeBlockSize 1 20000 = (3, 7040, 6696)"
  by (simp add: LTENR_Multiplexer_ComputeCodeBlockSize_def cbs_split_def cbs_Kcb_def cbs_Kb_def
      LDPCLiftingSizeTable_def UINT_of_double_def)

lemma code_blocks_hold_transport_block_witness:
  "LTENR_Multiplexer_ComputeCodeBlockSize 1 20000 = (3, 7040, 6696)
    \<and> cbs_payload 20000 3 \<le> 3 * 6696 \<and> 2 * 8424 < (20000 :: nat)"
  using code_blocks_hold_transport_block [of 20000 1 3 7040 6696] large_block by (simp add: unat_cbs_Kcb)

lemma lifting_size_search_witness:
  "LTENR_Multiplexer_ComputeCodeBlockSize 2 48 = (1, 90, 48)
   \<and> least_lifting_size (cbs_Kb 2 48) 48 = 9
   \<and> (\<exists>y \<in> set LDPCLiftingSizeTable. 48 \<le> cbs_Kb 2 48 * real y \<and> y < 9)"
proof -
  have "8 \<in> set LDPCLiftingSizeTable \<and> 48 = cbs_Kb 2 48 * real 8 \<and> (8 :: nat) < 384"
    by (simp add: LDPCLiftingSizeTable_def cbs_Kb_def)
  then have "\<exists>y \<in> set LDPCLiftingSizeTable. 48 = cbs_Kb 2 48 * real y \<and> y < 384" by blast
  then show ?thesis using lifting_size_search [of 48 2 1 90 48] small_block by auto
qed

end
