(* ===== verification/MAC_Types.thy ===== *)
theory MAC_Types
  imports MAC_CodeBlocks RLC_Core
begin

text \<open>
  The data of the MAC sublayer of a gNB (\<open>LTE_NR/LTENR_HARQ.h\<close>, \<open>LTENR_MAC.h\<close>, \<open>LTENR_Spectrum.h\<close>,
  of \<open>LTENR_PHY.h\<close> and \<open>LTENR_OLLA.c\<close> what MAC uses): HARQ processes, the link adaptation of a UE and the
  scheduler's view of it.
\<close>

section \<open>Loops over arrays\<close>

text \<open>
  \<open>for (i = 0; i < n; i++)\<close> over the elements of an array, with a state passed from turn to
  turn; a turn past the end of the array is a fault.
\<close>

fun on_first :: "nat \<Rightarrow> ('a \<Rightarrow> 's \<Rightarrow> ('a \<times> 's) result) \<Rightarrow> 'a list \<Rightarrow> 's \<Rightarrow> ('a list \<times> 's) result" where
  "on_first 0 f xs s = Inr (xs, s)"
| "on_first (Suc n) f [] s = Inl OutOfBounds"
| "on_first (Suc n) f (x # xs) s =
     rbind (f x s) (\<lambda>(x', s'). rbind (on_first n f xs s') (\<lambda>(xs', s''). Inr (x' # xs', s'')))"

text \<open>The loop over a whole list.\<close>

definition on_all :: "('a \<Rightarrow> 's \<Rightarrow> ('a \<times> 's) result) \<Rightarrow> 'a list \<Rightarrow> 's \<Rightarrow> ('a list \<times> 's) result" where
  "on_all f xs s = on_first (length xs) f xs s"

lemma on_all_simps [simp]:
  "on_all f [] s = Inr ([], s)"
  "on_all f (x # xs) s = rbind (f x s) (\<lambda>(x', s'). rbind (on_all f xs s') (\<lambda>(xs', s''). Inr (x' # xs', s'')))"
  by (simp_all add: on_all_def)

lemma on_first_length: "on_first n f xs s = Inr (ys, t) \<Longrightarrow> length ys = length xs"
  by (induction n f xs s arbitrary: ys t rule: on_first.induct) (auto elim!: rbind_InrE)

lemma on_first_bound: "on_first n f xs s = Inr r \<Longrightarrow> n \<le> length xs"
  by (induction n f xs s arbitrary: r rule: on_first.induct) (auto elim!: rbind_InrE)

lemma on_first_rest: "on_first n f xs s = Inr (ys, t) \<Longrightarrow> drop n ys = drop n xs"
  by (induction n f xs s arbitrary: ys t rule: on_first.induct) (auto elim!: rbind_InrE)

text \<open>What every turn keeps of the elements and of the state, the loop keeps.\<close>

lemma on_first_inv:
  assumes "on_first n f xs s = Inr (ys, t)" and "I s" and "\<forall>x \<in> set xs. P x"
    and "\<And>x s x' s'. P x \<Longrightarrow> I s \<Longrightarrow> f x s = Inr (x', s') \<Longrightarrow> P x' \<and> I s'"
  shows "I t \<and> (\<forall>y \<in> set ys. P y)"
  using assms(1-3)
proof (induction n arbitrary: xs s ys)
  case (Suc n)
  obtain x xs' where xs: "xs = x # xs'" using Suc.prems(1) by (cases xs) auto
  obtain x' s' ys' where r: "f x s = Inr (x', s')" "on_first n f xs' s' = Inr (ys', t)" "ys = x' # ys'"
    using Suc.prems(1) by (auto simp: xs elim!: rbind_InrE)
  have "P x' \<and> I s'" using assms(4) [OF _ Suc.prems(2) r(1)] Suc.prems(3) by (simp add: xs)
  then show ?case using Suc.IH [OF r(2)] Suc.prems(3) r(3) by (simp add: xs)
qed auto

text \<open>The loop reaches its end when every turn does.\<close>

lemma on_first_total:
  assumes "n \<le> length xs" and "I s" and "\<forall>x \<in> set xs. P x"
    and "\<And>x s. P x \<Longrightarrow> I s \<Longrightarrow> \<exists>x' s'. f x s = Inr (x', s') \<and> I s'"
  shows "\<exists>ys t. on_first n f xs s = Inr (ys, t)"
  using assms(1-3)
proof (induction n arbitrary: xs s)
  case (Suc n)
  then obtain x xs' where xs: "xs = x # xs'" by (cases xs) auto
  obtain x' s' where f: "f x s = Inr (x', s')" "I s'" using assms(4) Suc.prems xs by fastforce
  obtain ys t where "on_first n f xs' s' = Inr (ys, t)" using Suc.IH [of xs' s'] Suc.prems f xs by auto
  then show ?case by (simp add: xs f)
qed simp

text \<open>A write to one element of an array.\<close>

definition arr_set :: "'a list \<Rightarrow> nat \<Rightarrow> 'a \<Rightarrow> 'a list result" where
  "arr_set xs i x = (if i < length xs then Inr (xs[i := x]) else Inl OutOfBounds)"

lemma arr_set_Inr [simp]: "arr_set xs i x = Inr ys \<longleftrightarrow> i < length xs \<and> ys = xs[i := x]"
  by (auto simp: arr_set_def)

section \<open>HARQ\<close>

datatype PACKET_STATUS =
    PacketStatus_NoError | PacketStatus_Error | PacketStatus_Collided | PacketStatus_Buffer_Dropped
  | PacketStatus_TTL_Expired | PacketStatus_Dropped | PacketStatus_MAC_Lifetime_Expired | PacketStatus_LAST

definition MAX_HARQ_PROCESS :: nat where "MAX_HARQ_PROCESS = 16"
definition MAX_CBGCOUNT_PER_TB :: nat where "MAX_CBGCOUNT_PER_TB = 8"
definition MAX_CA_COUNT :: nat where "MAX_CA_COUNT = 32"
definition MAX_LAYER_COUNT :: nat where "MAX_LAYER_COUNT = 16"

text \<open>\<open>CBErrorStatus\<close> is NULL or the array it points to.\<close>

record LTENR_CBG =
  CBCount :: u32
  CBErrorStatus :: "PACKET_STATUS list option"
  cbg_isErrored :: PACKET_STATUS

record LTENR_HARQ_BUFFER =
  CBGCount :: u32
  hb_bitsPerPRB :: u32
  bler :: real
  sinr :: real
  isNonEmpty :: bool
  hb_isErrored :: PACKET_STATUS
  Totalsize :: u32
  PendingSize :: u32
  CBGList :: "LTENR_CBG list"

text \<open>
  The pointer \<open>amcInfo\<close> of a process refers to one of the arrays of its UE, that of a carrier in
  downlink or in uplink direction.
\<close>

datatype amc_ptr = AmcDL nat | AmcUL nat

text \<open>\<open>packetBuffer\<close> is the chain of packets from \<open>head\<close> to \<open>tail\<close>.\<close>

record LTENR_HARQ_PROCESS =
  isUPLinkProcess :: bool
  hp_caId :: nat
  hp_slotId :: u32
  hp_frameId :: u32
  hp_subFrameId :: u32
  processId :: u32
  transmissionNumber :: u32
  NDI :: bool
  PRBReqdForRetx :: u32
  packetBuffer :: "NetSim_PACKET list"
  hp_transmissionBuffer :: "LTENR_HARQ_BUFFER list"
  layerCount :: u32
  hp_amcInfo :: "amc_ptr option"

record LTENR_HARQ_ENTITY =
  he_gNBId :: netsim_id
  he_gNBIf :: netsim_id
  he_ueId :: netsim_id
  he_ueIf :: netsim_id
  maxProcessCount :: u32
  retryLimit :: u32
  maxCBGPerTB :: u32
  currentProcessId :: u32
  BlerTableId :: u32
  isUpinkEntity :: bool
  harqProcess :: "LTENR_HARQ_PROCESS list"

record LTENR_HARQ_VAR =
  downlinkHARQEntity :: "LTENR_HARQ_ENTITY list"
  uplinkHARQEntity :: "LTENR_HARQ_ENTITY list"

text \<open>Zeroed memory.\<close>

definition CBG_ZERO :: LTENR_CBG where
  "CBG_ZERO = \<lparr>CBCount = 0, CBErrorStatus = None, cbg_isErrored = PacketStatus_NoError\<rparr>"

definition HARQ_BUFFER_ZERO :: LTENR_HARQ_BUFFER where
  "HARQ_BUFFER_ZERO =
     \<lparr>CBGCount = 0, hb_bitsPerPRB = 0, bler = 0, sinr = 0, isNonEmpty = False, hb_isErrored = PacketStatus_NoError,
      Totalsize = 0, PendingSize = 0, CBGList = replicate MAX_CBGCOUNT_PER_TB CBG_ZERO\<rparr>"

definition HARQ_PROCESS_ZERO :: LTENR_HARQ_PROCESS where
  "HARQ_PROCESS_ZERO =
     \<lparr>isUPLinkProcess = False, hp_caId = 0, hp_slotId = 0, hp_frameId = 0, hp_subFrameId = 0, processId = 0,
      transmissionNumber = 0, NDI = False, PRBReqdForRetx = 0, packetBuffer = [],
      hp_transmissionBuffer = replicate MAX_LAYER_COUNT HARQ_BUFFER_ZERO, layerCount = 0, hp_amcInfo = None\<rparr>"

section \<open>Link adaptation\<close>

record LTENR_AMCINFO =
  SpectralEfficiency :: real
  cqiTable :: LTENR_CQITable
  mcsTable :: LTENR_MCSINDEXTABLE
  tbsSize :: u32
  BG :: u32
  CBS :: u32
  CBS' :: u32
  nCodeBlock :: u32

record OLLAHANDLER =
  deltaOLLA :: real
  targerBLER :: real
  deltaDown :: real
  deltaUp :: real

text \<open>One handler for each carrier and layer.\<close>

record OLLACONTAINER =
  uplinkHandler :: "OLLAHANDLER list list"
  downlinkHandler :: "OLLAHANDLER list list"

section \<open>The UEs of a gNB\<close>

text \<open>
  The fields of \<open>LTENR_ASSOCIATEDUEPHYINFO\<close> MAC uses. \<open>ma_downlinkAMCInfo ca\<close> is the array of the
  layers of a carrier, or NULL; its elements are allocated with it. \<open>ma_downlinkSINR_db ca\<close> and
  \<open>ma_uplinkSINR_db ca\<close> are the arrays of \<open>propagationInfo[ca]\<close>, which the propagation model fills.
\<close>

record MAC_ASSOCIATEDUEPHYINFO =
  ma_ueId :: netsim_id
  ma_ueIf :: netsim_id
  ma_isAssociated :: bool
  ma_uplinkAMCInfo :: "nat \<Rightarrow> LTENR_AMCINFO list option"
  ma_downlinkAMCInfo :: "nat \<Rightarrow> LTENR_AMCINFO list option"
  ma_uplinkSINR_db :: "nat \<Rightarrow> real list option"
  ma_downlinkSINR_db :: "nat \<Rightarrow> real list option"
  ma_harq :: "LTENR_HARQ_VAR option"
  ma_OLLAContainer :: "OLLACONTAINER option"

definition amc_array :: "MAC_ASSOCIATEDUEPHYINFO \<Rightarrow> amc_ptr \<Rightarrow> LTENR_AMCINFO list option" where
  "amc_array a p = (case p of AmcDL ca \<Rightarrow> ma_downlinkAMCInfo a ca | AmcUL ca \<Rightarrow> ma_uplinkAMCInfo a ca)"

definition amc_array_set :: "MAC_ASSOCIATEDUEPHYINFO \<Rightarrow> amc_ptr \<Rightarrow> LTENR_AMCINFO list \<Rightarrow> MAC_ASSOCIATEDUEPHYINFO" where
  "amc_array_set a p xs =
     (case p of AmcDL ca \<Rightarrow> a\<lparr>ma_downlinkAMCInfo := (ma_downlinkAMCInfo a)(ca \<mapsto> xs)\<rparr>
      | AmcUL ca \<Rightarrow> a\<lparr>ma_uplinkAMCInfo := (ma_uplinkAMCInfo a)(ca \<mapsto> xs)\<rparr>)"

text \<open>\<open>p[l]\<close> for a pointer \<open>p\<close> to such an array.\<close>

definition amc_read :: "MAC_ASSOCIATEDUEPHYINFO \<Rightarrow> amc_ptr option \<Rightarrow> nat \<Rightarrow> LTENR_AMCINFO result" where
  "amc_read a p l = rbind (deref p) (\<lambda>p. rbind (deref (amc_array a p)) (\<lambda>xs. arr_get xs l))"

datatype LTENR_SLOTTYPE = SLOT_UPLINK | SLOT_DOWNLINK | SLOT_MIXED

record LTENR_FRAMEINFO =
  frameId :: u32
  frameStartTime :: real
  frameEndTime :: real
  subFrameId :: u32
  subFrameStartTime :: real
  subFrameEndTime :: real
  slotId :: u32
  slotStartTime :: real
  slotEndTime :: real
  fi_slotType :: LTENR_SLOTTYPE
  prevSlotType :: LTENR_SLOTTYPE
  Current_CA_ID :: nat

section \<open>The scheduler\<close>

datatype LTENR_GnbSchedulingType =
    LTENR_MAC_SCHEDULING_ROUNDROBIN | LTENR_MAC_SCHEDULING_PROPORTIONALFAIR
  | LTENR_MAC_SCHEDULING_MAXTHROUGHTPUT | LTENR_MAC_SCHEDULING_FAIR_SCHEDULING

record LTENR_UESCHEDULERINFO =
  si_ueId :: netsim_id
  si_ueIf :: netsim_id
  bufferSize :: u32
  bitsPerPRB :: u64
  bitsPerPRBLayer :: "u64 list"
  TBSLayer :: "u64 list"
  initRank :: real
  rank :: real
  var2 :: real
  averageThroughput :: real
  si_NDI :: bool
  PRBReqdForHARQRetransmission :: u32
  allocatedPRBCount :: u32

text \<open>The lists of the UEs from \<open>uplinkInfo\<close> and \<open>downlinkInfo\<close> on over \<open>next\<close>.\<close>

record LTENR_SCHEDULERINFO =
  sch_gnbId :: netsim_id
  sch_gnbIf :: netsim_id
  PRBCount :: u32
  OH_UL :: real
  OH_DL :: real
  isPRBRankInit :: bool
  isUERRCSetUpCompleted :: bool
  schedulingType :: LTENR_GnbSchedulingType
  sch_alpha :: real
  sch_slotType :: LTENR_SLOTTYPE
  TotalPRBReqdForHARQRetransmission :: u32
  uplinkInfo :: "LTENR_UESCHEDULERINFO list"
  downlinkInfo :: "LTENR_UESCHEDULERINFO list"

end
