(* ===== verification/MAC_HARQ.thy ===== *)
theory MAC_HARQ
  imports MAC_Types
begin

text \<open>
  Hybrid ARQ (\<open>LTE_NR/LTENR_HARQ.c\<close>) and outer loop link adaptation (\<open>LTENR_OLLA.c\<close>): the processes
  that carry transport blocks, the errors of their code blocks, retransmission, and the correction
  of the SINR that errors and successes of first transmissions cause.
\<close>

section \<open>Environment\<close>

text \<open>The fields of \<open>LTENR_PROTODATA\<close> MAC uses, and the table number of the CSI report.\<close>

record mac_config =
  HARQ_ProcessCount :: u32
  HARQ_RetryLimit :: u32
  isHARQEnable :: bool
  cfg_maxCBGPerTB :: u32
  isOLLAEnable :: bool
  cfg_targetBLER :: real
  isBlerEnable :: bool
  cfg_alpha :: real
  cfg_schedulingType :: string
  EWMA_Learning_Rate :: real
  CSI_tableId :: u32

text \<open>
  The code outside the repository: the block error rate \<open>LTENR_GetBLER\<close> (table, MCS index, base graph,
  size, SINR), the random numbers \<open>NETSIM_RAND_01\<close> in the order they are drawn, the configuration of
  an interface and the number of layers of a UE (\<open>True\<close>: uplink).
\<close>

record mac_env =
  LTENR_GetBLER :: "u32 \<Rightarrow> int \<Rightarrow> u32 \<Rightarrow> u32 \<Rightarrow> real \<Rightarrow> real"
  NETSIM_RAND_01 :: "nat \<Rightarrow> real"
  mac_pd :: "netsim_id \<Rightarrow> netsim_id \<Rightarrow> mac_config"
  LTENR_PHY_GET_LAYER_COUNT :: "netsim_id \<Rightarrow> netsim_id \<Rightarrow> bool \<Rightarrow> u32"

text \<open>The event a received transport block is handed on with; \<open>mi_packets\<close> is the chain from its packet.\<close>

record mac_in_event =
  mi_time :: real
  mi_packetSize :: real
  mi_app :: "(u32 \<times> int) option"
  mi_deviceId :: netsim_id
  mi_interfaceId :: netsim_id
  mi_packets :: "NetSim_PACKET list"

text \<open>
  \<open>HarqDropped p\<close>: the packet is written to the trace as an error and freed. \<open>NotConnected p\<close>: an
  error message, and the packet is freed.
\<close>

datatype mac_effect =
    HarqDropped NetSim_PACKET | MacInEvent mac_in_event | NotConnected NetSim_PACKET
  | PhysicalOut NetSim_PACKET | MacInDropped NetSim_PACKET | MacInFreed NetSim_PACKET
  | MacInReceived NetSim_PACKET

text \<open>How many random numbers were drawn, and the calls to other parts.\<close>

record mac_io =
  io_rand :: nat
  io_trace :: "mac_effect list"

definition io_out :: "mac_effect list \<Rightarrow> mac_io \<Rightarrow> mac_io" where
  "io_out xs io = io\<lparr>io_trace := io_trace io @ xs\<rparr>"

section \<open>Errors\<close>

definition DecideCBError :: "real \<Rightarrow> real \<Rightarrow> PACKET_STATUS" where
  "DecideCBError r b = (if r \<le> b then PacketStatus_Error else PacketStatus_NoError)"

text \<open>The code blocks of a group; \<open>first\<close> holds for the first transmission.\<close>

fun decide_cbs :: "mac_env \<Rightarrow> real \<Rightarrow> bool \<Rightarrow> PACKET_STATUS list \<Rightarrow> nat \<Rightarrow> PACKET_STATUS list \<times> nat" where
  "decide_cbs E b first [] k = ([], k)"
| "decide_cbs E b first (s # ss) k =
     (if s = PacketStatus_Error \<or> first
      then let (ss', k') = decide_cbs E b first ss (Suc k) in (DecideCBError (NETSIM_RAND_01 E k) b # ss', k')
      else let (ss', k') = decide_cbs E b first ss k in (s # ss', k'))"

text \<open>\<open>isErrored\<close> of a group: the first status that is not \<open>PacketStatus_NoError\<close>.\<close>

definition first_error :: "PACKET_STATUS list \<Rightarrow> PACKET_STATUS" where
  "first_error ss = (case find (\<lambda>s. s \<noteq> PacketStatus_NoError) ss of None \<Rightarrow> PacketStatus_NoError | Some s \<Rightarrow> s)"

definition decide_cbg :: "mac_env \<Rightarrow> real \<Rightarrow> bool \<Rightarrow> LTENR_CBG \<Rightarrow> nat \<Rightarrow> (LTENR_CBG \<times> nat) result" where
  "decide_cbg E b first cbg k =
     (if CBCount cbg = 0 then Inr (cbg\<lparr>cbg_isErrored := PacketStatus_NoError\<rparr>, k)
      else rbind (deref (CBErrorStatus cbg)) (\<lambda>ss.
        let n = unat (CBCount cbg)
        in if length ss < n then Inl OutOfBounds
           else let (ss', k') = decide_cbs E b first (take n ss) k
                in Inr (cbg\<lparr>CBErrorStatus := Some (ss' @ drop n ss), cbg_isErrored := first_error ss'\<rparr>, k')))"

definition cbgs_error :: "LTENR_CBG list \<Rightarrow> PACKET_STATUS" where
  "cbgs_error cs = (if \<exists>c \<in> set cs. cbg_isErrored c = PacketStatus_Error then PacketStatus_Error else PacketStatus_NoError)"

definition decide_layer :: "mac_env \<Rightarrow> bool \<Rightarrow> LTENR_HARQ_BUFFER \<Rightarrow> nat \<Rightarrow> (LTENR_HARQ_BUFFER \<times> nat) result" where
  "decide_layer E first buff k =
     rbind (on_first (unat (CBGCount buff)) (decide_cbg E (bler buff) first) (CBGList buff) k) (\<lambda>(cs, k').
     Inr (buff\<lparr>CBGList := cs, hb_isErrored := cbgs_error (take (unat (CBGCount buff)) cs)\<rparr>, k'))"

definition DecideCBGError :: "mac_env \<Rightarrow> LTENR_HARQ_PROCESS \<Rightarrow> mac_io \<Rightarrow> (LTENR_HARQ_PROCESS \<times> mac_io) result" where
  "DecideCBGError E process io =
     rbind (on_first (unat (layerCount process)) (decide_layer E (transmissionNumber process = 0))
              (hp_transmissionBuffer process) (io_rand io)) (\<lambda>(bs, k).
     Inr (process\<lparr>hp_transmissionBuffer := bs\<rparr>, io\<lparr>io_rand := k\<rparr>))"

section \<open>Packet buffer and code block groups\<close>

definition EmptyPacketBuffer :: "LTENR_HARQ_PROCESS \<Rightarrow> mac_io \<Rightarrow> LTENR_HARQ_PROCESS \<times> mac_io" where
  "EmptyPacketBuffer process io =
     (process\<lparr>packetBuffer := []\<rparr>, io_out (map HarqDropped (packetBuffer process)) io)"

definition AddPacketToPacketBuffer :: "LTENR_HARQ_PROCESS \<Rightarrow> NetSim_PACKET \<Rightarrow> LTENR_HARQ_PROCESS" where
  "AddPacketToPacketBuffer process packet = process\<lparr>packetBuffer := packetBuffer process @ [packet]\<rparr>"

definition ResetCBG :: "LTENR_HARQ_PROCESS \<Rightarrow> LTENR_HARQ_PROCESS result" where
  "ResetCBG process =
     rbind (on_first (unat (layerCount process))
              (\<lambda>b u. Inr (b\<lparr>hb_bitsPerPRB := 0, bler := 0, CBGCount := 0, hb_isErrored := PacketStatus_NoError,
                   isNonEmpty := False, PendingSize := 0, sinr := 0, Totalsize := 0,
                   CBGList := map (\<lambda>c. CBG_ZERO) (CBGList b)\<rparr>, u))
              (hp_transmissionBuffer process) ()) (\<lambda>(bs, u).
     Inr (process\<lparr>hp_transmissionBuffer := bs, NDI := True, PRBReqdForRetx := 0, transmissionNumber := 0\<rparr>))"

text \<open>\<open>pending_size\<close> is the loop over the groups of a layer, the body of the loop over the layers follows.\<close>

definition pending_size :: "u32 \<Rightarrow> LTENR_CBG list \<Rightarrow> u32" where
  "pending_size cbs cs = sum_list (map (\<lambda>c. CBCount c * cbs) (filter (\<lambda>c. cbg_isErrored c = PacketStatus_Error) cs))"

definition pending_layer ::
  "MAC_ASSOCIATEDUEPHYINFO \<Rightarrow> amc_ptr option \<Rightarrow> LTENR_HARQ_BUFFER \<Rightarrow> nat \<times> u32 \<Rightarrow> (LTENR_HARQ_BUFFER \<times> nat \<times> u32) result" where
  "pending_layer a amc buff lp =
     (let n = unat (CBGCount buff); cs = take n (CBGList buff)
      in if length (CBGList buff) < n then Inl OutOfBounds
         else rbind (if \<exists>c \<in> set cs. cbg_isErrored c = PacketStatus_Error
                     then rbind (amc_read a amc (fst lp)) (\<lambda>x. Inr (CBS' x)) else Inr 0) (\<lambda>cbs.
           let size = pending_size cbs cs
           in if hb_bitsPerPRB buff = 0 then Inl DivByZero
              else Inr (buff\<lparr>PendingSize := size\<rparr>, Suc (fst lp), max (snd lp) (size div hb_bitsPerPRB buff))))"

definition CalculatePendingData :: "MAC_ASSOCIATEDUEPHYINFO \<Rightarrow> LTENR_HARQ_PROCESS \<Rightarrow> LTENR_HARQ_PROCESS result" where
  "CalculatePendingData a process =
     rbind (on_first (unat (layerCount process)) (pending_layer a (hp_amcInfo process))
              (hp_transmissionBuffer process) (0, 0)) (\<lambda>(bs, l, prbreqd).
     Inr (process\<lparr>hp_transmissionBuffer := bs, PRBReqdForRetx := prbreqd\<rparr>))"

section \<open>Entities\<close>

text \<open>\<open>&entity->harqProcess[entity->currentProcessId - 1]\<close>, and a write through it.\<close>

definition current_index :: "LTENR_HARQ_ENTITY \<Rightarrow> nat" where
  "current_index entity = unat (currentProcessId entity - 1)"

definition current_process :: "LTENR_HARQ_ENTITY \<Rightarrow> LTENR_HARQ_PROCESS result" where
  "current_process entity = arr_get (harqProcess entity) (current_index entity)"

definition put_process :: "LTENR_HARQ_ENTITY \<Rightarrow> LTENR_HARQ_PROCESS \<Rightarrow> LTENR_HARQ_ENTITY" where
  "put_process entity p = entity\<lparr>harqProcess := (harqProcess entity)[current_index entity := p]\<rparr>"

text \<open>The entity of a carrier; \<open>ul\<close> chooses the direction.\<close>

definition harq_entity :: "bool \<Rightarrow> nat \<Rightarrow> MAC_ASSOCIATEDUEPHYINFO \<Rightarrow> LTENR_HARQ_ENTITY result" where
  "harq_entity ul ca a =
     rbind (deref (ma_harq a)) (\<lambda>h. arr_get (if ul then uplinkHARQEntity h else downlinkHARQEntity h) ca)"

definition put_entity :: "bool \<Rightarrow> nat \<Rightarrow> LTENR_HARQ_ENTITY \<Rightarrow> MAC_ASSOCIATEDUEPHYINFO \<Rightarrow> MAC_ASSOCIATEDUEPHYINFO" where
  "put_entity ul ca e a =
     a\<lparr>ma_harq := map_option (\<lambda>h. if ul then h\<lparr>uplinkHARQEntity := (uplinkHARQEntity h)[ca := e]\<rparr>
                                 else h\<lparr>downlinkHARQEntity := (downlinkHARQEntity h)[ca := e]\<rparr>) (ma_harq a)\<rparr>"

section \<open>Association\<close>

definition FreeHARQEntity :: "LTENR_HARQ_ENTITY \<Rightarrow> mac_io \<Rightarrow> mac_io" where
  "FreeHARQEntity entity io = fold (\<lambda>p io. snd (EmptyPacketBuffer p io)) (harqProcess entity) io"

fun free_entities :: "LTENR_HARQ_ENTITY list \<Rightarrow> LTENR_HARQ_ENTITY list \<Rightarrow> mac_io \<Rightarrow> mac_io" where
  "free_entities (d # ds) (u # us) io = free_entities ds us (FreeHARQEntity u (FreeHARQEntity d io))"
| "free_entities _ _ io = io"

definition FreeHARQ :: "MAC_ASSOCIATEDUEPHYINFO \<Rightarrow> mac_io \<Rightarrow> (MAC_ASSOCIATEDUEPHYINFO \<times> mac_io) result" where
  "FreeHARQ a io =
     rbind (deref (ma_harq a)) (\<lambda>h.
     Inr (a\<lparr>ma_harq := None\<rparr>, free_entities (downlinkHARQEntity h) (uplinkHARQEntity h) io))"

definition HARQ_ENTITY_INIT ::
  "mac_env \<Rightarrow> netsim_id \<Rightarrow> netsim_id \<Rightarrow> netsim_id \<Rightarrow> netsim_id \<Rightarrow> bool \<Rightarrow> LTENR_HARQ_ENTITY" where
  "HARQ_ENTITY_INIT E gnbId gnbIf ueId ueIf ul =
     (let pd = mac_pd E gnbId gnbIf
      in \<lparr>he_gNBId = gnbId, he_gNBIf = gnbIf, he_ueId = ueId, he_ueIf = ueIf,
          maxProcessCount = HARQ_ProcessCount pd,
          retryLimit = (if isHARQEnable pd then HARQ_RetryLimit pd else 0),
          maxCBGPerTB = cfg_maxCBGPerTB pd, currentProcessId = 0, BlerTableId = CSI_tableId pd,
          isUpinkEntity = ul, harqProcess = replicate MAX_HARQ_PROCESS HARQ_PROCESS_ZERO\<rparr>)"

definition InitHARQ :: "mac_env \<Rightarrow> netsim_id \<Rightarrow> netsim_id \<Rightarrow> MAC_ASSOCIATEDUEPHYINFO \<Rightarrow> MAC_ASSOCIATEDUEPHYINFO" where
  "InitHARQ E gnbId gnbIf a =
     a\<lparr>ma_harq := Some
         \<lparr>downlinkHARQEntity = replicate MAX_CA_COUNT (HARQ_ENTITY_INIT E gnbId gnbIf (ma_ueId a) (ma_ueIf a) False),
          uplinkHARQEntity = replicate MAX_CA_COUNT (HARQ_ENTITY_INIT E gnbId gnbIf (ma_ueId a) (ma_ueIf a) True)\<rparr>\<rparr>"

definition HARQAssociationHandler ::
  "mac_env \<Rightarrow> netsim_id \<Rightarrow> netsim_id \<Rightarrow> bool \<Rightarrow> MAC_ASSOCIATEDUEPHYINFO \<Rightarrow> mac_io
     \<Rightarrow> (MAC_ASSOCIATEDUEPHYINFO \<times> mac_io) result" where
  "HARQAssociationHandler E gnbId gnbIf isAssociated a io =
     (if isAssociated then Inr (InitHARQ E gnbId gnbIf a, io) else FreeHARQ a io)"

section \<open>The start of a slot\<close>

definition fn_NetSim_LTENR_HARQ_GetPRBReqdForRetx :: "MAC_ASSOCIATEDUEPHYINFO \<Rightarrow> bool \<Rightarrow> nat \<Rightarrow> u32 result" where
  "fn_NetSim_LTENR_HARQ_GetPRBReqdForRetx a isUplink caId =
     rbind (harq_entity isUplink caId a) (\<lambda>entity. rbind (current_process entity) (\<lambda>p. Inr (PRBReqdForRetx p)))"

definition fn_NetSim_LTENR_HARQ_GetNDIFlag :: "MAC_ASSOCIATEDUEPHYINFO \<Rightarrow> bool \<Rightarrow> nat \<Rightarrow> bool result" where
  "fn_NetSim_LTENR_HARQ_GetNDIFlag a isUplink caId =
     rbind (harq_entity isUplink caId a) (\<lambda>entity. rbind (current_process entity) (\<lambda>p. Inr (NDI p)))"

definition IncreaseProcessNumber :: "LTENR_HARQ_ENTITY \<Rightarrow> LTENR_HARQ_ENTITY" where
  "IncreaseProcessNumber entity =
     (let n = currentProcessId entity + 1
      in entity\<lparr>currentProcessId := if n > maxProcessCount entity then 1 else n\<rparr>)"

definition EmptyProcess :: "LTENR_HARQ_PROCESS \<Rightarrow> mac_io \<Rightarrow> (LTENR_HARQ_PROCESS \<times> mac_io) result" where
  "EmptyProcess process io =
     (let (p, io1) = EmptyPacketBuffer process io in rbind (ResetCBG p) (\<lambda>p1. Inr (p1, io1)))"

text \<open>\<open>SetNDI\<close> on the process it works on, with \<open>entity->retryLimit\<close>.\<close>

definition set_ndi ::
  "MAC_ASSOCIATEDUEPHYINFO \<Rightarrow> u32 \<Rightarrow> LTENR_HARQ_PROCESS \<Rightarrow> mac_io \<Rightarrow> (LTENR_HARQ_PROCESS \<times> mac_io) result" where
  "set_ndi a limit process io =
     (if packetBuffer process = [] then Inr (process\<lparr>NDI := True, transmissionNumber := 0\<rparr>, io)
      else let process1 = process\<lparr>transmissionNumber := transmissionNumber process + 1\<rparr>
           in if transmissionNumber process1 \<ge> limit
              then rbind (EmptyProcess process1 io) (\<lambda>(p, io1). Inr (p\<lparr>NDI := True, transmissionNumber := 0\<rparr>, io1))
              else rbind (CalculatePendingData a (process1\<lparr>NDI := False\<rparr>)) (\<lambda>p. Inr (p, io)))"

definition SetNDI ::
  "MAC_ASSOCIATEDUEPHYINFO \<Rightarrow> LTENR_HARQ_ENTITY \<Rightarrow> mac_io \<Rightarrow> (LTENR_HARQ_ENTITY \<times> mac_io) result" where
  "SetNDI a entity io =
     rbind (current_process entity) (\<lambda>process.
     rbind (set_ndi a (retryLimit entity) process io) (\<lambda>(p, io1). Inr (put_process entity p, io1)))"

text \<open>The turn of the loop over the UEs; \<open>ul\<close> is \<open>slotType \<noteq> SLOT_DOWNLINK\<close>.\<close>

definition harq_slot_start ::
  "bool \<Rightarrow> nat \<Rightarrow> MAC_ASSOCIATEDUEPHYINFO \<Rightarrow> mac_io \<Rightarrow> (MAC_ASSOCIATEDUEPHYINFO \<times> mac_io) result" where
  "harq_slot_start ul caId a io =
     (if ma_isAssociated a
      then rbind (harq_entity ul caId a) (\<lambda>entity.
           rbind (SetNDI a (IncreaseProcessNumber entity) io) (\<lambda>(e, io1).
           Inr (put_entity ul caId e a, io1)))
      else Inr (a, io))"

definition fn_NetSim_LTENR_HARQ_HandleSlotStart ::
  "LTENR_FRAMEINFO \<Rightarrow> nat \<Rightarrow> MAC_ASSOCIATEDUEPHYINFO list \<Rightarrow> mac_io \<Rightarrow> (MAC_ASSOCIATEDUEPHYINFO list \<times> mac_io) result" where
  "fn_NetSim_LTENR_HARQ_HandleSlotStart finfo caId = on_all (harq_slot_start (fi_slotType finfo \<noteq> SLOT_DOWNLINK) caId)"

section \<open>The transport block of a slot\<close>

definition NEGATIVE_DBM :: real where "NEGATIVE_DBM = -1000"

definition ZERO_MW :: real where "ZERO_MW = 1 / 10 ^ 100"

definition MW_TO_DBM :: "real \<Rightarrow> real" where
  "MW_TO_DBM mw = (if mw \<le> ZERO_MW then NEGATIVE_DBM else 10 * log 10 mw)"

definition DBM_TO_MW :: "real \<Rightarrow> real" where
  "DBM_TO_MW dbm = (if dbm = NEGATIVE_DBM then 0 else 10 powr (dbm / 10))"

definition buffer_upd ::
  "nat \<Rightarrow> (LTENR_HARQ_BUFFER \<Rightarrow> LTENR_HARQ_BUFFER) \<Rightarrow> LTENR_HARQ_PROCESS \<Rightarrow> LTENR_HARQ_PROCESS result" where
  "buffer_upd i f p =
     rbind (arr_get (hp_transmissionBuffer p) i) (\<lambda>b.
     Inr (p\<lparr>hp_transmissionBuffer := (hp_transmissionBuffer p)[i := f b]\<rparr>))"

text \<open>One layer of a retransmission; \<open>amc\<close> is the pointer the function is called with.\<close>

definition combine_layer ::
  "mac_env \<Rightarrow> LTENR_HARQ_ENTITY \<Rightarrow> MAC_ASSOCIATEDUEPHYINFO \<Rightarrow> amc_ptr \<Rightarrow> real list \<Rightarrow> u32 \<Rightarrow> nat
     \<Rightarrow> LTENR_HARQ_PROCESS \<Rightarrow> LTENR_HARQ_PROCESS result" where
  "combine_layer E entity a amc sinrs tableId i p =
     rbind (arr_get (hp_transmissionBuffer p) i) (\<lambda>b.
     rbind (arr_get sinrs i) (\<lambda>s.
     let snr = MW_TO_DBM (DBM_TO_MW (sinr b) + DBM_TO_MW s)
     in if isBlerEnable (mac_pd E (he_gNBId entity) (he_gNBIf entity))
        then rbind (amc_read a (Some amc) i) (\<lambda>x.
             buffer_upd i (\<lambda>b. b\<lparr>sinr := snr,
               bler := LTENR_GetBLER E tableId (mcsIndex (mcsTable x)) (BG x) (CBS' x) snr\<rparr>) p)
        else buffer_upd i (\<lambda>b. b\<lparr>sinr := snr, bler := 0\<rparr>) p))"

text \<open>The AMC data of a layer for a new transport block of \<open>tbs\<close> bits.\<close>

definition new_amc :: "u64 \<Rightarrow> LTENR_AMCINFO \<Rightarrow> LTENR_AMCINFO" where
  "new_amc tbs x =
     (let g = LTENR_Mutiplexer_LDPC_SelectBaseGraph (real (unat tbs)) (codeRate (mcsTable x) / 1024);
          (C, cbs, cbs') = LTENR_Multiplexer_ComputeCodeBlockSize g (ucast tbs)
      in x\<lparr>tbsSize := ucast tbs, BG := of_int g, nCodeBlock := C, CBS := cbs, CBS' := cbs'\<rparr>)"

text \<open>One layer of a new transport block.\<close>

definition new_layer ::
  "mac_env \<Rightarrow> LTENR_HARQ_ENTITY \<Rightarrow> amc_ptr \<Rightarrow> real list \<Rightarrow> u32 \<Rightarrow> nat
     \<Rightarrow> MAC_ASSOCIATEDUEPHYINFO \<times> LTENR_HARQ_PROCESS \<times> LTENR_UESCHEDULERINFO
     \<Rightarrow> (MAC_ASSOCIATEDUEPHYINFO \<times> LTENR_HARQ_PROCESS \<times> LTENR_UESCHEDULERINFO) result" where
  "new_layer E entity amc sinrs tableId i s =
     (case s of (a, p, si) \<Rightarrow>
     rbind (deref (amc_array a amc)) (\<lambda>xs. rbind (arr_get xs i) (\<lambda>x.
     rbind (arr_get (bitsPerPRBLayer si) i) (\<lambda>bits.
     let tbs = bits * ucast (allocatedPRBCount si)
     in rbind (arr_set (TBSLayer si) i tbs) (\<lambda>tbsl. rbind (arr_get sinrs i) (\<lambda>snr.
        let x1 = new_amc tbs x;
            b1 = (if isBlerEnable (mac_pd E (he_gNBId entity) (he_gNBIf entity))
                  then LTENR_GetBLER E tableId (mcsIndex (mcsTable x1)) (BG x1) (CBS x1) snr else 0)
        in rbind (buffer_upd i (\<lambda>b. b\<lparr>hb_bitsPerPRB := ucast bits, sinr := snr, bler := b1\<rparr>) p) (\<lambda>p1.
           Inr (amc_array_set a amc (xs[i := x1]), p1, si\<lparr>TBSLayer := tbsl\<rparr>))))))))"

definition StoreAMCInfo ::
  "mac_env \<Rightarrow> LTENR_HARQ_ENTITY \<Rightarrow> amc_ptr \<Rightarrow> u32 \<Rightarrow> real list \<Rightarrow> u32
     \<Rightarrow> MAC_ASSOCIATEDUEPHYINFO \<times> LTENR_HARQ_PROCESS \<times> LTENR_UESCHEDULERINFO
     \<Rightarrow> (MAC_ASSOCIATEDUEPHYINFO \<times> LTENR_HARQ_PROCESS \<times> LTENR_UESCHEDULERINFO) result" where
  "StoreAMCInfo E entity amc layers sinrs tableId s =
     (case s of (a, process, si) \<Rightarrow>
        if \<not> NDI process
        then rbind (fold_result (combine_layer E entity a amc sinrs tableId) [0..<unat layers] process) (\<lambda>p. Inr (a, p, si))
        else if amc_array a amc = None then Inr s
        else fold_result (new_layer E entity amc sinrs tableId) [0..<unat layers]
               (a, process\<lparr>hp_amcInfo := Some amc, layerCount := layers\<rparr>, si))"

text \<open>One layer of \<open>AllocateCBG\<close>; the state of the inner loop is \<open>r\<close>.\<close>

definition alloc_layer ::
  "MAC_ASSOCIATEDUEPHYINFO \<Rightarrow> amc_ptr option \<Rightarrow> u32 \<Rightarrow> LTENR_HARQ_BUFFER \<Rightarrow> nat \<Rightarrow> (LTENR_HARQ_BUFFER \<times> nat) result" where
  "alloc_layer a amc maxCBGCount buff i =
     rbind (amc_read a amc i) (\<lambda>x.
     let count = min (nCodeBlock x) maxCBGCount
     in if count = 0 then Inl DivByZero
        else rbind (on_first (unat count)
               (\<lambda>cbg r. let n = nCodeBlock x div count + (if r \<le> 0 then 0 else 1)
                  in Inr (\<lparr>CBCount = n,
                       CBErrorStatus = (if n = 0 then None else Some (replicate (unat n) PacketStatus_NoError)),
                       cbg_isErrored = PacketStatus_NoError\<rparr>, r - 1))
               (CBGList buff) (uint (nCodeBlock x mod count))) (\<lambda>(cs, r).
             Inr (buff\<lparr>CBGCount := count, CBGList := cs\<rparr>, Suc i)))"

definition AllocateCBG ::
  "MAC_ASSOCIATEDUEPHYINFO \<Rightarrow> u32 \<Rightarrow> LTENR_HARQ_PROCESS \<Rightarrow> LTENR_HARQ_PROCESS result" where
  "AllocateCBG a maxCBGCount process =
     (if \<not> NDI process then Inr process
      else rbind (on_first (unat (layerCount process)) (alloc_layer a (hp_amcInfo process) maxCBGCount)
                    (hp_transmissionBuffer process) 0) (\<lambda>(bs, i).
           Inr (process\<lparr>hp_transmissionBuffer := bs\<rparr>)))"

definition LTENR_MACScheduler_FindInfoForUE ::
  "LTENR_SCHEDULERINFO \<Rightarrow> netsim_id \<Rightarrow> netsim_id \<Rightarrow> bool \<Rightarrow> nat option" where
  "LTENR_MACScheduler_FindInfoForUE si d i isUplink =
     find_pos (\<lambda>x. si_ueId x = d \<and> si_ueIf x = i) (if isUplink then uplinkInfo si else downlinkInfo si)"

definition ue_infos :: "bool \<Rightarrow> LTENR_SCHEDULERINFO \<Rightarrow> LTENR_UESCHEDULERINFO list" where
  "ue_infos isUplink si = (if isUplink then uplinkInfo si else downlinkInfo si)"

definition set_ue_infos :: "bool \<Rightarrow> LTENR_UESCHEDULERINFO list \<Rightarrow> LTENR_SCHEDULERINFO \<Rightarrow> LTENR_SCHEDULERINFO" where
  "set_ue_infos isUplink xs si = (if isUplink then si\<lparr>uplinkInfo := xs\<rparr> else si\<lparr>downlinkInfo := xs\<rparr>)"

text \<open>
  The turn of the loop over the UEs. The process is written back before \<open>StoreAMCInfo\<close>, which reads
  it; a slot that is neither downlink nor uplink uses the uplink entity and the downlink list.
\<close>

definition harq_allocate ::
  "mac_env \<Rightarrow> LTENR_FRAMEINFO \<Rightarrow> nat \<Rightarrow> MAC_ASSOCIATEDUEPHYINFO \<Rightarrow> LTENR_SCHEDULERINFO
     \<Rightarrow> (MAC_ASSOCIATEDUEPHYINFO \<times> LTENR_SCHEDULERINFO) result" where
  "harq_allocate E frame caId a si =
     (if \<not> ma_isAssociated a then Inr (a, si)
      else let dl = (sch_slotType si = SLOT_DOWNLINK); ul = (sch_slotType si = SLOT_UPLINK)
      in rbind (harq_entity (\<not> dl) caId a) (\<lambda>entity. rbind (current_process entity) (\<lambda>process0.
         let process = process0\<lparr>isUPLinkProcess := ul, hp_caId := caId, hp_slotId := slotId frame,
               hp_frameId := frameId frame, hp_subFrameId := subFrameId frame\<rparr>;
             amc = (if dl then AmcDL caId else AmcUL caId);
             layers = LTENR_PHY_GET_LAYER_COUNT E (ma_ueId a) (ma_ueIf a) (\<not> dl)
         in rbind (deref (if dl then ma_downlinkSINR_db a caId else ma_uplinkSINR_db a caId)) (\<lambda>sinrs.
            rbind (deref (LTENR_MACScheduler_FindInfoForUE si (ma_ueId a) (ma_ueIf a) ul)) (\<lambda>j.
            let sinfo = ue_infos ul si ! j
            in if allocatedPRBCount sinfo \<noteq> 0 \<or> \<not> NDI process
               then rbind (StoreAMCInfo E entity amc layers sinrs (BlerTableId entity) (a, process, sinfo)) (\<lambda>(a1, p1, sinfo1).
                    rbind (AllocateCBG a1 (maxCBGPerTB entity) p1) (\<lambda>p2.
                    Inr (put_entity (\<not> dl) caId (put_process entity p2) a1,
                         set_ue_infos ul ((ue_infos ul si)[j := sinfo1]) si)))
               else rbind (ResetCBG process) (\<lambda>p1.
                    Inr (put_entity (\<not> dl) caId (put_process entity p1) a, si)))))))"

definition fn_NetSim_LTENR_HARQ_AllocateCBG ::
  "mac_env \<Rightarrow> LTENR_FRAMEINFO \<Rightarrow> nat \<Rightarrow> MAC_ASSOCIATEDUEPHYINFO list \<Rightarrow> LTENR_SCHEDULERINFO
     \<Rightarrow> (MAC_ASSOCIATEDUEPHYINFO list \<times> LTENR_SCHEDULERINFO) result" where
  "fn_NetSim_LTENR_HARQ_AllocateCBG E frame caId = on_all (harq_allocate E frame caId)"

section \<open>Packets of the slot\<close>

text \<open>\<open>LTENR_ASSOCIATEDUEPHYINFO_GET\<close>: an entry that is missing is added, zeroed.\<close>

definition MAC_ASSOC_ZERO :: "netsim_id \<Rightarrow> netsim_id \<Rightarrow> MAC_ASSOCIATEDUEPHYINFO" where
  "MAC_ASSOC_ZERO d i =
     \<lparr>ma_ueId = d, ma_ueIf = i, ma_isAssociated = False, ma_uplinkAMCInfo = (\<lambda>ca. None),
      ma_downlinkAMCInfo = (\<lambda>ca. None), ma_uplinkSINR_db = (\<lambda>ca. None), ma_downlinkSINR_db = (\<lambda>ca. None),
      ma_harq = None, ma_OLLAContainer = None\<rparr>"

definition mac_assoc_pos :: "MAC_ASSOCIATEDUEPHYINFO list \<Rightarrow> netsim_id \<Rightarrow> netsim_id \<Rightarrow> nat option" where
  "mac_assoc_pos as d i = find_pos (\<lambda>a. ma_ueId a = d \<and> ma_ueIf a = i) as"

definition mac_assoc_get :: "MAC_ASSOCIATEDUEPHYINFO list \<Rightarrow> netsim_id \<Rightarrow> netsim_id \<Rightarrow> MAC_ASSOCIATEDUEPHYINFO list \<times> nat" where
  "mac_assoc_get as d i =
     (case mac_assoc_pos as d i of Some j \<Rightarrow> (as, j) | None \<Rightarrow> (as @ [MAC_ASSOC_ZERO d i], length as))"

text \<open>
  \<open>StoreDLPacket\<close> and \<open>StoreULPacket\<close> once the UE is known: they differ in the direction only.
\<close>

definition harq_store ::
  "bool \<Rightarrow> nat \<Rightarrow> netsim_id \<Rightarrow> netsim_id \<Rightarrow> NetSim_PACKET \<Rightarrow> MAC_ASSOCIATEDUEPHYINFO list \<Rightarrow> mac_io
     \<Rightarrow> (MAC_ASSOCIATEDUEPHYINFO list \<times> mac_io) result" where
  "harq_store ul caId ueId ueIf packet as io =
     (let (as1, j) = mac_assoc_get as ueId ueIf; a = as1 ! j
      in if \<not> ma_isAssociated a then Inr (as1, io_out [NotConnected packet] io)
         else rbind (harq_entity ul caId a) (\<lambda>entity. rbind (current_process entity) (\<lambda>process.
              Inr (as1[j := put_entity ul caId (put_process entity (AddPacketToPacketBuffer process packet)) a], io))))"

text \<open>The event for the receiver of a transport block; \<open>endTime\<close> is the end of the slot.\<close>

definition AddMACINEvent ::
  "real \<Rightarrow> netsim_id \<Rightarrow> netsim_id \<Rightarrow> MAC_ASSOCIATEDUEPHYINFO \<Rightarrow> bool \<Rightarrow> NetSim_PACKET list \<Rightarrow> mac_io \<Rightarrow> mac_io" where
  "AddMACINEvent endTime gnbId gnbIf info isUplink packets io =
     io_out [MacInEvent
       \<lparr>mi_time = endTime, mi_packetSize = dPacketSize (hd packets), mi_app = appInfo (hd packets),
        mi_deviceId = (if isUplink then gnbId else ma_ueId info),
        mi_interfaceId = (if isUplink then gnbIf else ma_ueIf info), mi_packets = packets\<rparr>] io"

definition tb_ok :: "LTENR_HARQ_PROCESS \<Rightarrow> bool" where
  "tb_ok process \<longleftrightarrow>
     (\<forall>b \<in> set (take (unat (layerCount process)) (hp_transmissionBuffer process)). hb_isErrored b \<noteq> PacketStatus_Error)"

definition SendToReceiver ::
  "real \<Rightarrow> netsim_id \<Rightarrow> netsim_id \<Rightarrow> MAC_ASSOCIATEDUEPHYINFO \<Rightarrow> LTENR_HARQ_PROCESS \<Rightarrow> mac_io \<Rightarrow> LTENR_HARQ_PROCESS \<times> mac_io" where
  "SendToReceiver endTime gnbId gnbIf info process io =
     (if \<not> tb_ok process then (process, io)
      else (process\<lparr>packetBuffer := []\<rparr>,
            if packetBuffer process = [] then io
            else AddMACINEvent endTime gnbId gnbIf info (isUPLinkProcess process) (packetBuffer process) io))"

section \<open>Outer loop link adaptation\<close>

definition DELTAUP :: real where "DELTAUP = 0.2"
definition MAXDELTA :: real where "MAXDELTA = 0"
definition MINDELTA :: real where "MINDELTA = -20"

definition OLLA_HANDLER_INIT :: "mac_config \<Rightarrow> OLLAHANDLER" where
  "OLLA_HANDLER_INIT pd =
     \<lparr>deltaOLLA = 0, targerBLER = cfg_targetBLER pd,
      deltaDown = (cfg_targetBLER pd / (1 - cfg_targetBLER pd)) * DELTAUP, deltaUp = DELTAUP\<rparr>"

definition olla_handler_init :: "mac_config \<Rightarrow> OLLACONTAINER" where
  "olla_handler_init pd =
     \<lparr>uplinkHandler = replicate MAX_CA_COUNT (replicate MAX_LAYER_COUNT (OLLA_HANDLER_INIT pd)),
      downlinkHandler = replicate MAX_CA_COUNT (replicate MAX_LAYER_COUNT (OLLA_HANDLER_INIT pd))\<rparr>"

text \<open>The container, made at the first use, and the handler; \<open>layer\<close> is \<open>layerId - 1\<close>.\<close>

definition olla_container :: "mac_config \<Rightarrow> MAC_ASSOCIATEDUEPHYINFO \<Rightarrow> OLLACONTAINER" where
  "olla_container pd a = (case ma_OLLAContainer a of Some c \<Rightarrow> c | None \<Rightarrow> olla_handler_init pd)"

definition olla_handler_find ::
  "mac_config \<Rightarrow> MAC_ASSOCIATEDUEPHYINFO \<Rightarrow> bool \<Rightarrow> nat \<Rightarrow> nat \<Rightarrow> OLLAHANDLER result" where
  "olla_handler_find pd a isUplink caId layer =
     (let c = olla_container pd a
      in rbind (arr_get (if isUplink then uplinkHandler c else downlinkHandler c) caId) (\<lambda>hs. arr_get hs layer))"

text \<open>A write of a handler that was found.\<close>

definition olla_write ::
  "mac_config \<Rightarrow> bool \<Rightarrow> nat \<Rightarrow> nat \<Rightarrow> OLLAHANDLER \<Rightarrow> MAC_ASSOCIATEDUEPHYINFO \<Rightarrow> MAC_ASSOCIATEDUEPHYINFO" where
  "olla_write pd isUplink caId layer h a =
     (let c = olla_container pd a; upd = (\<lambda>hss. hss[caId := (hss ! caId)[layer := h]])
      in a\<lparr>ma_OLLAContainer := Some (if isUplink then c\<lparr>uplinkHandler := upd (uplinkHandler c)\<rparr>
                                      else c\<lparr>downlinkHandler := upd (downlinkHandler c)\<rparr>)\<rparr>)"

text \<open>The handler after an error and after a success.\<close>

definition olla_error :: "OLLAHANDLER \<Rightarrow> OLLAHANDLER" where
  "olla_error h = (let d = deltaOLLA h + deltaUp h in h\<lparr>deltaOLLA := if d < MINDELTA then MINDELTA else d\<rparr>)"

definition olla_success :: "OLLAHANDLER \<Rightarrow> OLLAHANDLER" where
  "olla_success h = (let d = deltaOLLA h - deltaDown h in h\<lparr>deltaOLLA := if d > MAXDELTA then MAXDELTA else d\<rparr>)"

definition olla_mark ::
  "(OLLAHANDLER \<Rightarrow> OLLAHANDLER) \<Rightarrow> mac_config \<Rightarrow> bool \<Rightarrow> nat \<Rightarrow> nat \<Rightarrow> MAC_ASSOCIATEDUEPHYINFO
     \<Rightarrow> MAC_ASSOCIATEDUEPHYINFO result" where
  "olla_mark f pd isUplink caId layer a =
     rbind (olla_handler_find pd a isUplink caId layer) (\<lambda>h. Inr (olla_write pd isUplink caId layer (f h) a))"

definition LTENR_OLLA_MarkTBSError ::
  "mac_config \<Rightarrow> bool \<Rightarrow> nat \<Rightarrow> nat \<Rightarrow> MAC_ASSOCIATEDUEPHYINFO \<Rightarrow> MAC_ASSOCIATEDUEPHYINFO result" where
  "LTENR_OLLA_MarkTBSError = olla_mark olla_error"

definition LTENR_OLLA_MarkTBSSuccess ::
  "mac_config \<Rightarrow> bool \<Rightarrow> nat \<Rightarrow> nat \<Rightarrow> MAC_ASSOCIATEDUEPHYINFO \<Rightarrow> MAC_ASSOCIATEDUEPHYINFO result" where
  "LTENR_OLLA_MarkTBSSuccess = olla_mark olla_success"

text \<open>The correction, and the UE, whose container this call may make.\<close>

definition LTENR_OLLA_GetDeltaSINR ::
  "mac_config \<Rightarrow> bool \<Rightarrow> nat \<Rightarrow> nat \<Rightarrow> MAC_ASSOCIATEDUEPHYINFO \<Rightarrow> (real \<times> MAC_ASSOCIATEDUEPHYINFO) result" where
  "LTENR_OLLA_GetDeltaSINR pd isUplink caId layer a =
     (if isOLLAEnable pd
      then rbind (olla_handler_find pd a isUplink caId layer) (\<lambda>h.
           Inr (deltaOLLA h, a\<lparr>ma_OLLAContainer := Some (olla_container pd a)\<rparr>))
      else Inr (0, a))"

section \<open>Transmission\<close>

definition ReportToOLLA ::
  "mac_config \<Rightarrow> nat \<Rightarrow> LTENR_HARQ_PROCESS \<Rightarrow> MAC_ASSOCIATEDUEPHYINFO \<Rightarrow> MAC_ASSOCIATEDUEPHYINFO result" where
  "ReportToOLLA pd caId process a =
     (if transmissionNumber process \<noteq> 0 then Inr a
      else fold_result (\<lambda>l a. rbind (arr_get (hp_transmissionBuffer process) l) (\<lambda>b.
             if hb_isErrored b \<noteq> PacketStatus_NoError
             then LTENR_OLLA_MarkTBSError pd (isUPLinkProcess process) caId l a
             else LTENR_OLLA_MarkTBSSuccess pd (isUPLinkProcess process) caId l a)) [0..<unat (layerCount process)] a)"

text \<open>\<open>TransmitDownLinkCBG\<close> and \<open>TransmitUpLinkCBG\<close> differ in the entity only.\<close>

definition harq_transmit_cbg ::
  "mac_env \<Rightarrow> real \<Rightarrow> netsim_id \<Rightarrow> netsim_id \<Rightarrow> nat \<Rightarrow> bool \<Rightarrow> MAC_ASSOCIATEDUEPHYINFO \<Rightarrow> mac_io
     \<Rightarrow> (MAC_ASSOCIATEDUEPHYINFO \<times> mac_io) result" where
  "harq_transmit_cbg E endTime gnbId gnbIf caId ul a io =
     rbind (harq_entity ul caId a) (\<lambda>entity. rbind (current_process entity) (\<lambda>process.
     rbind (DecideCBGError E process io) (\<lambda>(p1, io1).
     rbind (ReportToOLLA (mac_pd E gnbId gnbIf) caId p1 a) (\<lambda>a1.
     let (p2, io2) = SendToReceiver endTime gnbId gnbIf a1 p1 io1
     in Inr (put_entity ul caId (put_process entity p2) a1, io2)))))"

definition harq_transmit ::
  "mac_env \<Rightarrow> real \<Rightarrow> netsim_id \<Rightarrow> netsim_id \<Rightarrow> nat \<Rightarrow> bool \<Rightarrow> MAC_ASSOCIATEDUEPHYINFO \<Rightarrow> mac_io
     \<Rightarrow> (MAC_ASSOCIATEDUEPHYINFO \<times> mac_io) result" where
  "harq_transmit E endTime gnbId gnbIf caId ul a io =
     (if ma_isAssociated a then harq_transmit_cbg E endTime gnbId gnbIf caId ul a io else Inr (a, io))"

definition fn_NetSim_LTENR_HARQ_Transmit ::
  "mac_env \<Rightarrow> LTENR_FRAMEINFO \<Rightarrow> LTENR_SCHEDULERINFO \<Rightarrow> netsim_id \<Rightarrow> netsim_id \<Rightarrow> nat
     \<Rightarrow> MAC_ASSOCIATEDUEPHYINFO list \<Rightarrow> mac_io \<Rightarrow> (MAC_ASSOCIATEDUEPHYINFO list \<times> mac_io) result" where
  "fn_NetSim_LTENR_HARQ_Transmit E finfo si gnbId gnbIf caId =
     on_all (harq_transmit E (slotEndTime finfo) gnbId gnbIf caId (sch_slotType si \<noteq> SLOT_DOWNLINK))"

end
