(* ===== verification/MAC_HARQ_Props.thy ===== *)
theory MAC_HARQ_Props
  imports MAC_HARQ
begin

text \<open>
  What HARQ does with a transport block: how its code blocks are grouped, when it is delivered, how
  often it is sent, what a retransmission costs, and how the processes of an entity take turns.
\<close>

declare of_nat_unat [simp del]

section \<open>A concrete UE\<close>

text \<open>
  For the witnesses: one carrier with one layer, a transport block of five code blocks of 100 bits, and
  random numbers that are all 1/2.
\<close>

definition ex_mac_env :: "real \<Rightarrow> mac_env" where
  "ex_mac_env b =
     \<lparr>LTENR_GetBLER = (\<lambda>t m g n s. b), NETSIM_RAND_01 = (\<lambda>k. 1 / 2),
      mac_pd = (\<lambda>d i. \<lparr>HARQ_ProcessCount = 4, HARQ_RetryLimit = 3, isHARQEnable = True, cfg_maxCBGPerTB = 2,
        isOLLAEnable = False, cfg_targetBLER = 1 / 10, isBlerEnable = True, cfg_alpha = 1,
        cfg_schedulingType = ''ROUND_ROBIN'', EWMA_Learning_Rate = 0, CSI_tableId = 1\<rparr>),
      LTENR_PHY_GET_LAYER_COUNT = (\<lambda>d i u. 1)\<rparr>"

definition ex_amc :: LTENR_AMCINFO where
  "ex_amc = \<lparr>SpectralEfficiency = 1, cqiTable = cqi_entry 1 Modulation_QPSK 78 1, mcsTable = PDSCHMCSIndexTable1 ! 0,
     tbsSize = 500, BG = 1, CBS = 100, CBS' = 100, nCodeBlock = 5\<rparr>"

definition ex_cbg :: "PACKET_STATUS list \<Rightarrow> LTENR_CBG" where
  "ex_cbg ss = \<lparr>CBCount = of_nat (length ss), CBErrorStatus = Some ss, cbg_isErrored = first_error ss\<rparr>"

text \<open>A process whose layer has a group with the blocks \<open>ss\<close>.\<close>

definition ex_process :: "PACKET_STATUS list \<Rightarrow> real \<Rightarrow> LTENR_HARQ_PROCESS" where
  "ex_process ss b = HARQ_PROCESS_ZERO
     \<lparr>packetBuffer := [ex_packet], layerCount := 1, hp_amcInfo := Some (AmcDL 0), NDI := True,
      hp_transmissionBuffer := [HARQ_BUFFER_ZERO\<lparr>CBGCount := 1, hb_bitsPerPRB := 50, bler := b, CBGList := [ex_cbg ss]\<rparr>]\<rparr>"

definition ex_entity :: "LTENR_HARQ_PROCESS \<Rightarrow> LTENR_HARQ_ENTITY" where
  "ex_entity p = (HARQ_ENTITY_INIT (ex_mac_env 0) 1 1 2 1 False)\<lparr>currentProcessId := 1, harqProcess := [p]\<rparr>"

definition ex_ue :: "LTENR_HARQ_PROCESS \<Rightarrow> MAC_ASSOCIATEDUEPHYINFO" where
  "ex_ue p = \<lparr>ma_ueId = 2, ma_ueIf = 1, ma_isAssociated = True, ma_uplinkAMCInfo = Map.empty,
     ma_downlinkAMCInfo = [0 \<mapsto> [ex_amc]], ma_uplinkSINR_db = Map.empty, ma_downlinkSINR_db = [0 \<mapsto> [10]],
     ma_harq = Some \<lparr>downlinkHARQEntity = [ex_entity p], uplinkHARQEntity = [ex_entity p]\<rparr>, ma_OLLAContainer = None\<rparr>"

definition ex_mac_io :: mac_io where "ex_mac_io = \<lparr>io_rand = 0, io_trace = []\<rparr>"

text \<open>The scheduler's entry of the UE, with 100 resource blocks of 50 bits.\<close>

definition ex_ue_info :: LTENR_UESCHEDULERINFO where
  "ex_ue_info = \<lparr>si_ueId = 2, si_ueIf = 1, bufferSize = 1000, bitsPerPRB = 50, bitsPerPRBLayer = [50], TBSLayer = [0],
     initRank = 0, rank = 0, var2 = 0, averageThroughput = 0, si_NDI = True, PRBReqdForHARQRetransmission = 0,
     allocatedPRBCount = 100\<rparr>"

lemma ex_arrays:
  "replicate MAX_LAYER_COUNT x = x # replicate 15 x" "replicate MAX_CBGCOUNT_PER_TB y = y # y # replicate 6 y"
  by (simp_all add: MAX_LAYER_COUNT_def MAX_CBGCOUNT_PER_TB_def numeral_eq_Suc)

lemma on_first_two:
  "on_first 2 f (x # y # xs) s =
     rbind (f x s) (\<lambda>(x', s1). rbind (f y s1) (\<lambda>(y', s2). Inr (x' # y' # xs, s2)))"
  by (simp add: numeral_2_eq_2 split_def rbind_def split: sum.splits)

lemmas ex_mac_defs = ex_mac_env_def ex_amc_def ex_cbg_def ex_process_def ex_entity_def ex_ue_def ex_mac_io_def
  HARQ_PROCESS_ZERO_def HARQ_BUFFER_ZERO_def

section \<open>Groups of code blocks\<close>

text \<open>The loop of \<open>alloc_layer\<close> over the groups, from the state \<open>r\<close>: the sizes it writes.\<close>

lemma on_first_map:
  assumes "on_first n (\<lambda>x s. Inr (f s, s - 1)) xs (r :: int) = Inr (ys, t)"
  shows "take n ys = map (\<lambda>i. f (r - int i)) [0..<n]"
  using assms
proof (induction n arbitrary: xs r ys)
  case (Suc n)
  obtain x xs' where xs: "xs = x # xs'" using Suc.prems by (cases xs) auto
  obtain ys' where r: "on_first n (\<lambda>x s. Inr (f s, s - 1)) xs' (r - 1) = Inr (ys', t)" "ys = f r # ys'"
    using Suc.prems by (auto simp: xs elim!: rbind_InrE)
  have "map (\<lambda>i. f (r - int i)) [0..<Suc n] = f r # map (\<lambda>i. f (r - 1 - int i)) [0..<n]"
    by (rule nth_equalityI) (auto simp: nth_Cons algebra_simps split: nat.splits simp del: upt_Suc)
  then show ?case using Suc.IH [OF r(1)] r(2) by (simp del: upt_Suc)
qed simp

lemma sum_split: "(\<Sum>i<c. x + (if int r - int i \<le> 0 then 0 else 1)) = c * x + min c r" for x c r :: nat
proof -
  have "(\<Sum>i<c. x + (if int r - int i \<le> 0 then 0 else 1)) = (\<Sum>i<c. x) + (\<Sum>i<c. if i < r then 1 else 0)"
    unfolding sum.distrib [symmetric] by (rule sum.cong) auto
  also have "(\<Sum>i<c. if i < r then 1 else 0 :: nat) = card {i. i < c \<and> i < r}"
    by (simp add: sum.If_cases Int_def)
  also have "{i. i < c \<and> i < r} = {..<min c r}" by auto
  finally show ?thesis by simp
qed

lemma on_first_nth:
  assumes "on_first n f xs k = Inr (ys, t)" and "i < n" and "\<And>x k y k'. f x k = Inr (y, k') \<Longrightarrow> k' = Suc k"
  shows "f (xs ! i) (k + i) = Inr (ys ! i, Suc (k + i))"
  using assms(1,2)
proof (induction n arbitrary: xs k ys i)
  case (Suc n)
  obtain x xs' where xs: "xs = x # xs'" using Suc.prems by (cases xs) auto
  obtain y k' ys' where r: "f x k = Inr (y, k')" "on_first n f xs' k' = Inr (ys', t)" "ys = y # ys'"
    using Suc.prems by (auto simp: xs elim!: rbind_InrE)
  have k: "k' = Suc k" using r(1) assms(3) by blast
  show ?case
  proof (cases i)
    case (Suc j)
    then show ?thesis using Suc.IH [OF r(2), of j] Suc.prems(2) r(3) xs k by simp
  qed (use r k xs in simp)
qed simp

text \<open>What \<open>AllocateCBG\<close> makes of a layer with \<open>n\<close> code blocks.\<close>

definition balanced_groups :: "nat \<Rightarrow> LTENR_CBG list \<Rightarrow> bool" where
  "balanced_groups n gs \<longleftrightarrow>
     sum_list (map (\<lambda>g. unat (CBCount g)) gs) = n
     \<and> (\<forall>g \<in> set gs. n div length gs \<le> unat (CBCount g) \<and> unat (CBCount g) \<le> n div length gs + 1
          \<and> cbg_isErrored g = PacketStatus_NoError
          \<and> CBErrorStatus g = Some (replicate (unat (CBCount g)) PacketStatus_NoError))"

definition new_group :: "u32 \<Rightarrow> u32 \<Rightarrow> int \<Rightarrow> LTENR_CBG" where
  "new_group n c r =
     (let m = n div c + (if r \<le> 0 then 0 else 1)
      in \<lparr>CBCount = m, CBErrorStatus = (if m = 0 then None else Some (replicate (unat m) PacketStatus_NoError)),
          cbg_isErrored = PacketStatus_NoError\<rparr>)"

lemma new_groups_balanced:
  assumes "0 < c" and "c \<le> n"
  shows "balanced_groups (unat n) (map (\<lambda>i. new_group n c (uint (n mod c) - int i)) [0..<unat c])"
proof -
  let ?q = "unat n div unat c" and ?r = "unat n mod unat c"
  have c: "0 < unat c" "unat c \<le> unat n" using assms by (simp_all add: word_less_nat_alt word_le_nat_alt)
  then have q: "0 < ?q" by (simp add: div_greater_zero_iff)
  have bound: "?q + 1 < 2 ^ 32" if "\<not> int ?r - int i \<le> 0" for i
  proof -
    have "unat c \<noteq> 1" using that by auto
    then have "?q \<le> unat n div 2" using c by (intro div_le_mono2) auto
    moreover have "unat n < 2 ^ 32" using unsigned_less [of n, where 'a = nat] by simp
    ultimately show ?thesis by simp
  qed
  have u: "unat (CBCount (new_group n c (uint (n mod c) - int i))) = ?q + (if int ?r - int i \<le> 0 then 0 else 1)" for i
  proof (cases "int ?r - int i \<le> 0")
    case False
    then show ?thesis using bound [OF False]
      by (auto simp: new_group_def Let_def uint_nat unat_mod unat_word_ariths unat_div)
  qed (auto simp: new_group_def Let_def uint_nat unat_mod unat_div)
  have s: "CBErrorStatus (new_group n c r) = Some (replicate (unat (CBCount (new_group n c r))) PacketStatus_NoError)"
    if "0 < unat (CBCount (new_group n c r))" for r
    using that by (auto simp: new_group_def Let_def)
  have "sum_list (map (\<lambda>i. ?q + (if int ?r - int i \<le> 0 then 0 else 1)) [0..<unat c]) = unat c * ?q + min (unat c) ?r"
    using sum_split [where c = "unat c" and x = ?q and r = ?r] by (simp add: interv_sum_list_conv_sum_set_nat atLeast0LessThan)
  also have "\<dots> = unat n" using c(1) by (simp add: min_absorb2 less_imp_le)
  finally have "sum_list (map (\<lambda>i. ?q + (if int ?r - int i \<le> 0 then 0 else 1)) [0..<unat c]) = unat n" .
  then show ?thesis
    using q by (auto simp: balanced_groups_def o_def u s) (auto simp: new_group_def Let_def)
qed

lemma alloc_layer_spec:
  assumes "alloc_layer a amc maxc buff i = Inr (buff', i')"
  obtains x where "amc_read a amc i = Inr x" and "i' = Suc i"
    and "CBGCount buff' = min (nCodeBlock x) maxc" and "0 < CBGCount buff'"
    and "length (CBGList buff') = length (CBGList buff)" and "unat (CBGCount buff') \<le> length (CBGList buff)"
    and "balanced_groups (unat (nCodeBlock x)) (take (unat (CBGCount buff')) (CBGList buff'))"
proof -
  obtain x where x: "amc_read a amc i = Inr x"
    using assms unfolding alloc_layer_def by (auto elim!: rbind_InrE)
  let ?c = "min (nCodeBlock x) maxc"
  have c: "?c \<noteq> 0" using assms x by (auto simp: alloc_layer_def Let_def split: if_splits)
  then obtain cs r where l: "on_first (unat ?c) (\<lambda>cbg r. Inr (new_group (nCodeBlock x) ?c r, r - 1))
        (CBGList buff) (uint (nCodeBlock x mod ?c)) = Inr (cs, r)"
      and b: "buff' = buff\<lparr>CBGCount := ?c, CBGList := cs\<rparr>" "i' = Suc i"
    using assms x by (auto simp: alloc_layer_def new_group_def Let_def elim!: rbind_InrE)
  show ?thesis
  proof (rule that [OF x b(2)])
    show "balanced_groups (unat (nCodeBlock x)) (take (unat (CBGCount buff')) (CBGList buff'))"
    proof -
      have "0 < ?c" using c by (simp only: word_neq_0_conv)
      moreover have "?c \<le> nCodeBlock x" by simp
      ultimately show ?thesis using new_groups_balanced [of ?c "nCodeBlock x"] on_first_map [OF l] by (simp add: b(1))
    qed
    show "0 < CBGCount buff'" using c by (simp add: b(1) word_neq_0_conv del: min_less_iff_conj)
  qed (use on_first_length [OF l] on_first_bound [OF l] b in auto)
qed

text \<open>
  C26. The groups of a new transport block: in every layer there are as many groups as code blocks,
  or the configured maximum; they hold the code blocks of the layer between them, no two sizes
  differ by more than one, none is empty and every block starts without an error.
\<close>

theorem cbg_allocation_balanced:
  assumes "AllocateCBG a maxCBG p = Inr p'" and "NDI p" and "l < unat (layerCount p)"
  shows "\<exists>x b. amc_read a (hp_amcInfo p) l = Inr x \<and> b = hp_transmissionBuffer p' ! l
    \<and> CBGCount b = min (nCodeBlock x) maxCBG \<and> 0 < CBGCount b
    \<and> balanced_groups (unat (nCodeBlock x)) (take (unat (CBGCount b)) (CBGList b))"
proof -
  obtain bs i where bs: "on_first (unat (layerCount p)) (alloc_layer a (hp_amcInfo p) maxCBG)
      (hp_transmissionBuffer p) 0 = Inr (bs, i)" and p': "p' = p\<lparr>hp_transmissionBuffer := bs\<rparr>"
    using assms(1,2) by (auto simp: AllocateCBG_def elim!: rbind_InrE)
  have "alloc_layer a (hp_amcInfo p) maxCBG (hp_transmissionBuffer p ! l) (0 + l) = Inr (bs ! l, Suc (0 + l))"
    by (rule on_first_nth [OF bs assms(3)]) (auto elim: alloc_layer_spec)
  then show ?thesis by (elim alloc_layer_spec) (auto simp: p')
qed

lemma cbg_allocation_balanced_witness:
  "\<exists>p'. AllocateCBG (ex_ue HARQ_PROCESS_ZERO) 2 (HARQ_PROCESS_ZERO\<lparr>NDI := True, layerCount := 1, hp_amcInfo := Some (AmcDL 0)\<rparr>) = Inr p'
     \<and> CBGCount (hp_transmissionBuffer p' ! 0) = 2
     \<and> balanced_groups 5 (take 2 (CBGList (hp_transmissionBuffer p' ! 0)))"
proof -
  let ?p = "HARQ_PROCESS_ZERO\<lparr>NDI := True, layerCount := 1, hp_amcInfo := Some (AmcDL 0)\<rparr>"
  obtain p' where p': "AllocateCBG (ex_ue HARQ_PROCESS_ZERO) 2 ?p = Inr p'"
    by (simp add: AllocateCBG_def alloc_layer_def ex_mac_defs ex_arrays on_first_two amc_read_def amc_array_def arr_get_def Let_def)
  then show ?thesis using cbg_allocation_balanced [OF p', of 0]
    by (auto simp: ex_mac_defs amc_read_def amc_array_def arr_get_def)
qed

section \<open>The life of a transport block\<close>

lemma set_ndi_buffer:
  assumes "set_ndi a limit p io = Inr (p', io')" and "packetBuffer p \<noteq> []"
  shows "if limit \<le> transmissionNumber p + 1
    then packetBuffer p' = [] \<and> transmissionNumber p' = 0 \<and> io' = io_out (map HarqDropped (packetBuffer p)) io
    else packetBuffer p' = packetBuffer p \<and> transmissionNumber p' = transmissionNumber p + 1
         \<and> \<not> NDI p' \<and> io' = io"
  using assms
  by (auto simp: set_ndi_def Let_def EmptyProcess_def EmptyPacketBuffer_def ResetCBG_def CalculatePendingData_def
      elim!: rbind_InrE)

lemma combine_keeps:
  assumes "combine_layer E entity a amc sinrs tid i p = Inr p'"
  shows "packetBuffer p' = packetBuffer p \<and> transmissionNumber p' = transmissionNumber p
    \<and> layerCount p' = layerCount p \<and> isUPLinkProcess p' = isUPLinkProcess p"
  using assms by (auto simp: combine_layer_def buffer_upd_def Let_def split: if_splits elim!: rbind_InrE)

lemma combine_all_keeps:
  assumes "fold_result (combine_layer E entity a amc sinrs tid) is p = Inr p'"
  shows "packetBuffer p' = packetBuffer p \<and> transmissionNumber p' = transmissionNumber p
    \<and> layerCount p' = layerCount p \<and> isUPLinkProcess p' = isUPLinkProcess p"
  using assms by (induction "is" arbitrary: p) (auto elim!: rbind_InrE dest: combine_keeps)

lemma decide_keeps:
  assumes "DecideCBGError E p io = Inr (p', io')"
  shows "packetBuffer p' = packetBuffer p \<and> transmissionNumber p' = transmissionNumber p
    \<and> layerCount p' = layerCount p \<and> isUPLinkProcess p' = isUPLinkProcess p \<and> io_trace io' = io_trace io"
  using assms by (auto simp: DecideCBGError_def elim!: rbind_InrE)

section \<open>Errors of code blocks\<close>

text \<open>The statuses of the blocks of a group; a process holds no other statuses than these two.\<close>

definition block_statuses :: "LTENR_CBG \<Rightarrow> PACKET_STATUS list" where
  "block_statuses g = (case CBErrorStatus g of None \<Rightarrow> [] | Some ss \<Rightarrow> take (unat (CBCount g)) ss)"

definition used_groups :: "LTENR_HARQ_BUFFER \<Rightarrow> LTENR_CBG list" where
  "used_groups b = take (unat (CBGCount b)) (CBGList b)"

definition used_layers :: "LTENR_HARQ_PROCESS \<Rightarrow> LTENR_HARQ_BUFFER list" where
  "used_layers p = take (unat (layerCount p)) (hp_transmissionBuffer p)"

definition binary :: "PACKET_STATUS list \<Rightarrow> bool" where
  "binary ss \<longleftrightarrow> set ss \<subseteq> {PacketStatus_NoError, PacketStatus_Error}"

definition binary_process :: "LTENR_HARQ_PROCESS \<Rightarrow> bool" where
  "binary_process p \<longleftrightarrow> (\<forall>b \<in> set (used_layers p). \<forall>g \<in> set (used_groups b). binary (block_statuses g))"

text \<open>All code blocks of the transport block have arrived.\<close>

definition tb_intact :: "LTENR_HARQ_PROCESS \<Rightarrow> bool" where
  "tb_intact p \<longleftrightarrow> (\<forall>b \<in> set (used_layers p). \<forall>g \<in> set (used_groups b). \<forall>s \<in> set (block_statuses g). s = PacketStatus_NoError)"

text \<open>What has arrived stays.\<close>

definition arrived_stay :: "PACKET_STATUS list \<Rightarrow> PACKET_STATUS list \<Rightarrow> bool" where
  "arrived_stay = list_all2 (\<lambda>s s'. s = PacketStatus_NoError \<longrightarrow> s' = PacketStatus_NoError)"

lemma on_first_all2:
  assumes "on_first n f xs s = Inr (ys, t)" and "\<And>x s y s'. P x \<Longrightarrow> f x s = Inr (y, s') \<Longrightarrow> R x y"
    and "\<forall>x \<in> set (take n xs). P x"
  shows "list_all2 R (take n xs) (take n ys)"
  using assms(1,3)
proof (induction n arbitrary: xs s ys)
  case (Suc n)
  obtain x xs' where xs: "xs = x # xs'" using Suc.prems by (cases xs) auto
  obtain y k' ys' where r: "f x s = Inr (y, k')" "on_first n f xs' k' = Inr (ys', t)" "ys = y # ys'"
    using Suc.prems by (auto simp: xs elim!: rbind_InrE)
  then show ?case using Suc.IH [OF r(2)] Suc.prems(2) assms(2) [OF _ r(1)] by (simp add: xs)
qed simp

lemma decide_cbs_spec:
  assumes "decide_cbs E b first ss k = (ss', k')" and "binary ss"
  shows "binary ss' \<and> length ss' = length ss \<and> (\<not> first \<longrightarrow> arrived_stay ss ss')"
  using assms
proof (induction E b first ss k arbitrary: ss' k' rule: decide_cbs.induct)
  case (2 E b first s ss k)
  then show ?case
    by (auto simp: Let_def DecideCBError_def binary_def arrived_stay_def split: prod.splits if_splits)
qed (simp add: binary_def arrived_stay_def)

lemma first_error_binary:
  "binary ss \<Longrightarrow> first_error ss = (if \<forall>s \<in> set ss. s = PacketStatus_NoError then PacketStatus_NoError else PacketStatus_Error)"
  by (induction ss) (auto simp: first_error_def binary_def)

text \<open>A group before and after its errors are decided.\<close>

definition group_decided :: "bool \<Rightarrow> LTENR_CBG \<Rightarrow> LTENR_CBG \<Rightarrow> bool" where
  "group_decided first g g' \<longleftrightarrow>
     CBCount g' = CBCount g \<and> binary (block_statuses g')
     \<and> cbg_isErrored g' = (if \<forall>s \<in> set (block_statuses g'). s = PacketStatus_NoError then PacketStatus_NoError else PacketStatus_Error)
     \<and> (\<not> first \<longrightarrow> arrived_stay (block_statuses g) (block_statuses g'))"

lemma decide_cbg_spec:
  assumes "decide_cbg E b first g k = Inr (g', k')" and "binary (block_statuses g)"
  shows "group_decided first g g'"
proof (cases "CBCount g = 0")
  case True
  then show ?thesis using assms
    by (auto simp: decide_cbg_def group_decided_def block_statuses_def binary_def arrived_stay_def split: option.splits)
next
  case False
  let ?n = "unat (CBCount g)"
  obtain ss ss' where r: "CBErrorStatus g = Some ss" "?n \<le> length ss" "decide_cbs E b first (take ?n ss) k = (ss', k')"
      "g' = g\<lparr>CBErrorStatus := Some (ss' @ drop ?n ss), cbg_isErrored := first_error ss'\<rparr>"
    using assms(1) False by (auto simp: decide_cbg_def Let_def split: if_splits prod.splits elim!: rbind_InrE)
  have d: "binary ss'" "length ss' = ?n" "\<not> first \<longrightarrow> arrived_stay (take ?n ss) ss'"
    using decide_cbs_spec [OF r(3)] assms(2) r(1,2) by (simp_all add: block_statuses_def)
  then have "block_statuses g' = ss'" by (simp add: r(4) block_statuses_def)
  then show ?thesis using d r first_error_binary [OF d(1)] by (simp add: group_decided_def block_statuses_def)
qed

definition layer_decided :: "bool \<Rightarrow> LTENR_HARQ_BUFFER \<Rightarrow> LTENR_HARQ_BUFFER \<Rightarrow> bool" where
  "layer_decided first b b' \<longleftrightarrow>
     list_all2 (group_decided first) (used_groups b) (used_groups b')
     \<and> (hb_isErrored b' = PacketStatus_Error) = (\<exists>g \<in> set (used_groups b'). cbg_isErrored g = PacketStatus_Error)"

lemma decide_layer_spec:
  assumes "decide_layer E first b k = Inr (b', k')" and "\<forall>g \<in> set (used_groups b). binary (block_statuses g)"
  shows "layer_decided first b b'"
proof -
  obtain cs where cs: "on_first (unat (CBGCount b)) (decide_cbg E (bler b) first) (CBGList b) k = Inr (cs, k')"
      "b' = b\<lparr>CBGList := cs, hb_isErrored := cbgs_error (take (unat (CBGCount b)) cs)\<rparr>"
    using assms(1) by (auto simp: decide_layer_def elim!: rbind_InrE)
  have "list_all2 (group_decided first) (used_groups b) (take (unat (CBGCount b)) cs)"
    using on_first_all2 [OF cs(1), of "\<lambda>g. binary (block_statuses g)"] decide_cbg_spec assms(2)
    by (auto simp: used_groups_def)
  then show ?thesis by (auto simp: layer_decided_def used_groups_def cs(2) cbgs_error_def)
qed

lemma decide_spec:
  assumes "DecideCBGError E p io = Inr (p', io')" and "binary_process p"
  shows "list_all2 (layer_decided (transmissionNumber p = 0)) (used_layers p) (used_layers p')"
proof -
  obtain bs k where bs: "on_first (unat (layerCount p)) (decide_layer E (transmissionNumber p = 0))
      (hp_transmissionBuffer p) (io_rand io) = Inr (bs, k)" "p' = p\<lparr>hp_transmissionBuffer := bs\<rparr>"
    using assms(1) by (auto simp: DecideCBGError_def elim!: rbind_InrE)
  show ?thesis
    using on_first_all2 [OF bs(1), of "\<lambda>b. \<forall>g \<in> set (used_groups b). binary (block_statuses g)"] decide_layer_spec assms(2)
    by (auto simp: used_layers_def bs(2) binary_process_def)
qed

text \<open>After the decision the flags of the layers say whether all blocks have arrived.\<close>

lemma list_all2_ex2: "list_all2 P xs ys \<Longrightarrow> y \<in> set ys \<Longrightarrow> \<exists>x \<in> set xs. P x y"
  by (metis in_set_conv_nth list_all2_conv_all_nth)

lemma layer_decided_group:
  assumes "layer_decided first b b'" and "g \<in> set (used_groups b')"
  shows "binary (block_statuses g)"
    and "cbg_isErrored g = PacketStatus_Error \<longleftrightarrow> (\<exists>s \<in> set (block_statuses g). s \<noteq> PacketStatus_NoError)"
proof -
  obtain g0 where "group_decided first g0 g"
    using assms list_all2_ex2 [of "group_decided first" "used_groups b" "used_groups b'" g] by (auto simp: layer_decided_def)
  then show "binary (block_statuses g)"
    "cbg_isErrored g = PacketStatus_Error \<longleftrightarrow> (\<exists>s \<in> set (block_statuses g). s \<noteq> PacketStatus_NoError)"
    by (auto simp: group_decided_def)
qed

lemma layer_decided_intact:
  assumes "layer_decided first b b'"
  shows "hb_isErrored b' \<noteq> PacketStatus_Error
    \<longleftrightarrow> (\<forall>g \<in> set (used_groups b'). \<forall>s \<in> set (block_statuses g). s = PacketStatus_NoError)"
  using assms layer_decided_group(2) [OF assms] unfolding layer_decided_def by blast

lemma tb_ok_intact:
  assumes "list_all2 (layer_decided first) (used_layers p) (used_layers p')"
  shows "tb_ok p' = tb_intact p'" and "binary_process p'"
proof -
  have d: "\<exists>b. layer_decided first b b'" if "b' \<in> set (used_layers p')" for b'
    using list_all2_ex2 [OF assms that] by blast
  have "(hb_isErrored b' \<noteq> PacketStatus_Error)
      = (\<forall>g \<in> set (used_groups b'). \<forall>s \<in> set (block_statuses g). s = PacketStatus_NoError)"
    if "b' \<in> set (used_layers p')" for b'
    using d [OF that] layer_decided_intact by blast
  then show "tb_ok p' = tb_intact p'"
    by (simp add: tb_ok_def tb_intact_def used_layers_def)
  show "binary_process p'"
    using d layer_decided_group(1) unfolding binary_process_def by blast
qed

text \<open>Blocks of all layers that have arrived are still there.\<close>

definition blocks_stay :: "LTENR_HARQ_PROCESS \<Rightarrow> LTENR_HARQ_PROCESS \<Rightarrow> bool" where
  "blocks_stay p p' \<longleftrightarrow>
     list_all2 (\<lambda>b b'. list_all2 (\<lambda>g g'. arrived_stay (block_statuses g) (block_statuses g')) (used_groups b) (used_groups b'))
       (used_layers p) (used_layers p')"

lemma decided_blocks_stay:
  "list_all2 (layer_decided False) (used_layers p) (used_layers p') \<Longrightarrow> blocks_stay p p'"
  unfolding blocks_stay_def
  by (elim list_all2_mono) (auto simp: layer_decided_def group_decided_def elim: list_all2_mono)

section \<open>Transmission\<close>

lemma olla_keeps_harq:
  "fold_result (\<lambda>l a. rbind (arr_get bs l) (\<lambda>b. if P b then LTENR_OLLA_MarkTBSError pd u ca l a
      else LTENR_OLLA_MarkTBSSuccess pd u ca l a)) ls a = Inr a'
   \<Longrightarrow> ma_harq a' = ma_harq a \<and> ma_ueId a' = ma_ueId a \<and> ma_ueIf a' = ma_ueIf a \<and> amc_array a' = amc_array a
      \<and> ma_isAssociated a' = ma_isAssociated a"
proof (induction ls arbitrary: a)
  case (Cons l ls)
  have "ma_harq a1 = ma_harq a \<and> ma_ueId a1 = ma_ueId a \<and> ma_ueIf a1 = ma_ueIf a \<and> amc_array a1 = amc_array a
      \<and> ma_isAssociated a1 = ma_isAssociated a"
    if "olla_mark f pd u ca l a = Inr a1" for f a1
    using that by (auto simp: olla_mark_def olla_write_def amc_array_def Let_def fun_eq_iff split: amc_ptr.splits elim!: rbind_InrE)
  with Cons show ?case
    by (fastforce simp: LTENR_OLLA_MarkTBSError_def LTENR_OLLA_MarkTBSSuccess_def split: if_splits elim!: rbind_InrE)
qed simp

lemma ReportToOLLA_keeps:
  "ReportToOLLA pd ca p a = Inr a' \<Longrightarrow> ma_harq a' = ma_harq a \<and> ma_ueId a' = ma_ueId a \<and> ma_ueIf a' = ma_ueIf a
     \<and> amc_array a' = amc_array a \<and> ma_isAssociated a' = ma_isAssociated a"
  unfolding ReportToOLLA_def by (auto split: if_splits dest!: olla_keeps_harq)

lemma harq_entity_put:
  assumes "harq_entity ul ca a = Inr e0"
  shows "harq_entity ul' ca' (put_entity ul ca e a) = (if ul' = ul \<and> ca' = ca then Inr e else harq_entity ul' ca' a)"
proof (cases "ma_harq a")
  case (Some h)
  then show ?thesis using assms
    by (cases ul; cases ul') (auto simp: harq_entity_def put_entity_def arr_get_def split: if_splits)
qed (use assms in \<open>simp add: harq_entity_def\<close>)

lemma current_process_put:
  assumes "current_process e = Inr p"
  shows "current_process (put_process e p') = Inr p'"
proof -
  have "current_index (put_process e p') = current_index e" by (simp add: put_process_def current_index_def)
  then show ?thesis using assms by (simp add: current_process_def put_process_def arr_get_def split: if_splits)
qed

lemma SendToReceiver_spec:
  "SendToReceiver t g gi a p io =
     (if tb_ok p then (p\<lparr>packetBuffer := []\<rparr>,
        if packetBuffer p = [] then io else AddMACINEvent t g gi a (isUPLinkProcess p) (packetBuffer p) io)
      else (p, io))"
  by (simp add: SendToReceiver_def)

lemma used_layers_buffer [simp]: "used_layers (p\<lparr>packetBuffer := x\<rparr>) = used_layers p"
  by (simp add: used_layers_def)

text \<open>The packets of a transport block that goes up, in the event for its receiver.\<close>

definition delivery :: "real \<Rightarrow> netsim_id \<Rightarrow> netsim_id \<Rightarrow> MAC_ASSOCIATEDUEPHYINFO \<Rightarrow> bool \<Rightarrow> NetSim_PACKET list \<Rightarrow> mac_effect list" where
  "delivery t g gi a ul ps =
     (if ps = [] then [] else
      [MacInEvent \<lparr>mi_time = t, mi_packetSize = dPacketSize (hd ps), mi_app = appInfo (hd ps),
         mi_deviceId = (if ul then g else ma_ueId a), mi_interfaceId = (if ul then gi else ma_ueIf a), mi_packets = ps\<rparr>])"

text \<open>
  C8. Transmission of the current process: when all code blocks of its transport block have arrived,
  its packets, all and in order, go to the receiver in one event at the end of the slot and leave
  the process; otherwise they stay and nothing is delivered. A block that arrived in an
  earlier transmission is not lost again. No other process is touched.
\<close>

theorem harq_delivers_intact:
  assumes "harq_transmit_cbg E t g gi ca ul a io = Inr (a', io')"
    and "harq_entity ul ca a = Inr e" and "current_process e = Inr p" and "binary_process p"
  shows "\<exists>p'. harq_entity ul ca a' = Inr (put_process e p')
    \<and> (if tb_intact p'
       then packetBuffer p' = [] \<and> io_trace io' = io_trace io @ delivery t g gi a (isUPLinkProcess p) (packetBuffer p)
       else packetBuffer p' = packetBuffer p \<and> io_trace io' = io_trace io)
    \<and> (transmissionNumber p \<noteq> 0 \<longrightarrow> blocks_stay p p')
    \<and> (\<forall>ul' ca'. (ul', ca') \<noteq> (ul, ca) \<longrightarrow> harq_entity ul' ca' a' = harq_entity ul' ca' a)"
proof -
  obtain p1 io1 a1 where r: "DecideCBGError E p io = Inr (p1, io1)" "ReportToOLLA (mac_pd E g gi) ca p1 a = Inr a1"
      and s: "a' = put_entity ul ca (put_process e (fst (SendToReceiver t g gi a1 p1 io1))) a1"
        "io' = snd (SendToReceiver t g gi a1 p1 io1)"
    using assms(1-3) by (auto simp: harq_transmit_cbg_def Let_def split: prod.splits elim!: rbind_InrE)
  note d = decide_spec [OF r(1) assms(4)] and k = decide_keeps [OF r(1)] and o = ReportToOLLA_keeps [OF r(2)]
  have he: "harq_entity ul' ca' a1 = harq_entity ul' ca' a" for ul' ca' using o by (simp add: harq_entity_def)
  have e: "harq_entity ul ca a1 = Inr e" using he assms(2) by simp
  define p2 where "p2 = fst (SendToReceiver t g gi a1 p1 io1)"
  have intact: "tb_intact p2 = tb_intact p1" "tb_ok p1 = tb_intact p1"
    using tb_ok_intact(1) [OF d] by (auto simp: p2_def SendToReceiver_spec tb_intact_def)
  have "if tb_intact p2
       then packetBuffer p2 = [] \<and> io_trace io' = io_trace io @ delivery t g gi a (isUPLinkProcess p) (packetBuffer p)
       else packetBuffer p2 = packetBuffer p \<and> io_trace io' = io_trace io"
    unfolding intact(1) using k o intact(2)
    by (simp add: p2_def s(2) SendToReceiver_spec AddMACINEvent_def io_out_def delivery_def)
  moreover have "blocks_stay p p2" if "transmissionNumber p \<noteq> 0"
    using decided_blocks_stay [of p p1] d that by (simp add: p2_def SendToReceiver_spec blocks_stay_def)
  moreover have "harq_entity ul ca a' = Inr (put_process e p2)"
    "\<forall>ul' ca'. (ul', ca') \<noteq> (ul, ca) \<longrightarrow> harq_entity ul' ca' a' = harq_entity ul' ca' a"
    unfolding s(1) p2_def harq_entity_put [OF e] by (auto simp: he)
  ultimately show ?thesis by blast
qed

lemma harq_delivers_intact_witness:
  "\<exists>a' io' p'. harq_transmit_cbg (ex_mac_env 0) 5 1 1 0 False (ex_ue (ex_process [PacketStatus_NoError] 0)) ex_mac_io = Inr (a', io')
     \<and> (if tb_intact p' then io_trace io' = delivery 5 1 1 (ex_ue (ex_process [PacketStatus_NoError] 0)) False [ex_packet]
        else packetBuffer p' = [ex_packet] \<and> io_trace io' = [])
     \<and> harq_entity False 0 a' = Inr (put_process (ex_entity (ex_process [PacketStatus_NoError] 0)) p')"
proof -
  let ?p = "ex_process [PacketStatus_NoError] 0"
  have e: "harq_entity False 0 (ex_ue ?p) = Inr (ex_entity ?p)" by (simp add: harq_entity_def ex_ue_def arr_get_def)
  have c: "current_process (ex_entity ?p) = Inr ?p"
    by (simp add: current_process_def current_index_def ex_entity_def arr_get_def)
  have b: "binary_process ?p"
    by (simp add: binary_process_def used_layers_def used_groups_def block_statuses_def binary_def ex_process_def ex_cbg_def)
  obtain q io1 where q: "DecideCBGError (ex_mac_env 0) ?p ex_mac_io = Inr (q, io1)" "transmissionNumber q = 0"
      "unat (layerCount q) = 1" "length (hp_transmissionBuffer q) = 1"
    by (simp add: DecideCBGError_def decide_layer_def decide_cbg_def ex_mac_defs Let_def split: prod.splits)
  have m: "\<exists>a1. olla_mark f pd u 0 0 (ex_ue ?p) = Inr a1" for f pd u
    by (simp add: olla_mark_def olla_handler_find_def olla_container_def olla_handler_init_def arr_get_def ex_ue_def
        MAX_CA_COUNT_def MAX_LAYER_COUNT_def Let_def)
  obtain x y where "olla_mark olla_error (mac_pd (ex_mac_env 0) 1 1) (isUPLinkProcess q) 0 0 (ex_ue ?p) = Inr x"
      "olla_mark olla_success (mac_pd (ex_mac_env 0) 1 1) (isUPLinkProcess q) 0 0 (ex_ue ?p) = Inr y"
    using m by blast
  then obtain a1 where a1: "ReportToOLLA (mac_pd (ex_mac_env 0) 1 1) 0 q (ex_ue ?p) = Inr a1"
    using q by (cases "hb_isErrored (hp_transmissionBuffer q ! 0) = PacketStatus_NoError")
      (simp_all add: ReportToOLLA_def LTENR_OLLA_MarkTBSError_def LTENR_OLLA_MarkTBSSuccess_def arr_get_def)
  obtain a' io' where t: "harq_transmit_cbg (ex_mac_env 0) 5 1 1 0 False (ex_ue ?p) ex_mac_io = Inr (a', io')"
    by (cases "SendToReceiver 5 1 1 a1 q io1") (simp add: harq_transmit_cbg_def e c q a1)
  then show ?thesis using harq_delivers_intact [OF t e c b]
    by (auto simp: ex_process_def ex_mac_io_def HARQ_PROCESS_ZERO_def split: if_splits)
qed

section \<open>How often a transport block is sent\<close>

text \<open>
  One turn of a process: the start of the slot, for a block that is sent again the new SINR, the
  errors, delivery. \<open>limit\<close> is the retry limit of its entity.
\<close>

inductive tb_turn ::
  "mac_env \<Rightarrow> netsim_id \<Rightarrow> netsim_id \<Rightarrow> u32 \<Rightarrow> LTENR_HARQ_PROCESS \<times> mac_io \<Rightarrow> LTENR_HARQ_PROCESS \<times> mac_io \<Rightarrow> bool"
  for E g gi limit where
  tb_turn: "set_ndi a limit p io = Inr (p1, io1)
    \<Longrightarrow> fold_result (combine_layer E e a' amc sinrs tid) ls p1 = Inr p2
    \<Longrightarrow> DecideCBGError E p2 io1 = Inr (p3, io2)
    \<Longrightarrow> SendToReceiver t g gi a' p3 io2 = (p4, io3)
    \<Longrightarrow> tb_turn E g gi limit (p, io) (p4, io3)"

text \<open>Turns while the process holds a block.\<close>

inductive tb_run ::
  "mac_env \<Rightarrow> netsim_id \<Rightarrow> netsim_id \<Rightarrow> u32 \<Rightarrow> nat \<Rightarrow> LTENR_HARQ_PROCESS \<times> mac_io \<Rightarrow> LTENR_HARQ_PROCESS \<times> mac_io \<Rightarrow> bool"
  for E g gi limit where
  tb_zero: "tb_run E g gi limit 0 s s"
| tb_more: "tb_run E g gi limit k s (p1, io1) \<Longrightarrow> packetBuffer p1 \<noteq> [] \<Longrightarrow> tb_turn E g gi limit (p1, io1) s'
    \<Longrightarrow> tb_run E g gi limit (Suc k) s s'"

inductive_cases tb_turnE: "tb_turn E g gi limit (p, io) (p', io')"

text \<open>What a turn does to the packets of a process.\<close>

definition delivered :: "NetSim_PACKET list \<Rightarrow> mac_io \<Rightarrow> mac_io \<Rightarrow> bool" where
  "delivered ps io io' \<longleftrightarrow> (\<exists>ev. mi_packets ev = ps \<and> io_trace io' = io_trace io @ [MacInEvent ev])"

definition dropped :: "NetSim_PACKET list \<Rightarrow> mac_io \<Rightarrow> mac_io \<Rightarrow> bool" where
  "dropped ps io io' \<longleftrightarrow> io_trace io' = io_trace io @ map HarqDropped ps"

lemma tb_turn_cases:
  assumes "tb_turn E g gi limit (p, io) (p', io')" and "packetBuffer p \<noteq> []"
  shows "if limit \<le> transmissionNumber p + 1
    then packetBuffer p' = [] \<and> dropped (packetBuffer p) io io'
    else packetBuffer p' = packetBuffer p \<and> io_trace io' = io_trace io \<and> transmissionNumber p' = transmissionNumber p + 1
       \<or> packetBuffer p' = [] \<and> delivered (packetBuffer p) io io'"
proof -
  obtain a p1 io1 e a' amc sinrs tid ls p2 p3 io2 t where t: "set_ndi a limit p io = Inr (p1, io1)"
      "fold_result (combine_layer E e a' amc sinrs tid) ls p1 = Inr p2"
      "DecideCBGError E p2 io1 = Inr (p3, io2)" "SendToReceiver t g gi a' p3 io2 = (p', io')"
    using assms(1) by (elim tb_turnE)
  show ?thesis
    using set_ndi_buffer [OF t(1) assms(2)] combine_all_keeps [OF t(2)] decide_keeps [OF t(3)] t(4) assms(2)
    by (auto simp: SendToReceiver_spec AddMACINEvent_def io_out_def delivered_def dropped_def split: if_splits)
qed

lemma tb_run_invariant:
  assumes "tb_run E g gi limit k s s'" and "s = (p, io)" and "packetBuffer p = ps" and "ps \<noteq> []"
    and "transmissionNumber p = 0"
  shows "packetBuffer (fst s') = ps \<and> io_trace (snd s') = io_trace io \<and> unat (transmissionNumber (fst s')) = k \<and> (k = 0 \<or> k < unat limit)
    \<or> packetBuffer (fst s') = [] \<and> k \<noteq> 0 \<and> k \<le> max 1 (unat limit)
      \<and> (delivered ps io (snd s') \<and> k < unat limit \<or> dropped ps io (snd s') \<and> k = max 1 (unat limit))"
  using assms
proof (induction rule: tb_run.induct)
  case (tb_more k s p1 io1 s')
  let ?n = "transmissionNumber p1"
  obtain p2 io2 where s': "s' = (p2, io2)" by fastforce
  have inv: "packetBuffer p1 = ps" "io_trace io1 = io_trace io" "unat ?n = k" "k = 0 \<or> k < unat limit"
    using tb_more.IH [OF tb_more.prems] tb_more.hyps(2) by auto
  have turn: "if limit \<le> ?n + 1 then packetBuffer p2 = [] \<and> dropped ps io io2
    else packetBuffer p2 = ps \<and> io_trace io2 = io_trace io \<and> transmissionNumber p2 = ?n + 1
       \<or> packetBuffer p2 = [] \<and> delivered ps io io2"
    using tb_turn_cases [OF tb_more.hyps(3) [unfolded s'] tb_more.hyps(2)] inv(1,2)
    by (auto simp: delivered_def dropped_def)
  have "?n \<noteq> - 1"
  proof
    assume m: "?n = - 1"
    then have "k = 2 ^ 32 - 1" using inv(3) by (simp add: unsigned_minus_1_eq_mask mask_eq_exp_minus_1)
    moreover have "unat limit < 2 ^ 32" using unsigned_less [of limit, where 'a = nat] by simp
    ultimately show False using inv(4) by auto
  qed
  then have "unat (?n + 1) = Suc k" using inv(3) by (simp add: unat_plus_one)
  then show ?case using turn inv(4) by (auto simp: s' word_le_nat_alt split: if_splits)
qed simp

text \<open>
  C9. A transport block that was sent once and did not arrive leaves its process after at most as many
  further turns as the retry limit, or one turn for a limit of 0 (HARQ switched off): its
  packets are delivered, all in one event, at one of the turns before, or dropped at the last, and
  until then nothing happens to them. So a block is sent at most as often as the
  limit, and a block that fails without HARQ is dropped.
\<close>

theorem harq_block_ends:
  assumes "tb_run E g gi limit k (p, io) (p', io')" and "packetBuffer p \<noteq> []" and "transmissionNumber p = 0"
  shows "k \<le> max 1 (unat limit)
    \<and> (packetBuffer p' = packetBuffer p \<and> io_trace io' = io_trace io \<and> (k = 0 \<or> k < unat limit)
       \<or> packetBuffer p' = [] \<and> delivered (packetBuffer p) io io' \<and> 0 < k \<and> k < unat limit
       \<or> packetBuffer p' = [] \<and> dropped (packetBuffer p) io io' \<and> k = max 1 (unat limit))"
  using tb_run_invariant [OF assms(1) refl refl assms(2,3)] by auto

lemma harq_block_ends_witness:
  "\<exists>p' io'. tb_run (ex_mac_env 0) 1 1 3 1 (ex_process [PacketStatus_Error] 0, ex_mac_io) (p', io')
     \<and> (packetBuffer p' = [ex_packet] \<or> delivered [ex_packet] ex_mac_io io')"
proof -
  let ?p = "ex_process [PacketStatus_Error] 0"
  obtain p1 where p1: "set_ndi (ex_ue ?p) 3 ?p ex_mac_io = Inr (p1, ex_mac_io)" "layerCount p1 = 1"
      "hp_transmissionBuffer p1 = [(hp_transmissionBuffer ?p ! 0)\<lparr>PendingSize := 100\<rparr>]"
    by (simp add: set_ndi_def CalculatePendingData_def pending_layer_def pending_size_def amc_read_def amc_array_def arr_get_def
        first_error_def ex_mac_defs Let_def word_le_nat_alt)
  obtain p2 io2 where p2: "DecideCBGError (ex_mac_env 0) p1 ex_mac_io = Inr (p2, io2)"
    using p1 by (simp add: DecideCBGError_def decide_layer_def decide_cbg_def ex_mac_defs Let_def split: prod.splits)
  obtain p' io' where s: "SendToReceiver 5 1 1 (ex_ue ?p) p2 io2 = (p', io')" by fastforce
  have "fold_result (combine_layer (ex_mac_env 0) (ex_entity ?p) (ex_ue ?p) (AmcDL 0) [10] 1) [] p1 = Inr p1" by simp
  then have "tb_turn (ex_mac_env 0) 1 1 3 (?p, ex_mac_io) (p', io')" using p1(1) p2 s by (blast intro: tb_turn.intros)
  moreover have n: "packetBuffer ?p = [ex_packet]" "transmissionNumber ?p = 0"
    by (simp_all add: ex_process_def HARQ_PROCESS_ZERO_def)
  ultimately have r: "tb_run (ex_mac_env 0) 1 1 3 1 (?p, ex_mac_io) (p', io')"
    using tb_more [OF tb_zero] by (metis One_nat_def list.distinct(1))
  show ?thesis using harq_block_ends [OF r] r n by auto
qed

section \<open>What a retransmission costs\<close>

lemma pending_layer_spec:
  assumes "pending_layer a amc b (l, r) = Inr (b', s')"
  shows "s' = (Suc l, max r (PendingSize b' div hb_bitsPerPRB b)) \<and> hb_bitsPerPRB b \<noteq> 0
    \<and> used_groups b' = used_groups b \<and> hb_bitsPerPRB b' = hb_bitsPerPRB b
    \<and> (\<forall>x. amc_read a amc l = Inr x \<longrightarrow> PendingSize b' = pending_size (CBS' x) (used_groups b))"
proof -
  have none: "pending_size x (used_groups b) = 0"
    if "\<not> (\<exists>c \<in> set (used_groups b). cbg_isErrored c = PacketStatus_Error)" for x
    using that by (simp add: pending_size_def filter_False)
  show ?thesis using assms none
    by (auto simp: pending_layer_def Let_def used_groups_def split: if_splits elim!: rbind_InrE)
qed

text \<open>A loop over layers counts them in its state.\<close>

lemma on_first_nth_count:
  assumes "on_first n f xs (k, r) = Inr (ys, t)" and "i < n"
    and "\<And>x k r y s'. f x (k, r) = Inr (y, s') \<Longrightarrow> fst s' = Suc k"
  shows "\<exists>r1 s1. f (xs ! i) (k + i, r1) = Inr (ys ! i, s1)"
  using assms(1,2)
proof (induction n arbitrary: xs k r ys i)
  case (Suc n)
  obtain x xs' where xs: "xs = x # xs'" using Suc.prems by (cases xs) auto
  obtain y s' ys' where f: "f x (k, r) = Inr (y, s')" "on_first n f xs' s' = Inr (ys', t)" "ys = y # ys'"
    using Suc.prems by (auto simp: xs elim!: rbind_InrE)
  obtain r' where s': "s' = (Suc k, r')" using assms(3) [OF f(1)] by (cases s') auto
  show ?case
  proof (cases i)
    case (Suc j)
    then show ?thesis using Suc.IH [OF f(2) [unfolded s'], of j] Suc.prems(2) f(3) xs by simp
  qed (use f xs s' in auto)
qed simp

lemma CalculatePendingData_nth:
  assumes "CalculatePendingData a p = Inr p'" and "l < unat (layerCount p)"
  shows "\<exists>r s'. pending_layer a (hp_amcInfo p) (hp_transmissionBuffer p ! l) (l, r) = Inr (hp_transmissionBuffer p' ! l, s')"
proof -
  obtain bs k r where bs: "on_first (unat (layerCount p)) (pending_layer a (hp_amcInfo p))
      (hp_transmissionBuffer p) (0, 0) = Inr (bs, k, r)" and p': "p' = p\<lparr>hp_transmissionBuffer := bs, PRBReqdForRetx := r\<rparr>"
    using assms(1) by (auto simp: CalculatePendingData_def elim!: rbind_InrE)
  have "\<exists>r1 s1. pending_layer a (hp_amcInfo p) (hp_transmissionBuffer p ! l) (0 + l, r1) = Inr (bs ! l, s1)"
    by (rule on_first_nth_count [OF bs assms(2)]) (auto dest: pending_layer_spec)
  then show ?thesis by (simp add: p')
qed

lemma amc_array_set [simp]: "amc_array (amc_array_set a p xs) q = (if q = p then Some xs else amc_array a q)"
  by (auto simp: amc_array_def amc_array_set_def split: amc_ptr.splits)

lemma new_amc_mcs [simp]: "mcsTable (new_amc tbs x) = mcsTable x"
  by (simp add: new_amc_def Let_def split: prod.splits)

text \<open>The size of the transport block of a layer.\<close>

definition new_tbs :: "LTENR_UESCHEDULERINFO \<Rightarrow> nat \<Rightarrow> u64" where
  "new_tbs si l = bitsPerPRBLayer si ! l * ucast (allocatedPRBCount si)"

lemma new_layer_spec:
  assumes "new_layer E e amc sinrs tid i (a, p, si) = Inr (a', p', si')"
  obtains xs n r b where "amc_array a amc = Some xs" and "i < length xs" and "i < length (hp_transmissionBuffer p)"
    and "a' = amc_array_set a amc (xs[i := new_amc (new_tbs si i) (xs ! i)])"
    and "si' = si\<lparr>TBSLayer := (TBSLayer si)[i := new_tbs si i]\<rparr>"
    and "p' = p\<lparr>hp_transmissionBuffer := (hp_transmissionBuffer p)
          [i := (hp_transmissionBuffer p ! i)\<lparr>hb_bitsPerPRB := n, sinr := r, bler := b\<rparr>]\<rparr>"
proof -
  obtain xs where xs: "amc_array a amc = Some xs" "i < length xs"
    using assms by (auto simp: new_layer_def elim!: rbind_InrE)
  define bl where "bl = (if isBlerEnable (mac_pd E (he_gNBId e) (he_gNBIf e))
      then LTENR_GetBLER E tid (mcsIndex (mcsTable (new_amc (new_tbs si i) (xs ! i)))) (BG (new_amc (new_tbs si i) (xs ! i)))
        (CBS (new_amc (new_tbs si i) (xs ! i))) (sinrs ! i) else 0)"
  have r: "i < length (hp_transmissionBuffer p)"
    "a' = amc_array_set a amc (xs[i := new_amc (new_tbs si i) (xs ! i)])"
    "si' = si\<lparr>TBSLayer := (TBSLayer si)[i := new_tbs si i]\<rparr>"
    "p' = p\<lparr>hp_transmissionBuffer := (hp_transmissionBuffer p)
       [i := (hp_transmissionBuffer p ! i)\<lparr>hb_bitsPerPRB := ucast (bitsPerPRBLayer si ! i), sinr := sinrs ! i, bler := bl\<rparr>]\<rparr>"
    using assms unfolding bl_def
    by (simp_all add: new_layer_def buffer_upd_def xs arr_get_def arr_set_def new_tbs_def Let_def split: if_splits)
  show ?thesis by (rule that [OF xs r])
qed

lemma new_layers_spec:
  assumes "fold_result (new_layer E e amc sinrs tid) [0..<n] (a, p, si) = Inr (a', p', si')" and "amc_array a amc = Some xs"
  shows "n \<le> length xs
    \<and> (\<exists>xs'. amc_array a' amc = Some xs' \<and> length xs' = length xs
         \<and> (\<forall>l. xs' ! l = (if l < n then new_amc (new_tbs si l) (xs ! l) else xs ! l)))
    \<and> bitsPerPRBLayer si' = bitsPerPRBLayer si \<and> allocatedPRBCount si' = allocatedPRBCount si"
  using assms
proof (induction n arbitrary: a' p' si')
  case (Suc n)
  obtain a1 p1 si1 where f: "fold_result (new_layer E e amc sinrs tid) [0..<n] (a, p, si) = Inr (a1, p1, si1)"
      "new_layer E e amc sinrs tid n (a1, p1, si1) = Inr (a', p', si')"
    using Suc.prems(1) by (auto simp: fold_result_append elim!: rbind_InrE)
  note ih = Suc.IH [OF f(1) Suc.prems(2)]
  have tbs: "new_tbs si1 n = new_tbs si n" using ih by (simp add: new_tbs_def)
  show ?case using ih by (rule_tac new_layer_spec [OF f(2)]) (auto simp: tbs nth_list_update less_Suc_eq)
qed simp

text \<open>
  C29. The pointer to its AMC data a process keeps is the same for all processes of a carrier and
  direction: when a new block has been set up in the meantime, the size of a retransmission is
  computed with the code block size of that block, not with its own.
\<close>

theorem harq_retx_uses_latest_blocks:
  assumes "StoreAMCInfo E e amc layers sinrs tid (a, q, si) = Inr (a', q', si')" and "NDI q" and "amc_array a amc = Some xs"
    and "hp_amcInfo p = Some amc" and "CalculatePendingData a' p = Inr p'" and "l < unat (layerCount p)" and "l < unat layers"
  shows "PendingSize (hp_transmissionBuffer p' ! l)
    = pending_size (CBS' (new_amc (new_tbs si l) (xs ! l))) (used_groups (hp_transmissionBuffer p ! l))"
proof -
  have "fold_result (new_layer E e amc sinrs tid) [0..<unat layers]
      (a, q\<lparr>hp_amcInfo := Some amc, layerCount := layers\<rparr>, si) = Inr (a', q', si')"
    using assms(1-3) by (auto simp: StoreAMCInfo_def)
  note n = new_layers_spec [OF this assms(3)]
  then have "amc_read a' (hp_amcInfo p) l = Inr (new_amc (new_tbs si l) (xs ! l))"
    using assms(4,7) by (auto simp: amc_read_def)
  then show ?thesis using CalculatePendingData_nth [OF assms(5,6)] pending_layer_spec by fastforce
qed

lemma harq_retx_uses_latest_blocks_witness:
  "\<exists>a' q' si' p'. StoreAMCInfo (ex_mac_env 0) (ex_entity HARQ_PROCESS_ZERO) (AmcDL 0) 1 [10] 1
       (ex_ue HARQ_PROCESS_ZERO, HARQ_PROCESS_ZERO\<lparr>NDI := True\<rparr>, ex_ue_info) = Inr (a', q', si')
     \<and> CalculatePendingData a' (ex_process [PacketStatus_Error] 0) = Inr p'
     \<and> PendingSize (hp_transmissionBuffer p' ! 0)
         = pending_size (CBS' (new_amc (new_tbs ex_ue_info 0) ex_amc)) [ex_cbg [PacketStatus_Error]]"
proof -
  let ?p = "ex_process [PacketStatus_Error] 0"
  obtain a' q' si' where r: "StoreAMCInfo (ex_mac_env 0) (ex_entity HARQ_PROCESS_ZERO) (AmcDL 0) 1 [10] 1
      (ex_ue HARQ_PROCESS_ZERO, HARQ_PROCESS_ZERO\<lparr>NDI := True\<rparr>, ex_ue_info) = Inr (a', q', si')"
    by (simp add: StoreAMCInfo_def new_layer_def amc_array_def ex_mac_defs ex_ue_info_def arr_get_def arr_set_def buffer_upd_def
        MAX_LAYER_COUNT_def Let_def)
  have am: "amc_array (ex_ue HARQ_PROCESS_ZERO) (AmcDL 0) = Some [ex_amc]" by (simp add: amc_array_def ex_ue_def)
  have n: "fold_result (new_layer (ex_mac_env 0) (ex_entity HARQ_PROCESS_ZERO) (AmcDL 0) [10] 1) [0..<1]
      (ex_ue HARQ_PROCESS_ZERO, HARQ_PROCESS_ZERO\<lparr>NDI := True, hp_amcInfo := Some (AmcDL 0), layerCount := 1\<rparr>, ex_ue_info)
      = Inr (a', q', si')"
    using r am by (simp add: StoreAMCInfo_def)
  note ns = new_layers_spec [OF n am]
  have "\<exists>x. amc_read a' (Some (AmcDL 0)) 0 = Inr x" using ns by (auto simp: amc_read_def arr_get_def)
  then obtain p' where p': "CalculatePendingData a' ?p = Inr p'"
    by (auto simp: CalculatePendingData_def pending_layer_def first_error_def ex_mac_defs Let_def)
  have "PendingSize (hp_transmissionBuffer p' ! 0)
      = pending_size (CBS' (new_amc (new_tbs ex_ue_info 0) ([ex_amc] ! 0))) (used_groups (hp_transmissionBuffer ?p ! 0))"
    by (rule harq_retx_uses_latest_blocks [OF r _ am _ p']) (simp_all add: ex_process_def)
  then show ?thesis using r p' by (auto simp: ex_process_def used_groups_def)
qed

text \<open>
  A layer without bits per resource block, which a layer out of range has, makes the set-up of a
  retransmission divide by zero, even when its own blocks have all arrived.
\<close>

theorem harq_silent_layer_faults:
  assumes "packetBuffer p \<noteq> []" and "transmissionNumber p + 1 < limit"
    and "l < unat (layerCount p)" and "hb_bitsPerPRB (hp_transmissionBuffer p ! l) = 0"
  shows "\<exists>f. set_ndi a limit p io = Inl f"
proof (cases "set_ndi a limit p io")
  case (Inr r)
  have "\<not> limit \<le> transmissionNumber p + 1" using assms(2) by simp
  then obtain p' where "CalculatePendingData a (p\<lparr>transmissionNumber := transmissionNumber p + 1, NDI := False\<rparr>) = Inr p'"
    using Inr assms(1) by (auto simp: set_ndi_def Let_def elim!: rbind_InrE)
  then show ?thesis
    using CalculatePendingData_nth [of a "p\<lparr>transmissionNumber := transmissionNumber p + 1, NDI := False\<rparr>" p' l]
      assms(3,4) pending_layer_spec by fastforce
qed simp

lemma harq_silent_layer_faults_witness:
  "\<exists>f. set_ndi (ex_ue HARQ_PROCESS_ZERO) 3
     ((ex_process [PacketStatus_Error] 0)\<lparr>hp_transmissionBuffer := [HARQ_BUFFER_ZERO]\<rparr>) ex_mac_io = Inl f"
  by (rule harq_silent_layer_faults [where l = 0]) (simp_all add: ex_process_def HARQ_PROCESS_ZERO_def HARQ_BUFFER_ZERO_def)

end
