(* ===== verification/MAC_HARQ_Inv.thy ===== *)
theory MAC_HARQ_Inv
  imports MAC_HARQ_Props
begin

text \<open>
  The invariant of the HARQ data of a UE, which all operations of a slot keep; when they cannot fault;
  the turns of the processes; and the bounds of the outer loop link adaptation.
\<close>

declare of_nat_unat [simp del]

section \<open>Well-formed HARQ data\<close>

definition wf_group :: "LTENR_CBG \<Rightarrow> bool" where
  "wf_group g \<longleftrightarrow> (CBCount g \<noteq> 0 \<longrightarrow> (\<exists>ss. CBErrorStatus g = Some ss \<and> length ss = unat (CBCount g) \<and> binary ss))"

definition wf_buffer :: "LTENR_HARQ_BUFFER \<Rightarrow> bool" where
  "wf_buffer b \<longleftrightarrow> length (CBGList b) = MAX_CBGCOUNT_PER_TB \<and> unat (CBGCount b) \<le> MAX_CBGCOUNT_PER_TB
     \<and> (\<forall>g \<in> set (used_groups b). wf_group g)"

text \<open>\<open>n amc\<close> is the number of layers the array a pointer refers to has, if there is one.\<close>

definition wf_process :: "(amc_ptr \<Rightarrow> nat option) \<Rightarrow> LTENR_HARQ_PROCESS \<Rightarrow> bool" where
  "wf_process n p \<longleftrightarrow> length (hp_transmissionBuffer p) = MAX_LAYER_COUNT \<and> unat (layerCount p) \<le> MAX_LAYER_COUNT
     \<and> (\<forall>b \<in> set (hp_transmissionBuffer p). wf_buffer b)
     \<and> (layerCount p \<noteq> 0 \<longrightarrow> (\<exists>amc m. hp_amcInfo p = Some amc \<and> n amc = Some m \<and> unat (layerCount p) \<le> m))"

definition wf_entity :: "(amc_ptr \<Rightarrow> nat option) \<Rightarrow> LTENR_HARQ_ENTITY \<Rightarrow> bool" where
  "wf_entity n e \<longleftrightarrow> length (harqProcess e) = MAX_HARQ_PROCESS
     \<and> 0 < maxProcessCount e \<and> unat (maxProcessCount e) \<le> MAX_HARQ_PROCESS
     \<and> unat (maxCBGPerTB e) \<le> MAX_CBGCOUNT_PER_TB \<and> currentProcessId e \<le> maxProcessCount e
     \<and> (\<forall>p \<in> set (harqProcess e). wf_process n p)"

definition amc_len :: "MAC_ASSOCIATEDUEPHYINFO \<Rightarrow> amc_ptr \<Rightarrow> nat option" where
  "amc_len a p = map_option length (amc_array a p)"

definition wf_olla :: "OLLACONTAINER option \<Rightarrow> bool" where
  "wf_olla c \<longleftrightarrow> (case c of None \<Rightarrow> True | Some c \<Rightarrow>
     length (uplinkHandler c) = MAX_CA_COUNT \<and> length (downlinkHandler c) = MAX_CA_COUNT
     \<and> (\<forall>hs \<in> set (uplinkHandler c) \<union> set (downlinkHandler c). length hs = MAX_LAYER_COUNT))"

text \<open>The HARQ data of a UE; those of an associated UE exist.\<close>

definition wf_assoc :: "MAC_ASSOCIATEDUEPHYINFO \<Rightarrow> bool" where
  "wf_assoc a \<longleftrightarrow> (ma_isAssociated a \<longrightarrow> ma_harq a \<noteq> None) \<and> wf_olla (ma_OLLAContainer a)
     \<and> (\<forall>h. ma_harq a = Some h \<longrightarrow> length (uplinkHARQEntity h) = MAX_CA_COUNT \<and> length (downlinkHARQEntity h) = MAX_CA_COUNT
          \<and> (\<forall>e \<in> set (uplinkHARQEntity h) \<union> set (downlinkHARQEntity h). wf_entity (amc_len a) e))"

lemma wf_assoc_entity:
  assumes "wf_assoc a" and "harq_entity ul ca a = Inr e"
  shows "wf_entity (amc_len a) e"
  using assms by (cases ul) (auto simp: wf_assoc_def harq_entity_def elim!: rbind_InrE)

lemma wf_assoc_put:
  assumes "wf_assoc a" and "wf_entity (amc_len a) e"
  shows "wf_assoc (put_entity ul ca e a)"
proof -
  have "amc_len (put_entity ul ca e a) = amc_len a"
    by (simp add: fun_eq_iff amc_len_def amc_array_def put_entity_def split: amc_ptr.splits)
  moreover have "wf_entity (amc_len a) x" if "x \<in> set (es[ca := e])" "\<forall>x \<in> set es. wf_entity (amc_len a) x" for x es
    using that assms(2) set_update_subset_insert [of es ca e] by auto
  ultimately show ?thesis using assms(1)
    by (cases ul; cases "ma_harq a") (auto simp: wf_assoc_def put_entity_def)
qed

lemma wf_entity_process:
  "wf_entity n e \<Longrightarrow> current_process e = Inr p \<Longrightarrow> wf_process n p"
  by (auto simp: wf_entity_def current_process_def)

lemma wf_entity_put: "wf_entity n e \<Longrightarrow> wf_process n p \<Longrightarrow> wf_entity n (put_process e p)"
  using set_update_subset_insert [of "harqProcess e" "current_index e" p] by (auto simp: wf_entity_def put_process_def)

lemma current_index_bound:
  assumes "wf_entity n e" and "0 < currentProcessId e"
  shows "current_index e < MAX_HARQ_PROCESS"
proof -
  have "unat (currentProcessId e - 1) = unat (currentProcessId e) - 1"
    using assms(2) by (intro unat_minus_one) auto
  moreover have "0 < unat (currentProcessId e)" using assms(2) by (simp add: word_less_nat_alt)
  ultimately show ?thesis using assms(1) by (auto simp: wf_entity_def current_index_def word_le_nat_alt)
qed

section \<open>The operations keep it\<close>

lemma on_first_pres:
  assumes "on_first n f xs s = Inr (ys, t)" and "\<forall>x \<in> set xs. P x"
    and "\<And>x s y s'. P x \<Longrightarrow> f x s = Inr (y, s') \<Longrightarrow> P y"
  shows "\<forall>y \<in> set ys. P y"
  by (rule conjunct2 [OF on_first_inv [OF assms(1), of "\<lambda>s. True" P]]) (use assms(2,3) in auto)

lemma binary_process_wf:
  assumes "wf_process n p"
  shows "binary_process p"
proof -
  have "binary (block_statuses g)" if "wf_group g" for g
    using that by (cases "CBCount g = 0") (auto simp: wf_group_def block_statuses_def binary_def split: option.splits)
  moreover have "\<forall>b \<in> set (used_layers p). wf_buffer b"
    using assms by (auto simp: wf_process_def used_layers_def dest: in_set_takeD)
  ultimately show ?thesis by (auto simp: binary_process_def wf_buffer_def)
qed

lemma wf_process_zero: "wf_buffer (b\<lparr>hb_bitsPerPRB := 0, bler := 0, CBGCount := 0, hb_isErrored := PacketStatus_NoError,
     isNonEmpty := False, PendingSize := 0, sinr := 0, Totalsize := 0, CBGList := map (\<lambda>c. CBG_ZERO) (CBGList b)\<rparr>)"
  if "wf_buffer b"
  using that by (auto simp: wf_buffer_def used_groups_def)

lemma ResetCBG_wf:
  assumes "ResetCBG p = Inr p'" and "wf_process n p"
  shows "wf_process n p'"
proof -
  obtain bs u where bs: "on_first (unat (layerCount p)) (\<lambda>b u. Inr (b\<lparr>hb_bitsPerPRB := 0, bler := 0, CBGCount := 0,
        hb_isErrored := PacketStatus_NoError, isNonEmpty := False, PendingSize := 0, sinr := 0, Totalsize := 0,
        CBGList := map (\<lambda>c. CBG_ZERO) (CBGList b)\<rparr>, u)) (hp_transmissionBuffer p) () = Inr (bs, u)"
      "p' = p\<lparr>hp_transmissionBuffer := bs, NDI := True, PRBReqdForRetx := 0, transmissionNumber := 0\<rparr>"
    using assms(1) by (auto simp: ResetCBG_def elim!: rbind_InrE)
  have "\<forall>b \<in> set bs. wf_buffer b"
    by (rule on_first_pres [OF bs(1)]) (use assms(2) wf_process_zero in \<open>auto simp: wf_process_def\<close>)
  then show ?thesis using assms(2) on_first_length [OF bs(1)] by (simp add: bs(2) wf_process_def)
qed

lemma CalculatePendingData_wf:
  assumes "CalculatePendingData a p = Inr p'" and "wf_process n p"
  shows "wf_process n p'"
proof -
  obtain bs s where bs: "on_first (unat (layerCount p)) (pending_layer a (hp_amcInfo p))
      (hp_transmissionBuffer p) (0, 0) = Inr (bs, s)" and p': "p' = p\<lparr>hp_transmissionBuffer := bs, PRBReqdForRetx := snd s\<rparr>"
    using assms(1) by (auto simp: CalculatePendingData_def elim!: rbind_InrE)
  have "wf_buffer b'" if "wf_buffer b" "pending_layer a (hp_amcInfo p) b s = Inr (b', s')" for b s b' s'
    using that by (auto simp: pending_layer_def Let_def wf_buffer_def used_groups_def split: if_splits elim!: rbind_InrE)
  then have "\<forall>b \<in> set bs. wf_buffer b"
    by (rule on_first_pres [OF bs, rotated]) (use assms(2) in \<open>auto simp: wf_process_def\<close>)
  then show ?thesis using assms(2) on_first_length [OF bs] by (simp add: p' wf_process_def)
qed

lemma set_ndi_wf:
  assumes "set_ndi a limit p io = Inr (p', io')" and "wf_process n p"
  shows "wf_process n p'"
proof -
  have view: "wf_process n (q\<lparr>NDI := x, transmissionNumber := y\<rparr>) = wf_process n q" 
    "wf_process n (q\<lparr>transmissionNumber := y\<rparr>) = wf_process n q"
    "wf_process n (q\<lparr>NDI := x\<rparr>) = wf_process n q" "wf_process n (q\<lparr>packetBuffer := z\<rparr>) = wf_process n q" for q x y z
    by (simp_all add: wf_process_def)
  show ?thesis using assms
    by (auto simp: set_ndi_def Let_def EmptyProcess_def EmptyPacketBuffer_def view split: if_splits elim!: rbind_InrE
        dest!: ResetCBG_wf [where n = n] CalculatePendingData_wf [where n = n])
qed

lemma decide_cbg_wf:
  assumes "decide_cbg E b first g k = Inr (g', k')" and "wf_group g"
  shows "wf_group g'"
proof (cases "CBCount g = 0")
  case False
  obtain ss where ss: "CBErrorStatus g = Some ss" "length ss = unat (CBCount g)" "binary ss"
    using assms(2) False by (auto simp: wf_group_def)
  obtain ss' where d: "decide_cbs E b first ss k = (ss', k')"
      "g' = g\<lparr>CBErrorStatus := Some ss', cbg_isErrored := first_error ss'\<rparr>"
    using assms(1) False ss by (auto simp: decide_cbg_def Let_def split: prod.splits)
  show ?thesis using decide_cbs_spec [OF d(1) ss(3)] ss(2) by (simp add: d(2) wf_group_def)
qed (use assms in \<open>auto simp: decide_cbg_def wf_group_def\<close>)

lemma decide_layer_wf:
  assumes "decide_layer E first b k = Inr (b', k')" and "wf_buffer b"
  shows "wf_buffer b'"
proof -
  let ?n = "unat (CBGCount b)"
  obtain cs where cs: "on_first ?n (decide_cbg E (bler b) first) (CBGList b) k = Inr (cs, k')"
      "b' = b\<lparr>CBGList := cs, hb_isErrored := cbgs_error (take ?n cs)\<rparr>"
    using assms(1) by (auto simp: decide_layer_def elim!: rbind_InrE)
  have "list_all2 (\<lambda>g g'. wf_group g') (take ?n (CBGList b)) (take ?n cs)"
    by (rule on_first_all2 [OF cs(1), of wf_group])
       (use assms(2) decide_cbg_wf in \<open>auto simp: wf_buffer_def used_groups_def\<close>)
  then have "\<forall>g \<in> set (take ?n cs). wf_group g" using list_all2_ex2 by fast
  then show ?thesis using assms(2) on_first_length [OF cs(1)] by (simp add: cs(2) wf_buffer_def used_groups_def)
qed

lemma DecideCBGError_wf:
  assumes "DecideCBGError E p io = Inr (p', io')" and "wf_process n p"
  shows "wf_process n p'"
proof -
  obtain bs k where bs: "on_first (unat (layerCount p)) (decide_layer E (transmissionNumber p = 0))
      (hp_transmissionBuffer p) (io_rand io) = Inr (bs, k)" "p' = p\<lparr>hp_transmissionBuffer := bs\<rparr>"
    using assms(1) by (auto simp: DecideCBGError_def elim!: rbind_InrE)
  have "\<forall>b \<in> set bs. wf_buffer b"
    by (rule on_first_pres [OF bs(1)]) (use assms(2) decide_layer_wf in \<open>auto simp: wf_process_def\<close>)
  then show ?thesis using assms(2) on_first_length [OF bs(1)] by (simp add: bs(2) wf_process_def)
qed

lemma balanced_groups_wf: "balanced_groups n gs \<Longrightarrow> g \<in> set gs \<Longrightarrow> wf_group g"
  by (auto simp: balanced_groups_def wf_group_def binary_def)

lemma alloc_layer_wf:
  assumes "alloc_layer a amc maxCBG b i = Inr (b', i')" and "wf_buffer b"
  shows "wf_buffer b'"
  using assms
  by (elim alloc_layer_spec) (auto simp: wf_buffer_def used_groups_def intro: balanced_groups_wf)

lemma AllocateCBG_wf:
  assumes "AllocateCBG a maxCBG p = Inr p'" and "wf_process n p"
  shows "wf_process n p'"
proof (cases "NDI p")
  case True
  then obtain bs i where bs: "on_first (unat (layerCount p)) (alloc_layer a (hp_amcInfo p) maxCBG)
      (hp_transmissionBuffer p) 0 = Inr (bs, i)" "p' = p\<lparr>hp_transmissionBuffer := bs\<rparr>"
    using assms(1) by (auto simp: AllocateCBG_def elim!: rbind_InrE)
  have "\<forall>b \<in> set bs. wf_buffer b"
    by (rule on_first_pres [OF bs(1)]) (use assms(2) alloc_layer_wf in \<open>auto simp: wf_process_def\<close>)
  then show ?thesis using assms(2) on_first_length [OF bs(1)] by (simp add: bs(2) wf_process_def)
qed (use assms in \<open>auto simp: AllocateCBG_def\<close>)

text \<open>Changing the SINR and the error rate of a layer.\<close>

lemma wf_process_buffer:
  assumes "wf_process n p" and "i < length (hp_transmissionBuffer p)"
  shows "wf_process n (p\<lparr>hp_transmissionBuffer := (hp_transmissionBuffer p)
     [i := (hp_transmissionBuffer p ! i)\<lparr>hb_bitsPerPRB := m, sinr := r, bler := b\<rparr>]\<rparr>)"
proof -
  have "wf_buffer ((hp_transmissionBuffer p ! i)\<lparr>hb_bitsPerPRB := m, sinr := r, bler := b\<rparr>)"
    using assms by (auto simp: wf_process_def wf_buffer_def used_groups_def)
  then show ?thesis using assms(1) set_update_subset_insert [of "hp_transmissionBuffer p" i]
    by (auto simp: wf_process_def)
qed

lemma combine_layer_wf:
  assumes "combine_layer E e a amc sinrs tid i p = Inr p'" and "wf_process n p"
  shows "wf_process n p'"
proof -
  obtain r b where "i < length (hp_transmissionBuffer p)"
      "p' = p\<lparr>hp_transmissionBuffer := (hp_transmissionBuffer p)[i := (hp_transmissionBuffer p ! i)\<lparr>sinr := r, bler := b\<rparr>]\<rparr>"
    using assms(1) by (auto simp: combine_layer_def buffer_upd_def Let_def split: if_splits elim!: rbind_InrE)
  then show ?thesis
    using wf_process_buffer [OF assms(2), where i = i and m = "hb_bitsPerPRB (hp_transmissionBuffer p ! i)" and r = r and b = b] by simp
qed

lemma amc_len_set [simp]:
  "amc_array a amc = Some xs \<Longrightarrow> length ys = length xs \<Longrightarrow> amc_len (amc_array_set a amc ys) = amc_len a"
  by (auto simp: fun_eq_iff amc_len_def)

lemma new_layer_wf:
  assumes "new_layer E e amc sinrs tid i (a, p, si) = Inr (a', p', si')" and "wf_process n p"
  shows "wf_process n p' \<and> amc_len a' = amc_len a"
  using new_layer_spec [OF assms(1)] wf_process_buffer [OF assms(2)] by (metis amc_len_set length_list_update)

lemma new_layers_wf:
  assumes "fold_result (new_layer E e amc sinrs tid) ls (a, p, si) = Inr (a', p', si')" and "wf_process n p"
  shows "wf_process n p' \<and> amc_len a' = amc_len a"
  using assms
proof (induction ls arbitrary: a p si)
  case (Cons l ls)
  obtain a1 p1 si1 where "new_layer E e amc sinrs tid l (a, p, si) = Inr (a1, p1, si1)"
      "fold_result (new_layer E e amc sinrs tid) ls (a1, p1, si1) = Inr (a', p', si')"
    using Cons.prems(1) by (auto elim!: rbind_InrE)
  then show ?case using Cons.IH new_layer_wf Cons.prems(2) by metis
qed simp

lemma StoreAMCInfo_wf:
  assumes "StoreAMCInfo E e amc layers sinrs tid (a, p, si) = Inr (a', p', si')" and "wf_process (amc_len a) p"
    and "unat layers \<le> MAX_LAYER_COUNT"
  shows "wf_process (amc_len a) p' \<and> amc_len a' = amc_len a"
proof -
  have c: "wf_process (amc_len a) q'" if "fold_result (combine_layer E e a amc sinrs tid) ls q = Inr q'" "wf_process (amc_len a) q" for ls q q'
    using that by (induction ls arbitrary: q) (auto elim!: rbind_InrE dest: combine_layer_wf)
  show ?thesis
  proof (cases "NDI p \<and> amc_array a amc \<noteq> None")
    case True
    then obtain xs where xs: "amc_array a amc = Some xs" by auto
    have f: "fold_result (new_layer E e amc sinrs tid) [0..<unat layers]
        (a, p\<lparr>hp_amcInfo := Some amc, layerCount := layers\<rparr>, si) = Inr (a', p', si')"
      using assms(1) True by (auto simp: StoreAMCInfo_def)
    have "unat layers \<le> length xs" using new_layers_spec [OF f xs] by simp
    then have "wf_process (amc_len a) (p\<lparr>hp_amcInfo := Some amc, layerCount := layers\<rparr>)"
      using assms(2,3) xs by (auto simp: wf_process_def amc_len_def)
    then show ?thesis using new_layers_wf [OF f] by simp
  next
    case False
    then show ?thesis using assms c by (auto simp: StoreAMCInfo_def split: if_splits elim!: rbind_InrE)
  qed
qed

section \<open>When they fault\<close>

lemma pending_faults:
  assumes "on_first n (pending_layer a (Some amc)) bs (k, r) = Inl f" and "\<forall>b \<in> set bs. wf_buffer b"
    and "n \<le> length bs" and "amc_array a amc = Some xs" and "k + n \<le> length xs"
  shows "f = DivByZero"
  using assms
proof (induction n arbitrary: bs k r)
  case (Suc n)
  obtain b bs' where bs: "bs = b # bs'" using Suc.prems(3) by (cases bs) auto
  have b: "unat (CBGCount b) \<le> length (CBGList b)" using Suc.prems(2) by (simp add: bs wf_buffer_def)
  have read: "amc_read a (Some amc) k = Inr (xs ! k)" using Suc.prems(4,5) by (simp add: amc_read_def)
  consider (f) "pending_layer a (Some amc) b (k, r) = Inl f"
    | (s) b' s' where "pending_layer a (Some amc) b (k, r) = Inr (b', s')" "on_first n (pending_layer a (Some amc)) bs' s' = Inl f"
    using Suc.prems(1) by (auto simp: bs rbind_Inl_iff)
  then show ?case
  proof cases
    case f
    then show ?thesis using b read by (auto simp: pending_layer_def Let_def rbind_Inl_iff split: if_splits)
  next
    case s
    have "s' = (Suc k, snd s')" using pending_layer_spec [OF s(1)] by simp
    with s(2) have "on_first n (pending_layer a (Some amc)) bs' (Suc k, snd s') = Inl f" by simp
    then show ?thesis using Suc.IH [of bs' "Suc k" "snd s'"] Suc.prems by (simp add: bs)
  qed
qed simp

lemma CalculatePendingData_faults:
  assumes "CalculatePendingData a p = Inl f" and "wf_process (amc_len a) p"
  shows "f = DivByZero"
proof (cases "layerCount p = 0")
  case False
  then obtain amc xs where amc: "hp_amcInfo p = Some amc" "amc_array a amc = Some xs" "unat (layerCount p) \<le> length xs"
    using assms(2) by (auto simp: wf_process_def amc_len_def)
  have "on_first (unat (layerCount p)) (pending_layer a (Some amc)) (hp_transmissionBuffer p) (0, 0) = Inl f"
    using assms(1) by (auto simp: CalculatePendingData_def amc rbind_Inl_iff)
  then show ?thesis by (rule pending_faults) (use assms(2) amc in \<open>auto simp: wf_process_def\<close>)
qed (use assms(1) in \<open>simp add: CalculatePendingData_def\<close>)

lemma ResetCBG_total:
  assumes "wf_process n p"
  shows "\<exists>p'. ResetCBG p = Inr p'"
proof -
  let ?f = "\<lambda>b u. Inr (b\<lparr>hb_bitsPerPRB := 0, bler := 0, CBGCount := 0, hb_isErrored := PacketStatus_NoError,
      isNonEmpty := False, PendingSize := 0, sinr := 0, Totalsize := 0, CBGList := map (\<lambda>c. CBG_ZERO) (CBGList b)\<rparr>, u)"
  obtain bs u where "on_first (unat (layerCount p)) ?f (hp_transmissionBuffer p) () = Inr (bs, u)"
    using on_first_total [of "unat (layerCount p)" "hp_transmissionBuffer p" "\<lambda>u. True" "()" "\<lambda>b. True" ?f] assms
    by (auto simp: wf_process_def)
  then show ?thesis by (simp add: ResetCBG_def)
qed

lemma set_ndi_faults:
  assumes "set_ndi a limit p io = Inl f" and "wf_process (amc_len a) p"
  shows "f = DivByZero"
proof -
  have view: "wf_process n (q\<lparr>transmissionNumber := y, NDI := x\<rparr>) = wf_process n q"
    "wf_process n (q\<lparr>transmissionNumber := y, packetBuffer := z\<rparr>) = wf_process n q" for n q x y z
    by (simp_all add: wf_process_def)
  let ?q = "p\<lparr>transmissionNumber := transmissionNumber p + 1\<rparr>"
  obtain q where "ResetCBG (?q\<lparr>packetBuffer := []\<rparr>) = Inr q"
    using ResetCBG_total [of "amc_len a" "?q\<lparr>packetBuffer := []\<rparr>"] assms(2) by (auto simp: view)
  then show ?thesis using assms CalculatePendingData_faults [of a "?q\<lparr>NDI := False\<rparr>" f]
    by (auto simp: set_ndi_def Let_def EmptyProcess_def EmptyPacketBuffer_def rbind_Inl_iff view split: if_splits)
qed

lemma decide_cbg_total: "wf_group g \<Longrightarrow> \<exists>g' k'. decide_cbg E b first g k = Inr (g', k')"
  by (cases "CBCount g = 0") (auto simp: wf_group_def decide_cbg_def Let_def split: prod.splits)

lemma on_first_total_take:
  assumes "n \<le> length xs" and "\<forall>x \<in> set (take n xs). P x" and "\<And>x s. P x \<Longrightarrow> \<exists>x' s'. f x s = Inr (x', s')"
  shows "\<exists>ys t. on_first n f xs s = Inr (ys, t)"
  using assms(1,2)
proof (induction n arbitrary: xs s)
  case (Suc n)
  then obtain x xs' where xs: "xs = x # xs'" by (cases xs) auto
  obtain x' s' where f: "f x s = Inr (x', s')" using assms(3) Suc.prems xs by fastforce
  obtain ys t where "on_first n f xs' s' = Inr (ys, t)" using Suc.IH [of xs' s'] Suc.prems xs by auto
  then show ?case by (simp add: xs f)
qed simp

lemma decide_layer_total: "wf_buffer b \<Longrightarrow> \<exists>b' k'. decide_layer E first b k = Inr (b', k')"
proof -
  assume b: "wf_buffer b"
  have "\<exists>cs k'. on_first (unat (CBGCount b)) (decide_cbg E (bler b) first) (CBGList b) k = Inr (cs, k')"
    by (rule on_first_total_take [of _ _ wf_group])
       (use b decide_cbg_total in \<open>simp_all add: wf_buffer_def used_groups_def\<close>)
  then show ?thesis by (auto simp: decide_layer_def)
qed

lemma DecideCBGError_total:
  assumes "wf_process n p"
  shows "\<exists>p' io'. DecideCBGError E p io = Inr (p', io')"
proof -
  have "\<exists>bs k. on_first (unat (layerCount p)) (decide_layer E (transmissionNumber p = 0))
      (hp_transmissionBuffer p) (io_rand io) = Inr (bs, k)"
    by (rule on_first_total_take [of _ _ wf_buffer])
       (use assms decide_layer_total in \<open>auto simp: wf_process_def dest: in_set_takeD\<close>)
  then show ?thesis by (auto simp: DecideCBGError_def)
qed

lemma olla_init_wf: "wf_olla (Some (olla_container pd a))" if "wf_olla (ma_OLLAContainer a)"
  using that by (auto simp: olla_container_def wf_olla_def olla_handler_init_def split: option.splits)

lemma olla_mark_total:
  assumes "wf_olla (ma_OLLAContainer a)" and "ca < MAX_CA_COUNT" and "l < MAX_LAYER_COUNT"
  shows "\<exists>a'. olla_mark f pd ul ca l a = Inr a' \<and> wf_olla (ma_OLLAContainer a')"
proof -
  define c where "c = olla_container pd a"
  have c: "wf_olla (Some c)" using olla_init_wf [OF assms(1)] by (simp add: c_def)
  have upd: "length hs = MAX_LAYER_COUNT"
    if "hs \<in> set (hss[ca := (hss ! ca)[l := h]])" "\<forall>hs \<in> set hss. length hs = MAX_LAYER_COUNT" "ca < length hss" for hs hss h
    using that set_update_subset_insert [of hss ca "(hss ! ca)[l := h]"] by auto
  show ?thesis using c assms(2,3)
    by (cases ul) (auto simp: olla_mark_def olla_handler_find_def olla_write_def Let_def c_def [symmetric] wf_olla_def
        arr_get_def ball_Un dest: upd)
qed

lemma ReportToOLLA_total:
  assumes "wf_olla (ma_OLLAContainer a)" and "ca < MAX_CA_COUNT" and "wf_process n p"
  shows "\<exists>a'. ReportToOLLA pd ca p a = Inr a' \<and> wf_olla (ma_OLLAContainer a')"
proof -
  let ?f = "\<lambda>l a. rbind (arr_get (hp_transmissionBuffer p) l) (\<lambda>b. if hb_isErrored b \<noteq> PacketStatus_NoError
      then LTENR_OLLA_MarkTBSError pd (isUPLinkProcess p) ca l a else LTENR_OLLA_MarkTBSSuccess pd (isUPLinkProcess p) ca l a)"
  have "\<exists>a'. fold_result ?f ls a = Inr a' \<and> wf_olla (ma_OLLAContainer a')"
    if "\<forall>l \<in> set ls. l < MAX_LAYER_COUNT" "wf_olla (ma_OLLAContainer a)" for ls a
    using that
  proof (induction ls arbitrary: a)
    case (Cons l ls)
    have l: "l < length (hp_transmissionBuffer p)" using assms(3) Cons.prems(1) by (simp add: wf_process_def)
    have "\<exists>a1. olla_mark f pd (isUPLinkProcess p) ca l a = Inr a1 \<and> wf_olla (ma_OLLAContainer a1)" for f
      by (rule olla_mark_total [OF Cons.prems(2) assms(2)]) (use Cons.prems(1) in simp)
    then obtain a1 where "?f l a = Inr a1" "wf_olla (ma_OLLAContainer a1)"
      using l unfolding LTENR_OLLA_MarkTBSError_def LTENR_OLLA_MarkTBSSuccess_def arr_get_def
      by (cases "hb_isErrored (hp_transmissionBuffer p ! l) = PacketStatus_NoError") auto
    then show ?case using Cons.IH Cons.prems(1) by auto
  qed simp
  then show ?thesis using assms by (auto simp: ReportToOLLA_def wf_process_def)
qed

section \<open>A slot\<close>

text \<open>The entity of an associated UE has had its first turn.\<close>

definition harq_ready :: "bool \<Rightarrow> nat \<Rightarrow> MAC_ASSOCIATEDUEPHYINFO \<Rightarrow> bool" where
  "harq_ready ul ca a \<longleftrightarrow> (ma_isAssociated a \<longrightarrow> (\<exists>e. harq_entity ul ca a = Inr e \<and> 0 < currentProcessId e))"

lemma wf_assoc_has_entity:
  assumes "wf_assoc a" and "ma_isAssociated a" and "ca < MAX_CA_COUNT"
  shows "\<exists>e. harq_entity ul ca a = Inr e"
  using assms by (auto simp: wf_assoc_def harq_entity_def arr_get_def)

lemma ready_process:
  assumes "wf_entity n e" and "0 < currentProcessId e"
  shows "\<exists>p. current_process e = Inr p"
  using current_index_bound [OF assms] assms(1) by (simp add: current_process_def wf_entity_def)

lemma IncreaseProcessNumber_wf:
  assumes "wf_entity n e"
  shows "wf_entity n (IncreaseProcessNumber e) \<and> 0 < currentProcessId (IncreaseProcessNumber e)"
proof -
  let ?c = "currentProcessId e" and ?m = "maxProcessCount e"
  have m: "0 < ?m" "?c \<le> ?m" "unat ?m \<le> 16" using assms by (simp_all add: wf_entity_def MAX_HARQ_PROCESS_def)
  then have "unat ?c \<le> 16" by (simp add: word_le_nat_alt)
  then have "?c \<noteq> - 1" by (auto simp: unsigned_minus_1_eq_mask mask_eq_exp_minus_1)
  then have "unat (?c + 1) = Suc (unat ?c)" by (rule unat_plus_one)
  then have "0 < ?c + 1" by (simp add: word_less_nat_alt)
  moreover have "1 \<le> ?m" using m(1) by (simp add: word_le_nat_alt word_less_nat_alt)
  ultimately show ?thesis using assms
    by (auto simp: IncreaseProcessNumber_def Let_def wf_entity_def not_less)
qed

lemma put_process_ready [simp]: "currentProcessId (put_process e p) = currentProcessId e"
  by (simp add: put_process_def)

lemma put_entity_associated [simp]: "ma_isAssociated (put_entity ul ca e a) = ma_isAssociated a"
  by (simp add: put_entity_def)

lemma harq_slot_start_wf:
  assumes "wf_assoc a" and "ca < MAX_CA_COUNT"
  shows "case harq_slot_start ul ca a io of Inr (a', io') \<Rightarrow> wf_assoc a' \<and> harq_ready ul ca a' | Inl f \<Rightarrow> f = DivByZero"
proof (cases "ma_isAssociated a")
  case True
  obtain e where e: "harq_entity ul ca a = Inr e" using wf_assoc_has_entity [OF assms(1) True assms(2)] by blast
  let ?e = "IncreaseProcessNumber e"
  have we: "wf_entity (amc_len a) ?e" "0 < currentProcessId ?e"
    using IncreaseProcessNumber_wf wf_assoc_entity [OF assms(1) e] by blast+
  obtain p where p: "current_process ?e = Inr p" using ready_process [OF we] by blast
  have wp: "wf_process (amc_len a) p" using wf_entity_process [OF we(1) p] .
  show ?thesis
  proof (cases "set_ndi a (retryLimit ?e) p io")
    case (Inl f)
    then show ?thesis using set_ndi_faults [OF Inl wp] True e p by (simp add: harq_slot_start_def SetNDI_def)
  next
    case (Inr r)
    obtain p' io' where r: "r = (p', io')" by fastforce
    have "wf_entity (amc_len a) (put_process ?e p')"
      using wf_entity_put [OF we(1)] set_ndi_wf [OF Inr [unfolded r] wp] .
    then show ?thesis using wf_assoc_put [OF assms(1)] we(2) True e p Inr r harq_entity_put [OF e]
      by (simp add: harq_slot_start_def SetNDI_def harq_ready_def)
  qed
qed (use assms(1) in \<open>simp add: harq_slot_start_def harq_ready_def\<close>)

lemma wf_assoc_cong:
  assumes "wf_assoc a" and "ma_harq a' = ma_harq a" and "ma_isAssociated a' = ma_isAssociated a"
    and "amc_len a' = amc_len a" and "wf_olla (ma_OLLAContainer a')"
  shows "wf_assoc a'"
  using assms by (simp add: wf_assoc_def)

lemma new_layers_assoc:
  "fold_result (new_layer E e amc sinrs tid) ls (a, p, si) = Inr (a', p', si')
   \<Longrightarrow> ma_harq a' = ma_harq a \<and> ma_isAssociated a' = ma_isAssociated a \<and> ma_OLLAContainer a' = ma_OLLAContainer a"
proof (induction ls arbitrary: a p si)
  case (Cons l ls)
  obtain a1 p1 si1 where f: "new_layer E e amc sinrs tid l (a, p, si) = Inr (a1, p1, si1)"
      "fold_result (new_layer E e amc sinrs tid) ls (a1, p1, si1) = Inr (a', p', si')"
    using Cons.prems(1) by (auto elim!: rbind_InrE)
  show ?case using Cons.IH [OF f(2)]
    by (rule_tac new_layer_spec [OF f(1)]) (auto simp: amc_array_set_def split: amc_ptr.splits)
qed simp

lemma StoreAMCInfo_assoc:
  "StoreAMCInfo E e amc layers sinrs tid (a, p, si) = Inr (a', p', si')
   \<Longrightarrow> ma_harq a' = ma_harq a \<and> ma_isAssociated a' = ma_isAssociated a \<and> ma_OLLAContainer a' = ma_OLLAContainer a"
  by (auto simp: StoreAMCInfo_def split: if_splits elim!: rbind_InrE dest: new_layers_assoc)

lemma harq_allocate_wf:
  assumes "harq_allocate E fr ca a si = Inr (a', si')" and "wf_assoc a"
    and "\<And>d i u. unat (LTENR_PHY_GET_LAYER_COUNT E d i u) \<le> MAX_LAYER_COUNT"
  shows "wf_assoc a'"
proof (cases "ma_isAssociated a")
  case True
  let ?ul = "sch_slotType si \<noteq> SLOT_DOWNLINK"
  obtain e p0 where e: "harq_entity ?ul ca a = Inr e" and p0: "current_process e = Inr p0"
    using assms(1) True by (auto simp: harq_allocate_def Let_def elim!: rbind_InrE)
  have we: "wf_entity (amc_len a) e" using wf_assoc_entity [OF assms(2) e] .
  have hdr: "wf_process (amc_len a) (p0\<lparr>isUPLinkProcess := u, hp_caId := c, hp_slotId := x, hp_frameId := y, hp_subFrameId := z\<rparr>)"
    for u c x y z using wf_entity_process [OF we p0] by (simp add: wf_process_def)
  consider (reset) p p1 where "wf_process (amc_len a) p" "ResetCBG p = Inr p1" "a' = put_entity ?ul ca (put_process e p1) a"
    | (store) p amc layers sinrs sinfo a1 p1 sinfo1 p2 where "wf_process (amc_len a) p" "unat layers \<le> MAX_LAYER_COUNT"
        "StoreAMCInfo E e amc layers sinrs (BlerTableId e) (a, p, sinfo) = Inr (a1, p1, sinfo1)"
        "AllocateCBG a1 (maxCBGPerTB e) p1 = Inr p2" "a' = put_entity ?ul ca (put_process e p2) a1"
    using assms(1) True e p0 unfolding harq_allocate_def Let_def
    by (auto split: if_splits elim!: rbind_InrE) (use hdr assms(3) in blast)+
  then show ?thesis
  proof cases
    case reset
    then show ?thesis using wf_assoc_put [OF assms(2) wf_entity_put [OF we ResetCBG_wf [OF reset(2,1)]]] reset(3) by simp
  next
    case store
    note w = StoreAMCInfo_wf [OF store(3,1,2)] and k = StoreAMCInfo_assoc [OF store(3)]
    have a1: "wf_assoc a1" by (rule wf_assoc_cong [OF assms(2)]) (use w k assms(2) in \<open>auto simp: wf_assoc_def\<close>)
    show ?thesis
      using wf_assoc_put [OF a1, of "put_process e p2"] wf_entity_put [OF we AllocateCBG_wf [OF store(4)]] w store(5) by simp
  qed
qed (use assms(1,2) in \<open>simp add: harq_allocate_def\<close>)

text \<open>
  What MAC and the propagation model have prepared for an associated UE when its transport block is
  set up: the AMC data and the SINR of every layer of the direction, and its entry in the list of the
  scheduler with room for every layer.
\<close>

definition slot_inputs :: "mac_env \<Rightarrow> nat \<Rightarrow> MAC_ASSOCIATEDUEPHYINFO \<Rightarrow> LTENR_SCHEDULERINFO \<Rightarrow> bool" where
  "slot_inputs E ca a si \<longleftrightarrow> (ma_isAssociated a \<longrightarrow>
     (let dl = (sch_slotType si = SLOT_DOWNLINK); ul = (sch_slotType si = SLOT_UPLINK);
          n = unat (LTENR_PHY_GET_LAYER_COUNT E (ma_ueId a) (ma_ueIf a) (\<not> dl))
      in n \<le> MAX_LAYER_COUNT
         \<and> (\<exists>xs. amc_array a (if dl then AmcDL ca else AmcUL ca) = Some xs \<and> n \<le> length xs)
         \<and> (\<exists>ss. (if dl then ma_downlinkSINR_db a ca else ma_uplinkSINR_db a ca) = Some ss \<and> n \<le> length ss)
         \<and> (\<exists>j. LTENR_MACScheduler_FindInfoForUE si (ma_ueId a) (ma_ueIf a) ul = Some j
               \<and> n \<le> length (bitsPerPRBLayer (ue_infos ul si ! j)) \<and> n \<le> length (TBSLayer (ue_infos ul si ! j)))))"

lemma combine_layers_total:
  assumes "wf_process n p" and "amc_array a amc = Some xs"
    and "\<forall>l \<in> set ls. l < MAX_LAYER_COUNT \<and> l < length xs \<and> l < length ss"
  shows "\<exists>p'. fold_result (combine_layer E e a amc ss tid) ls p = Inr p'"
  using assms(1,3)
proof (induction ls arbitrary: p)
  case (Cons l ls)
  have "l < length (hp_transmissionBuffer p)" using Cons.prems by (simp add: wf_process_def)
  moreover have "amc_read a (Some amc) l = Inr (xs ! l)" using Cons.prems(2) assms(2) by (simp add: amc_read_def)
  ultimately have "\<exists>p1. combine_layer E e a amc ss tid l p = Inr p1"
    using Cons.prems(2) by (simp add: combine_layer_def buffer_upd_def arr_get_def Let_def)
  then obtain p1 where p1: "combine_layer E e a amc ss tid l p = Inr p1" ..
  then show ?case using Cons.IH [OF combine_layer_wf [OF p1 Cons.prems(1)]] Cons.prems(2) by simp
qed simp

lemma new_layers_total:
  assumes "wf_process n p" and "amc_array a amc = Some xs"
    and "\<forall>l \<in> set ls. l < MAX_LAYER_COUNT \<and> l < length xs \<and> l < length ss \<and> l < length (bitsPerPRBLayer si) \<and> l < length (TBSLayer si)"
  shows "\<exists>r. fold_result (new_layer E e amc ss tid) ls (a, p, si) = Inr r"
  using assms
proof (induction ls arbitrary: a p si xs)
  case (Cons l ls)
  have "l < length (hp_transmissionBuffer p)" using Cons.prems by (simp add: wf_process_def)
  then obtain a1 p1 si1 where 1: "new_layer E e amc ss tid l (a, p, si) = Inr (a1, p1, si1)"
    "length (bitsPerPRBLayer si1) = length (bitsPerPRBLayer si)" "length (TBSLayer si1) = length (TBSLayer si)"
    using Cons.prems(2,3) by (auto simp: new_layer_def buffer_upd_def arr_get_def arr_set_def Let_def)
  have w: "wf_process n p1" "amc_len a1 = amc_len a" using new_layer_wf [OF 1(1) Cons.prems(1)] by auto
  have "amc_len a1 amc = Some (length xs)" using w(2) Cons.prems(2) by (simp add: amc_len_def)
  then obtain xs1 where "amc_array a1 amc = Some xs1" "length xs1 = length xs" by (auto simp: amc_len_def)
  then obtain r where "fold_result (new_layer E e amc ss tid) ls (a1, p1, si1) = Inr r"
    using Cons.IH [OF w(1)] Cons.prems(3) 1(2,3) by fastforce
  then have "fold_result (new_layer E e amc ss tid) (l # ls) (a, p, si) = Inr r" by (simp add: 1(1))
  then show ?case by blast
qed simp

lemma StoreAMCInfo_total:
  assumes "wf_process (amc_len a) p" and "amc_array a amc = Some xs" and "unat layers \<le> length xs" and "unat layers \<le> length ss"
    and "unat layers \<le> MAX_LAYER_COUNT" and "unat layers \<le> length (bitsPerPRBLayer si)" and "unat layers \<le> length (TBSLayer si)"
  shows "\<exists>a' p' si'. StoreAMCInfo E e amc layers ss tid (a, p, si) = Inr (a', p', si')"
proof (cases "NDI p")
  case True
  let ?p = "p\<lparr>hp_amcInfo := Some amc, layerCount := layers\<rparr>"
  have "wf_process (amc_len a) ?p" using assms by (auto simp: wf_process_def amc_len_def)
  then obtain r where "fold_result (new_layer E e amc ss tid) [0..<unat layers] (a, ?p, si) = Inr r"
    using new_layers_total [OF _ assms(2), of "amc_len a" ?p "[0..<unat layers]" ss si E e tid] assms by auto
  then show ?thesis using True assms(2) by (cases r) (simp add: StoreAMCInfo_def)
next
  case False
  obtain p' where "fold_result (combine_layer E e a amc ss tid) [0..<unat layers] p = Inr p'"
    using combine_layers_total [OF assms(1,2), of "[0..<unat layers]" ss E e tid] assms by auto
  then show ?thesis using False by (simp add: StoreAMCInfo_def)
qed

lemma alloc_layers_faults:
  assumes "on_first n (alloc_layer a (Some amc) maxCBG) bs k = Inl f" and "\<forall>b \<in> set bs. wf_buffer b"
    and "n \<le> length bs" and "amc_array a amc = Some xs" and "k + n \<le> length xs" and "unat maxCBG \<le> MAX_CBGCOUNT_PER_TB"
  shows "f = DivByZero"
  using assms
proof (induction n arbitrary: bs k)
  case (Suc n)
  obtain b bs' where bs: "bs = b # bs'" using Suc.prems(3) by (cases bs) auto
  have read: "amc_read a (Some amc) k = Inr (xs ! k)" using Suc.prems(4,5) by (simp add: amc_read_def)
  let ?count = "min (nCodeBlock (xs ! k)) maxCBG"
  have "unat ?count \<le> length (CBGList b)"
    using Suc.prems(2,6) by (auto simp: bs wf_buffer_def min_def word_le_nat_alt)
  then have total: "\<exists>ys t. on_first (unat ?count) (\<lambda>cbg r. Inr (g r, r - 1)) (CBGList b) (r :: int) = Inr (ys, t)" for g r
    by (rule on_first_total_take [where P = "\<lambda>x. True"]) auto
  consider (f) "alloc_layer a (Some amc) maxCBG b k = Inl f"
    | (s) b' s' where "alloc_layer a (Some amc) maxCBG b k = Inr (b', s')" "on_first n (alloc_layer a (Some amc) maxCBG) bs' s' = Inl f"
    using Suc.prems(1) by (auto simp: bs rbind_Inl_iff)
  then show ?case
  proof cases
    case f
    show ?thesis
    proof (cases "?count = 0")
      case True
      then show ?thesis using f read by (simp add: alloc_layer_def Let_def)
    next
      case False
      obtain ys t where "on_first (unat ?count) (\<lambda>cbg r. Inr (new_group (nCodeBlock (xs ! k)) ?count r, r - 1))
          (CBGList b) (uint (nCodeBlock (xs ! k) mod ?count)) = Inr (ys, t)"
        using total by blast
      then show ?thesis using f read False by (simp add: alloc_layer_def new_group_def Let_def)
    qed
  next
    case s
    have "s' = Suc k" using s(1) by (elim alloc_layer_spec) simp
    then show ?thesis using Suc.IH [of bs' "Suc k"] Suc.prems s(2) by (simp add: bs)
  qed
qed simp

lemma AllocateCBG_faults:
  assumes "AllocateCBG a maxCBG p = Inl f" and "wf_process (amc_len a) p" and "unat maxCBG \<le> MAX_CBGCOUNT_PER_TB"
  shows "f = DivByZero"
proof (cases "layerCount p = 0")
  case False
  then obtain amc xs where amc: "hp_amcInfo p = Some amc" "amc_array a amc = Some xs" "unat (layerCount p) \<le> length xs"
    using assms(2) by (auto simp: wf_process_def amc_len_def)
  have "on_first (unat (layerCount p)) (alloc_layer a (Some amc) maxCBG) (hp_transmissionBuffer p) 0 = Inl f"
    using assms(1) by (auto simp: AllocateCBG_def amc rbind_Inl_iff split: if_splits)
  then show ?thesis by (rule alloc_layers_faults) (use assms(2,3) amc in \<open>auto simp: wf_process_def\<close>)
qed (use assms(1) in \<open>simp add: AllocateCBG_def split: if_splits\<close>)

text \<open>The set-up of a transport block faults in one way only.\<close>

lemma harq_allocate_safe:
  assumes "wf_assoc a" and "harq_ready (sch_slotType si \<noteq> SLOT_DOWNLINK) ca a" and "slot_inputs E ca a si"
  shows "case harq_allocate E fr ca a si of Inr (a', si') \<Rightarrow> harq_ready (sch_slotType si \<noteq> SLOT_DOWNLINK) ca a' | Inl f \<Rightarrow> f = DivByZero"
proof (cases "ma_isAssociated a")
  case True
  let ?dl = "sch_slotType si = SLOT_DOWNLINK" and ?ul = "sch_slotType si = SLOT_UPLINK"
  let ?amc = "if ?dl then AmcDL ca else AmcUL ca"
  let ?layers = "LTENR_PHY_GET_LAYER_COUNT E (ma_ueId a) (ma_ueIf a) (\<not> ?dl)"
  obtain e where e: "harq_entity (\<not> ?dl) ca a = Inr e" "0 < currentProcessId e" using assms(2) True by (auto simp: harq_ready_def)
  have we: "wf_entity (amc_len a) e" using wf_assoc_entity [OF assms(1) e(1)] .
  obtain p0 where p0: "current_process e = Inr p0" using ready_process [OF we e(2)] by blast
  let ?p = "p0\<lparr>isUPLinkProcess := ?ul, hp_caId := ca, hp_slotId := slotId fr, hp_frameId := frameId fr, hp_subFrameId := subFrameId fr\<rparr>"
  have wp: "wf_process (amc_len a) ?p" using wf_entity_process [OF we p0] by (simp add: wf_process_def)
  obtain xs ss j where i: "unat ?layers \<le> MAX_LAYER_COUNT" "amc_array a ?amc = Some xs" "unat ?layers \<le> length xs"
    "(if ?dl then ma_downlinkSINR_db a ca else ma_uplinkSINR_db a ca) = Some ss" "unat ?layers \<le> length ss"
    "LTENR_MACScheduler_FindInfoForUE si (ma_ueId a) (ma_ueIf a) ?ul = Some j"
    "unat ?layers \<le> length (bitsPerPRBLayer (ue_infos ?ul si ! j))" "unat ?layers \<le> length (TBSLayer (ue_infos ?ul si ! j))"
    using assms(3) True unfolding slot_inputs_def Let_def by blast
  let ?sinfo = "ue_infos ?ul si ! j"
  obtain a1 p1 sinfo1 where s: "StoreAMCInfo E e ?amc ?layers ss (BlerTableId e) (a, ?p, ?sinfo) = Inr (a1, p1, sinfo1)"
    using StoreAMCInfo_total [OF wp i(2,3,5,1,7,8)] by blast
  have w1: "wf_process (amc_len a1) p1" and h1: "ma_harq a1 = ma_harq a" "ma_isAssociated a1 = ma_isAssociated a"
    using StoreAMCInfo_wf [OF s wp i(1)] StoreAMCInfo_assoc [OF s] by simp_all
  have cbg: "unat (maxCBGPerTB e) \<le> MAX_CBGCOUNT_PER_TB" using we by (simp add: wf_entity_def)
  have e1: "harq_entity (\<not> ?dl) ca a1 = Inr e" using e(1) h1 by (simp add: harq_entity_def)
  obtain p2 where p2: "ResetCBG ?p = Inr p2" using ResetCBG_total [OF wp] by blast
  have run: "harq_allocate E fr ca a si = (if allocatedPRBCount ?sinfo \<noteq> 0 \<or> \<not> NDI ?p
      then rbind (AllocateCBG a1 (maxCBGPerTB e) p1) (\<lambda>p2. Inr (put_entity (\<not> ?dl) ca (put_process e p2) a1,
             set_ue_infos ?ul ((ue_infos ?ul si)[j := sinfo1]) si))
      else Inr (put_entity (\<not> ?dl) ca (put_process e p2) a, si))"
    using True e(1) p0 i(4,6) s p2 by (simp add: harq_allocate_def Let_def)
  have ready: "harq_ready (\<not> ?dl) ca (put_entity (\<not> ?dl) ca (put_process e q) b)" if "harq_entity (\<not> ?dl) ca b = Inr e" for b q
    using harq_entity_put [OF that] e(2) by (simp add: harq_ready_def)
  show ?thesis
    unfolding run using AllocateCBG_faults [OF _ w1 cbg] ready [OF e1] ready [OF e(1)]
    by (auto simp: rbind_Inl_iff split: sum.splits prod.splits elim!: rbind_InrE)
qed (use assms(2) in \<open>simp add: harq_allocate_def\<close>)

lemma harq_transmit_wf:
  assumes "wf_assoc a" and "ca < MAX_CA_COUNT" and "harq_ready ul ca a"
  shows "\<exists>a' io'. harq_transmit E t g gi ca ul a io = Inr (a', io') \<and> wf_assoc a' \<and> harq_ready ul ca a'"
proof (cases "ma_isAssociated a")
  case True
  obtain e where e: "harq_entity ul ca a = Inr e" "0 < currentProcessId e" using assms(3) True by (auto simp: harq_ready_def)
  have we: "wf_entity (amc_len a) e" using wf_assoc_entity [OF assms(1) e(1)] .
  obtain p where p: "current_process e = Inr p" using ready_process [OF we e(2)] by blast
  have wp: "wf_process (amc_len a) p" using wf_entity_process [OF we p] .
  obtain p1 io1 where d: "DecideCBGError E p io = Inr (p1, io1)" using DecideCBGError_total [OF wp] by blast
  have wp1: "wf_process (amc_len a) p1" using DecideCBGError_wf [OF d wp] .
  have olla: "wf_olla (ma_OLLAContainer a)" using assms(1) by (simp add: wf_assoc_def)
  obtain a1 where r: "ReportToOLLA (mac_pd E g gi) ca p1 a = Inr a1" "wf_olla (ma_OLLAContainer a1)"
    using ReportToOLLA_total [OF olla assms(2) wp1] by blast
  note k = ReportToOLLA_keeps [OF r(1)]
  have len: "amc_len a1 = amc_len a" using k by (simp add: amc_len_def fun_eq_iff)
  have a1: "wf_assoc a1" by (rule wf_assoc_cong [OF assms(1)]) (use k len r(2) in auto)
  obtain p2 io2 where s: "SendToReceiver t g gi a1 p1 io1 = (p2, io2)" by fastforce
  have "wf_process (amc_len a) p2" using wp1 s by (auto simp: SendToReceiver_spec wf_process_def split: if_splits)
  then have "wf_assoc (put_entity ul ca (put_process e p2) a1)"
    by (intro wf_assoc_put [OF a1] wf_entity_put) (simp_all add: len we)
  moreover have "harq_entity ul ca a1 = Inr e" using e(1) k by (simp add: harq_entity_def)
  ultimately show ?thesis using True e p d r(1) s
    by (simp add: harq_transmit_def harq_transmit_cbg_def Let_def harq_ready_def harq_entity_put)
qed (use assms in \<open>simp add: harq_transmit_def harq_ready_def\<close>)

text \<open>
  C10. The HARQ data of a UE stay well formed through a slot, and no step of it reads past an array or
  through NULL. The start of the slot gives the entity its current process; setting up the transport
  block, once the AMC data, the SINR and the entry of the scheduler are there for every layer of the
  direction, keeps it; these two fault in one way, a division by zero; and the transmission and
  the two questions MAC asks for a slot never fault.
\<close>

theorem harq_slot_type_safe:
  assumes "wf_assoc a" and "ca < MAX_CA_COUNT" and "\<And>d i u. unat (LTENR_PHY_GET_LAYER_COUNT E d i u) \<le> MAX_LAYER_COUNT"
  shows "(case harq_slot_start ul ca a io of Inr (a', io') \<Rightarrow> wf_assoc a' \<and> harq_ready ul ca a' | Inl f \<Rightarrow> f = DivByZero)
    \<and> (harq_ready (sch_slotType si \<noteq> SLOT_DOWNLINK) ca a \<and> slot_inputs E ca a si \<longrightarrow>
         (case harq_allocate E fr ca a si of Inr (a', si') \<Rightarrow> wf_assoc a' \<and> harq_ready (sch_slotType si \<noteq> SLOT_DOWNLINK) ca a'
          | Inl f \<Rightarrow> f = DivByZero))
    \<and> (harq_ready ul ca a \<longrightarrow>
         (\<exists>a' io'. harq_transmit E t g gi ca ul a io = Inr (a', io') \<and> wf_assoc a' \<and> harq_ready ul ca a'))
    \<and> (harq_ready ul ca a \<and> ma_isAssociated a \<longrightarrow>
         (\<exists>n b. fn_NetSim_LTENR_HARQ_GetPRBReqdForRetx a ul ca = Inr n \<and> fn_NetSim_LTENR_HARQ_GetNDIFlag a ul ca = Inr b))"
proof (intro conjI impI)
  show "case harq_slot_start ul ca a io of Inr (a', io') \<Rightarrow> wf_assoc a' \<and> harq_ready ul ca a' | Inl f \<Rightarrow> f = DivByZero"
    by (rule harq_slot_start_wf [OF assms(1,2)])
next
  assume "harq_ready (sch_slotType si \<noteq> SLOT_DOWNLINK) ca a \<and> slot_inputs E ca a si"
  then show "case harq_allocate E fr ca a si of Inr (a', si') \<Rightarrow> wf_assoc a' \<and> harq_ready (sch_slotType si \<noteq> SLOT_DOWNLINK) ca a'
      | Inl f \<Rightarrow> f = DivByZero"
    using harq_allocate_safe [OF assms(1)] harq_allocate_wf [OF _ assms(1,3)] by (fastforce split: sum.splits prod.splits)
next
  assume "harq_ready ul ca a"
  then show "\<exists>a' io'. harq_transmit E t g gi ca ul a io = Inr (a', io') \<and> wf_assoc a' \<and> harq_ready ul ca a'"
    by (rule harq_transmit_wf [OF assms(1,2)])
next
  assume "harq_ready ul ca a \<and> ma_isAssociated a"
  then obtain e where e: "harq_entity ul ca a = Inr e" "0 < currentProcessId e" by (auto simp: harq_ready_def)
  obtain p where "current_process e = Inr p" using ready_process [OF wf_assoc_entity [OF assms(1) e(1)] e(2)] by blast
  then show "\<exists>n b. fn_NetSim_LTENR_HARQ_GetPRBReqdForRetx a ul ca = Inr n \<and> fn_NetSim_LTENR_HARQ_GetNDIFlag a ul ca = Inr b"
    by (simp add: fn_NetSim_LTENR_HARQ_GetPRBReqdForRetx_def fn_NetSim_LTENR_HARQ_GetNDIFlag_def e(1))
qed

section \<open>Association\<close>

lemma wf_process_new: "wf_process n HARQ_PROCESS_ZERO"
  by (auto simp: wf_process_def HARQ_PROCESS_ZERO_def HARQ_BUFFER_ZERO_def wf_buffer_def used_groups_def)

lemma wf_entity_new:
  assumes "0 < HARQ_ProcessCount (mac_pd E g gi)" and "unat (HARQ_ProcessCount (mac_pd E g gi)) \<le> MAX_HARQ_PROCESS"
    and "unat (cfg_maxCBGPerTB (mac_pd E g gi)) \<le> MAX_CBGCOUNT_PER_TB"
  shows "wf_entity n (HARQ_ENTITY_INIT E g gi u ui ul)"
  using assms by (auto simp: wf_entity_def HARQ_ENTITY_INIT_def Let_def wf_process_new)

lemma InitHARQ_wf:
  assumes "0 < HARQ_ProcessCount (mac_pd E g gi)" and "unat (HARQ_ProcessCount (mac_pd E g gi)) \<le> MAX_HARQ_PROCESS"
    and "unat (cfg_maxCBGPerTB (mac_pd E g gi)) \<le> MAX_CBGCOUNT_PER_TB" and "wf_olla (ma_OLLAContainer a)"
  shows "wf_assoc (InitHARQ E g gi a)"
  using assms wf_entity_new by (auto simp: wf_assoc_def InitHARQ_def)

text \<open>A UE that has just come to the cell, for the witnesses.\<close>

definition ex_new_ue :: MAC_ASSOCIATEDUEPHYINFO where
  "ex_new_ue = InitHARQ (ex_mac_env 0) 1 1 ((MAC_ASSOC_ZERO 2 1)\<lparr>ma_isAssociated := True\<rparr>)"

lemma ex_new_ue_wf: "wf_assoc ex_new_ue"
  unfolding ex_new_ue_def
  by (rule InitHARQ_wf) (simp_all add: ex_mac_env_def MAX_HARQ_PROCESS_def MAX_CBGCOUNT_PER_TB_def MAC_ASSOC_ZERO_def wf_olla_def)

text \<open>A UE with the AMC data and the SINR of one layer on every carrier, and its scheduler.\<close>

definition ex_slot_ue :: MAC_ASSOCIATEDUEPHYINFO where
  "ex_slot_ue = InitHARQ (ex_mac_env 0) 1 1 ((MAC_ASSOC_ZERO 2 1)\<lparr>ma_isAssociated := True,
     ma_downlinkAMCInfo := (\<lambda>ca. Some [ex_amc]), ma_downlinkSINR_db := (\<lambda>ca. Some [10])\<rparr>)"

definition ex_slot_si :: LTENR_SCHEDULERINFO where
  "ex_slot_si = \<lparr>sch_gnbId = 1, sch_gnbIf = 1, PRBCount = 100, OH_UL = 0, OH_DL = 0, isPRBRankInit = True,
     isUERRCSetUpCompleted = True, schedulingType = LTENR_MAC_SCHEDULING_ROUNDROBIN, sch_alpha = 0,
     sch_slotType = SLOT_DOWNLINK, TotalPRBReqdForHARQRetransmission = 0, uplinkInfo = [], downlinkInfo = [ex_ue_info]\<rparr>"

lemma ex_slot_ue_wf: "wf_assoc ex_slot_ue"
  unfolding ex_slot_ue_def
  by (rule InitHARQ_wf) (simp_all add: ex_mac_env_def MAX_HARQ_PROCESS_def MAX_CBGCOUNT_PER_TB_def MAC_ASSOC_ZERO_def wf_olla_def)

lemma ex_slot_inputs: "slot_inputs (ex_mac_env 0) 0 (put_entity ul ca e ex_slot_ue) ex_slot_si"
  by (simp add: slot_inputs_def put_entity_def ex_slot_ue_def ex_slot_si_def InitHARQ_def MAC_ASSOC_ZERO_def ex_mac_env_def
      MAX_LAYER_COUNT_def amc_array_def LTENR_MACScheduler_FindInfoForUE_def ue_infos_def ex_ue_info_def)

lemma harq_slot_type_safe_witness:
  "\<exists>a1 io1. harq_slot_start False 0 ex_slot_ue ex_mac_io = Inr (a1, io1) \<and> wf_assoc a1 \<and> harq_ready False 0 a1
     \<and> (\<forall>fr. case harq_allocate (ex_mac_env 0) fr 0 a1 ex_slot_si of
            Inr (a2, si2) \<Rightarrow> wf_assoc a2 \<and> harq_ready False 0 a2 | Inl f \<Rightarrow> f = DivByZero)"
proof -
  obtain a1 io1 e where r: "harq_slot_start False 0 ex_slot_ue ex_mac_io = Inr (a1, io1)" "a1 = put_entity False 0 e ex_slot_ue"
    by (simp add: harq_slot_start_def harq_entity_def ex_slot_ue_def InitHARQ_def MAC_ASSOC_ZERO_def arr_get_def MAX_CA_COUNT_def
        MAX_HARQ_PROCESS_def SetNDI_def IncreaseProcessNumber_def current_process_def current_index_def HARQ_ENTITY_INIT_def
        HARQ_PROCESS_ZERO_def ex_mac_env_def set_ndi_def put_process_def Let_def word_less_nat_alt)
  have l: "\<And>d i u. unat (LTENR_PHY_GET_LAYER_COUNT (ex_mac_env 0) d i u) \<le> MAX_LAYER_COUNT" and c: "0 < MAX_CA_COUNT"
    by (simp_all add: ex_mac_env_def MAX_LAYER_COUNT_def MAX_CA_COUNT_def)
  have w: "wf_assoc a1 \<and> harq_ready False 0 a1"
    using harq_slot_type_safe [OF ex_slot_ue_wf c l, of False ex_mac_io] r(1) by auto
  have d: "(sch_slotType ex_slot_si \<noteq> SLOT_DOWNLINK) = False" by (simp add: ex_slot_si_def)
  have "harq_ready (sch_slotType ex_slot_si \<noteq> SLOT_DOWNLINK) 0 a1 \<and> slot_inputs (ex_mac_env 0) 0 a1 ex_slot_si"
    unfolding d using w ex_slot_inputs [of False 0 e] r(2) by simp
  note t = mp [OF conjunct1 [OF conjunct2 [OF harq_slot_type_safe [OF conjunct1 [OF w] c l]]] this, unfolded d]
  have "\<forall>fr. case harq_allocate (ex_mac_env 0) fr 0 a1 ex_slot_si of Inr (a2, si2) \<Rightarrow> wf_assoc a2 \<and> harq_ready False 0 a2 | Inl f \<Rightarrow> f = DivByZero"
    by (intro allI) (rule t)
  with r(1) w show ?thesis by blast
qed


text \<open>The packets the processes of an entity hold.\<close>

definition entity_packets :: "LTENR_HARQ_ENTITY \<Rightarrow> NetSim_PACKET list" where
  "entity_packets e = concat (map packetBuffer (harqProcess e))"

lemma FreeHARQEntity_trace: "io_trace (FreeHARQEntity e io) = io_trace io @ map HarqDropped (entity_packets e)"
proof -
  have "io_trace (fold (\<lambda>p io. snd (EmptyPacketBuffer p io)) ps io) = io_trace io @ map HarqDropped (concat (map packetBuffer ps))" for ps
    by (induction ps arbitrary: io) (simp_all add: EmptyPacketBuffer_def io_out_def)
  then show ?thesis by (simp add: FreeHARQEntity_def entity_packets_def)
qed

lemma free_entities_trace:
  "length ds = length us \<Longrightarrow> io_trace (free_entities ds us io)
     = io_trace io @ map HarqDropped (concat (map (\<lambda>(d, u). entity_packets d @ entity_packets u) (zip ds us)))"
  by (induction ds us io rule: free_entities.induct) (simp_all add: FreeHARQEntity_trace)

text \<open>
  C28. When a UE leaves a cell, HARQ drops every packet that waits in a process of any carrier and direction, in
  order, and the UE has no processes any more; a UE that comes to a cell gets empty ones.
\<close>

theorem harq_association_drops:
  assumes "wf_assoc a" and "ma_harq a = Some h"
  shows "\<exists>a' io'. HARQAssociationHandler E g gi False a io = Inr (a', io') \<and> ma_harq a' = None
    \<and> io_trace io' = io_trace io @ map HarqDropped
        (concat (map (\<lambda>(d, u). entity_packets d @ entity_packets u) (zip (downlinkHARQEntity h) (uplinkHARQEntity h))))
    \<and> HARQAssociationHandler E g gi True a io = Inr (InitHARQ E g gi a, io)
    \<and> (\<forall>ul ca e. harq_entity ul ca (InitHARQ E g gi a) = Inr e \<longrightarrow> entity_packets e = [] \<and> currentProcessId e = 0)"
proof -
  have "length (downlinkHARQEntity h) = length (uplinkHARQEntity h)" using assms by (simp add: wf_assoc_def)
  moreover have "entity_packets e = [] \<and> currentProcessId e = 0" if "harq_entity ul ca (InitHARQ E g gi a) = Inr e" for ul ca e
    using that by (auto simp: harq_entity_def InitHARQ_def HARQ_ENTITY_INIT_def entity_packets_def HARQ_PROCESS_ZERO_def Let_def split: if_splits)
  ultimately show ?thesis
    using assms(2) by (simp add: HARQAssociationHandler_def FreeHARQ_def free_entities_trace)
qed

lemma harq_association_drops_witness:
  "\<exists>a' io'. HARQAssociationHandler (ex_mac_env 0) 1 1 False ex_new_ue ex_mac_io = Inr (a', io') \<and> ma_harq a' = None"
proof -
  obtain h where "ma_harq ex_new_ue = Some h" by (simp add: ex_new_ue_def InitHARQ_def)
  then show ?thesis using harq_association_drops [OF ex_new_ue_wf] by blast
qed


section \<open>The turns of the processes\<close>

lemma increase_once:
  assumes "0 < maxProcessCount e" and "unat (maxProcessCount e) < 2 ^ 32 - 1" and "unat (currentProcessId e) \<le> unat (maxProcessCount e)"
  shows "maxProcessCount (IncreaseProcessNumber e) = maxProcessCount e"
    and "harqProcess (IncreaseProcessNumber e) = harqProcess e"
    and "unat (currentProcessId (IncreaseProcessNumber e))
      = (if unat (maxProcessCount e) < Suc (unat (currentProcessId e)) then 1 else Suc (unat (currentProcessId e)))"
proof -
  have "currentProcessId e \<noteq> - 1" using assms(2,3) by (auto simp: unsigned_minus_1_eq_mask mask_eq_exp_minus_1)
  then have "unat (currentProcessId e + 1) = Suc (unat (currentProcessId e))" by (rule unat_plus_one)
  then show "unat (currentProcessId (IncreaseProcessNumber e))
      = (if unat (maxProcessCount e) < Suc (unat (currentProcessId e)) then 1 else Suc (unat (currentProcessId e)))"
    by (simp add: IncreaseProcessNumber_def Let_def word_less_nat_alt)
qed (simp_all add: IncreaseProcessNumber_def Let_def)

lemma increase_counts:
  assumes "currentProcessId e = 0" and "0 < maxProcessCount e" and "unat (maxProcessCount e) < 2 ^ 32 - 1"
  shows "maxProcessCount ((IncreaseProcessNumber ^^ k) e) = maxProcessCount e
    \<and> harqProcess ((IncreaseProcessNumber ^^ k) e) = harqProcess e
    \<and> unat (currentProcessId ((IncreaseProcessNumber ^^ k) e)) = (if k = 0 then 0 else (k - 1) mod unat (maxProcessCount e) + 1)"
proof (induction k)
  case (Suc k)
  let ?e = "(IncreaseProcessNumber ^^ k) e" and ?m = "unat (maxProcessCount e)"
  let ?c = "unat (currentProcessId ?e)"
  have m: "0 < ?m" using assms(2) by (simp add: word_less_nat_alt)
  have c: "?c \<le> ?m" using Suc.IH mod_less_divisor [OF m, of "k - 1"] by (auto simp: Suc_le_eq)
  have "(if ?m < Suc ?c then 1 else Suc ?c) = k mod ?m + 1"
    using Suc.IH m c by (cases k) (auto simp: mod_Suc)
  then show ?case using Suc.IH c assms(2,3) increase_once [of ?e] by simp
qed (use assms(1) in simp)

text \<open>
  From association on, the slots of an entity use its processes in turn, each once in as many
  slots as there are processes; with more than 16 configured, the slots from the
  seventeenth process on read past the array.
\<close>

theorem harq_processes_take_turns:
  assumes "0 < maxProcessCount (HARQ_ENTITY_INIT E g gi u ui ul)"
    and "unat (maxProcessCount (HARQ_ENTITY_INIT E g gi u ui ul)) < 2 ^ 32 - 1"
  defines "m \<equiv> unat (maxProcessCount (HARQ_ENTITY_INIT E g gi u ui ul))"
  shows "current_index ((IncreaseProcessNumber ^^ Suc k) (HARQ_ENTITY_INIT E g gi u ui ul)) = k mod m
    \<and> (m \<le> 16 \<longrightarrow> (\<exists>p. current_process ((IncreaseProcessNumber ^^ Suc k) (HARQ_ENTITY_INIT E g gi u ui ul)) = Inr p))
    \<and> (16 \<le> k mod m \<longrightarrow> current_process ((IncreaseProcessNumber ^^ Suc k) (HARQ_ENTITY_INIT E g gi u ui ul)) = Inl OutOfBounds)"
proof -
  let ?e = "HARQ_ENTITY_INIT E g gi u ui ul"
  have z: "currentProcessId ?e = 0" "length (harqProcess ?e) = 16"
    by (simp_all add: HARQ_ENTITY_INIT_def Let_def MAX_HARQ_PROCESS_def)
  note i = increase_counts [OF z(1) assms(1,2), of "Suc k"]
  have m: "0 < m" using assms(1) by (simp add: m_def word_less_nat_alt)
  let ?c = "currentProcessId ((IncreaseProcessNumber ^^ Suc k) ?e)"
  have c: "unat ?c = k mod m + 1" using i by (simp add: m_def)
  then have "?c \<noteq> 0" by auto
  then have x: "current_index ((IncreaseProcessNumber ^^ Suc k) ?e) = k mod m"
    using c by (simp add: current_index_def unat_minus_one del: funpow.simps)
  moreover have "k mod m < m" using m by simp
  moreover have "current_process ((IncreaseProcessNumber ^^ Suc k) ?e) = arr_get (harqProcess ?e) (k mod m)"
    using i x by (simp add: current_process_def del: funpow.simps)
  ultimately show ?thesis using z(2) by (simp add: arr_get_def del: funpow.simps)
qed

lemma harq_processes_take_turns_witness:
  "current_index ((IncreaseProcessNumber ^^ 6) (HARQ_ENTITY_INIT (ex_mac_env 0) 1 1 2 1 False)) = 1"
  using harq_processes_take_turns [of "ex_mac_env 0" 1 1 2 1 False 5]
  by (simp add: HARQ_ENTITY_INIT_def ex_mac_env_def Let_def)


section \<open>Outer loop link adaptation\<close>

lemma olla_success_below:
  "deltaOLLA h \<le> deltaDown h \<Longrightarrow> deltaDown (olla_success h) = deltaDown h \<and> deltaOLLA (olla_success h) = deltaOLLA h - deltaDown h"
  by (simp add: olla_success_def Let_def MAXDELTA_def)

text \<open>
  C30. The limits of the correction are on the wrong sides: errors raise it without bound although its
  maximum is 0, successes lower it without bound although its minimum is -20, and one
  success after any number of errors takes all of the margin away.
\<close>

theorem olla_limits_never_bind:
  assumes "0 \<le> cfg_targetBLER pd" and "cfg_targetBLER pd < 1"
  shows "deltaOLLA ((olla_error ^^ n) (OLLA_HANDLER_INIT pd)) = DELTAUP * real n
    \<and> deltaOLLA ((olla_success ^^ n) (OLLA_HANDLER_INIT pd)) = - (cfg_targetBLER pd / (1 - cfg_targetBLER pd) * DELTAUP * real n)
    \<and> (\<forall>h. deltaOLLA (olla_success h) \<le> MAXDELTA)"
proof -
  let ?h = "OLLA_HANDLER_INIT pd" and ?d = "cfg_targetBLER pd / (1 - cfg_targetBLER pd) * DELTAUP"
  have d: "0 \<le> ?d" using assms by (simp add: DELTAUP_def)
  have "deltaUp ((olla_error ^^ n) ?h) = DELTAUP \<and> deltaOLLA ((olla_error ^^ n) ?h) = DELTAUP * real n"
    by (induction n) (simp_all add: olla_error_def OLLA_HANDLER_INIT_def Let_def DELTAUP_def MINDELTA_def algebra_simps)
  moreover have "deltaDown ((olla_success ^^ n) ?h) = ?d \<and> deltaOLLA ((olla_success ^^ n) ?h) = - (?d * real n)"
  proof (induction n)
    case (Suc n)
    have x: "- (?d * real n) - ?d = - (?d * real (Suc n))" by (simp only: of_nat_Suc algebra_simps)
    have "0 \<le> ?d * real n" by (rule mult_nonneg_nonneg [OF d of_nat_0_le_iff])
    then have "deltaOLLA ((olla_success ^^ n) ?h) \<le> deltaDown ((olla_success ^^ n) ?h)" using Suc d by linarith
    then show ?case using olla_success_below Suc x by (simp only: funpow.simps o_apply)
  qed (simp add: OLLA_HANDLER_INIT_def)
  ultimately show ?thesis by (simp add: olla_success_def Let_def)
qed

lemma olla_limits_never_bind_witness:
  "deltaOLLA ((olla_error ^^ 200) (OLLA_HANDLER_INIT (mac_pd (ex_mac_env 0) 1 1))) = 40
     \<and> deltaOLLA ((olla_success ^^ 900) (OLLA_HANDLER_INIT (mac_pd (ex_mac_env 0) 1 1))) = - 20
     \<and> deltaOLLA ((olla_success ^^ 1800) (OLLA_HANDLER_INIT (mac_pd (ex_mac_env 0) 1 1))) = - 40"
  using olla_limits_never_bind [of "mac_pd (ex_mac_env 0) 1 1" 200] olla_limits_never_bind [of "mac_pd (ex_mac_env 0) 1 1" 900]
    olla_limits_never_bind [of "mac_pd (ex_mac_env 0) 1 1" 1800]
  by (simp add: ex_mac_env_def DELTAUP_def)

end
