(* ===== verification/MAC_PRB.thy ===== *)
theory MAC_PRB
  imports MAC_HARQ
begin

text \<open>
  The scheduler of a gNB (\<open>LTE_NR/LTENR_PRB.c\<close>): the ranking of the UEs and the allocation of
  resource blocks in the order of the ranks; the switch between bandwidth parts
  (\<open>LTENR_BWP_Switch\<close> of \<open>LTENR_PHY.c\<close>); network slices (\<open>LTENR_NetworkSlicing.h\<close>).
\<close>

section \<open>Carriers and slices\<close>

text \<open>The fields of \<open>LTENR_CA\<close> MAC and the frame clock use; \<open>ue_list\<close> holds device and interface.\<close>

record LTENR_CA =
  ca_PRBCount :: u32
  ca_symbolPerSlot :: u8
  slotPerSubframe :: u8
  slotDuration_us :: real
  configSlotType :: LTENR_SLOTTYPE
  dlSlotRatio :: real
  dlSlotCount :: u64
  totalSlotCount :: u64
  isBWPEnabled :: bool
  OverheadDL :: real
  OverheadUL :: real
  ue_list :: "(netsim_id \<times> netsim_id) list"

datatype LTENR_RESOURCE_SHARING_TECHNIQUE = LTENR_RESOURCE_SHARING_STATIC | LTENR_RESOURCE_SHARING_DYNAMIC

datatype SLICE_SERVICE_TYPE =
    SLICE_SERVICE_TYPE_NONE | SLICE_SERVICE_TYPE_EMBB | SLICE_SERVICE_TYPE_URLLC | SLICE_SERVICE_TYPE_MIOT
  | SLICE_SERVICE_TYPE_V2X | SLICE_SERVICE_TYPE_UNKNOWN

record SLICEBANDWIDTH =
  aggregateRateGuarantee_mbps :: real
  resourceAllocationPercentage :: real
  nu :: real
  sumAvgThroughput :: real

record NetworkSliceInfo =
  sliceServiceType :: SLICE_SERVICE_TYPE
  uplinkBandwidth :: SLICEBANDWIDTH
  downlinkBandwidth :: SLICEBANDWIDTH

text \<open>\<open>nws\<close>, without \<open>Info\<close>, which changes.\<close>

record LTENR_NWSLICING =
  isSlicing :: bool
  sliceCount :: netsim_id
  ueSliceId :: "netsim_id \<Rightarrow> netsim_id"
  nws_EWMA_Learning_Rate :: real
  LagrangeMultiplierLearningRate :: real
  rsrcSharingTechnique :: LTENR_RESOURCE_SHARING_TECHNIQUE

text \<open>
  What the scheduler reads and writes beside its lists: \<open>spectrumConfig->CA\<close> up to \<open>ca_count\<close>,
  \<open>nws->Info\<close>, \<open>TotalPDSCHBytes\<close> of the PDCP data of a UE (None: NULL), and the global variable
  \<open>initTotalPRBAvailable\<close>.
\<close>

record prb_state =
  ps_CA :: "LTENR_CA list"
  ps_Info :: "NetworkSliceInfo list"
  TotalPDSCHBytes :: "netsim_id \<times> netsim_id \<Rightarrow> real option"
  initTotalPRBAvailable :: real

text \<open>What a slot fixes: the slices, \<open>Current_CA_ID\<close> and the type of the slot.\<close>

record prb_env =
  pe_nws :: LTENR_NWSLICING
  pe_CA_ID :: nat
  pe_slotType :: LTENR_SLOTTYPE

definition ca_upd :: "nat \<Rightarrow> (LTENR_CA \<Rightarrow> LTENR_CA) \<Rightarrow> prb_state \<Rightarrow> prb_state result" where
  "ca_upd i f ps = rbind (arr_get (ps_CA ps) i) (\<lambda>ca. Inr (ps\<lparr>ps_CA := (ps_CA ps)[i := f ca]\<rparr>))"

section \<open>Order of the ranks\<close>

text \<open>
  The turn of the loop for the member \<open>x\<close>: before the head, behind the tail, or behind the
  first member whose successor has a smaller rank; \<open>info->next\<close> is read without a test.
\<close>

fun insert_middle :: "LTENR_UESCHEDULERINFO \<Rightarrow> LTENR_UESCHEDULERINFO list \<Rightarrow> LTENR_UESCHEDULERINFO list result" where
  "insert_middle x (a # b # l) =
     (if rank b < rank x then Inr (a # x # b # l) else rbind (insert_middle x (b # l)) (\<lambda>r. Inr (a # r)))"
| "insert_middle x l = Inl NullDeref"

definition insert_rank :: "LTENR_UESCHEDULERINFO \<Rightarrow> LTENR_UESCHEDULERINFO list \<Rightarrow> LTENR_UESCHEDULERINFO list result" where
  "insert_rank x l =
     (if l = [] then Inr [x]
      else if rank x \<ge> rank (hd l) then Inr (x # l)
      else if rank x \<le> rank (last l) then Inr (l @ [x])
      else insert_middle x l)"

definition LTENR_PRB_SortingofRank :: "LTENR_UESCHEDULERINFO list \<Rightarrow> LTENR_UESCHEDULERINFO list result" where
  "LTENR_PRB_SortingofRank list = fold_result insert_rank list []"

section \<open>First ranks\<close>

definition sum_bitsPerPRB :: "LTENR_UESCHEDULERINFO list \<Rightarrow> real" where
  "sum_bitsPerPRB list = sum_list (map (\<lambda>c. real (unat (bitsPerPRB c))) list)"

text \<open>
  \<open>fair_shares\<close> is the second loop for \<open>LTENR_MAC_SCHEDULING_FAIR_SCHEDULING\<close> with its \<open>product\<close>,
  \<open>fair_set\<close> the body of the third.
\<close>

fun fair_shares :: "real \<Rightarrow> LTENR_UESCHEDULERINFO list \<Rightarrow> real \<Rightarrow> LTENR_UESCHEDULERINFO list \<times> real" where
  "fair_shares sigma [] p = ([], p)"
| "fair_shares sigma (c # cs) p =
     (if sigma \<noteq> 0
      then let r = real (unat (bitsPerPRB c)) / sigma; (cs', p') = fair_shares sigma cs (p * r)
           in (c\<lparr>rank := r, initRank := r\<rparr> # cs', p')
      else let (cs', p') = fair_shares sigma cs p in (c # cs', p'))"

definition fair_set :: "real \<Rightarrow> LTENR_UESCHEDULERINFO \<Rightarrow> LTENR_UESCHEDULERINFO" where
  "fair_set p c = (if rank c \<noteq> 0 then c\<lparr>rank := p / rank c, initRank := p / rank c\<rparr> else c)"

definition LTENR_PRB_SetRank :: "LTENR_GnbSchedulingType \<Rightarrow> LTENR_UESCHEDULERINFO list \<Rightarrow> LTENR_UESCHEDULERINFO list" where
  "LTENR_PRB_SetRank ty list =
     (case ty of
        LTENR_MAC_SCHEDULING_ROUNDROBIN \<Rightarrow> map (\<lambda>c. c\<lparr>rank := 1, initRank := 1\<rparr>) list
      | LTENR_MAC_SCHEDULING_PROPORTIONALFAIR \<Rightarrow> map (\<lambda>c. c\<lparr>rank := 1, initRank := 1, var2 := 1\<rparr>) list
      | LTENR_MAC_SCHEDULING_FAIR_SCHEDULING \<Rightarrow>
          (let (cs, p) = fair_shares (sum_bitsPerPRB list) list 1 in map (fair_set p) cs)
      | LTENR_MAC_SCHEDULING_MAXTHROUGHTPUT \<Rightarrow> list)"

section \<open>Updates of the ranks\<close>

text \<open>\<open>allocatedPRBCount * bitsPerPRB\<close> has 64 bits.\<close>

definition allocated_bits :: "LTENR_UESCHEDULERINFO \<Rightarrow> u64" where
  "allocated_bits c = ucast (allocatedPRBCount c) * bitsPerPRB c"

definition LTENR_PRB_ResetAllocationPRBCount ::
  "LTENR_NWSLICING \<Rightarrow> LTENR_CA \<Rightarrow> LTENR_UESCHEDULERINFO list \<Rightarrow> LTENR_UESCHEDULERINFO list" where
  "LTENR_PRB_ResetAllocationPRBCount nws ca list =
     map (\<lambda>c. let rate = real (unat (allocated_bits c)) / slotDuration_us ca
       in c\<lparr>averageThroughput := averageThroughput c + nws_EWMA_Learning_Rate nws * (rate - averageThroughput c),
            allocatedPRBCount := 0\<rparr>) list"

definition LTENR_PRB_UpdateRank_RoundRobin :: "real \<Rightarrow> LTENR_UESCHEDULERINFO list \<Rightarrow> LTENR_UESCHEDULERINFO list" where
  "LTENR_PRB_UpdateRank_RoundRobin N list =
     (let list1 = map (\<lambda>c. c\<lparr>rank := rank c - double_of_UINT (allocatedPRBCount c) / N\<rparr>) list
      in if \<exists>c \<in> set list1. rank c \<le> 0 then map (\<lambda>c. c\<lparr>rank := rank c + 1\<rparr>) list1 else list1)"

text \<open>One slice of \<open>LTENR_PRB_UpdateIndexBias_ProportionalFair\<close>, in the direction of the slot.\<close>

definition clamp_nu :: "real \<Rightarrow> real" where
  "clamp_nu x = (if x < 0 then 0 else if x > 10 then 10 else x)"

definition bias_bandwidth :: "LTENR_NWSLICING \<Rightarrow> SLICE_SERVICE_TYPE \<Rightarrow> SLICEBANDWIDTH \<Rightarrow> SLICEBANDWIDTH" where
  "bias_bandwidth nws ty b =
     (if ty = SLICE_SERVICE_TYPE_NONE then b\<lparr>nu := 0\<rparr>
      else b\<lparr>nu := clamp_nu (nu b + LagrangeMultiplierLearningRate nws * (aggregateRateGuarantee_mbps b - sumAvgThroughput b))\<rparr>)"

definition on_direction ::
  "LTENR_SLOTTYPE \<Rightarrow> (SLICEBANDWIDTH \<Rightarrow> SLICEBANDWIDTH) \<Rightarrow> NetworkSliceInfo \<Rightarrow> NetworkSliceInfo" where
  "on_direction st f i =
     (case st of SLOT_DOWNLINK \<Rightarrow> i\<lparr>downlinkBandwidth := f (downlinkBandwidth i)\<rparr>
      | SLOT_UPLINK \<Rightarrow> i\<lparr>uplinkBandwidth := f (uplinkBandwidth i)\<rparr> | SLOT_MIXED \<Rightarrow> i)"

text \<open>A loop \<open>for (sliceId = 0; sliceId <= nws->sliceCount; sliceId++)\<close> over \<open>nws->Info\<close>.\<close>

definition for_slices ::
  "netsim_id \<Rightarrow> (nat \<Rightarrow> NetworkSliceInfo \<Rightarrow> NetworkSliceInfo) \<Rightarrow> NetworkSliceInfo list \<Rightarrow> NetworkSliceInfo list result" where
  "for_slices n f infos =
     fold_result (\<lambda>s infos. rbind (arr_get infos s) (\<lambda>i. Inr (infos[s := f s i]))) [0..<Suc (unat n)] infos"

definition LTENR_PRB_UpdateIndexBias_ProportionalFair :: "prb_env \<Rightarrow> NetworkSliceInfo list \<Rightarrow> NetworkSliceInfo list result" where
  "LTENR_PRB_UpdateIndexBias_ProportionalFair E infos =
     for_slices (sliceCount (pe_nws E))
       (\<lambda>s i. on_direction (pe_slotType E) (bias_bandwidth (pe_nws E) (sliceServiceType i)) i) infos"

definition slice_throughput :: "LTENR_NWSLICING \<Rightarrow> LTENR_UESCHEDULERINFO list \<Rightarrow> nat \<Rightarrow> real" where
  "slice_throughput nws list s =
     sum_list (map averageThroughput (filter (\<lambda>c. unat (ueSliceId nws (si_ueId c)) = s) list))"

definition LTENR_PRB_UpdateSumAvgThroughput_ProportionalFair ::
  "prb_env \<Rightarrow> LTENR_UESCHEDULERINFO list \<Rightarrow> NetworkSliceInfo list \<Rightarrow> NetworkSliceInfo list result" where
  "LTENR_PRB_UpdateSumAvgThroughput_ProportionalFair E list infos =
     for_slices (sliceCount (pe_nws E))
       (\<lambda>s. on_direction (pe_slotType E) (\<lambda>b. b\<lparr>sumAvgThroughput := slice_throughput (pe_nws E) list s\<rparr>)) infos"

text \<open>The list is not empty: its first member is read.\<close>

definition LTENR_PRB_UpdateRank_ProportionalFair ::
  "prb_env \<Rightarrow> LTENR_UESCHEDULERINFO list \<Rightarrow> NetworkSliceInfo list \<Rightarrow> (LTENR_UESCHEDULERINFO list \<times> NetworkSliceInfo list) result" where
  "LTENR_PRB_UpdateRank_ProportionalFair E list infos =
     (if list = [] then Inl NullDeref
      else rbind (if bufferSize (hd list) > 0
                  then rbind (LTENR_PRB_UpdateSumAvgThroughput_ProportionalFair E list infos)
                         (LTENR_PRB_UpdateIndexBias_ProportionalFair E)
                  else Inr infos) (\<lambda>infos1.
           Inr (map (\<lambda>c. c\<lparr>var2 := (if averageThroughput c = 0 then 1 else averageThroughput c)\<rparr>) list, infos1)))"

text \<open>The rank of one UE before a slot; \<open>Info\<close> is indexed by the slice of the UE.\<close>

definition pf_rank :: "prb_env \<Rightarrow> NetworkSliceInfo list \<Rightarrow> LTENR_UESCHEDULERINFO \<Rightarrow> LTENR_UESCHEDULERINFO result" where
  "pf_rank E infos c =
     (let c1 = c\<lparr>var2 := (if var2 c = 0 then 1 else var2 c)\<rparr>;
          slice = arr_get infos (unat (ueSliceId (pe_nws E) (si_ueId c)));
          rnk = (\<lambda>b. real (unat (bitsPerPRB c)) * (1 / var2 c1 + nu b))
      in case pe_slotType E of
           SLOT_DOWNLINK \<Rightarrow> rbind slice (\<lambda>i. Inr (c1\<lparr>rank := rnk (downlinkBandwidth i)\<rparr>))
         | SLOT_UPLINK \<Rightarrow> rbind slice (\<lambda>i. Inr (c1\<lparr>rank := rnk (uplinkBandwidth i)\<rparr>))
         | SLOT_MIXED \<Rightarrow> Inr c1)"

definition LTENR_PRB_InitRank_ProportionalFair ::
  "prb_env \<Rightarrow> NetworkSliceInfo list \<Rightarrow> LTENR_UESCHEDULERINFO list \<Rightarrow> LTENR_UESCHEDULERINFO list result" where
  "LTENR_PRB_InitRank_ProportionalFair E infos list =
     rbind (on_all (\<lambda>c u. rbind (pf_rank E infos c) (\<lambda>c. Inr (c, u))) list ()) (\<lambda>(l, u). Inr l)"

definition LTENR_PRB_InitRank_MaxThroughput :: "LTENR_UESCHEDULERINFO list \<Rightarrow> LTENR_UESCHEDULERINFO list" where
  "LTENR_PRB_InitRank_MaxThroughput list = map (\<lambda>c. c\<lparr>rank := real (unat (bitsPerPRB c))\<rparr>) list"

definition LTENR_PRB_UpdateRank_FAIR :: "real \<Rightarrow> LTENR_UESCHEDULERINFO list \<Rightarrow> LTENR_UESCHEDULERINFO list" where
  "LTENR_PRB_UpdateRank_FAIR N list =
     (let min_rank = fold (\<lambda>c m. if initRank c < m then initRank c else m) list 2147483647;
          list1 = map (\<lambda>c. c\<lparr>rank := rank c - min_rank * (double_of_UINT (allocatedPRBCount c) / N)\<rparr>) list
      in if \<exists>c \<in> set list1. rank c \<le> 0 then map (\<lambda>c. c\<lparr>rank := rank c + initRank c\<rparr>) list1 else list1)"

section \<open>Bandwidth parts\<close>

definition LTENR_ACTIVEUEINFO_ADD :: "netsim_id \<times> netsim_id \<Rightarrow> nat \<Rightarrow> prb_state \<Rightarrow> prb_state result" where
  "LTENR_ACTIVEUEINFO_ADD ue CA_ID = ca_upd CA_ID (\<lambda>ca. ca\<lparr>ue_list := ue_list ca @ [ue]\<rparr>)"

definition LTENR_ACTIVEUEINFO_REMOVE :: "netsim_id \<times> netsim_id \<Rightarrow> nat \<Rightarrow> prb_state \<Rightarrow> prb_state result" where
  "LTENR_ACTIVEUEINFO_REMOVE ue CA_ID = ca_upd CA_ID (\<lambda>ca. ca\<lparr>ue_list := remove1 ue (ue_list ca)\<rparr>)"

definition move_active_ue :: "netsim_id \<times> netsim_id \<Rightarrow> nat \<Rightarrow> nat \<Rightarrow> prb_state \<Rightarrow> prb_state result" where
  "move_active_ue ue a b ps = rbind (LTENR_ACTIVEUEINFO_REMOVE ue a ps) (LTENR_ACTIVEUEINFO_ADD ue b)"

record LTENR_BwpSwitch =
  prb_count :: u32
  ca_new :: u32
  bwp_active :: bool

text \<open>
  The loop over the carriers from \<open>i\<close> on, with \<open>max\<close> and \<open>ca_max\<close>: the carrier whose resource
  blocks are enough, or the largest one. \<open>prb_count\<close> is set for carriers before the current
  one only.
\<close>

fun bwp_search :: "nat \<Rightarrow> u32 \<Rightarrow> LTENR_CA list \<Rightarrow> nat \<Rightarrow> u32 \<Rightarrow> nat \<Rightarrow> (nat \<times> u32) option \<times> nat" where
  "bwp_search cur needed [] i mx camax = (None, camax)"
| "bwp_search cur needed (ca # cas) i mx camax =
     (if ca_PRBCount ca \<ge> needed then (Some (i, if cur \<le> i then 0 else ca_PRBCount ca), camax)
      else if ca_PRBCount ca > mx then bwp_search cur needed cas (Suc i) (ca_PRBCount ca) i
      else bwp_search cur needed cas (Suc i) mx camax)"

definition LTENR_BWP_Switch :: "nat \<Rightarrow> netsim_id \<times> netsim_id \<Rightarrow> u32 \<Rightarrow> prb_state \<Rightarrow> (LTENR_BwpSwitch \<times> prb_state) result" where
  "LTENR_BWP_Switch CA_ID ue PRB_needed ps =
     rbind (arr_get (ps_CA ps) CA_ID) (\<lambda>ca_old.
     if \<not> isBWPEnabled ca_old then Inr (\<lparr>prb_count = 0, ca_new = 0, bwp_active = False\<rparr>, ps)
     else case bwp_search CA_ID PRB_needed (ps_CA ps) 0 0 0 of
            (Some (i, n), m) \<Rightarrow>
              rbind (move_active_ue ue CA_ID i ps) (\<lambda>ps1.
              Inr (\<lparr>prb_count = n, ca_new = (if CA_ID \<le> i then 1 else 0), bwp_active = True\<rparr>, ps1))
          | (None, m) \<Rightarrow>
              let last_new = (if CA_ID \<le> length (ps_CA ps) - 1 then 1 else 0)
              in if m \<noteq> CA_ID
                 then rbind (move_active_ue ue CA_ID m ps) (\<lambda>ps1.
                      Inr (\<lparr>prb_count = 0, ca_new = last_new, bwp_active = True\<rparr>, ps1))
                 else Inr (\<lparr>prb_count = 0, ca_new = last_new, bwp_active = False\<rparr>, ps))"

section \<open>Allocation\<close>

definition PRBs_needed :: "LTENR_UESCHEDULERINFO \<Rightarrow> u32" where
  "PRBs_needed c = UINT_of_double (of_int \<lceil>double_of_UINT (bufferSize c) * 8 / real (unat (bitsPerPRB c))\<rceil>)"

definition count_bytes :: "LTENR_UESCHEDULERINFO \<Rightarrow> prb_state \<Rightarrow> prb_state result" where
  "count_bytes c ps =
     rbind (deref (TotalPDSCHBytes ps (si_ueId c, si_ueIf c))) (\<lambda>b.
     Inr (ps\<lparr>TotalPDSCHBytes := (TotalPDSCHBytes ps)((si_ueId c, si_ueIf c) \<mapsto> b + real (unat (allocated_bits c div 8)))\<rparr>))"

text \<open>
  The turn of the loop for one UE: the UE, the resource blocks left, and the rest of the state;
  \<open>first\<close> is the UE at the head of the sorted list.
\<close>

definition allocate_ue ::
  "prb_env \<Rightarrow> netsim_id \<Rightarrow> netsim_id \<times> netsim_id \<Rightarrow> LTENR_UESCHEDULERINFO \<Rightarrow> u32 \<times> prb_state
     \<Rightarrow> (LTENR_UESCHEDULERINFO \<times> u32 \<times> prb_state) result" where
  "allocate_ue E sliceId first c s =
     (let (avail, ps) = s
      in if avail = 0
            \<or> rsrcSharingTechnique (pe_nws E) = LTENR_RESOURCE_SHARING_STATIC \<and> ueSliceId (pe_nws E) (si_ueId c) \<noteq> sliceId
            \<or> bitsPerPRB c = 0
         then Inr (c, s)
         else let n = PRBs_needed c
              in if n < avail
                 then let c1 = c\<lparr>allocatedPRBCount := allocatedPRBCount c + n\<rparr>
                      in rbind (count_bytes c1 ps) (\<lambda>ps1. Inr (c1, avail - allocatedPRBCount c1, ps1))
                 else rbind (LTENR_BWP_Switch (pe_CA_ID E) first n ps) (\<lambda>(bwp, ps1).
                      if bwp_active bwp
                      then if n > prb_count bwp then Inr (c\<lparr>allocatedPRBCount := prb_count bwp\<rparr>, 0, ps1)
                           else Inr (c\<lparr>allocatedPRBCount := n\<rparr>, prb_count bwp - n, ps1)
                      else let c1 = c\<lparr>allocatedPRBCount := avail\<rparr>
                           in rbind (count_bytes c1 ps1) (\<lambda>ps2. Inr (c1, 0, ps2))))"

text \<open>The lists of the scheduler in the direction of the slot.\<close>

definition prb_rank ::
  "prb_env \<Rightarrow> LTENR_SCHEDULERINFO \<Rightarrow> LTENR_UESCHEDULERINFO list \<Rightarrow> prb_state \<Rightarrow> LTENR_UESCHEDULERINFO list result" where
  "prb_rank E si list ps =
     (case schedulingType si of
        LTENR_MAC_SCHEDULING_PROPORTIONALFAIR \<Rightarrow> LTENR_PRB_InitRank_ProportionalFair E (ps_Info ps) list
      | LTENR_MAC_SCHEDULING_MAXTHROUGHTPUT \<Rightarrow> Inr (LTENR_PRB_InitRank_MaxThroughput list)
      | _ \<Rightarrow> Inr list)"

definition prb_update_rank ::
  "prb_env \<Rightarrow> LTENR_SCHEDULERINFO \<Rightarrow> LTENR_UESCHEDULERINFO list \<Rightarrow> prb_state
     \<Rightarrow> (LTENR_UESCHEDULERINFO list \<times> prb_state) result" where
  "prb_update_rank E si list ps =
     (case schedulingType si of
        LTENR_MAC_SCHEDULING_FAIR_SCHEDULING \<Rightarrow> Inr (LTENR_PRB_UpdateRank_FAIR (initTotalPRBAvailable ps) list, ps)
      | LTENR_MAC_SCHEDULING_ROUNDROBIN \<Rightarrow> Inr (LTENR_PRB_UpdateRank_RoundRobin (initTotalPRBAvailable ps) list, ps)
      | LTENR_MAC_SCHEDULING_PROPORTIONALFAIR \<Rightarrow>
          rbind (LTENR_PRB_UpdateRank_ProportionalFair E list (ps_Info ps)) (\<lambda>(l, infos). Inr (l, ps\<lparr>ps_Info := infos\<rparr>))
      | LTENR_MAC_SCHEDULING_MAXTHROUGHTPUT \<Rightarrow> Inr (list, ps))"

text \<open>\<open>LTENR_PRB_AllocatePRB\<close> on the list of UEs it is called with, after the first ranks are set.\<close>

definition allocate_list ::
  "prb_env \<Rightarrow> LTENR_SCHEDULERINFO \<Rightarrow> u32 \<Rightarrow> netsim_id \<Rightarrow> LTENR_UESCHEDULERINFO list \<Rightarrow> prb_state
     \<Rightarrow> (LTENR_UESCHEDULERINFO list \<times> prb_state) result" where
  "allocate_list E si avail sliceId list ps =
     rbind (prb_rank E si list ps) (\<lambda>list1. rbind (LTENR_PRB_SortingofRank list1) (\<lambda>list2.
     rbind (on_all (allocate_ue E sliceId (si_ueId (hd list2), si_ueIf (hd list2))) list2 (avail, ps)) (\<lambda>(list3, t, ps1).
     prb_update_rank E si list3 ps1)))"

text \<open>\<open>ul\<close> chooses the list \<open>curr\<close> points to.\<close>

definition LTENR_PRB_AllocatePRB ::
  "prb_env \<Rightarrow> bool \<Rightarrow> u32 \<Rightarrow> netsim_id \<Rightarrow> LTENR_SCHEDULERINFO \<Rightarrow> prb_state \<Rightarrow> (LTENR_SCHEDULERINFO \<times> prb_state) result" where
  "LTENR_PRB_AllocatePRB E ul totalPRBAvailable sliceId si ps =
     (if \<not> isUERRCSetUpCompleted si then Inr (si, ps)
      else let si1 = (if isPRBRankInit si then si
                      else si\<lparr>downlinkInfo := LTENR_PRB_SetRank (schedulingType si) (downlinkInfo si),
                              uplinkInfo := LTENR_PRB_SetRank (schedulingType si) (uplinkInfo si), isPRBRankInit := True\<rparr>)
           in rbind (allocate_list E si1 totalPRBAvailable sliceId (ue_infos ul si1) ps) (\<lambda>(list, ps1).
              Inr (set_ue_infos ul list si1, ps1)))"

section \<open>The scheduler of a slot\<close>

text \<open>The resource blocks left after overhead and retransmissions; the subtraction may wrap.\<close>

definition PRBs_available :: "LTENR_SCHEDULERINFO \<Rightarrow> real \<Rightarrow> u32" where
  "PRBs_available si oh =
     PRBCount si - UINT_of_double (of_int \<lceil>double_of_UINT (PRBCount si) * oh\<rceil>) - TotalPRBReqdForHARQRetransmission si"

definition allocate_slices ::
  "prb_env \<Rightarrow> bool \<Rightarrow> u32 \<Rightarrow> LTENR_SCHEDULERINFO \<Rightarrow> prb_state \<Rightarrow> (LTENR_SCHEDULERINFO \<times> prb_state) result" where
  "allocate_slices E ul avail si ps =
     (if isSlicing (pe_nws E) \<and> rsrcSharingTechnique (pe_nws E) = LTENR_RESOURCE_SHARING_STATIC
      then fold_result (\<lambda>s (si, ps). rbind (arr_get (ps_Info ps) s) (\<lambda>i.
             let p = resourceAllocationPercentage (if ul then uplinkBandwidth i else downlinkBandwidth i)
             in LTENR_PRB_AllocatePRB E ul (UINT_of_double (double_of_UINT avail / 100 * p)) (of_nat s) si ps))
             [0..<Suc (unat (sliceCount (pe_nws E)))] (si, ps)
      else LTENR_PRB_AllocatePRB E ul avail 0 si ps)"

definition LTENR_PRB_Scheduler :: "prb_env \<Rightarrow> LTENR_SCHEDULERINFO \<Rightarrow> prb_state \<Rightarrow> (LTENR_SCHEDULERINFO \<times> prb_state) result" where
  "LTENR_PRB_Scheduler E si ps =
     rbind (arr_get (ps_CA ps) (pe_CA_ID E)) (\<lambda>ca.
     let ps1 = ps\<lparr>initTotalPRBAvailable := double_of_UINT (PRBCount si)\<rparr>;
         reset = (\<lambda>si. si\<lparr>uplinkInfo := LTENR_PRB_ResetAllocationPRBCount (pe_nws E) ca (uplinkInfo si),
                        downlinkInfo := LTENR_PRB_ResetAllocationPRBCount (pe_nws E) ca (downlinkInfo si)\<rparr>)
     in if pe_slotType E = SLOT_UPLINK
        then if uplinkInfo si = [] then Inr (si, ps1)
             else allocate_slices E True (PRBs_available si (OH_UL si)) (reset si) ps1
        else if sch_slotType si = SLOT_DOWNLINK
        then if downlinkInfo si = [] then Inr (si, ps1)
             else allocate_slices E False (PRBs_available si (OH_DL si)) (reset si) ps1
        else Inr (si, ps1))"

end
