(* ===== verification/MAC_PRB_Props.thy ===== *)
theory MAC_PRB_Props
  imports MAC_PRB MAC_HARQ_Props "HOL-Library.Multiset"
begin

text \<open>
  What the scheduler does: the order it serves UEs in, how the resource blocks of a slot are shared, what a
  retransmission and a switch of the bandwidth part do to the shares, and which UEs round robin
  serves over many slots.
\<close>

declare of_nat_unat [simp del]

section \<open>The order\<close>

definition descending :: "LTENR_UESCHEDULERINFO list \<Rightarrow> bool" where
  "descending = sorted_wrt (\<lambda>a b. rank b \<le> rank a)"

lemma descending_simps [simp]:
  "descending []" "descending (x # l) \<longleftrightarrow> (\<forall>y \<in> set l. rank y \<le> rank x) \<and> descending l"
  by (simp_all add: descending_def)

lemma descending_last: "descending l \<Longrightarrow> y \<in> set l \<Longrightarrow> rank (last l) \<le> rank y"
  by (induction l) auto

lemma descending_snoc: "descending l \<Longrightarrow> \<forall>y \<in> set l. rank x \<le> rank y \<Longrightarrow> descending (l @ [x])"
  by (simp add: descending_def sorted_wrt_append)

lemma insert_middle_sorts:
  assumes "descending l" and "l \<noteq> []" and "rank x \<le> rank (hd l)" and "rank (last l) < rank x"
  shows "\<exists>r. insert_middle x l = Inr r \<and> descending r \<and> mset r = add_mset x (mset l) \<and> hd r = hd l"
  using assms
proof (induction x l rule: insert_middle.induct)
  case (1 x a b l)
  show ?case
  proof (cases "rank b < rank x")
    case False
    then obtain r where "insert_middle x (b # l) = Inr r" "descending r" "mset r = add_mset x (mset (b # l))"
      using 1 by auto
    moreover from this have "\<forall>y \<in> set r. y = x \<or> y \<in> set (b # l)" by (metis insert_iff set_mset_add_mset_insert set_mset_mset)
    ultimately show ?thesis using False 1(2,4) by (auto intro: order_trans)
  qed (use 1(2,4) in auto)
qed auto

lemma insert_rank_sorts:
  assumes "descending l"
  shows "\<exists>r. insert_rank x l = Inr r \<and> descending r \<and> mset r = add_mset x (mset l)"
proof -
  consider "l = []" | "l \<noteq> []" "rank x \<ge> rank (hd l)" | "l \<noteq> []" "rank x < rank (hd l)" "rank x \<le> rank (last l)"
    | "l \<noteq> []" "rank x < rank (hd l)" "rank (last l) < rank x" by linarith
  then show ?thesis
  proof cases
    case 2
    then show ?thesis using assms by (cases l) (auto simp: insert_rank_def)
  next
    case 3
    then have "descending (l @ [x])" using assms descending_last by (intro descending_snoc) (auto intro: order_trans)
    then show ?thesis using 3 by (simp add: insert_rank_def)
  next
    case 4
    then show ?thesis using insert_middle_sorts [OF assms, of x] by (auto simp: insert_rank_def)
  qed (simp add: insert_rank_def)
qed

lemma sort_from:
  "descending l \<Longrightarrow> \<exists>r. fold_result insert_rank xs l = Inr r \<and> descending r \<and> mset r = mset xs + mset l"
proof (induction xs arbitrary: l)
  case (Cons x xs)
  obtain r where r: "insert_rank x l = Inr r" "descending r" "mset r = add_mset x (mset l)"
    using insert_rank_sorts [OF Cons.prems] by blast
  then show ?case using Cons.IH [OF r(2)] by auto
qed simp

lemma sorting_sorts: "\<exists>ys. LTENR_PRB_SortingofRank xs = Inr ys \<and> descending ys \<and> mset ys = mset xs"
  using sort_from [of "[]" xs] by (simp add: LTENR_PRB_SortingofRank_def)

text \<open>
  C39. The sorting of the UEs never reads past the end of its list, keeps every UE once, and
  orders them by falling rank.
\<close>

theorem prb_sorting_sorts:
  "\<exists>ys. LTENR_PRB_SortingofRank xs = Inr ys \<and> mset ys = mset xs \<and> sorted_wrt (\<lambda>a b. rank b \<le> rank a) ys"
  using sorting_sorts [of xs] unfolding descending_def by blast

section \<open>The shares of a slot\<close>

text \<open>What a UE asks for in a slot of a slice.\<close>

definition prb_demand :: "prb_env \<Rightarrow> netsim_id \<Rightarrow> LTENR_UESCHEDULERINFO \<Rightarrow> nat" where
  "prb_demand E sliceId c =
     (if rsrcSharingTechnique (pe_nws E) = LTENR_RESOURCE_SHARING_STATIC \<and> ueSliceId (pe_nws E) (si_ueId c) \<noteq> sliceId
         \<or> bitsPerPRB c = 0 then 0 else unat (PRBs_needed c))"

text \<open>The reference: every demand in turn gets what is left, up to itself.\<close>

fun prb_shares :: "nat \<Rightarrow> nat list \<Rightarrow> nat list" where
  "prb_shares t [] = []"
| "prb_shares t (d # ds) = min d t # prb_shares (t - min d t) ds"

lemma prb_shares_sum: "sum_list (prb_shares t ds) = min t (sum_list ds)"
  by (induction t ds rule: prb_shares.induct) (auto simp: min_def)

lemma prb_shares_all: "sum_list ds \<le> t \<Longrightarrow> prb_shares t ds = ds"
  by (induction t ds rule: prb_shares.induct) auto

lemma prb_shares_0: "prb_shares 0 ds = map (\<lambda>d. 0) ds"
  by (induction ds) auto

definition ue_key :: "LTENR_UESCHEDULERINFO \<Rightarrow> netsim_id \<times> netsim_id" where
  "ue_key c = (si_ueId c, si_ueIf c)"

text \<open>No switch of the bandwidth part in the current carrier, and PDCP data of the UEs exist.\<close>

definition plain_carrier :: "prb_env \<Rightarrow> prb_state \<Rightarrow> bool" where
  "plain_carrier E ps \<longleftrightarrow> pe_CA_ID E < length (ps_CA ps) \<and> \<not> isBWPEnabled (ps_CA ps ! pe_CA_ID E)"

definition pdcp_known :: "LTENR_UESCHEDULERINFO list \<Rightarrow> prb_state \<Rightarrow> bool" where
  "pdcp_known list ps \<longleftrightarrow> (\<forall>c \<in> set list. TotalPDSCHBytes ps (ue_key c) \<noteq> None)"

text \<open>\<open>granted c n\<close>: the UE with \<open>n\<close> resource blocks.\<close>

abbreviation granted :: "LTENR_UESCHEDULERINFO \<Rightarrow> nat \<Rightarrow> LTENR_UESCHEDULERINFO" where
  "granted c n \<equiv> c\<lparr>allocatedPRBCount := of_nat n\<rparr>"

text \<open>The parts of the state allocation does not touch.\<close>

definition prb_same :: "prb_state \<Rightarrow> prb_state \<Rightarrow> bool" where
  "prb_same ps ps' \<longleftrightarrow> ps_CA ps' = ps_CA ps \<and> ps_Info ps' = ps_Info ps \<and> initTotalPRBAvailable ps' = initTotalPRBAvailable ps
     \<and> dom (TotalPDSCHBytes ps') = dom (TotalPDSCHBytes ps)"

lemma count_bytes_run:
  assumes "TotalPDSCHBytes ps (ue_key c) \<noteq> None"
  shows "\<exists>ps'. count_bytes c ps = Inr ps' \<and> prb_same ps ps'"
  using assms by (auto simp: count_bytes_def ue_key_def prb_same_def)

lemma plain_switch:
  "plain_carrier E ps \<Longrightarrow> LTENR_BWP_Switch (pe_CA_ID E) ue n ps = Inr (\<lparr>prb_count = 0, ca_new = 0, bwp_active = False\<rparr>, ps)"
  by (simp add: LTENR_BWP_Switch_def plain_carrier_def arr_get_def)

text \<open>UEs a call for one slice passes over.\<close>

definition passed_over :: "prb_env \<Rightarrow> netsim_id \<Rightarrow> LTENR_UESCHEDULERINFO \<Rightarrow> bool" where
  "passed_over E sl c \<longleftrightarrow> bitsPerPRB c = 0
     \<or> rsrcSharingTechnique (pe_nws E) = LTENR_RESOURCE_SHARING_STATIC \<and> ueSliceId (pe_nws E) (si_ueId c) \<noteq> sl"

abbreviation topped :: "LTENR_UESCHEDULERINFO \<Rightarrow> nat \<Rightarrow> LTENR_UESCHEDULERINFO" where
  "topped c n \<equiv> c\<lparr>allocatedPRBCount := allocatedPRBCount c + of_nat n\<rparr>"

lemma passed_over_demand: "passed_over E sl c \<Longrightarrow> prb_demand E sl c = 0"
  by (auto simp: passed_over_def prb_demand_def)

lemma allocate_ue_more:
  assumes "plain_carrier E ps" and "TotalPDSCHBytes ps (ue_key c) \<noteq> None" and "passed_over E sl c \<or> allocatedPRBCount c = 0"
  shows "\<exists>ps'. allocate_ue E sl ue c (t, ps)
      = Inr (topped c (min (prb_demand E sl c) (unat t)), of_nat (unat t - min (prb_demand E sl c) (unat t)), ps') \<and> prb_same ps ps'"
proof (cases "t = 0 \<or> passed_over E sl c")
  case True
  then have "allocate_ue E sl ue c (t, ps) = Inr (c, t, ps)" by (auto simp: allocate_ue_def passed_over_def)
  moreover have "prb_demand E sl c = 0 \<or> unat t = 0" using True passed_over_demand by auto
  then have "min (prb_demand E sl c) (unat t) = 0" by auto
  ultimately show ?thesis by (auto simp: prb_same_def of_nat_unat)
next
  case False
  then have t: "t \<noteq> 0" and b: "\<not> passed_over E sl c" and z: "allocatedPRBCount c = 0" using assms(3) by auto
  then have d: "prb_demand E sl c = unat (PRBs_needed c)" by (auto simp: prb_demand_def passed_over_def)
  let ?n = "PRBs_needed c"
  have k: "TotalPDSCHBytes ps (ue_key (c\<lparr>allocatedPRBCount := x\<rparr>)) \<noteq> None" for x using assms(2) by (simp add: ue_key_def)
  show ?thesis
  proof (cases "?n < t")
    case True
    obtain ps' where "count_bytes (c\<lparr>allocatedPRBCount := ?n\<rparr>) ps = Inr ps'" "prb_same ps ps'" using count_bytes_run [OF k] by blast
    moreover have "of_nat (unat t - unat ?n) = t - ?n" using True by (simp add: word_less_nat_alt of_nat_diff of_nat_unat)
    ultimately show ?thesis using True t b z
      by (auto simp: allocate_ue_def passed_over_def d Let_def word_less_nat_alt of_nat_unat)
  next
    case False
    obtain ps' where "count_bytes (c\<lparr>allocatedPRBCount := t\<rparr>) ps = Inr ps'" "prb_same ps ps'" using count_bytes_run [OF k] by blast
    then show ?thesis using False t b z
      by (auto simp: allocate_ue_def passed_over_def d Let_def plain_switch [OF assms(1)] word_less_nat_alt of_nat_unat min_def)
  qed
qed

lemma plain_carrier_same: "prb_same ps ps' \<Longrightarrow> plain_carrier E ps' = plain_carrier E ps"
  by (simp add: plain_carrier_def prb_same_def)

lemma pdcp_known_same: "prb_same ps ps' \<Longrightarrow> pdcp_known l ps' = pdcp_known l ps"
  by (auto simp: pdcp_known_def prb_same_def dom_def)

lemma prb_same_trans: "prb_same a b \<Longrightarrow> prb_same b c \<Longrightarrow> prb_same a c" by (simp add: prb_same_def)

lemma unat_of_nat_small: "n < 2 ^ 32 \<Longrightarrow> unat (of_nat n :: u32) = n"
  by (simp add: unsigned_of_nat take_bit_nat_eq_self)

lemma allocate_all_more:
  assumes "plain_carrier E ps" and "pdcp_known list ps" and "\<forall>c \<in> set list. passed_over E sl c \<or> allocatedPRBCount c = 0"
  shows "\<exists>t' ps'. on_all (allocate_ue E sl ue) list (t, ps)
      = Inr (map2 topped list (prb_shares (unat t) (map (prb_demand E sl) list)), t', ps') \<and> prb_same ps ps'"
  using assms
proof (induction list arbitrary: t ps)
  case (Cons c cs)
  let ?n = "min (prb_demand E sl c) (unat t)"
  obtain ps1 where 1: "allocate_ue E sl ue c (t, ps) = Inr (topped c ?n, of_nat (unat t - ?n), ps1)" "prb_same ps ps1"
    using allocate_ue_more [of E ps c sl ue t] Cons.prems by (auto simp: pdcp_known_def)
  have u: "unat (of_nat (unat t - ?n) :: u32) = unat t - ?n"
    by (rule unat_of_nat_small) (use unsigned_less [of t, where 'a = nat] in simp)
  have "plain_carrier E ps1" "pdcp_known cs ps1"
    using Cons.prems plain_carrier_same [OF 1(2)] pdcp_known_same [OF 1(2)] by (auto simp: pdcp_known_def)
  then obtain t' ps' where "on_all (allocate_ue E sl ue) cs (of_nat (unat t - ?n), ps1)
      = Inr (map2 topped cs (prb_shares (unat t - ?n) (map (prb_demand E sl) cs)), t', ps')" "prb_same ps1 ps'"
    using Cons.IH [of ps1 "of_nat (unat t - ?n)"] Cons.prems u by auto
  then show ?case using 1 prb_same_trans by (auto simp: rbind_def)
qed (simp add: prb_same_def)

lemma topped_granted: "\<forall>c \<in> set l. allocatedPRBCount c = 0 \<Longrightarrow> map2 topped l ns = map2 granted l ns"
  by (auto intro!: map_cong dest: set_zip_leftD)

text \<open>What ranking and the update of ranks keep of a UE.\<close>

definition same_grant :: "LTENR_UESCHEDULERINFO \<Rightarrow> LTENR_UESCHEDULERINFO \<Rightarrow> bool" where
  "same_grant c c' \<longleftrightarrow> si_ueId c' = si_ueId c \<and> si_ueIf c' = si_ueIf c \<and> bufferSize c' = bufferSize c
     \<and> bitsPerPRB c' = bitsPerPRB c \<and> allocatedPRBCount c' = allocatedPRBCount c"

lemma same_grants_map:
  "list_all2 same_grant l l' \<Longrightarrow> map ue_key l' = map ue_key l \<and> map (prb_demand E sl) l' = map (prb_demand E sl) l
     \<and> map allocatedPRBCount l' = map allocatedPRBCount l"
  by (induction l l' rule: list_all2_induct) (auto simp: same_grant_def ue_key_def prb_demand_def PRBs_needed_def)

lemma same_grants_maps: "(\<And>c. c \<in> set l \<Longrightarrow> same_grant c (f c)) \<Longrightarrow> list_all2 same_grant l (map f l)"
  by (simp add: list.rel_map list_all2_same)

lemma same_grant_refl [simp]: "same_grant c c" by (simp add: same_grant_def)

lemma same_grant_trans: "same_grant a b \<Longrightarrow> same_grant b c \<Longrightarrow> same_grant a c" by (simp add: same_grant_def)

lemma same_grants_trans: "list_all2 same_grant a b \<Longrightarrow> list_all2 same_grant b c \<Longrightarrow> list_all2 same_grant a c"
  by (rule list_all2_trans [OF same_grant_trans])

lemma prb_update_rank_keeps:
  assumes "prb_update_rank E si list ps = Inr (list', ps')"
  shows "list_all2 same_grant list list'"
proof -
  have r: "list_all2 same_grant list (LTENR_PRB_UpdateRank_RoundRobin N list)" for N
    by (auto simp: LTENR_PRB_UpdateRank_RoundRobin_def Let_def comp_def intro!: same_grants_maps) (simp_all add: same_grant_def)
  have f: "list_all2 same_grant list (LTENR_PRB_UpdateRank_FAIR N list)" for N
    by (auto simp: LTENR_PRB_UpdateRank_FAIR_def Let_def comp_def intro!: same_grants_maps) (simp_all add: same_grant_def)
  have "list_all2 same_grant list (map (\<lambda>c. c\<lparr>var2 := f c\<rparr>) list)" for f
    by (rule same_grants_maps) (simp add: same_grant_def)
  then show ?thesis using assms r f
    by (auto simp: prb_update_rank_def LTENR_PRB_UpdateRank_ProportionalFair_def list_all2_refl
        split: LTENR_GnbSchedulingType.splits if_splits elim!: rbind_InrE)
qed

lemma SetRank_keeps: "list_all2 same_grant list (LTENR_PRB_SetRank ty list)"
proof -
  have fs: "list_all2 same_grant list (fst (fair_shares s list p))" for s p
    by (induction s list p rule: fair_shares.induct) (auto simp: Let_def same_grant_def split: prod.splits)
  have ff: "list_all2 same_grant l (map (fair_set p) l)" for p l
    by (rule same_grants_maps) (simp add: fair_set_def same_grant_def)
  have "list_all2 same_grant list (map (\<lambda>c. c\<lparr>rank := 1, initRank := 1\<rparr>) list)"
    "list_all2 same_grant list (map (\<lambda>c. c\<lparr>rank := 1, initRank := 1, var2 := 1\<rparr>) list)"
    by (rule same_grants_maps, simp add: same_grant_def)+
  then show ?thesis using same_grants_trans [OF fs ff]
    by (auto simp: LTENR_PRB_SetRank_def Let_def list_all2_refl split: LTENR_GnbSchedulingType.splits prod.splits)
      (metis fst_conv)
qed

lemma prb_rank_keeps:
  assumes "prb_rank E si list ps = Inr l"
  shows "list_all2 same_grant list l"
proof -
  have m: "list_all2 same_grant list (LTENR_PRB_InitRank_MaxThroughput list)"
    unfolding LTENR_PRB_InitRank_MaxThroughput_def by (rule same_grants_maps) (simp add: same_grant_def)
  have "list_all2 same_grant list l" if "LTENR_PRB_InitRank_ProportionalFair E infos list = Inr l" for infos
  proof -
    have "list_all2 same_grant xs ys" if "on_all (\<lambda>c u. rbind (pf_rank E infos c) (\<lambda>c. Inr (c, u))) xs () = Inr (ys, u)" for xs ys u
      using that
    proof (induction xs arbitrary: ys u)
      case (Cons x xs)
      have "same_grant x y" if "pf_rank E infos x = Inr y" for y
        using that by (auto simp: pf_rank_def Let_def same_grant_def split: LTENR_SLOTTYPE.splits elim!: rbind_InrE)
      then show ?case using Cons by (auto elim!: rbind_InrE)
    qed simp
    then show ?thesis using that by (auto simp: LTENR_PRB_InitRank_ProportionalFair_def elim!: rbind_InrE)
  qed
  then show ?thesis using assms m by (auto simp: prb_rank_def list_all2_refl split: LTENR_GnbSchedulingType.splits)
qed

lemma allocate_list_more:
  assumes "plain_carrier E ps" and "prb_rank E si list ps = Inr l" and "pdcp_known l ps"
    and "\<forall>c \<in> set l. passed_over E sl c \<or> allocatedPRBCount c = 0"
  shows "\<exists>ys ps3. mset ys = mset l \<and> descending ys \<and> prb_same ps ps3
    \<and> allocate_list E si t sl list ps
        = prb_update_rank E si (map2 topped ys (prb_shares (unat t) (map (prb_demand E sl) ys))) ps3"
proof -
  obtain ys where ys: "LTENR_PRB_SortingofRank l = Inr ys" "descending ys" "mset ys = mset l" using sorting_sorts by blast
  then have "set ys = set l" by (metis set_mset_mset)
  then have k: "pdcp_known ys ps" "\<forall>c \<in> set ys. passed_over E sl c \<or> allocatedPRBCount c = 0"
    using assms(3,4) by (simp_all add: pdcp_known_def)
  obtain t' ps3 where "on_all (allocate_ue E sl (si_ueId (hd ys), si_ueIf (hd ys))) ys (t, ps)
      = Inr (map2 topped ys (prb_shares (unat t) (map (prb_demand E sl) ys)), t', ps3)" "prb_same ps ps3"
    using allocate_all_more [OF assms(1) k] by blast
  then show ?thesis using ys assms(2) by (auto simp: allocate_list_def)
qed

lemma allocate_list_run:
  assumes "plain_carrier E ps" and "prb_rank E si list ps = Inr l" and "pdcp_known l ps"
    and "\<forall>c \<in> set l. allocatedPRBCount c = 0"
  shows "\<exists>ys ps3. mset ys = mset l \<and> descending ys \<and> prb_same ps ps3
    \<and> allocate_list E si t sl list ps
        = prb_update_rank E si (map2 granted ys (prb_shares (unat t) (map (prb_demand E sl) ys))) ps3"
proof -
  obtain ys ps3 where y: "mset ys = mset l" "descending ys" "prb_same ps ps3" "allocate_list E si t sl list ps
        = prb_update_rank E si (map2 topped ys (prb_shares (unat t) (map (prb_demand E sl) ys))) ps3"
    using allocate_list_more [OF assms(1-3), of sl t] assms(4) by blast
  have "set ys = set l" using y(1) by (metis set_mset_mset)
  then have z: "\<forall>c \<in> set ys. allocatedPRBCount c = 0" using assms(4) by simp
  show ?thesis using y unfolding topped_granted [OF z] by blast
qed

text \<open>
  C12. With the bandwidth part fixed, the resource blocks of a slot go to the UEs in falling order of
  their ranks: each gets all it asks for as long as enough are left, the next one the rest, the others
  none; together they get what is there or all they ask for. No turn of the loop faults.
\<close>

theorem prb_allocation_by_rank:
  assumes "plain_carrier E ps" and "prb_rank E si list ps = Inr l" and "pdcp_known l ps"
    and "\<forall>c \<in> set l. allocatedPRBCount c = 0"
  shows "\<exists>ys ns ps3. mset ys = mset l \<and> sorted_wrt (\<lambda>a b. rank b \<le> rank a) ys
    \<and> ns = prb_shares (unat t) (map (prb_demand E sl) ys) \<and> sum_list ns = min (unat t) (sum_list (map (prb_demand E sl) l))
    \<and> allocate_list E si t sl list ps = prb_update_rank E si (map2 granted ys ns) ps3 \<and> prb_same ps ps3"
proof -
  obtain ys ps3 where y: "mset ys = mset l" "descending ys" "prb_same ps ps3" "allocate_list E si t sl list ps
        = prb_update_rank E si (map2 granted ys (prb_shares (unat t) (map (prb_demand E sl) ys))) ps3"
    using allocate_list_run [OF assms, of t sl] by blast
  moreover have "sum_list (map (prb_demand E sl) ys) = sum_list (map (prb_demand E sl) l)"
    by (metis y(1) mset_map sum_mset_sum_list)
  ultimately show ?thesis by (auto simp: prb_shares_sum descending_def)
qed


section \<open>The resource blocks of a slot\<close>

lemma same_grants_sum:
  "list_all2 same_grant l l' \<Longrightarrow> sum_list (map (\<lambda>c. unat (allocatedPRBCount c)) l') = sum_list (map (\<lambda>c. unat (allocatedPRBCount c)) l)"
  by (induction l l' rule: list_all2_induct) (auto simp: same_grant_def)

lemma granted_sum:
  "length ns = length cs \<Longrightarrow> \<forall>n \<in> set ns. n < 2 ^ 32 \<Longrightarrow> map (\<lambda>c. unat (allocatedPRBCount c)) (map2 granted cs ns) = ns"
  by (induction ns cs rule: list_induct2) (auto simp: unsigned_of_nat take_bit_nat_eq_self)

lemma prb_shares_length [simp]: "length (prb_shares t ds) = length ds"
  by (induction t ds rule: prb_shares.induct) auto

lemma prb_shares_le: "n \<in> set (prb_shares t ds) \<Longrightarrow> n \<le> t"
  by (induction t ds rule: prb_shares.induct) (auto dest: order_trans [OF _ diff_le_self])

lemma granted_grants: "length ns = length cs \<Longrightarrow> map (prb_demand E sl) (map2 granted cs ns) = map (prb_demand E sl) cs
    \<and> map ue_key (map2 granted cs ns) = map ue_key cs"
  by (induction ns cs rule: list_induct2) (auto simp: prb_demand_def PRBs_needed_def ue_key_def)

lemma pdcp_known_keys: "pdcp_known l ps \<longleftrightarrow> (\<forall>k \<in> set (map ue_key l). TotalPDSCHBytes ps k \<noteq> None)"
  by (simp add: pdcp_known_def)

lemma none_allocated: "(\<forall>c \<in> set l. allocatedPRBCount c = 0) \<longleftrightarrow> set (map allocatedPRBCount l) \<subseteq> {0}"
  by auto

lemma allocate_list_sums:
  assumes "allocate_list E si t sl list ps = Inr (list', ps')" and "plain_carrier E ps" and "pdcp_known list ps"
    and "\<forall>c \<in> set list. allocatedPRBCount c = 0"
  shows "sum_list (map (\<lambda>c. unat (allocatedPRBCount c)) list') = min (unat t) (sum_list (map (prb_demand E sl) list'))
    \<and> mset (map ue_key list') = mset (map ue_key list)"
proof -
  obtain l where l: "prb_rank E si list ps = Inr l" using assms(1) by (auto simp: allocate_list_def elim!: rbind_InrE)
  note k = prb_rank_keeps [OF l]
  have kn: "pdcp_known l ps" "\<forall>c \<in> set l. allocatedPRBCount c = 0"
    using same_grants_map [OF k, of E sl] assms(3,4) unfolding pdcp_known_keys none_allocated by simp_all
  let ?ns = "\<lambda>ys. prb_shares (unat t) (map (prb_demand E sl) ys)"
  obtain ys ps3 where y: "mset ys = mset l" "prb_update_rank E si (map2 granted ys (?ns ys)) ps3 = Inr (list', ps')"
    using allocate_list_run [OF assms(2) l kn, of t sl] assms(1) by auto
  note g = same_grants_map [OF prb_update_rank_keeps [OF y(2)], of E sl] same_grants_sum [OF prb_update_rank_keeps [OF y(2)]]
  have "\<forall>n \<in> set (?ns ys). n < 2 ^ 32" using prb_shares_le unsigned_less [of t, where 'a = nat] by (auto dest: order.strict_trans1)
  then have "map (\<lambda>c. unat (allocatedPRBCount c)) (map2 granted ys (?ns ys)) = ?ns ys" by (intro granted_sum) simp
  moreover have "map (prb_demand E sl) (map2 granted ys (?ns ys)) = map (prb_demand E sl) ys"
    "map ue_key (map2 granted ys (?ns ys)) = map ue_key ys" using granted_grants [of "?ns ys" ys] by auto
  moreover have "mset (map ue_key ys) = mset (map ue_key l)" using y(1) by (simp only: mset_map)
  ultimately show ?thesis using g same_grants_map [OF k, of E sl] by (simp add: prb_shares_sum)
qed

text \<open>The resource blocks a slot has beside the overhead.\<close>

definition prb_room :: "LTENR_SCHEDULERINFO \<Rightarrow> real \<Rightarrow> nat" where
  "prb_room si oh = unat (PRBCount si) - unat (UINT_of_double (of_int \<lceil>double_of_UINT (PRBCount si) * oh\<rceil>))"

lemma unat_sub_wrap: "unat x < unat y \<Longrightarrow> unat (x - y) = 2 ^ 32 + unat x - unat y" for x y :: u32
  by (simp add: unat_sub_if_size word_size)

lemma PRBs_available_room:
  assumes "UINT_of_double (of_int \<lceil>double_of_UINT (PRBCount si) * oh\<rceil>) \<le> PRBCount si"
  shows "unat (PRBs_available si oh) =
     (if unat (TotalPRBReqdForHARQRetransmission si) \<le> prb_room si oh
      then prb_room si oh - unat (TotalPRBReqdForHARQRetransmission si)
      else 2 ^ 32 + prb_room si oh - unat (TotalPRBReqdForHARQRetransmission si))"
proof -
  let ?r = "PRBCount si - UINT_of_double (of_int \<lceil>double_of_UINT (PRBCount si) * oh\<rceil>)" and ?h = "TotalPRBReqdForHARQRetransmission si"
  have r: "unat ?r = prb_room si oh" using unat_sub [OF assms] by (simp add: prb_room_def)
  show ?thesis
  proof (cases "?h \<le> ?r")
    case True
    then show ?thesis using unat_sub [OF True] r by (simp add: PRBs_available_def word_le_nat_alt)
  next
    case False
    then have h: "prb_room si oh < unat ?h" using r by (simp add: word_le_nat_alt)
    then show ?thesis using unat_sub_wrap [of ?r ?h] r by (simp add: PRBs_available_def)
  qed
qed

section \<open>One slice after the other\<close>

definition slice_of :: "prb_env \<Rightarrow> LTENR_UESCHEDULERINFO \<Rightarrow> nat" where
  "slice_of E c = unat (ueSliceId (pe_nws E) (si_ueId c))"

text \<open>What the UEs of a slice hold, and what they ask for.\<close>

definition slice_holds :: "prb_env \<Rightarrow> nat \<Rightarrow> LTENR_UESCHEDULERINFO list \<Rightarrow> nat" where
  "slice_holds E k l = sum_list (map (\<lambda>c. unat (allocatedPRBCount c)) (filter (\<lambda>c. slice_of E c = k) l))"

definition slice_asks :: "prb_env \<Rightarrow> nat \<Rightarrow> LTENR_UESCHEDULERINFO list \<Rightarrow> nat" where
  "slice_asks E k l = sum_list (map (prb_demand E (of_nat k)) (filter (\<lambda>c. slice_of E c = k) l))"

type_synonym ue_ask = "(netsim_id \<times> netsim_id) \<times> u32 \<times> u64"

definition ue_ask :: "LTENR_UESCHEDULERINFO \<Rightarrow> ue_ask" where
  "ue_ask c = (ue_key c, bufferSize c, bitsPerPRB c)"

definition ue_full :: "LTENR_UESCHEDULERINFO \<Rightarrow> ue_ask \<times> u32" where
  "ue_full c = (ue_ask c, allocatedPRBCount c)"

lemma same_grants_full: "list_all2 same_grant l l' \<Longrightarrow> map ue_full l' = map ue_full l"
  by (induction l l' rule: list_all2_induct) (simp_all add: same_grant_def ue_full_def ue_ask_def ue_key_def)

lemma full_ask: "map ue_ask l = map fst (map ue_full l)"
  by (simp add: ue_full_def comp_def)

text \<open>The slice and the demand of a UE read from what it asks for.\<close>

definition ask_slice_of :: "prb_env \<Rightarrow> ue_ask \<Rightarrow> nat" where
  "ask_slice_of E k = unat (ueSliceId (pe_nws E) (fst (fst k)))"

definition ask_demand :: "prb_env \<Rightarrow> netsim_id \<Rightarrow> ue_ask \<Rightarrow> nat" where
  "ask_demand E sl k = (case k of (u, n, b) \<Rightarrow>
     if rsrcSharingTechnique (pe_nws E) = LTENR_RESOURCE_SHARING_STATIC \<and> ueSliceId (pe_nws E) (fst u) \<noteq> sl \<or> b = 0 then 0
     else unat (UINT_of_double (of_int \<lceil>double_of_UINT n * 8 / real (unat b)\<rceil>)))"

lemma ask_slice_of [simp]: "ask_slice_of E (ue_ask c) = slice_of E c"
  by (simp add: ask_slice_of_def slice_of_def ue_ask_def ue_key_def)

lemma ask_demand [simp]: "ask_demand E sl (ue_ask c) = prb_demand E sl c"
  by (simp add: ask_demand_def ue_ask_def ue_key_def prb_demand_def PRBs_needed_def)

lemma slice_asks_ask:
  "slice_asks E k l = sum_mset (image_mset (ask_demand E (of_nat k)) (filter_mset (\<lambda>q. ask_slice_of E q = k) (mset (map ue_ask l))))"
  by (simp add: slice_asks_def filter_mset_image_mset multiset.map_comp comp_def sum_mset_sum_list [symmetric] flip: mset_filter)

lemma slice_holds_full:
  "slice_holds E k l = sum_mset (image_mset (\<lambda>q. unat (snd q)) (filter_mset (\<lambda>q. ask_slice_of E (fst q) = k) (mset (map ue_full l))))"
  by (simp add: slice_holds_def filter_mset_image_mset multiset.map_comp comp_def sum_mset_sum_list [symmetric] ue_full_def flip: mset_filter)

text \<open>A call for one slice leaves the UEs of the others as they are.\<close>

lemma topped_others:
  assumes "\<forall>c \<in> set ys. slice_of E c \<noteq> k \<longrightarrow> prb_demand E sl c = 0"
  shows "filter (\<lambda>c. slice_of E c \<noteq> k) (map2 topped ys (prb_shares t (map (prb_demand E sl) ys))) = filter (\<lambda>c. slice_of E c \<noteq> k) ys"
  using assms by (induction ys arbitrary: t) (auto simp: slice_of_def)

lemma topped_slice:
  assumes "\<forall>c \<in> set ys. slice_of E c \<noteq> k \<longrightarrow> prb_demand E sl c = 0"
    and "\<forall>c \<in> set ys. slice_of E c = k \<longrightarrow> allocatedPRBCount c = 0" and "t < 2 ^ 32"
  shows "slice_holds E k (map2 topped ys (prb_shares t (map (prb_demand E sl) ys)))
    = sum_list (prb_shares t (map (prb_demand E sl) ys))"
  using assms
proof (induction ys arbitrary: t)
  case (Cons c cs)
  let ?n = "min (prb_demand E sl c) t"
  have s: "slice_of E (c\<lparr>allocatedPRBCount := x\<rparr>) = slice_of E c" for x by (simp add: slice_of_def)
  have n: "?n < 2 ^ 32" "t - ?n < 2 ^ 32" using Cons.prems(3) by auto
  have ih: "slice_holds E k (map2 topped cs (prb_shares (t - ?n) (map (prb_demand E sl) cs)))
      = sum_list (prb_shares (t - ?n) (map (prb_demand E sl) cs))"
    by (rule Cons.IH) (use Cons.prems n in auto)
  show ?case
  proof (cases "slice_of E c = k")
    case True
    then have "allocatedPRBCount c = 0" using Cons.prems(2) by simp
    then show ?thesis using ih True unat_of_nat_small [OF n(1)] by (simp add: slice_holds_def s)
  next
    case False
    then have "prb_demand E sl c = 0" using Cons.prems(1) by simp
    then show ?thesis using ih False by (simp add: slice_holds_def s)
  qed
qed (simp add: slice_holds_def)

text \<open>The percentages of the slices do not change.\<close>

definition percentages :: "prb_state \<Rightarrow> (real \<times> real) list" where
  "percentages ps = map (\<lambda>i. (resourceAllocationPercentage (uplinkBandwidth i), resourceAllocationPercentage (downlinkBandwidth i))) (ps_Info ps)"

lemma for_slices_percentages:
  assumes "for_slices n f infos = Inr infos'"
    and "\<And>s i. resourceAllocationPercentage (uplinkBandwidth (f s i)) = resourceAllocationPercentage (uplinkBandwidth i)
       \<and> resourceAllocationPercentage (downlinkBandwidth (f s i)) = resourceAllocationPercentage (downlinkBandwidth i)"
  shows "map (\<lambda>i. (resourceAllocationPercentage (uplinkBandwidth i), resourceAllocationPercentage (downlinkBandwidth i))) infos'
    = map (\<lambda>i. (resourceAllocationPercentage (uplinkBandwidth i), resourceAllocationPercentage (downlinkBandwidth i))) infos"
proof -
  have "map (\<lambda>i. (resourceAllocationPercentage (uplinkBandwidth i), resourceAllocationPercentage (downlinkBandwidth i))) infos'
    = map (\<lambda>i. (resourceAllocationPercentage (uplinkBandwidth i), resourceAllocationPercentage (downlinkBandwidth i))) infos"
    if "fold_result (\<lambda>s infos. rbind (arr_get infos s) (\<lambda>i. Inr (infos[s := f s i]))) ks infos = Inr infos'" for ks infos infos'
    using that
  proof (induction ks arbitrary: infos)
    case (Cons s ks)
    then show ?case using assms(2) by (auto simp: arr_get_def map_update list_update_same_conv elim!: rbind_InrE split: if_splits)
  qed simp
  then show ?thesis using assms(1) by (simp add: for_slices_def)
qed

lemma update_rank_state:
  assumes "prb_update_rank E si l ps = Inr (l', ps')"
  shows "ps_CA ps' = ps_CA ps \<and> TotalPDSCHBytes ps' = TotalPDSCHBytes ps \<and> percentages ps' = percentages ps"
proof -
  have u: "resourceAllocationPercentage (uplinkBandwidth (on_direction st g i)) = resourceAllocationPercentage (uplinkBandwidth i)
       \<and> resourceAllocationPercentage (downlinkBandwidth (on_direction st g i)) = resourceAllocationPercentage (downlinkBandwidth i)"
    if "\<And>b. resourceAllocationPercentage (g b) = resourceAllocationPercentage b" for st g i
    using that by (cases st) (simp_all add: on_direction_def)
  have "percentages (ps\<lparr>ps_Info := infos\<rparr>) = percentages ps"
    if "LTENR_PRB_UpdateRank_ProportionalFair E l (ps_Info ps) = Inr (l'', infos)" for l'' infos
    using that for_slices_percentages u
    by (auto simp: LTENR_PRB_UpdateRank_ProportionalFair_def LTENR_PRB_UpdateSumAvgThroughput_ProportionalFair_def
        LTENR_PRB_UpdateIndexBias_ProportionalFair_def percentages_def bias_bandwidth_def elim!: rbind_InrE split: if_splits)
  then show ?thesis using assms
    by (auto simp: prb_update_rank_def split: LTENR_GnbSchedulingType.splits elim!: rbind_InrE)
qed

lemma filter_full:
  "filter_mset (\<lambda>q. ask_slice_of E (fst q) \<noteq> k) (mset (map ue_full l)) = mset (map ue_full (filter (\<lambda>c. slice_of E c \<noteq> k) l))"
  by (induction l) (simp_all add: ue_full_def)

lemma length_percentages: "length (percentages ps) = length (ps_Info ps)"
  by (simp add: percentages_def)

lemma slice_call:
  assumes run: "allocate_list E si t (of_nat k) list ps = Inr (list', ps')" and "plain_carrier E ps" and "pdcp_known list ps"
    and static: "rsrcSharingTechnique (pe_nws E) = LTENR_RESOURCE_SHARING_STATIC" and k: "k < 2 ^ 32"
    and zero: "\<forall>q \<in> set (map ue_full list). ask_slice_of E (fst q) = k \<longrightarrow> snd q = 0"
  shows "mset (map ue_ask list') = mset (map ue_ask list)"
    and "filter_mset (\<lambda>q. ask_slice_of E (fst q) \<noteq> k) (mset (map ue_full list')) = filter_mset (\<lambda>q. ask_slice_of E (fst q) \<noteq> k) (mset (map ue_full list))"
    and "slice_holds E k list' = min (unat t) (slice_asks E k list)"
    and "plain_carrier E ps'" and "dom (TotalPDSCHBytes ps') = dom (TotalPDSCHBytes ps)" and "percentages ps' = percentages ps"
proof -
  obtain l where l: "prb_rank E si list ps = Inr l" using run by (auto simp: allocate_list_def elim!: rbind_InrE)
  note fl = same_grants_full [OF prb_rank_keeps [OF l]]
  then have keys: "map ue_key l = map ue_key list"
    using same_grants_map [OF prb_rank_keeps [OF l], of E 0] by simp
  have eq: "slice_of E c = k \<longleftrightarrow> ueSliceId (pe_nws E) (si_ueId c) = of_nat k" for c
    using k by (auto simp: slice_of_def unat_of_nat_small word_unat_eq_iff)
  have kn: "pdcp_known l ps" using assms(3) unfolding pdcp_known_keys keys .
  have zl: "\<forall>c \<in> set l. slice_of E c = k \<longrightarrow> allocatedPRBCount c = 0"
  proof -
    have "\<forall>q \<in> set (map ue_full l). ask_slice_of E (fst q) = k \<longrightarrow> snd q = 0" using zero unfolding fl .
    then show ?thesis by (simp add: ue_full_def)
  qed
  have "\<forall>c \<in> set l. passed_over E (of_nat k) c \<or> allocatedPRBCount c = 0"
    using zl eq static by (auto simp: passed_over_def)
  from allocate_list_more [OF assms(2) l kn this, of t] obtain ys ps3 where y: "mset ys = mset l" "prb_same ps ps3"
    "prb_update_rank E si (map2 topped ys (prb_shares (unat t) (map (prb_demand E (of_nat k)) ys))) ps3 = Inr (list', ps')"
    using run by auto
  let ?zs = "map2 topped ys (prb_shares (unat t) (map (prb_demand E (of_nat k)) ys))"
  have f': "map ue_full list' = map ue_full ?zs" by (rule same_grants_full [OF prb_update_rank_keeps [OF y(3)]])
  have sy: "set ys = set l" using y(1) by (metis set_mset_mset)
  have none: "\<forall>c \<in> set ys. slice_of E c \<noteq> k \<longrightarrow> prb_demand E (of_nat k) c = 0"
    using eq static by (simp add: prb_demand_def)
  have zy: "\<forall>c \<in> set ys. slice_of E c = k \<longrightarrow> allocatedPRBCount c = 0" using zl sy by simp
  have perm: "mset (map ue_full ys) = mset (map ue_full list)" using y(1) fl by (metis mset_map)
  have "map ue_ask (map2 topped ys ns) = map ue_ask ys" if "length ns = length ys" for ns
    using that by (induction ns ys rule: list_induct2) (simp_all add: ue_ask_def ue_key_def)
  then have asks: "map ue_ask ?zs = map ue_ask ys" by simp
  have asks': "mset (map ue_ask list') = mset (map ue_ask ys)" unfolding full_ask f' unfolding full_ask [symmetric] asks ..
  moreover have "mset (map ue_ask ys) = mset (map ue_ask list)" using perm unfolding full_ask by (metis mset_map)
  ultimately show am: "mset (map ue_ask list') = mset (map ue_ask list)" by simp
  have "filter_mset (\<lambda>q. ask_slice_of E (fst q) \<noteq> k) (mset (map ue_full ?zs)) = filter_mset (\<lambda>q. ask_slice_of E (fst q) \<noteq> k) (mset (map ue_full ys))"
    unfolding filter_full topped_others [OF none] ..
  then show "filter_mset (\<lambda>q. ask_slice_of E (fst q) \<noteq> k) (mset (map ue_full list')) = filter_mset (\<lambda>q. ask_slice_of E (fst q) \<noteq> k) (mset (map ue_full list))"
    unfolding f' perm .
  have "slice_holds E k list' = slice_holds E k ?zs" unfolding slice_holds_full f' ..
  also have "\<dots> = min (unat t) (sum_list (map (prb_demand E (of_nat k)) ys))"
    using topped_slice [OF none zy, of "unat t"] unsigned_less [of t, where 'a = nat] by (simp add: prb_shares_sum)
  also have "sum_list (map (prb_demand E (of_nat k)) ys) = slice_asks E k ys"
    unfolding slice_asks_def by (rule sum_list_map_filter [symmetric]) (use none in auto)
  also have "slice_asks E k ys = slice_asks E k list"
    unfolding slice_asks_ask using asks' am by simp
  finally show "slice_holds E k list' = min (unat t) (slice_asks E k list)" .
  note u = update_rank_state [OF y(3)]
  show "plain_carrier E ps'" using assms(2) y(2) u by (simp add: plain_carrier_def prb_same_def)
  show "dom (TotalPDSCHBytes ps') = dom (TotalPDSCHBytes ps)" using y(2) u by (simp add: prb_same_def)
  show "percentages ps' = percentages ps" using y(2) u by (simp add: percentages_def prb_same_def)
qed

lemma AllocatePRB_run:
  assumes "LTENR_PRB_AllocatePRB E ul t sl si ps = Inr (si', ps')" and "isUERRCSetUpCompleted si"
  obtains si1 list where "allocate_list E si1 t sl list ps = Inr (ue_infos ul si', ps')" and "list_all2 same_grant (ue_infos ul si) list"
    and "isUERRCSetUpCompleted si'"
proof -
  define si1 where "si1 = (if isPRBRankInit si then si
     else si\<lparr>downlinkInfo := LTENR_PRB_SetRank (schedulingType si) (downlinkInfo si),
             uplinkInfo := LTENR_PRB_SetRank (schedulingType si) (uplinkInfo si), isPRBRankInit := True\<rparr>)"
  have "list_all2 same_grant (ue_infos ul si) (ue_infos ul si1)"
    using SetRank_keeps by (simp add: si1_def ue_infos_def list_all2_refl)
  moreover obtain list ps1 where "allocate_list E si1 t sl (ue_infos ul si1) ps = Inr (list, ps1)" "si' = set_ue_infos ul list si1" "ps1 = ps'"
    using assms unfolding LTENR_PRB_AllocatePRB_def Let_def si1_def [symmetric] by (auto elim!: rbind_InrE)
  moreover have "isUERRCSetUpCompleted si1" using assms(2) by (simp add: si1_def)
  ultimately show thesis using that by (simp add: ue_infos_def set_ue_infos_def)
qed

text \<open>The part of a slice, of what is available.\<close>

definition slice_part :: "bool \<Rightarrow> prb_state \<Rightarrow> u32 \<Rightarrow> nat \<Rightarrow> nat" where
  "slice_part ul ps avail s =
     (let i = ps_Info ps ! s
      in unat (UINT_of_double (double_of_UINT avail / 100 * resourceAllocationPercentage (if ul then uplinkBandwidth i else downlinkBandwidth i))))"

lemma slice_part_percentages:
  "s < length (ps_Info ps) \<Longrightarrow> slice_part ul ps avail s
     = unat (UINT_of_double (double_of_UINT avail / 100 * (if ul then fst else snd) (percentages ps ! s)))"
  by (simp add: slice_part_def percentages_def Let_def)

text \<open>After the calls for the slices below \<open>m\<close>.\<close>

definition slices_served :: "prb_env \<Rightarrow> bool \<Rightarrow> u32 \<Rightarrow> LTENR_UESCHEDULERINFO list \<Rightarrow> prb_state \<Rightarrow> nat \<Rightarrow> LTENR_SCHEDULERINFO \<times> prb_state \<Rightarrow> bool" where
  "slices_served E ul avail list0 ps0 m x \<longleftrightarrow> (case x of (si, ps) \<Rightarrow>
     isUERRCSetUpCompleted si \<and> plain_carrier E ps \<and> dom (TotalPDSCHBytes ps) = dom (TotalPDSCHBytes ps0) \<and> percentages ps = percentages ps0
     \<and> mset (map ue_ask (ue_infos ul si)) = mset (map ue_ask list0)
     \<and> (\<forall>q \<in> set (map ue_full (ue_infos ul si)). m \<le> ask_slice_of E (fst q) \<longrightarrow> snd q = 0)
     \<and> (\<forall>s < m. slice_holds E s (ue_infos ul si) = min (slice_part ul ps0 avail s) (slice_asks E s list0)))"

lemma slice_served_step:
  assumes inv: "slices_served E ul avail list0 ps0 m (si, ps)" and known: "pdcp_known list0 ps0"
    and static: "rsrcSharingTechnique (pe_nws E) = LTENR_RESOURCE_SHARING_STATIC" and m: "m < 2 ^ 32"
    and info: "arr_get (ps_Info ps) m = Inr i"
    and run: "LTENR_PRB_AllocatePRB E ul (UINT_of_double (double_of_UINT avail / 100
       * resourceAllocationPercentage (if ul then uplinkBandwidth i else downlinkBandwidth i))) (of_nat m) si ps = Inr y"
  shows "slices_served E ul avail list0 ps0 (Suc m) y"
proof -
  obtain si' ps' where y: "y = (si', ps')" by (cases y)
  let ?t = "UINT_of_double (double_of_UINT avail / 100 * resourceAllocationPercentage (if ul then uplinkBandwidth i else downlinkBandwidth i))"
  note i = inv [unfolded slices_served_def prod.case]
  obtain si1 list where l: "allocate_list E si1 ?t (of_nat m) list ps = Inr (ue_infos ul si', ps')"
      "list_all2 same_grant (ue_infos ul si) list" "isUERRCSetUpCompleted si'"
    using AllocatePRB_run [OF run [unfolded y]] i by blast
  note full = same_grants_full [OF l(2)]
  have ask: "map ue_ask list = map ue_ask (ue_infos ul si)" unfolding full_ask full ..
  have keys: "set (map ue_key list) = set (map ue_key list0)"
  proof -
    have "set (map ue_ask list) = set (map ue_ask list0)" using i ask by (metis set_mset_mset)
    then have "fst ` set (map ue_ask list) = fst ` set (map ue_ask list0)" by simp
    then show ?thesis by (simp add: image_image ue_ask_def)
  qed
  have kn: "pdcp_known list ps" using known i unfolding pdcp_known_keys keys by (auto simp: dom_def)
  have zero: "\<forall>q \<in> set (map ue_full list). ask_slice_of E (fst q) = m \<longrightarrow> snd q = 0" using i unfolding full by auto
  have plain: "plain_carrier E ps" using i by blast
  note c = slice_call [OF l(1) plain kn static m zero]
  have others: "slice_holds E s (ue_infos ul si') = slice_holds E s (ue_infos ul si)" if "s < m" for s
  proof -
    have f: "filter_mset (\<lambda>q. ask_slice_of E (fst q) = s) M
        = filter_mset (\<lambda>q. ask_slice_of E (fst q) = s) (filter_mset (\<lambda>q. ask_slice_of E (fst q) \<noteq> m) M)" for M :: "(ue_ask \<times> u32) multiset"
      using that unfolding filter_filter_mset by (intro filter_mset_cong refl) auto
    show ?thesis unfolding slice_holds_full f [of "mset (map ue_full (ue_infos ul si'))"] c(2) f [symmetric] full ..
  qed
  have ml: "m < length (ps_Info ps)" using info by (simp add: arr_get_def split: if_splits)
  have "percentages ps = percentages ps0" using i by blast
  moreover from this have "length (ps_Info ps) = length (ps_Info ps0)" by (metis length_percentages)
  moreover have "ps_Info ps ! m = i" using info ml by (simp add: arr_get_def)
  then have "unat ?t = slice_part ul ps avail m" by (simp add: slice_part_def Let_def)
  ultimately have part: "unat ?t = slice_part ul ps0 avail m"
    using ml by (simp add: slice_part_percentages)
  have mm: "slice_asks E m list = slice_asks E m list0" unfolding slice_asks_ask ask using i by simp
  have "snd q = 0" if "q \<in> set (map ue_full (ue_infos ul si'))" "Suc m \<le> ask_slice_of E (fst q)" for q
  proof -
    have "q \<in># filter_mset (\<lambda>q. ask_slice_of E (fst q) \<noteq> m) (mset (map ue_full (ue_infos ul si')))" using that by auto
    then have "q \<in> set (map ue_full (ue_infos ul si))" unfolding c(2) full by auto
    with i that(2) show ?thesis by auto
  qed
  moreover have "\<forall>s < Suc m. slice_holds E s (ue_infos ul si') = min (slice_part ul ps0 avail s) (slice_asks E s list0)"
    using i others c(3) part mm by (auto simp: less_Suc_eq)
  moreover have "mset (map ue_ask (ue_infos ul si')) = mset (map ue_ask list0)" using c(1) ask i by metis
  ultimately show ?thesis using i c(4-6) l(3) unfolding y slices_served_def prod.case by simp
qed

lemma slices_run:
  assumes "fold_result (\<lambda>s (si, ps). rbind (arr_get (ps_Info ps) s) (\<lambda>i.
             let p = resourceAllocationPercentage (if ul then uplinkBandwidth i else downlinkBandwidth i)
             in LTENR_PRB_AllocatePRB E ul (UINT_of_double (double_of_UINT avail / 100 * p)) (of_nat s) si ps)) [0..<m] (si, ps) = Inr y"
    and "slices_served E ul avail list0 ps0 0 (si, ps)" and "pdcp_known list0 ps0"
    and "rsrcSharingTechnique (pe_nws E) = LTENR_RESOURCE_SHARING_STATIC" and "m \<le> 2 ^ 32"
  shows "slices_served E ul avail list0 ps0 m y"
  using assms(1,5)
proof (induction m arbitrary: y)
  case 0
  then show ?case using assms(2) by simp
next
  case (Suc m)
  let ?f = "\<lambda>s (si, ps). rbind (arr_get (ps_Info ps) s) (\<lambda>i.
             let p = resourceAllocationPercentage (if ul then uplinkBandwidth i else downlinkBandwidth i)
             in LTENR_PRB_AllocatePRB E ul (UINT_of_double (double_of_UINT avail / 100 * p)) (of_nat s) si ps)"
  obtain x where x: "fold_result ?f [0..<m] (si, ps) = Inr x" "?f m x = Inr y"
    using Suc.prems(1) by (auto simp: fold_result_append elim!: rbind_InrE)
  obtain si1 ps1 where 1: "x = (si1, ps1)" by (cases x)
  have "slices_served E ul avail list0 ps0 m (si1, ps1)" using Suc.IH [OF x(1)] Suc.prems(2) 1 by simp
  moreover obtain i where "arr_get (ps_Info ps1) m = Inr i"
    "LTENR_PRB_AllocatePRB E ul (UINT_of_double (double_of_UINT avail / 100
       * resourceAllocationPercentage (if ul then uplinkBandwidth i else downlinkBandwidth i))) (of_nat m) si1 ps1 = Inr y"
    using x(2) 1 by (auto simp: Let_def elim!: rbind_InrE)
  moreover have "m < 2 ^ 32" using Suc.prems(2) by simp
  ultimately show ?case using slice_served_step assms(3,4) by blast
qed

text \<open>The list and the overhead of the direction of a slot.\<close>

definition overhead :: "bool \<Rightarrow> LTENR_SCHEDULERINFO \<Rightarrow> real" where
  "overhead ul si = (if ul then OH_UL si else OH_DL si)"

text \<open>What the scheduler starts from: the lists with nothing allocated.\<close>

lemma scheduler_start:
  assumes "LTENR_PRB_Scheduler E si ps = Inr (si', ps')"
    and "pe_slotType E = (if ul then SLOT_UPLINK else SLOT_DOWNLINK)" and "sch_slotType si = pe_slotType E"
    and "plain_carrier E ps" and "ue_infos ul si \<noteq> []"
  obtains si0 where "allocate_slices E ul (PRBs_available si (overhead ul si)) si0
       (ps\<lparr>initTotalPRBAvailable := double_of_UINT (PRBCount si)\<rparr>) = Inr (si', ps')"
    and "map ue_ask (ue_infos ul si0) = map ue_ask (ue_infos ul si)" and "\<forall>c \<in> set (ue_infos ul si0). allocatedPRBCount c = 0"
    and "isUERRCSetUpCompleted si0 = isUERRCSetUpCompleted si"
proof -
  define si0 where "si0 = (let ca = ps_CA ps ! pe_CA_ID E in
     si\<lparr>uplinkInfo := LTENR_PRB_ResetAllocationPRBCount (pe_nws E) ca (uplinkInfo si),
        downlinkInfo := LTENR_PRB_ResetAllocationPRBCount (pe_nws E) ca (downlinkInfo si)\<rparr>)"
  have "allocate_slices E ul (PRBs_available si (overhead ul si)) si0
       (ps\<lparr>initTotalPRBAvailable := double_of_UINT (PRBCount si)\<rparr>) = Inr (si', ps')"
    using assms by (cases ul) (simp_all add: LTENR_PRB_Scheduler_def si0_def plain_carrier_def arr_get_def Let_def ue_infos_def overhead_def)
  moreover have "map ue_ask (ue_infos ul si0) = map ue_ask (ue_infos ul si)" "\<forall>c \<in> set (ue_infos ul si0). allocatedPRBCount c = 0"
    "isUERRCSetUpCompleted si0 = isUERRCSetUpCompleted si"
    by (auto simp: si0_def ue_infos_def LTENR_PRB_ResetAllocationPRBCount_def ue_ask_def ue_key_def comp_def Let_def)
  ultimately show thesis using that by blast
qed

lemma key_ask: "map ue_key l = map fst (map ue_ask l)"
  by (simp add: ue_ask_def comp_def)

lemma ask_keys: "mset (map ue_ask l) = mset (map ue_ask l') \<Longrightarrow> mset (map ue_key l) = mset (map ue_key l')"
  unfolding key_ask by (metis mset_map)

lemma one_call:
  assumes "LTENR_PRB_AllocatePRB E ul t 0 si0 ps = Inr (si', ps')" and "isUERRCSetUpCompleted si0"
    and "plain_carrier E ps" and "pdcp_known (ue_infos ul si0) ps" and "\<forall>c \<in> set (ue_infos ul si0). allocatedPRBCount c = 0"
  shows "sum_list (map (\<lambda>c. unat (allocatedPRBCount c)) (ue_infos ul si')) = min (unat t) (sum_list (map (prb_demand E 0) (ue_infos ul si')))
    \<and> mset (map ue_key (ue_infos ul si')) = mset (map ue_key (ue_infos ul si0))"
proof -
  obtain si1 list where l: "allocate_list E si1 t 0 list ps = Inr (ue_infos ul si', ps')" "list_all2 same_grant (ue_infos ul si0) list"
    using AllocatePRB_run [OF assms(1,2)] by blast
  have k: "map ue_key list = map ue_key (ue_infos ul si0)" "map allocatedPRBCount list = map allocatedPRBCount (ue_infos ul si0)"
    using same_grants_map [OF l(2), of E 0] by simp_all
  have "pdcp_known list ps" "\<forall>c \<in> set list. allocatedPRBCount c = 0"
    using assms(4,5) unfolding pdcp_known_keys none_allocated k by auto
  from allocate_list_sums [OF l(1) assms(3) this] k(1) show ?thesis by simp
qed

text \<open>
  C11. What the scheduler of a slot hands out, in the direction of the slot, when bandwidth parts are
  off. Available are the resource blocks after the overhead and the retransmissions; when the
  retransmissions need more than there is, the subtraction wraps, and \<open>2 ^ 32\<close> less what is missing
  count as available. Before the RRC setup nobody gets anything. With static slices each
  slice has its percentage of what is available, and its UEs get together what they ask for or
  that part, whichever is less; UEs of other slices get nothing. Otherwise all UEs get
  together what they ask for or what is available, whichever is less. No UE leaves the list.
\<close>

theorem prb_scheduler_hands_out:
  assumes "LTENR_PRB_Scheduler E si ps = Inr (si', ps')"
    and "pe_slotType E = (if ul then SLOT_UPLINK else SLOT_DOWNLINK)" and "sch_slotType si = pe_slotType E"
    and "plain_carrier E ps" and "pdcp_known (ue_infos ul si) ps"
    and "UINT_of_double (of_int \<lceil>double_of_UINT (PRBCount si) * overhead ul si\<rceil>) \<le> PRBCount si"
  defines "room \<equiv> prb_room si (overhead ul si)" and "retx \<equiv> unat (TotalPRBReqdForHARQRetransmission si)"
    and "avail \<equiv> PRBs_available si (overhead ul si)" and "served \<equiv> ue_infos ul si'"
  shows "unat avail = (if retx \<le> room then room - retx else 2 ^ 32 + room - retx)
    \<and> mset (map ue_key served) = mset (map ue_key (ue_infos ul si))
    \<and> (if ue_infos ul si = [] then True
       else if \<not> isUERRCSetUpCompleted si then \<forall>c \<in> set served. allocatedPRBCount c = 0
       else if isSlicing (pe_nws E) \<and> rsrcSharingTechnique (pe_nws E) = LTENR_RESOURCE_SHARING_STATIC
       then (\<forall>s \<le> unat (sliceCount (pe_nws E)). slice_holds E s served = min (slice_part ul ps avail s) (slice_asks E s (ue_infos ul si)))
         \<and> (\<forall>c \<in> set served. unat (sliceCount (pe_nws E)) < slice_of E c \<longrightarrow> allocatedPRBCount c = 0)
       else sum_list (map (\<lambda>c. unat (allocatedPRBCount c)) served) = min (unat avail) (sum_list (map (prb_demand E 0) served)))"
proof (cases "ue_infos ul si = []")
  case True
  then have "si' = si" using assms(1-4) by (cases ul) (simp_all add: LTENR_PRB_Scheduler_def plain_carrier_def arr_get_def Let_def ue_infos_def)
  then show ?thesis using True PRBs_available_room [OF assms(6)] by (simp add: room_def retx_def avail_def served_def)
next
  case False
  let ?ps = "ps\<lparr>initTotalPRBAvailable := double_of_UINT (PRBCount si)\<rparr>"
  obtain si0 where s: "allocate_slices E ul avail si0 ?ps = Inr (si', ps')"
    and ask: "map ue_ask (ue_infos ul si0) = map ue_ask (ue_infos ul si)" and z: "\<forall>c \<in> set (ue_infos ul si0). allocatedPRBCount c = 0"
    and rrc: "isUERRCSetUpCompleted si0 = isUERRCSetUpCompleted si"
    unfolding avail_def by (rule scheduler_start [OF assms(1-4) False])
  have room: "unat avail = (if retx \<le> room then room - retx else 2 ^ 32 + room - retx)"
    using PRBs_available_room [OF assms(6)] by (simp add: room_def retx_def avail_def)
  have plain: "plain_carrier E ?ps" using assms(4) by (simp add: plain_carrier_def)
  have keys: "map ue_key (ue_infos ul si0) = map ue_key (ue_infos ul si)" unfolding key_ask ask ..
  have known: "pdcp_known (ue_infos ul si0) ?ps" using assms(5) unfolding pdcp_known_keys keys by simp
  consider (idle) "\<not> isUERRCSetUpCompleted si" | (static) "isUERRCSetUpCompleted si" "isSlicing (pe_nws E)"
      "rsrcSharingTechnique (pe_nws E) = LTENR_RESOURCE_SHARING_STATIC"
    | (all) "isUERRCSetUpCompleted si" "\<not> (isSlicing (pe_nws E) \<and> rsrcSharingTechnique (pe_nws E) = LTENR_RESOURCE_SHARING_STATIC)" by blast
  then show ?thesis
  proof cases
    case idle
    have "fst y = si0" if "fold_result (\<lambda>s (si, ps). rbind (arr_get (ps_Info ps) s) (\<lambda>i.
             let p = resourceAllocationPercentage (if ul then uplinkBandwidth i else downlinkBandwidth i)
             in LTENR_PRB_AllocatePRB E ul (UINT_of_double (double_of_UINT avail / 100 * p)) (of_nat s) si ps)) ks (si0, q) = Inr y" for ks q y
      using that by (induction ks arbitrary: q) (use idle rrc in \<open>auto simp: LTENR_PRB_AllocatePRB_def Let_def elim!: rbind_InrE\<close>)
    then have "si' = si0" using s idle rrc unfolding allocate_slices_def
      by (auto simp: LTENR_PRB_AllocatePRB_def split: if_splits)
    then show ?thesis using room idle z keys False by (simp add: served_def)
  next
    case static
    let ?n = "unat (sliceCount (pe_nws E))"
    have n: "Suc ?n \<le> 2 ^ 32" using unsigned_less [of "sliceCount (pe_nws E)", where 'a = nat] by simp
    have "slices_served E ul avail (ue_infos ul si) ?ps 0 (si0, ?ps)"
      using static(1) rrc plain z unfolding slices_served_def prod.case ask by (simp add: ue_full_def del: mset_map)
    moreover have "pdcp_known (ue_infos ul si) ?ps" using assms(5) by (simp add: pdcp_known_def)
    ultimately have sv: "slices_served E ul avail (ue_infos ul si) ?ps (Suc ?n) (si', ps')"
      using slices_run [OF _ _ _ static(3) n] s static(2,3) unfolding allocate_slices_def by simp
    have "slice_part ul ?ps avail k = slice_part ul ps avail k" for k by (simp add: slice_part_def)
    then show ?thesis using sv room static False ask_keys [of "ue_infos ul si'" "ue_infos ul si"]
      by (simp add: slices_served_def served_def ue_full_def less_Suc_eq_le Suc_le_eq)
  next
    case all
    have "LTENR_PRB_AllocatePRB E ul avail 0 si0 ?ps = Inr (si', ps')" using s all(2) by (simp add: allocate_slices_def)
    from one_call [OF this _ plain known z] rrc all(1)
    have "sum_list (map (\<lambda>c. unat (allocatedPRBCount c)) served) = min (unat avail) (sum_list (map (prb_demand E 0) served))"
      "mset (map ue_key served) = mset (map ue_key (ue_infos ul si))" by (simp_all add: served_def keys)
    then show ?thesis unfolding if_not_P [OF all(2)] using room all(1) False by simp
  qed
qed


section \<open>Bandwidth parts\<close>

lemma bwp_search_fits:
  "j < length cas \<Longrightarrow> \<forall>k < j. ca_PRBCount (cas ! k) < needed \<Longrightarrow> needed \<le> ca_PRBCount (cas ! j)
    \<Longrightarrow> \<exists>m. bwp_search cur needed cas i mx cm = (Some (i + j, if cur \<le> i + j then 0 else ca_PRBCount (cas ! j)), m)"
proof (induction cas arbitrary: i j mx cm)
  case (Cons ca cas)
  show ?case
  proof (cases j)
    case 0
    then show ?thesis using Cons.prems by simp
  next
    case (Suc j')
    have ca: "\<not> needed \<le> ca_PRBCount ca" using Cons.prems(2) Suc by (auto simp: not_le)
    have "\<forall>k < j'. ca_PRBCount (cas ! k) < needed" using Cons.prems(2) Suc by auto
    then have "\<exists>m. bwp_search cur needed cas (Suc i) mx' cm'
        = (Some (Suc i + j', if cur \<le> Suc i + j' then 0 else ca_PRBCount (cas ! j')), m)" for mx' cm'
      using Cons.prems Suc by (intro Cons.IH) simp_all
    from this [of "ca_PRBCount ca" i] this [of mx cm] show ?thesis using ca Suc
      by (cases "mx < ca_PRBCount ca"; cases "cur \<le> Suc (i + j')") simp_all
  qed
qed simp

lemma move_active_run:
  "i < length (ps_CA ps) \<Longrightarrow> j < length (ps_CA ps) \<Longrightarrow> \<exists>ps'. move_active_ue ue i j ps = Inr ps'"
  by (simp add: move_active_ue_def LTENR_ACTIVEUEINFO_REMOVE_def LTENR_ACTIVEUEINFO_ADD_def ca_upd_def arr_get_def)

text \<open>
  C40. The switch of bandwidth parts, when a UE needs at least what is left of the carrier, takes the
  first carrier \<open>j\<close> that is large enough. If that is the current one or a later one, the UE gets no
  resource block at all, not even those that are left, and nothing is left for the UEs behind it.
  If it is an earlier one, the UE gets all it needs, and the UEs behind it are served from the
  whole of that carrier, whatever it had already given away. The UE that is moved to the carrier is
  the one at the head of the list, not the one that is served.
\<close>

theorem bwp_switch_starves:
  assumes "pe_CA_ID E < length (ps_CA ps)" and "isBWPEnabled (ps_CA ps ! pe_CA_ID E)"
    and "prb_demand E sl c \<noteq> 0" and "t \<noteq> 0" and "unat t \<le> prb_demand E sl c"
    and "j < length (ps_CA ps)" and "\<forall>k < j. unat (ca_PRBCount (ps_CA ps ! k)) < prb_demand E sl c"
    and "prb_demand E sl c \<le> unat (ca_PRBCount (ps_CA ps ! j))"
  shows "\<exists>ps'. move_active_ue first (pe_CA_ID E) j ps = Inr ps'
    \<and> allocate_ue E sl first c (t, ps)
        = Inr (if pe_CA_ID E \<le> j then (c\<lparr>allocatedPRBCount := 0\<rparr>, 0, ps')
               else (granted c (prb_demand E sl c), ca_PRBCount (ps_CA ps ! j) - of_nat (prb_demand E sl c), ps'))"
proof -
  have d: "prb_demand E sl c = unat (PRBs_needed c)" and e: "bitsPerPRB c \<noteq> 0"
      "\<not> (rsrcSharingTechnique (pe_nws E) = LTENR_RESOURCE_SHARING_STATIC \<and> ueSliceId (pe_nws E) (si_ueId c) \<noteq> sl)"
    using assms(3) by (auto simp: prb_demand_def split: if_splits)
  have n: "\<not> PRBs_needed c < t" "0 < PRBs_needed c" using assms(3,5) d by (simp_all add: word_less_nat_alt)
  have fits: "\<forall>k < j. ca_PRBCount (ps_CA ps ! k) < PRBs_needed c" "PRBs_needed c \<le> ca_PRBCount (ps_CA ps ! j)"
    using assms(7,8) by (simp_all add: d word_less_nat_alt word_le_nat_alt)
  obtain m where b: "bwp_search (pe_CA_ID E) (PRBs_needed c) (ps_CA ps) 0 0 0
      = (Some (j, if pe_CA_ID E \<le> j then 0 else ca_PRBCount (ps_CA ps ! j)), m)"
    using bwp_search_fits [OF assms(6) fits, of "pe_CA_ID E" 0 0 0] by auto
  obtain ps' where p: "move_active_ue first (pe_CA_ID E) j ps = Inr ps'" using move_active_run assms(1,6) by blast
  then have "LTENR_BWP_Switch (pe_CA_ID E) first (PRBs_needed c) ps
      = Inr (\<lparr>prb_count = (if pe_CA_ID E \<le> j then 0 else ca_PRBCount (ps_CA ps ! j)),
          ca_new = (if pe_CA_ID E \<le> j then 1 else 0), bwp_active = True\<rparr>, ps')"
    using assms(1,2) b by (simp add: LTENR_BWP_Switch_def arr_get_def)
  then show ?thesis using assms(4) n e fits(2) p by (auto simp: allocate_ue_def Let_def d of_nat_unat not_less)
qed

section \<open>Round robin\<close>

text \<open>
  Slots one after the other. Between them the UEs keep their ranks, whatever else MAC writes to them;
  \<open>P\<close> holds of every UE at every slot. The state is the list and what each UE has been
  granted in all.
\<close>

definition same_rank :: "LTENR_UESCHEDULERINFO \<Rightarrow> LTENR_UESCHEDULERINFO \<Rightarrow> bool" where
  "same_rank x y \<longleftrightarrow> ue_key y = ue_key x \<and> rank y = rank x"

definition granted_to :: "LTENR_UESCHEDULERINFO list \<Rightarrow> netsim_id \<times> netsim_id \<Rightarrow> nat" where
  "granted_to zs u = sum_list (map (\<lambda>c. unat (allocatedPRBCount c)) (filter (\<lambda>c. ue_key c = u) zs))"

inductive rr_run ::
  "prb_env \<Rightarrow> LTENR_SCHEDULERINFO \<Rightarrow> u32 \<Rightarrow> netsim_id \<Rightarrow> real \<Rightarrow> (LTENR_UESCHEDULERINFO \<Rightarrow> bool) \<Rightarrow> nat
     \<Rightarrow> LTENR_UESCHEDULERINFO list \<times> (netsim_id \<times> netsim_id \<Rightarrow> nat)
     \<Rightarrow> LTENR_UESCHEDULERINFO list \<times> (netsim_id \<times> netsim_id \<Rightarrow> nat) \<Rightarrow> bool"
  for E si t sl N P where
  rr_zero: "rr_run E si t sl N P 0 s s"
| rr_slot: "rr_run E si t sl N P k s (xs, g) \<Longrightarrow> list_all2 same_rank xs ys
    \<Longrightarrow> \<forall>y \<in> set ys. allocatedPRBCount y = 0 \<and> P y \<Longrightarrow> plain_carrier E ps \<Longrightarrow> pdcp_known ys ps
    \<Longrightarrow> initTotalPRBAvailable ps = N \<Longrightarrow> allocate_list E si t sl ys ps = Inr (zs, ps')
    \<Longrightarrow> rr_run E si t sl N P (Suc k) s (zs, \<lambda>u. g u + granted_to zs u)"

lemma same_ranks_list:
  "list_all2 same_rank xs ys \<Longrightarrow> map ue_key ys = map ue_key xs \<and> map rank ys = map rank xs"
  by (induction xs ys rule: list_all2_induct) (auto simp: same_rank_def)

lemma granted_to_absent: "u \<notin> ue_key ` set zs \<Longrightarrow> granted_to zs u = 0"
  by (auto simp: granted_to_def filter_empty_conv)

lemma granted_to_member: "distinct (map ue_key zs) \<Longrightarrow> z \<in> set zs \<Longrightarrow> granted_to zs (ue_key z) = unat (allocatedPRBCount z)"
proof (induction zs)
  case (Cons a zs)
  have "granted_to (a # zs) u = (if ue_key a = u then unat (allocatedPRBCount a) else 0) + granted_to zs u" for u
    by (simp add: granted_to_def)
  then show ?case using Cons granted_to_absent [of "ue_key a" zs] by auto
qed simp

text \<open>The slot: the UEs in the order they are served, what each gets, and the new ranks.\<close>

lemma rr_slot_run:
  assumes "allocate_list E si t sl ys ps = Inr (zs, ps')" and "schedulingType si = LTENR_MAC_SCHEDULING_ROUNDROBIN"
    and "plain_carrier E ps" and "pdcp_known ys ps" and "\<forall>y \<in> set ys. allocatedPRBCount y = 0"
  shows "\<exists>ws b. mset ws = mset ys \<and> descending ws \<and> map ue_key zs = map ue_key ws
    \<and> map (\<lambda>c. unat (allocatedPRBCount c)) zs = prb_shares (unat t) (map (prb_demand E sl) ws)
    \<and> map rank zs = map2 (\<lambda>w n. rank w - real n / initTotalPRBAvailable ps + b) ws (prb_shares (unat t) (map (prb_demand E sl) ws))"
proof -
  have r: "prb_rank E si ys ps = Inr ys" using assms(2) by (simp add: prb_rank_def)
  obtain ws ps3 where w: "mset ws = mset ys" "descending ws" "prb_same ps ps3"
      "prb_update_rank E si (map2 granted ws (prb_shares (unat t) (map (prb_demand E sl) ws))) ps3 = Inr (zs, ps')"
    using allocate_list_run [OF assms(3) r assms(4,5), of t sl] assms(1) by auto
  let ?ns = "prb_shares (unat t) (map (prb_demand E sl) ws)" and ?N = "initTotalPRBAvailable ps"
  have zs: "zs = LTENR_PRB_UpdateRank_RoundRobin ?N (map2 granted ws ?ns)"
    using w(3,4) assms(2) by (simp add: prb_update_rank_def prb_same_def)
  have ns: "\<forall>n \<in> set ?ns. n < 2 ^ 32" using prb_shares_le unsigned_less [of t, where 'a = nat] by (auto dest: order.strict_trans1)
  note g = same_grants_map [OF prb_update_rank_keeps [OF w(4)], of E sl]
  have k: "map ue_key zs = map ue_key ws" using g granted_grants [of ?ns ws E sl] by simp
  have "map (\<lambda>c. unat (allocatedPRBCount c)) (map2 granted ws ?ns) = ?ns" by (intro granted_sum ns) simp
  then have a: "map (\<lambda>c. unat (allocatedPRBCount c)) zs = ?ns"
    using arg_cong [OF conjunct2 [OF conjunct2 [OF g]], of "map unat"] by (simp add: comp_def)
  have "map (\<lambda>c. rank c - double_of_UINT (allocatedPRBCount c) / ?N + b) (map2 granted cs ms)
      = map2 (\<lambda>w n. rank w - real n / ?N + b) cs ms" if "length ms = length cs" "\<forall>n \<in> set ms. n < 2 ^ 32" for b cs ms
    using that by (induction ms cs rule: list_induct2) (auto simp: unat_of_nat_small)
  from this [OF _ ns, of ws] have rk: "map (\<lambda>c. rank c - double_of_UINT (allocatedPRBCount c) / ?N + b) (map2 granted ws ?ns)
      = map2 (\<lambda>w n. rank w - real n / ?N + b) ws ?ns" for b by simp
  have "\<exists>b. map rank zs = map (\<lambda>c. rank c - double_of_UINT (allocatedPRBCount c) / ?N + b) (map2 granted ws ?ns)"
    unfolding zs LTENR_PRB_UpdateRank_RoundRobin_def Let_def
    by (cases "\<exists>c \<in> set (map (\<lambda>c. c\<lparr>rank := rank c - double_of_UINT (allocatedPRBCount c) / ?N\<rparr>) (map2 granted ws ?ns)). rank c \<le> 0")
      (simp_all only: if_True if_False map_map, auto intro: exI [of _ 1] exI [of _ 0])
  then obtain b where "map rank zs = map2 (\<lambda>w n. rank w - real n / ?N + b) ws ?ns" unfolding rk by blast
  with w(1,2) k a show ?thesis by blast
qed

text \<open>The credit of a UE, its rank and what it was granted in parts of the carrier, is the same for all.\<close>

definition same_credit :: "real \<Rightarrow> LTENR_UESCHEDULERINFO list \<times> (netsim_id \<times> netsim_id \<Rightarrow> nat) \<Rightarrow> bool" where
  "same_credit N s \<longleftrightarrow> distinct (map ue_key (fst s)) \<and> (\<exists>K. \<forall>x \<in> set (fst s). rank x + real (snd s (ue_key x)) / N = K)"

lemma rr_slot_credit:
  assumes "same_credit N (xs, g)" and "list_all2 same_rank xs ys" and "schedulingType si = LTENR_MAC_SCHEDULING_ROUNDROBIN"
    and "allocate_list E si t sl ys ps = Inr (zs, ps')" and "plain_carrier E ps" and "pdcp_known ys ps"
    and "\<forall>y \<in> set ys. allocatedPRBCount y = 0" and "initTotalPRBAvailable ps = N"
  obtains ws where "mset ws = mset ys" and "descending ws" and "map ue_key zs = map ue_key ws" and "distinct (map ue_key ws)"
    and "map (\<lambda>c. unat (allocatedPRBCount c)) zs = prb_shares (unat t) (map (prb_demand E sl) ws)"
    and "\<And>v w. v \<in> set ws \<Longrightarrow> w \<in> set ws \<Longrightarrow> (rank v \<le> rank w) = (real (g (ue_key w)) / N \<le> real (g (ue_key v)) / N)"
    and "same_credit N (zs, \<lambda>u. g u + granted_to zs u)"
proof -
  obtain ws b where w: "mset ws = mset ys" "descending ws" "map ue_key zs = map ue_key ws"
      "map (\<lambda>c. unat (allocatedPRBCount c)) zs = prb_shares (unat t) (map (prb_demand E sl) ws)"
      "map rank zs = map2 (\<lambda>w n. rank w - real n / N + b) ws (prb_shares (unat t) (map (prb_demand E sl) ws))"
    using rr_slot_run [OF assms(4,3,5-7)] assms(8) by blast
  have m: "mset (map ue_key ws) = mset (map ue_key xs)" using w(1) same_ranks_list [OF assms(2)] by (metis mset_map)
  then have d: "distinct (map ue_key ws)" using assms(1) by (metis fst_conv mset_eq_imp_distinct_iff same_credit_def)
  obtain K where K: "\<forall>x \<in> set xs. rank x + real (g (ue_key x)) / N = K" using assms(1) by (auto simp: same_credit_def)
  have "set ws = set ys" using w(1) by (metis set_mset_mset)
  moreover have "\<forall>y \<in> set ys. rank y + real (g (ue_key y)) / N = K"
    using assms(2) K by (fastforce simp: list_all2_conv_all_nth in_set_conv_nth same_rank_def)
  ultimately have c: "\<forall>y \<in> set ws. rank y + real (g (ue_key y)) / N = K" by simp
  let ?ns = "prb_shares (unat t) (map (prb_demand E sl) ws)"
  have l: "length zs = length ws" using w(3) by (metis length_map)
  have "rank (zs ! i) + real (g (ue_key (zs ! i)) + granted_to zs (ue_key (zs ! i))) / N = K + b" if i: "i < length zs" for i
  proof -
    have "rank (zs ! i) = rank (ws ! i) - real (?ns ! i) / N + b" using arg_cong [OF w(5), of "\<lambda>l. l ! i"] i l by simp
    moreover have "ue_key (zs ! i) = ue_key (ws ! i)" using arg_cong [OF w(3), of "\<lambda>l. l ! i"] i l by simp
    moreover have "granted_to zs (ue_key (zs ! i)) = ?ns ! i"
      using granted_to_member [of zs "zs ! i"] d i w(3) arg_cong [OF w(4), of "\<lambda>l. l ! i"] by simp
    moreover have "rank (ws ! i) + real (g (ue_key (ws ! i))) / N = K" using c i l by simp
    ultimately show ?thesis by (simp add: add_divide_distrib)
  qed
  then have "\<forall>z \<in> set zs. rank z + real (g (ue_key z) + granted_to zs (ue_key z)) / N = K + b" by (auto simp: in_set_conv_nth)
  then have e: "same_credit N (zs, \<lambda>u. g u + granted_to zs u)" using d w(3) by (auto simp: same_credit_def)
  have o: "(rank v \<le> rank w) = (real (g (ue_key w)) / N \<le> real (g (ue_key v)) / N)" if "v \<in> set ws" "w \<in> set ws" for v w
  proof -
    have "rank v = K - real (g (ue_key v)) / N" "rank w = K - real (g (ue_key w)) / N" using c that by (auto simp: algebra_simps)
    then show ?thesis by simp
  qed
  show ?thesis by (rule that [OF w(1-3) d w(4) o e])
qed


lemma rr_run_credit:
  assumes "rr_run E si t sl N P k s s'" and "same_credit N s" and "schedulingType si = LTENR_MAC_SCHEDULING_ROUNDROBIN"
  shows "same_credit N s' \<and> set (map ue_key (fst s')) = set (map ue_key (fst s))"
  using assms(1,2)
proof (induction rule: rr_run.induct)
  case (rr_slot k s xs g ys ps zs ps')
  have c: "same_credit N (xs, g)" and k: "set (map ue_key xs) = set (map ue_key (fst s))"
    using rr_slot.IH [OF rr_slot.prems] by simp_all
  have z: "\<forall>y \<in> set ys. allocatedPRBCount y = 0" using rr_slot.hyps(3) by blast
  obtain ws where w: "mset ws = mset ys" "map ue_key zs = map ue_key ws" "same_credit N (zs, \<lambda>u. g u + granted_to zs u)"
    by (rule rr_slot_credit [OF c rr_slot.hyps(2) assms(3) rr_slot.hyps(7,4,5) z rr_slot.hyps(6)]) (rule that)
  have "set ws = set ys" using w(1) by (metis set_mset_mset)
  then have "set (map ue_key zs) = set (map ue_key ys)" by (simp only: w(2) set_map)
  then show ?case using w(3) k same_ranks_list [OF rr_slot.hyps(2)] by simp
qed simp

text \<open>
  C38. Round robin keeps accounts: of two UEs that started with the same rank, the difference of the ranks
  is what the second has been granted more than the first, in parts of the carrier. A UE that asks for nothing
  saves up rank without bound.
\<close>

theorem round_robin_credit:
  assumes "rr_run E si t sl N P k (xs, \<lambda>u. 0) (xs', g)" and "schedulingType si = LTENR_MAC_SCHEDULING_ROUNDROBIN"
    and "distinct (map ue_key xs)" and "\<forall>x \<in> set xs. rank x = r" and "a \<in> set xs'" and "b \<in> set xs'"
  shows "rank a - rank b = (real (g (ue_key b)) - real (g (ue_key a))) / N"
proof -
  have "same_credit N (xs, \<lambda>u. 0)" using assms(3,4) by (auto simp: same_credit_def)
  from rr_run_credit [OF assms(1) this assms(2)] obtain K where
    "\<forall>x \<in> set xs'. rank x + real (g (ue_key x)) / N = K" by (auto simp: same_credit_def)
  then have "rank a + real (g (ue_key a)) / N = rank b + real (g (ue_key b)) / N" using assms(5,6) by simp
  then show ?thesis by (simp add: diff_divide_distrib)
qed

text \<open>A slot in which every UE asks for all there is: the head of the order gets it.\<close>

lemma rr_saturated_slot:
  assumes "same_credit N (xs, g)" and "list_all2 same_rank xs ys" and "schedulingType si = LTENR_MAC_SCHEDULING_ROUNDROBIN"
    and "allocate_list E si t sl ys ps = Inr (zs, ps')" and "plain_carrier E ps" and "pdcp_known ys ps"
    and "\<forall>y \<in> set ys. allocatedPRBCount y = 0 \<and> unat t \<le> prb_demand E sl y" and "initTotalPRBAvailable ps = N"
    and "0 < N" and "xs \<noteq> []"
  obtains h where "h \<in> set (map ue_key xs)" and "\<forall>u \<in> set (map ue_key xs). g h \<le> g u"
    and "\<And>u. granted_to zs u = (if u = h then unat t else 0)"
proof -
  have a: "\<forall>y \<in> set ys. allocatedPRBCount y = 0" using assms(7) by blast
  obtain ws where w: "mset ws = mset ys" "descending ws" "map ue_key zs = map ue_key ws" "distinct (map ue_key ws)"
      "map (\<lambda>c. unat (allocatedPRBCount c)) zs = prb_shares (unat t) (map (prb_demand E sl) ws)"
      and o: "\<And>v w. v \<in> set ws \<Longrightarrow> w \<in> set ws \<Longrightarrow> (rank v \<le> rank w) = (real (g (ue_key w)) / N \<le> real (g (ue_key v)) / N)"
    by (rule rr_slot_credit [OF assms(1-6) a assms(8)]) (rule that)
  have s: "set ws = set ys" using w(1) by (metis set_mset_mset)
  have "ws \<noteq> []" using assms(2,10) w(1) by auto
  then obtain c cs where ws: "ws = c # cs" by (cases ws) auto
  have keys: "set (map ue_key xs) = set (map ue_key ws)"
    using arg_cong [OF conjunct1 [OF same_ranks_list [OF assms(2)]], of set] s by simp
  have min: "prb_demand E sl y \<ge> unat t" if "y \<in> set ws" for y using that assms(7) s by blast
  obtain z zs' where zs: "zs = z # zs'" using w(3) ws by (cases zs) auto
  have n: "prb_shares (unat t) (map (prb_demand E sl) ws) = unat t # map (\<lambda>c. 0) cs"
    using min [of c] by (simp add: ws min_absorb2 prb_shares_0 comp_def)
  have z: "unat (allocatedPRBCount z) = unat t" "ue_key z = ue_key c" "map (\<lambda>c. unat (allocatedPRBCount c)) zs' = map (\<lambda>c. 0) cs"
    using w(3,5) n by (simp_all add: zs ws prb_shares_0 comp_def)
  have "granted_to zs u = (if u = ue_key c then unat t else 0)" for u
  proof -
    have "\<forall>x \<in> set zs'. unat (allocatedPRBCount x) = 0" using arg_cong [OF z(3), of set] by force
    then have "granted_to zs' u = 0" by (simp add: granted_to_def sum_list_eq_0_iff)
    then show ?thesis using z by (simp add: granted_to_def zs)
  qed
  moreover have "g (ue_key c) \<le> g (ue_key v)" if "v \<in> set ws" for v
    using w(2) that o [of v c] assms(9) by (auto simp: ws divide_le_cancel)
  moreover from this have "\<forall>u \<in> set (map ue_key xs). g (ue_key c) \<le> g u" unfolding keys by auto
  moreover have "ue_key c \<in> set (map ue_key xs)" unfolding keys ws by simp
  ultimately show ?thesis using that by blast
qed


abbreviation saturated :: "prb_env \<Rightarrow> u32 \<Rightarrow> netsim_id \<Rightarrow> LTENR_UESCHEDULERINFO \<Rightarrow> bool" where
  "saturated E t sl \<equiv> \<lambda>c. unat t \<le> prb_demand E sl c"

text \<open>One more slot of a saturated run: the UE with the least total gets it.\<close>

lemma rr_saturated_step:
  assumes "rr_run E si t sl N (saturated E t sl) (Suc k) s s'" and "same_credit N s"
    and "schedulingType si = LTENR_MAC_SCHEDULING_ROUNDROBIN" and "0 < N" and "fst s \<noteq> []"
  obtains s1 h where "rr_run E si t sl N (saturated E t sl) k s s1" and "h \<in> ue_key ` set (fst s)"
    and "\<forall>u \<in> ue_key ` set (fst s). snd s1 h \<le> snd s1 u"
    and "\<And>u. snd s' u = snd s1 u + (if u = h then unat t else 0)"
  using assms(1)
proof cases
  case (rr_slot xs g ys ps zs ps')
  have c: "same_credit N (xs, g)" "set (map ue_key xs) = set (map ue_key (fst s))"
    using rr_run_credit [OF rr_slot(2) assms(2,3)] by simp_all
  then have ne: "xs \<noteq> []" using assms(5) by auto
  obtain h where h: "h \<in> set (map ue_key xs)" "\<forall>u \<in> set (map ue_key xs). g h \<le> g u"
      "\<And>u. granted_to zs u = (if u = h then unat t else 0)"
    by (rule rr_saturated_slot [OF c(1) rr_slot(3) assms(3) rr_slot(8,5,6,4,7) assms(4) ne]) (rule that)
  have k: "h \<in> ue_key ` set (fst s)" "\<forall>u \<in> ue_key ` set (fst s). snd (xs, g) h \<le> snd (xs, g) u"
    using h(1,2) c(2) unfolding set_map snd_conv by simp_all
  show ?thesis by (rule that [OF rr_slot(2) k]) (simp add: rr_slot(1) h(3))
qed

lemma rr_saturated_fair:
  assumes "rr_run E si t sl N (saturated E t sl) k (xs, g) s'" and "same_credit N (xs, g)"
    and "schedulingType si = LTENR_MAC_SCHEDULING_ROUNDROBIN" and "0 < N" and "xs \<noteq> []"
    and "\<forall>u \<in> ue_key ` set xs. \<forall>v \<in> ue_key ` set xs. g u \<le> g v + unat t"
  shows "(\<forall>u \<in> ue_key ` set xs. \<forall>v \<in> ue_key ` set xs. snd s' u \<le> snd s' v + unat t)
    \<and> (\<Sum>u \<in> ue_key ` set xs. snd s' u) = (\<Sum>u \<in> ue_key ` set xs. g u) + k * unat t"
  using assms(1)
proof (induction k arbitrary: s')
  case 0
  then show ?case using assms(6) by (auto elim: rr_run.cases)
next
  case (Suc k)
  have ne: "fst (xs, g) \<noteq> []" using assms(5) by simp
  obtain s1 h where s: "rr_run E si t sl N (saturated E t sl) k (xs, g) s1" "h \<in> ue_key ` set xs"
      "\<forall>u \<in> ue_key ` set xs. snd s1 h \<le> snd s1 u" "\<And>u. snd s' u = snd s1 u + (if u = h then unat t else 0)"
    by (rule rr_saturated_step [OF Suc.prems assms(2-4) ne]) (simp add: that)
  have "(\<Sum>u \<in> ue_key ` set xs. snd s' u) = (\<Sum>u \<in> ue_key ` set xs. snd s1 u) + unat t"
    using s(2) by (simp add: s(4) sum.distrib)
  moreover have "snd s' u \<le> snd s' v + unat t" if "u \<in> ue_key ` set xs" "v \<in> ue_key ` set xs" for u v
  proof -
    have "snd s1 u \<le> snd s1 v + unat t" "snd s1 h \<le> snd s1 v" using Suc.IH [OF s(1)] that s(3) by blast+
    then show ?thesis by (auto simp: s(4))
  qed
  ultimately show ?case using Suc.IH [OF s(1)] by simp
qed

text \<open>
  C13. Among UEs that always ask for all there is, round robin is fair: after any number of slots no two
  totals differ by more than the resource blocks of one slot, and together they have had every slot.
\<close>

theorem round_robin_fair:
  assumes "rr_run E si t sl N (saturated E t sl) k (xs, \<lambda>u. 0) (xs', g)" and "schedulingType si = LTENR_MAC_SCHEDULING_ROUNDROBIN"
    and "distinct (map ue_key xs)" and "\<forall>x \<in> set xs. rank x = r" and "0 < N" and "xs \<noteq> []"
  shows "(\<forall>u \<in> ue_key ` set xs. \<forall>v \<in> ue_key ` set xs. g u \<le> g v + unat t) \<and> (\<Sum>u \<in> ue_key ` set xs. g u) = k * unat t"
proof -
  have "same_credit N (xs, \<lambda>u. 0)" using assms(3,4) by (auto simp: same_credit_def)
  then show ?thesis using rr_saturated_fair [OF assms(1) _ assms(2,5,6)] by simp
qed

lemma rr_saved_up:
  assumes "rr_run E si t sl N (saturated E t sl) m (xs, g) s'" and "same_credit N (xs, g)"
    and "schedulingType si = LTENR_MAC_SCHEDULING_ROUNDROBIN" and "0 < N" and "u \<in> ue_key ` set xs" and "0 < unat t"
    and "\<forall>v \<in> ue_key ` set xs - {u}. g u + m * unat t \<le> g v"
  shows "snd s' u = g u + m * unat t \<and> (\<forall>v \<in> ue_key ` set xs - {u}. snd s' v = g v)"
  using assms(1,7)
proof (induction m arbitrary: s')
  case 0
  then show ?case by (auto elim: rr_run.cases)
next
  case (Suc m)
  have ne: "fst (xs, g) \<noteq> []" using assms(5) by auto
  obtain s1 h where s: "rr_run E si t sl N (saturated E t sl) m (xs, g) s1" "h \<in> ue_key ` set xs"
      "\<forall>u \<in> ue_key ` set xs. snd s1 h \<le> snd s1 u" "\<And>u. snd s' u = snd s1 u + (if u = h then unat t else 0)"
    by (rule rr_saturated_step [OF Suc.prems(1) assms(2-4) ne]) (simp add: that)
  have "\<forall>v \<in> ue_key ` set xs - {u}. g u + m * unat t \<le> g v"
  proof
    fix v assume "v \<in> ue_key ` set xs - {u}"
    then have "g u + Suc m * unat t \<le> g v" using Suc.prems(2) by blast
    then show "g u + m * unat t \<le> g v" by simp
  qed
  note ih = Suc.IH [OF s(1) this]
  have "h = u"
  proof (rule ccontr)
    assume n: "h \<noteq> u"
    then have "g u + Suc m * unat t \<le> g h" "snd s1 h = g h" using s(2) Suc.prems(2) ih by auto
    moreover have "snd s1 h \<le> snd s1 u" using s(3) assms(5) by blast
    ultimately show False using ih assms(6) by simp
  qed
  then show ?case using ih by (simp add: s(4))
qed

text \<open>
  C14. A UE that was granted less than the others, because it asked for nothing, then holds the carrier
  alone until it has had as much as they: for \<open>m\<close> slots, when the others are \<open>m\<close> slots ahead of
  it, they get nothing.
\<close>

theorem round_robin_starves:
  assumes "rr_run E si t sl N P k (xs0, \<lambda>u. 0) (xs, g)" and "rr_run E si t sl N (saturated E t sl) m (xs, g) (xs', g')"
    and "schedulingType si = LTENR_MAC_SCHEDULING_ROUNDROBIN" and "distinct (map ue_key xs0)" and "\<forall>x \<in> set xs0. rank x = r"
    and "0 < N" and "0 < t" and "u \<in> ue_key ` set xs" and "\<forall>v \<in> ue_key ` set xs - {u}. g u + m * unat t \<le> g v"
  shows "g' u = g u + m * unat t \<and> (\<forall>v \<in> ue_key ` set xs - {u}. g' v = g v)"
proof -
  have "same_credit N (xs0, \<lambda>u. 0)" using assms(4,5) by (auto simp: same_credit_def)
  then have c: "same_credit N (xs, g)" using rr_run_credit [OF assms(1) _ assms(3)] by blast
  have "0 < unat t" using assms(7) by (simp add: word_less_nat_alt)
  from rr_saved_up [OF assms(2) c assms(3,6,8) this assms(9)] show ?thesis by simp
qed


section \<open>A concrete carrier\<close>

text \<open>For the witnesses: 100 resource blocks, UEs with \<open>n\<close> bytes and 50 bits in a resource block.\<close>

definition ex_prb_env :: prb_env where
  "ex_prb_env = \<lparr>pe_nws = \<lparr>isSlicing = False, sliceCount = 0, ueSliceId = (\<lambda>d. 0), nws_EWMA_Learning_Rate = 0,
       LagrangeMultiplierLearningRate = 0, rsrcSharingTechnique = LTENR_RESOURCE_SHARING_DYNAMIC\<rparr>,
     pe_CA_ID = 0, pe_slotType = SLOT_DOWNLINK\<rparr>"

definition ex_prb_state :: "bool \<Rightarrow> prb_state" where
  "ex_prb_state bwp =
     \<lparr>ps_CA = [\<lparr>ca_PRBCount = 100, ca_symbolPerSlot = 14, slotPerSubframe = 1, slotDuration_us = 1000,
        configSlotType = SLOT_MIXED, dlSlotRatio = 4 / 5, dlSlotCount = 0, totalSlotCount = 0, isBWPEnabled = bwp,
        OverheadDL = 0, OverheadUL = 0, ue_list = []\<rparr>],
      ps_Info = [], TotalPDSCHBytes = (\<lambda>u. Some 0), initTotalPRBAvailable = 100\<rparr>"

definition ex_ue_asks :: "netsim_id \<Rightarrow> real \<Rightarrow> u32 \<Rightarrow> u32 \<Rightarrow> LTENR_UESCHEDULERINFO" where
  "ex_ue_asks d r n m = ex_ue_info\<lparr>si_ueId := d, rank := r, bufferSize := n, allocatedPRBCount := m\<rparr>"

definition ex_sched :: "u32 \<Rightarrow> LTENR_UESCHEDULERINFO list \<Rightarrow> LTENR_SCHEDULERINFO" where
  "ex_sched retx list = \<lparr>sch_gnbId = 1, sch_gnbIf = 1, PRBCount = 100, OH_UL = 0, OH_DL = 0, isPRBRankInit = True,
     isUERRCSetUpCompleted = True, schedulingType = LTENR_MAC_SCHEDULING_ROUNDROBIN, sch_alpha = 0,
     sch_slotType = SLOT_DOWNLINK, TotalPRBReqdForHARQRetransmission = retx, uplinkInfo = [], downlinkInfo = list\<rparr>"

lemma ex_prb_plain [simp]: "plain_carrier ex_prb_env (ex_prb_state False)" "pdcp_known l (ex_prb_state bwp)"
  "initTotalPRBAvailable (ex_prb_state bwp) = 100" "schedulingType (ex_sched n l) = LTENR_MAC_SCHEDULING_ROUNDROBIN"
  by (simp_all add: plain_carrier_def pdcp_known_def ex_prb_env_def ex_prb_state_def ex_sched_def)

lemma ex_ue_fields [simp]: "ue_key (ex_ue_asks d r n m) = (d, 1)" "rank (ex_ue_asks d r n m) = r"
  "allocatedPRBCount (ex_ue_asks d r n m) = m"
  by (simp_all add: ex_ue_asks_def ue_key_def ex_ue_info_def)

lemma ex_prb_demand [simp]: "prb_demand ex_prb_env sl (ex_ue_asks d r 10000 m) = 1600" "prb_demand ex_prb_env sl (ex_ue_asks d r 0 m) = 0"
  by (simp_all add: prb_demand_def ex_ue_asks_def ex_ue_info_def ex_prb_env_def PRBs_needed_def UINT_of_double_def)

lemma rr_slot_total:
  assumes "schedulingType si = LTENR_MAC_SCHEDULING_ROUNDROBIN" and "plain_carrier E ps" and "pdcp_known ys ps"
    and "\<forall>y \<in> set ys. allocatedPRBCount y = 0"
  shows "\<exists>zs ps'. allocate_list E si t sl ys ps = Inr (zs, ps')"
proof -
  have "prb_rank E si ys ps = Inr ys" using assms(1) by (simp add: prb_rank_def)
  from allocate_list_run [OF assms(2) this assms(3,4), of t sl] show ?thesis using assms(1) by (auto simp: prb_update_rank_def)
qed

lemma prb_allocation_by_rank_witness:
  "\<exists>ys ns ps3. mset ys = {#ex_ue_asks 2 1 10000 0, ex_ue_asks 3 2 0 0#} \<and> sum_list ns = 100
     \<and> allocate_list ex_prb_env (ex_sched 0 []) 100 0 [ex_ue_asks 2 1 10000 0, ex_ue_asks 3 2 0 0] (ex_prb_state False)
         = prb_update_rank ex_prb_env (ex_sched 0 []) (map2 granted ys ns) ps3"
proof -
  let ?l = "[ex_ue_asks 2 1 10000 0, ex_ue_asks 3 2 0 0]"
  have r: "prb_rank ex_prb_env (ex_sched 0 []) ?l (ex_prb_state False) = Inr ?l" by (simp add: prb_rank_def)
  have k: "pdcp_known ?l (ex_prb_state False)" "\<forall>c \<in> set ?l. allocatedPRBCount c = 0" by simp_all
  obtain ys ns ps3 where "mset ys = mset ?l" "sum_list ns = min (unat (100 :: u32)) (sum_list (map (prb_demand ex_prb_env 0) ?l))"
      "allocate_list ex_prb_env (ex_sched 0 []) 100 0 ?l (ex_prb_state False)
         = prb_update_rank ex_prb_env (ex_sched 0 []) (map2 granted ys ns) ps3"
    using prb_allocation_by_rank [OF ex_prb_plain(1) r k, of 100 0] by blast
  then show ?thesis by auto
qed

text \<open>One UE, 120 resource blocks of retransmissions: it gets all the 1600 it asks for.\<close>

lemma prb_scheduler_hands_out_witness:
  "\<exists>si' ps'. LTENR_PRB_Scheduler ex_prb_env (ex_sched 120 [ex_ue_asks 2 1 10000 0]) (ex_prb_state False) = Inr (si', ps')
     \<and> sum_list (map (\<lambda>c. unat (allocatedPRBCount c)) (downlinkInfo si'))
         = min (2 ^ 32 - 20) (sum_list (map (prb_demand ex_prb_env 0) (downlinkInfo si')))"
proof -
  let ?si = "ex_sched 120 [ex_ue_asks 2 1 10000 0]" and ?ps = "ex_prb_state False"
  let ?l = "LTENR_PRB_ResetAllocationPRBCount (pe_nws ex_prb_env) (ps_CA ?ps ! 0) [ex_ue_asks 2 1 10000 0]"
  define si0 where "si0 = ?si\<lparr>uplinkInfo := [], downlinkInfo := ?l\<rparr>"
  have rr: "schedulingType si0 = LTENR_MAC_SCHEDULING_ROUNDROBIN" by (simp add: si0_def ex_sched_def)
  have z: "\<forall>c \<in> set ?l. allocatedPRBCount c = 0" by (simp add: LTENR_PRB_ResetAllocationPRBCount_def Let_def)
  obtain zs ps' where a: "allocate_list ex_prb_env si0 (PRBs_available ?si 0) 0 ?l ?ps = Inr (zs, ps')"
    using rr_slot_total [OF rr ex_prb_plain(1,2) z] by blast
  have f: "isUERRCSetUpCompleted ?si" "\<not> isSlicing (pe_nws ex_prb_env)" "pe_slotType ex_prb_env = SLOT_DOWNLINK"
      "sch_slotType ?si = SLOT_DOWNLINK" "downlinkInfo ?si = [ex_ue_asks 2 1 10000 0]" "uplinkInfo ?si = []" "OH_DL ?si = 0"
      "isPRBRankInit ?si" "PRBCount ?si = 100" "TotalPRBReqdForHARQRetransmission ?si = 120"
    by (simp_all add: ex_sched_def ex_prb_env_def)
  have ps: "?ps\<lparr>initTotalPRBAvailable := 100\<rparr> = ?ps" "arr_get (ps_CA ?ps) (pe_CA_ID ex_prb_env) = Inr (ps_CA ?ps ! 0)"
    by (simp_all add: ex_prb_state_def ex_prb_env_def arr_get_def)
  have u: "LTENR_PRB_ResetAllocationPRBCount (pe_nws ex_prb_env) (ps_CA ?ps ! 0) [] = []"
    by (simp add: LTENR_PRB_ResetAllocationPRBCount_def)
  have s: "LTENR_PRB_Scheduler ex_prb_env ?si ?ps = Inr (si0\<lparr>downlinkInfo := zs\<rparr>, ps')"
    unfolding LTENR_PRB_Scheduler_def ps(2) using a f u by (simp add: ps(1) allocate_slices_def LTENR_PRB_AllocatePRB_def ue_infos_def
        set_ue_infos_def si0_def Let_def)
  have d: "pe_slotType ex_prb_env = (if False then SLOT_UPLINK else SLOT_DOWNLINK)" "sch_slotType ?si = pe_slotType ex_prb_env"
    "pdcp_known (ue_infos False ?si) ?ps" using f by (simp_all add: ue_infos_def)
  have oh: "UINT_of_double (of_int \<lceil>double_of_UINT (PRBCount ?si) * overhead False ?si\<rceil>) \<le> PRBCount ?si"
    by (simp add: f UINT_of_double_def overhead_def)
  show ?thesis
    using prb_scheduler_hands_out [OF s d(1,2) ex_prb_plain(1) d(3) oh]
    by (simp add: s f prb_room_def UINT_of_double_def overhead_def ue_infos_def)
qed

lemma bwp_switch_starves_witness:
  "\<exists>ps'. allocate_ue ex_prb_env 0 (2, 1) (ex_ue_asks 2 1 600 0) (90, ex_prb_state True)
     = Inr ((ex_ue_asks 2 1 600 0)\<lparr>allocatedPRBCount := 0\<rparr>, 0, ps')"
proof -
  have d: "prb_demand ex_prb_env 0 (ex_ue_asks 2 1 600 0) = 96"
    by (simp add: prb_demand_def ex_ue_asks_def ex_ue_info_def ex_prb_env_def PRBs_needed_def UINT_of_double_def)
  have c: "pe_CA_ID ex_prb_env = 0" "length (ps_CA (ex_prb_state True)) = 1" "isBWPEnabled (ps_CA (ex_prb_state True) ! 0)"
    "ca_PRBCount (ps_CA (ex_prb_state True) ! 0) = 100"
    by (simp_all add: ex_prb_env_def ex_prb_state_def)
  show ?thesis
    using bwp_switch_starves [of ex_prb_env "ex_prb_state True" 0 "ex_ue_asks 2 1 600 0" 90 0 "(2, 1)"] by (auto simp: c d)
qed

text \<open>Saturated runs of any length, from UEs on interface 1.\<close>

lemma ex_rr_runs:
  assumes "same_credit 100 (xs, g)" and "\<forall>x \<in> set xs. snd (ue_key x) = 1"
  shows "\<exists>s. rr_run ex_prb_env (ex_sched 0 []) 100 0 100 (saturated ex_prb_env 100 0) k (xs, g) s"
proof (induction k)
  case 0
  show ?case using rr_zero by blast
next
  case (Suc k)
  then obtain xs1 g1 where r: "rr_run ex_prb_env (ex_sched 0 []) 100 0 100 (saturated ex_prb_env 100 0) k (xs, g) (xs1, g1)"
    by (metis surj_pair)
  let ?ys = "map (\<lambda>x. ex_ue_asks (fst (ue_key x)) (rank x) 10000 0) xs1"
  have e: "ue_key ` set xs1 = ue_key ` set xs" using rr_run_credit [OF r assms(1)] by simp
  have k: "snd (ue_key x) = 1" if "x \<in> set xs1" for x
  proof -
    have "ue_key x \<in> ue_key ` set xs" using that e by blast
    then show ?thesis using assms(2) by force
  qed
  have sr: "list_all2 same_rank xs1 ?ys" using k by (auto simp: list_all2_map2 same_rank_def prod_eq_iff intro!: list.rel_refl_strong)
  have z: "\<forall>y \<in> set ?ys. allocatedPRBCount y = 0" and y: "\<forall>y \<in> set ?ys. allocatedPRBCount y = 0 \<and> saturated ex_prb_env 100 0 y"
    by auto
  obtain zs ps' where "allocate_list ex_prb_env (ex_sched 0 []) 100 0 ?ys (ex_prb_state False) = Inr (zs, ps')"
    using rr_slot_total [OF ex_prb_plain(4,1,2) z] by blast
  from rr_slot [OF r sr y ex_prb_plain(1,2,3) this] show ?case by blast
qed

lemma round_robin_fair_witness:
  "\<exists>xs' g. rr_run ex_prb_env (ex_sched 0 []) 100 0 100 (saturated ex_prb_env 100 0) 5
       ([ex_ue_asks 2 1 0 0, ex_ue_asks 3 1 0 0], \<lambda>u. 0) (xs', g)
     \<and> g (2, 1) \<le> g (3, 1) + 100 \<and> g (3, 1) \<le> g (2, 1) + 100 \<and> g (2, 1) + g (3, 1) = 500"
proof -
  let ?xs = "[ex_ue_asks 2 1 0 0, ex_ue_asks 3 1 0 0]"
  have "same_credit 100 (?xs, \<lambda>u. 0)" "\<forall>x \<in> set ?xs. snd (ue_key x) = 1" by (simp_all add: same_credit_def)
  from ex_rr_runs [OF this] obtain xs' g where
    r: "rr_run ex_prb_env (ex_sched 0 []) 100 0 100 (saturated ex_prb_env 100 0) 5 (?xs, \<lambda>u. 0) (xs', g)" by (metis surj_pair)
  have h: "distinct (map ue_key ?xs)" "\<forall>x \<in> set ?xs. rank x = 1" "(0 :: real) < 100" "?xs \<noteq> []" by simp_all
  show ?thesis using round_robin_fair [OF r ex_prb_plain(4) h] r by auto
qed

lemma round_robin_credit_witness:
  "\<exists>xs' g. rr_run ex_prb_env (ex_sched 0 []) 100 0 100 (saturated ex_prb_env 100 0) 3
       ([ex_ue_asks 2 1 0 0, ex_ue_asks 3 1 0 0], \<lambda>u. 0) (xs', g)
     \<and> (\<forall>a \<in> set xs'. \<forall>b \<in> set xs'. rank a - rank b = (real (g (ue_key b)) - real (g (ue_key a))) / 100)"
proof -
  let ?xs = "[ex_ue_asks 2 1 0 0, ex_ue_asks 3 1 0 0]"
  have "same_credit 100 (?xs, \<lambda>u. 0)" "\<forall>x \<in> set ?xs. snd (ue_key x) = 1" by (simp_all add: same_credit_def)
  from ex_rr_runs [OF this] obtain xs' g where
    r: "rr_run ex_prb_env (ex_sched 0 []) 100 0 100 (saturated ex_prb_env 100 0) 3 (?xs, \<lambda>u. 0) (xs', g)" by (metis surj_pair)
  have h: "distinct (map ue_key ?xs)" "\<forall>x \<in> set ?xs. rank x = 1" by simp_all
  show ?thesis using round_robin_credit [OF r ex_prb_plain(4) h] r by blast
qed

text \<open>In the first slot UE 3 asks for nothing; in the second it holds the carrier alone.\<close>

lemma ex_idle_slot:
  obtains zs g where "rr_run ex_prb_env (ex_sched 0 []) 100 0 100 (\<lambda>y. True) 1 ([ex_ue_asks 2 1 10000 0, ex_ue_asks 3 1 0 0], \<lambda>u. 0) (zs, g)"
    and "g (2, 1) = 100" and "g (3, 1) = 0" and "same_credit 100 (zs, g)" and "ue_key ` set zs = {(2, 1), (3, 1)}"
proof -
  let ?xs = "[ex_ue_asks 2 1 10000 0, ex_ue_asks 3 1 0 0]"
  have c: "same_credit 100 (?xs, \<lambda>u. 0)" by (simp add: same_credit_def)
  have sr: "list_all2 same_rank ?xs ?xs" by (simp add: same_rank_def)
  have z: "\<forall>y \<in> set ?xs. allocatedPRBCount y = 0" and y: "\<forall>y \<in> set ?xs. allocatedPRBCount y = 0 \<and> True" by simp_all
  obtain zs ps' where a: "allocate_list ex_prb_env (ex_sched 0 []) 100 0 ?xs (ex_prb_state False) = Inr (zs, ps')"
    using rr_slot_total [OF ex_prb_plain(4,1,2) z] by blast
  obtain ws where w: "mset ws = mset ?xs" "map ue_key zs = map ue_key ws" "same_credit 100 (zs, \<lambda>u. 0 + granted_to zs u)"
      "map (\<lambda>c. unat (allocatedPRBCount c)) zs = prb_shares (unat (100 :: u32)) (map (prb_demand ex_prb_env 0) ws)"
    by (rule rr_slot_credit [OF c sr ex_prb_plain(4) a ex_prb_plain(1,2) z ex_prb_plain(3)])
  have "ws = ?xs \<or> ws = rev ?xs"
  proof -
    have "length ws = Suc (Suc 0)" using mset_eq_length [OF w(1)] by simp
    then obtain x y where xy: "ws = [x, y]" by (auto simp: length_Suc_conv)
    have "{#x, y#} = {#ex_ue_asks 2 1 10000 0, ex_ue_asks 3 1 0 0#}" using w(1) xy by simp
    then show ?thesis using xy by (auto simp: add_eq_conv_ex)
  qed
  then have k: "map ue_key zs = [(2, 1), (3, 1)] \<and> map (\<lambda>c. unat (allocatedPRBCount c)) zs = [100, 0]
      \<or> map ue_key zs = [(3, 1), (2, 1)] \<and> map (\<lambda>c. unat (allocatedPRBCount c)) zs = [0, 100]" using w(2,4) by auto
  then have g: "granted_to zs (2, 1) = 100" "granted_to zs (3, 1) = 0" "ue_key ` set zs = {(2, 1), (3, 1)}"
    by (auto simp: granted_to_def map_eq_Cons_conv)
  have "rr_run ex_prb_env (ex_sched 0 []) 100 0 100 (\<lambda>y. True) 1 (?xs, \<lambda>u. 0) (zs, \<lambda>u. 0 + granted_to zs u)"
    unfolding One_nat_def by (rule rr_slot [OF rr_zero sr y ex_prb_plain(1,2,3) a])
  from that [OF this _ _ w(3) g(3)] g show thesis by simp
qed

lemma round_robin_starves_witness:
  "\<exists>xs g xs' g'. rr_run ex_prb_env (ex_sched 0 []) 100 0 100 (\<lambda>y. True) 1
       ([ex_ue_asks 2 1 10000 0, ex_ue_asks 3 1 0 0], \<lambda>u. 0) (xs, g)
     \<and> rr_run ex_prb_env (ex_sched 0 []) 100 0 100 (saturated ex_prb_env 100 0) 1 (xs, g) (xs', g')
     \<and> g (2, 1) = 100 \<and> g (3, 1) = 0 \<and> g' (2, 1) = 100 \<and> g' (3, 1) = 100"
proof -
  let ?xs = "[ex_ue_asks 2 1 10000 0, ex_ue_asks 3 1 0 0]"
  obtain zs g where r: "rr_run ex_prb_env (ex_sched 0 []) 100 0 100 (\<lambda>y. True) 1 (?xs, \<lambda>u. 0) (zs, g)"
      "g (2, 1) = 100" "g (3, 1) = 0" "same_credit 100 (zs, g)" "ue_key ` set zs = {(2, 1), (3, 1)}"
    by (rule ex_idle_slot)
  have "\<forall>x \<in> set zs. snd (ue_key x) = 1" using r(5) by (metis imageI insertE singletonD snd_conv)
  from ex_rr_runs [OF r(4) this] obtain zs' g' where
    s: "rr_run ex_prb_env (ex_sched 0 []) 100 0 100 (saturated ex_prb_env 100 0) 1 (zs, g) (zs', g')" by (metis surj_pair)
  have h: "distinct (map ue_key ?xs)" "\<forall>x \<in> set ?xs. rank x = 1" "(0 :: real) < 100" "(0 :: u32) < 100" "(3, 1) \<in> ue_key ` set zs"
      "\<forall>v \<in> ue_key ` set zs - {(3, 1)}. g (3, 1) + 1 * unat (100 :: u32) \<le> g v"
    using r by auto
  have "g' (3, 1) = 100 \<and> (\<forall>v \<in> ue_key ` set zs - {(3, 1)}. g' v = g v)"
    using round_robin_starves [OF r(1) s ex_prb_plain(4) h] r(3) by simp
  then have "g' (3, 1) = 100" "g' (2, 1) = 100" using r(2,5) by auto
  then show ?thesis using r(1-3) s by blast
qed

end
