(* ===== verification/Spec2Isabelle.thy ===== *)
theory Spec2Isabelle
  imports RLC_Buffer RLC_AM_Rx_Props RLC_AM_Rx_Run RLC_AM_Tx_Props RLC_UM_Props RLC_Core_Traffic Handover_Props SN_Handover_Props EPC_Props MAC_HARQ_Inv MAC_PRB_Props
begin

text \<open>
  A verification library for the LTE/NR stack of the NetSim network simulator. The C sources
  are under \<open>src/src/Simulation\<close>; all files named here are in its directory \<open>LTE_NR\<close>
  unless a path says otherwise.

  \<^bold>\<open>The program.\<close> The simulator runs one event after the other. An event names a device, an
  interface, a protocol layer and perhaps a packet (\<open>pstruEventDetails\<close>); the handler of the layer
  changes the state of that layer and schedules further events. The stack of a base station (gNB)
  and of a terminal (UE) is, from above: PDCP, which numbers the packets of the user plane,
  keeps copies until a discard timer fires and splits traffic between two cells in dual
  connectivity; RLC, which queues packets in one entity for each peer, mode and direction, cuts
  them to the grants MAC gives, retransmits in acknowledged mode and reassembles; MAC, which
  gives the grants, puts the packets of a slot into a transport block and sends it again when code
  blocks of it are lost (HARQ); the physical layer below. The radio resource control of a gNB decides from the
  measurement reports of its UEs when a UE changes its cell; the handover procedure moves the
  entities of PDCP and RLC from the old cell to the new one, and the core network (EPC) is
  told where the UE is now. A detector of the repository's own (\<open>LTENR_HANDOVER.c\<close>) is meant to
  report UEs that go back and forth between two cells.

  \<^bold>\<open>How the model is made.\<close> A C struct is a record with the fields of the source that the
  modelled code uses, an enumeration a datatype, \<open>UINT\<close> and \<open>NETSIM_ID\<close> are 32-bit words that wrap,
  \<open>double\<close> is \<open>real\<close> (rounding and infinities are not modelled). A function of the source is a definition of
  the same name, or a name in lower case where the definition is a part of the function (the
  body after a look-up, one turn of a loop). State is passed explicitly. What can go wrong in C
  is a value: a function returns \<open>fault + result\<close>, with the faults NullDeref, OutOfBounds,
  UseAfterFree, DivByZero, BadConversion (of a double to an integer type) and Diverges. What a handler does to other parts (packets handed to a layer,
  events scheduled, packets freed) is recorded, in order, in a trace. Functions of the kernel whose
  source is not in the repository (packet copying, linked lists, buffers, configuration) are
  fields of environment records and so parameters of every operation; what the code relies on
  are the assumptions of the locales below.

  \<^bold>\<open>Theories.\<close>
  \<^item> NetSim_Prelude: machine types, faults and their sequencing (\<open>rbind\<close>, \<open>deref\<close>), C loops over
    words (\<open>for_le\<close>, \<open>for_lt\<close>) and their reading as a fold, searching and removing in lists, and
    the list library \<open>List.h\<close> as a locale.
  \<^item> RLC_Types: packets, RLC headers, status PDUs (\<open>LTENR_RLCMSG.h\<close>, \<open>LTENR_RLCMSG.c\<close>,
    \<open>LTENR_Msg.h\<close>, of \<open>Include/Packet.h\<close> what RLC uses).
  \<^item> RLC_Buffer: \<open>LTENR_RLCBuffer.c\<close>, once on a store with pointers and once on sequences, with the
    refinement between the two.
  \<^item> RLC_Entity: the entity and its timers (\<open>LTENR_RLC.h\<close>).
  \<^item> RLC_AM_Rx, RLC_AM_Tx: the receiving and the sending half of \<open>LTENR_RLC_AM.c\<close>; RLC_UM:
    \<open>LTENR_RLC_UM.c\<close>; RLC_Core: \<open>LTENR_RLC.c\<close>, the entities of an interface, transparent mode and
    the entry points, which run the operations of the theories before. Their properties are in
    RLC_AM_Rx_Props, RLC_AM_Rx_Run (the life of a receiver, with the set of PDUs that have
    arrived beside it), RLC_AM_Tx_Props, RLC_UM_Props, RLC_Core_Props (association) and
    RLC_Core_Traffic (how packets and grants move through the whole sublayer).
  \<^item> PDCP: \<open>LTENR_PDCP.c\<close> and \<open>LTENR_PDCP.h\<close>; PDCP_Props: its properties; PDCP_Link: two PDCP
    sublayers with the RLC service between them.
  \<^item> Handover: the time-to-trigger matrix and the measurement report of \<open>LTENR_GNBRRC.c\<close>, the choice
    of a secondary cell of \<open>LTENR_AMF.c\<close> and \<open>LTENR_SN_HandOver.c\<close>, the messages between gNBs and the
    detector of \<open>LTENR_HANDOVER.c\<close>; Handover_Props: its properties.
  \<^item> EPC, EPC_Props: \<open>LTENR_EPC.c\<close>, and the choice of a cell of \<open>LTENR_NSA.c\<close>.
  \<^item> Handover_Exec: what a handover does to PDCP, RLC, the physical layer and the EPC
    (\<open>LTENR_NAS.c\<close>, \<open>LTENR_SN_HandOver.c\<close>, association of \<open>LTENR_PHY.c\<close>), composed of the
    definitions of those layers. Handover_Buffers and Handover_PDCP: the two transfers on maps
    from keys to entities, the latter also the life of a PDCP entity from association through
    handovers; Handover_Exec_Props and SN_Handover_Props: the whole procedures.
  \<^item> MAC_Tables: the tables of \<open>LTENR_AMCTable.h\<close> and the size of a transport block
    (\<open>LTENR_AMCTable.c\<close>); MAC_CodeBlocks: \<open>LTENR_CodeBlockSegmentation.c\<close>; MAC_Types: the data of MAC
    (\<open>LTENR_HARQ.h\<close>, \<open>LTENR_MAC.h\<close>, \<open>LTENR_Spectrum.h\<close>, of \<open>LTENR_PHY.h\<close> what MAC uses); MAC_HARQ:
    \<open>LTENR_HARQ.c\<close> and the outer loop link adaptation \<open>LTENR_OLLA.c\<close>. MAC_HARQ_Props: the life of a
    transport block; MAC_HARQ_Inv: the invariant of the HARQ data and what follows from it.
  \<^item> MAC_PRB: the scheduler \<open>LTENR_PRB.c\<close>, the data of carriers and slices (\<open>LTENR_Spectrum.h\<close>,
    \<open>LTENR_NetworkSlicing.h\<close>), the switch of bandwidth parts (\<open>LTENR_PHY.c\<close>); MAC_PRB_Props: its properties.

  \<^bold>\<open>State and operations.\<close> An RLC entity is \<open>LTENR_RLCENTITY\<close>; the state of the sublayer is the
  list of entities of each interface with the trace (\<open>rlc_state\<close>). The operations of a mode
  take and return an entity (\<open>LTENR_RLCAM_...\<close>, \<open>LTENR_RLC_UM_...\<close>), those of the sublayer
  find the entity by its key (peer, interface, mode, direction) and put it back. PDCP is built
  the same way (\<open>LTENR_PDCPENTITY\<close>, \<open>pdcp_state\<close>). The RRC of a gNB is \<open>LTENR_GNBRRC\<close> with the matrix as an
  association list in the order of the C list. The handover of a UE works on the record of the
  states of all layers (\<open>ho_exec_state\<close> and its parts in Handover_Exec). The MAC state of a gNB is the
  list of its UEs (\<open>MAC_ASSOCIATEDUEPHYINFO\<close>) with their HARQ entities, one for each carrier and direction;
  a pointer into the link adaptation data of a UE is a name (\<open>amc_ptr\<close>), since processes share it;
  random numbers are a sequence, of which the state counts how many were drawn (\<open>mac_io\<close>).

  \<^bold>\<open>What the lemmas show.\<close> For the buffers: the pointer programs refine lists, and no operation
  faults on a well-formed buffer. For acknowledged mode: which packets leave with a grant, what
  a status report names, given the PDUs that have arrived (\<open>am_rx_run\<close>, \<open>missing_of\<close>), and what it
  does at the sender, the invariant of the reception
  buffers, when an SDU is complete and goes up, and how missing SDUs get lost. For unacknowledged
  mode: segmentation and reassembly are inverse, a grant is not exceeded by the SDUs as they are queued,
  the reassembly window never moves. For the sublayer: association creates exactly the five entities of a pair, the grants
  and packets reach the right ones, a poll of a sender is answered. For PDCP: numbering, what
  a receiver makes of PDUs in any order (\<open>link_calls\<close>), the discard timer, the life of an entity
  (\<open>pdcp_life\<close>, a step relation with an invariant).
  For handover: a handover is never requested from a report, the trigger times of the matrix
  are those of the history of reports, the detector never reports anything; an executed handover moves
  every entity with all it holds (\<open>rlc_carries\<close> and \<open>pdcp_carries\<close> say field by field what that is), disconnects and connects the UE, and leaves the
  unacknowledged PDUs with the address of the old cell. For the EPC: how its register follows
  the handovers and where it sends packets. For MAC: code blocks hold the transport block,
  groups of code blocks are balanced, a transport block is delivered exactly when all its blocks have
  arrived and ends after as many transmissions as the limit allows, no operation of a slot reads past
  an array once its inputs are there (\<open>slot_inputs\<close>), and where the retransmission and the link adaptation do not do what they are meant to. For the
  scheduler: what it hands out in all, with and without slices; it sorts, it allocates as a reference allocation in the order of the ranks, round robin is fair
  to UEs that always have data and lets one that had none starve the others.

  \<^bold>\<open>Interfaces.\<close> list_library is the contract of \<open>List.h\<close>, buffer_library that of
  \<open>LTENR_Buffer.h\<close>, packet_api that of the header functions of the kernel, extended by
  packet_kernel with the copying of packets; rlc_environment joins packet_api and the lists of an entity,
  core_environment adds the lists of entities, core_kernel joins it with packet_kernel;
  pdcp_environment joins buffer_library and packet_api; handover_environment states what the
  measurements promise; segment_marking is the scan both receivers share. Each is interpreted on
  the concrete environment of its theory (\<open>plain_...\<close>), segment_marking on the scans of
  both modes; the witnesses run on these environments.

  \<^bold>\<open>Bounds.\<close> A loop over words runs with one unit of fuel more than its test can succeed
  (\<open>for_le_fuel\<close>, \<open>for_lt_fuel\<close>); \<open>for_le_upto\<close> and \<open>for_lt_below\<close> say that this is
  enough, except for a bound of the largest word, where the C loop does not end and the model
  gives Diverges. Loops over a buffer run with the length of the buffer and one more, since every
  turn takes an entry or stops; the properties of kind termination show that they return.

  \<^bold>\<open>Not modelled.\<close> Log files, tracing and console output. Rounding of doubles. The parts of the
  physical layer that compute radio propagation: the SINR of a cell is an argument of the handover
  model, the SINR of a layer and its block error rate are arguments of HARQ. The set-up of RRC connections, SDAP, the other messages of the
  AMF, SMF and UPF, mostly packet creation and socket input and output. The other protocol
  libraries of the simulator (routing, IP, TCP, other link layers), which are independent
  programs on the same kernel.
\<close>

end
